(* ===== verification/Prelude.thy ===== *)
theory Prelude
  imports Complex_Main "HOL-Library.AList"
begin

text \<open>
  Shared vocabulary of the development.

  \<^item> Python exceptions are values: \<open>'a res\<close> is \<open>py_error + 'a\<close>; \<open>bind_res\<close> sequences two
    computations and stops at the first raise; \<open>fold_res\<close> is a Python \<open>for\<close> loop whose body may raise.
  \<^item> A Python dict keeps insertion order; it is an association list with \<open>AList.update\<close> for
    \<open>d[k] = v\<close>, \<open>AList.delete\<close> for \<open>d.pop(k, None)\<close> and \<open>map_of\<close> for \<open>d.get(k)\<close>.
  \<^item> \<open>deque_append\<close> is \<open>collections.deque(maxlen=n).append\<close>.
  \<^item> Python floats are modelled by exact rationals (type \<open>rat\<close>): the arithmetic of prices, lots and
    money is exact, rounding happens only where the source calls \<open>round\<close>.
  \<^item> A timezone-aware datetime is the number of microseconds since the Unix epoch (type \<open>instant\<close>).
\<close>

section \<open>Named collections\<close>

named_theorems res_simps "evaluation of the error monad"
named_theorems dict_simps "laws of insertion-ordered dictionaries"

section \<open>Types\<close>

type_synonym money = rat
type_synonym price = rat
type_synonym lots = rat
type_synonym instant = int
type_synonym msc = int
type_synonym ('k, 'v) dict = "('k \<times> 'v) list"

datatype py_error =
    ValueError
  | KeyError
  | TypeError
  | RuntimeError
  | AttributeError
  | NotImplementedError
  | ZeroDivisionError
  | ClockNotInjectedError
  | ConnectionError

type_synonym 'a res = "py_error + 'a"

text \<open>Values of the \<open>Dict[str, Any]\<close> metadata bags that ride on fees and order results.\<close>

datatype pyval = PyNone | PyBool bool | PyInt int | PyFloat rat | PyStr string

section \<open>Exceptions as values\<close>

definition bind_res :: "'a res \<Rightarrow> ('a \<Rightarrow> 'b res) \<Rightarrow> 'b res" where
  "bind_res m f = (case m of Inl e \<Rightarrow> Inl e | Inr x \<Rightarrow> f x)"

fun fold_res :: "('a \<Rightarrow> 's \<Rightarrow> 's res) \<Rightarrow> 'a list \<Rightarrow> 's \<Rightarrow> 's res" where
  "fold_res f [] s = Inr s"
| "fold_res f (x # xs) s = bind_res (f x s) (fold_res f xs)"

lemma bind_res_simps [simp, res_simps]:
  "bind_res (Inl e) f = Inl e"
  "bind_res (Inr x) f = f x"
  by (simp_all add: bind_res_def)

lemma bind_res_Inr_iff [simp]:
  "bind_res m f = Inr y \<longleftrightarrow> (\<exists>x. m = Inr x \<and> f x = Inr y)"
  by (cases m) simp_all

lemma bind_res_assoc [simp]: "bind_res (bind_res m f) g = bind_res m (\<lambda>x. bind_res (f x) g)"
  by (cases m) simp_all

lemma bind_res_cong [fundef_cong]:
  "m = m' \<Longrightarrow> (\<And>x. m' = Inr x \<Longrightarrow> f x = g x) \<Longrightarrow> bind_res m f = bind_res m' g"
  by (cases m') simp_all

lemma fold_res_append:
  "fold_res f (xs @ ys) s = bind_res (fold_res f xs s) (fold_res f ys)"
proof (induction xs arbitrary: s)
  case (Cons x xs)
  then show ?case by (cases "f x s") simp_all
qed simp

text \<open>The rule for Python loops: an invariant of the body is an invariant of the loop.\<close>

lemma fold_res_inv:
  assumes "fold_res f xs s = Inr t" and "P s"
    and "\<And>x s t. x \<in> set xs \<Longrightarrow> P s \<Longrightarrow> f x s = Inr t \<Longrightarrow> P t"
  shows "P t"
  using assms
proof (induction xs arbitrary: s)
  case (Cons x xs)
  from Cons.prems(1) obtain u where u: "f x s = Inr u" "fold_res f xs u = Inr t" by auto
  have "P u" by (rule Cons.prems(3) [OF _ Cons.prems(2) u(1)]) simp
  from u(2) this show ?case
    by (rule Cons.IH) (use Cons.prems(3) in auto)
qed simp

lemma fold_res_cong [fundef_cong]:
  "xs = ys \<Longrightarrow> s = t \<Longrightarrow> (\<And>x s. x \<in> set ys \<Longrightarrow> f x s = g x s) \<Longrightarrow> fold_res f xs s = fold_res g ys t"
  by (induction xs arbitrary: ys s t) (auto intro!: bind_res_cong)

section \<open>Insertion-ordered dictionaries\<close>

abbreviation keys_of :: "('k, 'v) dict \<Rightarrow> 'k list" where
  "keys_of d \<equiv> map fst d"

abbreviation vals_of :: "('k, 'v) dict \<Rightarrow> 'v list" where
  "vals_of d \<equiv> map snd d"

definition lookup_key :: "('k, 'v) dict \<Rightarrow> 'k \<Rightarrow> 'v res" where
  "lookup_key d k = (case map_of d k of None \<Rightarrow> Inl KeyError | Some v \<Rightarrow> Inr v)"

lemma lookup_key_Inr [simp]: "lookup_key d k = Inr v \<longleftrightarrow> map_of d k = Some v"
  by (simp add: lookup_key_def split: option.splits)

definition get_default :: "'v \<Rightarrow> ('k, 'v) dict \<Rightarrow> 'k \<Rightarrow> 'v" where
  "get_default dflt d k = (case map_of d k of None \<Rightarrow> dflt | Some v \<Rightarrow> v)"

lemma get_default_update [dict_simps]:
  "get_default dflt (AList.update k v d) k' = (if k' = k then v else get_default dflt d k')"
  by (simp add: get_default_def update_conv')

lemma map_of_delete_dict [dict_simps]:
  "map_of (AList.delete k d) k' = (if k' = k then None else map_of d k')"
  by (simp add: delete_conv')

lemma map_of_update_dict [dict_simps]:
  "map_of (AList.update k v d) k' = (if k' = k then Some v else map_of d k')"
  by (simp add: update_conv')

lemma set_update_subset: "set (AList.update k v d) \<subseteq> insert (k, v) (set d)"
  by (induction d) auto

lemma set_update_dict:
  "distinct (keys_of d) \<Longrightarrow>
   set (AList.update k v d) = insert (k, v) {p \<in> set d. fst p \<noteq> k}"
proof (induction d)
  case (Cons p d)
  show ?case
  proof (cases "fst p = k")
    case True
    with Cons.prems have "\<And>q. q \<in> set d \<Longrightarrow> fst q \<noteq> k" by (metis distinct.simps(2) image_eqI list.map(2) list.set_map)
    with True show ?thesis by (cases p) force
  next
    case False
    with Cons show ?thesis by (cases p) force
  qed
qed simp

lemma set_delete_dict: "set (AList.delete k d) = {p \<in> set d. fst p \<noteq> k}"
  by (auto simp: AList.delete_eq)

lemma distinct_keys_update [intro]:
  "distinct (keys_of d) \<Longrightarrow> distinct (keys_of (AList.update k v d))"
  by (simp add: distinct_update)

lemma distinct_keys_delete [intro]:
  "distinct (keys_of d) \<Longrightarrow> distinct (keys_of (AList.delete k d))"
  by (simp add: distinct_delete)

text \<open>Summing over the values of a dictionary when one key is overwritten or removed.\<close>

lemma sum_list_dict_update:
  fixes f :: "'v \<Rightarrow> 'm::ab_group_add"
  assumes "distinct (keys_of d)" and "map_of d k = Some v"
  shows "(\<Sum>p\<leftarrow>AList.update k w d. f (snd p)) = (\<Sum>p\<leftarrow>d. f (snd p)) - f v + f w"
  using assms by (induction d) (auto simp: algebra_simps split: if_splits)

lemma delete_absent: "k \<notin> set (keys_of d) \<Longrightarrow> AList.delete k d = d"
  by (induction d) auto

lemma sum_list_dict_delete:
  fixes f :: "'v \<Rightarrow> 'm::ab_group_add"
  assumes "distinct (keys_of d)" and "map_of d k = Some v"
  shows "(\<Sum>p\<leftarrow>AList.delete k d. f (snd p)) = (\<Sum>p\<leftarrow>d. f (snd p)) - f v"
  using assms
proof (induction d)
  case (Cons p d)
  show ?case
  proof (cases "fst p = k")
    case True
    with Cons.prems have "AList.delete k d = d" "v = snd p" by (auto intro: delete_absent)
    with True show ?thesis by simp
  next
    case False
    with Cons show ?thesis by (cases p) (auto simp: algebra_simps)
  qed
qed simp

lemma sum_list_dict_insert:
  fixes f :: "'v \<Rightarrow> 'm::ab_group_add"
  shows "k \<notin> set (keys_of d) \<Longrightarrow>
    (\<Sum>p\<leftarrow>AList.update k w d. f (snd p)) = (\<Sum>p\<leftarrow>d. f (snd p)) + f w"
  by (induction d) (auto simp: algebra_simps)

lemma length_delete_dict:
  assumes "distinct (keys_of d)" and "map_of d k = Some v"
  shows "length (AList.delete k d) = length d - 1"
  using assms
proof (induction d)
  case (Cons p d)
  then show ?case
    by (cases "fst p = k"; cases d) (auto simp: delete_absent)
qed simp

text \<open>A loop over \<open>d.values()\<close> that mutates the visited objects in place and threads further state:
  keys and order stay, each value is replaced by what the body made of it.\<close>

fun traverse_dict :: "('v \<Rightarrow> 's \<Rightarrow> ('v \<times> 's) res) \<Rightarrow> ('k, 'v) dict \<Rightarrow> 's \<Rightarrow> (('k, 'v) dict \<times> 's) res" where
  "traverse_dict f [] s = Inr ([], s)"
| "traverse_dict f ((k, v) # d) s =
     bind_res (f v s) (\<lambda>(v', s'). bind_res (traverse_dict f d s') (\<lambda>(d', s''). Inr ((k, v') # d', s'')))"

lemma traverse_dict_keys:
  "traverse_dict f d s = Inr (d', s') \<Longrightarrow> keys_of d' = keys_of d"
  by (induction f d s arbitrary: d' s' rule: traverse_dict.induct) auto

lemma traverse_dict_rel:
  assumes "traverse_dict f d s = Inr (d', s')"
    and "\<And>v s v' s'. f v s = Inr (v', s') \<Longrightarrow> R v v'"
  shows "list_all2 (\<lambda>p q. fst q = fst p \<and> R (snd p) (snd q)) d d'"
  using assms by (induction f d s arbitrary: d' s' rule: traverse_dict.induct) fastforce+

lemma traverse_dict_state:
  assumes "traverse_dict f d s = Inr (d', s')" and "P s"
    and "\<And>v s v' s'. v \<in> set (vals_of d) \<Longrightarrow> P s \<Longrightarrow> f v s = Inr (v', s') \<Longrightarrow> P s'"
  shows "P s'"
  using assms
proof (induction f d s arbitrary: d' s' rule: traverse_dict.induct)
  case (2 f k v d s)
  from "2.prems"(1) obtain v1 s1 d1 where
    step: "f v s = Inr (v1, s1)" "traverse_dict f d s1 = Inr (d1, s')" by auto
  have "P s1" by (rule "2.prems"(3) [OF _ "2.prems"(2) step(1)]) simp
  show ?case
    by (rule "2.IH" [OF step(1) refl step(2) \<open>P s1\<close>]) (rule "2.prems"(3), auto)
qed simp

lemma dict_rel_lookup:
  "list_all2 (\<lambda>p q. fst q = fst p \<and> R (snd p) (snd q)) d d' \<Longrightarrow> map_of d' k = Some v' \<Longrightarrow>
   \<exists>v. map_of d k = Some v \<and> R v v'"
  by (induction d d' rule: list_all2_induct) (auto split: if_splits)

lemma dict_rel_lookup_fwd:
  "list_all2 (\<lambda>p q. fst q = fst p \<and> R (snd p) (snd q)) d d' \<Longrightarrow> map_of d k = Some v \<Longrightarrow>
   \<exists>v'. map_of d' k = Some v' \<and> R v v'"
  by (induction d d' rule: list_all2_induct) (auto split: if_splits)

lemma dict_rel_keys:
  "list_all2 (\<lambda>p q. fst q = fst p \<and> R (snd p) (snd q)) d d' \<Longrightarrow> keys_of d' = keys_of d"
  by (induction d d' rule: list_all2_induct) auto

section \<open>Bounded histories\<close>

text \<open>\<open>deque(maxlen=n)\<close>: appending to a full deque discards from the left; \<open>maxlen=None\<close> (here 0)
  keeps everything.\<close>

definition deque_append :: "nat \<Rightarrow> 'a list \<Rightarrow> 'a \<Rightarrow> 'a list" where
  "deque_append n xs x =
     (if n = 0 then xs @ [x] else drop (Suc (length xs) - n) (xs @ [x]))"

lemma deque_append_length: "n \<noteq> 0 \<Longrightarrow> length (deque_append n xs x) \<le> n"
  by (simp add: deque_append_def)

lemma deque_append_last: "deque_append n xs x \<noteq> [] \<and> last (deque_append n xs x) = x"
proof (cases "n = 0")
  case False
  then have "Suc (length xs) - n \<le> length xs" by simp
  with False show ?thesis by (simp add: deque_append_def)
qed (simp add: deque_append_def)

lemma deque_append_set: "set (deque_append n xs x) \<subseteq> insert x (set xs)"
  unfolding deque_append_def by (auto dest!: in_set_dropD)

lemma deque_append_room: "length xs < n \<Longrightarrow> deque_append n xs x = xs @ [x]"
  by (simp add: deque_append_def)

section \<open>Strings\<close>

text \<open>\<open>str.lower()\<close> on ASCII text and the decimal rendering of a counter in an f-string.\<close>

definition lower_char :: "char \<Rightarrow> char" where
  "lower_char ch = (let n = of_char ch :: nat in if 65 \<le> n \<and> n \<le> 90 then char_of (n + 32) else ch)"

definition lower_str :: "string \<Rightarrow> string" where
  "lower_str s = map lower_char s"

fun nat_str :: "nat \<Rightarrow> string" where
  "nat_str n = (if n < 10 then [char_of (48 + n)] else nat_str (n div 10) @ [char_of (48 + n mod 10)])"

declare nat_str.simps [simp del]

definition digit_val :: "char \<Rightarrow> nat" where
  "digit_val ch = of_char ch - 48"

definition str_nat :: "string \<Rightarrow> nat" where
  "str_nat s = foldl (\<lambda>v ch. 10 * v + digit_val ch) 0 s"

lemma digit_char: "d < 10 \<Longrightarrow> digit_val (char_of (48 + d)) = d"
  by (simp add: digit_val_def)

lemma digit_char_mod: "digit_val (char_of (48 + n mod 10)) = n mod 10"
  by (rule digit_char) simp

lemma str_nat_nat_str [simp]: "str_nat (nat_str n) = n"
proof (induction n rule: nat_str.induct)
  case (1 n)
  show ?case
  proof (cases "n < 10")
    case True
    then have "str_nat (nat_str n) = digit_val (char_of (48 + n))"
      by (simp add: nat_str.simps [of n] str_nat_def)
    with True show ?thesis by (simp only: digit_char)
  next
    case False
    with 1 have "str_nat (nat_str n) = 10 * (n div 10) + digit_val (char_of (48 + n mod 10))"
      by (simp add: nat_str.simps [of n] str_nat_def)
    then show ?thesis by (simp only: digit_char_mod) simp
  qed
qed

lemma nat_str_inject [simp]: "nat_str m = nat_str n \<longleftrightarrow> m = n"
  by (metis str_nat_nat_str)

lemma nat_str_no_underscore: "CHR ''_'' \<notin> set (nat_str n)"
proof (induction n rule: nat_str.induct)
  case (1 n)
  have "char_of (48 + d) \<noteq> CHR ''_''" if "d < 10" for d :: nat
  proof
    assume "char_of (48 + d) = CHR ''_''"
    then have "of_char (char_of (48 + d) :: char) = (of_char CHR ''_'' :: nat)" by simp
    with that show False by simp
  qed
  from this [of n] this [of "n mod 10"] 1 show ?case
    by (cases "n < 10") (auto simp: nat_str.simps [of n])
qed

text \<open>A decimal suffix after the last underscore determines the counter.\<close>

lemma underscore_suffix_inject:
  assumes "xs @ ''_'' @ nat_str m = ys @ ''_'' @ nat_str n"
  shows "m = n"
proof -
  have "takeWhile (\<lambda>c. c \<noteq> CHR ''_'') (rev (zs @ ''_'' @ nat_str k)) = rev (nat_str k)" for zs k
    using nat_str_no_underscore [of k] by (subst rev_append, subst rev_append, subst append_assoc, subst takeWhile_append2) auto
  with assms have "rev (nat_str m) = rev (nat_str n)" by metis
  then show ?thesis by simp
qed

section \<open>Machines and their invariants\<close>

text \<open>
  The interface every stateful component is verified through: an initial-state predicate, a step
  relation and an invariant. Its one client lemma is the induction over reachable states.
\<close>

inductive reachable :: "('s \<Rightarrow> bool) \<Rightarrow> ('s \<Rightarrow> 's \<Rightarrow> bool) \<Rightarrow> 's \<Rightarrow> bool"
  for init :: "'s \<Rightarrow> bool" and step :: "'s \<Rightarrow> 's \<Rightarrow> bool" where
  reach_init: "init s \<Longrightarrow> reachable init step s"
| reach_step: "reachable init step s \<Longrightarrow> step s t \<Longrightarrow> reachable init step t"

locale invariant_machine =
  fixes init :: "'s \<Rightarrow> bool"
    and step :: "'s \<Rightarrow> 's \<Rightarrow> bool"
    and inv :: "'s \<Rightarrow> bool"
  assumes inv_init: "init s \<Longrightarrow> inv s"
    and inv_step: "inv s \<Longrightarrow> step s t \<Longrightarrow> inv t"
begin

lemma inv_reachable: "reachable init step s \<Longrightarrow> inv s"
  by (induction rule: reachable.induct) (auto intro: inv_init inv_step)

lemma inv_from: "reachable (\<lambda>u. u = s) step t \<Longrightarrow> inv s \<Longrightarrow> inv t"
  by (induction rule: reachable.induct) (auto intro: inv_step)

end

text \<open>A component inside a larger machine: every step of the whole is a run of the component. The
  component's invariant then holds in every reachable state of the whole.\<close>

locale embedded_machine = invariant_machine init step inv
  for init :: "'c \<Rightarrow> bool" and step :: "'c \<Rightarrow> 'c \<Rightarrow> bool" and inv :: "'c \<Rightarrow> bool" +
  fixes whole_init :: "'s \<Rightarrow> bool"
    and whole_step :: "'s \<Rightarrow> 's \<Rightarrow> bool"
    and component :: "'s \<Rightarrow> 'c"
  assumes component_init: "whole_init s \<Longrightarrow> init (component s)"
    and component_step: "whole_step s t \<Longrightarrow> step\<^sup>*\<^sup>* (component s) (component t)"
begin

lemma component_reachable: "reachable whole_init whole_step s \<Longrightarrow> reachable init step (component s)"
proof (induction rule: reachable.induct)
  case (reach_init s)
  then show ?case by (intro reachable.reach_init component_init)
next
  case (reach_step s t)
  from component_step [OF reach_step.hyps(2)] reach_step.IH show ?case
    by (induction rule: rtranclp_induct) (auto intro: reachable.reach_step)
qed

lemma component_inv: "reachable whole_init whole_step s \<Longrightarrow> inv (component s)"
  by (intro inv_reachable component_reachable)

end

end
