(* ===== verification/Trading_Types.thy ===== *)
theory Trading_Types
  imports Prelude
begin

text \<open>
  The data model shared by all trading components: the enums and dataclasses of
  \<^verbatim>\<open>types/trading_env_types\<close>, \<^verbatim>\<open>types/portfolio_types\<close> and \<^verbatim>\<open>types/market_types\<close>.

  Encoding choices: an enum is a datatype whose constructors carry a short prefix where two enums
  share a member name; \<open>Optional[T]\<close> is \<open>T option\<close>; a dataclass is a record. The fields of
  \<open>PendingOrder\<close> that the source groups under ``For OPEN orders'' form the sub-record
  \<open>open_spec\<close>, absent for close orders. \<open>order_kwargs\<close>, a dict with five possible keys, is a record
  with one optional field per key. Human-readable message strings and log lines are not part of
  the model.
\<close>

section \<open>Enums\<close>

datatype order_type = OT_MARKET | OT_LIMIT | OT_STOP | OT_STOP_LIMIT | OT_TRAILING_STOP | OT_ICEBERG

datatype order_direction = LONG | SHORT

datatype order_side = BUY | SELL

datatype order_action = OA_OPEN | OA_CLOSE

datatype close_type = CT_FULL | CT_PARTIAL

datatype order_status =
  OS_PENDING | OS_SUBMITTED | OS_EXECUTED | OS_PARTIALLY_FILLED | OS_REJECTED | OS_CANCELLED | OS_EXPIRED

datatype fill_type = FT_MARKET | FT_LIMIT | FT_LIMIT_IMMEDIATE | FT_STOP | FT_STOP_LIMIT

datatype rejection_reason =
    INSUFFICIENT_MARGIN | INSUFFICIENT_FUNDS | INVALID_LOT_SIZE | SYMBOL_NOT_TRADEABLE
  | MARKET_CLOSED | RR_INVALID_PRICE | RR_ORDER_TYPE_NOT_SUPPORTED | BROKER_ERROR
  | REJECTION_COOLDOWN | STALE_MARKET_DATA

datatype mod_rejection =
    POSITION_NOT_FOUND | LIMIT_ORDER_NOT_FOUND | STOP_ORDER_NOT_FOUND | INVALID_SL_LEVEL
  | INVALID_TP_LEVEL | SL_TP_CROSS | MR_INVALID_PRICE | NO_CURRENT_PRICE | ORDER_NOT_CONFIRMED
  | OPERATION_BUSY | MR_ORDER_TYPE_NOT_SUPPORTED

datatype mod_status = MS_PENDING | MS_SUCCESS | MS_REJECTED

datatype entry_type = ET_MARKET | ET_LIMIT | ET_STOP | ET_STOP_LIMIT

datatype close_reason = CR_MANUAL | SL_TRIGGERED | TP_TRIGGERED | SCENARIO_END

datatype position_status = PS_OPEN | PS_CLOSED | PS_PARTIALLY_CLOSED

datatype pending_action = PA_OPEN | PA_CLOSE

datatype pending_outcome = PO_FILLED | PO_REJECTED | PO_TIMED_OUT | PO_FORCE_CLOSED

datatype pending_operation = OP_NONE | PENDING_SUBMIT | PENDING_MODIFY | PENDING_CANCEL

datatype fee_type = FEE_SPREAD | FEE_SWAP | FEE_COMMISSION | FEE_MAKER_TAKER

datatype fee_status = FEE_PENDING | FEE_APPLIED | FEE_DEFERRED

datatype swap_mode =
  SWAP_POINTS | SWAP_INTEREST_CURRENT | SWAP_INTEREST_OPEN | SWAP_PERCENTAGE | SWAP_NONE | SWAP_UNKNOWN

datatype pip_mode = FRACTIONAL_PIP | TICK

datatype executor_mode = SIMULATION | LIVE

text \<open>The two values of \<^verbatim>\<open>Union[float, None, _UnsetType]\<close> arguments: \<open>UNSET\<close> keeps the level,
  \<open>SetTo None\<close> removes it, \<open>SetTo (Some x)\<close> sets it.\<close>

datatype 'a update_arg = UNSET | SetTo 'a

fun merge_arg :: "'a \<Rightarrow> 'a update_arg \<Rightarrow> 'a" where
  "merge_arg cur UNSET = cur"
| "merge_arg cur (SetTo v) = v"

definition direction_to_side :: "order_direction \<Rightarrow> order_action \<Rightarrow> order_side" where
  "direction_to_side d a =
     (if d = LONG then (if a = OA_OPEN then BUY else SELL)
      else (if a = OA_OPEN then SELL else BUY))"

section \<open>Market data\<close>

record tick_data =
  tick_timestamp :: instant
  tick_symbol :: string
  bid :: price
  ask :: price
  tick_volume :: rat
  time_msc :: msc
  collected_msc :: msc
  is_clipped :: bool

definition mid :: "tick_data \<Rightarrow> price" where
  "mid t = (bid t + ask t) / 2"

record market_data_status =
  is_stale :: bool
  stale_since :: "instant option"
  seconds_since_last_tick :: rat
  reconnect_count :: int

definition fresh_status :: market_data_status where
  "fresh_status = \<lparr>is_stale = False, stale_since = None, seconds_since_last_tick = 0, reconnect_count = 0\<rparr>"

section \<open>Static broker data\<close>

record symbol_spec =
  spec_symbol :: string
  spec_description :: string
  volume_min :: lots
  volume_max :: lots
  volume_step :: lots
  volume_limit :: lots
  tick_size :: price
  spec_digits :: nat
  spec_contract_size :: rat
  base_currency :: string
  quote_currency :: string
  margin_currency :: string
  trade_allowed :: bool
  spec_swap_mode :: swap_mode
  swap_long :: rat
  swap_short :: rat
  swap_rollover3days :: int
  stops_level :: int
  freeze_level :: int

record order_capabilities =
  market_orders :: bool
  limit_orders :: bool
  stop_orders :: bool
  stop_limit_orders :: bool
  trailing_stop :: bool
  iceberg_orders :: bool
  hedging_allowed :: bool
  partial_fills_supported :: bool
  native_position_sl_tp :: bool
  trade_level_reporting :: bool

fun supports_order_type :: "order_capabilities \<Rightarrow> order_type \<Rightarrow> bool" where
  "supports_order_type c OT_MARKET = market_orders c"
| "supports_order_type c OT_LIMIT = limit_orders c"
| "supports_order_type c OT_STOP = stop_orders c"
| "supports_order_type c OT_STOP_LIMIT = stop_limit_orders c"
| "supports_order_type c OT_TRAILING_STOP = trailing_stop c"
| "supports_order_type c OT_ICEBERG = iceberg_orders c"

section \<open>Executions and submissions\<close>

record submission_metadata =
  tick_mid_price :: "price option"
  tick_time_msc :: "msc option"

definition no_submission :: submission_metadata where
  "no_submission = \<lparr>tick_mid_price = None, tick_time_msc = None\<rparr>"

record broker_trade =
  trade_id :: string
  parent_broker_ref :: string
  bt_order_id :: string
  bt_volume :: lots
  bt_price :: price
  bt_fee :: money
  fee_currency :: string
  bt_timestamp :: instant
  bt_side :: order_side
  bt_is_maker :: bool

section \<open>Orders\<close>

record open_order_request =
  rq_symbol :: string
  rq_order_type :: order_type
  rq_direction :: order_direction
  rq_lots :: lots
  rq_price :: "price option"
  rq_stop_price :: "price option"
  rq_stop_loss :: "price option"
  rq_take_profit :: "price option"
  rq_comment :: string

record order_result =
  or_order_id :: string
  or_status :: order_status
  executed_price :: "price option"
  executed_lots :: "lots option"
  execution_time :: "instant option"
  or_commission :: money
  or_swap :: money
  slippage_points :: rat
  or_rejection_reason :: "rejection_reason option"
  or_position_id :: "string option"
  or_action :: "order_action option"
  or_symbol :: "string option"
  or_direction :: "order_direction option"
  requested_lots :: "lots option"
  or_close_type :: "close_type option"
  or_submission :: submission_metadata
  or_metadata :: "(string, pyval) dict"

definition blank_result :: "string \<Rightarrow> order_status \<Rightarrow> order_result" where
  "blank_result oid st =
     \<lparr>or_order_id = oid, or_status = st, executed_price = None, executed_lots = None,
      execution_time = None, or_commission = 0, or_swap = 0, slippage_points = 0,
      or_rejection_reason = None, or_position_id = None, or_action = None, or_symbol = None,
      or_direction = None, requested_lots = None, or_close_type = None,
      or_submission = no_submission, or_metadata = []\<rparr>"

definition create_rejection_result :: "string \<Rightarrow> rejection_reason \<Rightarrow> order_result" where
  "create_rejection_result oid reason =
     (blank_result oid OS_REJECTED)\<lparr>or_rejection_reason := Some reason\<rparr>"

definition is_success :: "order_result \<Rightarrow> bool" where
  "is_success r = (or_status r = OS_EXECUTED \<or> or_status r = OS_PARTIALLY_FILLED)"

definition is_rejected :: "order_result \<Rightarrow> bool" where
  "is_rejected r = (or_status r = OS_REJECTED)"

record modification_result =
  mr_success :: bool
  mr_rejection_reason :: "mod_rejection option"
  mr_status :: mod_status
  mr_order_id :: "string option"

definition mod_rejected :: "mod_rejection \<Rightarrow> modification_result" where
  "mod_rejected r = \<lparr>mr_success = False, mr_rejection_reason = Some r, mr_status = MS_SUCCESS, mr_order_id = None\<rparr>"

definition mod_success :: modification_result where
  "mod_success = \<lparr>mr_success = True, mr_rejection_reason = None, mr_status = MS_SUCCESS, mr_order_id = None\<rparr>"

definition mod_pending :: "string \<Rightarrow> modification_result" where
  "mod_pending oid = \<lparr>mr_success = True, mr_rejection_reason = None, mr_status = MS_PENDING, mr_order_id = Some oid\<rparr>"

section \<open>Pending orders\<close>

record modification_request =
  new_price :: "price option"
  new_limit_price :: "price option"
  new_stop_loss :: "price option"
  new_take_profit :: "price option"
  mod_submitted_at :: "instant option"
  apply_at_msc :: "msc option"

record pending_order_timing =
  placed_at_msc :: "msc option"
  broker_fill_msc :: "msc option"
  submitted_at :: "instant option"
  timeout_at :: "instant option"

record pending_execution_state =
  in_flight_operation :: pending_operation
  pending_modification :: "modification_request option"
  cancel_apply_at_msc :: "msc option"
  cancel_requested :: bool
  in_flight_query :: bool
  last_polled_at_ms :: rat

definition steady_state :: pending_execution_state where
  "steady_state = \<lparr>in_flight_operation = OP_NONE, pending_modification = None, cancel_apply_at_msc = None,
     cancel_requested = False, in_flight_query = False, last_polled_at_ms = 0\<rparr>"

record pending_order_fills =
  fill_trades :: "broker_trade list"
  cumulative_filled_lots :: lots
  cumulative_fee :: money
  cumulative_avg_price :: price

definition no_fills :: pending_order_fills where
  "no_fills = \<lparr>fill_trades = [], cumulative_filled_lots = 0, cumulative_fee = 0, cumulative_avg_price = 0\<rparr>"

definition append_trade :: "pending_order_fills \<Rightarrow> broker_trade \<Rightarrow> pending_order_fills" where
  "append_trade f t =
     (let ts = fill_trades f @ [t];
          vol = sum_list (map bt_volume ts);
          f' = f\<lparr>fill_trades := ts, cumulative_filled_lots := vol,
                 cumulative_fee := sum_list (map bt_fee ts)\<rparr>
      in if vol > 0
         then f'\<lparr>cumulative_avg_price := sum_list (map (\<lambda>t. bt_volume t * bt_price t) ts) / vol\<rparr>
         else f')"

record order_kwargs =
  kw_stop_loss :: "price option"
  kw_take_profit :: "price option"
  kw_comment :: "string option"
  kw_limit_price :: "price option"
  kw_from_stop_limit :: bool

record open_spec =
  os_symbol :: string
  os_direction :: order_direction
  os_lots :: lots
  os_entry_price :: price
  os_entry_time :: instant
  os_kwargs :: order_kwargs

record pending_order =
  pending_order_id :: string
  po_order_action :: pending_action
  po_order_type :: "order_type option"
  po_broker_ref :: "string option"
  po_open :: "open_spec option"
  po_close_lots :: "lots option"
  timing :: pending_order_timing
  execution_state :: pending_execution_state
  fills :: pending_order_fills
  submission :: submission_metadata

definition no_timing :: pending_order_timing where
  "no_timing = \<lparr>placed_at_msc = None, broker_fill_msc = None, submitted_at = None, timeout_at = None\<rparr>"

section \<open>Decision events\<close>

datatype session_end_severity = SEV_NORMAL | SEV_EMERGENCY

datatype decision_event =
    OrderCancelledEvent string "order_direction option" instant
  | PartialCloseEvent string order_direction lots lots price order_result instant
  | OrderFilledEvent string "string option" order_direction "price option" "lots option" order_result instant
  | OrderRejectedEvent string order_direction "rejection_reason option" order_result instant
  | SessionEndEvent string session_end_severity "instant option"

section \<open>Account views\<close>

record account_info =
  ai_balance :: money
  ai_equity :: money
  ai_margin_used :: money
  ai_free_margin :: money
  ai_margin_level :: rat
  ai_open_positions :: nat
  ai_total_lots :: lots
  ai_currency :: string
  ai_leverage :: int
  ai_balances :: "(string, money) dict option"

record execution_stats =
  st_orders_sent :: int
  st_orders_executed :: int
  st_orders_rejected :: int
  st_sl_tp_triggered :: int

record cost_breakdown =
  total_spread_cost :: money
  total_commission :: money
  total_swap :: money
  maker_fee :: money
  taker_fee :: money
  total_fees :: money
  cost_currency :: string

definition new_cost_breakdown :: "string \<Rightarrow> cost_breakdown" where
  "new_cost_breakdown cur = \<lparr>total_spread_cost = 0, total_commission = 0, total_swap = 0,
     maker_fee = 0, taker_fee = 0, total_fees = 0, cost_currency = cur\<rparr>"

section \<open>Facts about the data model\<close>

text \<open>
  The cumulative aggregates cached on a pending order agree with its execution list whenever every
  execution went through \<open>append_trade\<close>.
\<close>

definition fills_consistent :: "pending_order_fills \<Rightarrow> bool" where
  "fills_consistent f \<longleftrightarrow>
     cumulative_filled_lots f = sum_list (map bt_volume (fill_trades f)) \<and>
     cumulative_fee f = sum_list (map bt_fee (fill_trades f)) \<and>
     (cumulative_filled_lots f > 0 \<longrightarrow>
       cumulative_avg_price f * cumulative_filled_lots f =
         sum_list (map (\<lambda>t. bt_volume t * bt_price t) (fill_trades f)))"

lemma fills_consistent_none: "fills_consistent no_fills"
  by (simp add: fills_consistent_def no_fills_def)

lemma fills_consistent_append: "fills_consistent (append_trade f t)"
  by (auto simp: fills_consistent_def append_trade_def Let_def)

lemma fill_trades_append [simp]: "fill_trades (append_trade f t) = fill_trades f @ [t]"
  by (simp add: append_trade_def Let_def)

lemma direction_to_side_opposite:
  "direction_to_side d OA_OPEN \<noteq> direction_to_side d OA_CLOSE"
  by (cases d) (simp_all add: direction_to_side_def)

lemma create_rejection_result_simps [simp]:
  "or_status (create_rejection_result oid r) = OS_REJECTED"
  "or_order_id (create_rejection_result oid r) = oid"
  "or_rejection_reason (create_rejection_result oid r) = Some r"
  "or_action (create_rejection_result oid r) = None"
  by (simp_all add: create_rejection_result_def blank_result_def)

end
