(* ===== verification/Market_Calendar.thy ===== *)
theory Market_Calendar
  imports Trading_Types
begin

text \<open>
  The weekend and swap-rollover calendar: \<^verbatim>\<open>utils/market_calendar.py\<close> and the time helpers of
  \<^verbatim>\<open>utils/time_utils.py\<close>. Instants are UTC microseconds, a \<open>date\<close> is its day number since the epoch.
  The IANA timezone database behind \<open>ZoneInfo\<close> is a parameter: \<open>ro_utc_offset\<close> gives the UTC offset
  of a local wall-clock reading. What the code relies on is stated as the predicates
  \<open>offset_bounded\<close> (Python only accepts offsets strictly within 24 hours) and \<open>rollover_ordered\<close>
  (a later calendar day rolls over later).

  Main results: the rollover enumeration finds exactly the crossings of the window despite its
  one-day padding, is chronological, and splits at any intermediate instant, so accrual does not
  depend on how often it is evaluated; a week between two rollovers books seven swap days.
\<close>

section \<open>Definitions\<close>

definition day_usec :: int where "day_usec = 86400000000"
definition hour_usec :: int where "hour_usec = 3600000000"
definition minute_usec :: int where "minute_usec = 60000000"

definition date_of :: "instant \<Rightarrow> int" where
  "date_of t = t div day_usec"

text \<open>\<open>date.weekday()\<close>: Monday is 0. Day 0 of the epoch is a Thursday.\<close>

definition weekday :: "int \<Rightarrow> int" where
  "weekday d = (d + 3) mod 7"

definition weekday_at :: "instant \<Rightarrow> int" where
  "weekday_at t = weekday (date_of t)"

definition hour_of :: "instant \<Rightarrow> int" where
  "hour_of t = (t mod day_usec) div hour_usec"

text \<open>\<open>timestamp.replace(hour=h, minute=0, second=0, microsecond=0)\<close>\<close>

definition replace_hour :: "instant \<Rightarrow> int \<Rightarrow> instant" where
  "replace_hour t h = date_of t * day_usec + h * hour_usec"

definition mt5_weekday_to_python :: "int \<Rightarrow> int" where
  "mt5_weekday_to_python w = (w - 1) mod 7"

record swap_rollover_config =
  ro_hour :: int
  ro_minute :: int
  ro_utc_offset :: "int \<Rightarrow> int"

definition local_time_to_utc :: "swap_rollover_config \<Rightarrow> int \<Rightarrow> instant" where
  "local_time_to_utc c d =
     (let local = d * day_usec + ro_hour c * hour_usec + ro_minute c * minute_usec
      in local - ro_utc_offset c local)"

definition is_market_open :: "instant \<Rightarrow> bool" where
  "is_market_open t = (0 \<le> weekday_at t \<and> weekday_at t \<le> 4)"

text \<open>Python's \<open>while current <= last: ...; current += 1 day\<close> over dates visits \<open>[current..last]\<close>.\<close>

definition get_trading_days :: "instant \<Rightarrow> instant \<Rightarrow> int res" where
  "get_trading_days start stop =
     (if start > stop then Inl ValueError
      else Inr (int (length (filter (\<lambda>d. weekday d \<le> 4) [date_of start..date_of stop]))))"

lemma date_of_prev_day: "date_of (t - day_usec) = date_of t - 1"
  by (simp add: date_of_def day_usec_def)

lemma weekday_at_prev_day:
  assumes "5 \<le> weekday_at t"
  shows "weekday_at (t - day_usec) = weekday_at t - 1"
proof -
  have "(date_of t + 3 - 1) mod 7 = ((date_of t + 3) mod 7 - 1) mod 7"
    by (simp only: mod_diff_left_eq)
  also have "\<dots> = (date_of t + 3) mod 7 - 1"
    using assms by (intro mod_pos_pos_trivial) (simp_all add: weekday_at_def weekday_def)
  finally show ?thesis
    by (simp add: weekday_at_def weekday_def date_of_prev_day algebra_simps)
qed

function skip_weekend_back :: "instant \<Rightarrow> instant" where
  "skip_weekend_back t = (if weekday_at t \<ge> 5 then skip_weekend_back (t - day_usec) else t)"
  by pat_completeness auto
termination
  by (relation "measure (\<lambda>t. nat (weekday_at t))")
     (auto simp: weekday_at_prev_day)

definition get_previous_trading_day :: "instant \<Rightarrow> instant" where
  "get_previous_trading_day t = skip_weekend_back (t - day_usec)"

definition iter_swap_rollovers ::
  "instant \<Rightarrow> instant \<Rightarrow> swap_rollover_config \<Rightarrow> int \<Rightarrow> (instant \<times> int) list" where
  "iter_swap_rollovers start stop c triple =
     (if start \<ge> stop then []
      else map (\<lambda>d. (local_time_to_utc c d, if weekday d = triple then 3 else 1))
             (filter (\<lambda>d. weekday d \<le> 4 \<and> start < local_time_to_utc c d \<and> local_time_to_utc c d \<le> stop)
               [date_of (start - day_usec)..date_of (stop + day_usec)]))"

fun scan_rollover :: "nat \<Rightarrow> int \<Rightarrow> instant \<Rightarrow> swap_rollover_config \<Rightarrow> int \<Rightarrow> (instant \<times> int) res" where
  "scan_rollover 0 d after c triple = Inl ValueError"
| "scan_rollover (Suc n) d after c triple =
     (if weekday d \<le> 4 \<and> local_time_to_utc c d > after
      then Inr (local_time_to_utc c d, if weekday d = triple then 3 else 1)
      else scan_rollover n (d + 1) after c triple)"

definition next_swap_rollover :: "instant \<Rightarrow> swap_rollover_config \<Rightarrow> int \<Rightarrow> (instant \<times> int) res" where
  "next_swap_rollover after c triple = scan_rollover 8 (date_of after) after c triple"

declare skip_weekend_back.simps [simp del]

definition is_in_weekend_closure :: "instant \<Rightarrow> int \<Rightarrow> int \<Rightarrow> bool" where
  "is_in_weekend_closure t fri_hour sun_hour =
     (if weekday_at t = 4 \<and> hour_of t \<ge> fri_hour then True
      else if weekday_at t = 5 then True
      else if weekday_at t = 6 \<and> hour_of t < sun_hour then True
      else False)"

definition get_weekend_end :: "instant \<Rightarrow> int \<Rightarrow> instant" where
  "get_weekend_end t sun_hour =
     (let days_to_sunday = (if weekday_at t = 4 then 2 else if weekday_at t = 5 then 1 else 0)
      in replace_hour (t + days_to_sunday * day_usec) sun_hour)"

definition get_next_friday_close :: "instant \<Rightarrow> int \<Rightarrow> instant" where
  "get_next_friday_close t fri_hour =
     (if weekday_at t = 4 then replace_hour t fri_hour
      else replace_hour (t + ((4 - weekday_at t) mod 7) * day_usec) fri_hour)"

definition next_market_close :: "instant \<Rightarrow> int \<Rightarrow> instant" where
  "next_market_close after fri_hour =
     (let close = get_next_friday_close after fri_hour
      in if close \<le> after then close + 7 * day_usec else close)"

section \<open>Days and weekdays\<close>

lemma weekday_range [simp]: "0 \<le> weekday d" "weekday d < 7"
  by (simp_all add: weekday_def)

lemma weekday_add_7 [simp]: "weekday (d + 7) = weekday d"
proof -
  have "d + 7 + 3 = (d + 3) + 7" by simp
  then show ?thesis unfolding weekday_def by (simp only: mod_add_self2)
qed

lemma date_of_le: "t \<le> u \<Longrightarrow> date_of t \<le> date_of u"
  by (simp add: date_of_def zdiv_mono1 day_usec_def)

lemma date_of_bounds: "date_of t * day_usec \<le> t" "t < (date_of t + 1) * day_usec"
proof -
  have "t = date_of t * day_usec + t mod day_usec" "0 \<le> t mod day_usec" "t mod day_usec < day_usec"
    by (simp_all add: date_of_def day_usec_def)
  then show "date_of t * day_usec \<le> t" "t < (date_of t + 1) * day_usec"
    by (simp_all add: algebra_simps)
qed

lemma date_of_add_days [simp]: "date_of (t + k * day_usec) = date_of t + k"
  by (simp add: date_of_def day_usec_def)

lemma date_of_add_day [simp]: "date_of (t + day_usec) = date_of t + 1"
  using date_of_add_days [of t 1] by simp

lemma date_of_replace_hour:
  "0 \<le> h \<Longrightarrow> h < 24 \<Longrightarrow> date_of (replace_hour t h) = date_of t"
  by (simp add: replace_hour_def date_of_def day_usec_def hour_usec_def)

lemma mt5_weekday_examples:
  "mt5_weekday_to_python 0 = 6" "mt5_weekday_to_python 3 = 2" "mt5_weekday_to_python 6 = 5"
  by (simp_all add: mt5_weekday_to_python_def)

lemma mt5_weekday_bij: "0 \<le> w \<Longrightarrow> w \<le> 6 \<Longrightarrow> (mt5_weekday_to_python w + 1) mod 7 = w mod 7"
  by (simp add: mt5_weekday_to_python_def mod_simps)

lemma get_previous_trading_day_open: "is_market_open (get_previous_trading_day t)"
proof -
  have "weekday_at (skip_weekend_back u) < 5" for u
    by (induction u rule: skip_weekend_back.induct) (subst skip_weekend_back.simps, simp)
  from this [of "t - day_usec"] show ?thesis
    by (simp add: is_market_open_def get_previous_trading_day_def weekday_at_def)
qed

section \<open>Hypotheses on the timezone parameter\<close>

definition valid_rollover :: "swap_rollover_config \<Rightarrow> bool" where
  "valid_rollover c \<longleftrightarrow> 0 \<le> ro_hour c \<and> ro_hour c < 24 \<and> 0 \<le> ro_minute c \<and> ro_minute c < 60"

definition offset_bounded :: "swap_rollover_config \<Rightarrow> bool" where
  "offset_bounded c \<longleftrightarrow> (\<forall>l. - day_usec < ro_utc_offset c l \<and> ro_utc_offset c l < day_usec)"

definition rollover_ordered :: "swap_rollover_config \<Rightarrow> bool" where
  "rollover_ordered c \<longleftrightarrow> (\<forall>d e. d < e \<longrightarrow> local_time_to_utc c d < local_time_to_utc c e)"

lemma rollover_day_bounds:
  assumes "valid_rollover c" and "offset_bounded c"
  shows "(d - 1) * day_usec < local_time_to_utc c d" "local_time_to_utc c d < (d + 2) * day_usec"
proof -
  let ?l = "d * day_usec + ro_hour c * hour_usec + ro_minute c * minute_usec"
  from assms(2) have o: "- day_usec < ro_utc_offset c ?l" "ro_utc_offset c ?l < day_usec"
    by (simp_all add: offset_bounded_def)
  from assms(1) have "d * day_usec \<le> ?l" "?l < (d + 1) * day_usec"
    by (simp_all add: valid_rollover_def hour_usec_def minute_usec_def day_usec_def)
  with o show "(d - 1) * day_usec < local_time_to_utc c d" "local_time_to_utc c d < (d + 2) * day_usec"
    by (simp_all add: local_time_to_utc_def Let_def algebra_simps)
qed

text \<open>The padding of one day on each side loses no crossing.\<close>

lemma rollover_in_padding:
  assumes "valid_rollover c" "offset_bounded c"
    and "start < local_time_to_utc c d" "local_time_to_utc c d \<le> stop"
  shows "date_of start - 1 \<le> d \<and> d \<le> date_of stop + 1"
proof -
  note b = rollover_day_bounds [OF assms(1,2), of d]
  from b(2) assms(3) date_of_bounds(1) [of start]
  have "date_of start * day_usec < (d + 2) * day_usec" by linarith
  then have "date_of start < d + 2" by (simp add: day_usec_def)
  moreover from b(1) assms(4) date_of_bounds(2) [of stop]
  have "(d - 1) * day_usec < (date_of stop + 1) * day_usec" by linarith
  then have "d - 1 < date_of stop + 1" by (simp add: day_usec_def)
  ultimately show ?thesis by simp
qed

section \<open>Filtering a range of days\<close>

lemma filter_upto_extend:
  assumes "A \<le> a" "b \<le> B" and "\<And>d. P d \<Longrightarrow> a \<le> d \<and> d \<le> b"
  shows "filter P [a..b] = filter P [A..B]"
proof (cases "a \<le> b")
  case True
  with assms(1,2) have "[A..B] = [A..a - 1] @ [a..b] @ [b + 1..B]"
    using upto_split1 [of A a B] upto_split2 [of a b B] by simp
  moreover have "filter P [A..a - 1] = []" "filter P [b + 1..B] = []"
    using assms(3) by (force simp: filter_empty_conv)+
  ultimately show ?thesis by simp
next
  case False
  with assms(3) have "\<not> P d" for d by force
  then show ?thesis by simp
qed

lemma filter_window_split:
  fixes l :: "'a \<Rightarrow> 'b::linorder"
  assumes "sorted_wrt (\<lambda>x y. l x < l y) xs" and "s \<le> m" "m \<le> u"
  shows "filter (\<lambda>d. Q d \<and> s < l d \<and> l d \<le> u) xs =
         filter (\<lambda>d. Q d \<and> s < l d \<and> l d \<le> m) xs @ filter (\<lambda>d. Q d \<and> m < l d \<and> l d \<le> u) xs"
  using assms(1)
proof (induction xs)
  case (Cons x xs)
  show ?case
  proof (cases "l x \<le> m")
    case True
    with Cons assms(2,3) show ?thesis by auto
  next
    case False
    with Cons.prems have "filter (\<lambda>d. Q d \<and> s < l d \<and> l d \<le> m) (x # xs) = []"
      by (force simp: filter_empty_conv)
    moreover from False Cons.prems assms(2) have
      "filter (\<lambda>d. Q d \<and> s < l d \<and> l d \<le> u) (x # xs) = filter (\<lambda>d. Q d \<and> m < l d \<and> l d \<le> u) (x # xs)"
      by (intro filter_cong) force+
    ultimately show ?thesis by simp
  qed
qed simp

lemma sorted_wrt_upto: "sorted_wrt (<) [a..b]"
  by (simp add: strict_sorted_iff)

section \<open>The rollover enumeration\<close>

text \<open>The crossings over an explicit range of days, the form in which two enumerations compare.\<close>

definition rollovers_on :: "int list \<Rightarrow> instant \<Rightarrow> instant \<Rightarrow> swap_rollover_config \<Rightarrow> int \<Rightarrow> (instant \<times> int) list" where
  "rollovers_on ds start stop c triple =
     map (\<lambda>d. (local_time_to_utc c d, if weekday d = triple then 3 else 1))
       (filter (\<lambda>d. weekday d \<le> 4 \<and> start < local_time_to_utc c d \<and> local_time_to_utc c d \<le> stop) ds)"

lemma iter_swap_rollovers_on:
  assumes "valid_rollover c" "offset_bounded c" and "A < date_of start" "date_of stop < B"
  shows "iter_swap_rollovers start stop c triple = rollovers_on [A..B] start stop c triple"
proof (cases "start \<ge> stop")
  case True
  then have "\<not> (start < t \<and> t \<le> stop)" for t by linarith
  then have "rollovers_on [A..B] start stop c triple = []"
    by (auto simp: rollovers_on_def filter_empty_conv)
  with True show ?thesis by (simp add: iter_swap_rollovers_def)
next
  case False
  have "filter (\<lambda>d. weekday d \<le> 4 \<and> start < local_time_to_utc c d \<and> local_time_to_utc c d \<le> stop)
          [date_of start - 1..date_of stop + 1] =
        filter (\<lambda>d. weekday d \<le> 4 \<and> start < local_time_to_utc c d \<and> local_time_to_utc c d \<le> stop) [A..B]"
    by (rule filter_upto_extend) (use assms rollover_in_padding [OF assms(1,2)] in auto)
  with False show ?thesis by (simp add: iter_swap_rollovers_def rollovers_on_def date_of_prev_day)
qed

lemma iter_swap_rollovers_set:
  assumes "valid_rollover c" "offset_bounded c"
  shows "set (iter_swap_rollovers start stop c triple) =
    {(local_time_to_utc c d, if weekday d = triple then 3 else 1) |d.
       weekday d \<le> 4 \<and> start < local_time_to_utc c d \<and> local_time_to_utc c d \<le> stop}"
proof -
  have "d \<in> set [date_of start - 1..date_of stop + 1]"
    if "start < local_time_to_utc c d" "local_time_to_utc c d \<le> stop" for d
    using rollover_in_padding [OF assms that] by simp
  then show ?thesis
    unfolding iter_swap_rollovers_def by (auto simp: image_iff date_of_prev_day)
qed

lemma rollover_days_sorted:
  "rollover_ordered c \<Longrightarrow>
   sorted_wrt (\<lambda>d e. local_time_to_utc c d < local_time_to_utc c e) [a..b]"
  by (rule sorted_wrt_mono_rel [OF _ sorted_wrt_upto]) (simp add: rollover_ordered_def)

lemma iter_swap_rollovers_sorted:
  assumes "rollover_ordered c"
  shows "sorted_wrt (<) (map fst (iter_swap_rollovers start stop c triple))"
proof -
  have "sorted_wrt (\<lambda>d e. local_time_to_utc c d < local_time_to_utc c e)
     (filter P [date_of (start - day_usec)..date_of (stop + day_usec)])" for P
    by (rule sorted_wrt_filter) (rule rollover_days_sorted [OF assms])
  then show ?thesis by (simp add: iter_swap_rollovers_def sorted_wrt_map comp_def)
qed

lemma iter_swap_rollovers_split:
  assumes "valid_rollover c" "offset_bounded c" "rollover_ordered c" and "s \<le> m" "m \<le> e"
  shows "iter_swap_rollovers s e c triple =
         iter_swap_rollovers s m c triple @ iter_swap_rollovers m e c triple"
proof -
  let ?A = "date_of s - 1" and ?B = "date_of e + 1"
  have d: "date_of s \<le> date_of m" "date_of m \<le> date_of e"
    using assms(4,5) by (auto intro: date_of_le)
  have "rollovers_on [?A..?B] s e c triple =
        rollovers_on [?A..?B] s m c triple @ rollovers_on [?A..?B] m e c triple"
    unfolding rollovers_on_def map_append [symmetric]
    by (subst filter_window_split [OF rollover_days_sorted [OF assms(3)] assms(4,5)]) simp
  with d show ?thesis
    by (simp add: iter_swap_rollovers_on [OF assms(1,2), where A = ?A and B = ?B])
qed

section \<open>Looking ahead\<close>

lemma next_market_close_after:
  assumes "0 \<le> h" "h < 24"
  shows "after < next_market_close after h \<and> weekday_at (next_market_close after h) = 4
         \<and> next_market_close after h - after \<le> 7 * day_usec"
proof -
  define k where "k = (4 - weekday_at after) mod 7"
  have k: "0 \<le> k" "k < 7" by (simp_all add: k_def)
  have fc: "get_next_friday_close after h = replace_hour (after + k * day_usec) h"
    by (simp add: get_next_friday_close_def k_def)
  have dc: "date_of (get_next_friday_close after h) = date_of after + k"
    using assms by (simp add: fc date_of_replace_hour)
  have wd: "weekday (date_of after + k) = 4"
  proof -
    have "(date_of after + k + 3) mod 7 = ((date_of after + 3) + (4 - (date_of after + 3) mod 7)) mod 7"
      using mod_add_right_eq [of "date_of after + 3" "4 - (date_of after + 3) mod 7" 7]
      unfolding k_def weekday_at_def weekday_def by (simp only: add.assoc add.commute [of 3])
    also have "\<dots> = 4" by (simp only: mod_diff_right_eq add_diff_eq mod_add_right_eq) simp
    finally show ?thesis by (simp add: weekday_def)
  qed
  have val: "get_next_friday_close after h = (date_of after + k) * day_usec + h * hour_usec"
    by (simp add: fc replace_hour_def)
  have hb: "0 \<le> h * hour_usec" "h * hour_usec < day_usec"
    using assms by (simp_all add: hour_usec_def day_usec_def)
  have late: "get_next_friday_close after h < after + 7 * day_usec + day_usec"
    using date_of_bounds(1) [of after] hb k by (simp add: val day_usec_def)
  have up: "get_next_friday_close after h \<le> after + 7 * day_usec"
  proof -
    have "k \<le> 6" using k by simp
    then show ?thesis using date_of_bounds(1) [of after] hb by (simp add: val day_usec_def)
  qed
  have lo: "after < get_next_friday_close after h + 7 * day_usec"
    using date_of_bounds(2) [of after] hb k by (simp add: val day_usec_def)
  have "weekday_at (get_next_friday_close after h) = 4"
    by (simp add: weekday_at_def dc wd)
  moreover have "weekday_at (get_next_friday_close after h + 7 * day_usec) = 4"
    by (simp add: weekday_at_def dc wd)
  ultimately show ?thesis
    using lo up by (auto simp: next_market_close_def Let_def)
qed

text \<open>
  \<open>next_swap_rollover\<close> starts its scan at the UTC date of the reference instant. It finds the first
  crossing when a local rollover never spills into the following UTC day, which holds for the
  configured New York close (17:00 local, 21:00 or 22:00 UTC).
\<close>


definition same_day_rollover :: "swap_rollover_config \<Rightarrow> bool" where
  "same_day_rollover c \<longleftrightarrow> (\<forall>d. local_time_to_utc c d < (d + 1) * day_usec)"

definition rollover_multiplier :: "int \<Rightarrow> int \<Rightarrow> int" where
  "rollover_multiplier triple d = (if weekday d = triple then 3 else 1)"

lemma scan_rollover_find:
  "scan_rollover n d after c triple =
     (case find (\<lambda>d. weekday d \<le> 4 \<and> after < local_time_to_utc c d) [d..d + int n - 1] of
        Some e \<Rightarrow> Inr (local_time_to_utc c e, rollover_multiplier triple e)
      | None \<Rightarrow> Inl ValueError)"
proof (induction n arbitrary: d)
  case (Suc n)
  have "[d..d + int (Suc n) - 1] = d # [d + 1..d + 1 + int n - 1]"
    by (simp add: upto_rec1 algebra_simps)
  then show ?case by (simp add: Suc.IH rollover_multiplier_def)
qed simp

lemma some_trading_day:
  "\<exists>e. d \<le> e \<and> e \<le> d + 2 \<and> weekday e \<le> 4"
proof (cases "weekday d \<le> 4")
  case False
  then have "weekday (d + 2) \<le> 4" by (auto simp: weekday_def) presburger
  then show ?thesis by (intro exI [of _ "d + 2"]) simp
qed (auto intro: exI [of _ d])

lemma find_upto_least:
  assumes "find P [a..b] = Some e"
  shows "P e \<and> a \<le> e \<and> e \<le> b \<and> (\<forall>x. a \<le> x \<and> P x \<longrightarrow> e \<le> x)"
proof -
  from assms obtain i where i: "i < length [a..b]" "P ([a..b] ! i)" "e = [a..b] ! i"
    and before: "\<And>j. j < i \<Longrightarrow> \<not> P ([a..b] ! j)"
    by (auto simp: find_Some_iff)
  then have e: "e = a + int i" "e \<le> b" by auto
  have "e \<le> x" if "a \<le> x" "P x" for x
  proof (rule ccontr)
    assume "\<not> e \<le> x"
    with that e have "[a..b] ! nat (x - a) = x" "nat (x - a) < i" by auto
    with before that(2) show False by metis
  qed
  with e i(2,3) show ?thesis by auto
qed

lemma next_swap_rollover_least:
  assumes "valid_rollover c" "offset_bounded c" "rollover_ordered c" "same_day_rollover c"
  shows "\<exists>d. next_swap_rollover after c triple = Inr (local_time_to_utc c d, rollover_multiplier triple d)
    \<and> weekday d \<le> 4 \<and> after < local_time_to_utc c d
    \<and> (\<forall>e. weekday e \<le> 4 \<and> after < local_time_to_utc c e \<longrightarrow> local_time_to_utc c d \<le> local_time_to_utc c e)"
proof -
  let ?D = "date_of after" and ?P = "\<lambda>d. weekday d \<le> 4 \<and> after < local_time_to_utc c d"
  obtain e where e: "?D + 2 \<le> e" "e \<le> ?D + 4" "weekday e \<le> 4"
    using some_trading_day [of "?D + 2"] by auto
  have "after < (?D + 1) * day_usec" by (rule date_of_bounds)
  also have "\<dots> \<le> (e - 1) * day_usec" using e(1) by (simp add: day_usec_def)
  also have "\<dots> < local_time_to_utc c e" by (rule rollover_day_bounds [OF assms(1,2)])
  finally have "?P e" using e(3) by simp
  moreover have "e \<in> set [?D..?D + int 8 - 1]" using e(1,2) by simp
  ultimately obtain d where d: "find ?P [?D..?D + int 8 - 1] = Some d"
    by (metis (no_types, lifting) find_None_iff not_Some_eq)
  note least = find_upto_least [OF d]
  have "?D \<le> x" if "?P x" for x
  proof (rule ccontr)
    assume "\<not> ?D \<le> x"
    then have "(x + 1) * day_usec \<le> ?D * day_usec" by (simp add: day_usec_def)
    moreover from assms(4) have "local_time_to_utc c x < (x + 1) * day_usec"
      by (simp add: same_day_rollover_def)
    ultimately show False using date_of_bounds(1) [of after] that by linarith
  qed
  with least have le: "d \<le> x" if "?P x" for x using that by blast
  have "local_time_to_utc c d \<le> local_time_to_utc c x" if "?P x" for x
    using le [OF that] assms(3) by (cases "d = x") (auto simp: rollover_ordered_def intro: less_imp_le)
  moreover have "next_swap_rollover after c triple = Inr (local_time_to_utc c d, rollover_multiplier triple d)"
    using d by (simp only: next_swap_rollover_def scan_rollover_find) simp
  ultimately show ?thesis using least by blast
qed

lemma upto_7: "[a + 1..a + 7] = [a + 1, a + 2, a + 3, a + 4, a + 5, a + 6, a + (7::int)]"
proof -
  have step: "[a + k..a + 7] = (a + k) # [a + j..a + 7]" if "k \<le> 7" "j = k + 1" for j k
    using that by (subst upto_rec1) (simp_all add: add.assoc)
  have "[a + 8..a + 7] = []" by simp
  then show ?thesis
    by (simp only: step [of 1 2] step [of 2 3] step [of 3 4] step [of 4 5] step [of 5 6] step [of 6 7] step [of 7 8])
qed

lemma week_of_multipliers:
  assumes "0 \<le> triple" "triple \<le> 4"
  shows "sum_list (map (rollover_multiplier triple) (filter (\<lambda>d. weekday d \<le> 4) [a + 1..a + 7])) = 7"
proof -
  have w: "weekday (a + k) = (weekday a + k) mod 7" for k
    unfolding weekday_def mod_add_left_eq by (simp add: ac_simps)
  have "0 \<le> weekday a" "weekday a < 7" by simp_all
  then consider "weekday a = 0" | "weekday a = 1" | "weekday a = 2" | "weekday a = 3"
    | "weekday a = 4" | "weekday a = 5" | "weekday a = 6" by linarith
  then show ?thesis
    by cases (use assms in \<open>auto simp: upto_7 w rollover_multiplier_def\<close>)
qed

lemma weekly_swap_days:
  assumes "valid_rollover c" "offset_bounded c" and const: "\<And>l. ro_utc_offset c l = off"
    and "0 \<le> triple" "triple \<le> 4"
  shows "sum_list (map snd (iter_swap_rollovers t (t + 7 * day_usec) c triple)) = 7"
proof -
  define k where "k = ro_hour c * hour_usec + ro_minute c * minute_usec - off"
  have utc: "local_time_to_utc c d = d * day_usec + k" for d
    by (simp add: local_time_to_utc_def const k_def Let_def)
  define a where "a = (t - k) div day_usec"
  have a: "t < d * day_usec + k \<and> d * day_usec + k \<le> t + 7 * day_usec \<longleftrightarrow> a + 1 \<le> d \<and> d \<le> a + 7" for d
  proof -
    have "a * day_usec \<le> t - k" "t - k < (a + 1) * day_usec"
      by (simp_all add: a_def day_usec_def)
    then have *: "a * 86400000000 \<le> t - k" "t - k < (a + 1) * 86400000000" by (simp_all add: day_usec_def)
    show ?thesis unfolding day_usec_def using * by auto
  qed
  let ?P = "\<lambda>d. weekday d \<le> 4 \<and> t < local_time_to_utc c d \<and> local_time_to_utc c d \<le> t + 7 * day_usec"
  have P: "?P d \<longleftrightarrow> weekday d \<le> 4 \<and> a + 1 \<le> d \<and> d \<le> a + 7" for d by (simp add: utc a)
  let ?A = "min (date_of t - 1) (a + 1)" and ?B = "max (date_of (t + 7 * day_usec) + 1) (a + 7)"
  have "iter_swap_rollovers t (t + 7 * day_usec) c triple = rollovers_on [?A..?B] t (t + 7 * day_usec) c triple"
    by (rule iter_swap_rollovers_on [OF assms(1,2)]) auto
  moreover have "filter ?P [a + 1..a + 7] = filter ?P [?A..?B]"
    by (rule filter_upto_extend) (use P in auto)
  moreover have "filter ?P [a + 1..a + 7] = filter (\<lambda>d. weekday d \<le> 4) [a + 1..a + 7]"
    by (rule filter_cong) (use P in auto)
  ultimately have "map snd (iter_swap_rollovers t (t + 7 * day_usec) c triple) =
      map (rollover_multiplier triple) (filter (\<lambda>d. weekday d \<le> 4) [a + 1..a + 7])"
    by (simp add: rollovers_on_def rollover_multiplier_def [abs_def] comp_def)
  then show ?thesis using week_of_multipliers [OF assms(4,5)] by simp
qed

text \<open>For a rule whose local rollover falls on the next UTC date the same search misses a crossing:
  it starts at the UTC date of the instant and answers a day late, while the crossing is charged by
  \<open>iter_swap_rollovers\<close>.\<close>

lemma next_rollover_misses_spilled_crossing:
  fixes c defines "c \<equiv> \<lparr>ro_hour = 23, ro_minute = 0, ro_utc_offset = \<lambda>_. - 5 * hour_usec\<rparr>"
  shows "next_swap_rollover (5 * day_usec + 3 * hour_usec) c 2 = Inr (6 * day_usec + 4 * hour_usec, 1) \<and>
    iter_swap_rollovers (5 * day_usec + 3 * hour_usec) (6 * day_usec + 4 * hour_usec) c 2 =
      [(5 * day_usec + 4 * hour_usec, 1), (6 * day_usec + 4 * hour_usec, 1)]"
  unfolding c_def by (intro conjI; code_simp)

end
