(* ===== verification/Bars.thy ===== *)
theory Bars
  imports Market_Calendar Trading_Types
begin

text \<open>
  Bar rendering: the timeframe registry (\<open>framework/utils/timeframe_config_utils.py\<close>), the bar data class
  (\<open>framework/types/market_types/market_data_types.py\<close>), the renderer (\<open>framework/bars/bar_renderer.py\<close>) and the
  controller with its history cache (\<open>framework/bars/bar_rendering_controller.py\<close>).

  An ISO timestamp string is represented by the instant it denotes. \<open>UnsupportedTimeframeError\<close> is a
  \<open>ValueError\<close>. The sets of timeframes are lists without repetition; the order of such a list is the
  iteration order of the set, over which the theorems quantify.
\<close>

section \<open>Timeframes\<close>

record timeframe =
  tf_name :: string
  tf_minutes :: int
  tf_resample_rule :: string
  tf_sort_index :: nat

definition timeframe_registry :: "(string \<times> int \<times> string) list" where
  "timeframe_registry =
     [(''M1'', 1, ''1min''), (''M5'', 5, ''5min''), (''M15'', 15, ''15min''), (''M30'', 30, ''30min''),
      (''H1'', 60, ''1h''), (''H4'', 240, ''4h''), (''D1'', 1440, ''1D'')]"

fun initialize_timeframes :: "nat \<Rightarrow> (string \<times> int \<times> string) list \<Rightarrow> (string, timeframe) dict res" where
  "initialize_timeframes i [] = Inr []"
| "initialize_timeframes i ((name, minutes, resample) # entries) =
     (if minutes \<le> 0 then Inl ValueError
      else if resample = [] then Inl ValueError
      else bind_res (initialize_timeframes (Suc i) entries) (\<lambda>objects.
        Inr ((name, \<lparr>tf_name = name, tf_minutes = minutes, tf_resample_rule = resample, tf_sort_index = i\<rparr>) # objects)))"

definition timeframe_objects :: "(string, timeframe) dict" where
  "timeframe_objects = (case initialize_timeframes 0 timeframe_registry of Inr d \<Rightarrow> d | Inl _ \<Rightarrow> [])"

definition timeframe_exists :: "string \<Rightarrow> bool" where
  "timeframe_exists tf = (map_of timeframe_objects tf \<noteq> None)"

definition get_timeframe :: "string \<Rightarrow> timeframe res" where
  "get_timeframe tf = (case map_of timeframe_objects tf of None \<Rightarrow> Inl ValueError | Some obj \<Rightarrow> Inr obj)"

definition get_minutes :: "string \<Rightarrow> int res" where
  "get_minutes tf = bind_res (get_timeframe tf) (\<lambda>obj. Inr (tf_minutes obj))"

definition get_resample_rule :: "string \<Rightarrow> string res" where
  "get_resample_rule tf = bind_res (get_timeframe tf) (\<lambda>obj. Inr (tf_resample_rule obj))"

fun validate_many :: "string list \<Rightarrow> string list res" where
  "validate_many [] = Inr []"
| "validate_many (tf # tfs) =
     (if \<not> timeframe_exists tf then Inl ValueError
      else bind_res (validate_many tfs) (\<lambda>validated. Inr (tf # validated)))"

definition sorted_timeframes :: "string list" where
  "sorted_timeframes = map fst (sort_key (\<lambda>kv. tf_sort_index (snd kv)) timeframe_objects)"

text \<open>\<open>str.strip\<close> and \<open>str.upper\<close> on ASCII strings.\<close>

definition is_space :: "char \<Rightarrow> bool" where
  "is_space ch = (let n = of_char ch :: nat in (9 \<le> n \<and> n \<le> 13) \<or> (28 \<le> n \<and> n \<le> 32))"

definition strip_str :: "string \<Rightarrow> string" where
  "strip_str s = rev (dropWhile is_space (rev (dropWhile is_space s)))"

definition upper_str :: "string \<Rightarrow> string" where
  "upper_str s = map (\<lambda>ch. let n = of_char ch :: nat in if 97 \<le> n \<and> n \<le> 122 then char_of (n - 32) else ch) s"

definition normalize_timeframe :: "string \<Rightarrow> string res" where
  "normalize_timeframe s =
     (let tf = upper_str (strip_str s) in if \<not> timeframe_exists tf then Inl ValueError else Inr tf)"

section \<open>Bars\<close>

record bar =
  bar_symbol :: string
  bar_timeframe :: string
  bar_timestamp :: instant
  bar_open :: price
  bar_high :: price
  bar_low :: price
  bar_close :: price
  bar_volume :: rat
  bar_tick_count :: int
  bar_is_complete :: bool

definition update_with_tick :: "price \<Rightarrow> rat \<Rightarrow> bar \<Rightarrow> bar" where
  "update_with_tick x vol b =
     (let b1 = (if bar_open b = 0
                then b\<lparr>bar_open := x, bar_high := x, bar_low := x\<rparr>
                else b\<lparr>bar_high := max (bar_high b) x, bar_low := min (bar_low b) x\<rparr>)
      in b1\<lparr>bar_close := x, bar_volume := bar_volume b1 + vol, bar_tick_count := bar_tick_count b1 + 1\<rparr>)"

definition empty_bar :: "string \<Rightarrow> string \<Rightarrow> instant \<Rightarrow> bar" where
  "empty_bar smb tf start =
     \<lparr>bar_symbol = smb, bar_timeframe = tf, bar_timestamp = start, bar_open = 0, bar_high = 0, bar_low = 0,
      bar_close = 0, bar_volume = 0, bar_tick_count = 0, bar_is_complete = False\<rparr>"

section \<open>The renderer\<close>

text \<open>Dictionaries of dictionaries with a default inner dictionary (\<open>defaultdict(dict)\<close>).\<close>

definition get2 :: "('k, ('s, 'v) dict) dict \<Rightarrow> 'k \<Rightarrow> 's \<Rightarrow> 'v option" where
  "get2 d k s = map_of (get_default [] d k) s"

definition put2 :: "'k \<Rightarrow> 's \<Rightarrow> 'v \<Rightarrow> ('k, ('s, 'v) dict) dict \<Rightarrow> ('k, ('s, 'v) dict) dict" where
  "put2 k s v d = AList.update k (AList.update s v (get_default [] d k)) d"

text \<open>\<open>deque(maxlen=n).append\<close>: with \<open>maxlen=0\<close> nothing is kept.\<close>

definition deque_push :: "nat \<Rightarrow> 'a list \<Rightarrow> 'a \<Rightarrow> 'a list" where
  "deque_push n xs x = drop (Suc (length xs) - n) (xs @ [x])"

record bar_renderer =
  max_history :: nat
  bar_start_cache :: "(int \<times> string, instant) dict"
  current_bars :: "(string, (string, bar) dict) dict"
  current_bar_starts :: "(string, (string, instant) dict) dict"
  completed_bars :: "(string, (string, bar list) dict) dict"
  last_tick_time :: "instant option"

definition new_renderer :: "nat \<Rightarrow> bar_renderer" where
  "new_renderer n =
     \<lparr>max_history = n, bar_start_cache = [], current_bars = [], current_bar_starts = [], completed_bars = [],
      last_tick_time = None\<rparr>"

definition get_required_timeframes :: "string list list \<Rightarrow> string list" where
  "get_required_timeframes workers = remdups (concat workers)"

definition minute_of :: "instant \<Rightarrow> int" where
  "minute_of t = (t mod hour_usec) div minute_usec"

text \<open>The cache key's date and time up to the minute, as the minute's number.\<close>

definition minute_key :: "instant \<Rightarrow> int" where
  "minute_key t = t div minute_usec"

definition compute_bar_start :: "instant \<Rightarrow> int \<Rightarrow> instant" where
  "compute_bar_start t minutes =
     (let total_minutes = hour_of t * 60 + minute_of t;
          bar_start_minute = (total_minutes div minutes) * minutes
      in date_of t * day_usec + (bar_start_minute div 60) * hour_usec + (bar_start_minute mod 60) * minute_usec)"

definition get_bar_start_time :: "instant \<Rightarrow> string \<Rightarrow> bar_renderer \<Rightarrow> (instant \<times> bar_renderer) res" where
  "get_bar_start_time t tf r =
     (case map_of (bar_start_cache r) (minute_key t, tf) of
        Some start \<Rightarrow> Inr (start, r)
      | None \<Rightarrow>
          bind_res (get_minutes tf) (\<lambda>minutes.
            let start = compute_bar_start t minutes;
                cache = AList.update (minute_key t, tf) start (bar_start_cache r);
                cache' = (if length cache > 10000 then drop 5000 cache else cache)
            in Inr (start, r\<lparr>bar_start_cache := cache'\<rparr>)))"

definition is_bar_complete :: "instant \<Rightarrow> instant \<Rightarrow> string \<Rightarrow> bool res" where
  "is_bar_complete start now tf =
     bind_res (get_minutes tf) (\<lambda>minutes. Inr (now \<ge> start + minutes * minute_usec))"

definition get_bar_history :: "string \<Rightarrow> string \<Rightarrow> bar_renderer \<Rightarrow> bar list" where
  "get_bar_history smb tf r = (case get2 (completed_bars r) tf smb of None \<Rightarrow> [] | Some h \<Rightarrow> h)"

definition archive_completed_bar :: "string \<Rightarrow> string \<Rightarrow> bar \<Rightarrow> bar_renderer \<Rightarrow> bar_renderer" where
  "archive_completed_bar smb tf b r =
     r\<lparr>completed_bars := put2 tf smb (deque_push (max_history r) (get_bar_history smb tf r) b) (completed_bars r)\<rparr>"

definition get_current_bar :: "string \<Rightarrow> string \<Rightarrow> bar_renderer \<Rightarrow> bar option" where
  "get_current_bar smb tf r = get2 (current_bars r) tf smb"

text \<open>One iteration of the loop of \<open>update_current_bars\<close>: the bar of one timeframe, and whether the previous
  one was closed.\<close>

definition update_timeframe :: "tick_data \<Rightarrow> string \<Rightarrow> bar_renderer \<Rightarrow> (bar \<times> bool \<times> bar_renderer) res" where
  "update_timeframe t tf r =
     (let smb = tick_symbol t in
      bind_res (get_bar_start_time (tick_timestamp t) tf r) (\<lambda>(start, r1).
        let (r2, closed) =
              (case get_current_bar smb tf r1 of
                 None \<Rightarrow> (r1, False)
               | Some b \<Rightarrow>
                   if get2 (current_bar_starts r1) tf smb \<noteq> Some start
                   then (archive_completed_bar smb tf (b\<lparr>bar_is_complete := True\<rparr>) r1, True)
                   else (r1, False));
            (b0, r3) =
              (case get_current_bar smb tf r2 of
                 Some b \<Rightarrow> if closed then (empty_bar smb tf start, r2\<lparr>current_bar_starts := put2 tf smb start (current_bar_starts r2)\<rparr>)
                           else (b, r2)
               | None \<Rightarrow> (empty_bar smb tf start, r2\<lparr>current_bar_starts := put2 tf smb start (current_bar_starts r2)\<rparr>));
            b1 = update_with_tick (mid t) (tick_volume t) b0
        in bind_res (is_bar_complete start (tick_timestamp t) tf) (\<lambda>done.
             let b2 = (if done then b1\<lparr>bar_is_complete := True\<rparr> else b1)
             in Inr (b2, closed, r3\<lparr>current_bars := put2 tf smb b2 (current_bars r3)\<rparr>))))"

fun update_timeframes ::
  "tick_data \<Rightarrow> string list \<Rightarrow> bar_renderer \<Rightarrow> ((string, bar) dict \<times> (string, bool) dict \<times> bar_renderer) res" where
  "update_timeframes t [] r = Inr ([], [], r)"
| "update_timeframes t (tf # tfs) r =
     bind_res (update_timeframe t tf r) (\<lambda>(b, closed, r1).
       bind_res (update_timeframes t tfs r1) (\<lambda>(bs, cs, r2). Inr ((tf, b) # bs, (tf, closed) # cs, r2)))"

definition update_current_bars ::
  "tick_data \<Rightarrow> string list \<Rightarrow> bar_renderer \<Rightarrow> ((string, bar) dict \<times> (string, bool) dict \<times> bar_renderer) res" where
  "update_current_bars t tfs r =
     bind_res (update_timeframes t tfs r) (\<lambda>(bs, cs, r1). Inr (bs, cs, r1\<lparr>last_tick_time := Some (tick_timestamp t)\<rparr>))"

definition initialize_historical_bars :: "string \<Rightarrow> string \<Rightarrow> bar list \<Rightarrow> bar_renderer \<Rightarrow> bar_renderer" where
  "initialize_historical_bars smb tf bs r =
     r\<lparr>completed_bars :=
        put2 tf smb (foldl (deque_push (max_history r)) (get_bar_history smb tf r) bs) (completed_bars r)\<rparr>"

section \<open>The controller\<close>

text \<open>A bar as it crosses the process boundary.\<close>

record bar_dict =
  bd_timeframe :: string
  bd_timestamp :: instant
  bd_open :: price
  bd_high :: price
  bd_low :: price
  bd_close :: price
  bd_volume :: rat
  bd_tick_count :: int

definition deserialize_bar :: "string \<Rightarrow> bar_dict \<Rightarrow> bar" where
  "deserialize_bar smb d =
     \<lparr>bar_symbol = smb, bar_timeframe = bd_timeframe d, bar_timestamp = bd_timestamp d, bar_open = bd_open d,
      bar_high = bd_high d, bar_low = bd_low d, bar_close = bd_close d, bar_volume = bd_volume d,
      bar_tick_count = bd_tick_count d, bar_is_complete = True\<rparr>"

record bar_controller =
  bar_rend :: bar_renderer
  required_timeframes :: "string list"
  warmup_data :: "(string, bar_dict list) dict"
  cached_bar_history :: "(string, bar list) dict"
  cache_valid_per_timeframe :: "(string, bool) dict"
  pending_closed_timeframes :: "string list"

definition new_controller :: "nat \<Rightarrow> bar_controller" where
  "new_controller n =
     \<lparr>bar_rend = new_renderer n, required_timeframes = [], warmup_data = [], cached_bar_history = [],
      cache_valid_per_timeframe = [], pending_closed_timeframes = []\<rparr>"

definition register_workers :: "string list list \<Rightarrow> bar_controller \<Rightarrow> bar_controller" where
  "register_workers workers c = c\<lparr>required_timeframes := get_required_timeframes workers\<rparr>"

definition note_closed :: "string \<times> bool \<Rightarrow> bar_controller \<Rightarrow> bar_controller" where
  "note_closed = (\<lambda>(tf, was_closed) c.
     if was_closed
     then c\<lparr>cache_valid_per_timeframe := AList.update tf False (cache_valid_per_timeframe c),
            pending_closed_timeframes := List.insert tf (pending_closed_timeframes c)\<rparr>
     else c)"

definition bars_process_tick :: "tick_data \<Rightarrow> bar_controller \<Rightarrow> ((string, bar) dict \<times> bar_controller) res" where
  "bars_process_tick t c =
     bind_res (update_current_bars t (required_timeframes c) (bar_rend c)) (\<lambda>(bs, cs, r).
       Inr (bs, fold note_closed cs (c\<lparr>bar_rend := r\<rparr>)))"

definition consume_bar_render_state :: "bar_controller \<Rightarrow> string list \<times> bar_controller" where
  "consume_bar_render_state c = (pending_closed_timeframes c, c\<lparr>pending_closed_timeframes := []\<rparr>)"

definition cached_history :: "string \<Rightarrow> string \<Rightarrow> bar_controller \<Rightarrow> bar list \<times> bar_controller" where
  "cached_history smb tf c =
     (case map_of (cached_bar_history c) tf of
        Some h \<Rightarrow> if get_default False (cache_valid_per_timeframe c) tf then (h, c)
                  else (let h' = get_bar_history smb tf (bar_rend c) in
                        (h', c\<lparr>cached_bar_history := AList.update tf h' (cached_bar_history c),
                               cache_valid_per_timeframe := AList.update tf True (cache_valid_per_timeframe c)\<rparr>))
      | None \<Rightarrow> (let h' = get_bar_history smb tf (bar_rend c) in
                 (h', c\<lparr>cached_bar_history := AList.update tf h' (cached_bar_history c),
                        cache_valid_per_timeframe := AList.update tf True (cache_valid_per_timeframe c)\<rparr>)))"

fun all_history :: "string \<Rightarrow> string list \<Rightarrow> bar_controller \<Rightarrow> (string, bar list) dict \<times> bar_controller" where
  "all_history smb [] c = ([], c)"
| "all_history smb (tf # tfs) c =
     (let (h, c1) = cached_history smb tf c; (hs, c2) = all_history smb tfs c1 in ((tf, h) # hs, c2))"

definition get_all_bar_history :: "string \<Rightarrow> bar_controller \<Rightarrow> (string, bar list) dict \<times> bar_controller" where
  "get_all_bar_history smb c = all_history smb (required_timeframes c) c"

definition inject_timeframe :: "string \<Rightarrow> string \<times> bar_dict list \<Rightarrow> bar_controller \<Rightarrow> bar_controller" where
  "inject_timeframe smb = (\<lambda>(tf, ds) c.
     c\<lparr>bar_rend := initialize_historical_bars smb tf (map (deserialize_bar smb) ds) (bar_rend c),
       cache_valid_per_timeframe := AList.update tf False (cache_valid_per_timeframe c)\<rparr>)"

definition inject_warmup_bars :: "string \<Rightarrow> (string, bar_dict list) dict \<Rightarrow> bar_controller \<Rightarrow> bar_controller" where
  "inject_warmup_bars smb warmup c = fold (inject_timeframe smb) warmup (c\<lparr>warmup_data := warmup\<rparr>)"

end
