(* ===== verification/Bars_Laws.thy ===== *)
theory Bars_Laws
  imports Bars
begin

text \<open>
  What bar rendering guarantees: the cached period lookup is the floor of the timestamp to a multiple of the
  period; the bars of a symbol and a timeframe are the aggregates of the maximal runs of its ticks that fall
  into the same period; the controller's history cache is coherent for a single symbol.
\<close>

section \<open>Timeframes\<close>

lemma timeframe_table:
  "timeframe_objects =
     [(''M1'', \<lparr>tf_name = ''M1'', tf_minutes = 1, tf_resample_rule = ''1min'', tf_sort_index = 0\<rparr>),
      (''M5'', \<lparr>tf_name = ''M5'', tf_minutes = 5, tf_resample_rule = ''5min'', tf_sort_index = 1\<rparr>),
      (''M15'', \<lparr>tf_name = ''M15'', tf_minutes = 15, tf_resample_rule = ''15min'', tf_sort_index = 2\<rparr>),
      (''M30'', \<lparr>tf_name = ''M30'', tf_minutes = 30, tf_resample_rule = ''30min'', tf_sort_index = 3\<rparr>),
      (''H1'', \<lparr>tf_name = ''H1'', tf_minutes = 60, tf_resample_rule = ''1h'', tf_sort_index = 4\<rparr>),
      (''H4'', \<lparr>tf_name = ''H4'', tf_minutes = 240, tf_resample_rule = ''4h'', tf_sort_index = 5\<rparr>),
      (''D1'', \<lparr>tf_name = ''D1'', tf_minutes = 1440, tf_resample_rule = ''1D'', tf_sort_index = 6\<rparr>)]"
  by (simp add: timeframe_objects_def timeframe_registry_def)

lemma get_minutes_divides:
  assumes "get_minutes tf = Inr m"
  shows "0 < m \<and> m dvd 1440"
proof -
  from assms obtain obj where "map_of timeframe_objects tf = Some obj" "m = tf_minutes obj"
    by (auto simp: get_minutes_def get_timeframe_def split: option.splits)
  then have "(tf, obj) \<in> set timeframe_objects" by (blast dest: map_of_SomeD)
  with \<open>m = _\<close> show ?thesis by (auto simp: timeframe_table)
qed

lemma get_minutes_exists: "timeframe_exists tf \<longleftrightarrow> (\<exists>m. get_minutes tf = Inr m)"
  by (auto simp: timeframe_exists_def get_minutes_def get_timeframe_def split: option.splits)

section \<open>Periods\<close>

definition period_start :: "int \<Rightarrow> instant \<Rightarrow> instant" where
  "period_start m t = t div (m * minute_usec) * (m * minute_usec)"

lemma period_start_bounds:
  assumes "0 < m"
  shows "period_start m t \<le> t" and "t < period_start m t + m * minute_usec"
proof -
  have p: "0 < m * minute_usec" using assms by (simp add: minute_usec_def)
  show "period_start m t \<le> t" using p by (simp add: period_start_def minus_mod_eq_div_mult [symmetric])
  show "t < period_start m t + m * minute_usec"
    using p pos_mod_bound [OF p, of t] by (simp add: period_start_def minus_mod_eq_div_mult [symmetric])
qed

lemma period_start_mono: "0 < m \<Longrightarrow> t \<le> u \<Longrightarrow> period_start m t \<le> period_start m u"
  unfolding period_start_def
  by (intro mult_right_mono zdiv_mono1) (simp_all add: minute_usec_def)

lemma mod_div_swap:
  fixes t a b :: int
  assumes "0 < a" "0 < b"
  shows "t mod (a * b) div a = t div a mod b"
  using assms by (simp add: zmod_zmult2_eq)

lemma minutes_of_day: "hour_of t * 60 + minute_of t = minute_key t mod 1440"
proof -
  have d: "day_usec = minute_usec * 1440" "hour_usec = minute_usec * 60" and p: "0 < minute_usec"
    by (simp_all add: day_usec_def hour_usec_def minute_usec_def)
  have "hour_of t = t mod (minute_usec * 1440) div minute_usec div 60"
    using p by (simp add: hour_of_def d zdiv_zmult2_eq)
  then have h: "hour_of t = minute_key t mod 1440 div 60"
    using mod_div_swap [OF p, of 1440 t] by (simp add: minute_key_def)
  have "minute_of t = minute_key t mod 60"
    using mod_div_swap [OF p, of 60 t] by (simp add: minute_of_def d minute_key_def)
  also have "\<dots> = minute_key t mod 1440 mod 60" by (simp add: mod_mod_cancel)
  finally show ?thesis unfolding h by simp
qed

text \<open>The reference for \<open>compute_bar_start\<close>: for a period that divides the day it is the floor to a multiple
  of the period, counted from the epoch. It depends on the minute only, which is what makes the cache key
  sufficient.\<close>

lemma compute_bar_start_minute:
  "compute_bar_start t m = (minute_key t div 1440 * 1440 + (minute_key t mod 1440) div m * m) * minute_usec"
proof -
  have d: "date_of t * day_usec = minute_key t div 1440 * 1440 * minute_usec"
    by (simp add: date_of_def day_usec_def minute_key_def minute_usec_def zdiv_zmult2_eq [symmetric])
  have "b div 60 * hour_usec + b mod 60 * minute_usec = b * minute_usec" for b :: int
    unfolding hour_usec_def minute_usec_def by presburger
  then show ?thesis
    unfolding compute_bar_start_def Let_def minutes_of_day d by (simp add: distrib_right add.assoc)
qed

lemma compute_bar_start_floor:
  assumes "0 < m" and "m dvd 1440"
  shows "compute_bar_start t m = period_start m t"
proof -
  obtain q where q: "1440 = m * q" using assms(2) by (rule dvdE)
  let ?k = "minute_key t"
  have "?k = ?k div 1440 * 1440 + ?k mod 1440" by simp
  then have "?k div m = (?k div 1440 * q * m + ?k mod 1440) div m" by (metis q mult.assoc mult.commute)
  also have "\<dots> = ?k div 1440 * q + (?k mod 1440) div m" using assms(1) by simp
  finally have "?k div m * m = ?k div 1440 * 1440 + (?k mod 1440) div m * m"
    by (simp add: q algebra_simps)
  then show ?thesis
    using assms(1)
    by (simp add: compute_bar_start_minute period_start_def minute_key_def zdiv_zmult2_eq [symmetric]
        mult.assoc [symmetric] mult.commute)
qed

section \<open>The period cache\<close>

definition entry_ok :: "(int \<times> string) \<times> instant \<Rightarrow> bool" where
  "entry_ok = (\<lambda>((k, tf), s). \<exists>m. get_minutes tf = Inr m \<and>
     s = (k div 1440 * 1440 + (k mod 1440) div m * m) * minute_usec)"

definition cache_ok :: "bar_renderer \<Rightarrow> bool" where
  "cache_ok r \<longleftrightarrow> (\<forall>e\<in>set (bar_start_cache r). entry_ok e)"

lemma entry_ok_iff: "get_minutes tf = Inr m \<Longrightarrow> entry_ok ((minute_key t, tf), s) \<longleftrightarrow> s = compute_bar_start t m"
  by (simp add: entry_ok_def compute_bar_start_minute)

lemma get_bar_start_time_spec:
  assumes "cache_ok r" and "get_minutes tf = Inr m"
  obtains c where "get_bar_start_time t tf r = Inr (period_start m t, r\<lparr>bar_start_cache := c\<rparr>)"
    "cache_ok (r\<lparr>bar_start_cache := c\<rparr>)"
proof (cases "map_of (bar_start_cache r) (minute_key t, tf)")
  case (Some s)
  from map_of_SomeD [OF Some] assms(1) have "entry_ok ((minute_key t, tf), s)" by (simp add: cache_ok_def)
  with assms(2) have "s = compute_bar_start t m" by (simp add: entry_ok_iff)
  then have "s = period_start m t" using compute_bar_start_floor get_minutes_divides [OF assms(2)] by simp
  with Some assms(1) show ?thesis by (intro that [of "bar_start_cache r"]) (simp_all add: get_bar_start_time_def)
next
  case None
  let ?c = "AList.update (minute_key t, tf) (period_start m t) (bar_start_cache r)"
  let ?c' = "if length ?c > 10000 then drop 5000 ?c else ?c"
  have start: "compute_bar_start t m = period_start m t"
    using compute_bar_start_floor get_minutes_divides [OF assms(2)] by simp
  have "set ?c' \<subseteq> insert ((minute_key t, tf), period_start m t) (set (bar_start_cache r))"
    using set_drop_subset [of 5000 ?c] set_update_subset [of "(minute_key t, tf)" "period_start m t" "bar_start_cache r"]
    by (auto split: if_splits)
  moreover have "entry_ok ((minute_key t, tf), period_start m t)" using assms(2) start by (simp add: entry_ok_iff)
  ultimately have "cache_ok (r\<lparr>bar_start_cache := ?c'\<rparr>)" using assms(1) unfolding cache_ok_def by auto
  with None assms(2) start show ?thesis by (intro that [of ?c']) (simp_all add: get_bar_start_time_def Let_def)
qed

section \<open>The view of one symbol and timeframe\<close>

lemma get2_put2 [simp]: "get2 (put2 k s v d) k' s' = (if k' = k \<and> s' = s then Some v else get2 d k' s')"
  by (simp add: get2_def put2_def dict_simps)

lemma update_with_tick_frame [simp]:
  "bar_timestamp (update_with_tick x v b) = bar_timestamp b" "bar_symbol (update_with_tick x v b) = bar_symbol b"
  "bar_timeframe (update_with_tick x v b) = bar_timeframe b" "bar_is_complete (update_with_tick x v b) = bar_is_complete b"
  by (simp_all add: update_with_tick_def Let_def)

lemma empty_bar_simps [simp]:
  "bar_timestamp (empty_bar smb tf s) = s" "bar_symbol (empty_bar smb tf s) = smb"
  "bar_timeframe (empty_bar smb tf s) = tf" "\<not> bar_is_complete (empty_bar smb tf s)"
  by (simp_all add: empty_bar_def)

definition bars_view :: "bar_renderer \<Rightarrow> string \<Rightarrow> string \<Rightarrow> bar list \<times> bar option" where
  "bars_view r tf smb = (get_bar_history smb tf r, get_current_bar smb tf r)"

definition renderer_ok :: "bar_renderer \<Rightarrow> bool" where
  "renderer_ok r \<longleftrightarrow> cache_ok r \<and>
     (\<forall>tf smb b. get_current_bar smb tf r = Some b \<longrightarrow> get2 (current_bar_starts r) tf smb = Some (bar_timestamp b))"

text \<open>What one tick does to the view of its own symbol.\<close>

definition tick_view ::
  "nat \<Rightarrow> string \<Rightarrow> string \<Rightarrow> instant \<Rightarrow> tick_data \<Rightarrow> bar list \<times> bar option \<Rightarrow> bar list \<times> bar option" where
  "tick_view n smb tf start t = (\<lambda>(h, c).
     case c of
       None \<Rightarrow> (h, Some (update_with_tick (mid t) (tick_volume t) (empty_bar smb tf start)))
     | Some b \<Rightarrow>
         if bar_timestamp b = start then (h, Some (update_with_tick (mid t) (tick_volume t) b))
         else (deque_push n h (b\<lparr>bar_is_complete := True\<rparr>),
               Some (update_with_tick (mid t) (tick_volume t) (empty_bar smb tf start))))"

definition closes_bar :: "bar_renderer \<Rightarrow> string \<Rightarrow> string \<Rightarrow> instant \<Rightarrow> bool" where
  "closes_bar r tf smb start \<longleftrightarrow> (\<exists>b. get_current_bar smb tf r = Some b \<and> bar_timestamp b \<noteq> start)"

lemma update_timeframe_spec:
  fixes t r tf m
  assumes ok: "renderer_ok r" and m: "get_minutes tf = Inr m"
  defines "smb \<equiv> tick_symbol t" and "start \<equiv> period_start m (tick_timestamp t)"
  obtains b r' where "update_timeframe t tf r = Inr (b, closes_bar r tf smb start, r')"
    "renderer_ok r'" "max_history r' = max_history r"
    "\<And>tf' s. bars_view r' tf' s =
        (if tf' = tf \<and> s = smb then tick_view (max_history r) smb tf start t (bars_view r tf smb) else bars_view r tf' s)"
    "get_current_bar smb tf r' = Some b"
proof -
  from ok have "cache_ok r" by (simp add: renderer_ok_def)
  from this m obtain c where c: "get_bar_start_time (tick_timestamp t) tf r = Inr (start, r\<lparr>bar_start_cache := c\<rparr>)"
    and ck: "cache_ok (r\<lparr>bar_start_cache := c\<rparr>)" unfolding start_def by (rule get_bar_start_time_spec)
  have "\<not> tick_timestamp t \<ge> start + m * minute_usec"
    using period_start_bounds(2) get_minutes_divides [OF m] unfolding start_def by (simp add: not_le)
  then have nd: "is_bar_complete start (tick_timestamp t) tf = Inr False" by (simp add: is_bar_complete_def m)
  have ok': "renderer_ok r'" if "bar_start_cache r' = c"
    "\<And>tf' s b. get2 (current_bars r') tf' s = Some b \<Longrightarrow> get2 (current_bar_starts r') tf' s = Some (bar_timestamp b)" for r'
    using ck that by (auto simp: renderer_ok_def cache_ok_def get_current_bar_def)
  have sync: "get2 (current_bar_starts r) tf' s = Some (bar_timestamp b)" if "get2 (current_bars r) tf' s = Some b" for tf' s b
    using ok that by (simp add: renderer_ok_def get_current_bar_def)
  note unf = update_timeframe_def Let_def smb_def [symmetric] c nd get_current_bar_def archive_completed_bar_def
    get_bar_history_def closes_bar_def
  note views = bars_view_def get_bar_history_def get_current_bar_def tick_view_def
  consider (none) "get2 (current_bars r) tf smb = None"
    | (same) b where "get2 (current_bars r) tf smb = Some b" "bar_timestamp b = start"
    | (new) b where "get2 (current_bars r) tf smb = Some b" "bar_timestamp b \<noteq> start"
    by (cases "get2 (current_bars r) tf smb") auto
  then show thesis
  proof cases
    case none
    let ?b = "update_with_tick (mid t) (tick_volume t) (empty_bar smb tf start)"
    show thesis
      by (rule that [of ?b "r\<lparr>bar_start_cache := c, current_bar_starts := put2 tf smb start (current_bar_starts r),
            current_bars := put2 tf smb ?b (current_bars r)\<rparr>"])
         (auto simp: unf none views intro!: ok' dest: sync split: if_splits)
  next
    case (same b)
    let ?b = "update_with_tick (mid t) (tick_volume t) b"
    show thesis
      by (rule that [of ?b "r\<lparr>bar_start_cache := c, current_bars := put2 tf smb ?b (current_bars r)\<rparr>"])
         (auto simp: unf same sync [OF same(1)] views intro!: ok' dest: sync split: if_splits)
  next
    case (new b)
    let ?b = "update_with_tick (mid t) (tick_volume t) (empty_bar smb tf start)"
    let ?h = "deque_push (max_history r) (get_bar_history smb tf r) (b\<lparr>bar_is_complete := True\<rparr>)"
    show thesis
      by (rule that [of ?b "r\<lparr>bar_start_cache := c, completed_bars := put2 tf smb ?h (completed_bars r),
            current_bar_starts := put2 tf smb start (current_bar_starts r), current_bars := put2 tf smb ?b (current_bars r)\<rparr>"])
         (auto simp: unf new sync [OF new(1)] views intro!: ok' dest: sync split: if_splits)
  qed
qed

lemma update_timeframes_spec:
  assumes "renderer_ok r" and "\<And>tf. tf \<in> set tfs \<Longrightarrow> get_minutes tf = Inr (mins tf)" and "distinct tfs"
  obtains bs cs r' where "update_timeframes t tfs r = Inr (bs, cs, r')" "renderer_ok r'" "max_history r' = max_history r"
    "\<And>tf s. bars_view r' tf s =
        (if tf \<in> set tfs \<and> s = tick_symbol t
         then tick_view (max_history r) s tf (period_start (mins tf) (tick_timestamp t)) t (bars_view r tf s)
         else bars_view r tf s)"
    "cs = map (\<lambda>tf. (tf, closes_bar r tf (tick_symbol t) (period_start (mins tf) (tick_timestamp t)))) tfs"
  using assms
proof (induction tfs arbitrary: r thesis)
  case Nil
  show ?case by (rule Nil.prems(1) [of "[]" "[]" r]) (use Nil.prems in simp_all)
next
  case (Cons tf tfs)
  have m: "get_minutes tf = Inr (mins tf)" using Cons.prems(3) by simp
  from Cons.prems(2) m obtain b r1 where
    u: "update_timeframe t tf r = Inr (b, closes_bar r tf (tick_symbol t) (period_start (mins tf) (tick_timestamp t)), r1)"
    and ok1: "renderer_ok r1" and n1: "max_history r1 = max_history r"
    and v1: "\<And>tf' s. bars_view r1 tf' s =
        (if tf' = tf \<and> s = tick_symbol t
         then tick_view (max_history r) (tick_symbol t) tf (period_start (mins tf) (tick_timestamp t)) t (bars_view r tf (tick_symbol t))
         else bars_view r tf' s)"
    by (rule update_timeframe_spec [where t = t]) blast
  have ms: "\<And>x. x \<in> set tfs \<Longrightarrow> get_minutes x = Inr (mins x)" and d: "distinct tfs" and new: "tf \<notin> set tfs"
    using Cons.prems(3,4) by simp_all
  obtain bs cs r2 where r2: "update_timeframes t tfs r1 = Inr (bs, cs, r2)" "renderer_ok r2" "max_history r2 = max_history r1"
    "\<And>tf s. bars_view r2 tf s =
        (if tf \<in> set tfs \<and> s = tick_symbol t
         then tick_view (max_history r1) s tf (period_start (mins tf) (tick_timestamp t)) t (bars_view r1 tf s)
         else bars_view r1 tf s)"
    "cs = map (\<lambda>tf. (tf, closes_bar r1 tf (tick_symbol t) (period_start (mins tf) (tick_timestamp t)))) tfs"
    using Cons.IH [OF _ ok1 ms d] by blast
  have other: "get_current_bar (tick_symbol t) x r1 = get_current_bar (tick_symbol t) x r" if "x \<in> set tfs" for x
    using v1 [of x "tick_symbol t"] new that by (auto simp: bars_view_def split: if_splits)
  then have cs: "cs = map (\<lambda>tf. (tf, closes_bar r tf (tick_symbol t) (period_start (mins tf) (tick_timestamp t)))) tfs"
    unfolding r2(5) by (simp add: closes_bar_def)
  show ?case
    by (rule Cons.prems(1) [of "(tf, b) # bs" "(tf, closes_bar r tf (tick_symbol t) (period_start (mins tf) (tick_timestamp t))) # cs" r2])
       (use r2 u n1 new cs v1 in \<open>auto\<close>)
qed

section \<open>Runs of ticks\<close>

text \<open>Splitting a list into its maximal runs of equal key.\<close>

definition add_run :: "('a \<Rightarrow> 'k) \<Rightarrow> 'a list list \<Rightarrow> 'a \<Rightarrow> 'a list list" where
  "add_run f gs x = (if gs = [] \<or> f (hd (last gs)) \<noteq> f x then gs @ [[x]] else butlast gs @ [last gs @ [x]])"

definition runs :: "('a \<Rightarrow> 'k) \<Rightarrow> 'a list \<Rightarrow> 'a list list" where
  "runs f xs = foldl (add_run f) [] xs"

lemma runs_snoc [simp]: "runs f (xs @ [x]) = add_run f (runs f xs) x"
  by (simp add: runs_def)

lemma runs_Nil [simp]: "runs f [] = []"
  by (simp add: runs_def)

lemma runs_single [simp]: "runs f [x] = [[x]]"
  by (simp add: runs_def add_run_def)

lemma runs_empty_iff [simp]: "runs f xs = [] \<longleftrightarrow> xs = []"
  by (induction xs rule: rev_induct) (simp_all add: add_run_def)

text \<open>The three facts that determine the runs: they partition the list, each is non-empty with one key, and
  neighbours differ.\<close>

lemma runs_nonempty: "g \<in> set (runs f xs) \<Longrightarrow> g \<noteq> []"
  by (induction xs arbitrary: g rule: rev_induct) (auto simp: add_run_def split: if_splits dest: in_set_butlastD)

lemma concat_runs: "concat (runs f xs) = xs"
proof (induction xs rule: rev_induct)
  case (snoc x xs)
  show ?case
  proof (cases "runs f xs = [] \<or> f (hd (last (runs f xs))) \<noteq> f x")
    case False
    then have "concat (butlast (runs f xs)) @ last (runs f xs) = concat (runs f xs)"
      by (metis append_butlast_last_id concat.simps(1,2) concat_append append_Nil2)
    with False snoc show ?thesis by (simp add: add_run_def append.assoc [symmetric] del: append.assoc)
  qed (use snoc in \<open>simp add: add_run_def\<close>)
qed simp

lemma runs_constant: "g \<in> set (runs f xs) \<Longrightarrow> x \<in> set g \<Longrightarrow> f x = f (hd g)"
proof (induction xs arbitrary: g x rule: rev_induct)
  case (snoc y ys)
  show ?case
  proof (cases "runs f ys = [] \<or> f (hd (last (runs f ys))) \<noteq> f y")
    case True
    with snoc show ?thesis by (auto simp: add_run_def)
  next
    case False
    then have l: "last (runs f ys) \<in> set (runs f ys)" by simp
    from runs_nonempty [OF l] have "hd (last (runs f ys) @ [y]) = hd (last (runs f ys))" by simp
    with False snoc.IH [OF l] snoc.IH snoc.prems show ?thesis by (auto simp: add_run_def dest: in_set_butlastD)
  qed
qed simp

lemma runs_sorted:
  fixes f :: "'a \<Rightarrow> 'k::linorder"
  assumes "sorted (map f xs)"
  shows "sorted_wrt (\<lambda>g h. f (hd g) < f (hd h)) (runs f xs)"
  using assms
proof (induction xs rule: rev_induct)
  case (snoc x xs)
  then have IH: "sorted_wrt (\<lambda>g h. f (hd g) < f (hd h)) (runs f xs)" and le: "\<forall>y\<in>set xs. f y \<le> f x"
    by (auto simp: sorted_append)
  have hd_in: "hd g \<in> set xs" if "g \<in> set (runs f xs)" for g
    using that runs_nonempty [OF that] concat_runs [of f xs] by (metis hd_in_set in_set_conv_nth concat.simps UN_I set_concat)
  show ?case
  proof (cases "runs f xs = [] \<or> f (hd (last (runs f xs))) \<noteq> f x")
    case True
    have "f (hd g) < f x" if g: "g \<in> set (runs f xs)" for g
    proof -
      have ne: "runs f xs \<noteq> []" using g by auto
      then have l: "f (hd (last (runs f xs))) < f x" using True le hd_in [of "last (runs f xs)"] by force
      have "g = last (runs f xs) \<or> g \<in> set (butlast (runs f xs))"
        using g ne by (metis append_butlast_last_id in_set_butlast_appendI UnE set_append set_ConsD empty_iff list.set(1))
      moreover have "f (hd g) < f (hd (last (runs f xs)))" if "g \<in> set (butlast (runs f xs))"
        using IH that ne by (metis append_butlast_last_id list.set_intros(1) sorted_wrt_append)
      ultimately show ?thesis using l by force
    qed
    with True IH show ?thesis by (auto simp: add_run_def sorted_wrt_append)
  next
    case False
    then have "hd (last (runs f xs) @ [x]) = hd (last (runs f xs))" using runs_nonempty [of "last (runs f xs)" f xs] by simp
    moreover from False IH have "sorted_wrt (\<lambda>g h. f (hd g) < f (hd h)) (butlast (runs f xs) @ [last (runs f xs)])" by simp
    ultimately show ?thesis using False by (simp add: add_run_def sorted_wrt_append)
  qed
qed simp

section \<open>Bars are aggregates of runs\<close>

text \<open>A bar computed directly from the ticks of one period.\<close>

definition aggregate :: "string \<Rightarrow> string \<Rightarrow> instant \<Rightarrow> bool \<Rightarrow> tick_data list \<Rightarrow> bar" where
  "aggregate smb tf start fin g =
     \<lparr>bar_symbol = smb, bar_timeframe = tf, bar_timestamp = start,
      bar_open = mid (hd g), bar_high = Max (mid ` set g), bar_low = Min (mid ` set g), bar_close = mid (last g),
      bar_volume = sum_list (map tick_volume g), bar_tick_count = int (length g), bar_is_complete = fin\<rparr>"

lemma aggregate_timestamp [simp]: "bar_timestamp (aggregate smb tf start fin g) = start"
  by (simp add: aggregate_def)

lemma map_butlast_last: "xs \<noteq> [] \<Longrightarrow> map f (butlast xs) @ [f (last xs)] = map f xs"
  by (metis append_butlast_last_id list.simps(8,9) map_append)

lemma aggregate_single:
  "update_with_tick (mid t) (tick_volume t) (empty_bar smb tf start) = aggregate smb tf start False [t]"
  by (simp add: update_with_tick_def empty_bar_def aggregate_def)

lemma aggregate_more:
  assumes "g \<noteq> []" and "mid (hd g) \<noteq> 0"
  shows "update_with_tick (mid t) (tick_volume t) (aggregate smb tf start False g) = aggregate smb tf start False (g @ [t])"
  using assms by (simp add: update_with_tick_def aggregate_def max.commute min.commute)

lemma aggregate_complete:
  "(aggregate smb tf start False g)\<lparr>bar_is_complete := True\<rparr> = aggregate smb tf start True g"
  by (simp add: aggregate_def)

definition last_n :: "nat \<Rightarrow> 'a list \<Rightarrow> 'a list" where
  "last_n n xs = drop (length xs - n) xs"

lemma deque_push_last_n: "deque_push n (last_n n xs) x = last_n n (xs @ [x])"
  by (cases "n \<le> length xs") (auto simp: deque_push_def last_n_def Suc_diff_le)

text \<open>The bars of one symbol and timeframe after the ticks \<open>ts\<close>: all runs but the last are archived.\<close>

definition bars_of :: "string \<Rightarrow> string \<Rightarrow> int \<Rightarrow> nat \<Rightarrow> tick_data list \<Rightarrow> bar list \<times> bar option" where
  "bars_of smb tf m n ts =
     (let start = (\<lambda>t. period_start m (tick_timestamp t)); gs = runs start ts in
      (last_n n (map (\<lambda>g. aggregate smb tf (start (hd g)) True g) (butlast gs)),
       if gs = [] then None else Some (aggregate smb tf (start (hd (last gs))) False (last gs))))"

lemma tick_view_bars_of:
  assumes "\<forall>t\<in>set (ts @ [t]). mid t \<noteq> 0"
  shows "tick_view n smb tf (period_start m (tick_timestamp t)) t (bars_of smb tf m n ts) = bars_of smb tf m n (ts @ [t])"
proof -
  let ?f = "\<lambda>t. period_start m (tick_timestamp t)"
  consider (first) "ts = []" | (new) "ts \<noteq> []" "?f (hd (last (runs ?f ts))) \<noteq> ?f t"
    | (same) "ts \<noteq> []" "?f (hd (last (runs ?f ts))) = ?f t" by blast
  then show ?thesis
  proof cases
    case first
    then show ?thesis by (simp add: bars_of_def tick_view_def aggregate_single last_n_def)
  next
    case new
    then show ?thesis
      by (simp add: bars_of_def tick_view_def add_run_def aggregate_single aggregate_complete deque_push_last_n Let_def)
         (subst map_butlast_last [of "runs _ ts" "\<lambda>g. aggregate smb tf (?f (hd g)) True g"], simp_all)
  next
    case same
    let ?g = "last (runs ?f ts)"
    have g: "?g \<in> set (runs ?f ts)" "?g \<noteq> []" using same(1) runs_nonempty [of ?g ?f ts] by simp_all
    then have "hd ?g \<in> set ts" using concat_runs [of ?f ts] by (metis UN_I hd_in_set set_concat)
    with assms have "mid (hd ?g) \<noteq> 0" by simp
    from aggregate_more [OF g(2) this, of t smb tf "?f t"] g(2) same show ?thesis
      by (simp add: bars_of_def tick_view_def add_run_def Let_def)
  qed
qed

text \<open>A run of the renderer over a tick stream of any symbols.\<close>

definition render :: "string list \<Rightarrow> tick_data list \<Rightarrow> bar_renderer \<Rightarrow> bar_renderer res" where
  "render tfs = fold_res (\<lambda>t r. bind_res (update_current_bars t tfs r) (\<lambda>(bs, cs, r'). Inr r'))"

lemma new_renderer_ok: "renderer_ok (new_renderer n)" "bars_view (new_renderer n) tf s = ([], None)"
  by (simp_all add: renderer_ok_def cache_ok_def new_renderer_def bars_view_def get_current_bar_def get_bar_history_def
      get2_def get_default_def)

lemma render_bars:
  assumes "\<And>tf. tf \<in> set tfs \<Longrightarrow> get_minutes tf = Inr (mins tf)" and "distinct tfs" and "\<forall>t\<in>set ts. mid t \<noteq> 0"
  obtains r where "render tfs ts (new_renderer n) = Inr r" "renderer_ok r" "max_history r = n"
    "\<And>tf s. tf \<in> set tfs \<Longrightarrow> bars_view r tf s = bars_of s tf (mins tf) n (filter (\<lambda>t. tick_symbol t = s) ts)"
proof -
  have "\<exists>r. render tfs ts (new_renderer n) = Inr r \<and> renderer_ok r \<and> max_history r = n \<and>
      (\<forall>tf s. tf \<in> set tfs \<longrightarrow> bars_view r tf s = bars_of s tf (mins tf) n (filter (\<lambda>t. tick_symbol t = s) ts))"
    using assms(3)
  proof (induction ts rule: rev_induct)
    case Nil
    show ?case by (simp add: render_def new_renderer_ok bars_of_def last_n_def) (simp add: new_renderer_def)
  next
    case (snoc t ts)
    then obtain r where r: "render tfs ts (new_renderer n) = Inr r" "renderer_ok r" "max_history r = n"
      "\<And>tf s. tf \<in> set tfs \<Longrightarrow> bars_view r tf s = bars_of s tf (mins tf) n (filter (\<lambda>t. tick_symbol t = s) ts)" by auto
    from r(2) assms(1,2) obtain bs cs r' where u: "update_timeframes t tfs r = Inr (bs, cs, r')" "renderer_ok r'"
      "max_history r' = max_history r"
      and v: "\<And>tf s. bars_view r' tf s =
        (if tf \<in> set tfs \<and> s = tick_symbol t
         then tick_view (max_history r) s tf (period_start (mins tf) (tick_timestamp t)) t (bars_view r tf s)
         else bars_view r tf s)"
      by (rule update_timeframes_spec [where t = t]) blast+
    let ?r = "r'\<lparr>last_tick_time := Some (tick_timestamp t)\<rparr>"
    have keep: "renderer_ok ?r" "bars_view ?r tf s = bars_view r' tf s" for tf s
      using u(2) by (simp_all add: renderer_ok_def cache_ok_def bars_view_def get_current_bar_def get_bar_history_def)
    have "render tfs (ts @ [t]) (new_renderer n) = Inr ?r"
      using r(1) u(1) by (simp add: render_def fold_res_append update_current_bars_def)
    moreover have "bars_view ?r tf s = bars_of s tf (mins tf) n (filter (\<lambda>t. tick_symbol t = s) (ts @ [t]))"
      if "tf \<in> set tfs" for tf s
    proof (cases "s = tick_symbol t")
      case True
      have nz: "\<forall>u\<in>set (filter (\<lambda>t. tick_symbol t = s) ts @ [t]). mid u \<noteq> 0" using snoc.prems by auto
      from tick_view_bars_of [OF nz, of n s tf "mins tf"] True that show ?thesis by (simp add: keep v r)
    next
      case False
      with that show ?thesis by (simp add: keep v r)
    qed
    ultimately show ?case using keep u(3) r(3) by auto
  qed
  with that show ?thesis by blast
qed

section \<open>The controller's cache\<close>

definition history_coherent :: "string \<Rightarrow> bar_controller \<Rightarrow> bool" where
  "history_coherent smb c \<longleftrightarrow>
     (\<forall>tf h. map_of (cached_bar_history c) tf = Some h \<and> get_default False (cache_valid_per_timeframe c) tf \<longrightarrow>
        h = get_bar_history smb tf (bar_rend c))"

definition controller_inv :: "string \<Rightarrow> bar_controller \<Rightarrow> bool" where
  "controller_inv smb c \<longleftrightarrow>
     renderer_ok (bar_rend c) \<and> distinct (required_timeframes c) \<and>
     (\<forall>tf\<in>set (required_timeframes c). timeframe_exists tf) \<and> history_coherent smb c"

lemma fold_note_closed:
  "bar_rend (fold note_closed cs c) = bar_rend c"
  "required_timeframes (fold note_closed cs c) = required_timeframes c"
  "cached_bar_history (fold note_closed cs c) = cached_bar_history c"
  "get_default False (cache_valid_per_timeframe (fold note_closed cs c)) tf \<longleftrightarrow>
     get_default False (cache_valid_per_timeframe c) tf \<and> (tf, True) \<notin> set cs"
  "set (pending_closed_timeframes (fold note_closed cs c)) = set (pending_closed_timeframes c) \<union> {tf. (tf, True) \<in> set cs}"
  by (induction cs arbitrary: c) (auto simp: note_closed_def dict_simps split: if_splits)

lemma bars_process_tick_spec:
  assumes "controller_inv smb c"
  obtains bs c' where "bars_process_tick t c = Inr (bs, c')" "controller_inv smb c'"
    "required_timeframes c' = required_timeframes c"
    "set (pending_closed_timeframes c') = set (pending_closed_timeframes c) \<union>
       {tf \<in> set (required_timeframes c). \<exists>m. get_minutes tf = Inr m \<and>
          closes_bar (bar_rend c) tf (tick_symbol t) (period_start m (tick_timestamp t))}"
proof -
  define mins where "mins tf = projr (get_minutes tf)" for tf
  from assms have ok: "renderer_ok (bar_rend c)" and d: "distinct (required_timeframes c)"
    and known: "\<And>tf. tf \<in> set (required_timeframes c) \<Longrightarrow> get_minutes tf = Inr (mins tf)"
    by (auto simp: controller_inv_def get_minutes_exists mins_def)
  from ok known d obtain bs cs r where u: "update_timeframes t (required_timeframes c) (bar_rend c) = Inr (bs, cs, r)"
    and okr: "renderer_ok r" and "max_history r = max_history (bar_rend c)"
    and v: "\<And>tf s. bars_view r tf s =
        (if tf \<in> set (required_timeframes c) \<and> s = tick_symbol t
         then tick_view (max_history (bar_rend c)) s tf (period_start (mins tf) (tick_timestamp t)) t (bars_view (bar_rend c) tf s)
         else bars_view (bar_rend c) tf s)"
    and cs: "cs = map (\<lambda>tf. (tf, closes_bar (bar_rend c) tf (tick_symbol t) (period_start (mins tf) (tick_timestamp t))))
       (required_timeframes c)"
    by (rule update_timeframes_spec [where t = t]) (assumption, rule that, assumption+)
  let ?r = "r\<lparr>last_tick_time := Some (tick_timestamp t)\<rparr>"
  let ?c = "fold note_closed cs (c\<lparr>bar_rend := ?r\<rparr>)"
  have hist: "get_bar_history smb tf ?r = get_bar_history smb tf (bar_rend c)" if "(tf, True) \<notin> set cs" for tf
    using v [of tf smb] that
    by (auto simp: bars_view_def tick_view_def closes_bar_def cs get_bar_history_def get_current_bar_def
        split: if_splits option.splits)
  have "renderer_ok ?r" using okr by (simp add: renderer_ok_def cache_ok_def get_current_bar_def)
  with assms hist have "controller_inv smb ?c"
    by (auto simp: controller_inv_def history_coherent_def fold_note_closed)
  moreover have "bars_process_tick t c = Inr (bs, ?c)" by (simp add: bars_process_tick_def update_current_bars_def u)
  moreover have "set (pending_closed_timeframes ?c) = set (pending_closed_timeframes c) \<union>
       {tf \<in> set (required_timeframes c). \<exists>m. get_minutes tf = Inr m \<and>
          closes_bar (bar_rend c) tf (tick_symbol t) (period_start m (tick_timestamp t))}"
    using known by (auto simp: fold_note_closed cs)
  ultimately show ?thesis using that by (simp add: fold_note_closed)
qed

lemma all_history_spec:
  assumes "history_coherent smb c"
  shows "fst (all_history smb tfs c) = map (\<lambda>tf. (tf, get_bar_history smb tf (bar_rend c))) tfs \<and>
    history_coherent smb (snd (all_history smb tfs c)) \<and> bar_rend (snd (all_history smb tfs c)) = bar_rend c \<and>
    required_timeframes (snd (all_history smb tfs c)) = required_timeframes c"
  using assms
proof (induction tfs arbitrary: c)
  case (Cons tf tfs)
  obtain h c1 where h: "cached_history smb tf c = (h, c1)" by (cases "cached_history smb tf c")
  with Cons.prems have one: "h = get_bar_history smb tf (bar_rend c)" "history_coherent smb c1" "bar_rend c1 = bar_rend c"
    "required_timeframes c1 = required_timeframes c"
    by (auto simp: cached_history_def history_coherent_def Let_def dict_simps split: option.splits if_splits)
  with Cons.IH [OF one(2)] h show ?case by (simp add: case_prod_beta Let_def)
qed simp

lemma initialize_history_frame:
  "get_current_bar s tf (initialize_historical_bars smb tf' bs r) = get_current_bar s tf r"
  "renderer_ok (initialize_historical_bars smb tf' bs r) = renderer_ok r"
  "tf \<noteq> tf' \<Longrightarrow> get_bar_history s tf (initialize_historical_bars smb tf' bs r) = get_bar_history s tf r"
  by (simp_all add: initialize_historical_bars_def get_current_bar_def renderer_ok_def cache_ok_def get_bar_history_def)

lemma controller_inv_inject: "controller_inv smb c \<Longrightarrow> controller_inv smb (inject_warmup_bars smb' w c)"
proof -
  assume inv: "controller_inv smb c"
  have one: "controller_inv smb (inject_timeframe smb' e c)" if "controller_inv smb c" for e c
    using that by (auto simp: inject_timeframe_def controller_inv_def history_coherent_def initialize_history_frame dict_simps
        split: prod.splits if_splits)
  have "controller_inv smb (fold (inject_timeframe smb') w c)" if "controller_inv smb c" for c
    using that by (induction w arbitrary: c) (simp_all add: one)
  moreover have "controller_inv smb (c\<lparr>warmup_data := w\<rparr>)"
    using inv by (simp add: controller_inv_def history_coherent_def)
  ultimately show ?thesis by (simp add: inject_warmup_bars_def)
qed

inductive bars_step :: "string \<Rightarrow> bar_controller \<Rightarrow> bar_controller \<Rightarrow> bool" for smb where
  bars_tick: "bars_process_tick t c = Inr (bs, c') \<Longrightarrow> bars_step smb c c'"
| bars_consume: "bars_step smb c (snd (consume_bar_render_state c))"
| bars_history: "bars_step smb c (snd (get_all_bar_history smb c))"
| bars_inject: "bars_step smb c (inject_warmup_bars smb' warmup c)"

definition controller_fresh :: "bar_controller \<Rightarrow> bool" where
  "controller_fresh c \<longleftrightarrow>
     (\<exists>n workers. list_all timeframe_exists (concat workers) \<and> c = register_workers workers (new_controller n))"

lemma controller_inv_step: "bars_step smb c c' \<Longrightarrow> controller_inv smb c \<Longrightarrow> controller_inv smb c'"
proof (induction rule: bars_step.induct)
  case (bars_tick t c bs c')
  from bars_tick.prems show ?case
    by (rule bars_process_tick_spec [where t = t]) (use bars_tick.hyps in simp)
next
  case (bars_history c)
  then show ?case
    using all_history_spec [of smb c "required_timeframes c"]
    by (auto simp: get_all_bar_history_def controller_inv_def)
next
  case (bars_inject c smb' warmup)
  then show ?case by (rule controller_inv_inject)
qed (simp add: consume_bar_render_state_def controller_inv_def history_coherent_def)

interpretation bars_machine: invariant_machine controller_fresh "bars_step smb" "controller_inv smb"
proof
  show "controller_inv smb c" if "controller_fresh c" for c
    using that new_renderer_ok
    by (auto simp: controller_fresh_def controller_inv_def history_coherent_def register_workers_def new_controller_def
        get_required_timeframes_def get_default_def list_all_iff)
qed (rule controller_inv_step)

text \<open>The cache is keyed by timeframe only: a second symbol is served the first one's bars.\<close>

lemma all_history_cached:
  assumes "\<forall>tf\<in>set tfs. map_of (cached_bar_history c) tf = Some (h tf) \<and> get_default False (cache_valid_per_timeframe c) tf"
  shows "all_history smb tfs c = (map (\<lambda>tf. (tf, h tf)) tfs, c)"
  using assms by (induction tfs) (auto simp: cached_history_def)

lemma all_history_fills:
  "fst (all_history smb tfs c) = map (\<lambda>tf. (tf, the (map_of (cached_bar_history (snd (all_history smb tfs c))) tf))) tfs \<and>
   (\<forall>tf\<in>set tfs. map_of (cached_bar_history (snd (all_history smb tfs c))) tf \<noteq> None \<and>
      get_default False (cache_valid_per_timeframe (snd (all_history smb tfs c))) tf) \<and>
   (\<forall>tf h. map_of (cached_bar_history c) tf = Some h \<and> get_default False (cache_valid_per_timeframe c) tf \<longrightarrow>
      map_of (cached_bar_history (snd (all_history smb tfs c))) tf = Some h \<and>
      get_default False (cache_valid_per_timeframe (snd (all_history smb tfs c))) tf)"
proof (induction tfs arbitrary: c)
  case (Cons tf tfs)
  obtain h c1 where h: "cached_history smb tf c = (h, c1)" by (cases "cached_history smb tf c")
  then have one: "map_of (cached_bar_history c1) tf = Some h" "get_default False (cache_valid_per_timeframe c1) tf"
    "\<And>x y. map_of (cached_bar_history c) x = Some y \<Longrightarrow> get_default False (cache_valid_per_timeframe c) x \<Longrightarrow>
       map_of (cached_bar_history c1) x = Some y \<and> get_default False (cache_valid_per_timeframe c1) x"
    by (auto simp: cached_history_def Let_def dict_simps split: option.splits if_splits)
  with Cons.IH [of c1] h show ?case by (auto simp: case_prod_beta Let_def)
qed simp

lemma history_ignores_symbol:
  "fst (get_all_bar_history s2 (snd (get_all_bar_history s1 c))) = fst (get_all_bar_history s1 c)"
proof -
  define c' where "c' = snd (get_all_bar_history s1 c)"
  have req: "required_timeframes c' = required_timeframes c"
  proof -
    have "required_timeframes (snd (all_history s1 tfs c)) = required_timeframes c" for tfs
      by (induction tfs arbitrary: c)
         (auto simp: case_prod_beta Let_def cached_history_def split: option.splits)
    then show ?thesis by (simp add: c'_def get_all_bar_history_def)
  qed
  have e: "fst (get_all_bar_history s1 c) = map (\<lambda>tf. (tf, the (map_of (cached_bar_history c') tf))) (required_timeframes c)"
    and "\<forall>tf\<in>set (required_timeframes c). map_of (cached_bar_history c') tf = Some (the (map_of (cached_bar_history c') tf)) \<and>
      get_default False (cache_valid_per_timeframe c') tf"
    using all_history_fills [of s1 "required_timeframes c" c] by (auto simp: c'_def get_all_bar_history_def)
  from all_history_cached [OF this(2), of s2] have "fst (get_all_bar_history s2 c') = fst (get_all_bar_history s1 c)"
    by (simp add: e) (simp add: get_all_bar_history_def req)
  then show ?thesis by (simp add: c'_def)
qed

section \<open>Streams of ticks\<close>

definition run_controller :: "tick_data list \<Rightarrow> bar_controller \<Rightarrow> bar_controller res" where
  "run_controller = fold_res (\<lambda>t c. bind_res (bars_process_tick t c) (\<lambda>(bs, c'). Inr c'))"

lemma run_controller_reachable:
  assumes "reachable controller_fresh (bars_step smb) c" and "run_controller ts c = Inr c'"
  shows "reachable controller_fresh (bars_step smb) c'"
  using assms(2,1) unfolding run_controller_def
  by (rule fold_res_inv) (auto intro: reachable.reach_step bars_tick)

end
