(* ===== verification/Trading_Math.thy ===== *)
theory Trading_Math
  imports Trading_Types
begin

text \<open>
  The arithmetic kernel: Python's \<open>round\<close> and \<open>%\<close> on floats (here on rationals), the P\&L conversion
  (\<^verbatim>\<open>utils/trading_math/pnl_math.py\<close>), the pip unit (\<^verbatim>\<open>pip_math.py\<close>) and the normalisation helpers
  (\<^verbatim>\<open>normalizer.py\<close>), with the order and linearity facts the portfolio proofs use.
\<close>

section \<open>Definitions\<close>

text \<open>\<open>round(x, n)\<close>: nearest multiple of \<open>10 ** -n\<close>, ties to the even neighbour.\<close>

definition round_half_even :: "rat \<Rightarrow> int" where
  "round_half_even x =
     (let f = \<lfloor>x\<rfloor>; d = x - of_int f
      in if d < 1/2 then f else if 1/2 < d then f + 1 else if even f then f else f + 1)"

definition py_round :: "rat \<Rightarrow> nat \<Rightarrow> rat" where
  "py_round x n = of_int (round_half_even (x * 10 ^ n)) / 10 ^ n"

text \<open>\<open>a % b\<close> for a positive divisor.\<close>

definition py_mod :: "rat \<Rightarrow> rat \<Rightarrow> rat" where
  "py_mod a b = a - b * of_int \<lfloor>a / b\<rfloor>"

definition gross_pnl_from_price_diff :: "price \<Rightarrow> nat \<Rightarrow> rat \<Rightarrow> lots \<Rightarrow> money" where
  "gross_pnl_from_price_diff price_diff digits tick_value l =
     (let points = price_diff * 10 ^ digits in points * tick_value * l)"

definition derive_pip_size :: "price \<Rightarrow> nat \<Rightarrow> pip_mode \<Rightarrow> price" where
  "derive_pip_size ts digits m =
     (if m = TICK then ts else if digits = 3 \<or> digits = 5 then ts * 10 else ts)"

definition unit_label :: "pip_mode \<Rightarrow> string" where
  "unit_label m = (if m = FRACTIONAL_PIP then ''pip'' else ''tick'')"

definition rescale :: "rat \<Rightarrow> rat \<Rightarrow> rat \<Rightarrow> rat" where
  "rescale v lower upper = (if upper \<le> lower then 1/2 else (v - lower) / (upper - lower))"

definition clamp :: "rat \<Rightarrow> rat \<Rightarrow> rat \<Rightarrow> rat" where
  "clamp x low high = max low (min high x)"

definition normalize_scale :: "rat \<Rightarrow> rat \<Rightarrow> rat" where
  "normalize_scale v scale = (if scale \<le> 0 then 0 else v / scale)"

section \<open>Rounding\<close>

lemma round_half_even_of_int [simp]: "round_half_even (of_int k) = k"
  by (simp add: round_half_even_def)

lemma round_half_even_bounds:
  "of_int (round_half_even x) \<le> x + 1/2 \<and> x \<le> of_int (round_half_even x) + 1/2"
proof -
  define f :: rat where "f = of_int \<lfloor>x\<rfloor>"
  have "f \<le> x" and "x < f + 1" unfolding f_def by linarith+
  then show ?thesis by (auto simp: round_half_even_def Let_def f_def [symmetric])
qed

lemma round_half_even_mono:
  assumes "x \<le> y"
  shows "round_half_even x \<le> round_half_even y"
proof (rule ccontr)
  assume "\<not> ?thesis"
  then have gt: "of_int (round_half_even y) + 1 \<le> (of_int (round_half_even x) :: rat)"
    by (metis add1_zle_eq linorder_not_le of_int_1 of_int_add of_int_le_iff)
  from gt assms round_half_even_bounds [of x] round_half_even_bounds [of y]
  have "x = y" by linarith
  with \<open>\<not> ?thesis\<close> show False by simp
qed

lemma py_round_error: "\<bar>py_round x n - x\<bar> \<le> 1 / (2 * 10 ^ n)"
proof -
  let ?k = "of_int (round_half_even (x * 10 ^ n)) :: rat"
  have "\<bar>?k - x * 10 ^ n\<bar> \<le> 1/2"
    using round_half_even_bounds [of "x * 10 ^ n"] by linarith
  moreover have "py_round x n - x = (?k - x * 10 ^ n) / 10 ^ n"
    by (simp add: py_round_def field_simps)
  ultimately have "\<bar>py_round x n - x\<bar> = \<bar>?k - x * 10 ^ n\<bar> / 10 ^ n" and "\<bar>?k - x * 10 ^ n\<bar> \<le> 1/2"
    by (simp_all add: abs_divide)
  then have "\<bar>py_round x n - x\<bar> \<le> (1/2) / 10 ^ n"
    by (simp only: divide_right_mono zero_le_power zero_le_numeral)
  then show ?thesis by simp
qed

lemma py_round_exact: "x * 10 ^ n = of_int k \<Longrightarrow> py_round x n = x"
  by (metis py_round_def round_half_even_of_int nonzero_mult_div_cancel_right power_not_zero
      zero_neq_numeral)

lemma py_round_idem [simp]: "py_round (py_round x n) n = py_round x n"
  by (rule py_round_exact [where k = "round_half_even (x * 10 ^ n)"]) (simp add: py_round_def)

lemma py_round_mono: "x \<le> y \<Longrightarrow> py_round x n \<le> py_round y n"
  by (simp add: py_round_def divide_right_mono round_half_even_mono mult_right_mono)

lemma py_mod_bounds:
  assumes "0 < b"
  shows "0 \<le> py_mod a b \<and> py_mod a b < b"
proof -
  have "of_int \<lfloor>a / b\<rfloor> \<le> a / b" and "a / b < of_int \<lfloor>a / b\<rfloor> + 1" by linarith+
  with assms have "of_int \<lfloor>a / b\<rfloor> * b \<le> a" and "a < (of_int \<lfloor>a / b\<rfloor> + 1) * b"
    by (simp only: pos_le_divide_eq, simp only: pos_divide_less_eq)
  then show ?thesis by (simp add: py_mod_def algebra_simps)
qed

section \<open>P\&L conversion\<close>

lemma gross_pnl_alt:
  "gross_pnl_from_price_diff d n tv l = d * (10 ^ n * tv * l)"
  by (simp add: gross_pnl_from_price_diff_def)

lemma gross_pnl_zero [simp]: "gross_pnl_from_price_diff 0 n tv l = 0"
  by (simp add: gross_pnl_alt)

lemma gross_pnl_lots_split:
  "gross_pnl_from_price_diff d n tv (l1 + l2) =
   gross_pnl_from_price_diff d n tv l1 + gross_pnl_from_price_diff d n tv l2"
  by (simp add: gross_pnl_alt algebra_simps)

lemma gross_pnl_scale:
  "gross_pnl_from_price_diff d n tv (c * l) = c * gross_pnl_from_price_diff d n tv l"
  by (simp add: gross_pnl_alt)

lemma gross_pnl_neg: "gross_pnl_from_price_diff (- d) n tv l = - gross_pnl_from_price_diff d n tv l"
  by (simp add: gross_pnl_alt)

lemma gross_pnl_nonneg:
  "0 \<le> d \<Longrightarrow> 0 \<le> tv \<Longrightarrow> 0 \<le> l \<Longrightarrow> 0 \<le> gross_pnl_from_price_diff d n tv l"
  by (simp add: gross_pnl_alt)

text \<open>On an instrument whose point is worth one unit of the quote currency per price unit
  (\<open>tick_size * contract_size * 10 ** digits = contract_size\<close>), the P\&L is the price move times the
  traded volume.\<close>

lemma gross_pnl_unit_point:
  "10 ^ n * tv = c \<Longrightarrow> gross_pnl_from_price_diff d n tv l = d * (c * l)"
  by (simp add: gross_pnl_alt)

section \<open>Normalisation\<close>

lemma clamp_bounds: "low \<le> high \<Longrightarrow> low \<le> clamp x low high \<and> clamp x low high \<le> high"
  by (simp add: clamp_def)

lemma clamp_inside: "low \<le> x \<Longrightarrow> x \<le> high \<Longrightarrow> clamp x low high = x"
  by (simp add: clamp_def)

lemma rescale_unit_interval:
  "lower \<le> v \<Longrightarrow> v \<le> upper \<Longrightarrow> 0 \<le> rescale v lower upper \<and> rescale v lower upper \<le> 1"
  by (auto simp: rescale_def divide_simps)

end
