(* ===== verification/Order_Guard.thy ===== *)
theory Order_Guard
  imports Trading_Types Trading_Math
begin

text \<open>
  The pre-trade guard of \<open>src/python/framework/trading_env/order_guard.py\<close>: a rejection cooldown per
  direction and a block on new entries while market data is stale. Instants are microseconds, as
  \<open>datetime\<close> keeps them; \<open>timedelta(seconds=x)\<close> rounds to the nearest microsecond, ties to even. The hex
  digits of \<open>uuid4\<close> are an argument of \<open>validate\<close>.
\<close>

section \<open>State and operations\<close>

record order_guard =
  cooldown_seconds :: rat
  max_consecutive_rejections :: int
  block_stale_market_data :: bool
  rejection_counts :: "(order_direction, int) dict"
  cooldown_until :: "(order_direction, instant) dict"

definition new_guard :: "rat \<Rightarrow> int \<Rightarrow> bool \<Rightarrow> order_guard" where
  "new_guard secs mx stale =
     \<lparr>cooldown_seconds = secs, max_consecutive_rejections = mx, block_stale_market_data = stale,
      rejection_counts = [], cooldown_until = []\<rparr>"

definition make_order_id :: "string \<Rightarrow> string" where
  "make_order_id hex = ''guard_'' @ take 8 hex"

definition is_direction_blocked :: "order_direction \<Rightarrow> instant \<Rightarrow> order_guard \<Rightarrow> bool" where
  "is_direction_blocked d now g = (case map_of (cooldown_until g) d of None \<Rightarrow> False | Some u \<Rightarrow> u > now)"

definition validate ::
  "string \<Rightarrow> open_order_request \<Rightarrow> instant \<Rightarrow> market_data_status option \<Rightarrow> order_guard \<Rightarrow> order_result option" where
  "validate hex rq now st g =
     (if block_stale_market_data g \<and> (case st of None \<Rightarrow> False | Some m \<Rightarrow> is_stale m)
      then Some (create_rejection_result (make_order_id hex) STALE_MARKET_DATA)
      else case map_of (cooldown_until g) (rq_direction rq) of
        Some u \<Rightarrow>
          if u > now then Some (create_rejection_result (make_order_id hex) REJECTION_COOLDOWN) else None
      | None \<Rightarrow> None)"

definition cooldown_usec :: "order_guard \<Rightarrow> int" where
  "cooldown_usec g = round_half_even (cooldown_seconds g * 1000000)"

definition record_rejection :: "order_direction \<Rightarrow> instant \<Rightarrow> order_guard \<Rightarrow> order_guard" where
  "record_rejection d now g =
     (let count = get_default 0 (rejection_counts g) d + 1;
          g1 = g\<lparr>rejection_counts := AList.update d count (rejection_counts g)\<rparr>
      in if count \<ge> max_consecutive_rejections g
         then g1\<lparr>cooldown_until := AList.update d (now + cooldown_usec g) (cooldown_until g)\<rparr>
         else g1)"

definition record_success :: "order_direction \<Rightarrow> order_guard \<Rightarrow> order_guard" where
  "record_success d g =
     g\<lparr>rejection_counts := AList.update d 0 (rejection_counts g),
       cooldown_until := AList.delete d (cooldown_until g)\<rparr>"

section \<open>The guard as a function of the outcome history\<close>

text \<open>
  The specification needs no dictionary: what matters for a direction is the streak of rejections
  since its last success, newest first.
\<close>

datatype guard_event = Rejected order_direction instant | Succeeded order_direction

fun apply_event :: "guard_event \<Rightarrow> order_guard \<Rightarrow> order_guard" where
  "apply_event (Rejected d t) g = record_rejection d t g"
| "apply_event (Succeeded d) g = record_success d g"

definition run_guard :: "guard_event list \<Rightarrow> order_guard \<Rightarrow> order_guard" where
  "run_guard evs g = fold apply_event evs g"

fun streak :: "order_direction \<Rightarrow> guard_event list \<Rightarrow> instant list" where
  "streak d [] = []"
| "streak d (Rejected e t # newer) = (if d = e then t # streak d newer else streak d newer)"
| "streak d (Succeeded e # newer) = (if d = e then [] else streak d newer)"

definition cooldown_spec :: "rat \<Rightarrow> int \<Rightarrow> instant list \<Rightarrow> instant option" where
  "cooldown_spec secs mx ts =
     (case ts of [] \<Rightarrow> None
      | t # _ \<Rightarrow> if int (length ts) \<ge> mx then Some (t + round_half_even (secs * 1000000)) else None)"

definition guard_matches :: "rat \<Rightarrow> int \<Rightarrow> bool \<Rightarrow> guard_event list \<Rightarrow> order_guard \<Rightarrow> bool" where
  "guard_matches secs mx stale newest_first g \<longleftrightarrow>
     cooldown_seconds g = secs \<and> max_consecutive_rejections g = mx \<and> block_stale_market_data g = stale \<and>
     (\<forall>d. get_default 0 (rejection_counts g) d = int (length (streak d newest_first)) \<and>
          map_of (cooldown_until g) d = cooldown_spec secs mx (streak d newest_first))"

lemma guard_matches_new: "guard_matches secs mx stale [] (new_guard secs mx stale)"
  by (simp add: guard_matches_def new_guard_def cooldown_spec_def get_default_def)

text \<open>A streak long enough to block stays long enough: each further rejection only re-arms.\<close>

lemma guard_matches_event:
  assumes "guard_matches secs mx stale evs g"
  shows "guard_matches secs mx stale (ev # evs) (apply_event ev g)"
proof (cases ev)
  case (Rejected d t)
  with assms show ?thesis
    by (auto simp: guard_matches_def record_rejection_def cooldown_spec_def Let_def dict_simps cooldown_usec_def
        split: list.splits)
next
  case (Succeeded d)
  with assms show ?thesis
    by (auto simp: guard_matches_def record_success_def cooldown_spec_def dict_simps split: list.splits)
qed

lemma guard_matches_run:
  "guard_matches secs mx stale old g \<Longrightarrow> guard_matches secs mx stale (rev evs @ old) (run_guard evs g)"
  unfolding run_guard_def
  by (induction evs arbitrary: g old) (auto dest: guard_matches_event)

lemma run_guard_spec: "guard_matches secs mx stale (rev evs) (run_guard evs (new_guard secs mx stale))"
  using guard_matches_run [OF guard_matches_new, of secs mx stale evs] by simp

section \<open>What \<open>validate\<close> decides\<close>

lemma validate_None_iff:
  "validate hex rq now st g = None \<longleftrightarrow>
     \<not> (block_stale_market_data g \<and> (\<exists>m. st = Some m \<and> is_stale m)) \<and> \<not> is_direction_blocked (rq_direction rq) now g"
  by (auto simp: validate_def is_direction_blocked_def split: option.splits)

lemma validate_Some:
  assumes "validate hex rq now st g = Some r"
  shows "or_status r = OS_REJECTED" and "or_rejection_reason r \<in> {Some STALE_MARKET_DATA, Some REJECTION_COOLDOWN}"
    and "or_order_id r = make_order_id hex"
  using assms
  by (auto simp: validate_def create_rejection_result_def blank_result_def split: if_splits option.splits)

lemma blocked_after:
  assumes "guard_matches secs mx stale evs g"
  shows "is_direction_blocked d now g \<longleftrightarrow>
    (\<exists>t ts. streak d evs = t # ts \<and> int (length (streak d evs)) \<ge> mx \<and> now < t + round_half_even (secs * 1000000))"
proof -
  from assms have "map_of (cooldown_until g) d = cooldown_spec secs mx (streak d evs)"
    by (simp add: guard_matches_def)
  then show ?thesis
    by (cases "streak d evs") (auto simp: is_direction_blocked_def cooldown_spec_def)
qed

text \<open>The machine of guard states, for embedding into the trading interface.\<close>

inductive guard_step :: "order_guard \<Rightarrow> order_guard \<Rightarrow> bool" where
  guard_rejected: "guard_step g (record_rejection d t g)"
| guard_succeeded: "guard_step g (record_success d g)"

definition guard_fresh :: "order_guard \<Rightarrow> bool" where
  "guard_fresh g \<longleftrightarrow> (\<exists>secs mx stale. g = new_guard secs mx stale)"

definition guard_inv :: "order_guard \<Rightarrow> bool" where
  "guard_inv g \<longleftrightarrow>
     (\<exists>evs. guard_matches (cooldown_seconds g) (max_consecutive_rejections g) (block_stale_market_data g) evs g)"

interpretation guard_machine: invariant_machine guard_fresh guard_step guard_inv
proof
  show "guard_inv g" if "guard_fresh g" for g
    using that guard_matches_new by (fastforce simp: guard_fresh_def guard_inv_def new_guard_def)
next
  fix g g'
  assume "guard_inv g" "guard_step g g'"
  then obtain evs ev where m: "guard_matches (cooldown_seconds g) (max_consecutive_rejections g) (block_stale_market_data g) evs g"
    and ev: "g' = apply_event ev g"
    by (auto simp: guard_inv_def elim!: guard_step.cases) (metis apply_event.simps)+
  from guard_matches_event [OF m, of ev] show "guard_inv g'"
    by (auto simp: guard_inv_def guard_matches_def ev)
qed

end
