(* ===== verification/Broker.thy ===== *)
theory Broker
  imports Trading_Math
begin

text \<open>
  The broker layer the executors read: \<^verbatim>\<open>trading_env/broker_config.py\<close> and the configuration-driven
  part of \<^verbatim>\<open>adapters/abstract_adapter.py\<close>, \<^verbatim>\<open>adapters/mt5_adapter.py\<close> and
  \<^verbatim>\<open>adapters/kraken_adapter.py\<close>: configuration validation, symbol specifications, lot validation,
  margin, capabilities and the pip unit. The JSON configuration is a record with one optional field
  per key the code reads; the memoisation of specifications in \<open>BrokerConfig\<close> is transparent and not
  modelled. The network side of the adapters is outside this theory.
\<close>

section \<open>Configuration\<close>

datatype adapter_kind = MT5 | KRAKEN

record raw_symbol =
  raw_description :: "string option"
  raw_volume_min :: "lots option"
  raw_volume_max :: "lots option"
  raw_volume_step :: "lots option"
  raw_volume_limit :: "lots option"
  raw_tick_size :: "price option"
  raw_digits :: "nat option"
  raw_contract_size :: "rat option"
  raw_base_currency :: "string option"
  raw_quote_currency :: "string option"
  raw_margin_currency :: "string option"
  raw_trade_allowed :: "bool option"
  raw_swap_mode :: "string option"
  raw_swap_long :: "rat option"
  raw_swap_short :: "rat option"
  raw_swap_rollover3days :: "int option"
  raw_stops_level :: "int option"
  raw_freeze_level :: "int option"

record raw_broker_info =
  bi_company :: "string option"
  bi_server :: "string option"
  bi_trade_mode :: "string option"
  bi_leverage :: "int option"
  bi_hedging_allowed :: "bool option"
  bi_margin_mode :: "string option"
  bi_stopout_level :: "rat option"
  bi_margin_call_level :: "rat option"

record raw_fee_structure =
  fs_model :: "string option"
  fs_maker_fee :: "rat option"
  fs_taker_fee :: "rat option"

record broker =
  br_kind :: adapter_kind
  br_info :: "raw_broker_info option"
  br_symbols :: "(string, raw_symbol) dict"
  br_fee_structure :: "raw_fee_structure option"
  br_capabilities :: order_capabilities
  br_pip_mode :: pip_mode

definition with_default :: "'a \<Rightarrow> 'a option \<Rightarrow> 'a" where
  "with_default d x = (case x of None \<Rightarrow> d | Some v \<Rightarrow> v)"

lemma with_default_simps [simp]: "with_default d None = d" "with_default d (Some v) = v"
  by (simp_all add: with_default_def)

definition truthy_str :: "string option \<Rightarrow> bool" where
  "truthy_str s = (case s of None \<Rightarrow> False | Some t \<Rightarrow> t \<noteq> [])"

text \<open>\<open>SwapMode(s.lower())\<close>, with \<open>UNKNOWN\<close> for a string that names no mode.\<close>

definition parse_swap_mode :: "string \<Rightarrow> swap_mode" where
  "parse_swap_mode s =
     (let t = lower_str s in
      if t = ''points'' then SWAP_POINTS
      else if t = ''interest_current'' then SWAP_INTEREST_CURRENT
      else if t = ''interest_open'' then SWAP_INTEREST_OPEN
      else if t = ''percentage'' then SWAP_PERCENTAGE
      else if t = ''none'' then SWAP_NONE
      else SWAP_UNKNOWN)"

definition required_symbol_fields_present :: "raw_symbol \<Rightarrow> bool" where
  "required_symbol_fields_present r =
     (raw_volume_min r \<noteq> None \<and> raw_volume_max r \<noteq> None \<and> raw_volume_step r \<noteq> None \<and>
      raw_contract_size r \<noteq> None \<and> raw_tick_size r \<noteq> None \<and> raw_digits r \<noteq> None \<and>
      raw_trade_allowed r \<noteq> None \<and> raw_base_currency r \<noteq> None \<and> raw_quote_currency r \<noteq> None)"

definition margin_currency_known :: "raw_symbol \<Rightarrow> bool" where
  "margin_currency_known r =
     (truthy_str (raw_margin_currency r) \<longrightarrow>
      raw_margin_currency r = raw_base_currency r \<or> raw_margin_currency r = raw_quote_currency r)"

definition validate_common_config :: "broker \<Rightarrow> unit res" where
  "validate_common_config br =
     (case br_info br of
        None \<Rightarrow> Inl ValueError
      | Some bi \<Rightarrow>
         if bi_company bi = None \<or> bi_server bi = None \<or> bi_trade_mode bi = None
            \<or> bi_leverage bi = None \<or> bi_hedging_allowed bi = None then Inl ValueError
         else if br_symbols br = [] then Inl ValueError
         else if with_default 1 (bi_leverage bi) > 1 \<and>
                 (bi_margin_mode bi = None \<or> bi_stopout_level bi = None \<or> bi_margin_call_level bi = None)
              then Inl ValueError
         else if \<not> list_all (\<lambda>r. required_symbol_fields_present r \<and> margin_currency_known r)
                     (vals_of (br_symbols br)) then Inl ValueError
         else (case br_fee_structure br of
             None \<Rightarrow> Inr ()
           | Some fs \<Rightarrow>
               if \<not> truthy_str (fs_model fs) then Inl ValueError
               else if fs_model fs = Some ''spread'' \<or> fs_model fs = Some ''maker_taker'' then Inr ()
               else Inl ValueError))"

definition kraken_validate_config :: "broker \<Rightarrow> unit res" where
  "kraken_validate_config br =
     (case br_fee_structure br of
        None \<Rightarrow> Inl ValueError
      | Some fs \<Rightarrow>
          if fs_model fs \<noteq> Some ''maker_taker'' then Inl ValueError
          else if fs_maker_fee fs = None \<or> fs_taker_fee fs = None then Inl ValueError
          else Inr ())"

text \<open>\<open>AbstractAdapter.__init__\<close>: the common checks, then the checks of the subclass.\<close>

definition validate_adapter :: "broker \<Rightarrow> unit res" where
  "validate_adapter br =
     bind_res (validate_common_config br)
       (\<lambda>_. if br_kind br = KRAKEN then kraken_validate_config br else Inr ())"

section \<open>Specifications\<close>

definition mt5_symbol_specification :: "string \<Rightarrow> raw_symbol \<Rightarrow> symbol_spec res" where
  "mt5_symbol_specification smb r =
     (if \<not> truthy_str (raw_base_currency r) \<or> \<not> truthy_str (raw_quote_currency r) then Inl ValueError
      else Inr
        \<lparr>spec_symbol = smb,
         spec_description = with_default [] (raw_description r),
         volume_min = with_default (1/100) (raw_volume_min r),
         volume_max = with_default 100 (raw_volume_max r),
         volume_step = with_default (1/100) (raw_volume_step r),
         volume_limit = with_default 0 (raw_volume_limit r),
         tick_size = with_default (1/100000) (raw_tick_size r),
         spec_digits = with_default 5 (raw_digits r),
         spec_contract_size = with_default 100000 (raw_contract_size r),
         base_currency = with_default [] (raw_base_currency r),
         quote_currency = with_default [] (raw_quote_currency r),
         margin_currency = with_default (with_default [] (raw_base_currency r)) (raw_margin_currency r),
         trade_allowed = with_default False (raw_trade_allowed r),
         spec_swap_mode = parse_swap_mode (with_default ''points'' (raw_swap_mode r)),
         swap_long = with_default 0 (raw_swap_long r),
         swap_short = with_default 0 (raw_swap_short r),
         swap_rollover3days = with_default 3 (raw_swap_rollover3days r),
         stops_level = with_default 0 (raw_stops_level r),
         freeze_level = with_default 0 (raw_freeze_level r)\<rparr>)"

definition kraken_symbol_specification :: "string \<Rightarrow> raw_symbol \<Rightarrow> symbol_spec res" where
  "kraken_symbol_specification smb r =
     (let quote = with_default (drop 3 smb) (raw_quote_currency r) in
      Inr
        \<lparr>spec_symbol = smb,
         spec_description = with_default [] (raw_description r),
         volume_min = with_default (1/10000) (raw_volume_min r),
         volume_max = with_default 10000 (raw_volume_max r),
         volume_step = with_default (1/100000000) (raw_volume_step r),
         volume_limit = with_default 0 (raw_volume_limit r),
         tick_size = with_default (1/100) (raw_tick_size r),
         spec_digits = with_default 2 (raw_digits r),
         spec_contract_size = with_default 1 (raw_contract_size r),
         base_currency = with_default (take 3 smb) (raw_base_currency r),
         quote_currency = quote,
         margin_currency = quote,
         trade_allowed = with_default True (raw_trade_allowed r),
         spec_swap_mode = SWAP_NONE,
         swap_long = 0,
         swap_short = 0,
         swap_rollover3days = 0,
         stops_level = with_default 0 (raw_stops_level r),
         freeze_level = with_default 0 (raw_freeze_level r)\<rparr>)"

definition get_symbol_specification :: "broker \<Rightarrow> string \<Rightarrow> symbol_spec res" where
  "get_symbol_specification br smb =
     (case map_of (br_symbols br) smb of
        None \<Rightarrow> Inl ValueError
      | Some r \<Rightarrow> (case br_kind br of
            MT5 \<Rightarrow> mt5_symbol_specification smb r
          | KRAKEN \<Rightarrow> kraken_symbol_specification smb r))"

definition get_all_aviable_symbols :: "broker \<Rightarrow> string list" where
  "get_all_aviable_symbols br = keys_of (br_symbols br)"

definition is_symbol_tradeable :: "broker \<Rightarrow> string \<Rightarrow> bool res" where
  "is_symbol_tradeable br smb =
     (case get_symbol_specification br smb of
        Inl ValueError \<Rightarrow> Inr False
      | Inl e \<Rightarrow> Inl e
      | Inr s \<Rightarrow> Inr (trade_allowed s))"

definition mt5_capabilities :: "bool \<Rightarrow> order_capabilities" where
  "mt5_capabilities hedging =
     \<lparr>market_orders = True, limit_orders = True, stop_orders = True, stop_limit_orders = True,
      trailing_stop = False, iceberg_orders = False, hedging_allowed = hedging,
      partial_fills_supported = False, native_position_sl_tp = False, trade_level_reporting = True\<rparr>"

definition kraken_capabilities :: "bool \<Rightarrow> order_capabilities" where
  "kraken_capabilities hedging =
     \<lparr>market_orders = True, limit_orders = True, stop_orders = False, stop_limit_orders = True,
      trailing_stop = False, iceberg_orders = True, hedging_allowed = hedging,
      partial_fills_supported = True, native_position_sl_tp = False, trade_level_reporting = True\<rparr>"

section \<open>Orders and margin\<close>

definition validate_lot_size :: "broker \<Rightarrow> string \<Rightarrow> lots \<Rightarrow> bool res" where
  "validate_lot_size br smb l =
     bind_res (get_symbol_specification br smb) (\<lambda>s.
       if l < volume_min s then Inr False
       else if l > volume_max s then Inr False
       else if volume_step s > 0 \<and>
               (let remainder = py_mod (l - volume_min s) (volume_step s)
                in remainder > 1/1000000 \<and> volume_step s - remainder > 1/1000000)
            then Inr False
       else Inr True)"

definition validate_order :: "broker \<Rightarrow> string \<Rightarrow> lots \<Rightarrow> bool res" where
  "validate_order br smb l =
     (case br_kind br of
        MT5 \<Rightarrow>
          (case map_of (br_symbols br) smb of
             None \<Rightarrow> Inl RuntimeError
           | Some r \<Rightarrow>
               if \<not> with_default False (raw_trade_allowed r) then Inl RuntimeError
               else validate_lot_size br smb l)
      | KRAKEN \<Rightarrow>
          (case map_of (br_symbols br) smb of
             None \<Rightarrow> Inl ValueError
           | Some r \<Rightarrow>
               if \<not> with_default True (raw_trade_allowed r) then Inr False
               else validate_lot_size br smb l))"

definition get_leverage :: "broker \<Rightarrow> int" where
  "get_leverage br = with_default 1 (Option.bind (br_info br) bi_leverage)"

definition calculate_margin_required :: "broker \<Rightarrow> string \<Rightarrow> lots \<Rightarrow> tick_data \<Rightarrow> order_direction \<Rightarrow> money res" where
  "calculate_margin_required br smb l t d =
     bind_res (get_symbol_specification br smb) (\<lambda>s.
       let position_value =
             (if margin_currency s = quote_currency s then l * spec_contract_size s
              else l * spec_contract_size s * (if d = LONG then ask t else bid t));
           lev = get_leverage br
       in Inr (if lev \<le> 1 then position_value else position_value / of_int lev))"

definition get_pip_size :: "broker \<Rightarrow> string \<Rightarrow> price res" where
  "get_pip_size br smb =
     bind_res (get_symbol_specification br smb)
       (\<lambda>s. Inr (derive_pip_size (tick_size s) (spec_digits s) (br_pip_mode br)))"

definition fee_model :: "broker \<Rightarrow> fee_type res" where
  "fee_model br =
     (let m = with_default ''spread'' (Option.bind (br_fee_structure br) fs_model) in
      if m = ''spread'' then Inr FEE_SPREAD
      else if m = ''swap'' then Inr FEE_SWAP
      else if m = ''commission'' then Inr FEE_COMMISSION
      else if m = ''maker_taker'' then Inr FEE_MAKER_TAKER
      else Inl ValueError)"

definition get_maker_fee :: "broker \<Rightarrow> rat res" where
  "get_maker_fee br =
     (case br_kind br of
        MT5 \<Rightarrow> Inl AttributeError
      | KRAKEN \<Rightarrow> Inr (with_default (16/100) (Option.bind (br_fee_structure br) fs_maker_fee)))"

definition get_taker_fee :: "broker \<Rightarrow> rat res" where
  "get_taker_fee br =
     (case br_kind br of
        MT5 \<Rightarrow> Inl AttributeError
      | KRAKEN \<Rightarrow> Inr (with_default (26/100) (Option.bind (br_fee_structure br) fs_taker_fee)))"

section \<open>Facts\<close>

lemma spec_symbol_eq:
  "get_symbol_specification br smb = Inr s \<Longrightarrow> spec_symbol s = smb \<and> smb \<in> set (get_all_aviable_symbols br)"
  by (auto simp: get_symbol_specification_def mt5_symbol_specification_def kraken_symbol_specification_def
      get_all_aviable_symbols_def Let_def image_iff
      split: option.splits adapter_kind.splits if_splits dest!: map_of_SomeD)
     (metis fst_conv)+

text \<open>A lot size the broker accepts lies within the limits and is step-aligned up to the code's
  tolerance.\<close>

lemma validate_lot_size_True:
  assumes "validate_lot_size br smb l = Inr True" and "get_symbol_specification br smb = Inr s"
  shows "volume_min s \<le> l \<and> l \<le> volume_max s \<and>
    (volume_step s > 0 \<longrightarrow>
       py_mod (l - volume_min s) (volume_step s) \<le> 1/1000000 \<or>
       volume_step s - py_mod (l - volume_min s) (volume_step s) \<le> 1/1000000)"
  using assms by (auto simp: validate_lot_size_def Let_def split: if_splits)

lemma validate_order_True_lot:
  "validate_order br smb l = Inr True \<Longrightarrow> validate_lot_size br smb l = Inr True"
  by (auto simp: validate_order_def split: adapter_kind.splits option.splits if_splits)

lemma get_leverage_validated:
  "validate_adapter br = Inr () \<Longrightarrow>
   \<exists>bi lev. br_info br = Some bi \<and> bi_leverage bi = Some lev \<and> get_leverage br = lev"
  by (auto simp: validate_adapter_def validate_common_config_def get_leverage_def
      split: option.splits if_splits)

text \<open>Configuration validation rules out the fee-model failures of a fill: a validated Kraken
  configuration has maker and taker rates.\<close>

lemma kraken_fee_model_validated:
  assumes "validate_adapter br = Inr ()" and "br_kind br = KRAKEN"
  shows "fee_model br = Inr FEE_MAKER_TAKER \<and> (\<exists>m t. get_maker_fee br = Inr m \<and> get_taker_fee br = Inr t)"
  using assms
  by (auto simp: validate_adapter_def kraken_validate_config_def fee_model_def get_maker_fee_def
      get_taker_fee_def split: option.splits if_splits)

lemma margin_nonneg:
  assumes "calculate_margin_required br smb l t d = Inr m" and "get_symbol_specification br smb = Inr s"
    and "0 \<le> l" "0 \<le> spec_contract_size s" "0 \<le> bid t" "0 \<le> ask t"
  shows "0 \<le> m"
  using assms by (auto simp: calculate_margin_required_def Let_def split: if_splits)

lemma margin_additive:
  assumes "calculate_margin_required br smb l1 t d = Inr m1"
    and "calculate_margin_required br smb l2 t d = Inr m2"
  shows "calculate_margin_required br smb (l1 + l2) t d = Inr (m1 + m2)"
  using assms
  by (auto simp: calculate_margin_required_def Let_def algebra_simps add_divide_distrib split: if_splits)

end
