(* ===== verification/Market_Clock.thy ===== *)
theory Market_Clock
  imports Market_Calendar Broker
begin

text \<open>
  Market awareness over the canonical clock: the market-configuration lookups of
  \<open>src/python/configuration/market_config_manager.py\<close> and the \<open>MarketClock\<close> of
  \<open>src/python/framework/trading_env/market_clock.py\<close>. Reading and validating \<open>market_config.json\<close> is file
  handling; the manager starts from its parsed content. The canonical clock is the argument \<open>now\<close>, a
  result because the executor's clock raises before the first tick.
\<close>

section \<open>Market configuration\<close>

datatype market_type = FOREX | CRYPTO

datatype trading_model = TM_MARGIN | TM_SPOT

record market_rules =
  weekend_closure :: bool
  mr_pip_mode :: pip_mode
  swap_rollover :: "swap_rollover_config option"

record broker_entry =
  be_broker_type :: string
  be_market_type :: market_type
  broker_config_path :: string
  be_trading_model :: trading_model

record market_config =
  broker_lookup :: "(string, broker_entry) dict"
  rules_lookup :: "(market_type, market_rules) dict"

definition build_lookups :: "(market_type \<times> market_rules) list \<Rightarrow> broker_entry list \<Rightarrow> market_config" where
  "build_lookups rules entries =
     \<lparr>broker_lookup = fold (\<lambda>b m. AList.update (be_broker_type b) b m) entries [],
      rules_lookup = fold (\<lambda>(k, r) m. AList.update k r m) rules []\<rparr>"

definition get_broker_entry :: "market_config \<Rightarrow> string \<Rightarrow> broker_entry res" where
  "get_broker_entry m bt = (case map_of (broker_lookup m) bt of None \<Rightarrow> Inl ValueError | Some e \<Rightarrow> Inr e)"

definition get_market_type :: "market_config \<Rightarrow> string \<Rightarrow> market_type res" where
  "get_market_type m bt =
     (case map_of (broker_lookup m) bt of None \<Rightarrow> Inl ValueError | Some e \<Rightarrow> Inr (be_market_type e))"

definition get_market_rules :: "market_config \<Rightarrow> market_type \<Rightarrow> market_rules res" where
  "get_market_rules m mt = (case map_of (rules_lookup m) mt of None \<Rightarrow> Inl ValueError | Some r \<Rightarrow> Inr r)"

definition get_market_rules_for_broker :: "market_config \<Rightarrow> string \<Rightarrow> market_rules res" where
  "get_market_rules_for_broker m bt = bind_res (get_market_type m bt) (get_market_rules m)"

definition get_broker_config_path :: "market_config \<Rightarrow> string \<Rightarrow> string res" where
  "get_broker_config_path m bt =
     (case map_of (broker_lookup m) bt of None \<Rightarrow> Inl ValueError | Some e \<Rightarrow> Inr (broker_config_path e))"

definition get_trading_model :: "market_config \<Rightarrow> string \<Rightarrow> trading_model res" where
  "get_trading_model m bt = bind_res (get_broker_entry m bt) (\<lambda>e. Inr (be_trading_model e))"

definition get_swap_rollover :: "market_config \<Rightarrow> string \<Rightarrow> swap_rollover_config option res" where
  "get_swap_rollover m bt =
     bind_res (get_market_type m bt) (\<lambda>mt. bind_res (get_market_rules m mt) (\<lambda>r. Inr (swap_rollover r)))"

definition get_pip_mode :: "market_config \<Rightarrow> string \<Rightarrow> pip_mode res" where
  "get_pip_mode m bt =
     bind_res (get_market_type m bt) (\<lambda>mt. bind_res (get_market_rules m mt) (\<lambda>r. Inr (mr_pip_mode r)))"

definition get_all_broker_types :: "market_config \<Rightarrow> string list" where
  "get_all_broker_types m = keys_of (broker_lookup m)"

definition has_weekend_closure :: "market_config \<Rightarrow> string \<Rightarrow> bool res" where
  "has_weekend_closure m bt = bind_res (get_market_rules_for_broker m bt) (\<lambda>r. Inr (weekend_closure r))"

section \<open>The market clock\<close>

record market_clock =
  mk_broker :: broker
  mk_swap_rollover :: "swap_rollover_config option"
  mk_weekend_closure :: bool

text \<open>The constructor swallows \<open>ValueError\<close>, \<open>KeyError\<close> and \<open>AttributeError\<close> of both lookups.\<close>

definition swallowed :: "py_error \<Rightarrow> bool" where
  "swallowed e = (e \<in> {ValueError, KeyError, AttributeError})"

definition market_clock_init :: "market_config \<Rightarrow> string \<Rightarrow> broker \<Rightarrow> market_clock res" where
  "market_clock_init m bt b =
     (case bind_res (get_swap_rollover m bt) (\<lambda>ro.
             bind_res (bind_res (get_market_type m bt) (get_market_rules m)) (\<lambda>r.
               Inr (ro, weekend_closure r))) of
        Inr (ro, w) \<Rightarrow> Inr \<lparr>mk_broker = b, mk_swap_rollover = ro, mk_weekend_closure = w\<rparr>
      | Inl e \<Rightarrow>
          if swallowed e then Inr \<lparr>mk_broker = b, mk_swap_rollover = None, mk_weekend_closure = False\<rparr> else Inl e)"

definition get_time_to_next_rollover :: "instant res \<Rightarrow> market_clock \<Rightarrow> int option res" where
  "get_time_to_next_rollover clock k =
     (case mk_swap_rollover k of
        None \<Rightarrow> Inr None
      | Some c \<Rightarrow>
          bind_res clock (\<lambda>now.
            bind_res (next_swap_rollover now c 0) (\<lambda>(ro, _). Inr (Some (ro - now)))))"

definition is_next_rollover_triple :: "instant res \<Rightarrow> string \<Rightarrow> market_clock \<Rightarrow> bool res" where
  "is_next_rollover_triple clock smb k =
     (case mk_swap_rollover k of
        None \<Rightarrow> Inr False
      | Some c \<Rightarrow>
          bind_res (get_symbol_specification (mk_broker k) smb) (\<lambda>spec.
            bind_res clock (\<lambda>now.
              bind_res (next_swap_rollover now c (mt5_weekday_to_python (swap_rollover3days spec))) (\<lambda>(_, mult).
                Inr (mult \<ge> 3)))))"

text \<open>\<open>fri_hour\<close> is \<open>MarketCalendar.WEEKEND_CLOSURE.friday_start_hour_utc\<close>.\<close>

definition get_time_to_market_close :: "int \<Rightarrow> instant res \<Rightarrow> market_clock \<Rightarrow> int option res" where
  "get_time_to_market_close fri_hour clock k =
     (if \<not> mk_weekend_closure k then Inr None
      else bind_res clock (\<lambda>now. Inr (Some (next_market_close now fri_hour - now))))"

definition is_weekend_ahead :: "int \<Rightarrow> instant res \<Rightarrow> int \<Rightarrow> market_clock \<Rightarrow> bool res" where
  "is_weekend_ahead fri_hour clock window k =
     bind_res (get_time_to_market_close fri_hour clock k) (\<lambda>t.
       Inr (case t of None \<Rightarrow> False | Some x \<Rightarrow> x \<le> window))"

section \<open>Correctness\<close>

text \<open>The clock's two configuration reads come from the same broker entry and the same rules.\<close>

lemma market_clock_init_known:
  assumes "map_of (broker_lookup m) bt = Some e" and "map_of (rules_lookup m) (be_market_type e) = Some r"
  shows "market_clock_init m bt b =
    Inr \<lparr>mk_broker = b, mk_swap_rollover = swap_rollover r, mk_weekend_closure = weekend_closure r\<rparr>"
  using assms
  by (simp add: market_clock_init_def get_swap_rollover_def get_market_type_def get_market_rules_def)

lemma market_clock_init_total: "\<exists>k. market_clock_init m bt b = Inr k \<and> mk_broker k = b"
  by (cases "map_of (broker_lookup m) bt")
     (auto simp: market_clock_init_def get_swap_rollover_def get_market_type_def get_market_rules_def
        swallowed_def split: option.splits)

text \<open>Later entries win, as in the dict the code fills in file order.\<close>

lemma find_app: "find P (xs @ ys) = (case find P xs of Some x \<Rightarrow> Some x | None \<Rightarrow> find P ys)"
  by (induction xs) auto

lemma fold_update_lookup:
  "map_of (fold (\<lambda>b m. AList.update (f b) b m) bs acc) k =
     (case find (\<lambda>b. f b = k) (rev bs) of Some b \<Rightarrow> Some b | None \<Rightarrow> map_of acc k)"
proof (induction bs arbitrary: acc)
  case (Cons b bs)
  then show ?case by (auto simp: update_conv find_app split: option.splits)
qed simp

lemma build_lookups_last:
  "get_broker_entry (build_lookups rules entries) bt =
     (case find (\<lambda>b. be_broker_type b = bt) (rev entries) of None \<Rightarrow> Inl ValueError | Some e \<Rightarrow> Inr e)"
  by (simp add: get_broker_entry_def build_lookups_def fold_update_lookup split: option.splits)

lemma time_to_rollover_hits:
  assumes "mk_swap_rollover k = Some c"
    and "valid_rollover c" "offset_bounded c" "rollover_ordered c" "same_day_rollover c"
  obtains d where "get_time_to_next_rollover (Inr now) k = Inr (Some (local_time_to_utc c d - now))"
    "weekday d \<le> 4" "now < local_time_to_utc c d"
    "\<And>e. weekday e \<le> 4 \<Longrightarrow> now < local_time_to_utc c e \<Longrightarrow> local_time_to_utc c d \<le> local_time_to_utc c e"
proof -
  from next_swap_rollover_least [OF assms(2-5), of now 0] obtain d where
    "next_swap_rollover now c 0 = Inr (local_time_to_utc c d, rollover_multiplier 0 d)"
    "weekday d \<le> 4" "now < local_time_to_utc c d"
    "\<forall>e. weekday e \<le> 4 \<and> now < local_time_to_utc c e \<longrightarrow> local_time_to_utc c d \<le> local_time_to_utc c e"
    by blast
  with assms(1) show ?thesis by (intro that [of d]) (auto simp: get_time_to_next_rollover_def)
qed

lemma weekend_ahead_iff:
  assumes "mk_weekend_closure k"
  shows "is_weekend_ahead h (Inr now) window k = Inr (next_market_close now h \<le> now + window)"
  using assms by (auto simp: is_weekend_ahead_def get_time_to_market_close_def)

end
