(* ===== verification/Fees.thy ===== *)
theory Fees
  imports Trading_Math
begin

text \<open>
  The fee system: \<^verbatim>\<open>trading_env/trading_fees.py\<close>, \<^verbatim>\<open>trading_env/abstract_trading_fee.py\<close> and
  \<^verbatim>\<open>factory/trading_fee_factory.py\<close>. A fee object is a record; the subclass fields are the
  constructor arguments of \<open>fee_detail\<close>. A constructor function per class computes the cost at
  construction exactly as the \<open>__init__\<close> methods do.
\<close>

section \<open>Definitions\<close>

datatype fee_detail =
    SpreadDetail (sd_bid: price) (sd_ask: price) (sd_lots: lots) (sd_tick_value: rat) (sd_digits: nat)
  | SwapDetail (wd_rate: rat) (wd_days: int) (wd_tick_value: rat) (wd_lots: lots)
  | CommissionDetail (cd_mode: string) (cd_rate: rat) (cd_lots: lots) (cd_order_value: money) (cd_side: string)
  | MakerTakerDetail (md_is_maker: bool) (md_maker_rate: rat) (md_taker_rate: rat) (md_order_value: money)

record fee =
  fee_ty :: fee_type
  fee_st :: fee_status
  fee_timestamp :: instant
  fee_cost :: money
  fee_detail :: fee_detail
  fee_metadata :: "(string, pyval) dict"

definition spread_calculate_cost :: "price \<Rightarrow> price \<Rightarrow> lots \<Rightarrow> rat \<Rightarrow> nat \<Rightarrow> money" where
  "spread_calculate_cost b a l tv digits =
     (let spread_raw = a - b;
          spread_points = spread_raw * 10 ^ digits;
          cost = spread_points * tv * l
      in \<bar>cost\<bar>)"

definition SpreadFee :: "price \<Rightarrow> price \<Rightarrow> lots \<Rightarrow> rat \<Rightarrow> nat \<Rightarrow> instant \<Rightarrow> fee" where
  "SpreadFee b a l tv digits ts =
     \<lparr>fee_ty = FEE_SPREAD, fee_st = FEE_APPLIED, fee_timestamp = ts,
      fee_cost = spread_calculate_cost b a l tv digits,
      fee_detail = SpreadDetail b a l tv digits,
      fee_metadata = [(''bid'', PyFloat b), (''ask'', PyFloat a), (''spread_raw'', PyFloat (a - b)),
                      (''spread_points'', PyFloat ((a - b) * 10 ^ digits)), (''lots'', PyFloat l)]\<rparr>"

definition swap_calculate_cost :: "rat \<Rightarrow> int \<Rightarrow> rat \<Rightarrow> lots \<Rightarrow> money" where
  "swap_calculate_cost rate days tv l = - (rate * of_int days * tv * l)"

definition SwapFee :: "rat \<Rightarrow> int \<Rightarrow> rat \<Rightarrow> lots \<Rightarrow> instant \<Rightarrow> fee" where
  "SwapFee rate days tv l ts =
     \<lparr>fee_ty = FEE_SWAP, fee_st = FEE_APPLIED, fee_timestamp = ts,
      fee_cost = swap_calculate_cost rate days tv l,
      fee_detail = SwapDetail rate days tv l,
      fee_metadata = [(''swap_rate_points'', PyFloat rate), (''days_held'', PyInt days),
                      (''is_triple'', PyBool (days \<ge> 3))]\<rparr>"

definition CommissionFee :: "string \<Rightarrow> rat \<Rightarrow> lots \<Rightarrow> money \<Rightarrow> string \<Rightarrow> instant \<Rightarrow> fee" where
  "CommissionFee mode rate l ov side ts =
     \<lparr>fee_ty = FEE_COMMISSION, fee_st = FEE_PENDING, fee_timestamp = ts, fee_cost = 0,
      fee_detail = CommissionDetail mode rate l ov side,
      fee_metadata = [(''mode'', PyStr mode), (''rate'', PyFloat rate), (''side'', PyStr side),
                      (''implementation_status'', PyStr ''deferred_post_v1'')]\<rparr>"

definition maker_taker_calculate_cost :: "bool \<Rightarrow> rat \<Rightarrow> rat \<Rightarrow> money \<Rightarrow> money" where
  "maker_taker_calculate_cost is_maker mr tr ov =
     (let rate = (if is_maker then mr else tr); cost = ov * (rate / 100) in \<bar>cost\<bar>)"

definition MakerTakerFee :: "bool \<Rightarrow> rat \<Rightarrow> rat \<Rightarrow> money \<Rightarrow> instant \<Rightarrow> fee" where
  "MakerTakerFee is_maker mr tr ov ts =
     \<lparr>fee_ty = FEE_MAKER_TAKER, fee_st = FEE_APPLIED, fee_timestamp = ts,
      fee_cost = maker_taker_calculate_cost is_maker mr tr ov,
      fee_detail = MakerTakerDetail is_maker mr tr ov,
      fee_metadata = [(''is_maker'', PyBool is_maker), (''maker_rate'', PyFloat mr),
                      (''taker_rate'', PyFloat tr), (''order_value'', PyFloat ov),
                      (''applied_rate'', PyFloat (if is_maker then mr else tr))]\<rparr>"

definition create_spread_fee_from_tick :: "tick_data \<Rightarrow> lots \<Rightarrow> rat \<Rightarrow> nat \<Rightarrow> instant \<Rightarrow> fee" where
  "create_spread_fee_from_tick t l tv digits now = SpreadFee (bid t) (ask t) l tv digits now"

definition create_maker_taker_fee ::
  "lots \<Rightarrow> rat \<Rightarrow> price \<Rightarrow> rat \<Rightarrow> rat \<Rightarrow> bool \<Rightarrow> instant \<Rightarrow> fee" where
  "create_maker_taker_fee l cs ep mr tr is_maker now =
     (let order_value = l * cs * ep in MakerTakerFee is_maker mr tr order_value now)"

definition apply_fee :: "fee \<Rightarrow> fee" where
  "apply_fee f = f\<lparr>fee_st := FEE_APPLIED\<rparr>"

text \<open>\<open>_record_fee_cost\<close> sorts a fee into the cost breakdown; only a \<open>MakerTakerFee\<close> instance reaches
  the maker/taker columns, every fee reaches the total.\<close>

definition record_fee_cost :: "fee \<Rightarrow> cost_breakdown \<Rightarrow> cost_breakdown" where
  "record_fee_cost f c =
     (let c' =
        (if fee_ty f = FEE_SPREAD then c\<lparr>total_spread_cost := total_spread_cost c + fee_cost f\<rparr>
         else if fee_ty f = FEE_COMMISSION then c\<lparr>total_commission := total_commission c + fee_cost f\<rparr>
         else if fee_ty f = FEE_SWAP then c\<lparr>total_swap := total_swap c + fee_cost f\<rparr>
         else (case fee_detail f of
             MakerTakerDetail is_maker _ _ _ \<Rightarrow>
               (if is_maker then c\<lparr>maker_fee := maker_fee c + fee_cost f\<rparr>
                else c\<lparr>taker_fee := taker_fee c + fee_cost f\<rparr>)
           | _ \<Rightarrow> c))
      in c'\<lparr>total_fees := total_fees c' + fee_cost f\<rparr>)"

section \<open>Costs\<close>

definition well_typed_fee :: "fee \<Rightarrow> bool" where
  "well_typed_fee f \<longleftrightarrow>
     (case fee_detail f of
        SpreadDetail _ _ _ _ _ \<Rightarrow> fee_ty f = FEE_SPREAD
      | SwapDetail _ _ _ _ \<Rightarrow> fee_ty f = FEE_SWAP
      | CommissionDetail _ _ _ _ _ \<Rightarrow> fee_ty f = FEE_COMMISSION
      | MakerTakerDetail _ _ _ _ \<Rightarrow> fee_ty f = FEE_MAKER_TAKER)"

lemma well_typed_constructors [simp]:
  "well_typed_fee (SpreadFee b a l tv d ts)"
  "well_typed_fee (SwapFee r n tv l ts)"
  "well_typed_fee (CommissionFee m rt l ov sd ts)"
  "well_typed_fee (MakerTakerFee mk mr tr ov ts)"
  by (simp_all add: well_typed_fee_def SpreadFee_def SwapFee_def CommissionFee_def MakerTakerFee_def)

lemma well_typed_fee_update [simp]: "well_typed_fee (f\<lparr>fee_cost := c\<rparr>) = well_typed_fee f"
  by (simp add: well_typed_fee_def split: fee_detail.split)

lemma fee_cost_constructors [simp]:
  "fee_cost (SpreadFee b a l tv d ts) = spread_calculate_cost b a l tv d"
  "fee_cost (SwapFee r n tv l ts) = swap_calculate_cost r n tv l"
  "fee_cost (MakerTakerFee mk mr tr ov ts) = maker_taker_calculate_cost mk mr tr ov"
  by (simp_all add: SpreadFee_def SwapFee_def MakerTakerFee_def)

lemma entry_fee_nonneg [simp]:
  "0 \<le> spread_calculate_cost b a l tv d"
  "0 \<le> maker_taker_calculate_cost mk mr tr ov"
  by (simp_all add: spread_calculate_cost_def maker_taker_calculate_cost_def Let_def)

lemma maker_not_dearer:
  "0 \<le> mr \<Longrightarrow> mr \<le> tr \<Longrightarrow>
   maker_taker_calculate_cost True mr tr ov \<le> maker_taker_calculate_cost False mr tr ov"
  by (simp add: maker_taker_calculate_cost_def abs_mult divide_right_mono mult_left_mono)

lemma swap_triple: "swap_calculate_cost r 3 tv l = 3 * swap_calculate_cost r 1 tv l"
  by (simp add: swap_calculate_cost_def)

lemma swap_sign:
  "0 < n \<Longrightarrow> 0 < tv \<Longrightarrow> 0 < l \<Longrightarrow> 0 < swap_calculate_cost r n tv l \<longleftrightarrow> r < 0"
  by (simp add: swap_calculate_cost_def mult_less_0_iff)

section \<open>The cost breakdown\<close>

definition costs_balanced :: "cost_breakdown \<Rightarrow> bool" where
  "costs_balanced c \<longleftrightarrow>
     total_fees c = total_spread_cost c + total_commission c + total_swap c + maker_fee c + taker_fee c"

lemma costs_balanced_new [simp]: "costs_balanced (new_cost_breakdown cur)"
  by (simp add: costs_balanced_def new_cost_breakdown_def)

lemma costs_balanced_record:
  "costs_balanced c \<Longrightarrow> well_typed_fee f \<Longrightarrow> costs_balanced (record_fee_cost f c)"
  by (auto simp: costs_balanced_def record_fee_cost_def well_typed_fee_def Let_def
           split: fee_detail.splits)

lemma total_fees_record [simp]: "total_fees (record_fee_cost f c) = total_fees c + fee_cost f"
  by (auto simp: record_fee_cost_def Let_def split: fee_detail.splits)

lemma cost_currency_record [simp]: "cost_currency (record_fee_cost f c) = cost_currency c"
  by (auto simp: record_fee_cost_def Let_def split: fee_detail.splits)

end
