(* ===== verification/Positions.thy ===== *)
theory Positions
  imports Fees
begin

text \<open>
  An open position and the completed-trade record: \<^verbatim>\<open>types/portfolio_types/portfolio_types.py\<close> and
  \<^verbatim>\<open>types/portfolio_types/portfolio_trade_record_types.py\<close>. \<open>Position\<close> objects are mutated in place by
  the portfolio; here every mutator returns the new position. The lemmas state the mark-to-market
  equation, the excursion (MAE/MFE) envelope and the geometry of the stop-loss and take-profit
  triggers.
\<close>

section \<open>Definitions\<close>

record position =
  position_id :: string
  pos_symbol :: string
  pos_direction :: order_direction
  pos_lots :: lots
  original_lots :: lots
  entry_price :: price
  entry_time :: instant
  stop_loss :: "price option"
  take_profit :: "price option"
  pos_entry_type :: entry_type
  pos_fees :: "fee list"
  current_price :: price
  unrealized_pnl :: money
  pos_status :: position_status
  pos_comment :: string
  close_time :: "instant option"
  close_price :: "price option"
  pos_broker_ref :: "string option"
  entry_trades :: "broker_trade list"
  entry_submission :: submission_metadata
  entry_tick_value :: rat
  entry_bid :: price
  entry_ask :: price
  exit_tick_value :: rat
  pos_digits :: nat
  pos_contract_size :: rat
  gross_pnl :: money
  pip_size :: price
  price_unit :: string
  entry_tick_index :: int
  exit_tick_index :: int
  mae_pnl :: money
  mfe_pnl :: money
  mae_price :: price
  mfe_price :: price
  swap_accrued_until :: "instant option"

record trade_record =
  tr_position_id :: string
  tr_symbol :: string
  tr_direction :: order_direction
  tr_lots :: lots
  tr_close_type :: close_type
  tr_entry_price :: price
  tr_entry_time :: instant
  tr_entry_tick_value :: rat
  tr_entry_bid :: price
  tr_entry_ask :: price
  tr_exit_price :: "price option"
  tr_exit_time :: "instant option"
  tr_exit_tick_value :: rat
  tr_entry_tick_index :: int
  tr_exit_tick_index :: int
  tr_digits :: nat
  tr_contract_size :: rat
  tr_spread_cost :: money
  tr_commission_cost :: money
  tr_swap_cost :: money
  tr_total_fees :: money
  tr_gross_pnl :: money
  tr_net_pnl :: money
  tr_stop_loss :: "price option"
  tr_take_profit :: "price option"
  tr_comment :: string
  tr_mae_price :: price
  tr_mfe_price :: price
  tr_mae_pnl :: money
  tr_mfe_pnl :: money
  tr_initial_risk :: "money option"
  tr_close_reason :: close_reason
  tr_entry_type :: entry_type
  tr_account_currency :: string
  tr_entry_trades :: "broker_trade list"
  tr_exit_trades :: "broker_trade list"
  tr_entry_side :: order_side
  tr_exit_side :: order_side
  tr_entry_submission :: submission_metadata
  tr_exit_submission :: submission_metadata
  tr_pip_size :: price
  tr_price_unit :: string

definition position_post_init :: "position \<Rightarrow> position" where
  "position_post_init p =
     (let p1 = p\<lparr>mae_price := entry_price p, mfe_price := entry_price p\<rparr>
      in if swap_accrued_until p1 = None then p1\<lparr>swap_accrued_until := Some (entry_time p1)\<rparr> else p1)"

definition get_total_fees :: "position \<Rightarrow> money" where
  "get_total_fees p = sum_list (map fee_cost (pos_fees p))"

definition get_fees_by_type :: "position \<Rightarrow> fee_type \<Rightarrow> fee list" where
  "get_fees_by_type p t = filter (\<lambda>f. fee_ty f = t) (pos_fees p)"

definition get_spread_cost :: "position \<Rightarrow> money" where
  "get_spread_cost p = sum_list (map fee_cost (get_fees_by_type p FEE_SPREAD))"

definition get_commission_cost :: "position \<Rightarrow> money" where
  "get_commission_cost p = sum_list (map fee_cost (get_fees_by_type p FEE_COMMISSION))"

definition get_swap_cost :: "position \<Rightarrow> money" where
  "get_swap_cost p = sum_list (map fee_cost (get_fees_by_type p FEE_SWAP))"

definition add_fee :: "fee \<Rightarrow> position \<Rightarrow> position" where
  "add_fee f p = p\<lparr>pos_fees := pos_fees p @ [f]\<rparr>"

definition price_diff_of :: "position \<Rightarrow> price \<Rightarrow> rat" where
  "price_diff_of p x = (if pos_direction p = LONG then x - entry_price p else entry_price p - x)"

definition update_current_price :: "price \<Rightarrow> price \<Rightarrow> rat \<Rightarrow> nat \<Rightarrow> position \<Rightarrow> position" where
  "update_current_price b a tv digits p =
     (let cp = (if pos_direction p = LONG then b else a);
          g = gross_pnl_from_price_diff (price_diff_of p cp) digits tv (pos_lots p);
          tf = get_total_fees p;
          p1 = p\<lparr>current_price := cp, gross_pnl := g, unrealized_pnl := g - tf\<rparr>;
          p2 = (if g < mae_pnl p1 then p1\<lparr>mae_pnl := g, mae_price := cp\<rparr> else p1)
      in if g > mfe_pnl p2 then p2\<lparr>mfe_pnl := g, mfe_price := cp\<rparr> else p2)"

definition get_margin_used :: "position \<Rightarrow> rat \<Rightarrow> int \<Rightarrow> money res" where
  "get_margin_used p cs lev =
     (if lev = 0 then Inl ZeroDivisionError
      else Inr ((pos_lots p * cs * entry_price p) / of_int lev))"

definition is_sl_triggered :: "position \<Rightarrow> price \<Rightarrow> price \<Rightarrow> bool" where
  "is_sl_triggered p b a =
     (case stop_loss p of None \<Rightarrow> False
      | Some sl \<Rightarrow> if pos_direction p = LONG then b \<le> sl else sl \<le> a)"

definition is_tp_triggered :: "position \<Rightarrow> price \<Rightarrow> price \<Rightarrow> bool" where
  "is_tp_triggered p b a =
     (case take_profit p of None \<Rightarrow> False
      | Some tp \<Rightarrow> if pos_direction p = LONG then tp \<le> b else a \<le> tp)"

definition is_open :: "position \<Rightarrow> bool" where
  "is_open p = (pos_status p = PS_OPEN \<or> pos_status p = PS_PARTIALLY_CLOSED)"

section \<open>Marking to market\<close>

lemma update_current_price_frame [simp]:
  "position_id (update_current_price b a tv d p) = position_id p"
  "pos_symbol (update_current_price b a tv d p) = pos_symbol p"
  "pos_direction (update_current_price b a tv d p) = pos_direction p"
  "pos_lots (update_current_price b a tv d p) = pos_lots p"
  "original_lots (update_current_price b a tv d p) = original_lots p"
  "entry_price (update_current_price b a tv d p) = entry_price p"
  "pos_fees (update_current_price b a tv d p) = pos_fees p"
  "stop_loss (update_current_price b a tv d p) = stop_loss p"
  "take_profit (update_current_price b a tv d p) = take_profit p"
  "pos_status (update_current_price b a tv d p) = pos_status p"
  "entry_tick_value (update_current_price b a tv d p) = entry_tick_value p"
  "pos_digits (update_current_price b a tv d p) = pos_digits p"
  "swap_accrued_until (update_current_price b a tv d p) = swap_accrued_until p"
  by (simp_all add: update_current_price_def Let_def)

lemma get_total_fees_update [simp]:
  "get_total_fees (update_current_price b a tv d p) = get_total_fees p"
  by (simp add: get_total_fees_def)

lemma get_total_fees_add_fee [simp]:
  "get_total_fees (add_fee f p) = get_total_fees p + fee_cost f"
  by (simp add: get_total_fees_def add_fee_def)

lemma add_fee_frame [simp]:
  "position_id (add_fee f p) = position_id p"
  "pos_symbol (add_fee f p) = pos_symbol p"
  "pos_direction (add_fee f p) = pos_direction p"
  "pos_lots (add_fee f p) = pos_lots p"
  "original_lots (add_fee f p) = original_lots p"
  "gross_pnl (add_fee f p) = gross_pnl p"
  "unrealized_pnl (add_fee f p) = unrealized_pnl p"
  "entry_tick_value (add_fee f p) = entry_tick_value p"
  "entry_price (add_fee f p) = entry_price p"
  "pos_digits (add_fee f p) = pos_digits p"
  "stop_loss (add_fee f p) = stop_loss p"
  "take_profit (add_fee f p) = take_profit p"
  "swap_accrued_until (add_fee f p) = swap_accrued_until p"
  by (simp_all add: add_fee_def)

lemma gross_pnl_update:
  "gross_pnl (update_current_price b a tv d p) =
   gross_pnl_from_price_diff (price_diff_of p (if pos_direction p = LONG then b else a)) d tv (pos_lots p)"
  by (simp add: update_current_price_def Let_def)

lemma unrealized_update:
  "unrealized_pnl (update_current_price b a tv d p) =
   gross_pnl (update_current_price b a tv d p) - get_total_fees p"
  by (simp add: update_current_price_def Let_def)

text \<open>The unrealised P\&L is net of fees: the mark-to-market equation of one position.\<close>

definition marked :: "position \<Rightarrow> bool" where
  "marked p \<longleftrightarrow> unrealized_pnl p = gross_pnl p - get_total_fees p"

lemma marked_update: "marked (update_current_price b a tv d p)"
  by (simp add: marked_def unrealized_update)

text \<open>Excursions: the recorded extremes bracket zero and every marked gross P\&L.\<close>

definition excursion_ok :: "position \<Rightarrow> bool" where
  "excursion_ok p \<longleftrightarrow> mae_pnl p \<le> 0 \<and> 0 \<le> mfe_pnl p"

lemma excursion_ok_update:
  "excursion_ok p \<Longrightarrow> excursion_ok (update_current_price b a tv d p)"
  by (auto simp: excursion_ok_def update_current_price_def Let_def)

lemma excursion_bracket_update:
  "mae_pnl (update_current_price b a tv d p) \<le> gross_pnl (update_current_price b a tv d p) \<and>
   gross_pnl (update_current_price b a tv d p) \<le> mfe_pnl (update_current_price b a tv d p)"
  by (simp add: update_current_price_def Let_def)

lemma excursion_monotone_update:
  "mae_pnl (update_current_price b a tv d p) \<le> mae_pnl p \<and>
   mfe_pnl p \<le> mfe_pnl (update_current_price b a tv d p)"
  by (simp add: update_current_price_def Let_def)

text \<open>For fees that are built by their constructors, the itemised costs add up to the total once
  the maker/taker share is added.\<close>

lemma fees_itemised:
  "get_total_fees p =
   get_spread_cost p + get_commission_cost p + get_swap_cost p +
   sum_list (map fee_cost (get_fees_by_type p FEE_MAKER_TAKER))"
proof -
  have "sum_list (map fee_cost fs) =
      sum_list (map fee_cost (filter (\<lambda>f. fee_ty f = FEE_SPREAD) fs)) +
      sum_list (map fee_cost (filter (\<lambda>f. fee_ty f = FEE_COMMISSION) fs)) +
      sum_list (map fee_cost (filter (\<lambda>f. fee_ty f = FEE_SWAP) fs)) +
      sum_list (map fee_cost (filter (\<lambda>f. fee_ty f = FEE_MAKER_TAKER) fs))" for fs :: "fee list"
  proof (induction fs)
    case (Cons f fs)
    then show ?case by (cases "fee_ty f") simp_all
  qed simp
  from this [of "pos_fees p"] show ?thesis
    by (simp only: get_total_fees_def get_spread_cost_def get_commission_cost_def get_swap_cost_def
        get_fees_by_type_def)
qed

section \<open>Stop-loss and take-profit triggers\<close>

text \<open>With a stop below a target (LONG) or above it (SHORT), one price can trigger at most one of
  them: the SL-before-TP order of the checks never hides a take-profit.\<close>

lemma sl_tp_exclusive:
  assumes "stop_loss p = Some sl" and "take_profit p = Some tp"
    and "if pos_direction p = LONG then sl < tp else tp < sl"
  shows "\<not> (is_sl_triggered p b a \<and> is_tp_triggered p b a)"
  using assms by (auto simp: is_sl_triggered_def is_tp_triggered_def split: if_splits)

lemma sl_triggered_loss:
  assumes "is_sl_triggered p b a" and "stop_loss p = Some sl"
    and "0 \<le> tv" and "0 \<le> pos_lots p"
  shows "gross_pnl (update_current_price b a tv d p) \<le>
         gross_pnl_from_price_diff (price_diff_of p sl) d tv (pos_lots p)"
proof -
  have "price_diff_of p (if pos_direction p = LONG then b else a) \<le> price_diff_of p sl"
    using assms(1,2) by (auto simp: is_sl_triggered_def price_diff_of_def split: if_splits)
  then show ?thesis
    using assms(3,4) by (simp add: gross_pnl_update gross_pnl_alt mult_right_mono)
qed

end
