(* ===== verification/Portfolio.thy ===== *)
theory Portfolio
  imports Positions Market_Calendar Broker
begin

text \<open>
  The portfolio manager, \<^verbatim>\<open>trading_env/portfolio_manager.py\<close>: balances, open positions, the completed
  trade history, lazy mark-to-market, overnight swap accrual, cost tracking and statistics.

  The record \<open>portfolio\<close> has one field per attribute of \<open>PortfolioManager\<close>. The injected clock
  function is represented by its current reading \<open>pf_clock\<close> (\<open>None\<close>: no clock injected). Position
  objects are shared by reference in the source; no operation hands one to code that mutates it, so
  storing them by value in \<open>open_positions\<close> is equivalent. An operation that raises returns
  \<open>Inl\<close>; what it had changed before raising is not tracked. This theory holds the definitions; the
  ledger laws are in \<open>Portfolio_Laws\<close>.
\<close>

section \<open>State\<close>

record portfolio =
  account_currency :: string
  pf_broker :: broker
  pf_clock :: "instant option"
  pf_leverage :: int
  margin_call_level :: rat
  stop_out_level :: rat
  last_conversion_rate :: "rat option"
  spot_mode :: bool
  initial_balances :: "(string, money) dict"
  balances :: "(string, money) dict"
  swap_rollover :: "swap_rollover_config option"
  realized_pnl :: money
  positions_dirty :: bool
  open_positions :: "(string, position) dict"
  trade_history_max :: nat
  trade_history :: "trade_record list"
  trade_history_limit_warned :: bool
  position_counter :: nat
  cost_tracking :: cost_breakdown
  total_trades :: int
  total_long_trades :: int
  total_short_trades :: int
  winning_trades :: int
  losing_trades :: int
  total_profit :: money
  total_loss :: money
  max_drawdown :: money
  max_equity :: money
  current_tick :: "tick_data option"
  current_prices :: "(string, price \<times> price) dict"

text \<open>Keyword arguments of \<open>open_position\<close> and of the two close operations.\<close>

record open_args =
  oa_order_id :: string
  oa_symbol :: string
  oa_direction :: order_direction
  oa_lots :: lots
  oa_entry_price :: price
  oa_entry_tick_value :: rat
  oa_entry_bid :: price
  oa_entry_ask :: price
  oa_digits :: nat
  oa_contract_size :: rat
  oa_entry_tick_index :: int
  oa_entry_fee :: "fee option"
  oa_stop_loss :: "price option"
  oa_take_profit :: "price option"
  oa_comment :: string
  oa_entry_type :: entry_type
  oa_broker_ref :: "string option"
  oa_entry_trades :: "broker_trade list"
  oa_entry_submission :: "submission_metadata option"
  oa_pip_size :: price
  oa_price_unit :: string

record close_args =
  cl_position_id :: string
  cl_exit_price :: price
  cl_exit_tick_value :: rat
  cl_exit_tick_index :: int
  cl_exit_fee :: "fee option"
  cl_close_reason :: close_reason
  cl_exit_trades :: "broker_trade list"
  cl_exit_submission :: "submission_metadata option"

section \<open>Balances\<close>

definition pf_balance :: "portfolio \<Rightarrow> money" where
  "pf_balance pf = get_default 0 (balances pf) (account_currency pf)"

definition set_balance :: "money \<Rightarrow> portfolio \<Rightarrow> portfolio" where
  "set_balance v pf = pf\<lparr>balances := AList.update (account_currency pf) v (balances pf)\<rparr>"

definition initial_balance :: "portfolio \<Rightarrow> money" where
  "initial_balance pf = get_default 0 (initial_balances pf) (account_currency pf)"

definition get_asset_balance :: "portfolio \<Rightarrow> string \<Rightarrow> money" where
  "get_asset_balance pf c = get_default 0 (balances pf) c"

definition get_spot_equity :: "portfolio \<Rightarrow> price \<Rightarrow> money" where
  "get_spot_equity pf x =
     foldl (\<lambda>total (c, amount). if c = account_currency pf then total + amount else total + amount * x)
       0 (balances pf)"

definition portfolio_init ::
  "money \<Rightarrow> string \<Rightarrow> broker \<Rightarrow> int \<Rightarrow> rat \<Rightarrow> rat \<Rightarrow> nat \<Rightarrow> bool \<Rightarrow> (string, money) dict \<Rightarrow> instant option
   \<Rightarrow> swap_rollover_config option \<Rightarrow> portfolio" where
  "portfolio_init ib cur br lev mcl sol hmax spot ibs clk roll =
     (let ibs' = (if ibs \<noteq> [] then ibs else [(cur, ib)]) in
      \<lparr>account_currency = cur, pf_broker = br, pf_clock = clk, pf_leverage = lev,
       margin_call_level = mcl, stop_out_level = sol, last_conversion_rate = None,
       spot_mode = spot, initial_balances = ibs', balances = ibs', swap_rollover = roll,
       realized_pnl = 0, positions_dirty = False, open_positions = [],
       trade_history_max = hmax, trade_history = [], trade_history_limit_warned = False,
       position_counter = 0, cost_tracking = new_cost_breakdown cur,
       total_trades = 0, total_long_trades = 0, total_short_trades = 0,
       winning_trades = 0, losing_trades = 0, total_profit = 0, total_loss = 0,
       max_drawdown = 0, max_equity = get_default 0 ibs' cur,
       current_tick = None, current_prices = []\<rparr>)"

text \<open>\<open>d[k] += x\<close> raises \<open>KeyError\<close> on a missing key; \<open>d[k] = d.get(k, 0.0) + x\<close> does not.\<close>

definition adjust_balance :: "string \<Rightarrow> money \<Rightarrow> (string, money) dict \<Rightarrow> (string, money) dict res" where
  "adjust_balance k x b = bind_res (lookup_key b k) (\<lambda>v. Inr (AList.update k (v + x) b))"

definition credit_balance :: "string \<Rightarrow> money \<Rightarrow> (string, money) dict \<Rightarrow> (string, money) dict" where
  "credit_balance k x b = AList.update k (get_default 0 b k + x) b"

definition spot_buy :: "symbol_spec \<Rightarrow> lots \<Rightarrow> money \<Rightarrow> (string, money) dict \<Rightarrow> (string, money) dict res" where
  "spot_buy sp l cost b =
     bind_res (adjust_balance (quote_currency sp) (- cost) b)
       (\<lambda>b'. Inr (credit_balance (base_currency sp) l b'))"

definition spot_sell :: "symbol_spec \<Rightarrow> lots \<Rightarrow> money \<Rightarrow> (string, money) dict \<Rightarrow> (string, money) dict res" where
  "spot_sell sp l revenue b =
     bind_res (adjust_balance (base_currency sp) (- l) b)
       (adjust_balance (quote_currency sp) revenue)"

section \<open>Opening\<close>

definition get_next_position_id :: "string \<Rightarrow> portfolio \<Rightarrow> string \<times> portfolio" where
  "get_next_position_id smb pf =
     (let n = position_counter pf + 1
      in (''pos_'' @ lower_str smb @ ''_'' @ nat_str n, pf\<lparr>position_counter := n\<rparr>))"

definition clock_now :: "portfolio \<Rightarrow> instant res" where
  "clock_now pf = (case pf_clock pf of None \<Rightarrow> Inl ClockNotInjectedError | Some t \<Rightarrow> Inr t)"

definition pf_record_fee :: "fee \<Rightarrow> portfolio \<Rightarrow> portfolio" where
  "pf_record_fee f pf = pf\<lparr>cost_tracking := record_fee_cost f (cost_tracking pf)\<rparr>"

definition opt_fee_cost :: "fee option \<Rightarrow> money" where
  "opt_fee_cost fo = (case fo of None \<Rightarrow> 0 | Some f \<Rightarrow> fee_cost f)"

definition new_position :: "open_args \<Rightarrow> instant \<Rightarrow> position" where
  "new_position a now = position_post_init
     \<lparr>position_id = oa_order_id a, pos_symbol = oa_symbol a, pos_direction = oa_direction a,
      pos_lots = oa_lots a, original_lots = oa_lots a, entry_price = oa_entry_price a,
      entry_time = now, stop_loss = oa_stop_loss a, take_profit = oa_take_profit a,
      pos_entry_type = oa_entry_type a, pos_fees = [], current_price = 0, unrealized_pnl = 0,
      pos_status = PS_OPEN, pos_comment = oa_comment a, close_time = None, close_price = None,
      pos_broker_ref = oa_broker_ref a, entry_trades = oa_entry_trades a,
      entry_submission = with_default no_submission (oa_entry_submission a),
      entry_tick_value = oa_entry_tick_value a, entry_bid = oa_entry_bid a, entry_ask = oa_entry_ask a,
      exit_tick_value = 0, pos_digits = oa_digits a, pos_contract_size = oa_contract_size a,
      gross_pnl = 0, pip_size = oa_pip_size a, price_unit = oa_price_unit a,
      entry_tick_index = oa_entry_tick_index a, exit_tick_index = 0,
      mae_pnl = 0, mfe_pnl = 0, mae_price = 0, mfe_price = 0, swap_accrued_until = None\<rparr>"

definition spot_open_transfer :: "open_args \<Rightarrow> portfolio \<Rightarrow> portfolio res" where
  "spot_open_transfer a pf =
     bind_res (get_symbol_specification (pf_broker pf) (oa_symbol a)) (\<lambda>sp.
       let fc = opt_fee_cost (oa_entry_fee a) in
       bind_res
         (if oa_direction a = LONG
          then spot_buy sp (oa_lots a) (oa_lots a * oa_entry_price a + fc) (balances pf)
          else spot_sell sp (oa_lots a) (oa_lots a * oa_entry_price a - fc) (balances pf))
         (\<lambda>b. Inr (pf\<lparr>balances := b\<rparr>)))"

definition open_position :: "open_args \<Rightarrow> portfolio \<Rightarrow> (position \<times> portfolio) res" where
  "open_position a pf =
     bind_res (clock_now pf) (\<lambda>now.
       let p0 = new_position a now;
           (p, pf1) = (case oa_entry_fee a of
                         None \<Rightarrow> (p0, pf)
                       | Some f \<Rightarrow> (add_fee f p0, pf_record_fee f pf));
           pf2 = pf1\<lparr>open_positions := AList.update (oa_order_id a) p (open_positions pf1)\<rparr>
       in bind_res (if spot_mode pf2 then spot_open_transfer a pf2 else Inr pf2) (\<lambda>pf3. Inr (p, pf3)))"

section \<open>Marking to market\<close>

definition mark_dirty :: "tick_data \<Rightarrow> portfolio \<Rightarrow> portfolio" where
  "mark_dirty t pf =
     pf\<lparr>positions_dirty := True, current_tick := Some t,
        current_prices := AList.update (tick_symbol t) (bid t, ask t) (current_prices pf)\<rparr>"

text \<open>\<open>_calculate_tick_value\<close> returns the tick value and the conversion rate it stores.\<close>

definition pf_calculate_tick_value :: "string \<Rightarrow> symbol_spec \<Rightarrow> price \<Rightarrow> (rat \<times> rat option) res" where
  "pf_calculate_tick_value cur sp x =
     (let base_factor = tick_size sp * spec_contract_size sp in
      if cur = quote_currency sp then Inr (base_factor, None)
      else if cur = base_currency sp then
        (if x \<le> 0 then Inl ValueError else Inr (base_factor / x, Some x))
      else Inl NotImplementedError)"

definition swap_fee_step :: "rat \<Rightarrow> position \<times> cost_breakdown \<Rightarrow> instant \<times> int \<Rightarrow> position \<times> cost_breakdown" where
  "swap_fee_step rate pc tm =
     (let f = SwapFee rate (snd tm) (entry_tick_value (fst pc)) (pos_lots (fst pc)) (fst tm)
      in (add_fee f (fst pc), record_fee_cost f (snd pc)))"

definition accrue_swap ::
  "broker \<Rightarrow> swap_rollover_config \<Rightarrow> instant \<Rightarrow> position \<Rightarrow> cost_breakdown \<Rightarrow> (position \<times> cost_breakdown) res" where
  "accrue_swap br roll now p c =
     (case swap_accrued_until p of
        None \<Rightarrow> Inl TypeError
      | Some since \<Rightarrow>
         if now \<le> since then Inr (p, c)
         else bind_res (get_symbol_specification br (pos_symbol p)) (\<lambda>sp.
           if spec_swap_mode sp \<noteq> SWAP_POINTS then Inr (p\<lparr>swap_accrued_until := Some now\<rparr>, c)
           else
             let triple = mt5_weekday_to_python (swap_rollover3days sp);
                 rollovers = iter_swap_rollovers since now roll triple;
                 rate = (if pos_direction p = LONG then swap_long sp else swap_short sp);
                 (p', c') = foldl (swap_fee_step rate) (p, c) rollovers
             in Inr (p'\<lparr>swap_accrued_until := Some now\<rparr>, c')))"

definition accrue_all_swaps :: "portfolio \<Rightarrow> portfolio res" where
  "accrue_all_swaps pf =
     (case swap_rollover pf of
        None \<Rightarrow> Inr pf
      | Some roll \<Rightarrow>
         if spot_mode pf \<or> open_positions pf = [] then Inr pf
         else bind_res (clock_now pf) (\<lambda>now.
           bind_res (traverse_dict (accrue_swap (pf_broker pf) roll now) (open_positions pf) (cost_tracking pf))
             (\<lambda>(ps, c). Inr (pf\<lparr>open_positions := ps, cost_tracking := c\<rparr>))))"

definition reprice_position ::
  "string \<Rightarrow> broker \<Rightarrow> (string, price \<times> price) dict \<Rightarrow> position \<Rightarrow> rat option \<Rightarrow> (position \<times> rat option) res" where
  "reprice_position cur br prices p rate =
     (case map_of prices (pos_symbol p) of
        None \<Rightarrow> Inr (p, rate)
      | Some (b, a) \<Rightarrow>
          bind_res (get_symbol_specification br (pos_symbol p)) (\<lambda>sp.
            bind_res (pf_calculate_tick_value cur sp ((b + a) / 2)) (\<lambda>(tv, rate').
              Inr (update_current_price b a tv (spec_digits sp) p, rate'))))"

definition reprice_all :: "portfolio \<Rightarrow> portfolio res" where
  "reprice_all pf =
     bind_res (traverse_dict (reprice_position (account_currency pf) (pf_broker pf) (current_prices pf))
                 (open_positions pf) (last_conversion_rate pf))
       (\<lambda>(ps, rate). Inr (pf\<lparr>open_positions := ps, last_conversion_rate := rate, positions_dirty := False\<rparr>))"

definition ensure_positions_updated :: "portfolio \<Rightarrow> portfolio res" where
  "ensure_positions_updated pf =
     bind_res (accrue_all_swaps pf) (\<lambda>pf1. if \<not> positions_dirty pf1 then Inr pf1 else reprice_all pf1)"

section \<open>Closing\<close>

definition calculate_equity :: "portfolio \<Rightarrow> money" where
  "calculate_equity pf = pf_balance pf + (\<Sum>kp\<leftarrow>open_positions pf. unrealized_pnl (snd kp))"

definition update_statistics :: "position \<Rightarrow> money \<Rightarrow> portfolio \<Rightarrow> portfolio" where
  "update_statistics p pnl pf =
     (let pf1 = pf\<lparr>total_trades := total_trades pf + 1\<rparr>;
          pf2 = (if pos_direction p = LONG then pf1\<lparr>total_long_trades := total_long_trades pf1 + 1\<rparr>
                 else pf1\<lparr>total_short_trades := total_short_trades pf1 + 1\<rparr>);
          pf3 = (if pnl > 0
                 then pf2\<lparr>winning_trades := winning_trades pf2 + 1, total_profit := total_profit pf2 + pnl\<rparr>
                 else pf2\<lparr>losing_trades := losing_trades pf2 + 1, total_loss := total_loss pf2 + \<bar>pnl\<bar>\<rparr>);
          equity = calculate_equity pf3;
          pf4 = (if equity > max_equity pf3 then pf3\<lparr>max_equity := equity\<rparr> else pf3);
          drawdown = max_equity pf4 - equity
      in if drawdown > max_drawdown pf4 then pf4\<lparr>max_drawdown := drawdown\<rparr> else pf4)"

definition initial_risk :: "position \<Rightarrow> lots \<Rightarrow> money option" where
  "initial_risk p l =
     (case stop_loss p of
        None \<Rightarrow> None
      | Some sl \<Rightarrow> Some (gross_pnl_from_price_diff \<bar>entry_price p - sl\<bar> (pos_digits p) (entry_tick_value p) l))"

definition create_trade_record ::
  "string \<Rightarrow> position \<Rightarrow> close_type \<Rightarrow> close_reason \<Rightarrow> broker_trade list \<Rightarrow> submission_metadata option \<Rightarrow> trade_record" where
  "create_trade_record cur p ct cr xs sub =
     \<lparr>tr_position_id = position_id p, tr_symbol = pos_symbol p, tr_direction = pos_direction p,
      tr_lots = pos_lots p, tr_close_type = ct, tr_entry_price = entry_price p,
      tr_entry_time = entry_time p, tr_entry_tick_value = entry_tick_value p,
      tr_entry_bid = entry_bid p, tr_entry_ask = entry_ask p,
      tr_exit_price = close_price p, tr_exit_time = close_time p,
      tr_exit_tick_value = exit_tick_value p, tr_entry_tick_index = entry_tick_index p,
      tr_exit_tick_index = exit_tick_index p, tr_digits = pos_digits p,
      tr_contract_size = pos_contract_size p, tr_spread_cost = get_spread_cost p,
      tr_commission_cost = get_commission_cost p, tr_swap_cost = get_swap_cost p,
      tr_total_fees = get_total_fees p, tr_gross_pnl = gross_pnl p, tr_net_pnl = unrealized_pnl p,
      tr_stop_loss = stop_loss p, tr_take_profit = take_profit p, tr_comment = pos_comment p,
      tr_mae_price = mae_price p, tr_mfe_price = mfe_price p, tr_mae_pnl = mae_pnl p,
      tr_mfe_pnl = mfe_pnl p, tr_initial_risk = initial_risk p (pos_lots p),
      tr_close_reason = cr, tr_entry_type = pos_entry_type p, tr_account_currency = cur,
      tr_entry_trades = entry_trades p, tr_exit_trades = xs,
      tr_entry_side = direction_to_side (pos_direction p) OA_OPEN,
      tr_exit_side = direction_to_side (pos_direction p) OA_CLOSE,
      tr_entry_submission = entry_submission p,
      tr_exit_submission = with_default no_submission sub,
      tr_pip_size = pip_size p, tr_price_unit = price_unit p\<rparr>"

definition append_history :: "trade_record \<Rightarrow> portfolio \<Rightarrow> portfolio" where
  "append_history tr pf =
     (let pf1 = (if trade_history_max pf > 0 \<and> \<not> trade_history_limit_warned pf
                    \<and> length (trade_history pf) \<ge> trade_history_max pf
                 then pf\<lparr>trade_history_limit_warned := True\<rparr> else pf)
      in pf1\<lparr>trade_history := deque_append (trade_history_max pf1) (trade_history pf1) tr\<rparr>)"

text \<open>The asset transfer of a spot close: selling back a long, buying back a short.\<close>

definition spot_close_transfer ::
  "broker \<Rightarrow> position \<Rightarrow> lots \<Rightarrow> price \<Rightarrow> money \<Rightarrow> (string, money) dict \<Rightarrow> (string, money) dict res" where
  "spot_close_transfer br p l x fc b =
     bind_res (get_symbol_specification br (pos_symbol p)) (\<lambda>sp.
       if pos_direction p = LONG then spot_sell sp l (l * x - fc) b
       else spot_buy sp l (l * x + fc) b)"

definition settle_full_close :: "close_args \<Rightarrow> position \<Rightarrow> portfolio \<Rightarrow> (money \<times> position \<times> portfolio) res" where
  "settle_full_close cl p pf =
     (if spot_mode pf then
        bind_res (spot_close_transfer (pf_broker pf) p (pos_lots p) (cl_exit_price cl)
                    (opt_fee_cost (cl_exit_fee cl)) (balances pf)) (\<lambda>b.
          let p' = update_current_price (cl_exit_price cl) (cl_exit_price cl) (cl_exit_tick_value cl) (pos_digits p) p
          in Inr (unrealized_pnl p', p', pf\<lparr>balances := b\<rparr>))
      else Inr (unrealized_pnl p, p, set_balance (pf_balance pf + unrealized_pnl p) pf))"

definition close_position_portfolio :: "close_args \<Rightarrow> portfolio \<Rightarrow> (money \<times> portfolio) res" where
  "close_position_portfolio cl pf =
     (if map_of (open_positions pf) (cl_position_id cl) = None then Inl ValueError
      else bind_res (ensure_positions_updated pf) (\<lambda>pf1.
        bind_res (lookup_key (open_positions pf1) (cl_position_id cl)) (\<lambda>p0.
          let (p1, pf2) = (case cl_exit_fee cl of
                              None \<Rightarrow> (p0, pf1)
                            | Some f \<Rightarrow> (add_fee f p0, pf_record_fee f pf1))
          in bind_res (settle_full_close cl p1 pf2) (\<lambda>(pnl, p2, pf3).
               bind_res (clock_now pf3) (\<lambda>now.
                 let pf4 = pf3\<lparr>realized_pnl := realized_pnl pf3 + pnl\<rparr>;
                     p3 = p2\<lparr>pos_status := PS_CLOSED, close_time := Some now,
                             close_price := Some (cl_exit_price cl),
                             exit_tick_value := cl_exit_tick_value cl,
                             exit_tick_index := cl_exit_tick_index cl\<rparr>;
                     tr = create_trade_record (account_currency pf4) p3 CT_FULL (cl_close_reason cl)
                            (cl_exit_trades cl) (cl_exit_submission cl);
                     pf5 = append_history tr pf4;
                     pf6 = pf5\<lparr>open_positions := AList.delete (cl_position_id cl) (open_positions pf5)\<rparr>
                 in Inr (pnl, update_statistics p3 pnl pf6))))))"

definition partial_trade_record ::
  "string \<Rightarrow> position \<Rightarrow> close_args \<Rightarrow> lots \<Rightarrow> rat \<Rightarrow> money \<Rightarrow> money \<Rightarrow> instant \<Rightarrow> trade_record" where
  "partial_trade_record cur p cl close_lots close_ratio closed_gross closed_fees now =
     \<lparr>tr_position_id = position_id p, tr_symbol = pos_symbol p, tr_direction = pos_direction p,
      tr_lots = close_lots, tr_close_type = CT_PARTIAL, tr_entry_price = entry_price p,
      tr_entry_time = entry_time p, tr_entry_tick_value = entry_tick_value p,
      tr_entry_bid = entry_bid p, tr_entry_ask = entry_ask p,
      tr_exit_price = Some (cl_exit_price cl), tr_exit_time = Some now,
      tr_exit_tick_value = cl_exit_tick_value cl, tr_entry_tick_index = entry_tick_index p,
      tr_exit_tick_index = cl_exit_tick_index cl, tr_digits = pos_digits p,
      tr_contract_size = pos_contract_size p, tr_spread_cost = get_spread_cost p * close_ratio,
      tr_commission_cost = get_commission_cost p * close_ratio,
      tr_swap_cost = get_swap_cost p * close_ratio,
      tr_total_fees = closed_fees, tr_gross_pnl = closed_gross, tr_net_pnl = closed_gross - closed_fees,
      tr_stop_loss = stop_loss p, tr_take_profit = take_profit p, tr_comment = pos_comment p,
      tr_mae_price = mae_price p, tr_mfe_price = mfe_price p, tr_mae_pnl = mae_pnl p,
      tr_mfe_pnl = mfe_pnl p, tr_initial_risk = initial_risk p close_lots,
      tr_close_reason = cl_close_reason cl, tr_entry_type = pos_entry_type p, tr_account_currency = cur,
      tr_entry_trades = entry_trades p, tr_exit_trades = cl_exit_trades cl,
      tr_entry_side = direction_to_side (pos_direction p) OA_OPEN,
      tr_exit_side = direction_to_side (pos_direction p) OA_CLOSE,
      tr_entry_submission = entry_submission p,
      tr_exit_submission = with_default no_submission (cl_exit_submission cl),
      tr_pip_size = pip_size p, tr_price_unit = price_unit p\<rparr>"

text \<open>What a partial close leaves of the position: fewer lots, every fee scaled to the remainder.\<close>

definition shrink_position :: "lots \<Rightarrow> rat \<Rightarrow> position \<Rightarrow> position" where
  "shrink_position close_lots remaining_ratio p =
     (let p1 = p\<lparr>pos_lots := py_round (pos_lots p - close_lots) 8,
                 pos_fees := map (\<lambda>f. f\<lparr>fee_cost := fee_cost f * remaining_ratio\<rparr>) (pos_fees p),
                 pos_status := PS_PARTIALLY_CLOSED,
                 gross_pnl := gross_pnl p * remaining_ratio\<rparr>
      in p1\<lparr>unrealized_pnl := gross_pnl p1 - get_total_fees p1\<rparr>)"

definition partial_close_position :: "lots \<Rightarrow> close_args \<Rightarrow> portfolio \<Rightarrow> (money \<times> portfolio) res" where
  "partial_close_position close_lots cl pf =
     (if map_of (open_positions pf) (cl_position_id cl) = None then Inl ValueError
      else bind_res (ensure_positions_updated pf) (\<lambda>pf1.
        bind_res (lookup_key (open_positions pf1) (cl_position_id cl)) (\<lambda>p.
          if pos_lots p = 0 then Inl ZeroDivisionError
          else
            let close_ratio = close_lots / pos_lots p;
                remaining_ratio = 1 - close_ratio;
                closed_gross = gross_pnl p * close_ratio;
                exit_fee_cost = opt_fee_cost (cl_exit_fee cl);
                closed_fees = get_total_fees p * close_ratio + exit_fee_cost;
                pf2 = (case cl_exit_fee cl of None \<Rightarrow> pf1 | Some f \<Rightarrow> pf_record_fee f pf1);
                closed_net = closed_gross - closed_fees
            in bind_res
                 (if spot_mode pf2
                  then bind_res (spot_close_transfer (pf_broker pf2) p close_lots (cl_exit_price cl)
                                   exit_fee_cost (balances pf2)) (\<lambda>b. Inr (pf2\<lparr>balances := b\<rparr>))
                  else Inr (set_balance (pf_balance pf2 + closed_net) pf2)) (\<lambda>pf3.
                 bind_res (clock_now pf3) (\<lambda>now.
                   let pf4 = pf3\<lparr>realized_pnl := realized_pnl pf3 + closed_net\<rparr>;
                       tr = partial_trade_record (account_currency pf4) p cl close_lots close_ratio
                              closed_gross closed_fees now;
                       pf5 = append_history tr pf4;
                       p' = shrink_position close_lots remaining_ratio p;
                       pf6 = pf5\<lparr>open_positions := AList.update (cl_position_id cl) p' (open_positions pf5)\<rparr>
                   in Inr (closed_net, update_statistics p' closed_net pf6))))))"

section \<open>Modifying levels\<close>

definition validate_sl_tp_levels ::
  "order_direction \<Rightarrow> price \<Rightarrow> price \<Rightarrow> price option \<Rightarrow> price option \<Rightarrow> mod_rejection option" where
  "validate_sl_tp_levels d b a sl tp =
     (if (case sl of None \<Rightarrow> False | Some s \<Rightarrow> (d = LONG \<and> s \<ge> b) \<or> (d = SHORT \<and> s \<le> a))
      then Some INVALID_SL_LEVEL
      else if (case tp of None \<Rightarrow> False | Some t \<Rightarrow> (d = LONG \<and> t \<le> b) \<or> (d = SHORT \<and> t \<ge> a))
      then Some INVALID_TP_LEVEL
      else (case (sl, tp) of
              (Some s, Some t) \<Rightarrow>
                if (d = LONG \<and> s \<ge> t) \<or> (d = SHORT \<and> s \<le> t) then Some SL_TP_CROSS else None
            | _ \<Rightarrow> None))"

definition pf_modify_position ::
  "string \<Rightarrow> price option update_arg \<Rightarrow> price option update_arg \<Rightarrow> portfolio \<Rightarrow> modification_result \<times> portfolio" where
  "pf_modify_position pid nsl ntp pf =
     (case map_of (open_positions pf) pid of
        None \<Rightarrow> (mod_rejected POSITION_NOT_FOUND, pf)
      | Some p \<Rightarrow>
          let sl = merge_arg (stop_loss p) nsl; tp = merge_arg (take_profit p) ntp in
          (case map_of (current_prices pf) (pos_symbol p) of
             None \<Rightarrow> (mod_rejected NO_CURRENT_PRICE, pf)
           | Some (b, a) \<Rightarrow>
               (case validate_sl_tp_levels (pos_direction p) b a sl tp of
                  Some r \<Rightarrow> (mod_rejected r, pf)
                | None \<Rightarrow>
                    (mod_success,
                     pf\<lparr>open_positions :=
                          AList.update pid (p\<lparr>stop_loss := sl, take_profit := tp\<rparr>) (open_positions pf)\<rparr>))))"

section \<open>Account view\<close>

fun margin_sum :: "broker \<Rightarrow> tick_data \<Rightarrow> order_direction \<Rightarrow> position list \<Rightarrow> money \<Rightarrow> money res" where
  "margin_sum br t d [] acc = Inr acc"
| "margin_sum br t d (p # ps) acc =
     bind_res (calculate_margin_required br (pos_symbol p) (pos_lots p) t d)
       (\<lambda>m. margin_sum br t d ps (acc + m))"

definition get_account_info :: "order_direction \<Rightarrow> portfolio \<Rightarrow> (account_info \<times> portfolio) res" where
  "get_account_info d pf =
     bind_res (ensure_positions_updated pf) (\<lambda>pf1.
       let equity = pf_balance pf1 + (\<Sum>kp\<leftarrow>open_positions pf1. unrealized_pnl (snd kp)) in
       bind_res (case current_tick pf1 of
                   None \<Rightarrow> Inr 0
                 | Some t \<Rightarrow> margin_sum (pf_broker pf1) t d (vals_of (open_positions pf1)) 0) (\<lambda>margin_used.
         Inr (\<lparr>ai_balance = pf_balance pf1,
               ai_equity = (case current_tick pf1 of
                              Some t \<Rightarrow> if spot_mode pf1 then get_spot_equity pf1 ((bid t + ask t) / 2) else equity
                            | None \<Rightarrow> equity),
               ai_margin_used = margin_used,
               ai_free_margin = equity - margin_used,
               ai_margin_level = (if margin_used > 0 then (equity / margin_used) * 100 else 0),
               ai_open_positions = length (open_positions pf1),
               ai_total_lots = (\<Sum>kp\<leftarrow>open_positions pf1. pos_lots (snd kp)),
               ai_currency = account_currency pf1,
               ai_leverage = pf_leverage pf1,
               ai_balances = (if spot_mode pf1 then Some (balances pf1) else None)\<rparr>, pf1)))"

definition get_free_margin :: "order_direction \<Rightarrow> portfolio \<Rightarrow> (money \<times> portfolio) res" where
  "get_free_margin d pf =
     bind_res (get_account_info d pf) (\<lambda>(ai, pf'). Inr (ai_free_margin ai, pf'))"

text \<open>The ratios of \<open>get_portfolio_statistics\<close>; \<open>None\<close> is \<open>float('inf')\<close>.\<close>

definition win_rate :: "portfolio \<Rightarrow> rat" where
  "win_rate pf = (if total_trades pf > 0 then of_int (winning_trades pf) / of_int (total_trades pf) else 0)"

definition profit_factor :: "portfolio \<Rightarrow> rat option" where
  "profit_factor pf =
     (if total_loss pf > 0 then Some (total_profit pf / total_loss pf)
      else if total_profit pf = 0 then Some 0 else None)"

text \<open>\<open>PortfolioStats\<close> without the names of the broker. The cost columns are one record. Symbol and last price are set by
  the caller.\<close>

record portfolio_stats =
  ps_total_trades :: int
  ps_total_long_trades :: int
  ps_total_short_trades :: int
  ps_winning_trades :: int
  ps_losing_trades :: int
  ps_total_profit :: money
  ps_total_loss :: money
  ps_max_drawdown :: money
  ps_max_equity :: money
  ps_win_rate :: rat
  ps_profit_factor :: "rat option"
  ps_costs :: cost_breakdown
  ps_currency :: string
  ps_current_conversion_rate :: "rat option"
  ps_current_balance :: money
  ps_initial_balance :: money
  ps_spot_mode :: bool
  ps_balances :: "(string, money) dict"
  ps_initial_balances :: "(string, money) dict"
  ps_last_price :: price
  ps_symbol :: string

definition portfolio_stats_of :: "portfolio \<Rightarrow> portfolio_stats" where
  "portfolio_stats_of pf =
     \<lparr>ps_total_trades = total_trades pf, ps_total_long_trades = total_long_trades pf,
      ps_total_short_trades = total_short_trades pf, ps_winning_trades = winning_trades pf,
      ps_losing_trades = losing_trades pf, ps_total_profit = total_profit pf, ps_total_loss = total_loss pf,
      ps_max_drawdown = max_drawdown pf, ps_max_equity = max_equity pf, ps_win_rate = win_rate pf,
      ps_profit_factor = profit_factor pf, ps_costs = cost_tracking pf, ps_currency = account_currency pf,
      ps_current_conversion_rate = last_conversion_rate pf, ps_current_balance = pf_balance pf,
      ps_initial_balance = initial_balance pf, ps_spot_mode = spot_mode pf, ps_balances = balances pf,
      ps_initial_balances = initial_balances pf, ps_last_price = 0, ps_symbol = []\<rparr>"

definition get_portfolio_statistics :: "portfolio \<Rightarrow> (portfolio_stats \<times> portfolio) res" where
  "get_portfolio_statistics pf = bind_res (ensure_positions_updated pf) (\<lambda>pf1. Inr (portfolio_stats_of pf1, pf1))"

definition get_position :: "portfolio \<Rightarrow> string \<Rightarrow> position option" where
  "get_position pf pid = map_of (open_positions pf) pid"

definition get_open_positions :: "portfolio \<Rightarrow> position list" where
  "get_open_positions pf = vals_of (open_positions pf)"

definition has_open_positions :: "portfolio \<Rightarrow> bool" where
  "has_open_positions pf = (length (open_positions pf) > 0)"

definition pf_reset :: "portfolio \<Rightarrow> portfolio" where
  "pf_reset pf =
     (let pf1 = pf\<lparr>balances := initial_balances pf, realized_pnl := 0, open_positions := [],
                   trade_history := [], position_counter := 0,
                   cost_tracking := new_cost_breakdown [],
                   total_trades := 0, total_long_trades := 0, total_short_trades := 0,
                   winning_trades := 0, losing_trades := 0, total_profit := 0, total_loss := 0,
                   max_drawdown := 0\<rparr>
      in pf1\<lparr>max_equity := pf_balance pf1\<rparr>)"

end
