(* ===== verification/Portfolio_Laws.thy ===== *)
theory Portfolio_Laws
  imports Portfolio
begin

text \<open>
  What the portfolio manager promises. The accounting part of its state is abstracted to a
  \<open>ledger\<close> with a single operation, booking a completed trade; every operation of the portfolio either
  leaves the ledger alone or books exactly the trade record it appends. The invariants of all
  reachable portfolios follow by induction over the step relation \<open>pf_step\<close>.
\<close>

section \<open>Frames\<close>

text \<open>What a refresh may change of one position: fees are only appended, prices and excursions are
  re-marked, nothing else moves.\<close>

definition pos_refreshed :: "position \<Rightarrow> position \<Rightarrow> bool" where
  "pos_refreshed p q \<longleftrightarrow>
     position_id q = position_id p \<and> pos_symbol q = pos_symbol p \<and> pos_direction q = pos_direction p \<and>
     pos_lots q = pos_lots p \<and> original_lots q = original_lots p \<and> entry_price q = entry_price p \<and>
     stop_loss q = stop_loss p \<and> take_profit q = take_profit p \<and> pos_status q = pos_status p \<and>
     pos_digits q = pos_digits p \<and> entry_tick_value q = entry_tick_value p \<and>
     (\<exists>fs. pos_fees q = pos_fees p @ fs) \<and>
     (excursion_ok p \<longrightarrow> excursion_ok q) \<and>
     (swap_accrued_until p \<noteq> None \<longrightarrow> swap_accrued_until q \<noteq> None)"

lemma pos_refreshed_refl [simp]: "pos_refreshed p p"
  by (simp add: pos_refreshed_def)

lemma pos_refreshed_trans: "pos_refreshed p q \<Longrightarrow> pos_refreshed q r \<Longrightarrow> pos_refreshed p r"
  by (auto simp: pos_refreshed_def)

lemma pos_refreshed_reprice: "pos_refreshed p (update_current_price b a tv d p)"
  by (simp add: pos_refreshed_def excursion_ok_update)

lemma pos_refreshed_fees:
  "pos_refreshed p (fst (foldl (swap_fee_step rate) (p, c) rs)) \<and>
   (costs_balanced c \<longrightarrow> costs_balanced (snd (foldl (swap_fee_step rate) (p, c) rs)))"
proof (induction rs arbitrary: p c)
  case (Cons r rs)
  let ?f = "SwapFee rate (snd r) (entry_tick_value p) (pos_lots p) (fst r)"
  have "pos_refreshed p (add_fee ?f p)"
    by (simp add: pos_refreshed_def add_fee_def excursion_ok_def)
  moreover have "costs_balanced c \<longrightarrow> costs_balanced (record_fee_cost ?f c)"
    by (simp add: costs_balanced_record)
  ultimately show ?case
    using Cons.IH [of "add_fee ?f p" "record_fee_cost ?f c"]
    by (auto simp: swap_fee_step_def Let_def elim: pos_refreshed_trans)
qed simp

lemma accrue_swap_refreshed:
  assumes "accrue_swap br roll now p c = Inr (q, c')"
  shows "pos_refreshed p q \<and> (costs_balanced c \<longrightarrow> costs_balanced c')"
proof -
  have upd: "pos_refreshed p (r\<lparr>swap_accrued_until := Some now\<rparr>)" if "pos_refreshed p r" for r
    using that by (simp add: pos_refreshed_def excursion_ok_def)
  from assms obtain since where since: "swap_accrued_until p = Some since"
    by (cases "swap_accrued_until p") (simp_all add: accrue_swap_def)
  show ?thesis
  proof (cases "now \<le> since")
    case True
    with assms since show ?thesis by (simp add: accrue_swap_def)
  next
    case False
    with assms since obtain sp where sp: "get_symbol_specification br (pos_symbol p) = Inr sp"
      by (cases "get_symbol_specification br (pos_symbol p)") (simp_all add: accrue_swap_def)
    show ?thesis
    proof (cases "spec_swap_mode sp = SWAP_POINTS")
      case True
      with assms since False sp show ?thesis
        by (simp add: accrue_swap_def Let_def case_prod_beta)
           (metis pos_refreshed_fees upd)
    next
      case False
      with assms since \<open>\<not> now \<le> since\<close> sp upd [of p] show ?thesis
        by (simp add: accrue_swap_def)
    qed
  qed
qed

lemma reprice_position_refreshed:
  "reprice_position cur br prices p rate = Inr (q, rate') \<Longrightarrow> pos_refreshed p q"
  by (auto simp: reprice_position_def pos_refreshed_reprice split: option.splits)

abbreviation positions_refreshed :: "(string, position) dict \<Rightarrow> (string, position) dict \<Rightarrow> bool" where
  "positions_refreshed d d' \<equiv> list_all2 (\<lambda>kp kq. fst kq = fst kp \<and> pos_refreshed (snd kp) (snd kq)) d d'"

lemma positions_refreshed_refl [simp]: "positions_refreshed d d"
  by (simp add: list.rel_refl)

lemma positions_refreshed_trans:
  "positions_refreshed d1 d2 \<Longrightarrow> positions_refreshed d2 d3 \<Longrightarrow> positions_refreshed d1 d3"
  by (rule list_all2_trans) (auto intro: pos_refreshed_trans)

text \<open>The frame of a refresh on the whole portfolio.\<close>

definition pf_refreshed :: "portfolio \<Rightarrow> portfolio \<Rightarrow> bool" where
  "pf_refreshed pf pf' \<longleftrightarrow>
     (\<exists>ps c r d. pf' = pf\<lparr>open_positions := ps, cost_tracking := c, last_conversion_rate := r,
                         positions_dirty := d\<rparr> \<and>
       positions_refreshed (open_positions pf) ps \<and>
       (costs_balanced (cost_tracking pf) \<longrightarrow> costs_balanced c))"

lemma accrue_all_swaps_refreshed:
  assumes "accrue_all_swaps pf = Inr pf'"
  shows "\<exists>ps c. pf' = pf\<lparr>open_positions := ps, cost_tracking := c\<rparr> \<and>
    positions_refreshed (open_positions pf) ps \<and>
    (costs_balanced (cost_tracking pf) \<longrightarrow> costs_balanced c)"
proof (cases "pf' = pf")
  case True
  then show ?thesis by (intro exI [of _ "open_positions pf"] exI [of _ "cost_tracking pf"]) simp
next
  case False
  with assms obtain roll now ps c where
    t: "traverse_dict (accrue_swap (pf_broker pf) roll now) (open_positions pf) (cost_tracking pf) = Inr (ps, c)"
    and pf': "pf' = pf\<lparr>open_positions := ps, cost_tracking := c\<rparr>"
    by (auto simp: accrue_all_swaps_def split: option.splits if_splits)
  have "positions_refreshed (open_positions pf) ps"
    using t by (rule traverse_dict_rel) (auto dest: accrue_swap_refreshed)
  moreover have "costs_balanced (cost_tracking pf) \<longrightarrow> costs_balanced c"
    using traverse_dict_state [OF t, of costs_balanced] accrue_swap_refreshed by blast
  ultimately show ?thesis using pf' by blast
qed

lemma reprice_all_refreshed:
  assumes "reprice_all pf = Inr pf'"
  shows "\<exists>ps r. pf' = pf\<lparr>open_positions := ps, last_conversion_rate := r, positions_dirty := False\<rparr> \<and>
    positions_refreshed (open_positions pf) ps"
proof -
  from assms obtain ps r where
    t: "traverse_dict (reprice_position (account_currency pf) (pf_broker pf) (current_prices pf))
          (open_positions pf) (last_conversion_rate pf) = Inr (ps, r)"
    and pf': "pf' = pf\<lparr>open_positions := ps, last_conversion_rate := r, positions_dirty := False\<rparr>"
    by (auto simp: reprice_all_def)
  from t have "positions_refreshed (open_positions pf) ps"
    by (rule traverse_dict_rel) (auto dest: reprice_position_refreshed)
  with pf' show ?thesis by blast
qed

lemma ensure_refreshed:
  assumes "ensure_positions_updated pf = Inr pf'"
  shows "pf_refreshed pf pf'"
proof -
  from assms obtain pf1 where a: "accrue_all_swaps pf = Inr pf1"
    and b: "if \<not> positions_dirty pf1 then pf' = pf1 else reprice_all pf1 = Inr pf'"
    by (auto simp: ensure_positions_updated_def split: if_splits)
  from accrue_all_swaps_refreshed [OF a] obtain ps c where
    pf1: "pf1 = pf\<lparr>open_positions := ps, cost_tracking := c\<rparr>"
    and ps: "positions_refreshed (open_positions pf) ps"
    and c: "costs_balanced (cost_tracking pf) \<longrightarrow> costs_balanced c" by blast
  show ?thesis
  proof (cases "positions_dirty pf1")
    case False
    with b pf1 ps c show ?thesis
      by (auto simp: pf_refreshed_def
          intro!: exI [of _ ps] exI [of _ c] exI [of _ "last_conversion_rate pf"] exI [of _ "positions_dirty pf"])
  next
    case True
    with b have "reprice_all pf1 = Inr pf'" by simp
    from reprice_all_refreshed [OF this] pf1 obtain ps2 r where
      "pf' = pf1\<lparr>open_positions := ps2, last_conversion_rate := r, positions_dirty := False\<rparr>"
      and "positions_refreshed ps ps2" by auto
    with pf1 ps c show ?thesis
      by (auto simp: pf_refreshed_def intro!: exI [of _ ps2] exI [of _ c] exI [of _ r] exI [of _ False]
          intro: positions_refreshed_trans)
  qed
qed

lemma refreshed_frame:
  assumes "pf_refreshed pf pf'"
  shows "balances pf' = balances pf" "initial_balances pf' = initial_balances pf"
    "account_currency pf' = account_currency pf" "spot_mode pf' = spot_mode pf"
    "pf_broker pf' = pf_broker pf" "pf_clock pf' = pf_clock pf"
    "realized_pnl pf' = realized_pnl pf" "trade_history pf' = trade_history pf"
    "trade_history_max pf' = trade_history_max pf" "total_trades pf' = total_trades pf"
    "total_long_trades pf' = total_long_trades pf" "total_short_trades pf' = total_short_trades pf"
    "winning_trades pf' = winning_trades pf" "losing_trades pf' = losing_trades pf"
    "total_profit pf' = total_profit pf" "total_loss pf' = total_loss pf"
    "max_drawdown pf' = max_drawdown pf" "max_equity pf' = max_equity pf"
    "position_counter pf' = position_counter pf" "current_prices pf' = current_prices pf"
    "current_tick pf' = current_tick pf" "swap_rollover pf' = swap_rollover pf"
    "pf_balance pf' = pf_balance pf" "initial_balance pf' = initial_balance pf"
    "pf_leverage pf' = pf_leverage pf"
  using assms by (auto simp: pf_refreshed_def pf_balance_def initial_balance_def)

lemma refreshed_positions:
  "pf_refreshed pf pf' \<Longrightarrow> positions_refreshed (open_positions pf) (open_positions pf')"
  "pf_refreshed pf pf' \<Longrightarrow> keys_of (open_positions pf') = keys_of (open_positions pf)"
  "pf_refreshed pf pf' \<Longrightarrow> costs_balanced (cost_tracking pf) \<Longrightarrow> costs_balanced (cost_tracking pf')"
  by (auto simp: pf_refreshed_def dest: dict_rel_keys)

lemma update_statistics_frame [simp]:
  "balances (update_statistics p pnl pf) = balances pf"
  "initial_balances (update_statistics p pnl pf) = initial_balances pf"
  "account_currency (update_statistics p pnl pf) = account_currency pf"
  "spot_mode (update_statistics p pnl pf) = spot_mode pf"
  "pf_broker (update_statistics p pnl pf) = pf_broker pf"
  "pf_clock (update_statistics p pnl pf) = pf_clock pf"
  "realized_pnl (update_statistics p pnl pf) = realized_pnl pf"
  "trade_history (update_statistics p pnl pf) = trade_history pf"
  "trade_history_max (update_statistics p pnl pf) = trade_history_max pf"
  "open_positions (update_statistics p pnl pf) = open_positions pf"
  "cost_tracking (update_statistics p pnl pf) = cost_tracking pf"
  "position_counter (update_statistics p pnl pf) = position_counter pf"
  "current_prices (update_statistics p pnl pf) = current_prices pf"
  "current_tick (update_statistics p pnl pf) = current_tick pf"
  "swap_rollover (update_statistics p pnl pf) = swap_rollover pf"
  "positions_dirty (update_statistics p pnl pf) = positions_dirty pf"
  by (simp_all add: update_statistics_def Let_def)

lemma update_statistics_counts:
  "total_trades (update_statistics p pnl pf) = total_trades pf + 1"
  "total_long_trades (update_statistics p pnl pf) = total_long_trades pf + (if pos_direction p = LONG then 1 else 0)"
  "total_short_trades (update_statistics p pnl pf) = total_short_trades pf + (if pos_direction p = LONG then 0 else 1)"
  "winning_trades (update_statistics p pnl pf) = winning_trades pf + (if pnl > 0 then 1 else 0)"
  "losing_trades (update_statistics p pnl pf) = losing_trades pf + (if pnl > 0 then 0 else 1)"
  "total_profit (update_statistics p pnl pf) = total_profit pf + (if pnl > 0 then pnl else 0)"
  "total_loss (update_statistics p pnl pf) = total_loss pf + (if pnl > 0 then 0 else - pnl)"
  by (simp_all add: update_statistics_def Let_def)

lemma update_statistics_risk:
  fixes p pnl pf
  defines "pf' \<equiv> update_statistics p pnl pf"
  shows "max_equity pf' = max (max_equity pf) (calculate_equity pf)"
    and "max_drawdown pf' = max (max_drawdown pf) (max_equity pf' - calculate_equity pf)"
proof -
  have eq: "calculate_equity (pf\<lparr>total_trades := a, total_long_trades := b, winning_trades := c, total_profit := d\<rparr>) = calculate_equity pf"
    "calculate_equity (pf\<lparr>total_trades := a, total_short_trades := b, winning_trades := c, total_profit := d\<rparr>) = calculate_equity pf"
    "calculate_equity (pf\<lparr>total_trades := a, total_long_trades := b, losing_trades := c, total_loss := d\<rparr>) = calculate_equity pf"
    "calculate_equity (pf\<lparr>total_trades := a, total_short_trades := b, losing_trades := c, total_loss := d\<rparr>) = calculate_equity pf"
    for a b c d by (simp_all add: calculate_equity_def pf_balance_def)
  show "max_equity pf' = max (max_equity pf) (calculate_equity pf)"
    "max_drawdown pf' = max (max_drawdown pf) (max_equity pf' - calculate_equity pf)"
    by (simp_all add: pf'_def update_statistics_def Let_def eq max_def)
qed

lemma append_history_frame [simp]:
  "balances (append_history tr pf) = balances pf"
  "initial_balances (append_history tr pf) = initial_balances pf"
  "account_currency (append_history tr pf) = account_currency pf"
  "spot_mode (append_history tr pf) = spot_mode pf"
  "pf_broker (append_history tr pf) = pf_broker pf"
  "pf_clock (append_history tr pf) = pf_clock pf"
  "realized_pnl (append_history tr pf) = realized_pnl pf"
  "trade_history_max (append_history tr pf) = trade_history_max pf"
  "open_positions (append_history tr pf) = open_positions pf"
  "cost_tracking (append_history tr pf) = cost_tracking pf"
  "position_counter (append_history tr pf) = position_counter pf"
  "current_prices (append_history tr pf) = current_prices pf"
  "current_tick (append_history tr pf) = current_tick pf"
  "swap_rollover (append_history tr pf) = swap_rollover pf"
  "total_trades (append_history tr pf) = total_trades pf"
  "total_long_trades (append_history tr pf) = total_long_trades pf"
  "total_short_trades (append_history tr pf) = total_short_trades pf"
  "winning_trades (append_history tr pf) = winning_trades pf"
  "losing_trades (append_history tr pf) = losing_trades pf"
  "total_profit (append_history tr pf) = total_profit pf"
  "total_loss (append_history tr pf) = total_loss pf"
  "max_drawdown (append_history tr pf) = max_drawdown pf"
  "max_equity (append_history tr pf) = max_equity pf"
  "trade_history (append_history tr pf) = deque_append (trade_history_max pf) (trade_history pf) tr"
  by (simp_all add: append_history_def Let_def)

section \<open>The ledger\<close>

text \<open>The abstract accounting state and its only transition.\<close>

record ledger =
  lg_realized :: money
  lg_profit :: money
  lg_loss :: money
  lg_wins :: int
  lg_losses :: int
  lg_longs :: int
  lg_shorts :: int
  lg_trades :: int
  lg_history :: "trade_record list"

definition ledger_of :: "portfolio \<Rightarrow> ledger" where
  "ledger_of pf =
     \<lparr>lg_realized = realized_pnl pf, lg_profit = total_profit pf, lg_loss = total_loss pf,
      lg_wins = winning_trades pf, lg_losses = losing_trades pf,
      lg_longs = total_long_trades pf, lg_shorts = total_short_trades pf,
      lg_trades = total_trades pf, lg_history = trade_history pf\<rparr>"

definition empty_ledger :: ledger where
  "empty_ledger = \<lparr>lg_realized = 0, lg_profit = 0, lg_loss = 0, lg_wins = 0, lg_losses = 0,
     lg_longs = 0, lg_shorts = 0, lg_trades = 0, lg_history = []\<rparr>"

definition book_trade :: "nat \<Rightarrow> ledger \<Rightarrow> trade_record \<Rightarrow> ledger" where
  "book_trade hmax lg tr =
     (let n = tr_net_pnl tr; won = n > 0; long = tr_direction tr = LONG in
      \<lparr>lg_realized = lg_realized lg + n,
       lg_profit = lg_profit lg + (if won then n else 0),
       lg_loss = lg_loss lg + (if won then 0 else - n),
       lg_wins = lg_wins lg + (if won then 1 else 0),
       lg_losses = lg_losses lg + (if won then 0 else 1),
       lg_longs = lg_longs lg + (if long then 1 else 0),
       lg_shorts = lg_shorts lg + (if long then 0 else 1),
       lg_trades = lg_trades lg + 1,
       lg_history = deque_append hmax (lg_history lg) tr\<rparr>)"

lemma ledger_of_book:
  assumes "tr_net_pnl tr = pnl" and "tr_direction tr = pos_direction p"
    and "ledger_of pf' = (ledger_of pf)\<lparr>lg_realized := lg_realized (ledger_of pf) + pnl,
            lg_history := deque_append hmax (trade_history pf) tr\<rparr>"
  shows "ledger_of (update_statistics p pnl pf') = book_trade hmax (ledger_of pf) tr"
  using assms by (simp add: ledger_of_def book_trade_def update_statistics_counts Let_def)

lemma refreshed_ledger: "pf_refreshed pf pf' \<Longrightarrow> ledger_of pf' = ledger_of pf"
  by (simp add: ledger_of_def refreshed_frame)

lemma pf_record_fee_frame [simp]:
  "balances (pf_record_fee f pf) = balances pf"
  "initial_balances (pf_record_fee f pf) = initial_balances pf"
  "account_currency (pf_record_fee f pf) = account_currency pf"
  "spot_mode (pf_record_fee f pf) = spot_mode pf"
  "pf_broker (pf_record_fee f pf) = pf_broker pf"
  "pf_clock (pf_record_fee f pf) = pf_clock pf"
  "open_positions (pf_record_fee f pf) = open_positions pf"
  "trade_history_max (pf_record_fee f pf) = trade_history_max pf"
  "trade_history (pf_record_fee f pf) = trade_history pf"
  "realized_pnl (pf_record_fee f pf) = realized_pnl pf"
  "position_counter (pf_record_fee f pf) = position_counter pf"
  "current_prices (pf_record_fee f pf) = current_prices pf"
  "current_tick (pf_record_fee f pf) = current_tick pf"
  "max_drawdown (pf_record_fee f pf) = max_drawdown pf"
  "max_equity (pf_record_fee f pf) = max_equity pf"
  "swap_rollover (pf_record_fee f pf) = swap_rollover pf"
  "ledger_of (pf_record_fee f pf) = ledger_of pf"
  "pf_balance (pf_record_fee f pf) = pf_balance pf"
  by (simp_all add: pf_record_fee_def ledger_of_def pf_balance_def)

section \<open>What the operations do\<close>

text \<open>The portfolio with an optional fee recorded: the two branches of \<open>if exit_fee\<close>.\<close>

definition charge :: "fee option \<Rightarrow> portfolio \<Rightarrow> portfolio" where
  "charge fo pf = (case fo of None \<Rightarrow> pf | Some f \<Rightarrow> pf_record_fee f pf)"

definition attach :: "fee option \<Rightarrow> position \<Rightarrow> position" where
  "attach fo p = (case fo of None \<Rightarrow> p | Some f \<Rightarrow> add_fee f p)"

lemma charge_frame [simp]:
  "balances (charge fo pf) = balances pf"
  "initial_balances (charge fo pf) = initial_balances pf"
  "account_currency (charge fo pf) = account_currency pf"
  "spot_mode (charge fo pf) = spot_mode pf"
  "pf_broker (charge fo pf) = pf_broker pf"
  "pf_clock (charge fo pf) = pf_clock pf"
  "open_positions (charge fo pf) = open_positions pf"
  "trade_history_max (charge fo pf) = trade_history_max pf"
  "trade_history (charge fo pf) = trade_history pf"
  "realized_pnl (charge fo pf) = realized_pnl pf"
  "position_counter (charge fo pf) = position_counter pf"
  "current_prices (charge fo pf) = current_prices pf"
  "current_tick (charge fo pf) = current_tick pf"
  "max_drawdown (charge fo pf) = max_drawdown pf"
  "max_equity (charge fo pf) = max_equity pf"
  "swap_rollover (charge fo pf) = swap_rollover pf"
  "ledger_of (charge fo pf) = ledger_of pf"
  "pf_balance (charge fo pf) = pf_balance pf"
  by (simp_all add: charge_def split: option.split)

lemma charge_costs_balanced:
  "costs_balanced (cost_tracking pf) \<Longrightarrow> pred_option well_typed_fee fo \<Longrightarrow> costs_balanced (cost_tracking (charge fo pf))"
  by (cases fo) (simp_all add: charge_def pf_record_fee_def costs_balanced_record)

lemma charge_total_fees:
  "total_fees (cost_tracking (charge fo pf)) = total_fees (cost_tracking pf) + opt_fee_cost fo"
  by (simp add: charge_def pf_record_fee_def opt_fee_cost_def split: option.split)

lemma attach_frame [simp]:
  "position_id (attach fo p) = position_id p" "pos_symbol (attach fo p) = pos_symbol p"
  "pos_direction (attach fo p) = pos_direction p" "pos_lots (attach fo p) = pos_lots p"
  "gross_pnl (attach fo p) = gross_pnl p" "unrealized_pnl (attach fo p) = unrealized_pnl p"
  "entry_price (attach fo p) = entry_price p" "pos_digits (attach fo p) = pos_digits p"
  "get_total_fees (attach fo p) = get_total_fees p + opt_fee_cost fo"
  by (simp_all add: attach_def opt_fee_cost_def split: option.split)

lemma ledger_of_balances [simp]:
  "ledger_of (pf\<lparr>balances := b\<rparr>) = ledger_of pf"
  "ledger_of (pf\<lparr>open_positions := ps\<rparr>) = ledger_of pf"
  "ledger_of (set_balance v pf) = ledger_of pf"
  by (simp_all add: ledger_of_def set_balance_def)

lemma set_balance_frame [simp]:
  "pf_balance (set_balance v pf) = v"
  "spot_mode (set_balance v pf) = spot_mode pf"
  "initial_balances (set_balance v pf) = initial_balances pf"
  "account_currency (set_balance v pf) = account_currency pf"
  "pf_broker (set_balance v pf) = pf_broker pf"
  "pf_clock (set_balance v pf) = pf_clock pf"
  "open_positions (set_balance v pf) = open_positions pf"
  "cost_tracking (set_balance v pf) = cost_tracking pf"
  "trade_history_max (set_balance v pf) = trade_history_max pf"
  "trade_history (set_balance v pf) = trade_history pf"
  "realized_pnl (set_balance v pf) = realized_pnl pf"
  "position_counter (set_balance v pf) = position_counter pf"
  "current_prices (set_balance v pf) = current_prices pf"
  "current_tick (set_balance v pf) = current_tick pf"
  "max_drawdown (set_balance v pf) = max_drawdown pf"
  "max_equity (set_balance v pf) = max_equity pf"
  "swap_rollover (set_balance v pf) = swap_rollover pf"
  by (simp_all add: set_balance_def pf_balance_def dict_simps)

text \<open>The common tail of both close operations: realise, append the record, replace the position map,
  update the statistics.\<close>

definition conclude_close ::
  "trade_record \<Rightarrow> position \<Rightarrow> (string, position) dict \<Rightarrow> money \<Rightarrow> portfolio \<Rightarrow> portfolio" where
  "conclude_close tr p ps pnl pf =
     update_statistics p pnl
       ((append_history tr (pf\<lparr>realized_pnl := realized_pnl pf + pnl\<rparr>))\<lparr>open_positions := ps\<rparr>)"

lemma conclude_close_frame [simp]:
  "balances (conclude_close tr p ps pnl pf) = balances pf"
  "pf_balance (conclude_close tr p ps pnl pf) = pf_balance pf"
  "initial_balances (conclude_close tr p ps pnl pf) = initial_balances pf"
  "account_currency (conclude_close tr p ps pnl pf) = account_currency pf"
  "spot_mode (conclude_close tr p ps pnl pf) = spot_mode pf"
  "pf_broker (conclude_close tr p ps pnl pf) = pf_broker pf"
  "pf_clock (conclude_close tr p ps pnl pf) = pf_clock pf"
  "open_positions (conclude_close tr p ps pnl pf) = ps"
  "cost_tracking (conclude_close tr p ps pnl pf) = cost_tracking pf"
  "trade_history_max (conclude_close tr p ps pnl pf) = trade_history_max pf"
  "trade_history (conclude_close tr p ps pnl pf) = deque_append (trade_history_max pf) (trade_history pf) tr"
  "realized_pnl (conclude_close tr p ps pnl pf) = realized_pnl pf + pnl"
  "position_counter (conclude_close tr p ps pnl pf) = position_counter pf"
  "current_prices (conclude_close tr p ps pnl pf) = current_prices pf"
  "current_tick (conclude_close tr p ps pnl pf) = current_tick pf"
  "swap_rollover (conclude_close tr p ps pnl pf) = swap_rollover pf"
  by (simp_all add: conclude_close_def pf_balance_def)

lemma conclude_close_ledger:
  "tr_net_pnl tr = pnl \<Longrightarrow> tr_direction tr = pos_direction p \<Longrightarrow>
   ledger_of (conclude_close tr p ps pnl pf) = book_trade (trade_history_max pf) (ledger_of pf) tr"
  unfolding conclude_close_def by (rule ledger_of_book) (simp_all add: ledger_of_def)

definition closed_position :: "close_args \<Rightarrow> instant \<Rightarrow> position \<Rightarrow> position" where
  "closed_position cl now q =
     q\<lparr>pos_status := PS_CLOSED, close_time := Some now, close_price := Some (cl_exit_price cl),
       exit_tick_value := cl_exit_tick_value cl, exit_tick_index := cl_exit_tick_index cl\<rparr>"

lemma settle_frame:
  assumes "settle_full_close cl p pf = Inr (pnl, q, pf')"
  shows "\<exists>b. pf' = pf\<lparr>balances := b\<rparr>" and "unrealized_pnl q = pnl" and "pos_direction q = pos_direction p"
    and "position_id q = position_id p" and "pos_lots q = pos_lots p" and "get_total_fees q = get_total_fees p"
    and "\<not> spot_mode pf \<Longrightarrow> pnl = unrealized_pnl p \<and> q = p \<and> pf' = set_balance (pf_balance pf + pnl) pf"
    and "spot_mode pf \<Longrightarrow>
      q = update_current_price (cl_exit_price cl) (cl_exit_price cl) (cl_exit_tick_value cl) (pos_digits p) p \<and>
      spot_close_transfer (pf_broker pf) p (pos_lots p) (cl_exit_price cl) (opt_fee_cost (cl_exit_fee cl)) (balances pf)
        = Inr (balances pf')"
  using assms by (auto simp: settle_full_close_def set_balance_def Let_def split: if_splits)

lemma close_spec:
  assumes "close_position_portfolio cl pf = Inr (pnl, pf')"
  obtains pf1 p q now pf2 where
    "ensure_positions_updated pf = Inr pf1"
    "map_of (open_positions pf1) (cl_position_id cl) = Some p"
    "pf_clock pf2 = Some now"
    "settle_full_close cl (attach (cl_exit_fee cl) p) (charge (cl_exit_fee cl) pf1) = Inr (pnl, q, pf2)"
    "pf' = conclude_close
        (create_trade_record (account_currency pf2) (closed_position cl now q) CT_FULL (cl_close_reason cl)
          (cl_exit_trades cl) (cl_exit_submission cl))
        (closed_position cl now q) (AList.delete (cl_position_id cl) (open_positions pf2)) pnl pf2"
proof -
  from assms have "map_of (open_positions pf) (cl_position_id cl) \<noteq> None"
    by (auto simp: close_position_portfolio_def split: if_splits)
  with assms obtain pf1 p where e: "ensure_positions_updated pf = Inr pf1"
    and p: "map_of (open_positions pf1) (cl_position_id cl) = Some p"
    by (auto simp: close_position_portfolio_def)
  let ?pf2 = "charge (cl_exit_fee cl) pf1" and ?p1 = "attach (cl_exit_fee cl) p"
  have pair: "(case cl_exit_fee cl of None \<Rightarrow> (p, pf1) | Some f \<Rightarrow> (add_fee f p, pf_record_fee f pf1)) = (?p1, ?pf2)"
    by (simp add: charge_def attach_def split: option.split)
  note prem = assms [unfolded close_position_portfolio_def if_not_P [OF \<open>map_of _ _ \<noteq> None\<close>]
      e bind_res_simps lookup_key_def p option.case pair Let_def prod.case]
  from prem obtain r q pf3 where s: "settle_full_close cl ?p1 ?pf2 = Inr (r, q, pf3)"
    by (cases "settle_full_close cl ?p1 ?pf2") auto
  from prem s obtain now where n: "pf_clock pf3 = Some now"
    by (cases "pf_clock pf3") (simp_all add: clock_now_def)
  from prem s n have r: "r = pnl" by (simp add: clock_now_def)
  from prem s n r have "pf' = conclude_close
        (create_trade_record (account_currency pf3) (closed_position cl now q) CT_FULL (cl_close_reason cl)
          (cl_exit_trades cl) (cl_exit_submission cl))
        (closed_position cl now q) (AList.delete (cl_position_id cl) (open_positions pf3)) pnl pf3"
    by (simp add: clock_now_def conclude_close_def closed_position_def)
  with e p s n r that show ?thesis by blast
qed

lemma partial_close_spec:
  assumes "partial_close_position l cl pf = Inr (pnl, pf')"
  obtains pf1 p pf3 now ratio fees where
    "ensure_positions_updated pf = Inr pf1"
    "map_of (open_positions pf1) (cl_position_id cl) = Some p"
    "pos_lots p \<noteq> 0" "ratio = l / pos_lots p"
    "fees = get_total_fees p * ratio + opt_fee_cost (cl_exit_fee cl)"
    "pnl = gross_pnl p * ratio - fees"
    "\<exists>b. pf3 = (charge (cl_exit_fee cl) pf1)\<lparr>balances := b\<rparr>"
    "spot_mode pf1 \<Longrightarrow> spot_close_transfer (pf_broker pf1) p l (cl_exit_price cl)
        (opt_fee_cost (cl_exit_fee cl)) (balances pf1) = Inr (balances pf3)"
    "\<not> spot_mode pf1 \<Longrightarrow> pf3 = set_balance (pf_balance pf1 + pnl) (charge (cl_exit_fee cl) pf1)"
    "pf' = conclude_close
        (partial_trade_record (account_currency pf3) p cl l ratio (gross_pnl p * ratio) fees now)
        (shrink_position l (1 - ratio) p)
        (AList.update (cl_position_id cl) (shrink_position l (1 - ratio) p) (open_positions pf3)) pnl pf3"
proof -
  from assms have "map_of (open_positions pf) (cl_position_id cl) \<noteq> None"
    by (auto simp: partial_close_position_def split: if_splits)
  with assms obtain pf1 p where e: "ensure_positions_updated pf = Inr pf1"
    and p: "map_of (open_positions pf1) (cl_position_id cl) = Some p"
    by (auto simp: partial_close_position_def)
  have lots: "pos_lots p \<noteq> 0"
    using assms \<open>map_of (open_positions pf) _ \<noteq> None\<close> e p
    by (auto simp: partial_close_position_def lookup_key_def split: if_splits)
  define ratio where "ratio = l / pos_lots p"
  define fees where "fees = get_total_fees p * ratio + opt_fee_cost (cl_exit_fee cl)"
  define net where "net = gross_pnl p * ratio - fees"
  define settled where "settled =
    (if spot_mode (charge (cl_exit_fee cl) pf1)
     then bind_res (spot_close_transfer (pf_broker (charge (cl_exit_fee cl) pf1)) p l (cl_exit_price cl)
             (opt_fee_cost (cl_exit_fee cl)) (balances (charge (cl_exit_fee cl) pf1)))
            (\<lambda>b. Inr ((charge (cl_exit_fee cl) pf1)\<lparr>balances := b\<rparr>))
     else Inr (set_balance (pf_balance (charge (cl_exit_fee cl) pf1) + net) (charge (cl_exit_fee cl) pf1)))"
  note prem = assms [unfolded partial_close_position_def if_not_P [OF \<open>map_of _ _ \<noteq> None\<close>]
      e bind_res_simps lookup_key_def p option.case if_not_P [OF lots] Let_def
      charge_def [symmetric] ratio_def [symmetric] fees_def [symmetric] net_def [symmetric]
      settled_def [symmetric]]
  from prem obtain pf3 where s: "settled = Inr pf3" by (cases settled) auto
  from prem s obtain now where n: "pf_clock pf3 = Some now"
    by (cases "pf_clock pf3") (simp_all add: clock_now_def)
  from prem s n have net: "pnl = net" by (simp add: clock_now_def)
  from prem s n have "pf' = conclude_close
        (partial_trade_record (account_currency pf3) p cl l ratio (gross_pnl p * ratio) fees now)
        (shrink_position l (1 - ratio) p)
        (AList.update (cl_position_id cl) (shrink_position l (1 - ratio) p) (open_positions pf3)) pnl pf3"
    unfolding net by (simp add: clock_now_def conclude_close_def)
  moreover have "\<exists>b. pf3 = (charge (cl_exit_fee cl) pf1)\<lparr>balances := b\<rparr>"
    "spot_mode pf1 \<Longrightarrow> spot_close_transfer (pf_broker pf1) p l (cl_exit_price cl)
        (opt_fee_cost (cl_exit_fee cl)) (balances pf1) = Inr (balances pf3)"
    "\<not> spot_mode pf1 \<Longrightarrow> pf3 = set_balance (pf_balance pf1 + pnl) (charge (cl_exit_fee cl) pf1)"
    using s unfolding net settled_def by (auto simp: set_balance_def split: if_splits)
  ultimately show ?thesis
    using e p lots net that [OF _ _ _ ratio_def fees_def] unfolding net_def by blast
qed

section \<open>Refinement: the ledger books what the history records\<close>

lemma create_trade_record_simps [simp]:
  "tr_net_pnl (create_trade_record cur p ct cr xs sub) = unrealized_pnl p"
  "tr_gross_pnl (create_trade_record cur p ct cr xs sub) = gross_pnl p"
  "tr_direction (create_trade_record cur p ct cr xs sub) = pos_direction p"
  "tr_position_id (create_trade_record cur p ct cr xs sub) = position_id p"
  "tr_total_fees (create_trade_record cur p ct cr xs sub) = get_total_fees p"
  "tr_lots (create_trade_record cur p ct cr xs sub) = pos_lots p"
  "tr_close_type (create_trade_record cur p ct cr xs sub) = ct"
  "tr_exit_price (create_trade_record cur p ct cr xs sub) = close_price p"
  "tr_close_reason (create_trade_record cur p ct cr xs sub) = cr"
  by (simp_all add: create_trade_record_def)

lemma partial_trade_record_simps [simp]:
  "tr_net_pnl (partial_trade_record cur p cl l r g f now) = g - f"
  "tr_gross_pnl (partial_trade_record cur p cl l r g f now) = g"
  "tr_direction (partial_trade_record cur p cl l r g f now) = pos_direction p"
  "tr_position_id (partial_trade_record cur p cl l r g f now) = position_id p"
  "tr_total_fees (partial_trade_record cur p cl l r g f now) = f"
  "tr_lots (partial_trade_record cur p cl l r g f now) = l"
  "tr_close_type (partial_trade_record cur p cl l r g f now) = CT_PARTIAL"
  by (simp_all add: partial_trade_record_def)

lemma closed_position_simps [simp]:
  "unrealized_pnl (closed_position cl now q) = unrealized_pnl q"
  "gross_pnl (closed_position cl now q) = gross_pnl q"
  "pos_direction (closed_position cl now q) = pos_direction q"
  "position_id (closed_position cl now q) = position_id q"
  "pos_lots (closed_position cl now q) = pos_lots q"
  "close_price (closed_position cl now q) = Some (cl_exit_price cl)"
  "get_total_fees (closed_position cl now q) = get_total_fees q"
  by (simp_all add: closed_position_def get_total_fees_def)

lemma shrink_position_simps [simp]:
  "position_id (shrink_position l r p) = position_id p"
  "pos_symbol (shrink_position l r p) = pos_symbol p"
  "pos_direction (shrink_position l r p) = pos_direction p"
  "pos_lots (shrink_position l r p) = py_round (pos_lots p - l) 8"
  "pos_status (shrink_position l r p) = PS_PARTIALLY_CLOSED"
  "gross_pnl (shrink_position l r p) = gross_pnl p * r"
  "mae_pnl (shrink_position l r p) = mae_pnl p"
  "mfe_pnl (shrink_position l r p) = mfe_pnl p"
  "swap_accrued_until (shrink_position l r p) = swap_accrued_until p"
  "stop_loss (shrink_position l r p) = stop_loss p"
  "take_profit (shrink_position l r p) = take_profit p"
  by (simp_all add: shrink_position_def Let_def)

lemma get_total_fees_shrink [simp]:
  "get_total_fees (shrink_position l r p) = get_total_fees p * r"
  by (simp add: shrink_position_def get_total_fees_def Let_def o_def sum_list_mult_const)

lemma unrealized_shrink:
  "unrealized_pnl (shrink_position l r p) = (gross_pnl p - get_total_fees p) * r"
proof -
  have "unrealized_pnl (shrink_position l r p) = gross_pnl (shrink_position l r p) - get_total_fees (shrink_position l r p)"
    by (simp add: shrink_position_def get_total_fees_def Let_def)
  then show ?thesis by (simp add: algebra_simps)
qed

lemma pf_simps_balances [simp]:
  "\<exists>b. pf' = pf\<lparr>balances := b\<rparr> \<Longrightarrow> ledger_of pf' = ledger_of pf"
  by auto

lemma close_books:
  assumes "close_position_portfolio cl pf = Inr (pnl, pf')"
  shows "\<exists>tr. ledger_of pf' = book_trade (trade_history_max pf) (ledger_of pf) tr \<and>
    tr_net_pnl tr = pnl \<and> tr_close_type tr = CT_FULL \<and> tr_exit_price tr = Some (cl_exit_price cl)"
  using assms
proof (rule close_spec)
  fix pf1 p q now pf2
  assume e: "ensure_positions_updated pf = Inr pf1"
    and s: "settle_full_close cl (attach (cl_exit_fee cl) p) (charge (cl_exit_fee cl) pf1) = Inr (pnl, q, pf2)"
    and pf': "pf' = conclude_close
        (create_trade_record (account_currency pf2) (closed_position cl now q) CT_FULL (cl_close_reason cl)
          (cl_exit_trades cl) (cl_exit_submission cl))
        (closed_position cl now q) (AList.delete (cl_position_id cl) (open_positions pf2)) pnl pf2"
  note r = ensure_refreshed [OF e] and st = settle_frame [OF s]
  from st(1) have "trade_history_max pf2 = trade_history_max pf1" "ledger_of pf2 = ledger_of pf1" by auto
  with r have "trade_history_max pf2 = trade_history_max pf" "ledger_of pf2 = ledger_of pf"
    by (simp_all add: refreshed_frame refreshed_ledger)
  then show ?thesis
    unfolding pf' using st(2) by (subst conclude_close_ledger) (auto intro!: exI)
qed

lemma partial_close_books:
  assumes "partial_close_position l cl pf = Inr (pnl, pf')"
  shows "\<exists>tr. ledger_of pf' = book_trade (trade_history_max pf) (ledger_of pf) tr \<and>
    tr_net_pnl tr = pnl \<and> tr_close_type tr = CT_PARTIAL \<and> tr_lots tr = l"
  using assms
proof (rule partial_close_spec)
  fix pf1 p pf3 now ratio fees
  assume e: "ensure_positions_updated pf = Inr pf1"
    and pnl: "pnl = gross_pnl p * ratio - fees"
    and b: "\<exists>b. pf3 = (charge (cl_exit_fee cl) pf1)\<lparr>balances := b\<rparr>"
    and pf': "pf' = conclude_close
        (partial_trade_record (account_currency pf3) p cl l ratio (gross_pnl p * ratio) fees now)
        (shrink_position l (1 - ratio) p)
        (AList.update (cl_position_id cl) (shrink_position l (1 - ratio) p) (open_positions pf3)) pnl pf3"
  from b have "trade_history_max pf3 = trade_history_max pf1" "ledger_of pf3 = ledger_of pf1" by auto
  with ensure_refreshed [OF e] have "trade_history_max pf3 = trade_history_max pf" "ledger_of pf3 = ledger_of pf"
    by (simp_all add: refreshed_frame refreshed_ledger)
  then show ?thesis
    unfolding pf' using pnl by (subst conclude_close_ledger) (auto intro!: exI)
qed

text \<open>Facts about a ledger obtained by booking a sequence of trades.\<close>

lemma book_trade_sel [simp]:
  "lg_realized (book_trade n lg tr) = lg_realized lg + tr_net_pnl tr"
  "lg_profit (book_trade n lg tr) = lg_profit lg + (if tr_net_pnl tr > 0 then tr_net_pnl tr else 0)"
  "lg_loss (book_trade n lg tr) = lg_loss lg + (if tr_net_pnl tr > 0 then 0 else - tr_net_pnl tr)"
  "lg_wins (book_trade n lg tr) = lg_wins lg + (if tr_net_pnl tr > 0 then 1 else 0)"
  "lg_losses (book_trade n lg tr) = lg_losses lg + (if tr_net_pnl tr > 0 then 0 else 1)"
  "lg_longs (book_trade n lg tr) = lg_longs lg + (if tr_direction tr = LONG then 1 else 0)"
  "lg_shorts (book_trade n lg tr) = lg_shorts lg + (if tr_direction tr = LONG then 0 else 1)"
  "lg_trades (book_trade n lg tr) = lg_trades lg + 1"
  "lg_history (book_trade n lg tr) = deque_append n (lg_history lg) tr"
  by (simp_all add: book_trade_def Let_def)

lemma booked_realized:
  "lg_realized (foldl (book_trade n) lg trs) = lg_realized lg + sum_list (map tr_net_pnl trs)"
  by (induction trs arbitrary: lg) simp_all

lemma booked_profit_loss:
  "lg_profit (foldl (book_trade n) lg trs) - lg_loss (foldl (book_trade n) lg trs) =
   lg_profit lg - lg_loss lg + sum_list (map tr_net_pnl trs)"
  by (induction trs arbitrary: lg) simp_all

lemma booked_nonneg:
  "0 \<le> lg_profit lg \<Longrightarrow> 0 \<le> lg_loss lg \<Longrightarrow>
   0 \<le> lg_profit (foldl (book_trade n) lg trs) \<and> 0 \<le> lg_loss (foldl (book_trade n) lg trs)"
  by (induction trs arbitrary: lg) simp_all

lemma booked_counts:
  fixes trs defines "k \<equiv> int (length trs)"
  shows "lg_trades (foldl (book_trade n) lg trs) = lg_trades lg + k"
    and "lg_wins (foldl (book_trade n) lg trs) =
         lg_wins lg + int (length (filter (\<lambda>t. tr_net_pnl t > 0) trs))"
    and "lg_losses (foldl (book_trade n) lg trs) =
         lg_losses lg + int (length (filter (\<lambda>t. \<not> tr_net_pnl t > 0) trs))"
    and "lg_longs (foldl (book_trade n) lg trs) =
         lg_longs lg + int (length (filter (\<lambda>t. tr_direction t = LONG) trs))"
    and "lg_shorts (foldl (book_trade n) lg trs) =
         lg_shorts lg + int (length (filter (\<lambda>t. tr_direction t \<noteq> LONG) trs))"
  unfolding k_def by (induction trs arbitrary: lg) (simp_all add: book_trade_def Let_def)

lemma booked_history:
  "lg_history (foldl (book_trade n) empty_ledger trs) = (if n = 0 then trs else drop (length trs - n) trs)"
proof (induction trs rule: rev_induct)
  case (snoc t trs)
  then show ?case
    by (cases "n \<le> length trs") (auto simp: deque_append_def Suc_diff_le)
qed (simp add: empty_ledger_def)

section \<open>The portfolio as a state machine\<close>

inductive pf_step :: "portfolio \<Rightarrow> portfolio \<Rightarrow> bool" where
  pf_clock: "pf_step pf (pf\<lparr>pf_clock := Some t\<rparr>)"
| pf_tick: "pf_step pf (mark_dirty t pf)"
| pf_id: "pf_step pf (snd (get_next_position_id smb pf))"
| pf_open: "pred_option well_typed_fee (oa_entry_fee a) \<Longrightarrow> open_position a pf = Inr (p, pf') \<Longrightarrow> pf_step pf pf'"
| pf_close: "pred_option well_typed_fee (cl_exit_fee cl) \<Longrightarrow> close_position_portfolio cl pf = Inr (pnl, pf') \<Longrightarrow> pf_step pf pf'"
| pf_partial: "pred_option well_typed_fee (cl_exit_fee cl) \<Longrightarrow> partial_close_position l cl pf = Inr (pnl, pf') \<Longrightarrow> pf_step pf pf'"
| pf_modify: "pf_modify_position pid sl tp pf = (r, pf') \<Longrightarrow> pf_step pf pf'"
| pf_view: "get_account_info d pf = Inr (ai, pf') \<Longrightarrow> pf_step pf pf'"
| pf_refresh: "ensure_positions_updated pf = Inr pf' \<Longrightarrow> pf_step pf pf'"

definition pf_fresh :: "portfolio \<Rightarrow> bool" where
  "pf_fresh pf \<longleftrightarrow>
     (\<exists>ib cur br lev mcl sol hmax spot ibs clk roll.
        pf = portfolio_init ib cur br lev mcl sol hmax spot ibs clk roll)"

abbreviation pf_reachable :: "portfolio \<Rightarrow> bool" where
  "pf_reachable \<equiv> reachable pf_fresh pf_step"

definition position_ok :: "string \<Rightarrow> position \<Rightarrow> bool" where
  "position_ok k p \<longleftrightarrow>
     position_id p = k \<and> is_open p \<and> excursion_ok p \<and> swap_accrued_until p \<noteq> None"

definition positions_ok :: "(string, position) dict \<Rightarrow> bool" where
  "positions_ok d \<longleftrightarrow> distinct (keys_of d) \<and> (\<forall>kp\<in>set d. position_ok (fst kp) (snd kp))"

definition booked_all :: "portfolio \<Rightarrow> trade_record list \<Rightarrow> bool" where
  "booked_all pf trs \<longleftrightarrow> ledger_of pf = foldl (book_trade (trade_history_max pf)) empty_ledger trs"

definition pf_inv :: "portfolio \<Rightarrow> bool" where
  "pf_inv pf \<longleftrightarrow>
     (\<exists>trs. booked_all pf trs) \<and>
     (\<not> spot_mode pf \<longrightarrow> pf_balance pf = initial_balance pf + realized_pnl pf) \<and>
     costs_balanced (cost_tracking pf) \<and>
     positions_ok (open_positions pf)"

lemma positions_ok_update:
  "positions_ok d \<Longrightarrow> position_ok k p \<Longrightarrow> positions_ok (AList.update k p d)"
  by (auto simp: positions_ok_def set_update_dict)

lemma positions_ok_delete: "positions_ok d \<Longrightarrow> positions_ok (AList.delete k d)"
  by (auto simp: positions_ok_def set_delete_dict)

lemma positions_ok_lookup: "positions_ok d \<Longrightarrow> map_of d k = Some p \<Longrightarrow> position_ok k p"
  by (auto simp: positions_ok_def dest!: map_of_SomeD)

lemma position_ok_refreshed: "position_ok k p \<Longrightarrow> pos_refreshed p q \<Longrightarrow> position_ok k q"
  by (simp add: position_ok_def pos_refreshed_def is_open_def)

lemma positions_ok_refreshed:
  assumes "positions_ok d" and "positions_refreshed d d'"
  shows "positions_ok d'"
proof -
  from assms(2) assms(1) have "\<forall>kp\<in>set d'. position_ok (fst kp) (snd kp)"
    by (induction d d' rule: list_all2_induct)
       (auto simp: positions_ok_def intro: position_ok_refreshed)
  with assms dict_rel_keys [OF assms(2)] show ?thesis by (simp add: positions_ok_def)
qed

lemma pf_inv_refreshed:
  assumes "pf_inv pf" and "pf_refreshed pf pf'"
  shows "pf_inv pf'"
  using assms refreshed_positions [OF assms(2)]
  by (auto simp: pf_inv_def booked_all_def refreshed_frame refreshed_ledger intro: positions_ok_refreshed)

text \<open>One rule for every operation that books a trade.\<close>

lemma pf_inv_booked:
  assumes "pf_inv pf"
    and "ledger_of pf' = book_trade (trade_history_max pf) (ledger_of pf) tr"
    and "trade_history_max pf' = trade_history_max pf" and "spot_mode pf' = spot_mode pf"
    and "initial_balance pf' = initial_balance pf"
    and "\<not> spot_mode pf \<Longrightarrow> pf_balance pf' = pf_balance pf + tr_net_pnl tr"
    and "costs_balanced (cost_tracking pf')" and "positions_ok (open_positions pf')"
  shows "pf_inv pf'"
proof -
  from assms(1) obtain trs where "booked_all pf trs" by (auto simp: pf_inv_def)
  with assms(2,3) have "booked_all pf' (trs @ [tr])" by (simp add: booked_all_def)
  moreover from assms(2) have "realized_pnl pf' = realized_pnl pf + tr_net_pnl tr"
    by (metis book_trade_sel(1) ledger.select_convs(1) ledger_of_def)
  ultimately show ?thesis
    using assms by (auto simp: pf_inv_def)
qed

lemma pf_inv_init: "pf_fresh pf \<Longrightarrow> pf_inv pf"
  by (auto simp: pf_fresh_def portfolio_init_def pf_inv_def booked_all_def ledger_of_def empty_ledger_def
      positions_ok_def pf_balance_def initial_balance_def Let_def intro!: exI [of _ "[]"])

lemma new_position_simps [simp]:
  "position_id (new_position a now) = oa_order_id a"
  "pos_symbol (new_position a now) = oa_symbol a"
  "pos_direction (new_position a now) = oa_direction a"
  "pos_lots (new_position a now) = oa_lots a"
  "entry_price (new_position a now) = oa_entry_price a"
  "stop_loss (new_position a now) = oa_stop_loss a"
  "take_profit (new_position a now) = oa_take_profit a"
  "pos_fees (new_position a now) = []"
  "swap_accrued_until (new_position a now) = Some now"
  "unrealized_pnl (new_position a now) = 0"
  "gross_pnl (new_position a now) = 0"
  by (simp_all add: new_position_def position_post_init_def Let_def)

lemma position_ok_new: "position_ok (oa_order_id a) (attach fo (new_position a now))"
  by (cases fo) (simp_all add: position_ok_def is_open_def excursion_ok_def attach_def add_fee_def
      new_position_def position_post_init_def Let_def)

lemma open_spec_pf:
  assumes "open_position a pf = Inr (p, pf')"
  obtains now where "pf_clock pf = Some now" "p = attach (oa_entry_fee a) (new_position a now)"
    "\<exists>b. pf' = (charge (oa_entry_fee a) pf)
        \<lparr>open_positions := AList.update (oa_order_id a) p (open_positions pf), balances := b\<rparr>"
    "\<not> spot_mode pf \<Longrightarrow> balances pf' = balances pf"
    "spot_mode pf \<Longrightarrow> \<exists>sp. get_symbol_specification (pf_broker pf) (oa_symbol a) = Inr sp \<and>
       (if oa_direction a = LONG
        then spot_buy sp (oa_lots a) (oa_lots a * oa_entry_price a + opt_fee_cost (oa_entry_fee a)) (balances pf)
        else spot_sell sp (oa_lots a) (oa_lots a * oa_entry_price a - opt_fee_cost (oa_entry_fee a)) (balances pf))
       = Inr (balances pf')"
proof -
  from assms obtain now where now: "pf_clock pf = Some now"
    by (cases "pf_clock pf") (simp_all add: open_position_def clock_now_def)
  let ?p = "attach (oa_entry_fee a) (new_position a now)" and ?pf1 = "charge (oa_entry_fee a) pf"
  have pair: "(case oa_entry_fee a of None \<Rightarrow> (new_position a now, pf)
      | Some f \<Rightarrow> (add_fee f (new_position a now), pf_record_fee f pf)) = (?p, ?pf1)"
    by (simp add: charge_def attach_def split: option.split)
  let ?pf2 = "?pf1\<lparr>open_positions := AList.update (oa_order_id a) ?p (open_positions ?pf1)\<rparr>"
  from assms have step: "bind_res (if spot_mode ?pf2 then spot_open_transfer a ?pf2 else Inr ?pf2)
      (\<lambda>pf3. Inr (?p, pf3)) = Inr (p, pf')"
    by (simp add: open_position_def clock_now_def now pair Let_def del: bind_res_Inr_iff)
  show ?thesis
  proof (rule that [OF now])
    show "p = ?p" using step by auto
    show "\<exists>b. pf' = ?pf1\<lparr>open_positions := AList.update (oa_order_id a) p (open_positions pf), balances := b\<rparr>"
      using step by (cases "spot_mode pf")
        (auto simp: spot_open_transfer_def Let_def intro!: exI [of _ "balances pf'"])
    show "\<not> spot_mode pf \<Longrightarrow> balances pf' = balances pf" using step by auto
    show "spot_mode pf \<Longrightarrow> \<exists>sp. get_symbol_specification (pf_broker pf) (oa_symbol a) = Inr sp \<and>
       (if oa_direction a = LONG
        then spot_buy sp (oa_lots a) (oa_lots a * oa_entry_price a + opt_fee_cost (oa_entry_fee a)) (balances pf)
        else spot_sell sp (oa_lots a) (oa_lots a * oa_entry_price a - opt_fee_cost (oa_entry_fee a)) (balances pf))
       = Inr (balances pf')"
      using step by (auto simp: spot_open_transfer_def Let_def)
  qed
qed

lemma pf_inv_open:
  assumes "pf_inv pf" and "pred_option well_typed_fee (oa_entry_fee a)" and "open_position a pf = Inr (p, pf')"
  shows "pf_inv pf'"
  using assms(3)
proof (rule open_spec_pf)
  fix now
  assume p: "p = attach (oa_entry_fee a) (new_position a now)"
    and pf': "\<exists>b. pf' = (charge (oa_entry_fee a) pf)
        \<lparr>open_positions := AList.update (oa_order_id a) p (open_positions pf), balances := b\<rparr>"
    and bal: "\<not> spot_mode pf \<Longrightarrow> balances pf' = balances pf"
  have "positions_ok (AList.update (oa_order_id a) p (open_positions pf))"
    using assms(1) by (intro positions_ok_update) (simp_all add: pf_inv_def p position_ok_new)
  moreover have "ledger_of pf' = ledger_of pf" "realized_pnl pf' = realized_pnl pf"
    "trade_history_max pf' = trade_history_max pf" "spot_mode pf' = spot_mode pf"
    "account_currency pf' = account_currency pf" "initial_balances pf' = initial_balances pf"
    "costs_balanced (cost_tracking pf')"
    using pf' assms(1,2) by (auto simp: pf_inv_def charge_costs_balanced)
  moreover have "open_positions pf' = AList.update (oa_order_id a) p (open_positions pf)"
    using pf' by auto
  ultimately show ?thesis
    using assms(1) bal by (auto simp: pf_inv_def booked_all_def pf_balance_def initial_balance_def)
qed

lemma pf_inv_close:
  assumes "pf_inv pf" and "pred_option well_typed_fee (cl_exit_fee cl)"
    and "close_position_portfolio cl pf = Inr (pnl, pf')"
  shows "pf_inv pf'"
  using assms(3)
proof (rule close_spec)
  fix pf1 p q now and pf2 :: portfolio
  let ?tr = "create_trade_record (account_currency pf2) (closed_position cl now q) CT_FULL
    (cl_close_reason cl) (cl_exit_trades cl) (cl_exit_submission cl)"
  assume e: "ensure_positions_updated pf = Inr pf1"
    and s: "settle_full_close cl (attach (cl_exit_fee cl) p) (charge (cl_exit_fee cl) pf1) = Inr (pnl, q, pf2)"
    and pf': "pf' = conclude_close ?tr (closed_position cl now q)
        (AList.delete (cl_position_id cl) (open_positions pf2)) pnl pf2"
  have inv1: "pf_inv pf1" using assms(1) ensure_refreshed [OF e] by (rule pf_inv_refreshed)
  note st = settle_frame [OF s]
  from st(1) have f: "trade_history_max pf2 = trade_history_max pf1" "spot_mode pf2 = spot_mode pf1"
    "initial_balance pf2 = initial_balance pf1" "ledger_of pf2 = ledger_of pf1"
    "open_positions pf2 = open_positions pf1" "cost_tracking pf2 = cost_tracking (charge (cl_exit_fee cl) pf1)"
    by (auto simp: initial_balance_def)
  have bal: "\<not> spot_mode pf1 \<Longrightarrow> pf_balance pf2 = pf_balance pf1 + pnl" using st(7) by simp
  show ?thesis
  proof (rule pf_inv_booked [OF inv1, of _ ?tr])
    show "ledger_of pf' = book_trade (trade_history_max pf1) (ledger_of pf1) ?tr"
      unfolding pf' using st(2) by (subst conclude_close_ledger) (simp_all add: f)
    show "costs_balanced (cost_tracking pf')"
      using inv1 assms(2) by (simp add: pf' f pf_inv_def charge_costs_balanced)
    show "positions_ok (open_positions pf')"
      using inv1 by (simp add: pf' f pf_inv_def positions_ok_delete)
  qed (use st(2) bal f in \<open>simp_all add: pf' initial_balance_def\<close>)
qed

lemma pf_inv_partial:
  assumes "pf_inv pf" and "pred_option well_typed_fee (cl_exit_fee cl)"
    and "partial_close_position l cl pf = Inr (pnl, pf')"
  shows "pf_inv pf'"
  using assms(3)
proof (rule partial_close_spec)
  fix pf1 p now ratio fees and pf3 :: portfolio
  let ?tr = "partial_trade_record (account_currency pf3) p cl l ratio (gross_pnl p * ratio) fees now"
  let ?q = "shrink_position l (1 - ratio) p"
  assume e: "ensure_positions_updated pf = Inr pf1"
    and p: "map_of (open_positions pf1) (cl_position_id cl) = Some p"
    and pnl: "pnl = gross_pnl p * ratio - fees"
    and b: "\<exists>b. pf3 = (charge (cl_exit_fee cl) pf1)\<lparr>balances := b\<rparr>"
    and m: "\<not> spot_mode pf1 \<Longrightarrow> pf3 = set_balance (pf_balance pf1 + pnl) (charge (cl_exit_fee cl) pf1)"
    and pf': "pf' = conclude_close ?tr ?q (AList.update (cl_position_id cl) ?q (open_positions pf3)) pnl pf3"
  have inv1: "pf_inv pf1" using assms(1) ensure_refreshed [OF e] by (rule pf_inv_refreshed)
  from b have f: "trade_history_max pf3 = trade_history_max pf1" "spot_mode pf3 = spot_mode pf1"
    "initial_balance pf3 = initial_balance pf1" "ledger_of pf3 = ledger_of pf1"
    "open_positions pf3 = open_positions pf1" "cost_tracking pf3 = cost_tracking (charge (cl_exit_fee cl) pf1)"
    by (auto simp: initial_balance_def)
  have bal: "\<not> spot_mode pf1 \<Longrightarrow> pf_balance pf3 = pf_balance pf1 + pnl" using m by simp
  have "position_ok (cl_position_id cl) p"
    using inv1 p by (auto simp: pf_inv_def intro: positions_ok_lookup)
  then have q: "position_ok (cl_position_id cl) ?q"
    by (simp add: position_ok_def is_open_def excursion_ok_def)
  show ?thesis
  proof (rule pf_inv_booked [OF inv1, of _ ?tr])
    show "ledger_of pf' = book_trade (trade_history_max pf1) (ledger_of pf1) ?tr"
      unfolding pf' using pnl by (subst conclude_close_ledger) (simp_all add: f)
    show "costs_balanced (cost_tracking pf')"
      using inv1 assms(2) by (simp add: pf' f pf_inv_def charge_costs_balanced)
    show "positions_ok (open_positions pf')"
      using inv1 q by (simp add: pf' f pf_inv_def positions_ok_update)
  qed (use pnl bal f in \<open>simp_all add: pf' initial_balance_def\<close>)
qed

lemma modify_spec:
  assumes "pf_modify_position pid nsl ntp pf = (r, pf')"
  shows "pf' = pf \<and> \<not> mr_success r \<or>
    (\<exists>p b a. map_of (open_positions pf) pid = Some p \<and> map_of (current_prices pf) (pos_symbol p) = Some (b, a) \<and>
       validate_sl_tp_levels (pos_direction p) b a (merge_arg (stop_loss p) nsl) (merge_arg (take_profit p) ntp) = None \<and>
       r = mod_success \<and>
       pf' = pf\<lparr>open_positions := AList.update pid
          (p\<lparr>stop_loss := merge_arg (stop_loss p) nsl, take_profit := merge_arg (take_profit p) ntp\<rparr>) (open_positions pf)\<rparr>)"
  using assms
  by (auto simp: pf_modify_position_def mod_rejected_def Let_def split: option.splits)

lemma pf_inv_modify:
  assumes "pf_inv pf" and "pf_modify_position pid nsl ntp pf = (r, pf')"
  shows "pf_inv pf'"
  using modify_spec [OF assms(2)]
proof (elim disjE exE conjE)
  fix p b a
  assume p: "map_of (open_positions pf) pid = Some p"
    and pf': "pf' = pf\<lparr>open_positions := AList.update pid
          (p\<lparr>stop_loss := merge_arg (stop_loss p) nsl, take_profit := merge_arg (take_profit p) ntp\<rparr>) (open_positions pf)\<rparr>"
  from assms(1) p have "position_ok pid p" by (auto simp: pf_inv_def intro: positions_ok_lookup)
  then have "positions_ok (open_positions pf')"
    using assms(1) by (auto simp: pf' pf_inv_def position_ok_def is_open_def excursion_ok_def intro!: positions_ok_update)
  with assms(1) show ?thesis
    by (auto simp: pf_inv_def pf' booked_all_def pf_balance_def initial_balance_def)
qed (use assms in simp)

lemma account_info_refreshed: "get_account_info d pf = Inr (ai, pf') \<Longrightarrow> ensure_positions_updated pf = Inr pf'"
  by (auto simp: get_account_info_def Let_def)

lemma pf_inv_step: "pf_inv pf \<Longrightarrow> pf_step pf pf' \<Longrightarrow> pf_inv pf'"
proof (erule pf_step.cases)
  fix pf'' t
  assume "pf_inv pf" "pf = pf''" "pf' = pf''\<lparr>pf_clock := Some t\<rparr>"
  then show "pf_inv pf'" by (simp add: pf_inv_def booked_all_def ledger_of_def pf_balance_def initial_balance_def)
next
  fix pf'' t
  assume "pf_inv pf" "pf = pf''" "pf' = mark_dirty t pf''"
  then show "pf_inv pf'"
    by (simp add: pf_inv_def booked_all_def ledger_of_def pf_balance_def initial_balance_def mark_dirty_def)
next
  fix pf'' smb
  assume "pf_inv pf" "pf = pf''" "pf' = snd (get_next_position_id smb pf'')"
  then show "pf_inv pf'"
    by (simp add: pf_inv_def booked_all_def ledger_of_def pf_balance_def initial_balance_def
        get_next_position_id_def Let_def)
qed (auto intro: pf_inv_open pf_inv_close pf_inv_partial pf_inv_modify
      pf_inv_refreshed [OF _ ensure_refreshed] pf_inv_refreshed [OF _ ensure_refreshed, OF _ account_info_refreshed])

interpretation pf_machine: invariant_machine pf_fresh pf_step pf_inv
  by unfold_locales (auto intro: pf_inv_init pf_inv_step)

end
