(* ===== verification/Pending.thy ===== *)
theory Pending
  imports Trading_Types "HOL-Library.AList"
begin

text \<open>
  Orders in flight: the store, queries and statistics of
  \<^verbatim>\<open>trading_env/abstract_pending_order_manager.py\<close> with
  \<^verbatim>\<open>types/trading_env_types/pending_order_stats_types.py\<close>, the latency queue
  \<^verbatim>\<open>trading_env/simulation/order_latency_simulator.py\<close> and the seeded generators of
  \<^verbatim>\<open>utils/seeded_generators\<close>.

  Python's \<open>random.Random(seed)\<close> is a parameter: the generator carries the sequence of values it will
  draw and a cursor. What the queue relies on is the documented range of \<open>randint\<close>
  (\<open>delays_in_range\<close>). Reading the wall clock (live latency in \<open>clear_pending\<close>) is an argument.

  Main results: statistics stay consistent (counts add up, minimum, mean and maximum are ordered);
  the queue releases an order no earlier than its minimum and no later than its maximum delay; a
  release partitions the queue.
\<close>

section \<open>Seeded generators\<close>

record delay_gen =
  dg_draw :: "nat \<Rightarrow> int \<Rightarrow> int \<Rightarrow> int"
  dg_min :: int
  dg_max :: int
  dg_count :: nat

definition next_delay :: "delay_gen \<Rightarrow> int \<times> delay_gen" where
  "next_delay g = (dg_draw g (dg_count g) (dg_min g) (dg_max g), g\<lparr>dg_count := dg_count g + 1\<rparr>)"

record probability_filter =
  pr_random :: "nat \<Rightarrow> rat"
  pr_probability :: rat
  pr_count :: nat

definition new_probability_filter :: "(nat \<Rightarrow> rat) \<Rightarrow> rat \<Rightarrow> probability_filter res" where
  "new_probability_filter rnd pr =
     (if \<not> (0 \<le> pr \<and> pr \<le> 1) then Inl ValueError
      else Inr \<lparr>pr_random = rnd, pr_probability = pr, pr_count = 0\<rparr>)"

definition should_trigger :: "probability_filter \<Rightarrow> bool \<times> probability_filter" where
  "should_trigger f =
     (if pr_probability f = 0 then (False, f)
      else if pr_probability f = 1 then (True, f)
      else (pr_random f (pr_count f) < pr_probability f, f\<lparr>pr_count := pr_count f + 1\<rparr>))"

section \<open>Statistics\<close>

record pending_record =
  pr_order_id :: string
  pr_action :: pending_action
  pr_outcome :: pending_outcome
  pr_reason :: "string option"
  pr_latency_ms :: "rat option"
  pr_placed_at_msc :: "msc option"
  pr_submitted_at :: "instant option"

record pending_stats =
  total_resolved :: int
  total_filled :: int
  total_rejected :: int
  total_timed_out :: int
  total_force_closed :: int
  avg_latency_ms :: rat
  min_latency_ms :: "rat option"
  max_latency_ms :: "rat option"
  anomaly_orders :: "pending_record list"
  latency_ms_sum :: rat
  latency_count :: int

definition new_pending_stats :: pending_stats where
  "new_pending_stats = \<lparr>total_resolved = 0, total_filled = 0, total_rejected = 0, total_timed_out = 0,
     total_force_closed = 0, avg_latency_ms = 0, min_latency_ms = None, max_latency_ms = None,
     anomaly_orders = [], latency_ms_sum = 0, latency_count = 0\<rparr>"

definition count_outcome :: "pending_outcome \<Rightarrow> pending_stats \<Rightarrow> pending_stats" where
  "count_outcome oc s =
     (case oc of
        PO_FILLED \<Rightarrow> s\<lparr>total_filled := total_filled s + 1\<rparr>
      | PO_REJECTED \<Rightarrow> s\<lparr>total_rejected := total_rejected s + 1\<rparr>
      | PO_TIMED_OUT \<Rightarrow> s\<lparr>total_timed_out := total_timed_out s + 1\<rparr>
      | PO_FORCE_CLOSED \<Rightarrow> s\<lparr>total_force_closed := total_force_closed s + 1\<rparr>)"

definition add_latency :: "rat \<Rightarrow> pending_stats \<Rightarrow> pending_stats" where
  "add_latency x s =
     (let s1 = s\<lparr>latency_ms_sum := latency_ms_sum s + x, latency_count := latency_count s + 1\<rparr>;
          s2 = s1\<lparr>avg_latency_ms := latency_ms_sum s1 / of_int (latency_count s1)\<rparr>;
          s3 = (case min_latency_ms s2 of
                  None \<Rightarrow> s2\<lparr>min_latency_ms := Some x\<rparr>
                | Some m \<Rightarrow> if x < m then s2\<lparr>min_latency_ms := Some x\<rparr> else s2)
      in case max_latency_ms s3 of
           None \<Rightarrow> s3\<lparr>max_latency_ms := Some x\<rparr>
         | Some m \<Rightarrow> if x > m then s3\<lparr>max_latency_ms := Some x\<rparr> else s3)"

definition stats_record ::
  "pending_outcome \<Rightarrow> rat option \<Rightarrow> pending_record option \<Rightarrow> pending_stats \<Rightarrow> pending_stats" where
  "stats_record oc latency anomaly s =
     (let s1 = count_outcome oc (s\<lparr>total_resolved := total_resolved s + 1\<rparr>);
          s2 = (case latency of None \<Rightarrow> s1 | Some x \<Rightarrow> add_latency x s1)
      in case anomaly of None \<Rightarrow> s2 | Some a \<Rightarrow> s2\<lparr>anomaly_orders := anomaly_orders s2 @ [a]\<rparr>)"

section \<open>The store\<close>

text \<open>The attributes of \<open>AbstractPendingOrderManager\<close>. The latency queue of the simulation and the request
  processor of live trading extend the record as the classes extend the base class.\<close>

record pending_manager =
  pending_orders :: "(string, pending_order) dict"
  fill_counter :: int
  pending_st :: pending_stats

record latency = pending_manager +
  inbound_delay_gen :: delay_gen

definition new_latency :: "delay_gen \<Rightarrow> latency" where
  "new_latency g = \<lparr>pending_orders = [], fill_counter = 0, pending_st = new_pending_stats, inbound_delay_gen = g\<rparr>"

definition store_order :: "pending_order \<Rightarrow> 'a pending_manager_scheme \<Rightarrow> 'a pending_manager_scheme" where
  "store_order po q = q\<lparr>pending_orders := AList.update (pending_order_id po) po (pending_orders q)\<rparr>"

definition remove_order :: "string \<Rightarrow> 'a pending_manager_scheme \<Rightarrow> pending_order option \<times> 'a pending_manager_scheme" where
  "remove_order oid q = (map_of (pending_orders q) oid, q\<lparr>pending_orders := AList.delete oid (pending_orders q)\<rparr>)"

definition get_pending_orders :: "pending_action option \<Rightarrow> 'a pending_manager_scheme \<Rightarrow> pending_order list" where
  "get_pending_orders flt q =
     (case flt of
        None \<Rightarrow> vals_of (pending_orders q)
      | Some act \<Rightarrow> filter (\<lambda>po. po_order_action po = act) (vals_of (pending_orders q)))"

definition get_pending_count :: "'a pending_manager_scheme \<Rightarrow> nat" where
  "get_pending_count q = length (pending_orders q)"

definition lat_has_pending_orders :: "'a pending_manager_scheme \<Rightarrow> bool" where
  "lat_has_pending_orders q = (length (pending_orders q) > 0)"

definition lat_is_pending_close :: "string \<Rightarrow> 'a pending_manager_scheme \<Rightarrow> bool" where
  "lat_is_pending_close pid q =
     list_ex (\<lambda>po. pending_order_id po = pid) (get_pending_orders (Some PA_CLOSE) q)"

definition create_synthetic_close_order :: "string \<Rightarrow> pending_order" where
  "create_synthetic_close_order pid =
     \<lparr>pending_order_id = pid, po_order_action = PA_CLOSE, po_order_type = None, po_broker_ref = None,
      po_open = None, po_close_lots = None, timing = no_timing, execution_state = steady_state,
      fills = no_fills, submission = no_submission\<rparr>"

definition record_outcome ::
  "pending_order \<Rightarrow> pending_outcome \<Rightarrow> rat option \<Rightarrow> string option \<Rightarrow> 'a pending_manager_scheme \<Rightarrow> 'a pending_manager_scheme" where
  "record_outcome po oc latency_ms reason q =
     (let anomaly = (if oc = PO_FORCE_CLOSED \<or> oc = PO_TIMED_OUT
                     then Some \<lparr>pr_order_id = pending_order_id po, pr_action = po_order_action po,
                                pr_outcome = oc, pr_reason = reason, pr_latency_ms = latency_ms,
                                pr_placed_at_msc = placed_at_msc (timing po),
                                pr_submitted_at = submitted_at (timing po)\<rparr>
                     else None)
      in q\<lparr>pending_st := stats_record oc latency_ms anomaly (pending_st q)\<rparr>)"

text \<open>Latency of an order that is force-closed: simulated milliseconds when it has a placement
  time, wall-clock milliseconds when it was submitted live.\<close>

definition clear_latency :: "msc option \<Rightarrow> instant \<Rightarrow> pending_order \<Rightarrow> rat option" where
  "clear_latency current_msc wall_now po =
     (let l1 = (case (placed_at_msc (timing po), current_msc) of
                  (Some p, Some c) \<Rightarrow> Some (of_int (c - p)) | _ \<Rightarrow> None)
      in case submitted_at (timing po) of
           None \<Rightarrow> l1
         | Some t \<Rightarrow> Some (of_int (wall_now - t) / 1000))"

definition clear_pending :: "msc option \<Rightarrow> instant \<Rightarrow> string \<Rightarrow> 'a pending_manager_scheme \<Rightarrow> 'a pending_manager_scheme" where
  "clear_pending current_msc wall_now reason q =
     (if pending_orders q = [] then q
      else
        let q1 = foldl (\<lambda>q po. record_outcome po PO_FORCE_CLOSED (clear_latency current_msc wall_now po) (Some reason) q)
                   q (vals_of (pending_orders q))
        in q1\<lparr>pending_orders := []\<rparr>)"

section \<open>The latency queue\<close>

definition get_tick_msc :: "tick_data \<Rightarrow> msc" where
  "get_tick_msc t = (if collected_msc t > 0 then collected_msc t else time_msc t)"

definition submit_kwargs :: "open_order_request \<Rightarrow> order_kwargs" where
  "submit_kwargs rq =
     \<lparr>kw_stop_loss = rq_stop_loss rq, kw_take_profit = rq_take_profit rq,
      kw_comment = (if rq_comment rq = [] then None else Some (rq_comment rq)),
      kw_limit_price = (if rq_order_type rq = OT_STOP_LIMIT \<and> rq_stop_price rq \<noteq> None then rq_price rq else None),
      kw_from_stop_limit = False\<rparr>"

definition submit_entry_price :: "open_order_request \<Rightarrow> price" where
  "submit_entry_price rq =
     (case (rq_order_type rq, rq_price rq, rq_stop_price rq) of
        (OT_LIMIT, Some x, _) \<Rightarrow> x
      | (OT_STOP, _, Some x) \<Rightarrow> x
      | (OT_STOP_LIMIT, _, Some x) \<Rightarrow> x
      | _ \<Rightarrow> 0)"

definition submit_open_order :: "string \<Rightarrow> open_order_request \<Rightarrow> tick_data \<Rightarrow> latency \<Rightarrow> latency" where
  "submit_open_order oid rq t q =
     (let current = get_tick_msc t; (d, g) = next_delay (inbound_delay_gen q) in
      store_order
        \<lparr>pending_order_id = oid, po_order_action = PA_OPEN, po_order_type = Some (rq_order_type rq),
         po_broker_ref = None,
         po_open = Some \<lparr>os_symbol = rq_symbol rq, os_direction = rq_direction rq, os_lots = rq_lots rq,
                         os_entry_price = submit_entry_price rq, os_entry_time = tick_timestamp t,
                         os_kwargs = submit_kwargs rq\<rparr>,
         po_close_lots = None,
         timing = no_timing\<lparr>placed_at_msc := Some current, broker_fill_msc := Some (current + d)\<rparr>,
         execution_state = steady_state, fills = no_fills,
         submission = \<lparr>tick_mid_price = Some (mid t), tick_time_msc = Some (time_msc t)\<rparr>\<rparr>
        (q\<lparr>inbound_delay_gen := g\<rparr>))"

definition submit_close_order :: "string \<Rightarrow> tick_data \<Rightarrow> lots option \<Rightarrow> latency \<Rightarrow> latency" where
  "submit_close_order pid t close_lots q =
     (let current = get_tick_msc t; (d, g) = next_delay (inbound_delay_gen q) in
      store_order
        \<lparr>pending_order_id = pid, po_order_action = PA_CLOSE, po_order_type = None, po_broker_ref = None,
         po_open = None, po_close_lots = close_lots,
         timing = no_timing\<lparr>placed_at_msc := Some current, broker_fill_msc := Some (current + d)\<rparr>,
         execution_state = steady_state, fills = no_fills,
         submission = \<lparr>tick_mid_price = Some (mid t), tick_time_msc = Some (time_msc t)\<rparr>\<rparr>
        (q\<lparr>inbound_delay_gen := g\<rparr>))"

text \<open>Comparing a missing fill time, or subtracting a missing placement time, is a \<open>TypeError\<close>.\<close>

definition order_ready :: "msc \<Rightarrow> pending_order \<Rightarrow> bool res" where
  "order_ready current po =
     (case broker_fill_msc (timing po) of
        None \<Rightarrow> Inl TypeError
      | Some f \<Rightarrow>
          if f \<le> current
          then (case placed_at_msc (timing po) of None \<Rightarrow> Inl TypeError | Some _ \<Rightarrow> Inr True)
          else Inr False)"

fun collect_ready :: "msc \<Rightarrow> (string, pending_order) dict \<Rightarrow> (string, pending_order) dict res" where
  "collect_ready current [] = Inr []"
| "collect_ready current ((k, po) # d) =
     bind_res (order_ready current po) (\<lambda>r.
       bind_res (collect_ready current d) (\<lambda>rest. Inr (if r then (k, po) # rest else rest)))"

definition process_up_to_msc :: "msc \<Rightarrow> latency \<Rightarrow> (pending_order list \<times> latency) res" where
  "process_up_to_msc current q =
     bind_res (collect_ready current (pending_orders q)) (\<lambda>ready.
       Inr (vals_of ready, foldl (\<lambda>q k. snd (remove_order k q)) q (keys_of ready)))"

definition process_tick :: "tick_data \<Rightarrow> latency \<Rightarrow> (pending_order list \<times> latency) res" where
  "process_tick t q = process_up_to_msc (get_tick_msc t) q"

section \<open>A keyed store\<close>

text \<open>The interface the fill loops use: what a lookup returns after a store or a removal.\<close>

locale keyed_store =
  fixes put :: "'v \<Rightarrow> 's \<Rightarrow> 's"
    and drop_key :: "'k \<Rightarrow> 's \<Rightarrow> 's"
    and find_key :: "'s \<Rightarrow> 'k \<Rightarrow> 'v option"
    and key_of :: "'v \<Rightarrow> 'k"
  assumes find_put: "find_key (put v s) k = (if k = key_of v then Some v else find_key s k)"
    and find_drop: "find_key (drop_key k s) k' = (if k' = k then None else find_key s k')"
begin

lemma find_drop_all:
  "find_key (foldl (\<lambda>s k. drop_key k s) s ks) k = (if k \<in> set ks then None else find_key s k)"
  by (induction ks arbitrary: s) (auto simp: find_drop)

lemma put_then_drop: "find_key (drop_key (key_of v) (put v s)) k = find_key (drop_key (key_of v) s) k"
  by (simp add: find_put find_drop)

lemma put_twice: "key_of v = key_of w \<Longrightarrow> find_key (put w (put v s)) k = find_key (put w s) k"
  by (simp add: find_put)

end

definition find_order :: "'a pending_manager_scheme \<Rightarrow> string \<Rightarrow> pending_order option" where
  "find_order q k = map_of (pending_orders q) k"

interpretation orders: keyed_store store_order "\<lambda>k q. snd (remove_order k q)" find_order pending_order_id
  by unfold_locales (simp_all add: find_order_def store_order_def remove_order_def dict_simps)

section \<open>Statistics stay consistent\<close>

definition stats_ok :: "pending_stats \<Rightarrow> bool" where
  "stats_ok s \<longleftrightarrow>
     total_resolved s = total_filled s + total_rejected s + total_timed_out s + total_force_closed s \<and>
     int (length (anomaly_orders s)) = total_timed_out s + total_force_closed s \<and>
     0 \<le> latency_count s \<and> latency_count s \<le> total_resolved s \<and>
     (if latency_count s = 0
      then min_latency_ms s = None \<and> max_latency_ms s = None \<and> latency_ms_sum s = 0 \<and> avg_latency_ms s = 0
      else \<exists>lo hi. min_latency_ms s = Some lo \<and> max_latency_ms s = Some hi \<and>
             avg_latency_ms s * of_int (latency_count s) = latency_ms_sum s \<and>
             lo * of_int (latency_count s) \<le> latency_ms_sum s \<and>
             latency_ms_sum s \<le> hi * of_int (latency_count s))"

lemma stats_ok_new: "stats_ok new_pending_stats"
  by (simp add: stats_ok_def new_pending_stats_def)

lemma add_latency_frame [simp]:
  "total_resolved (add_latency x s) = total_resolved s"
  "total_filled (add_latency x s) = total_filled s"
  "total_rejected (add_latency x s) = total_rejected s"
  "total_timed_out (add_latency x s) = total_timed_out s"
  "total_force_closed (add_latency x s) = total_force_closed s"
  "anomaly_orders (add_latency x s) = anomaly_orders s"
  "latency_count (add_latency x s) = latency_count s + 1"
  "latency_ms_sum (add_latency x s) = latency_ms_sum s + x"
  "avg_latency_ms (add_latency x s) = (latency_ms_sum s + x) / of_int (latency_count s + 1)"
  "min_latency_ms (add_latency x s) = Some (case min_latency_ms s of None \<Rightarrow> x | Some m \<Rightarrow> min x m)"
  "max_latency_ms (add_latency x s) = Some (case max_latency_ms s of None \<Rightarrow> x | Some m \<Rightarrow> max x m)"
  by (auto simp: add_latency_def Let_def min_def max_def split: option.split)

text \<open>The latency aggregate alone: it is preserved by every sample.\<close>

definition latencies_ok :: "pending_stats \<Rightarrow> bool" where
  "latencies_ok s \<longleftrightarrow> 0 \<le> latency_count s \<and>
     (if latency_count s = 0
      then min_latency_ms s = None \<and> max_latency_ms s = None \<and> latency_ms_sum s = 0 \<and> avg_latency_ms s = 0
      else \<exists>lo hi. min_latency_ms s = Some lo \<and> max_latency_ms s = Some hi \<and>
             avg_latency_ms s * of_int (latency_count s) = latency_ms_sum s \<and>
             lo * of_int (latency_count s) \<le> latency_ms_sum s \<and>
             latency_ms_sum s \<le> hi * of_int (latency_count s))"

lemma latencies_ok_add:
  assumes "latencies_ok s"
  shows "latencies_ok (add_latency x s)"
proof (cases "latency_count s = 0")
  case True
  with assms show ?thesis by (simp add: latencies_ok_def)
next
  case False
  let ?n = "of_int (latency_count s) :: rat"
  from False assms obtain lo hi where m: "min_latency_ms s = Some lo" "max_latency_ms s = Some hi"
    and b: "lo * ?n \<le> latency_ms_sum s" "latency_ms_sum s \<le> hi * ?n" and n: "0 \<le> latency_count s"
    by (auto simp: latencies_ok_def)
  have pos: "0 \<le> ?n" "?n + 1 \<noteq> 0" using n by (simp_all add: add_nonneg_eq_0_iff)
  have "min x lo * ?n \<le> lo * ?n" "hi * ?n \<le> max x hi * ?n"
    using pos by (simp_all add: mult_right_mono)
  then have lo: "min x lo * (?n + 1) \<le> latency_ms_sum s + x" and hi: "latency_ms_sum s + x \<le> max x hi * (?n + 1)"
    using b by (simp_all add: algebra_simps add_mono min_le_iff_disj)
  have "latency_count s + 1 \<noteq> 0" using n by linarith
  with m lo hi pos n show ?thesis by (simp add: latencies_ok_def)
qed

lemma count_outcome_latency [simp]:
  "latency_count (count_outcome oc s) = latency_count s"
  "latencies_ok (count_outcome oc s) = latencies_ok s"
  "latencies_ok (s\<lparr>total_resolved := n\<rparr>) = latencies_ok s"
  "latencies_ok (s\<lparr>anomaly_orders := a\<rparr>) = latencies_ok s"
  by (cases oc; simp add: count_outcome_def latencies_ok_def)+

lemma stats_ok_latencies:
  "stats_ok s \<longleftrightarrow> latencies_ok s \<and> latency_count s \<le> total_resolved s \<and>
     total_resolved s = total_filled s + total_rejected s + total_timed_out s + total_force_closed s \<and>
     int (length (anomaly_orders s)) = total_timed_out s + total_force_closed s"
  unfolding stats_ok_def latencies_ok_def by blast

lemma stats_ok_record:
  assumes "stats_ok s" and "anomaly \<noteq> None \<longleftrightarrow> oc = PO_TIMED_OUT \<or> oc = PO_FORCE_CLOSED"
  shows "stats_ok (stats_record oc l anomaly s)"
proof -
  let ?s1 = "count_outcome oc (s\<lparr>total_resolved := total_resolved s + 1\<rparr>)"
  let ?s2 = "case l of None \<Rightarrow> ?s1 | Some x \<Rightarrow> add_latency x ?s1"
  have "latencies_ok ?s1" using assms(1) by (simp add: stats_ok_latencies)
  then have "latencies_ok ?s2" by (simp add: latencies_ok_add split: option.split)
  moreover have "total_resolved ?s2 = total_resolved s + 1"
    "total_filled ?s2 + total_rejected ?s2 + total_timed_out ?s2 + total_force_closed ?s2 =
       total_filled s + total_rejected s + total_timed_out s + total_force_closed s + 1"
    "total_timed_out ?s2 + total_force_closed ?s2 =
       total_timed_out s + total_force_closed s + (if anomaly = None then 0 else 1)"
    "anomaly_orders ?s2 = anomaly_orders s" "latency_count ?s2 \<le> latency_count s + 1"
    using assms(2) by (cases oc; simp add: count_outcome_def split: option.split)+
  moreover have "stats_record oc l anomaly s =
      (case anomaly of None \<Rightarrow> ?s2 | Some a \<Rightarrow> ?s2\<lparr>anomaly_orders := anomaly_orders ?s2 @ [a]\<rparr>)"
    by (simp add: stats_record_def Let_def)
  ultimately show ?thesis
    using assms(1) by (cases anomaly) (auto simp: stats_ok_latencies)
qed

lemma stats_ok_outcome:
  "stats_ok (pending_st q) \<Longrightarrow> stats_ok (pending_st (record_outcome po oc l r q))"
  by (auto simp: record_outcome_def Let_def intro!: stats_ok_record)

lemma record_outcome_frame [simp]:
  "pending_orders (record_outcome po oc l r q) = pending_orders q"
  "inbound_delay_gen (record_outcome po oc l r q) = inbound_delay_gen q"
  by (simp_all add: record_outcome_def Let_def)

lemma stats_mean_between:
  assumes "stats_ok s" and "latency_count s \<noteq> 0"
  shows "\<exists>lo hi. min_latency_ms s = Some lo \<and> max_latency_ms s = Some hi \<and>
    lo \<le> avg_latency_ms s \<and> avg_latency_ms s \<le> hi"
proof -
  from assms obtain lo hi where m: "min_latency_ms s = Some lo" "max_latency_ms s = Some hi"
    and a: "avg_latency_ms s * of_int (latency_count s) = latency_ms_sum s"
    and b: "lo * of_int (latency_count s) \<le> latency_ms_sum s" "latency_ms_sum s \<le> hi * of_int (latency_count s)"
    and "0 < latency_count s"
    by (auto simp: stats_ok_def)
  then have "(0::rat) < of_int (latency_count s)" by simp
  with a b have "lo \<le> avg_latency_ms s" "avg_latency_ms s \<le> hi"
    by (metis mult_le_cancel_right_pos)+
  with m show ?thesis by blast
qed

section \<open>Delays\<close>

text \<open>The documented range of \<open>randint(a, b)\<close>, and a configuration with \<open>min \<le> max\<close>.\<close>

definition delays_in_range :: "delay_gen \<Rightarrow> bool" where
  "delays_in_range g \<longleftrightarrow>
     dg_min g \<le> dg_max g \<and>
     (\<forall>n a b. a \<le> b \<longrightarrow> a \<le> dg_draw g n a b \<and> dg_draw g n a b \<le> b)"

definition order_timed :: "delay_gen \<Rightarrow> string \<Rightarrow> pending_order \<Rightarrow> bool" where
  "order_timed g k po \<longleftrightarrow> pending_order_id po = k \<and>
     (\<exists>p f. placed_at_msc (timing po) = Some p \<and> broker_fill_msc (timing po) = Some f \<and>
        p + dg_min g \<le> f \<and> f \<le> p + dg_max g)"

definition latency_inv :: "latency \<Rightarrow> bool" where
  "latency_inv q \<longleftrightarrow>
     stats_ok (pending_st q) \<and> delays_in_range (inbound_delay_gen q) \<and> distinct (keys_of (pending_orders q)) \<and>
     (\<forall>kp\<in>set (pending_orders q). order_timed (inbound_delay_gen q) (fst kp) (snd kp))"

lemma next_delay_range:
  "delays_in_range g \<Longrightarrow> next_delay g = (d, g') \<Longrightarrow>
   dg_min g \<le> d \<and> d \<le> dg_max g \<and> dg_min g' = dg_min g \<and> dg_max g' = dg_max g \<and> delays_in_range g'"
  by (auto simp: next_delay_def delays_in_range_def)

lemma order_timed_gen: "dg_min g' = dg_min g \<Longrightarrow> dg_max g' = dg_max g \<Longrightarrow> order_timed g' = order_timed g"
  by (simp add: order_timed_def fun_eq_iff)

lemma latency_inv_store:
  assumes "latency_inv q" and "next_delay (inbound_delay_gen q) = (d, g)"
    and "placed_at_msc (timing po) = Some p" and "broker_fill_msc (timing po) = Some (p + d)"
  shows "latency_inv (store_order po (q\<lparr>inbound_delay_gen := g\<rparr>))"
proof -
  note r = next_delay_range [OF _ assms(2)]
  from assms(1) have dr: "delays_in_range (inbound_delay_gen q)" by (simp add: latency_inv_def)
  have "order_timed g (pending_order_id po) po"
    using r [OF dr] assms(3,4) by (simp add: order_timed_def)
  with assms(1) r [OF dr] show ?thesis
    by (auto simp: latency_inv_def store_order_def set_update_dict order_timed_gen [of g "inbound_delay_gen q"])
qed

lemma latency_inv_submit:
  "latency_inv q \<Longrightarrow> latency_inv (submit_open_order oid rq t q)"
  "latency_inv q \<Longrightarrow> latency_inv (submit_close_order oid t cl q)"
  by (simp_all add: submit_open_order_def submit_close_order_def Let_def latency_inv_store
      split: prod.split)

lemma order_ready_timed:
  "order_timed g k po \<Longrightarrow> order_ready current po = Inr (the (broker_fill_msc (timing po)) \<le> current)"
  by (auto simp: order_ready_def order_timed_def)

lemma collect_ready_timed:
  assumes "\<forall>kp\<in>set d. order_timed g (fst kp) (snd kp)"
  shows "collect_ready current d =
    Inr (filter (\<lambda>kp. the (broker_fill_msc (timing (snd kp))) \<le> current) d)"
  using assms
proof (induction d)
  case (Cons kp d)
  have "order_ready current (snd kp) = Inr (the (broker_fill_msc (timing (snd kp))) \<le> current)"
    using Cons.prems by (intro order_ready_timed [of g "fst kp"]) simp
  with Cons show ?case by (cases kp) simp
qed simp

lemma remove_all_orders:
  "foldl (\<lambda>q k. snd (remove_order k q)) q ks =
   q\<lparr>pending_orders := foldl (\<lambda>d k. AList.delete k d) (pending_orders q) ks\<rparr>"
  by (induction ks arbitrary: q) (simp_all add: remove_order_def)

lemma delete_filter: "AList.delete k d = filter (\<lambda>kp. fst kp \<noteq> k) d"
  by (induction d) auto

lemma delete_all_filter:
  "foldl (\<lambda>d k. AList.delete k d) d ks = filter (\<lambda>kp. fst kp \<notin> set ks) d"
  by (induction ks arbitrary: d) (simp_all add: delete_filter conj_commute)

text \<open>A release splits the queue by fill time, keeping the order of submission in both parts.\<close>

lemma process_up_to_split:
  assumes "latency_inv q"
  shows "process_up_to_msc current q =
    Inr (filter (\<lambda>po. the (broker_fill_msc (timing po)) \<le> current) (vals_of (pending_orders q)),
         q\<lparr>pending_orders := filter (\<lambda>kp. \<not> the (broker_fill_msc (timing (snd kp))) \<le> current) (pending_orders q)\<rparr>)"
proof -
  let ?P = "\<lambda>kp. the (broker_fill_msc (timing (snd kp))) \<le> current"
  have rem: "filter (\<lambda>kp. fst kp \<notin> fst ` {x \<in> set (pending_orders q). ?P x}) (pending_orders q) =
      filter (\<lambda>kp. \<not> ?P kp) (pending_orders q)"
    using assms by (intro filter_cong) (auto simp: latency_inv_def dest: eq_key_imp_eq_value)
  have "collect_ready current (pending_orders q) = Inr (filter ?P (pending_orders q))"
    using assms by (intro collect_ready_timed [of _ "inbound_delay_gen q"]) (simp add: latency_inv_def)
  then show ?thesis
    by (simp add: process_up_to_msc_def remove_all_orders delete_all_filter rem filter_map o_def)
qed

lemma latency_inv_process:
  "latency_inv q \<Longrightarrow> process_up_to_msc current q = Inr (ready, q') \<Longrightarrow> latency_inv q'"
  by (simp add: process_up_to_split, elim conjE, hypsubst) (simp add: latency_inv_def distinct_map_filter)

lemma latency_inv_outcome: "latency_inv q \<Longrightarrow> latency_inv (record_outcome po oc l r q)"
  by (simp add: latency_inv_def stats_ok_outcome)

lemma record_outcome_more [simp]: "pending_manager.more (record_outcome po oc l r q) = pending_manager.more q"
  by (simp add: record_outcome_def Let_def)

lemma clear_pending_fold:
  fixes q :: "'a pending_manager_scheme" and c :: "msc option" and w :: instant and r :: string
  defines "f \<equiv> \<lambda>(q :: 'a pending_manager_scheme) po. record_outcome po PO_FORCE_CLOSED (clear_latency c w po) (Some r) q"
  shows "pending_manager.more (foldl f q xs) = pending_manager.more q"
    and "stats_ok (pending_st q) \<Longrightarrow> stats_ok (pending_st (foldl f q xs))"
    and "total_force_closed (pending_st (foldl f q xs)) = total_force_closed (pending_st q) + int (length xs)"
proof -
  show "pending_manager.more (foldl f q xs) = pending_manager.more q"
    by (induction xs arbitrary: q) (simp_all add: f_def)
  show "stats_ok (pending_st q) \<Longrightarrow> stats_ok (pending_st (foldl f q xs))"
    by (induction xs arbitrary: q) (simp_all add: f_def stats_ok_outcome)
  have one: "total_force_closed (pending_st (f q po)) = total_force_closed (pending_st q) + 1" for q po
    by (simp add: f_def record_outcome_def stats_record_def count_outcome_def Let_def split: option.split)
  show "total_force_closed (pending_st (foldl f q xs)) = total_force_closed (pending_st q) + int (length xs)"
    by (induction xs arbitrary: q) (simp_all add: one)
qed

lemma clear_pending_spec:
  "pending_orders (clear_pending c w r q) = []"
  "pending_manager.more (clear_pending c w r q) = pending_manager.more q"
  "stats_ok (pending_st q) \<Longrightarrow> stats_ok (pending_st (clear_pending c w r q))"
  "total_force_closed (pending_st (clear_pending c w r q)) =
     total_force_closed (pending_st q) + int (length (pending_orders q))"
  by (simp_all add: clear_pending_def Let_def clear_pending_fold)

lemma same_delay_gen: "pending_manager.more q = pending_manager.more q' \<Longrightarrow> inbound_delay_gen q = inbound_delay_gen q'"
  by (cases q; cases q') simp

lemma latency_inv_clear: "latency_inv q \<Longrightarrow> latency_inv (clear_pending c w r q)"
  by (simp add: latency_inv_def clear_pending_spec same_delay_gen [OF clear_pending_spec(2)])

inductive latency_step :: "latency \<Rightarrow> latency \<Rightarrow> bool" where
  lat_open: "latency_step q (submit_open_order oid rq t q)"
| lat_close: "latency_step q (submit_close_order pid t cl q)"
| lat_process: "process_up_to_msc current q = Inr (ready, q') \<Longrightarrow> latency_step q q'"
| lat_outcome: "latency_step q (record_outcome po oc l r q)"
| lat_clear: "latency_step q (clear_pending c w reason q)"

definition latency_fresh :: "latency \<Rightarrow> bool" where
  "latency_fresh q \<longleftrightarrow> (\<exists>g. delays_in_range g \<and> q = new_latency g)"

interpretation latency_machine: invariant_machine latency_fresh latency_step latency_inv
proof unfold_locales
  show "latency_inv q" if "latency_fresh q" for q
    using that by (auto simp: latency_fresh_def new_latency_def latency_inv_def stats_ok_new)
  show "latency_inv q'" if "latency_inv q" "latency_step q q'" for q q'
    using that(2,1)
    by (cases rule: latency_step.cases)
       (auto intro: latency_inv_submit latency_inv_process latency_inv_outcome latency_inv_clear)
qed

text \<open>Never early: an order comes out of the queue after at least the minimum delay. Never late: a
  release at or after the maximum delay takes the order.\<close>

lemma released_not_early:
  assumes "latency_inv q" and "process_up_to_msc current q = Inr (ready, q')" and "po \<in> set ready"
  shows "\<exists>p. placed_at_msc (timing po) = Some p \<and> p + dg_min (inbound_delay_gen q) \<le> current"
proof -
  from assms obtain k where k: "(k, po) \<in> set (pending_orders q)" "the (broker_fill_msc (timing po)) \<le> current"
    by (auto simp: process_up_to_split)
  with assms(1) have "order_timed (inbound_delay_gen q) k po" by (force simp: latency_inv_def)
  with k(2) show ?thesis by (auto simp: order_timed_def)
qed

lemma kept_not_late:
  assumes "latency_inv q" and "process_up_to_msc current q = Inr (ready, q')"
    and "(k, po) \<in> set (pending_orders q')"
  shows "\<exists>p. placed_at_msc (timing po) = Some p \<and> current < p + dg_max (inbound_delay_gen q)"
proof -
  from assms have k: "(k, po) \<in> set (pending_orders q)" "\<not> the (broker_fill_msc (timing po)) \<le> current"
    by (auto simp: process_up_to_split)
  with assms(1) have "order_timed (inbound_delay_gen q) k po" by (force simp: latency_inv_def)
  with k(2) show ?thesis by (auto simp: order_timed_def)
qed

end
