(* ===== verification/Executor.thy ===== *)
theory Executor
  imports Portfolio_Laws Pending
begin

text \<open>
  The execution engine shared by simulation and live trading,
  \<^verbatim>\<open>trading_env/abstract_trade_executor.py\<close>: the tick lifecycle, fill processing of open and close
  orders, stop-loss and take-profit triggers, order history and statistics.

  The record \<open>executor\<close> has the attributes of \<open>AbstractTradeExecutor\<close>; subclasses extend it, so the
  shared methods are functions on \<open>'a executor_scheme\<close>. Broker, account currency and spot mode are
  read from the portfolio, which the constructor gives the same values. Two callback registries are
  represented by what they receive: \<open>outcome_log\<close> is the sequence of calls every order-outcome
  listener gets, \<open>event_log\<close> the sequence of decision events the sink gets. Neither callback changes
  the executor. \<open>wall_now\<close> is the reading of \<open>datetime.now\<close>, used for fee and request timestamps
  only. Moving the executor's clock moves the clock function the portfolio was given
  (\<open>set_clock\<close>).
\<close>

section \<open>State\<close>

record executor =
  ex_portfolio :: portfolio
  ex_prices :: "(string, price \<times> price) dict"
  ex_tick :: "tick_data option"
  tick_counter :: int
  clock_time :: "instant option"
  market_status :: market_data_status
  order_counter :: int
  order_history_max :: nat
  order_history :: "order_result list"
  order_history_limit_warned :: bool
  orders_sent :: int
  orders_executed :: int
  orders_rejected :: int
  sl_tp_triggered :: int
  active_limit_orders :: "pending_order list"
  active_stop_orders :: "pending_order list"
  ex_mode :: executor_mode
  outcome_log :: "(order_direction \<times> order_result \<times> pending_order option) list"
  event_sink :: bool
  event_log :: "decision_event list"
  session_end_requested :: bool
  session_end_reason :: string
  session_end_sev :: session_end_severity
  synth_trade_seq :: nat
  wall_now :: instant

abbreviation ex_broker :: "'a executor_scheme \<Rightarrow> broker" where
  "ex_broker s \<equiv> pf_broker (ex_portfolio s)"

text \<open>The three numbers of the adapters' \<open>get_broker_specification\<close> that reach the portfolio.\<close>

definition account_leverage :: "broker \<Rightarrow> int \<times> rat \<times> rat" where
  "account_leverage br =
     (let info = br_info br; (lev, call, stopout) = (if br_kind br = MT5 then (100, 50, 20) else (1, 0, 0))
      in (with_default lev (Option.bind info bi_leverage),
          with_default call (Option.bind info bi_margin_call_level),
          with_default stopout (Option.bind info bi_stopout_level)))"

section \<open>Clock, history, notifications\<close>

definition set_clock :: "instant \<Rightarrow> 'a executor_scheme \<Rightarrow> 'a executor_scheme" where
  "set_clock t s = s\<lparr>clock_time := Some t, ex_portfolio := (ex_portfolio s)\<lparr>pf_clock := Some t\<rparr>\<rparr>"

definition get_current_time :: "'a executor_scheme \<Rightarrow> instant res" where
  "get_current_time s = (case clock_time s of None \<Rightarrow> Inl ClockNotInjectedError | Some t \<Rightarrow> Inr t)"

definition get_current_price :: "string \<Rightarrow> 'a executor_scheme \<Rightarrow> (price \<times> price) res" where
  "get_current_price smb s =
     (case ex_tick s of
        None \<Rightarrow> Inl ValueError
      | Some t \<Rightarrow> if tick_symbol t \<noteq> smb then Inl ValueError else Inr (bid t, ask t))"

definition check_order_history_limit :: "'a executor_scheme \<Rightarrow> 'a executor_scheme" where
  "check_order_history_limit s =
     (if order_history_max s > 0 \<and> \<not> order_history_limit_warned s
         \<and> length (order_history s) \<ge> order_history_max s
      then s\<lparr>order_history_limit_warned := True\<rparr> else s)"

definition append_order_history :: "order_result \<Rightarrow> 'a executor_scheme \<Rightarrow> 'a executor_scheme" where
  "append_order_history r s = s\<lparr>order_history := deque_append (order_history_max s) (order_history s) r\<rparr>"

definition notify_outcome ::
  "order_direction \<Rightarrow> order_result \<Rightarrow> pending_order option \<Rightarrow> 'a executor_scheme \<Rightarrow> 'a executor_scheme" where
  "notify_outcome d r po s = s\<lparr>outcome_log := outcome_log s @ [(d, r, po)]\<rparr>"

definition emit_decision_event :: "decision_event \<Rightarrow> 'a executor_scheme \<Rightarrow> 'a executor_scheme" where
  "emit_decision_event ev s = (if event_sink s then s\<lparr>event_log := event_log s @ [ev]\<rparr> else s)"

definition emit_order_cancelled :: "pending_order \<Rightarrow> 'a executor_scheme \<Rightarrow> 'a executor_scheme res" where
  "emit_order_cancelled po s =
     bind_res (get_current_time s) (\<lambda>now.
       Inr (emit_decision_event
              (OrderCancelledEvent (pending_order_id po) (map_option os_direction (po_open po)) now) s))"

definition request_session_end :: "string \<Rightarrow> session_end_severity \<Rightarrow> 'a executor_scheme \<Rightarrow> 'a executor_scheme" where
  "request_session_end reason sev s =
     s\<lparr>session_end_requested := True, session_end_reason := reason, session_end_sev := sev\<rparr>"

definition record_guard_rejection :: "order_result \<Rightarrow> 'a executor_scheme \<Rightarrow> 'a executor_scheme" where
  "record_guard_rejection r s =
     append_order_history r
       (check_order_history_limit (s\<lparr>orders_rejected := orders_rejected s + 1\<rparr>))"

section \<open>Normalisation\<close>

definition round_price :: "price option \<Rightarrow> nat \<Rightarrow> price option" where
  "round_price p digits = map_option (\<lambda>x. py_round x digits) p"

definition normalize_order_request ::
  "open_order_request \<Rightarrow> 'a executor_scheme \<Rightarrow> open_order_request res" where
  "normalize_order_request rq s =
     (if rq_symbol rq \<notin> set (get_all_aviable_symbols (ex_broker s)) then Inr rq
      else bind_res (get_symbol_specification (ex_broker s) (rq_symbol rq)) (\<lambda>sp.
        let d = spec_digits sp in
        Inr (rq\<lparr>rq_price := round_price (rq_price rq) d,
                rq_stop_price := round_price (rq_stop_price rq) d,
                rq_stop_loss := round_price (rq_stop_loss rq) d,
                rq_take_profit := round_price (rq_take_profit rq) d\<rparr>)))"

section \<open>Fill helpers\<close>

definition ex_calculate_tick_value :: "symbol_spec \<Rightarrow> price \<Rightarrow> 'a executor_scheme \<Rightarrow> rat res" where
  "ex_calculate_tick_value sp x s =
     (let base_factor = tick_size sp * spec_contract_size sp; cur = account_currency (ex_portfolio s) in
      if cur = quote_currency sp then Inr base_factor
      else if cur = base_currency sp then
        (if x \<le> 0 then Inl ValueError else Inr (base_factor / x))
      else Inl NotImplementedError)"

definition create_entry_fee ::
  "symbol_spec \<Rightarrow> lots \<Rightarrow> price \<Rightarrow> rat \<Rightarrow> bool \<Rightarrow> tick_data \<Rightarrow> 'a executor_scheme \<Rightarrow> fee res" where
  "create_entry_fee sp l x tv is_maker t s =
     bind_res (fee_model (ex_broker s)) (\<lambda>m.
       if m = FEE_MAKER_TAKER then
         bind_res (get_maker_fee (ex_broker s)) (\<lambda>mr.
           bind_res (get_taker_fee (ex_broker s)) (\<lambda>tr.
             Inr (create_maker_taker_fee l (spec_contract_size sp) x mr tr is_maker (wall_now s))))
       else Inr (create_spread_fee_from_tick t l tv (spec_digits sp) (wall_now s)))"

definition is_maker_entry :: "entry_type \<Rightarrow> bool" where
  "is_maker_entry et = (et = ET_LIMIT \<or> et = ET_STOP_LIMIT)"

definition pad6 :: "nat \<Rightarrow> string" where
  "pad6 n = (let d = nat_str n in replicate (6 - length d) (CHR ''0'') @ d)"

definition synthesize_pending_trade ::
  "pending_order \<Rightarrow> price \<Rightarrow> lots \<Rightarrow> entry_type \<Rightarrow> symbol_spec \<Rightarrow> money \<Rightarrow> order_direction \<Rightarrow>
   'a executor_scheme \<Rightarrow> (pending_order \<times> 'a executor_scheme) res" where
  "synthesize_pending_trade po fill_price filled_lots et sp fc dir s =
     (let s1 = s\<lparr>synth_trade_seq := synth_trade_seq s + 1\<rparr> in
      bind_res (get_current_time s1) (\<lambda>now.
        let act = (if po_order_action po = PA_CLOSE then OA_CLOSE else OA_OPEN);
            ref_dir = (if po_order_action po = PA_CLOSE
                       then (case get_position (ex_portfolio s1) (pending_order_id po) of
                               Some p \<Rightarrow> pos_direction p | None \<Rightarrow> dir)
                       else dir);
            trade = \<lparr>trade_id = ''SYNTH-'' @ pending_order_id po @ ''-'' @ pad6 (synth_trade_seq s1),
                     parent_broker_ref = with_default [] (po_broker_ref po),
                     bt_order_id = pending_order_id po, bt_volume = filled_lots, bt_price = fill_price,
                     bt_fee = fc, fee_currency = quote_currency sp, bt_timestamp = now,
                     bt_side = direction_to_side ref_dir act, bt_is_maker = is_maker_entry et\<rparr>
        in Inr (po\<lparr>fills := append_trade (fills po) trade\<rparr>, s1)))"

definition ensure_trades ::
  "pending_order \<Rightarrow> price \<Rightarrow> lots \<Rightarrow> entry_type \<Rightarrow> symbol_spec \<Rightarrow> money \<Rightarrow> order_direction \<Rightarrow>
   'a executor_scheme \<Rightarrow> (pending_order \<times> 'a executor_scheme) res" where
  "ensure_trades po x l et sp fc dir s =
     (if fill_trades (fills po) = [] then synthesize_pending_trade po x l et sp fc dir s else Inr (po, s))"

definition fee_type_value :: "fee_type \<Rightarrow> string" where
  "fee_type_value t = (case t of FEE_SPREAD \<Rightarrow> ''spread'' | FEE_SWAP \<Rightarrow> ''swap''
     | FEE_COMMISSION \<Rightarrow> ''commission'' | FEE_MAKER_TAKER \<Rightarrow> ''maker_taker'')"

definition fill_type_value :: "fill_type \<Rightarrow> string" where
  "fill_type_value t = (case t of FT_MARKET \<Rightarrow> ''market'' | FT_LIMIT \<Rightarrow> ''limit''
     | FT_LIMIT_IMMEDIATE \<Rightarrow> ''limit_immediate'' | FT_STOP \<Rightarrow> ''stop'' | FT_STOP_LIMIT \<Rightarrow> ''stop_limit'')"

text \<open>The rejection tail shared by the three capacity checks of a fill.\<close>

definition reject_fill ::
  "pending_order \<Rightarrow> order_direction \<Rightarrow> rejection_reason \<Rightarrow> 'a executor_scheme \<Rightarrow> 'a executor_scheme" where
  "reject_fill po d reason s =
     (let rejection = create_rejection_result (pending_order_id po) reason in
      notify_outcome d rejection (Some po)
        (append_order_history rejection
          (check_order_history_limit (s\<lparr>orders_rejected := orders_rejected s + 1\<rparr>))))"

text \<open>The capacity check of a fill: \<open>Some reason\<close> when margin or funds do not cover it. Reading the
  free margin refreshes the portfolio, so the state is returned too.\<close>

definition check_capacity ::
  "open_spec \<Rightarrow> symbol_spec \<Rightarrow> price \<Rightarrow> fee \<Rightarrow> tick_data \<Rightarrow> 'a executor_scheme \<Rightarrow>
   (rejection_reason option \<times> 'a executor_scheme) res" where
  "check_capacity os sp entry fee t s =
     (if get_leverage (ex_broker s) > 1 then
        bind_res (calculate_margin_required (ex_broker s) (os_symbol os) (os_lots os) t (os_direction os)) (\<lambda>required.
          bind_res (get_free_margin (os_direction os) (ex_portfolio s)) (\<lambda>(free, pf).
            let s1 = s\<lparr>ex_portfolio := pf\<rparr> in
            Inr (if required > free then Some INSUFFICIENT_MARGIN else None, s1)))
      else if spot_mode (ex_portfolio s) then
        Inr (if os_direction os = LONG
             then (if os_lots os * entry + fee_cost fee
                        > get_asset_balance (ex_portfolio s) (quote_currency sp)
                   then Some INSUFFICIENT_FUNDS else None)
             else (if os_lots os > get_asset_balance (ex_portfolio s) (base_currency sp)
                   then Some INSUFFICIENT_FUNDS else None), s)
      else Inr (None, s))"

definition open_args_of ::
  "pending_order \<Rightarrow> open_spec \<Rightarrow> price \<Rightarrow> rat \<Rightarrow> price \<times> price \<Rightarrow> symbol_spec \<Rightarrow> int \<Rightarrow> fee \<Rightarrow> entry_type \<Rightarrow>
   price \<Rightarrow> string \<Rightarrow> open_args" where
  "open_args_of po os entry tv ba sp tick_idx f et pip unit =
     \<lparr>oa_order_id = pending_order_id po, oa_symbol = os_symbol os, oa_direction = os_direction os,
      oa_lots = os_lots os, oa_entry_price = entry, oa_entry_tick_value = tv,
      oa_entry_bid = fst ba, oa_entry_ask = snd ba, oa_digits = spec_digits sp,
      oa_contract_size = spec_contract_size sp, oa_entry_tick_index = tick_idx,
      oa_entry_fee = Some f, oa_stop_loss = kw_stop_loss (os_kwargs os),
      oa_take_profit = kw_take_profit (os_kwargs os),
      oa_comment = with_default [] (kw_comment (os_kwargs os)), oa_entry_type = et,
      oa_broker_ref = po_broker_ref po, oa_entry_trades = fill_trades (fills po),
      oa_entry_submission = Some (submission po), oa_pip_size = pip, oa_price_unit = unit\<rparr>"

definition open_result ::
  "pending_order \<Rightarrow> open_spec \<Rightarrow> price \<Rightarrow> fee \<Rightarrow> fill_type \<Rightarrow> int \<Rightarrow> instant \<Rightarrow> order_result" where
  "open_result po os entry f ft tick_idx now =
     (blank_result (pending_order_id po) OS_EXECUTED)
       \<lparr>executed_price := Some entry, executed_lots := Some (os_lots os), execution_time := Some now,
        or_position_id := Some (pending_order_id po), or_action := Some OA_OPEN,
        or_symbol := Some (os_symbol os), or_direction := Some (os_direction os),
        requested_lots := Some (os_lots os), or_submission := submission po,
        or_metadata := [(''fee_cost'', PyFloat (fee_cost f)), (''fee_type'', PyStr (fee_type_value (fee_ty f))),
                        (''fill_type'', PyStr (fill_type_value ft)), (''filled_at_tick'', PyInt tick_idx)]\<rparr>"

section \<open>Filling an open order\<close>

text \<open>The part of \<open>_fill_open_order\<close> after the capacity check has passed.\<close>

definition book_open ::
  "pending_order \<Rightarrow> open_spec \<Rightarrow> price \<Rightarrow> entry_type \<Rightarrow> fill_type \<Rightarrow> symbol_spec \<Rightarrow> rat \<Rightarrow> price \<times> price \<Rightarrow> fee \<Rightarrow>
   'a executor_scheme \<Rightarrow> 'a executor_scheme res" where
  "book_open po os entry et ft sp tv ba f s =
     bind_res (ensure_trades po entry (os_lots os) et sp (fee_cost f) (os_direction os) s) (\<lambda>(po1, s1).
       bind_res (get_pip_size (ex_broker s1) (os_symbol os)) (\<lambda>pip.
         bind_res (open_position
                     (open_args_of po1 os entry tv ba sp (tick_counter s1) f et pip (unit_label (br_pip_mode (ex_broker s1))))
                     (ex_portfolio s1)) (\<lambda>(p, pf).
           let s2 = s1\<lparr>ex_portfolio := pf\<rparr> in
           bind_res (get_current_time s2) (\<lambda>now.
             let r = open_result po1 os entry f ft (tick_counter s2) now in
             Inr (notify_outcome (os_direction os) r (Some po1)
                    (append_order_history r
                      (check_order_history_limit (s2\<lparr>orders_executed := orders_executed s2 + 1\<rparr>))))))))"

definition fill_entry_price :: "price option \<Rightarrow> order_direction \<Rightarrow> price \<times> price \<Rightarrow> price" where
  "fill_entry_price fp d ba = (case fp of Some x \<Rightarrow> x | None \<Rightarrow> if d = LONG then snd ba else fst ba)"

definition fill_open_order ::
  "pending_order \<Rightarrow> price option \<Rightarrow> entry_type \<Rightarrow> fill_type \<Rightarrow> 'a executor_scheme \<Rightarrow> 'a executor_scheme res" where
  "fill_open_order po fill_price et ft s =
     (case (ex_tick s, po_open po) of
        (None, _) \<Rightarrow> Inl AttributeError
      | (_, None) \<Rightarrow> Inl ValueError
      | (Some t, Some os) \<Rightarrow>
          bind_res (get_current_price (os_symbol os) s) (\<lambda>ba.
            let entry = fill_entry_price fill_price (os_direction os) ba in
            bind_res (get_symbol_specification (ex_broker s) (os_symbol os)) (\<lambda>sp.
              bind_res (ex_calculate_tick_value sp (mid t) s) (\<lambda>tv.
                bind_res (create_entry_fee sp (os_lots os) entry tv (is_maker_entry et) t s) (\<lambda>f.
                  bind_res (check_capacity os sp entry f t s) (\<lambda>(rej, s1).
                    case rej of
                      Some reason \<Rightarrow> Inr (reject_fill po (os_direction os) reason s1)
                    | None \<Rightarrow> book_open po os entry et ft sp tv ba f s1))))))"

section \<open>Filling a close order\<close>

text \<open>How many lots a close executes: \<open>None\<close> drops the order (non-positive request); a request above
  the position, or one that would leave less than the minimum volume, closes everything.\<close>

definition close_decision :: "lots option \<Rightarrow> lots \<Rightarrow> lots \<Rightarrow> (bool \<times> lots) option" where
  "close_decision close_lots pos_l vmin =
     (case close_lots of
        None \<Rightarrow> Some (False, pos_l)
      | Some cl \<Rightarrow>
          if cl \<le> 0 then None
          else if cl > pos_l then Some (False, pos_l)
          else if cl < pos_l then
            (if pos_l - cl < vmin - 1 / 10 ^ 9 then Some (False, pos_l) else Some (True, cl))
          else Some (False, pos_l))"

definition close_result ::
  "pending_order \<Rightarrow> position \<Rightarrow> price \<Rightarrow> lots \<Rightarrow> bool \<Rightarrow> money \<Rightarrow> instant \<Rightarrow> order_result" where
  "close_result po p x l is_partial pnl now =
     (blank_result (pending_order_id po) OS_EXECUTED)
       \<lparr>executed_price := Some x, executed_lots := Some l, execution_time := Some now,
        or_position_id := Some (pending_order_id po), or_action := Some OA_CLOSE,
        or_symbol := Some (pos_symbol p), or_direction := Some (pos_direction p),
        or_close_type := Some (if is_partial then CT_PARTIAL else CT_FULL),
        or_submission := submission po, or_metadata := [(''realized_pnl'', PyFloat pnl)]\<rparr>"

definition close_args_of :: "pending_order \<Rightarrow> price \<Rightarrow> rat \<Rightarrow> int \<Rightarrow> close_reason \<Rightarrow> close_args" where
  "close_args_of po x tv tick_idx cr =
     \<lparr>cl_position_id = pending_order_id po, cl_exit_price = x, cl_exit_tick_value = tv,
      cl_exit_tick_index = tick_idx, cl_exit_fee = None, cl_close_reason = cr,
      cl_exit_trades = fill_trades (fills po), cl_exit_submission = Some (submission po)\<rparr>"

definition book_close ::
  "pending_order \<Rightarrow> position \<Rightarrow> price \<Rightarrow> rat \<Rightarrow> symbol_spec \<Rightarrow> bool \<Rightarrow> lots \<Rightarrow> close_reason \<Rightarrow>
   'a executor_scheme \<Rightarrow> 'a executor_scheme res" where
  "book_close po p x tv sp is_partial l cr s =
     bind_res (ensure_trades po x l ET_MARKET sp 0 (pos_direction p) s) (\<lambda>(po1, s1).
       let cl = close_args_of po1 x tv (tick_counter s1) cr in
       bind_res (if is_partial then partial_close_position l cl (ex_portfolio s1)
                 else close_position_portfolio cl (ex_portfolio s1)) (\<lambda>(pnl, pf).
         let s2 = s1\<lparr>ex_portfolio := pf\<rparr> in
         bind_res (get_current_time s2) (\<lambda>now.
           let r = close_result po1 p x l is_partial pnl now;
               s3 = append_order_history r (check_order_history_limit s2)
           in Inr (if is_partial
                   then emit_decision_event
                          (PartialCloseEvent (pending_order_id po) (pos_direction p) l (pos_lots p - l) x r now) s3
                   else s3))))"

definition fill_close_order ::
  "pending_order \<Rightarrow> price option \<Rightarrow> close_reason \<Rightarrow> 'a executor_scheme \<Rightarrow> 'a executor_scheme res" where
  "fill_close_order po fill_price cr s =
     (case ex_tick s of
        None \<Rightarrow> Inl AttributeError
      | Some t \<Rightarrow>
          (case get_position (ex_portfolio s) (pending_order_id po) of
             None \<Rightarrow> Inr s
           | Some p \<Rightarrow>
               bind_res (get_current_price (pos_symbol p) s) (\<lambda>ba.
                 let x = (case fill_price of Some y \<Rightarrow> y | None \<Rightarrow> if pos_direction p = LONG then fst ba else snd ba) in
                 bind_res (get_symbol_specification (ex_broker s) (pos_symbol p)) (\<lambda>sp.
                   bind_res (ex_calculate_tick_value sp ((fst ba + snd ba) / 2) s) (\<lambda>tv.
                     case close_decision (po_close_lots po) (pos_lots p) (volume_min sp) of
                       None \<Rightarrow> Inr s
                     | Some (is_partial, l) \<Rightarrow> book_close po p x tv sp is_partial l cr s)))))"

section \<open>Stop-loss and take-profit triggers\<close>

definition synthetic_close :: "string \<Rightarrow> pending_order" where
  "synthetic_close pid =
     \<lparr>pending_order_id = pid, po_order_action = PA_CLOSE, po_order_type = None, po_broker_ref = None,
      po_open = None, po_close_lots = None, timing = no_timing, execution_state = steady_state,
      fills = no_fills, submission = no_submission\<rparr>"

definition check_position_triggers ::
  "tick_data \<Rightarrow> position \<Rightarrow> 'a executor_scheme \<Rightarrow> 'a executor_scheme res" where
  "check_position_triggers t p s =
     (if pos_symbol p \<noteq> tick_symbol t then Inr s
      else if is_sl_triggered p (bid t) (ask t) then
        bind_res (fill_close_order (synthetic_close (position_id p)) (stop_loss p) SL_TRIGGERED s)
          (\<lambda>s1. Inr (s1\<lparr>sl_tp_triggered := sl_tp_triggered s1 + 1\<rparr>))
      else if is_tp_triggered p (bid t) (ask t) then
        bind_res (fill_close_order (synthetic_close (position_id p)) (take_profit p) TP_TRIGGERED s)
          (\<lambda>s1. Inr (s1\<lparr>sl_tp_triggered := sl_tp_triggered s1 + 1\<rparr>))
      else Inr s)"

definition check_sl_tp_triggers :: "tick_data \<Rightarrow> 'a executor_scheme \<Rightarrow> 'a executor_scheme res" where
  "check_sl_tp_triggers t s =
     (if ex_mode s \<noteq> SIMULATION then Inr s
      else fold_res (check_position_triggers t) (get_open_positions (ex_portfolio s)) s)"

section \<open>The tick lifecycle\<close>

text \<open>\<open>_process_pending_orders\<close> is abstract in the source; it is an argument here.\<close>

definition begin_tick :: "tick_data \<Rightarrow> 'a executor_scheme \<Rightarrow> 'a executor_scheme" where
  "begin_tick t s =
     (let s1 = set_clock (tick_timestamp t)
                 (s\<lparr>ex_tick := Some t, tick_counter := tick_counter s + 1,
                    ex_prices := AList.update (tick_symbol t) (bid t, ask t) (ex_prices s)\<rparr>)
      in s1\<lparr>ex_portfolio := mark_dirty t (ex_portfolio s1)\<rparr>)"

definition on_tick ::
  "('a executor_scheme \<Rightarrow> 'a executor_scheme res) \<Rightarrow> tick_data \<Rightarrow> 'a executor_scheme \<Rightarrow> 'a executor_scheme res" where
  "on_tick process_pending_orders t s =
     bind_res (process_pending_orders (begin_tick t s)) (check_sl_tp_triggers t)"

section \<open>Queries and lifecycle\<close>

text \<open>Searching an active list for an order id, and changing the order found there in place.\<close>

definition has_id :: "string \<Rightarrow> pending_order \<Rightarrow> bool" where
  "has_id oid po = (pending_order_id po = oid)"

fun update_first :: "('a \<Rightarrow> bool) \<Rightarrow> ('a \<Rightarrow> 'a) \<Rightarrow> 'a list \<Rightarrow> 'a list" where
  "update_first P f [] = []"
| "update_first P f (x # xs) = (if P x then f x # xs else x # update_first P f xs)"

definition resolve_order_side :: "order_side \<Rightarrow> order_direction" where
  "resolve_order_side side = (if side = BUY then LONG else SHORT)"

definition get_in_flight_operation :: "string \<Rightarrow> 'a executor_scheme \<Rightarrow> pending_operation" where
  "get_in_flight_operation oid s =
     (case find (\<lambda>po. pending_order_id po = oid) (active_limit_orders s) of
        Some po \<Rightarrow> in_flight_operation (execution_state po)
      | None \<Rightarrow> (case find (\<lambda>po. pending_order_id po = oid) (active_stop_orders s) of
            Some po \<Rightarrow> in_flight_operation (execution_state po)
          | None \<Rightarrow> OP_NONE))"

definition has_in_flight_operation :: "string \<Rightarrow> 'a executor_scheme \<Rightarrow> bool" where
  "has_in_flight_operation oid s = (get_in_flight_operation oid s \<noteq> OP_NONE)"

definition get_active_orders :: "'a executor_scheme \<Rightarrow> pending_order list" where
  "get_active_orders s = active_limit_orders s @ active_stop_orders s"

definition get_execution_stats :: "'a executor_scheme \<Rightarrow> execution_stats" where
  "get_execution_stats s =
     \<lparr>st_orders_sent = orders_sent s, st_orders_executed = orders_executed s,
      st_orders_rejected = orders_rejected s, st_sl_tp_triggered = sl_tp_triggered s\<rparr>"

definition order_type_value :: "order_type \<Rightarrow> string" where
  "order_type_value t = (case t of OT_MARKET \<Rightarrow> ''market'' | OT_LIMIT \<Rightarrow> ''limit'' | OT_STOP \<Rightarrow> ''stop''
     | OT_STOP_LIMIT \<Rightarrow> ''stop_limit'' | OT_TRAILING_STOP \<Rightarrow> ''trailing_stop'' | OT_ICEBERG \<Rightarrow> ''iceberg'')"

definition expire_order :: "string \<Rightarrow> pending_order \<Rightarrow> 'a executor_scheme \<Rightarrow> 'a executor_scheme res" where
  "expire_order dflt po s =
     bind_res (get_current_time s) (\<lambda>now.
       Inr (append_order_history
         ((blank_result (pending_order_id po) OS_EXPIRED)
            \<lparr>execution_time := Some now, or_action := Some OA_OPEN,
             or_symbol := map_option os_symbol (po_open po),
             or_metadata := [(''reason'', PyStr ''scenario_end''),
               (''order_type'', PyStr (case po_order_type po of Some t \<Rightarrow> order_type_value t | None \<Rightarrow> dflt)),
               (''entry_price'', (case po_open po of Some os \<Rightarrow> PyFloat (os_entry_price os) | None \<Rightarrow> PyNone))]\<rparr>) s))"

definition expire_active_orders :: "'a executor_scheme \<Rightarrow> 'a executor_scheme res" where
  "expire_active_orders s =
     bind_res (fold_res (expire_order ''limit'') (active_limit_orders s) s)
       (\<lambda>s1. fold_res (expire_order ''stop'') (active_stop_orders s1) s1)"

definition ex_reset :: "'a executor_scheme \<Rightarrow> 'a executor_scheme" where
  "ex_reset s =
     s\<lparr>ex_portfolio := pf_reset (ex_portfolio s), ex_prices := [], order_counter := 0, order_history := [],
       orders_sent := 0, orders_executed := 0, orders_rejected := 0, sl_tp_triggered := 0,
       active_limit_orders := [], active_stop_orders := []\<rparr>"

end
