(* ===== verification/Simulator.thy ===== *)
theory Simulator
  imports Executor
begin

text \<open>
  The simulated execution engine, \<^verbatim>\<open>trading_env/simulation/trade_simulator.py\<close>, with the seeded order
  rejection of \<^verbatim>\<open>stress_test/stress_test_rejection.py\<close>. The record \<open>simulator\<close> extends \<open>executor\<close> as the
  class does. A tick runs four phases: scheduled modifications and cancellations, the latency queue,
  resting limit orders, resting stop orders; stop-loss and take-profit triggers follow.

  Orders are mutable objects in the source that sit in exactly one collection at a time; here an
  order is replaced in its collection. \<open>list.remove\<close> compares dataclasses field by field, which is
  \<open>remove1\<close>. The theory holds the definitions; results are in \<open>Simulator_Laws\<close>.
\<close>

section \<open>State\<close>

record simulator = executor +
  latency_sim :: latency
  stress_filter :: "probability_filter option"
  stress_rejections :: int
  pending_position_modifications :: "(string, modification_request) dict"
  modify_cancel_delay_msc :: int

text \<open>The constructors: \<open>roll\<close> is the market clock's rollover anchor, \<open>now\<close> the wall clock, \<open>g\<close> and \<open>flt\<close>
  the seeded generators of the latency simulator and of the rejection stress test.\<close>

definition simulator_init ::
  "broker \<Rightarrow> money \<Rightarrow> string \<Rightarrow> nat \<Rightarrow> nat \<Rightarrow> bool \<Rightarrow> (string, money) dict \<Rightarrow> swap_rollover_config option \<Rightarrow>
   delay_gen \<Rightarrow> probability_filter option \<Rightarrow> bool \<Rightarrow> instant \<Rightarrow> simulator" where
  "simulator_init br ib cur ohmax thmax spot ibs roll g flt sink now =
     (let (lev, call, stopout) = account_leverage br in
      \<lparr>ex_portfolio = portfolio_init ib cur br lev call stopout thmax spot ibs None roll,
       ex_prices = [], ex_tick = None, tick_counter = 0, clock_time = None, market_status = fresh_status,
       order_counter = 0, order_history_max = ohmax, order_history = [], order_history_limit_warned = False,
       orders_sent = 0, orders_executed = 0, orders_rejected = 0, sl_tp_triggered = 0,
       active_limit_orders = [], active_stop_orders = [], ex_mode = SIMULATION, outcome_log = [],
       event_sink = sink, event_log = [], session_end_requested = False, session_end_reason = [],
       session_end_sev = SEV_NORMAL, synth_trade_seq = 0, wall_now = now,
       latency_sim = new_latency g, stress_filter = flt, stress_rejections = 0,
       pending_position_modifications = [], modify_cancel_delay_msc = 1\<rparr>)"

definition current_msc :: "simulator \<Rightarrow> msc res" where
  "current_msc s = (case ex_tick s of None \<Rightarrow> Inl AttributeError | Some t \<Rightarrow> Inr (get_tick_msc t))"

section \<open>Price conditions\<close>

definition is_limit_price_reached :: "pending_order \<Rightarrow> simulator \<Rightarrow> bool" where
  "is_limit_price_reached po s =
     (case (ex_tick s, po_open po) of
        (Some t, Some os) \<Rightarrow>
          os_symbol os = tick_symbol t \<and>
          (if os_direction os = LONG then ask t \<le> os_entry_price os else bid t \<ge> os_entry_price os)
      | _ \<Rightarrow> False)"

definition is_stop_price_reached :: "pending_order \<Rightarrow> simulator \<Rightarrow> bool" where
  "is_stop_price_reached po s =
     (case (ex_tick s, po_open po) of
        (Some t, Some os) \<Rightarrow>
          os_symbol os = tick_symbol t \<and>
          (if os_direction os = LONG then ask t \<ge> os_entry_price os else bid t \<le> os_entry_price os)
      | _ \<Rightarrow> False)"

definition order_entry_price :: "pending_order \<Rightarrow> price option" where
  "order_entry_price po = map_option os_entry_price (po_open po)"

definition queue_limit :: "pending_order \<Rightarrow> simulator \<Rightarrow> simulator" where
  "queue_limit po s = s\<lparr>active_limit_orders := active_limit_orders s @ [po]\<rparr>"

definition queue_stop :: "pending_order \<Rightarrow> simulator \<Rightarrow> simulator" where
  "queue_stop po s = s\<lparr>active_stop_orders := active_stop_orders s @ [po]\<rparr>"

section \<open>Stop-limit conversion\<close>

definition as_limit_order :: "pending_order \<Rightarrow> pending_order" where
  "as_limit_order po =
     po\<lparr>po_order_type := Some OT_LIMIT,
        po_open := map_option (\<lambda>os.
          os\<lparr>os_entry_price := with_default 0 (kw_limit_price (os_kwargs os)),
             os_kwargs := (os_kwargs os)\<lparr>kw_from_stop_limit := True\<rparr>\<rparr>) (po_open po)\<rparr>"

definition convert_stop_limit_to_limit :: "pending_order \<Rightarrow> simulator \<Rightarrow> simulator res" where
  "convert_stop_limit_to_limit po s =
     (let po' = as_limit_order po in
      if is_limit_price_reached po' s
      then fill_open_order po' (order_entry_price po') ET_STOP_LIMIT FT_STOP_LIMIT s
      else Inr (queue_limit po' s))"

section \<open>Stress rejection\<close>

definition stress_test_should_reject :: "pending_order \<Rightarrow> simulator \<Rightarrow> bool \<times> simulator" where
  "stress_test_should_reject po s =
     (case stress_filter s of
        None \<Rightarrow> (False, s)
      | Some f \<Rightarrow>
          let (trig, f') = should_trigger f; s1 = s\<lparr>stress_filter := Some f'\<rparr> in
          if \<not> trig then (False, s1)
          else (True,
                append_order_history (create_rejection_result (pending_order_id po) BROKER_ERROR)
                  (s1\<lparr>stress_rejections := stress_rejections s1 + 1, orders_rejected := orders_rejected s1 + 1\<rparr>)))"

section \<open>Phase 1: resolved orders\<close>

definition planned_latency :: "pending_order \<Rightarrow> rat option" where
  "planned_latency po =
     (case (broker_fill_msc (timing po), placed_at_msc (timing po)) of
        (Some f, Some p) \<Rightarrow> Some (of_int (f - p)) | _ \<Rightarrow> None)"

definition sim_record_outcome :: "pending_order \<Rightarrow> pending_outcome \<Rightarrow> simulator \<Rightarrow> simulator" where
  "sim_record_outcome po oc s =
     s\<lparr>latency_sim := record_outcome po oc (planned_latency po) None (latency_sim s)\<rparr>"

text \<open>What a broker-accepted open order does, by type.\<close>

definition accept_open_order :: "pending_order \<Rightarrow> simulator \<Rightarrow> simulator res" where
  "accept_open_order po s =
     (case po_order_type po of
        Some OT_LIMIT \<Rightarrow>
          if is_limit_price_reached po s
          then fill_open_order po (order_entry_price po) ET_LIMIT FT_LIMIT_IMMEDIATE s
          else Inr (queue_limit po s)
      | Some OT_STOP \<Rightarrow>
          if is_stop_price_reached po s
          then fill_open_order po None ET_STOP FT_STOP s
          else Inr (queue_stop po s)
      | Some OT_STOP_LIMIT \<Rightarrow>
          if is_stop_price_reached po s
          then convert_stop_limit_to_limit po s
          else Inr (queue_stop po s)
      | _ \<Rightarrow> fill_open_order po None ET_MARKET FT_MARKET s)"

definition fill_resolved_order :: "pending_order \<Rightarrow> simulator \<Rightarrow> simulator res" where
  "fill_resolved_order po s =
     (case po_order_action po of
        PA_OPEN \<Rightarrow>
          (let (rejected, s1) = stress_test_should_reject po s in
           if rejected then Inr (sim_record_outcome po PO_REJECTED s1)
           else bind_res (accept_open_order po s1) (\<lambda>s2. Inr (sim_record_outcome po PO_FILLED s2)))
      | PA_CLOSE \<Rightarrow>
          bind_res (fill_close_order po None CR_MANUAL s) (\<lambda>s2. Inr (sim_record_outcome po PO_FILLED s2)))"

definition fill_resolved_orders :: "pending_order list \<Rightarrow> simulator \<Rightarrow> simulator res" where
  "fill_resolved_orders pos s = fold_res fill_resolved_order pos s"

section \<open>Phase 0: scheduled modifications and cancellations\<close>

definition apply_pending_modification :: "pending_order \<Rightarrow> pending_order res" where
  "apply_pending_modification po =
     (case pending_modification (execution_state po) of
        None \<Rightarrow> Inl AttributeError
      | Some m \<Rightarrow>
          (case new_price m of
             None \<Rightarrow> Inl TypeError
           | Some x \<Rightarrow>
               Inr (po\<lparr>po_open := map_option (\<lambda>os.
                         os\<lparr>os_entry_price := x,
                            os_kwargs := (os_kwargs os)
                              \<lparr>kw_limit_price := (case new_limit_price m of None \<Rightarrow> kw_limit_price (os_kwargs os) | y \<Rightarrow> y),
                               kw_stop_loss := new_stop_loss m, kw_take_profit := new_take_profit m\<rparr>\<rparr>) (po_open po),
                       execution_state := (execution_state po)
                         \<lparr>pending_modification := None, in_flight_operation := OP_NONE\<rparr>\<rparr>)))"

text \<open>One order of an active list: the order after its due modification, and whether its
  cancellation is due.\<close>

definition resolve_order :: "msc \<Rightarrow> pending_order \<Rightarrow> (pending_order \<times> bool) res" where
  "resolve_order now po =
     (let es = execution_state po in
      if in_flight_operation es = PENDING_MODIFY then
        (case pending_modification es of
           None \<Rightarrow> Inr (po, False)
         | Some m \<Rightarrow>
             (case apply_at_msc m of
                None \<Rightarrow> Inl TypeError
              | Some a \<Rightarrow> if a \<le> now then bind_res (apply_pending_modification po) (\<lambda>po'. Inr (po', False))
                          else Inr (po, False)))
      else if in_flight_operation es = PENDING_CANCEL then
        Inr (po, (case cancel_apply_at_msc es of None \<Rightarrow> False | Some a \<Rightarrow> a \<le> now))
      else Inr (po, False))"

fun resolve_orders :: "msc \<Rightarrow> pending_order list \<Rightarrow> (pending_order list \<times> pending_order list) res" where
  "resolve_orders now [] = Inr ([], [])"
| "resolve_orders now (po # pos) =
     bind_res (resolve_order now po) (\<lambda>(po', due).
       bind_res (resolve_orders now pos) (\<lambda>(rest, cancels).
         Inr (po' # rest, if due then po' # cancels else cancels)))"

text \<open>The removal loop: every due order leaves the list and is announced.\<close>

definition cancel_resolved ::
  "(simulator \<Rightarrow> pending_order list) \<Rightarrow> (pending_order list \<Rightarrow> simulator \<Rightarrow> simulator) \<Rightarrow>
   pending_order \<Rightarrow> simulator \<Rightarrow> simulator res" where
  "cancel_resolved get_list set_list po s = emit_order_cancelled po (set_list (remove1 po (get_list s)) s)"

definition resolve_list ::
  "(simulator \<Rightarrow> pending_order list) \<Rightarrow> (pending_order list \<Rightarrow> simulator \<Rightarrow> simulator) \<Rightarrow>
   msc \<Rightarrow> simulator \<Rightarrow> simulator res" where
  "resolve_list get_list set_list now s =
     bind_res (resolve_orders now (get_list s)) (\<lambda>(pos, cancels).
       fold_res (cancel_resolved get_list set_list) cancels (set_list pos s))"

definition set_limits :: "pending_order list \<Rightarrow> simulator \<Rightarrow> simulator" where
  "set_limits pos s = s\<lparr>active_limit_orders := pos\<rparr>"

definition set_stops :: "pending_order list \<Rightarrow> simulator \<Rightarrow> simulator" where
  "set_stops pos s = s\<lparr>active_stop_orders := pos\<rparr>"

definition resolve_position_modification :: "msc \<Rightarrow> string \<Rightarrow> simulator \<Rightarrow> simulator res" where
  "resolve_position_modification now pid s =
     bind_res (lookup_key (pending_position_modifications s) pid) (\<lambda>m.
       case apply_at_msc m of
         None \<Rightarrow> Inl TypeError
       | Some a \<Rightarrow>
           if a \<le> now then
             Inr (s\<lparr>ex_portfolio := snd (pf_modify_position pid (SetTo (new_stop_loss m)) (SetTo (new_take_profit m))
                                          (ex_portfolio s)),
                    pending_position_modifications := AList.delete pid (pending_position_modifications s)\<rparr>)
           else Inr s)"

definition resolve_pending_operations :: "simulator \<Rightarrow> simulator res" where
  "resolve_pending_operations s =
     bind_res (current_msc s) (\<lambda>now.
       bind_res (resolve_list active_limit_orders set_limits now s) (\<lambda>s1.
         bind_res (resolve_list active_stop_orders set_stops now s1) (\<lambda>s2.
           fold_res (resolve_position_modification now) (keys_of (pending_position_modifications s2)) s2)))"

section \<open>Phases 2 and 3: resting orders\<close>

definition order_symbol :: "pending_order \<Rightarrow> string option" where
  "order_symbol po = map_option os_symbol (po_open po)"

definition from_stop_limit :: "pending_order \<Rightarrow> bool" where
  "from_stop_limit po = (case po_open po of None \<Rightarrow> False | Some os \<Rightarrow> kw_from_stop_limit (os_kwargs os))"

definition monitor_limit ::
  "tick_data \<Rightarrow> pending_order \<Rightarrow> simulator \<times> pending_order list \<Rightarrow> (simulator \<times> pending_order list) res" where
  "monitor_limit t po sr =
     (let (s, remaining) = sr in
      if order_symbol po \<noteq> Some (tick_symbol t) then Inr (s, remaining @ [po])
      else if is_limit_price_reached po s then
        bind_res (fill_open_order po (order_entry_price po)
                    (if from_stop_limit po then ET_STOP_LIMIT else ET_LIMIT)
                    (if from_stop_limit po then FT_STOP_LIMIT else FT_LIMIT) s)
          (\<lambda>s1. Inr (s1, remaining))
      else Inr (s, remaining @ [po]))"

definition monitor_limits :: "simulator \<Rightarrow> simulator res" where
  "monitor_limits s =
     (case ex_tick s of
        None \<Rightarrow> Inr s
      | Some t \<Rightarrow>
          bind_res (fold_res (monitor_limit t) (active_limit_orders s) (s, [])) (\<lambda>(s1, remaining).
            Inr (s1\<lparr>active_limit_orders := remaining\<rparr>)))"

definition monitor_stop ::
  "tick_data \<Rightarrow> pending_order \<Rightarrow> simulator \<times> pending_order list \<Rightarrow> (simulator \<times> pending_order list) res" where
  "monitor_stop t po sr =
     (let (s, remaining) = sr in
      if order_symbol po \<noteq> Some (tick_symbol t) then Inr (s, remaining @ [po])
      else if is_stop_price_reached po s then
        (if po_order_type po = Some OT_STOP then
           bind_res (fill_open_order po None ET_STOP FT_STOP s) (\<lambda>s1. Inr (s1, remaining))
         else if po_order_type po = Some OT_STOP_LIMIT then
           bind_res (convert_stop_limit_to_limit po s) (\<lambda>s1. Inr (s1, remaining))
         else Inr (s, remaining))
      else Inr (s, remaining @ [po]))"

definition monitor_stops :: "simulator \<Rightarrow> simulator res" where
  "monitor_stops s =
     (case ex_tick s of
        None \<Rightarrow> Inr s
      | Some t \<Rightarrow>
          bind_res (fold_res (monitor_stop t) (active_stop_orders s) (s, [])) (\<lambda>(s1, remaining).
            Inr (s1\<lparr>active_stop_orders := remaining\<rparr>)))"

definition drain_latency :: "msc \<Rightarrow> simulator \<Rightarrow> simulator res" where
  "drain_latency now s =
     bind_res (process_up_to_msc now (latency_sim s)) (\<lambda>(ready, q).
       fill_resolved_orders ready (s\<lparr>latency_sim := q\<rparr>))"

definition process_pending_orders :: "simulator \<Rightarrow> simulator res" where
  "process_pending_orders s =
     bind_res (resolve_pending_operations s) (\<lambda>s0.
       bind_res (current_msc s0) (\<lambda>now.
         bind_res (drain_latency now s0) (\<lambda>s1.
           bind_res (monitor_limits s1) monitor_stops)))"

definition sim_on_tick :: "tick_data \<Rightarrow> simulator \<Rightarrow> simulator res" where
  "sim_on_tick t s = on_tick process_pending_orders t s"

text \<open>\<open>int(x.timestamp() * 1000)\<close> truncates towards zero.\<close>

definition instant_msc :: "instant \<Rightarrow> msc" where
  "instant_msc t = (if t \<ge> 0 then t div 1000 else - ((- t) div 1000))"

definition heartbeat :: "simulator \<Rightarrow> simulator res" where
  "heartbeat s =
     (case (ex_tick s, clock_time s) of
        (Some _, Some c) \<Rightarrow>
          bind_res (resolve_pending_operations s) (drain_latency (instant_msc c))
      | _ \<Rightarrow> Inr s)"

section \<open>Submission\<close>

definition pending_result ::
  "string \<Rightarrow> open_order_request \<Rightarrow> (string, pyval) dict \<Rightarrow> order_result" where
  "pending_result oid rq md =
     (blank_result oid OS_PENDING)
       \<lparr>or_action := Some OA_OPEN, or_symbol := Some (rq_symbol rq), or_direction := Some (rq_direction rq),
        requested_lots := Some (rq_lots rq), or_metadata := md\<rparr>"

definition reject_open :: "string \<Rightarrow> rejection_reason \<Rightarrow> simulator \<Rightarrow> order_result \<times> simulator" where
  "reject_open oid reason s =
     (let r = create_rejection_result oid reason in
      (r, append_order_history r (s\<lparr>orders_rejected := orders_rejected s + 1\<rparr>)))"

definition submit_open ::
  "string \<Rightarrow> open_order_request \<Rightarrow> (string, pyval) dict \<Rightarrow> simulator \<Rightarrow> (order_result \<times> simulator) res" where
  "submit_open oid rq md s =
     (case ex_tick s of
        None \<Rightarrow> Inl AttributeError
      | Some t \<Rightarrow>
          let r = pending_result oid rq (md @ [(''submitted_at_tick'', PyInt (tick_counter s))]) in
          Inr (r, append_order_history r (s\<lparr>latency_sim := submit_open_order oid rq t (latency_sim s)\<rparr>)))"

definition positive_price :: "price option \<Rightarrow> bool" where
  "positive_price p = (case p of None \<Rightarrow> False | Some x \<Rightarrow> x > 0)"

definition price_md :: "string \<Rightarrow> price option \<Rightarrow> string \<times> pyval" where
  "price_md k p = (k, case p of None \<Rightarrow> PyNone | Some x \<Rightarrow> PyFloat x)"

definition route_order ::
  "string \<Rightarrow> open_order_request \<Rightarrow> simulator \<Rightarrow> (order_result \<times> simulator) res" where
  "route_order oid rq s =
     (case rq_order_type rq of
        OT_MARKET \<Rightarrow> submit_open oid rq [] s
      | OT_LIMIT \<Rightarrow>
          if \<not> positive_price (rq_price rq) then Inr (reject_open oid RR_INVALID_PRICE s)
          else submit_open oid rq [price_md ''limit_price'' (rq_price rq)] s
      | OT_STOP \<Rightarrow>
          if \<not> positive_price (rq_stop_price rq) then Inr (reject_open oid RR_INVALID_PRICE s)
          else submit_open oid rq [price_md ''stop_price'' (rq_stop_price rq)] s
      | OT_STOP_LIMIT \<Rightarrow>
          if \<not> positive_price (rq_stop_price rq) then Inr (reject_open oid RR_INVALID_PRICE s)
          else if \<not> positive_price (rq_price rq) then Inr (reject_open oid RR_INVALID_PRICE s)
          else submit_open oid rq [price_md ''stop_price'' (rq_stop_price rq), price_md ''limit_price'' (rq_price rq)] s
      | _ \<Rightarrow> Inr (reject_open oid RR_ORDER_TYPE_NOT_SUPPORTED s))"

definition open_order :: "open_order_request \<Rightarrow> simulator \<Rightarrow> (order_result \<times> simulator) res" where
  "open_order rq0 s =
     bind_res (normalize_order_request rq0 s) (\<lambda>rq.
       let (oid, pf) = get_next_position_id (rq_symbol rq) (ex_portfolio s);
           s1 = s\<lparr>orders_sent := orders_sent s + 1, order_counter := order_counter s + 1, ex_portfolio := pf\<rparr>
       in bind_res (validate_order (ex_broker s1) (rq_symbol rq) (rq_lots rq)) (\<lambda>valid.
            if \<not> valid then Inr (reject_open oid INVALID_LOT_SIZE s1)
            else bind_res (is_symbol_tradeable (ex_broker s1) (rq_symbol rq)) (\<lambda>tradeable.
              if \<not> tradeable then Inr (reject_open oid SYMBOL_NOT_TRADEABLE s1)
              else route_order oid rq s1)))"

definition close_position :: "string \<Rightarrow> lots option \<Rightarrow> simulator \<Rightarrow> (order_result \<times> simulator) res" where
  "close_position pid l s =
     (case get_position (ex_portfolio s) pid of
        None \<Rightarrow> Inr (create_rejection_result (''close_'' @ pid) BROKER_ERROR, s)
      | Some p \<Rightarrow>
          (case ex_tick s of
             None \<Rightarrow> Inl AttributeError
           | Some t \<Rightarrow>
               bind_res (get_current_time s) (\<lambda>now.
                 let shown = (case l of Some x \<Rightarrow> if x \<noteq> 0 then x else pos_lots p | None \<Rightarrow> pos_lots p);
                     r = (blank_result pid OS_PENDING)
                           \<lparr>executed_lots := Some shown, execution_time := Some now,
                            or_position_id := Some pid, or_action := Some OA_CLOSE,
                            or_symbol := Some (pos_symbol p), or_direction := Some (pos_direction p),
                            requested_lots := Some shown, or_metadata := [(''awaiting_fill'', PyBool True)]\<rparr>
                 in Inr (r, s\<lparr>latency_sim := submit_close_order pid t l (latency_sim s)\<rparr>))))"

section \<open>Modifying and cancelling resting orders\<close>

definition schedule_cancel :: "msc \<Rightarrow> pending_order \<Rightarrow> pending_order" where
  "schedule_cancel due po =
     po\<lparr>execution_state := (execution_state po)\<lparr>in_flight_operation := PENDING_CANCEL, cancel_apply_at_msc := Some due\<rparr>\<rparr>"

definition schedule_modify :: "modification_request \<Rightarrow> pending_order \<Rightarrow> pending_order" where
  "schedule_modify m po =
     po\<lparr>execution_state := (execution_state po)\<lparr>in_flight_operation := PENDING_MODIFY, pending_modification := Some m\<rparr>\<rparr>"

definition cancel_in_list ::
  "(simulator \<Rightarrow> pending_order list) \<Rightarrow> (pending_order list \<Rightarrow> simulator \<Rightarrow> simulator) \<Rightarrow>
   string \<Rightarrow> simulator \<Rightarrow> (bool \<times> simulator) res" where
  "cancel_in_list get_list set_list oid s =
     (case find (has_id oid) (get_list s) of
        None \<Rightarrow> Inr (False, s)
      | Some po \<Rightarrow>
          if in_flight_operation (execution_state po) \<noteq> OP_NONE then Inr (False, s)
          else bind_res (current_msc s) (\<lambda>now.
            Inr (True, set_list (update_first (has_id oid) (schedule_cancel (now + modify_cancel_delay_msc s))
                                   (get_list s)) s)))"

definition cancel_limit_order :: "string \<Rightarrow> simulator \<Rightarrow> (bool \<times> simulator) res" where
  "cancel_limit_order oid s = cancel_in_list active_limit_orders set_limits oid s"

definition cancel_stop_order :: "string \<Rightarrow> simulator \<Rightarrow> (bool \<times> simulator) res" where
  "cancel_stop_order oid s =
     (let caps = br_capabilities (ex_broker s) in
      if \<not> (stop_orders caps \<or> stop_limit_orders caps) then Inr (False, s)
      else cancel_in_list active_stop_orders set_stops oid s)"

definition validate_limit_order_sl_tp ::
  "order_direction \<Rightarrow> price \<Rightarrow> price option \<Rightarrow> price option \<Rightarrow> mod_rejection option" where
  "validate_limit_order_sl_tp d lp sl tp =
     (if (case sl of None \<Rightarrow> False | Some s \<Rightarrow> (d = LONG \<and> s \<ge> lp) \<or> (d = SHORT \<and> s \<le> lp))
      then Some INVALID_SL_LEVEL
      else if (case tp of None \<Rightarrow> False | Some t \<Rightarrow> (d = LONG \<and> t \<le> lp) \<or> (d = SHORT \<and> t \<ge> lp))
      then Some INVALID_TP_LEVEL
      else (case (sl, tp) of
              (Some s, Some t) \<Rightarrow>
                if (d = LONG \<and> s \<ge> t) \<or> (d = SHORT \<and> s \<le> t) then Some SL_TP_CROSS else None
            | _ \<Rightarrow> None))"

definition invalid_new_price :: "price update_arg \<Rightarrow> bool" where
  "invalid_new_price a = (case a of UNSET \<Rightarrow> False | SetTo x \<Rightarrow> x \<le> 0)"

definition modify_limit_order ::
  "string \<Rightarrow> price update_arg \<Rightarrow> price option update_arg \<Rightarrow> price option update_arg \<Rightarrow> simulator \<Rightarrow>
   (modification_result \<times> simulator) res" where
  "modify_limit_order oid nprice nsl ntp s =
     (case find (has_id oid) (active_limit_orders s) of
        None \<Rightarrow> Inr (mod_rejected LIMIT_ORDER_NOT_FOUND, s)
      | Some po \<Rightarrow>
          if in_flight_operation (execution_state po) \<noteq> OP_NONE then Inr (mod_rejected OPERATION_BUSY, s)
          else if invalid_new_price nprice then Inr (mod_rejected MR_INVALID_PRICE, s)
          else (case po_open po of
             None \<Rightarrow> Inl ValueError
           | Some os \<Rightarrow>
               bind_res (get_symbol_specification (ex_broker s) (os_symbol os)) (\<lambda>sp.
                 let d = spec_digits sp;
                     x = py_round (merge_arg (os_entry_price os) nprice) d;
                     sl = round_price (merge_arg (kw_stop_loss (os_kwargs os)) nsl) d;
                     tp = round_price (merge_arg (kw_take_profit (os_kwargs os)) ntp) d
                 in case validate_limit_order_sl_tp (os_direction os) x sl tp of
                      Some r \<Rightarrow> Inr (mod_rejected r, s)
                    | None \<Rightarrow>
                        bind_res (current_msc s) (\<lambda>now.
                          let m = \<lparr>new_price = Some x, new_limit_price = None, new_stop_loss = sl,
                                   new_take_profit = tp, mod_submitted_at = Some (wall_now s),
                                   apply_at_msc = Some (now + modify_cancel_delay_msc s)\<rparr>
                          in Inr (mod_pending oid,
                                  set_limits (update_first (has_id oid) (schedule_modify m) (active_limit_orders s)) s)))))"

definition modify_stop_order ::
  "string \<Rightarrow> price update_arg \<Rightarrow> price update_arg \<Rightarrow> price option update_arg \<Rightarrow> price option update_arg \<Rightarrow>
   simulator \<Rightarrow> (modification_result \<times> simulator) res" where
  "modify_stop_order oid nstop nlimit nsl ntp s =
     (let caps = br_capabilities (ex_broker s) in
      if \<not> (stop_orders caps \<or> stop_limit_orders caps) then Inr (mod_rejected MR_ORDER_TYPE_NOT_SUPPORTED, s)
      else (case find (has_id oid) (active_stop_orders s) of
        None \<Rightarrow> Inr (mod_rejected STOP_ORDER_NOT_FOUND, s)
      | Some po \<Rightarrow>
          let is_stop_limit = (po_order_type po = Some OT_STOP_LIMIT) in
          if in_flight_operation (execution_state po) \<noteq> OP_NONE then Inr (mod_rejected OPERATION_BUSY, s)
          else if invalid_new_price nstop then Inr (mod_rejected MR_INVALID_PRICE, s)
          else if nlimit \<noteq> UNSET \<and> (\<not> is_stop_limit \<or> invalid_new_price nlimit)
               then Inr (mod_rejected MR_INVALID_PRICE, s)
          else (case po_open po of
             None \<Rightarrow> Inl ValueError
           | Some os \<Rightarrow>
               bind_res (get_symbol_specification (ex_broker s) (os_symbol os)) (\<lambda>sp.
                 let d = spec_digits sp;
                     stp = py_round (merge_arg (os_entry_price os) nstop) d;
                     lim = round_price (case nlimit of UNSET \<Rightarrow> kw_limit_price (os_kwargs os) | SetTo y \<Rightarrow> Some y) d;
                     sl = round_price (merge_arg (kw_stop_loss (os_kwargs os)) nsl) d;
                     tp = round_price (merge_arg (kw_take_profit (os_kwargs os)) ntp) d
                 in case (if is_stop_limit then lim else Some stp) of
                      None \<Rightarrow> Inl TypeError
                    | Some ref \<Rightarrow>
                        (case validate_limit_order_sl_tp (os_direction os) ref sl tp of
                           Some r \<Rightarrow> Inr (mod_rejected r, s)
                         | None \<Rightarrow>
                             bind_res (current_msc s) (\<lambda>now.
                               let m = \<lparr>new_price = Some stp, new_limit_price = (if is_stop_limit then lim else None),
                                        new_stop_loss = sl, new_take_profit = tp,
                                        mod_submitted_at = Some (wall_now s),
                                        apply_at_msc = Some (now + modify_cancel_delay_msc s)\<rparr>
                               in Inr (mod_pending oid,
                                       set_stops (update_first (has_id oid) (schedule_modify m) (active_stop_orders s)) s)))))))"

definition sim_modify_position ::
  "string \<Rightarrow> price option update_arg \<Rightarrow> price option update_arg \<Rightarrow> simulator \<Rightarrow>
   (modification_result \<times> simulator) res" where
  "sim_modify_position pid nsl ntp s =
     (if \<not> native_position_sl_tp (br_capabilities (ex_broker s)) then
        (let (r, pf) = pf_modify_position pid nsl ntp (ex_portfolio s) in Inr (r, s\<lparr>ex_portfolio := pf\<rparr>))
      else (case get_position (ex_portfolio s) pid of
        None \<Rightarrow> Inr (mod_rejected POSITION_NOT_FOUND, s)
      | Some p \<Rightarrow>
          if map_of (pending_position_modifications s) pid \<noteq> None then Inr (mod_rejected OPERATION_BUSY, s)
          else bind_res (get_symbol_specification (ex_broker s) (pos_symbol p)) (\<lambda>sp.
            bind_res (current_msc s) (\<lambda>now.
              let d = spec_digits sp;
                  m = \<lparr>new_price = None, new_limit_price = None,
                       new_stop_loss = round_price (merge_arg (stop_loss p) nsl) d,
                       new_take_profit = round_price (merge_arg (take_profit p) ntp) d,
                       mod_submitted_at = Some (wall_now s),
                       apply_at_msc = Some (now + modify_cancel_delay_msc s)\<rparr>
              in Inr (mod_pending pid,
                      s\<lparr>pending_position_modifications := AList.update pid m (pending_position_modifications s)\<rparr>)))))"

section \<open>Queries, reporting, cleanup\<close>

definition has_pipeline_orders :: "simulator \<Rightarrow> bool" where
  "has_pipeline_orders s = lat_has_pending_orders (latency_sim s)"

definition has_pending_orders :: "simulator \<Rightarrow> bool" where
  "has_pending_orders s =
     (has_pipeline_orders s \<or> length (active_limit_orders s) > 0 \<or> length (active_stop_orders s) > 0)"

definition is_pending_close :: "string \<Rightarrow> simulator \<Rightarrow> bool" where
  "is_pending_close pid s = lat_is_pending_close pid (latency_sim s)"

record active_order_snapshot =
  snap_order_id :: string
  snap_order_type :: "order_type option"
  snap_symbol :: "string option"
  snap_direction :: "order_direction option"
  snap_lots :: "lots option"
  snap_entry_price :: "price option"
  snap_limit_price :: "price option"
  snap_stop_loss :: "price option"
  snap_take_profit :: "price option"
  snap_submitted_at :: "instant option"

definition order_snapshot :: "pending_order \<Rightarrow> active_order_snapshot" where
  "order_snapshot po =
     \<lparr>snap_order_id = pending_order_id po, snap_order_type = po_order_type po,
      snap_symbol = map_option os_symbol (po_open po), snap_direction = map_option os_direction (po_open po),
      snap_lots = map_option os_lots (po_open po), snap_entry_price = map_option os_entry_price (po_open po),
      snap_limit_price = Option.bind (po_open po) (\<lambda>os. kw_limit_price (os_kwargs os)),
      snap_stop_loss = Option.bind (po_open po) (\<lambda>os. kw_stop_loss (os_kwargs os)),
      snap_take_profit = Option.bind (po_open po) (\<lambda>os. kw_take_profit (os_kwargs os)),
      snap_submitted_at = submitted_at (timing po)\<rparr>"

text \<open>Statistics, queue count and the snapshots of both active lists.\<close>

definition get_pending_stats ::
  "simulator \<Rightarrow> pending_stats \<times> nat \<times> active_order_snapshot list \<times> active_order_snapshot list" where
  "get_pending_stats s =
     (pending_st (latency_sim s), get_pending_count (latency_sim s),
      map order_snapshot (active_limit_orders s), map order_snapshot (active_stop_orders s))"

definition close_all_remaining_orders :: "msc \<Rightarrow> simulator \<Rightarrow> simulator res" where
  "close_all_remaining_orders now s =
     bind_res (fold_res (\<lambda>p. fill_close_order (create_synthetic_close_order (position_id p)) None SCENARIO_END)
                 (get_open_positions (ex_portfolio s)) s) (\<lambda>s1.
       bind_res (expire_active_orders s1) (\<lambda>s2.
         Inr (s2\<lparr>latency_sim := clear_pending (Some now) (wall_now s2) ''scenario_end'' (latency_sim s2),
                 pending_position_modifications := []\<rparr>)))"

definition check_clean_shutdown :: "simulator \<Rightarrow> bool" where
  "check_clean_shutdown s =
     (get_open_positions (ex_portfolio s) = [] \<and> \<not> has_pipeline_orders s)"

end
