(* ===== verification/Stale_Stress.thy ===== *)
theory Stale_Stress
  imports Simulator
begin

text \<open>
  Planned market-data outages: the configuration of
  \<open>src/python/framework/types/trading_env_types/stress_test_types.py\<close> and the status-plane driver of
  \<open>src/python/framework/stress_test/stale_data_stress_driver.py\<close>. The datetimes of an event are parsed
  already; \<open>data.get(k, d)\<close> on the raw event is an optional field. The status lives in the executor; the
  call of \<open>on_market_data_stale\<close> is the third component of a step's result.
\<close>

section \<open>Configuration\<close>

record stale_event =
  ev_label :: string
  ev_data_source :: string
  stale_start_date :: instant
  stale_end_date :: instant

definition stale_event_from_dict ::
  "string option \<Rightarrow> string option \<Rightarrow> instant \<Rightarrow> instant \<Rightarrow> stale_event res" where
  "stale_event_from_dict lbl src start stop =
     (if with_default '''' src = '''' then Inl ValueError
      else if start \<ge> stop then Inl ValueError
      else Inr \<lparr>ev_label = with_default '''' lbl, ev_data_source = with_default '''' src,
                stale_start_date = start, stale_end_date = stop\<rparr>)"

record stale_config =
  sc_enabled :: bool
  sc_events :: "stale_event list"

definition get_events_for_source :: "stale_config \<Rightarrow> string \<Rightarrow> stale_event list" where
  "get_events_for_source c src =
     (if \<not> sc_enabled c then []
      else sort_key stale_start_date (filter (\<lambda>e. ev_data_source e = src) (sc_events c)))"

definition get_windows_for_source :: "stale_config \<Rightarrow> string \<Rightarrow> (instant \<times> instant) list" where
  "get_windows_for_source c src =
     (if \<not> sc_enabled c then []
      else sort_key fst (sort_key snd
        (map (\<lambda>e. (stale_start_date e, stale_end_date e)) (filter (\<lambda>e. ev_data_source e = src) (sc_events c)))))"

section \<open>The driver\<close>

record stale_driver =
  sd_events :: "stale_event list"
  sd_idx :: nat
  sd_active :: "stale_event option"

definition new_stale_driver :: "stale_event list \<Rightarrow> stale_driver" where
  "new_stale_driver evs = \<lparr>sd_events = evs, sd_idx = 0, sd_active = None\<rparr>"

definition set_market_data_status :: "market_data_status \<Rightarrow> 'a executor_scheme \<Rightarrow> 'a executor_scheme" where
  "set_market_data_status st s = s\<lparr>market_status := st\<rparr>"

definition end_episode :: "'a executor_scheme \<Rightarrow> 'a executor_scheme" where
  "end_episode s = set_market_data_status fresh_status s"

function skip_windows :: "stale_event list \<Rightarrow> instant \<Rightarrow> nat \<Rightarrow> nat" where
  "skip_windows evs t i =
     (if i < length evs \<and> stale_end_date (evs ! i) \<le> t then skip_windows evs t (i + 1) else i)"
  by pat_completeness auto
termination by (relation "measure (\<lambda>(evs, t, i). length evs - i)") auto

declare skip_windows.simps [simp del]

definition leave_window :: "instant \<Rightarrow> stale_driver \<Rightarrow> 'a executor_scheme \<Rightarrow> stale_driver \<times> 'a executor_scheme" where
  "leave_window t d s =
     (case sd_active d of
        Some e \<Rightarrow>
          if t \<ge> stale_end_date e then (d\<lparr>sd_active := None, sd_idx := sd_idx d + 1\<rparr>, end_episode s) else (d, s)
      | None \<Rightarrow> (d, s))"

definition stale_status :: "stale_event \<Rightarrow> instant \<Rightarrow> market_data_status" where
  "stale_status e t =
     \<lparr>is_stale = True, stale_since = Some (stale_start_date e),
      seconds_since_last_tick = of_int (t - stale_start_date e) / 1000000, reconnect_count = 0\<rparr>"

definition sd_on_tick ::
  "instant \<Rightarrow> stale_driver \<Rightarrow> 'a executor_scheme \<Rightarrow> stale_driver \<times> 'a executor_scheme \<times> market_data_status option" where
  "sd_on_tick t d0 s0 =
     (let (d1, s1) = leave_window t d0 s0;
          d2 = (if sd_active d1 = None then d1\<lparr>sd_idx := skip_windows (sd_events d1) t (sd_idx d1)\<rparr> else d1)
      in if sd_idx d2 \<ge> length (sd_events d2) then (d2, s1, None)
         else let e = sd_events d2 ! sd_idx d2 in
              if t < stale_start_date e then (d2, s1, None)
              else let entered = (sd_active d2 = None);
                       d3 = (if entered then d2\<lparr>sd_active := Some e\<rparr> else d2);
                       st = stale_status e t
                   in (d3, set_market_data_status st s1, if entered then Some st else None))"

definition sd_finish :: "stale_driver \<Rightarrow> 'a executor_scheme \<Rightarrow> stale_driver \<times> 'a executor_scheme" where
  "sd_finish d s =
     (case sd_active d of None \<Rightarrow> (d, s) | Some e \<Rightarrow> (d\<lparr>sd_active := None\<rparr>, end_episode s))"

definition get_active_label :: "stale_driver \<Rightarrow> string" where
  "get_active_label d = (case sd_active d of None \<Rightarrow> '''' | Some e \<Rightarrow> ev_label e)"

section \<open>Stale exactly inside a window\<close>

definition in_window :: "instant \<Rightarrow> stale_event \<Rightarrow> bool" where
  "in_window t e \<longleftrightarrow> stale_start_date e \<le> t \<and> t < stale_end_date e"

abbreviation by_start :: "stale_event list \<Rightarrow> bool" where
  "by_start evs \<equiv> sorted (map stale_start_date evs)"

text \<open>
  What the driver's state says about the last tick \<open>t\<close>: windows behind the pointer are over, the active
  window is the one pointed at and contains \<open>t\<close>, and with no active window the next one lies ahead.
\<close>

definition driver_inv :: "instant \<Rightarrow> stale_driver \<Rightarrow> 'a executor_scheme \<Rightarrow> bool" where
  "driver_inv t d s \<longleftrightarrow>
     by_start (sd_events d) \<and>
     (\<forall>i < sd_idx d. i < length (sd_events d) \<longrightarrow> stale_end_date (sd_events d ! i) \<le> t) \<and>
     (case sd_active d of
        Some e \<Rightarrow> sd_idx d < length (sd_events d) \<and> sd_events d ! sd_idx d = e \<and> in_window t e \<and>
                   is_stale (market_status s) \<and> stale_since (market_status s) = Some (stale_start_date e)
      | None \<Rightarrow> \<not> is_stale (market_status s) \<and>
                (sd_idx d < length (sd_events d) \<longrightarrow> t < stale_start_date (sd_events d ! sd_idx d)))"

lemma skip_windows_spec:
  "i \<le> skip_windows evs t i \<and>
   (\<forall>j. i \<le> j \<and> j < skip_windows evs t i \<longrightarrow> stale_end_date (evs ! j) \<le> t) \<and>
   (skip_windows evs t i < length evs \<longrightarrow> t < stale_end_date (evs ! skip_windows evs t i))"
proof (induction evs t i rule: skip_windows.induct)
  case (1 evs t i)
  show ?case
  proof (cases "i < length evs \<and> stale_end_date (evs ! i) \<le> t")
    case True
    then have "skip_windows evs t i = skip_windows evs t (i + 1)" by (subst skip_windows.simps) simp
    with 1 [OF True] True show ?thesis by (auto simp: le_less_Suc_eq Suc_le_eq) (metis le_eq_less_or_eq)+
  next
    case False
    then have "skip_windows evs t i = i" by (subst skip_windows.simps) auto
    with False show ?thesis by auto
  qed
qed

lemma driver_inv_iff:
  assumes "driver_inv t d s"
  shows "is_stale (market_status s) \<longleftrightarrow> (\<exists>e\<in>set (sd_events d). in_window t e)"
proof (cases "sd_active d")
  case (Some e)
  with assms show ?thesis by (auto simp: driver_inv_def intro: nth_mem)
next
  case None
  have "\<not> in_window t e" if "e \<in> set (sd_events d)" for e
  proof -
    from that obtain i where i: "i < length (sd_events d)" "e = sd_events d ! i" by (auto simp: in_set_conv_nth)
    show ?thesis
    proof (cases "i < sd_idx d")
      case True
      with assms i show ?thesis by (auto simp: driver_inv_def in_window_def)
    next
      case False
      with i None assms have "t < stale_start_date (sd_events d ! sd_idx d)" by (auto simp: driver_inv_def)
      also from assms i False have "\<dots> \<le> stale_start_date e"
        using sorted_nth_mono [of "map stale_start_date (sd_events d)" "sd_idx d" i] by (simp add: driver_inv_def)
      finally show ?thesis by (simp add: in_window_def)
    qed
  qed
  with None assms show ?thesis by (auto simp: driver_inv_def)
qed

lemma stale_status_simps [simp]:
  "is_stale (stale_status e t)" "stale_since (stale_status e t) = Some (stale_start_date e)"
  "\<not> is_stale fresh_status"
  by (simp_all add: stale_status_def fresh_status_def)

text \<open>What a tick at time \<open>t\<close> needs of the state; a fresh driver and any earlier tick provide it.\<close>

definition driver_ready :: "instant \<Rightarrow> stale_driver \<Rightarrow> 'a executor_scheme \<Rightarrow> bool" where
  "driver_ready t d s \<longleftrightarrow>
     by_start (sd_events d) \<and>
     (\<forall>i < sd_idx d. i < length (sd_events d) \<longrightarrow> stale_end_date (sd_events d ! i) \<le> t) \<and>
     (case sd_active d of
        Some e \<Rightarrow> sd_idx d < length (sd_events d) \<and> sd_events d ! sd_idx d = e \<and> stale_start_date e \<le> t
      | None \<Rightarrow> \<not> is_stale (market_status s))"

lemma driver_ready_new:
  "by_start evs \<Longrightarrow> \<not> is_stale (market_status s) \<Longrightarrow> driver_ready t (new_stale_driver evs) s"
  by (simp add: driver_ready_def new_stale_driver_def)

lemma driver_ready_later: "driver_inv t d s \<Longrightarrow> t \<le> u \<Longrightarrow> driver_ready u d s"
  by (force simp: driver_inv_def driver_ready_def in_window_def split: option.splits)

lemma leave_window_ready:
  assumes "driver_ready t d s" and "leave_window t d s = (d1, s1)"
  shows "driver_ready t d1 s1 \<and> (\<forall>e. sd_active d1 = Some e \<longrightarrow> t < stale_end_date e) \<and> sd_events d1 = sd_events d"
  using assms
  by (auto simp: leave_window_def driver_ready_def end_episode_def set_market_data_status_def less_Suc_eq
      split: option.splits if_splits)

lemma sd_on_tick_inv:
  assumes ready: "driver_ready t d s" and run: "sd_on_tick t d s = (d', s', hook)"
  shows "driver_inv t d' s' \<and> sd_events d' = sd_events d"
proof -
  obtain d1 s1 where l: "leave_window t d s = (d1, s1)" by force
  note r1 = leave_window_ready [OF ready l]
  show ?thesis
  proof (cases "sd_active d1")
    case (Some e)
    with r1 have e: "sd_idx d1 < length (sd_events d1)" "sd_events d1 ! sd_idx d1 = e"
      "stale_start_date e \<le> t" "t < stale_end_date e" by (auto simp: driver_ready_def)
    with run l Some have "d' = d1" "s' = set_market_data_status (stale_status e t) s1"
      by (auto simp: sd_on_tick_def Let_def)
    with r1 Some e show ?thesis
      by (auto simp: driver_inv_def driver_ready_def set_market_data_status_def in_window_def)
  next
    case None
    let ?i = "skip_windows (sd_events d1) t (sd_idx d1)"
    note sk = skip_windows_spec [of "sd_idx d1" "sd_events d1" t]
    have behind: "\<forall>i < ?i. i < length (sd_events d1) \<longrightarrow> stale_end_date (sd_events d1 ! i) \<le> t"
      using r1 sk by (metis driver_ready_def not_le)
    show ?thesis
    proof (cases "?i < length (sd_events d1) \<and> stale_start_date (sd_events d1 ! ?i) \<le> t")
      case True
      with run l None have "d' = d1\<lparr>sd_idx := ?i, sd_active := Some (sd_events d1 ! ?i)\<rparr>"
        "s' = set_market_data_status (stale_status (sd_events d1 ! ?i) t) s1"
        by (auto simp: sd_on_tick_def Let_def)
      with r1 True behind sk show ?thesis
        by (auto simp: driver_inv_def driver_ready_def set_market_data_status_def in_window_def)
    next
      case False
      with run l None have "d' = d1\<lparr>sd_idx := ?i\<rparr>" "s' = s1"
        by (auto simp: sd_on_tick_def Let_def split: if_splits)
      with r1 None False behind show ?thesis by (auto simp: driver_inv_def driver_ready_def)
    qed
  qed
qed

text \<open>A run of the driver over the tick times of a scenario, the executor otherwise untouched.\<close>

fun drive :: "instant list \<Rightarrow> stale_driver \<Rightarrow> 'a executor_scheme \<Rightarrow> stale_driver \<times> 'a executor_scheme" where
  "drive [] d s = (d, s)"
| "drive (t # ts) d s = (let (d', s', _) = sd_on_tick t d s in drive ts d' s')"

lemma drive_inv:
  assumes "drive ts d s = (d', s')" and "sorted ts" and "ts \<noteq> []" and "driver_ready (hd ts) d s"
  shows "driver_inv (last ts) d' s' \<and> sd_events d' = sd_events d"
  using assms
proof (induction ts arbitrary: d s)
  case (Cons t ts)
  obtain d1 s1 h where o: "sd_on_tick t d s = (d1, s1, h)" by (cases "sd_on_tick t d s") auto
  from Cons.prems(4) have "driver_ready t d s" by simp
  note i = sd_on_tick_inv [OF this o]
  show ?case
  proof (cases "ts = []")
    case True
    with i o Cons.prems(1) show ?thesis by simp
  next
    case False
    with Cons.prems(2) have "t \<le> hd ts" "sorted ts" by (auto simp: list.set_sel(1))
    with i have "driver_ready (hd ts) d1 s1" by (auto intro: driver_ready_later)
    with Cons.IH [of d1 s1] Cons.prems(1) o False \<open>sorted ts\<close> i show ?thesis by simp
  qed
qed simp

lemma drive_stale_iff:
  assumes "sorted ts" "ts \<noteq> []" "by_start evs" "\<not> is_stale (market_status s)"
  shows "is_stale (market_status (snd (drive ts (new_stale_driver evs) s))) \<longleftrightarrow> (\<exists>e\<in>set evs. in_window (last ts) e)"
proof -
  obtain d' s' where r: "drive ts (new_stale_driver evs) s = (d', s')" by force
  have "driver_ready (hd ts) (new_stale_driver evs) s" using assms(3,4) by (rule driver_ready_new)
  note i = drive_inv [OF r assms(1,2) this]
  with driver_inv_iff have "is_stale (market_status s') \<longleftrightarrow> (\<exists>e\<in>set (sd_events d'). in_window (last ts) e)" by blast
  with i r show ?thesis by (simp add: new_stale_driver_def)
qed

lemma finish_fresh: "sd_finish d s = (d', s') \<Longrightarrow> driver_inv t d s \<Longrightarrow> \<not> is_stale (market_status s') \<and> sd_active d' = None"
  by (auto simp: sd_finish_def driver_inv_def end_episode_def set_market_data_status_def split: option.splits)

lemma events_for_source_by_start [simp]: "by_start (get_events_for_source c src)"
  by (simp add: get_events_for_source_def)

lemma events_for_source_set:
  "set (get_events_for_source c src) = (if sc_enabled c then {e \<in> set (sc_events c). ev_data_source e = src} else {})"
  by (simp add: get_events_for_source_def)

end
