(* ===== verification/Portfolio_Value.thy ===== *)
theory Portfolio_Value
  imports Portfolio_Laws
begin

text \<open>
  Value and identity laws of the portfolio that are not ledger invariants: spot transfers move value
  between currencies and lose exactly the fee; a spot round trip changes the quote balance by the
  realised P\&L; a partial close splits a position without creating or losing money; accepted
  stop-loss and take-profit levels are on the right side of the market; swap accrual does not depend
  on how often it is evaluated; generated position ids are unique.
\<close>

section \<open>Spot transfers\<close>

definition cur_weight :: "string \<Rightarrow> price \<Rightarrow> string \<Rightarrow> rat" where
  "cur_weight cur x c = (if c = cur then 1 else x)"

definition dict_value :: "string \<Rightarrow> price \<Rightarrow> (string, money) dict \<Rightarrow> money" where
  "dict_value cur x b = (\<Sum>ca\<leftarrow>b. snd ca * cur_weight cur x (fst ca))"

lemma get_spot_equity_eq: "get_spot_equity pf x = dict_value (account_currency pf) x (balances pf)"
proof -
  have "foldl (\<lambda>total (c, amount). if c = account_currency pf then total + amount else total + amount * x) z b
      = z + dict_value (account_currency pf) x b" for z b
    by (induction b arbitrary: z) (auto simp: dict_value_def cur_weight_def)
  then show ?thesis by (simp add: get_spot_equity_def)
qed

lemma dict_value_update:
  "distinct (keys_of b) \<Longrightarrow>
   dict_value cur x (AList.update k v b) = dict_value cur x b + (v - get_default 0 b k) * cur_weight cur x k"
proof (induction b)
  case Nil
  then show ?case by (simp add: dict_value_def get_default_def)
next
  case (Cons p b)
  obtain k' w where p: "p = (k', w)" by (cases p)
  show ?case
  proof (cases "k' = k")
    case True
    then show ?thesis by (simp add: p dict_value_def get_default_def algebra_simps)
  next
    case False
    moreover have "dict_value cur x (AList.update k v b) = dict_value cur x b + (v - get_default 0 b k) * cur_weight cur x k"
      using Cons by simp
    ultimately show ?thesis by (simp add: p dict_value_def get_default_def)
  qed
qed

lemma adjust_balance_value:
  assumes "adjust_balance k y b = Inr b'" and "distinct (keys_of b)"
  shows "dict_value cur x b' = dict_value cur x b + y * cur_weight cur x k" and "distinct (keys_of b')"
    and "get_default 0 b' c = get_default 0 b c + (if c = k then y else 0)"
  using assms by (auto simp: adjust_balance_def dict_value_update get_default_def dict_simps)

lemma credit_balance_value:
  assumes "distinct (keys_of b)"
  shows "dict_value cur x (credit_balance k y b) = dict_value cur x b + y * cur_weight cur x k"
    and "distinct (keys_of (credit_balance k y b))"
    and "get_default 0 (credit_balance k y b) c = get_default 0 b c + (if c = k then y else 0)"
  using assms by (auto simp: credit_balance_def dict_value_update dict_simps)

lemma spot_buy_value:
  assumes "spot_buy sp l cost b = Inr b'" and "distinct (keys_of b)"
  shows "dict_value cur x b' =
      dict_value cur x b - cost * cur_weight cur x (quote_currency sp) + l * cur_weight cur x (base_currency sp)"
    and "distinct (keys_of b')"
    and "get_default 0 b' c = get_default 0 b c - (if c = quote_currency sp then cost else 0)
                                + (if c = base_currency sp then l else 0)"
proof -
  from assms(1) obtain b1 where b1: "adjust_balance (quote_currency sp) (- cost) b = Inr b1"
    and b': "b' = credit_balance (base_currency sp) l b1" by (auto simp: spot_buy_def)
  note a = adjust_balance_value [OF b1 assms(2)] and c = credit_balance_value [OF a(2)]
  show "dict_value cur x b' =
      dict_value cur x b - cost * cur_weight cur x (quote_currency sp) + l * cur_weight cur x (base_currency sp)"
    by (simp add: b' c(1) a(1))
  show "distinct (keys_of b')" by (simp only: b' c(2))
  show "get_default 0 b' c = get_default 0 b c - (if c = quote_currency sp then cost else 0)
                                + (if c = base_currency sp then l else 0)"
    by (simp add: b' c(3) a(3))
qed

lemma spot_sell_value:
  assumes "spot_sell sp l revenue b = Inr b'" and "distinct (keys_of b)"
  shows "dict_value cur x b' =
      dict_value cur x b + revenue * cur_weight cur x (quote_currency sp) - l * cur_weight cur x (base_currency sp)"
    and "distinct (keys_of b')"
    and "get_default 0 b' c = get_default 0 b c + (if c = quote_currency sp then revenue else 0)
                                - (if c = base_currency sp then l else 0)"
proof -
  from assms(1) obtain b1 where b1: "adjust_balance (base_currency sp) (- l) b = Inr b1"
    and b': "adjust_balance (quote_currency sp) revenue b1 = Inr b'" by (auto simp: spot_sell_def)
  note a = adjust_balance_value [OF b1 assms(2)] and c = adjust_balance_value [OF b' a(2)]
  show "dict_value cur x b' =
      dict_value cur x b + revenue * cur_weight cur x (quote_currency sp) - l * cur_weight cur x (base_currency sp)"
    by (simp add: c(1) a(1))
  show "distinct (keys_of b')" by (simp only: c(2))
  show "get_default 0 b' c = get_default 0 b c + (if c = quote_currency sp then revenue else 0)
                                - (if c = base_currency sp then l else 0)"
    by (simp add: c(3) a(3))
qed

text \<open>A spot account whose traded pair is quoted in the account currency.\<close>

definition spot_pair :: "portfolio \<Rightarrow> string \<Rightarrow> symbol_spec \<Rightarrow> bool" where
  "spot_pair pf smb sp \<longleftrightarrow>
     spot_mode pf \<and> distinct (keys_of (balances pf)) \<and>
     get_symbol_specification (pf_broker pf) smb = Inr sp \<and>
     quote_currency sp = account_currency pf \<and> base_currency sp \<noteq> account_currency pf"

definition signed_lots :: "order_direction \<Rightarrow> lots \<Rightarrow> lots" where
  "signed_lots d l = (if d = LONG then l else - l)"

text \<open>What the account balances become when a position is opened, fully closed or partly closed:
  base moves by the signed lots, quote by their price, and the fee is paid in quote.\<close>

lemma spot_open_balances:
  assumes "spot_pair pf (oa_symbol a) sp" and "open_position a pf = Inr (p, pf')"
  shows "get_asset_balance pf' c = get_asset_balance pf c
      + (if c = base_currency sp then signed_lots (oa_direction a) (oa_lots a) else 0)
      - (if c = quote_currency sp
         then signed_lots (oa_direction a) (oa_lots a) * oa_entry_price a + opt_fee_cost (oa_entry_fee a) else 0)"
    and "get_spot_equity pf' x = get_spot_equity pf x
      + signed_lots (oa_direction a) (oa_lots a) * (x - oa_entry_price a) - opt_fee_cost (oa_entry_fee a)"
    and "spot_pair pf' (oa_symbol a) sp"
proof -
  note sp = assms(1) [unfolded spot_pair_def]
  from assms(2) have out: "(if oa_direction a = LONG
        then spot_buy sp (oa_lots a) (oa_lots a * oa_entry_price a + opt_fee_cost (oa_entry_fee a)) (balances pf)
        else spot_sell sp (oa_lots a) (oa_lots a * oa_entry_price a - opt_fee_cost (oa_entry_fee a)) (balances pf))
       = Inr (balances pf')"
    and frame: "account_currency pf' = account_currency pf" "spot_mode pf' = spot_mode pf" "pf_broker pf' = pf_broker pf"
    using sp by (auto elim!: open_spec_pf)
  have "distinct (keys_of (balances pf))" using sp by simp
  note buy = spot_buy_value [OF _ this] and sell = spot_sell_value [OF _ this]
  show "get_asset_balance pf' c = get_asset_balance pf c
      + (if c = base_currency sp then signed_lots (oa_direction a) (oa_lots a) else 0)
      - (if c = quote_currency sp
         then signed_lots (oa_direction a) (oa_lots a) * oa_entry_price a + opt_fee_cost (oa_entry_fee a) else 0)"
    using out by (auto simp: get_asset_balance_def signed_lots_def buy(3) sell(3) split: if_splits)
  show "get_spot_equity pf' x = get_spot_equity pf x
      + signed_lots (oa_direction a) (oa_lots a) * (x - oa_entry_price a) - opt_fee_cost (oa_entry_fee a)"
    using out sp frame
    by (auto simp: get_spot_equity_eq signed_lots_def buy(1) sell(1) cur_weight_def algebra_simps split: if_splits)
  show "spot_pair pf' (oa_symbol a) sp"
    using out sp frame by (auto simp: spot_pair_def buy(2) sell(2) split: if_splits)
qed

lemma spot_close_transfer_value:
  assumes "spot_close_transfer br p l x fc b = Inr b'" and "distinct (keys_of b)"
    and "get_symbol_specification br (pos_symbol p) = Inr sp"
  shows "get_default 0 b' c = get_default 0 b c
      - (if c = base_currency sp then signed_lots (pos_direction p) l else 0)
      + (if c = quote_currency sp then signed_lots (pos_direction p) l * x - fc else 0)"
    and "dict_value cur y b' = dict_value cur y b
      - signed_lots (pos_direction p) l * cur_weight cur y (base_currency sp)
      + (signed_lots (pos_direction p) l * x - fc) * cur_weight cur y (quote_currency sp)"
    and "distinct (keys_of b')"
  using assms
  by (auto simp: spot_close_transfer_def signed_lots_def spot_buy_value [OF _ assms(2)]
      spot_sell_value [OF _ assms(2)] algebra_simps split: if_splits)

text \<open>In spot mode a refresh only re-marks: no swap fee is ever attached.\<close>

lemma ensure_spot_fees:
  assumes "spot_mode pf" and "ensure_positions_updated pf = Inr pf1" and "map_of (open_positions pf1) k = Some q"
  obtains p where "map_of (open_positions pf) k = Some p" "pos_refreshed p q" "pos_fees q = pos_fees p"
proof -
  have acc: "accrue_all_swaps pf = Inr pf"
    using assms(1) by (simp add: accrue_all_swaps_def split: option.split)
  show ?thesis
  proof (cases "positions_dirty pf")
    case False
    with acc assms(2,3) that [of q] show ?thesis by (simp add: ensure_positions_updated_def)
  next
    case True
    with acc assms(2) obtain ps r where
      t: "traverse_dict (reprice_position (account_currency pf) (pf_broker pf) (current_prices pf))
            (open_positions pf) (last_conversion_rate pf) = Inr (ps, r)" and ps: "open_positions pf1 = ps"
      by (auto simp: ensure_positions_updated_def reprice_all_def)
    have "list_all2 (\<lambda>kp kq. fst kq = fst kp \<and> (pos_refreshed (snd kp) (snd kq) \<and> pos_fees (snd kq) = pos_fees (snd kp)))
        (open_positions pf) ps"
      using t by (rule traverse_dict_rel [where R = "\<lambda>p q. pos_refreshed p q \<and> pos_fees q = pos_fees p"])
        (auto simp: reprice_position_def pos_refreshed_reprice split: option.splits)
    from dict_rel_lookup [where R = "\<lambda>p q. pos_refreshed p q \<and> pos_fees q = pos_fees p", OF this, of k q]
      assms(3) ps that show ?thesis by auto
  qed
qed

lemma spot_close_balances:
  assumes "spot_pair pf (pos_symbol p) sp" and "map_of (open_positions pf) (cl_position_id cl) = Some p"
    and "close_position_portfolio cl pf = Inr (pnl, pf')"
  shows "get_asset_balance pf' c = get_asset_balance pf c
      - (if c = base_currency sp then signed_lots (pos_direction p) (pos_lots p) else 0)
      + (if c = quote_currency sp
         then signed_lots (pos_direction p) (pos_lots p) * cl_exit_price cl - opt_fee_cost (cl_exit_fee cl) else 0)"
    and "get_spot_equity pf' x = get_spot_equity pf x
      - signed_lots (pos_direction p) (pos_lots p) * (x - cl_exit_price cl) - opt_fee_cost (cl_exit_fee cl)"
    and "pnl = gross_pnl_from_price_diff (price_diff_of p (cl_exit_price cl)) (pos_digits p) (cl_exit_tick_value cl)
                 (pos_lots p) - get_total_fees p - opt_fee_cost (cl_exit_fee cl)"
proof -
  from assms(3) obtain pf1 q r now and pf2 :: portfolio where
    e: "ensure_positions_updated pf = Inr pf1"
    and q: "map_of (open_positions pf1) (cl_position_id cl) = Some q"
    and s: "settle_full_close cl (attach (cl_exit_fee cl) q) (charge (cl_exit_fee cl) pf1) = Inr (pnl, r, pf2)"
    and pf': "balances pf' = balances pf2" "account_currency pf' = account_currency pf2"
    by (rule close_spec) simp
  note sp = assms(1) [unfolded spot_pair_def] and f = refreshed_frame [OF ensure_refreshed [OF e]]
  obtain p' where "map_of (open_positions pf) (cl_position_id cl) = Some p'" and pq: "pos_refreshed p' q" "pos_fees q = pos_fees p'"
    by (rule ensure_spot_fees [OF _ e q]) (use sp in simp_all)
  with assms(2) have [simp]: "pos_symbol q = pos_symbol p" "pos_direction q = pos_direction p" "pos_lots q = pos_lots p"
    "pos_digits q = pos_digits p" "entry_price q = entry_price p" "get_total_fees q = get_total_fees p"
    by (simp_all add: pos_refreshed_def get_total_fees_def)
  note st = settle_frame [OF s]
  have spot1: "spot_mode (charge (cl_exit_fee cl) pf1)" using sp f by simp
  have ac: "account_currency pf2 = account_currency pf" using st(1) f by auto
  from st(8) [OF spot1] f have t: "spot_close_transfer (pf_broker pf) (attach (cl_exit_fee cl) q) (pos_lots p) (cl_exit_price cl)
      (opt_fee_cost (cl_exit_fee cl)) (balances pf) = Inr (balances pf2)"
    and r: "r = update_current_price (cl_exit_price cl) (cl_exit_price cl) (cl_exit_tick_value cl) (pos_digits p) (attach (cl_exit_fee cl) q)"
    by simp_all
  note v = spot_close_transfer_value [OF t, of sp]
  show "get_asset_balance pf' c = get_asset_balance pf c
      - (if c = base_currency sp then signed_lots (pos_direction p) (pos_lots p) else 0)
      + (if c = quote_currency sp
         then signed_lots (pos_direction p) (pos_lots p) * cl_exit_price cl - opt_fee_cost (cl_exit_fee cl) else 0)"
    using v(1) [of c] sp by (simp add: get_asset_balance_def pf')
  show "get_spot_equity pf' x = get_spot_equity pf x
      - signed_lots (pos_direction p) (pos_lots p) * (x - cl_exit_price cl) - opt_fee_cost (cl_exit_fee cl)"
    using v(2) [of "account_currency pf" x] sp
    by (simp add: get_spot_equity_eq pf' ac cur_weight_def algebra_simps)
  show "pnl = gross_pnl_from_price_diff (price_diff_of p (cl_exit_price cl)) (pos_digits p) (cl_exit_tick_value cl)
                 (pos_lots p) - get_total_fees p - opt_fee_cost (cl_exit_fee cl)"
    using st(2) by (cases "pos_direction p") (simp_all add: r unrealized_update gross_pnl_update price_diff_of_def)
qed

text \<open>A spot round trip: the money the account gains in quote currency is the realised P\&L.\<close>

lemma spot_round_trip_balances:
  assumes "spot_pair pf (oa_symbol a) sp" and "open_position a pf = Inr (p, pf1)"
    and "close_position_portfolio cl pf1 = Inr (pnl, pf2)" and "cl_position_id cl = oa_order_id a"
    and "cl_exit_tick_value cl * 10 ^ oa_digits a = 1"
  shows "get_asset_balance pf2 (quote_currency sp) = get_asset_balance pf (quote_currency sp) + pnl"
    and "get_asset_balance pf2 (base_currency sp) = get_asset_balance pf (base_currency sp)"
proof -
  from assms(2) obtain now where p: "p = attach (oa_entry_fee a) (new_position a now)"
    and "open_positions pf1 = AList.update (oa_order_id a) p (open_positions pf)"
    by (rule open_spec_pf) auto
  then have m: "map_of (open_positions pf1) (cl_position_id cl) = Some p"
    by (simp add: assms(4) dict_simps)
  have [simp]: "pos_digits (new_position a now) = oa_digits a"
    by (simp add: new_position_def position_post_init_def Let_def)
  have pp: "pos_symbol p = oa_symbol a" "pos_direction p = oa_direction a" "pos_lots p = oa_lots a"
    "entry_price p = oa_entry_price a" "pos_digits p = oa_digits a" "get_total_fees p = opt_fee_cost (oa_entry_fee a)"
    by (simp_all add: p) (simp add: get_total_fees_def)
  note o1 = spot_open_balances [OF assms(1,2)]
  have sp1: "spot_pair pf1 (pos_symbol p) sp" using o1(3) by (simp add: pp)
  note o2 = spot_close_balances [OF sp1 m assms(3)]
  have ne: "quote_currency sp \<noteq> base_currency sp" using assms(1) by (auto simp: spot_pair_def)
  have g: "gross_pnl_from_price_diff d (oa_digits a) (cl_exit_tick_value cl) l = d * l" for d l
    using assms(5) by (simp add: gross_pnl_from_price_diff_def mult.assoc mult.left_commute)
  show "get_asset_balance pf2 (base_currency sp) = get_asset_balance pf (base_currency sp)"
    using ne by (simp add: o1(1) o2(1) pp)
  show "get_asset_balance pf2 (quote_currency sp) = get_asset_balance pf (quote_currency sp) + pnl"
    using ne by (simp add: o1(1) o2(1,3) pp g signed_lots_def price_diff_of_def algebra_simps)
qed

section \<open>Partial closes split\<close>

text \<open>Nothing is created or lost: the closed part recorded in the history and the remaining position
  add up to the refreshed position, plus the exit fee. Lots are split up to the eight decimals the
  code rounds to.\<close>

lemma partial_close_split:
  assumes "partial_close_position l cl pf = Inr (pnl, pf')" and "ensure_positions_updated pf = Inr pf1"
    and "map_of (open_positions pf1) (cl_position_id cl) = Some p"
  obtains q tr where
    "map_of (open_positions pf') (cl_position_id cl) = Some q"
    "last (trade_history pf') = tr"
    "tr_gross_pnl tr + gross_pnl q = gross_pnl p"
    "tr_total_fees tr + get_total_fees q = get_total_fees p + opt_fee_cost (cl_exit_fee cl)"
    "pnl + unrealized_pnl q = gross_pnl p - get_total_fees p - opt_fee_cost (cl_exit_fee cl)"
    "tr_net_pnl tr = pnl" "tr_lots tr = l"
    "pos_lots q = py_round (pos_lots p - l) 8" "pos_status q = PS_PARTIALLY_CLOSED"
  using assms(1)
proof (rule partial_close_spec)
  fix pf2 p' now ratio fees and pf3 :: portfolio
  let ?tr = "partial_trade_record (account_currency pf3) p' cl l ratio (gross_pnl p' * ratio) fees now"
  let ?q = "shrink_position l (1 - ratio) p'"
  assume e: "ensure_positions_updated pf = Inr pf2"
    and m: "map_of (open_positions pf2) (cl_position_id cl) = Some p'"
    and r: "ratio = l / pos_lots p'"
    and fees: "fees = get_total_fees p' * ratio + opt_fee_cost (cl_exit_fee cl)"
    and pnl: "pnl = gross_pnl p' * ratio - fees"
    and pf': "pf' = conclude_close ?tr ?q (AList.update (cl_position_id cl) ?q (open_positions pf3)) pnl pf3"
  from e m assms(2,3) have [simp]: "p' = p" by simp
  show thesis
  proof (rule that [of ?q ?tr])
    show "map_of (open_positions pf') (cl_position_id cl) = Some ?q" by (simp add: pf' dict_simps)
    show "last (trade_history pf') = ?tr" by (simp add: pf' deque_append_last)
    show "tr_gross_pnl ?tr + gross_pnl ?q = gross_pnl p" by (simp add: algebra_simps)
    show "tr_total_fees ?tr + get_total_fees ?q = get_total_fees p + opt_fee_cost (cl_exit_fee cl)"
      by (simp add: fees algebra_simps)
    show "pnl + unrealized_pnl ?q = gross_pnl p - get_total_fees p - opt_fee_cost (cl_exit_fee cl)"
      by (simp add: pnl fees unrealized_shrink algebra_simps)
  qed (simp_all add: pnl)
qed

section \<open>Levels\<close>

lemma validate_levels_None:
  assumes "validate_sl_tp_levels d b a sl tp = None"
  shows "sl = Some s \<Longrightarrow> if d = LONG then s < b else a < s"
    and "tp = Some t \<Longrightarrow> if d = LONG then b < t else t < a"
    and "sl = Some s \<Longrightarrow> tp = Some t \<Longrightarrow> if d = LONG then s < t else t < s"
  using assms by (cases d; auto simp: validate_sl_tp_levels_def split: option.splits if_splits)+

lemma modify_accepted_levels:
  assumes "pf_modify_position pid nsl ntp pf = (r, pf')" and "mr_success r"
  obtains p b a where
    "map_of (open_positions pf') pid = Some p" "map_of (current_prices pf') (pos_symbol p) = Some (b, a)"
    "\<not> is_sl_triggered p b a" "\<not> is_tp_triggered p b a"
    "\<And>s t. stop_loss p = Some s \<Longrightarrow> take_profit p = Some t \<Longrightarrow> if pos_direction p = LONG then s < t else t < s"
proof -
  from modify_spec [OF assms(1)] assms(2) obtain p b a where
    p: "map_of (current_prices pf) (pos_symbol p) = Some (b, a)"
    and v: "validate_sl_tp_levels (pos_direction p) b a (merge_arg (stop_loss p) nsl) (merge_arg (take_profit p) ntp) = None"
    and pf': "pf' = pf\<lparr>open_positions := AList.update pid
          (p\<lparr>stop_loss := merge_arg (stop_loss p) nsl, take_profit := merge_arg (take_profit p) ntp\<rparr>) (open_positions pf)\<rparr>"
    by blast
  let ?q = "p\<lparr>stop_loss := merge_arg (stop_loss p) nsl, take_profit := merge_arg (take_profit p) ntp\<rparr>"
  note lv = validate_levels_None [OF v]
  show ?thesis
  proof (rule that [of ?q b a])
    show "\<not> is_sl_triggered ?q b a"
      using lv(1) by (auto simp: is_sl_triggered_def split: option.splits if_splits)
    show "\<not> is_tp_triggered ?q b a"
      using lv(2) by (auto simp: is_tp_triggered_def split: option.splits if_splits)
    show "\<And>s t. stop_loss ?q = Some s \<Longrightarrow> take_profit ?q = Some t \<Longrightarrow> if pos_direction ?q = LONG then s < t else t < s"
      using lv(3) by simp
  qed (simp_all add: pf' p dict_simps)
qed

section \<open>Swap accrual\<close>

lemma swap_fees_mono_frame:
  "fst (foldl (swap_fee_step rate) (p\<lparr>swap_accrued_until := u\<rparr>, c) rs) =
     (fst (foldl (swap_fee_step rate) (p, c) rs))\<lparr>swap_accrued_until := u\<rparr> \<and>
   snd (foldl (swap_fee_step rate) (p\<lparr>swap_accrued_until := u\<rparr>, c) rs) =
     snd (foldl (swap_fee_step rate) (p, c) rs)"
proof (induction rs arbitrary: p c)
  case (Cons r rs)
  have "swap_fee_step rate (p\<lparr>swap_accrued_until := u\<rparr>, c) r =
      ((fst (swap_fee_step rate (p, c) r))\<lparr>swap_accrued_until := u\<rparr>, snd (swap_fee_step rate (p, c) r))"
    by (simp add: swap_fee_step_def add_fee_def Let_def)
  then show ?case
    using Cons.IH [of "fst (swap_fee_step rate (p, c) r)" "snd (swap_fee_step rate (p, c) r)"] by simp
qed simp

lemma swap_fees_frame:
  "pos_symbol (fst (foldl (swap_fee_step rate) (p, c) rs)) = pos_symbol p \<and>
   pos_direction (fst (foldl (swap_fee_step rate) (p, c) rs)) = pos_direction p"
  by (induction rs arbitrary: p c) (simp_all add: swap_fee_step_def Let_def)

text \<open>Evaluating the accrual at an intermediate instant does not change what is booked.\<close>

lemma accrue_swap_split:
  assumes "valid_rollover roll" "offset_bounded roll" "rollover_ordered roll" and "m \<le> e"
    and "accrue_swap br roll m p c = Inr (p1, c1)"
  shows "accrue_swap br roll e p1 c1 = accrue_swap br roll e p c"
proof -
  from assms(5) obtain since where since: "swap_accrued_until p = Some since"
    by (cases "swap_accrued_until p") (simp_all add: accrue_swap_def)
  consider "m \<le> since" | "since < m" "m = e" | "since < m" "m < e" using assms(4) by linarith
  then show ?thesis
  proof cases
    case 1
    with assms(5) since show ?thesis by (simp add: accrue_swap_def)
  next
    case 3
    with assms(5) since obtain sp where sp: "get_symbol_specification br (pos_symbol p) = Inr sp"
      by (cases "get_symbol_specification br (pos_symbol p)") (simp_all add: accrue_swap_def)
    show ?thesis
    proof (cases "spec_swap_mode sp = SWAP_POINTS")
      case False
      with assms(5) since 3 sp show ?thesis by (auto simp: accrue_swap_def)
    next
      case True
      define rate where "rate = (if pos_direction p = LONG then swap_long sp else swap_short sp)"
      define tr where "tr = mt5_weekday_to_python (swap_rollover3days sp)"
      define p0 where "p0 = fst (foldl (swap_fee_step rate) (p, c) (iter_swap_rollovers since m roll tr))"
      define c0 where "c0 = snd (foldl (swap_fee_step rate) (p, c) (iter_swap_rollovers since m roll tr))"
      from assms(5) since 3 sp True have p1: "p1 = p0\<lparr>swap_accrued_until := Some m\<rparr>" and c1: "c1 = c0"
        by (simp_all add: accrue_swap_def Let_def case_prod_beta p0_def c0_def rate_def tr_def)
      have f: "pos_symbol p0 = pos_symbol p" "pos_direction p0 = pos_direction p"
        by (simp_all add: p0_def swap_fees_frame)
      have split: "foldl (swap_fee_step rate) (p, c) (iter_swap_rollovers since e roll tr) =
          foldl (swap_fee_step rate) (p0, c0) (iter_swap_rollovers m e roll tr)"
        using iter_swap_rollovers_split [OF assms(1-3), of since m e tr] 3
        by (simp add: p0_def c0_def)
      show ?thesis
        using since 3 sp True f
        by (simp add: accrue_swap_def Let_def case_prod_beta p1 c1 swap_fees_mono_frame
            split rate_def [symmetric] tr_def [symmetric])
    qed
  next
    case 2
    with assms(5) have "swap_accrued_until p1 = Some e"
      using since by (auto simp: accrue_swap_def Let_def case_prod_beta bind_res_def split: sum.splits if_splits)
    with 2 assms(5) show ?thesis by (simp add: accrue_swap_def)
  qed
qed

section \<open>Identifiers\<close>

lemma next_id_inject:
  assumes "fst (get_next_position_id s1 pf1) = fst (get_next_position_id s2 pf2)"
  shows "position_counter pf1 = position_counter pf2"
proof -
  have "fst (get_next_position_id s pf) = (''pos_'' @ lower_str s) @ ''_'' @ nat_str (position_counter pf + 1)" for s pf
    by (simp add: get_next_position_id_def Let_def)
  with assms underscore_suffix_inject have "position_counter pf1 + 1 = position_counter pf2 + 1" by metis
  then show ?thesis by simp
qed

text \<open>The counter behind the ids only grows, so no id is handed out twice.\<close>

lemma counter_step: "pf_step pf pf' \<Longrightarrow> position_counter pf \<le> position_counter pf'"
proof (induction rule: pf_step.induct)
  case (pf_tick pf t)
  show ?case by (simp add: mark_dirty_def)
next
  case (pf_id pf smb)
  show ?case by (simp add: get_next_position_id_def Let_def)
next
  case (pf_open a pf p pf')
  from pf_open(2) show ?case by (auto elim!: open_spec_pf)
next
  case (pf_close cl pf pnl pf')
  from pf_close(2) show ?case
    by (rule close_spec) (auto dest!: ensure_refreshed settle_frame(1) simp: refreshed_frame)
next
  case (pf_partial cl l pf pnl pf')
  from pf_partial(2) show ?case
    by (rule partial_close_spec) (auto dest!: ensure_refreshed simp: refreshed_frame)
next
  case (pf_modify pid sl tp pf r pf')
  from modify_spec [OF pf_modify] show ?case by auto
next
  case (pf_view d pf ai pf')
  then show ?case by (auto dest!: account_info_refreshed ensure_refreshed simp: refreshed_frame)
next
  case (pf_refresh pf pf')
  then show ?case by (auto dest!: ensure_refreshed simp: refreshed_frame)
qed simp

lemma counter_run: "pf_step\<^sup>*\<^sup>* pf pf' \<Longrightarrow> position_counter pf \<le> position_counter pf'"
  by (induction rule: rtranclp_induct) (auto dest: counter_step)

text \<open>What no operation changes.\<close>

definition same_account :: "portfolio \<Rightarrow> portfolio \<Rightarrow> bool" where
  "same_account pf pf' \<longleftrightarrow>
     spot_mode pf' = spot_mode pf \<and> trade_history_max pf' = trade_history_max pf \<and>
     initial_balances pf' = initial_balances pf \<and> account_currency pf' = account_currency pf \<and> pf_broker pf' = pf_broker pf"

lemma same_account_refresh: "ensure_positions_updated pf = Inr pf' \<Longrightarrow> same_account pf pf'"
  by (auto dest!: ensure_refreshed simp: refreshed_frame same_account_def)

lemma same_account_step: "pf_step pf pf' \<Longrightarrow> same_account pf pf'"
proof (induction rule: pf_step.induct)
  case (pf_open a pf p pf')
  from pf_open(2) show ?case by (auto simp: same_account_def elim!: open_spec_pf)
next
  case (pf_close cl pf pnl pf')
  from pf_close(2) show ?case
    by (rule close_spec) (auto dest!: same_account_refresh settle_frame(1) simp: same_account_def)
next
  case (pf_partial cl l pf pnl pf')
  from pf_partial(2) show ?case
    by (rule partial_close_spec) (auto dest!: same_account_refresh simp: same_account_def)
next
  case (pf_modify pid sl tp pf r pf')
  from modify_spec [OF pf_modify] show ?case by (auto simp: same_account_def)
next
  case (pf_view d pf ai pf')
  then show ?case by (auto dest!: account_info_refreshed intro: same_account_refresh)
next
  case (pf_refresh pf pf')
  then show ?case by (rule same_account_refresh)
qed (simp_all add: same_account_def mark_dirty_def get_next_position_id_def Let_def)

lemma same_account_run: "pf_step\<^sup>*\<^sup>* pf pf' \<Longrightarrow> same_account pf pf'"
  by (induction rule: rtranclp_induct) (auto dest!: same_account_step simp: same_account_def)

section \<open>Refinement of the ledger\<close>

text \<open>An operation books one trade or leaves the ledger alone; a sequence of operations books a sequence
  of trades.\<close>

lemma ledger_step:
  assumes "pf_step pf pf'"
  shows "ledger_of pf' = ledger_of pf \<or> (\<exists>tr. ledger_of pf' = book_trade (trade_history_max pf) (ledger_of pf) tr)"
  using assms
proof (induction rule: pf_step.induct)
  case (pf_open a pf p pf')
  from pf_open(2) show ?case by (rule open_spec_pf) auto
next
  case (pf_close cl pf pnl pf')
  from close_books [OF pf_close(2)] show ?case by blast
next
  case (pf_partial cl l pf pnl pf')
  from partial_close_books [OF pf_partial(2)] show ?case by blast
next
  case (pf_modify pid sl tp pf r pf')
  from modify_spec [OF pf_modify] show ?case by (auto simp: ledger_of_def)
next
  case (pf_view d pf ai pf')
  then show ?case by (auto dest!: account_info_refreshed ensure_refreshed refreshed_ledger)
next
  case (pf_refresh pf pf')
  then show ?case by (auto dest!: ensure_refreshed refreshed_ledger)
qed (simp_all add: ledger_of_def mark_dirty_def get_next_position_id_def Let_def)

lemma ledger_run:
  "pf_step\<^sup>*\<^sup>* pf pf' \<Longrightarrow> \<exists>trs. ledger_of pf' = foldl (book_trade (trade_history_max pf)) (ledger_of pf) trs"
proof (induction rule: rtranclp_induct)
  case base
  show ?case by (rule exI [of _ "[]"]) simp
next
  case (step pf1 pf2)
  then obtain trs where trs: "ledger_of pf1 = foldl (book_trade (trade_history_max pf)) (ledger_of pf) trs" by blast
  have h: "trade_history_max pf1 = trade_history_max pf"
    using same_account_run [OF step.hyps(1)] by (simp add: same_account_def)
  from ledger_step [OF step.hyps(2)] show ?case
  proof (elim disjE exE)
    fix tr
    assume "ledger_of pf2 = book_trade (trade_history_max pf1) (ledger_of pf1) tr"
    then have "ledger_of pf2 = foldl (book_trade (trade_history_max pf)) (ledger_of pf) (trs @ [tr])"
      by (simp add: trs h)
    then show ?thesis by blast
  qed (use trs in auto)
qed

end
