(* ===== verification/Executor_Laws.thy ===== *)
theory Executor_Laws
  imports Executor Portfolio_Value
begin

text \<open>
  What the shared fill logic guarantees: its frame (a fill touches the portfolio, the histories and the
  statistics only), that every fill is a run of portfolio steps, that a fill ends in exactly one
  recorded outcome, that closes never exceed the position, and that no triggered stop-loss or
  take-profit survives the trigger check of a tick.
\<close>

section \<open>The frame of a fill\<close>

definition fill_frame :: "'a executor_scheme \<Rightarrow> 'a executor_scheme \<Rightarrow> bool" where
  "fill_frame s s' \<longleftrightarrow>
     (\<exists>pf h w e r ol el n. s' = s\<lparr>ex_portfolio := pf, order_history := h, order_history_limit_warned := w,
        orders_executed := e, orders_rejected := r, outcome_log := ol, event_log := el, synth_trade_seq := n\<rparr>)"

lemma fill_frameI:
  "s' = s\<lparr>ex_portfolio := pf, order_history := h, order_history_limit_warned := w,
     orders_executed := e, orders_rejected := r, outcome_log := ol, event_log := el, synth_trade_seq := n\<rparr> \<Longrightarrow>
   fill_frame s s'"
  unfolding fill_frame_def by blast

lemma fill_frame_refl [simp]: "fill_frame s s"
  by (rule fill_frameI [where pf = "ex_portfolio s" and h = "order_history s" and w = "order_history_limit_warned s"
        and e = "orders_executed s" and r = "orders_rejected s" and ol = "outcome_log s" and el = "event_log s"
        and n = "synth_trade_seq s"]) simp

lemma fill_frame_trans: "fill_frame s t \<Longrightarrow> fill_frame t u \<Longrightarrow> fill_frame s u"
  unfolding fill_frame_def by (elim exE) (intro exI, simp)

lemma fill_frame_keeps:
  assumes "fill_frame s s'"
  shows "ex_tick s' = ex_tick s" "tick_counter s' = tick_counter s" "clock_time s' = clock_time s"
    "ex_prices s' = ex_prices s" "active_limit_orders s' = active_limit_orders s"
    "active_stop_orders s' = active_stop_orders s" "ex_mode s' = ex_mode s" "event_sink s' = event_sink s"
    "order_history_max s' = order_history_max s" "wall_now s' = wall_now s" "orders_sent s' = orders_sent s"
    "sl_tp_triggered s' = sl_tp_triggered s" "market_status s' = market_status s"
    "executor.more s' = executor.more s"
  using assms by (auto simp: fill_frame_def)

lemma fill_frame_portfolio: "fill_frame s (s\<lparr>ex_portfolio := pf\<rparr>)"
  by (rule fill_frameI [where h = "order_history s" and w = "order_history_limit_warned s"
        and e = "orders_executed s" and r = "orders_rejected s" and ol = "outcome_log s" and el = "event_log s"
        and n = "synth_trade_seq s"]) simp

lemma fill_frame_history: "fill_frame s (append_order_history r (check_order_history_limit s))"
proof (rule fill_frameI)
  show "append_order_history r (check_order_history_limit s) =
    s\<lparr>ex_portfolio := ex_portfolio s,
      order_history := deque_append (order_history_max s) (order_history s) r,
      order_history_limit_warned := order_history_limit_warned (check_order_history_limit s),
      orders_executed := orders_executed s, orders_rejected := orders_rejected s,
      outcome_log := outcome_log s, event_log := event_log s, synth_trade_seq := synth_trade_seq s\<rparr>"
    by (simp add: append_order_history_def check_order_history_limit_def)
qed

lemma history_frame [simp]:
  "ex_portfolio (append_order_history r s) = ex_portfolio s"
  "ex_portfolio (check_order_history_limit s) = ex_portfolio s"
  "ex_portfolio (notify_outcome d r po s) = ex_portfolio s"
  "ex_portfolio (emit_decision_event ev s) = ex_portfolio s"
  "outcome_log (append_order_history r s) = outcome_log s"
  "outcome_log (check_order_history_limit s) = outcome_log s"
  "outcome_log (notify_outcome d r po s) = outcome_log s @ [(d, r, po)]"
  "orders_executed (append_order_history r s) = orders_executed s"
  "orders_executed (check_order_history_limit s) = orders_executed s"
  "orders_executed (notify_outcome d r po s) = orders_executed s"
  "orders_rejected (append_order_history r s) = orders_rejected s"
  "orders_rejected (check_order_history_limit s) = orders_rejected s"
  "orders_rejected (notify_outcome d r po s) = orders_rejected s"
  by (simp_all add: append_order_history_def check_order_history_limit_def notify_outcome_def
      emit_decision_event_def)

lemma fill_frame_notify: "fill_frame s (notify_outcome d r po s)"
  by (rule fill_frameI [where pf = "ex_portfolio s" and h = "order_history s" and w = "order_history_limit_warned s"
        and e = "orders_executed s" and r = "orders_rejected s" and ol = "outcome_log s @ [(d, r, po)]"
        and el = "event_log s" and n = "synth_trade_seq s"]) (simp add: notify_outcome_def)

lemma fill_frame_emit: "fill_frame s (emit_decision_event ev s)"
  by (rule fill_frameI [where pf = "ex_portfolio s" and h = "order_history s" and w = "order_history_limit_warned s"
        and e = "orders_executed s" and r = "orders_rejected s" and ol = "outcome_log s"
        and el = "if event_sink s then event_log s @ [ev] else event_log s" and n = "synth_trade_seq s"])
     (simp add: emit_decision_event_def)

lemma fill_frame_counts:
  "fill_frame s (s\<lparr>orders_executed := e, orders_rejected := r\<rparr>)"
  by (rule fill_frameI [where pf = "ex_portfolio s" and h = "order_history s" and w = "order_history_limit_warned s"
        and ol = "outcome_log s" and el = "event_log s" and n = "synth_trade_seq s"]) simp

lemma fill_frame_executed: "fill_frame s (s\<lparr>orders_executed := e\<rparr>)"
  using fill_frame_counts [where s = s and e = e and r = "orders_rejected s"] by simp

lemma fill_frame_rejected: "fill_frame s (s\<lparr>orders_rejected := r\<rparr>)"
  using fill_frame_counts [where s = s and e = "orders_executed s" and r = r] by simp

lemma fill_frame_seq: "fill_frame s (s\<lparr>synth_trade_seq := n\<rparr>)"
  by (rule fill_frameI [where pf = "ex_portfolio s" and h = "order_history s" and w = "order_history_limit_warned s"
        and e = "orders_executed s" and r = "orders_rejected s" and ol = "outcome_log s" and el = "event_log s"]) simp

lemmas fill_frames = fill_frame_trans fill_frame_history fill_frame_notify fill_frame_emit
  fill_frame_executed fill_frame_rejected fill_frame_seq fill_frame_portfolio

lemma fill_frame_reject: "fill_frame s (reject_fill po d reason s)"
  unfolding reject_fill_def Let_def
  by (rule fill_frame_trans [OF fill_frame_rejected], rule fill_frame_trans [OF fill_frame_history],
      rule fill_frame_notify)

lemma ensure_trades_spec:
  assumes "ensure_trades po x l et sp fc d s = Inr (po', s')"
  shows "(\<exists>n. s' = s\<lparr>synth_trade_seq := n\<rparr>)" and "pending_order_id po' = pending_order_id po"
    and "po_open po' = po_open po" and "submission po' = submission po" and "po_broker_ref po' = po_broker_ref po"
proof -
  have "(\<exists>n. s' = s\<lparr>synth_trade_seq := n\<rparr>) \<and> (\<exists>f. po' = po\<lparr>fills := f\<rparr>)"
  proof (cases "fill_trades (fills po) = []")
    case True
    with assms show ?thesis
      by (auto simp: ensure_trades_def synthesize_pending_trade_def Let_def)
  next
    case False
    with assms have "s' = s" "po' = po" by (simp_all add: ensure_trades_def)
    then show ?thesis
      by (auto intro!: exI [of _ "synth_trade_seq s"] exI [of _ "fills po"])
  qed
  then show "(\<exists>n. s' = s\<lparr>synth_trade_seq := n\<rparr>)" "pending_order_id po' = pending_order_id po"
    "po_open po' = po_open po" "submission po' = submission po" "po_broker_ref po' = po_broker_ref po"
    by auto
qed

section \<open>Fills are runs of the portfolio\<close>

abbreviation pf_run :: "portfolio \<Rightarrow> portfolio \<Rightarrow> bool" where
  "pf_run \<equiv> pf_step\<^sup>*\<^sup>*"

lemma pf_run_inv: "pf_run pf pf' \<Longrightarrow> pf_inv pf \<Longrightarrow> pf_inv pf'"
  by (induction rule: rtranclp_induct) (auto intro: pf_inv_step)

lemma pf_run_refresh: "ensure_positions_updated pf = Inr pf' \<Longrightarrow> pf_run pf pf'"
  by (rule r_into_rtranclp, rule pf_refresh)

lemma create_entry_fee_typed:
  "create_entry_fee sp l x tv m t s = Inr f \<Longrightarrow> well_typed_fee f"
  by (auto simp: create_entry_fee_def create_maker_taker_fee_def create_spread_fee_from_tick_def Let_def
      split: if_splits)

lemma check_capacity_spec:
  assumes "check_capacity os sp entry f t s = Inr (rej, s')"
  shows "\<exists>pf. s' = s\<lparr>ex_portfolio := pf\<rparr> \<and> (pf = ex_portfolio s \<or> ensure_positions_updated (ex_portfolio s) = Inr pf)"
proof -
  consider "s' = s" | pf m where "s' = s\<lparr>ex_portfolio := pf\<rparr>" "get_free_margin (os_direction os) (ex_portfolio s) = Inr (m, pf)"
    using assms by (auto simp: check_capacity_def Let_def split: if_splits)
  then show ?thesis
  proof cases
    case 1
    then show ?thesis by (intro exI [of _ "ex_portfolio s"]) simp
  next
    case 2
    then have "ensure_positions_updated (ex_portfolio s) = Inr pf"
      by (auto simp: get_free_margin_def dest: account_info_refreshed)
    with 2 show ?thesis by blast
  qed
qed

lemma check_capacity_run:
  assumes "check_capacity os sp entry f t s = Inr (rej, s')"
  shows "fill_frame s s'" and "pf_run (ex_portfolio s) (ex_portfolio s')"
    and "pf_refreshed (ex_portfolio s) (ex_portfolio s') \<or> ex_portfolio s' = ex_portfolio s"
    and "outcome_log s' = outcome_log s" "orders_executed s' = orders_executed s" "orders_rejected s' = orders_rejected s"
  using check_capacity_spec [OF assms]
  by (auto intro: fill_frame_portfolio pf_run_refresh ensure_refreshed)

text \<open>The two ways an open fill ends.\<close>

lemma fill_open_cases:
  assumes "fill_open_order po fp et ft s = Inr s'"
  obtains t os ba sp tv f s1 rej where
    "ex_tick s = Some t" "po_open po = Some os" "tick_symbol t = os_symbol os" "ba = (bid t, ask t)"
    "get_symbol_specification (ex_broker s) (os_symbol os) = Inr sp"
    "create_entry_fee sp (os_lots os) (fill_entry_price fp (os_direction os) ba) tv (is_maker_entry et) t s = Inr f"
    "check_capacity os sp (fill_entry_price fp (os_direction os) ba) f t s = Inr (rej, s1)"
    "case rej of Some reason \<Rightarrow> s' = reject_fill po (os_direction os) reason s1
       | None \<Rightarrow> book_open po os (fill_entry_price fp (os_direction os) ba) et ft sp tv ba f s1 = Inr s'"
proof -
  from assms obtain t os where t: "ex_tick s = Some t" and os: "po_open po = Some os"
    by (auto simp: fill_open_order_def split: option.splits)
  from assms t os have sym: "tick_symbol t = os_symbol os"
    by (auto simp: fill_open_order_def get_current_price_def split: if_splits)
  let ?e = "fill_entry_price fp (os_direction os) (bid t, ask t)"
  from assms t os sym obtain sp tv f rej s1 where
    "get_symbol_specification (ex_broker s) (os_symbol os) = Inr sp"
    "create_entry_fee sp (os_lots os) ?e tv (is_maker_entry et) t s = Inr f"
    "check_capacity os sp ?e f t s = Inr (rej, s1)"
    "(case rej of Some reason \<Rightarrow> Inr (reject_fill po (os_direction os) reason s1)
       | None \<Rightarrow> book_open po os ?e et ft sp tv (bid t, ask t) f s1) = Inr s'"
    by (auto simp: fill_open_order_def get_current_price_def Let_def)
  with t os sym that [of t os "(bid t, ask t)" sp tv f rej s1] show ?thesis
    by (auto split: option.splits)
qed

lemma book_open_spec:
  assumes "book_open po os entry et ft sp tv ba f s = Inr s'"
  obtains po1 n pip p pf now s2 where
    "pending_order_id po1 = pending_order_id po"
    "open_position (open_args_of po1 os entry tv ba sp (tick_counter s) f et pip (unit_label (br_pip_mode (ex_broker s))))
       (ex_portfolio s) = Inr (p, pf)"
    "s2 = s\<lparr>synth_trade_seq := n, ex_portfolio := pf\<rparr>"
    "s' = notify_outcome (os_direction os) (open_result po1 os entry f ft (tick_counter s) now) (Some po1)
            (append_order_history (open_result po1 os entry f ft (tick_counter s) now)
              (check_order_history_limit (s2\<lparr>orders_executed := orders_executed s2 + 1\<rparr>)))"
proof -
  from assms obtain po1 s1 pip p pf now where
    e: "ensure_trades po entry (os_lots os) et sp (fee_cost f) (os_direction os) s = Inr (po1, s1)"
    and o: "open_position (open_args_of po1 os entry tv ba sp (tick_counter s1) f et pip (unit_label (br_pip_mode (ex_broker s1))))
       (ex_portfolio s1) = Inr (p, pf)"
    and s': "s' = notify_outcome (os_direction os) (open_result po1 os entry f ft (tick_counter s1) now) (Some po1)
            (append_order_history (open_result po1 os entry f ft (tick_counter s1) now)
              (check_order_history_limit (s1\<lparr>ex_portfolio := pf, orders_executed := orders_executed s1 + 1\<rparr>)))"
    by (auto simp: book_open_def Let_def)
  from ensure_trades_spec(1) [OF e] obtain n where "s1 = s\<lparr>synth_trade_seq := n\<rparr>" by blast
  with o s' ensure_trades_spec(2) [OF e] that [of po1 pip p pf "s1\<lparr>ex_portfolio := pf\<rparr>" n now] show ?thesis
    by simp
qed

lemma book_open_run:
  assumes "book_open po os entry et ft sp tv ba f s = Inr s'" and "well_typed_fee f"
  shows "fill_frame s s'" and "pf_run (ex_portfolio s) (ex_portfolio s')"
    and "\<exists>r po1. outcome_log s' = outcome_log s @ [(os_direction os, r, Some po1)] \<and> or_status r = OS_EXECUTED \<and>
           or_order_id r = pending_order_id po \<and> executed_price r = Some entry \<and> executed_lots r = Some (os_lots os)"
    and "orders_executed s' = orders_executed s + 1" and "orders_rejected s' = orders_rejected s"
    and "\<exists>a p. open_position a (ex_portfolio s) = Inr (p, ex_portfolio s') \<and> oa_order_id a = pending_order_id po \<and>
           oa_symbol a = os_symbol os \<and> oa_direction a = os_direction os \<and> oa_lots a = os_lots os \<and>
           oa_entry_price a = entry \<and> oa_entry_fee a = Some f"
proof -
  from assms(1) obtain po1 n pip p pf now s2 where
    id: "pending_order_id po1 = pending_order_id po"
    and o: "open_position (open_args_of po1 os entry tv ba sp (tick_counter s) f et pip (unit_label (br_pip_mode (ex_broker s))))
       (ex_portfolio s) = Inr (p, pf)"
    and s2: "s2 = s\<lparr>synth_trade_seq := n, ex_portfolio := pf\<rparr>"
    and s': "s' = notify_outcome (os_direction os) (open_result po1 os entry f ft (tick_counter s) now) (Some po1)
            (append_order_history (open_result po1 os entry f ft (tick_counter s) now)
              (check_order_history_limit (s2\<lparr>orders_executed := orders_executed s2 + 1\<rparr>)))"
    by (rule book_open_spec)
  have pf: "ex_portfolio s' = pf" by (simp add: s' s2)
  show "fill_frame s s'"
    unfolding s'
    by (rule fill_frame_trans [OF _ fill_frame_notify], rule fill_frame_trans [OF _ fill_frame_history],
        rule fill_frame_trans [OF _ fill_frame_executed], unfold s2,
        rule fill_frame_trans [OF fill_frame_seq fill_frame_portfolio])
  show "pf_run (ex_portfolio s) (ex_portfolio s')"
    unfolding pf by (rule r_into_rtranclp, rule pf_open [OF _ o]) (simp add: open_args_of_def assms(2))
  show "\<exists>r po1. outcome_log s' = outcome_log s @ [(os_direction os, r, Some po1)] \<and> or_status r = OS_EXECUTED \<and>
           or_order_id r = pending_order_id po \<and> executed_price r = Some entry \<and> executed_lots r = Some (os_lots os)"
    by (simp add: s' s2 open_result_def blank_result_def id)
  show "orders_executed s' = orders_executed s + 1" "orders_rejected s' = orders_rejected s"
    by (simp_all add: s' s2)
  show "\<exists>a p. open_position a (ex_portfolio s) = Inr (p, ex_portfolio s') \<and> oa_order_id a = pending_order_id po \<and>
           oa_symbol a = os_symbol os \<and> oa_direction a = os_direction os \<and> oa_lots a = os_lots os \<and>
           oa_entry_price a = entry \<and> oa_entry_fee a = Some f"
    unfolding pf by (intro exI conjI, rule o) (simp_all add: open_args_of_def id)
qed

lemma fill_open_run:
  assumes "fill_open_order po fp et ft s = Inr s'"
  shows "fill_frame s s'" and "pf_run (ex_portfolio s) (ex_portfolio s')"
proof -
  from assms obtain t os ba sp tv f s1 rej where
    f: "create_entry_fee sp (os_lots os) (fill_entry_price fp (os_direction os) ba) tv (is_maker_entry et) t s = Inr f"
    and c: "check_capacity os sp (fill_entry_price fp (os_direction os) ba) f t s = Inr (rej, s1)"
    and r: "case rej of Some reason \<Rightarrow> s' = reject_fill po (os_direction os) reason s1
       | None \<Rightarrow> book_open po os (fill_entry_price fp (os_direction os) ba) et ft sp tv ba f s1 = Inr s'"
    by (rule fill_open_cases)
  note cap = check_capacity_run [OF c]
  have "fill_frame s1 s' \<and> pf_run (ex_portfolio s1) (ex_portfolio s')"
  proof (cases rej)
    case None
    with r have b: "book_open po os (fill_entry_price fp (os_direction os) ba) et ft sp tv ba f s1 = Inr s'" by simp
    show ?thesis by (simp add: book_open_run(1,2) [OF b create_entry_fee_typed [OF f]])
  next
    case (Some reason)
    with r show ?thesis by (simp add: fill_frame_reject) (simp add: reject_fill_def Let_def)
  qed
  with cap show "fill_frame s s'" "pf_run (ex_portfolio s) (ex_portfolio s')"
    by (auto intro: fill_frame_trans)
qed

text \<open>A fill reports exactly one outcome: executed, with the position opened, or rejected, with the
  portfolio at most re-marked.\<close>

lemma fill_open_outcome:
  assumes "fill_open_order po fp et ft s = Inr s'"
  obtains d r po1 where "outcome_log s' = outcome_log s @ [(d, r, Some po1)]" "or_order_id r = pending_order_id po"
    "or_status r = OS_EXECUTED \<and> orders_executed s' = orders_executed s + 1 \<and> orders_rejected s' = orders_rejected s \<and>
       get_position (ex_portfolio s') (pending_order_id po) \<noteq> None
     \<or> or_status r = OS_REJECTED \<and> orders_executed s' = orders_executed s \<and> orders_rejected s' = orders_rejected s + 1 \<and>
       (pf_refreshed (ex_portfolio s) (ex_portfolio s') \<or> ex_portfolio s' = ex_portfolio s)"
proof -
  from assms obtain t os ba sp tv f s1 rej where
    f: "create_entry_fee sp (os_lots os) (fill_entry_price fp (os_direction os) ba) tv (is_maker_entry et) t s = Inr f"
    and c: "check_capacity os sp (fill_entry_price fp (os_direction os) ba) f t s = Inr (rej, s1)"
    and r: "case rej of Some reason \<Rightarrow> s' = reject_fill po (os_direction os) reason s1
       | None \<Rightarrow> book_open po os (fill_entry_price fp (os_direction os) ba) et ft sp tv ba f s1 = Inr s'"
    by (rule fill_open_cases)
  note cap = check_capacity_run [OF c]
  show ?thesis
  proof (cases rej)
    case None
    with r have b: "book_open po os (fill_entry_price fp (os_direction os) ba) et ft sp tv ba f s1 = Inr s'" by simp
    note bo = book_open_run [OF b create_entry_fee_typed [OF f]]
    from bo(6) obtain a p where o: "open_position a (ex_portfolio s1) = Inr (p, ex_portfolio s')"
      and a: "oa_order_id a = pending_order_id po" by blast
    from o have "open_positions (ex_portfolio s') = AList.update (oa_order_id a) p (open_positions (ex_portfolio s1))"
      by (rule open_spec_pf) auto
    with a have "get_position (ex_portfolio s') (pending_order_id po) \<noteq> None"
      by (simp add: get_position_def dict_simps)
    with bo(3-5) cap(4-6) that show ?thesis by auto
  next
    case (Some reason)
    with r have s': "s' = reject_fill po (os_direction os) reason s1" by simp
    with cap(3-6) show ?thesis
      by (intro that [of "os_direction os" "create_rejection_result (pending_order_id po) reason" po])
         (auto simp: reject_fill_def Let_def)
  qed
qed

section \<open>Closes\<close>

lemma close_decision_bounds:
  assumes "close_decision cl l vmin = Some (is_partial, x)" and "0 < l"
  shows "0 < x \<and> x \<le> l \<and> (if is_partial then cl = Some x \<and> x < l \<and> vmin - 1 / 10 ^ 9 \<le> l - x else x = l)"
  using assms by (auto simp: close_decision_def split: option.splits if_splits)

lemma close_decision_None_iff: "close_decision cl l vmin = None \<longleftrightarrow> (\<exists>x. cl = Some x \<and> x \<le> 0)"
  by (auto simp: close_decision_def split: option.splits)

lemma book_close_spec:
  assumes "book_close po p x tv sp is_partial l cr s = Inr s'"
  obtains po1 n pnl pf where
    "pending_order_id po1 = pending_order_id po"
    "(if is_partial then partial_close_position l (close_args_of po1 x tv (tick_counter s) cr) (ex_portfolio s)
      else close_position_portfolio (close_args_of po1 x tv (tick_counter s) cr) (ex_portfolio s)) = Inr (pnl, pf)"
    "ex_portfolio s' = pf" "fill_frame s s'" "outcome_log s' = outcome_log s"
proof -
  from assms obtain po1 s1 pnl pf now where
    e: "ensure_trades po x l ET_MARKET sp 0 (pos_direction p) s = Inr (po1, s1)"
    and c: "(if is_partial then partial_close_position l (close_args_of po1 x tv (tick_counter s1) cr) (ex_portfolio s1)
      else close_position_portfolio (close_args_of po1 x tv (tick_counter s1) cr) (ex_portfolio s1)) = Inr (pnl, pf)"
    and s': "s' = (let s3 = append_order_history (close_result po1 p x l is_partial pnl now)
                     (check_order_history_limit (s1\<lparr>ex_portfolio := pf\<rparr>))
                   in if is_partial then emit_decision_event (PartialCloseEvent (pending_order_id po) (pos_direction p) l
                        (pos_lots p - l) x (close_result po1 p x l is_partial pnl now) now) s3 else s3)"
    by (auto simp: book_close_def Let_def)
  from ensure_trades_spec(1) [OF e] obtain n where s1: "s1 = s\<lparr>synth_trade_seq := n\<rparr>" by blast
  have "fill_frame s1 (append_order_history r (check_order_history_limit (s1\<lparr>ex_portfolio := pf\<rparr>)))" for r
    by (rule fill_frame_trans [OF fill_frame_portfolio fill_frame_history])
  then have "fill_frame s1 s'"
    unfolding s' Let_def by (auto intro: fill_frame_trans [OF _ fill_frame_emit])
  then have fr: "fill_frame s s'" using fill_frame_seq [of s n] unfolding s1 by (blast intro: fill_frame_trans)
  have pf: "ex_portfolio s' = pf" and ol: "outcome_log s' = outcome_log s"
    by (simp_all add: s' s1 Let_def emit_decision_event_def append_order_history_def check_order_history_limit_def)
  from c s1 ensure_trades_spec(2) [OF e] show ?thesis
    by (intro that [of po1 pnl pf, OF _ _ pf fr ol]) (simp, cases is_partial, simp_all)
qed

lemma close_args_of_simps [simp]:
  "cl_position_id (close_args_of po x tv i cr) = pending_order_id po"
  "cl_exit_fee (close_args_of po x tv i cr) = None"
  "cl_exit_price (close_args_of po x tv i cr) = x"
  "cl_close_reason (close_args_of po x tv i cr) = cr"
  by (simp_all add: close_args_of_def)

lemma fill_close_cases:
  assumes "fill_close_order po fp cr s = Inr s'"
  obtains (missing) "get_position (ex_portfolio s) (pending_order_id po) = None" "s' = s"
    | (dropped) x where "po_close_lots po = Some x" "x \<le> 0" "s' = s"
    | (closed) p sp x tv is_partial l where
        "get_position (ex_portfolio s) (pending_order_id po) = Some p"
        "get_symbol_specification (ex_broker s) (pos_symbol p) = Inr sp"
        "close_decision (po_close_lots po) (pos_lots p) (volume_min sp) = Some (is_partial, l)"
        "book_close po p x tv sp is_partial l cr s = Inr s'"
proof -
  from assms obtain t where t: "ex_tick s = Some t"
    by (auto simp: fill_close_order_def split: option.splits)
  show ?thesis
  proof (cases "get_position (ex_portfolio s) (pending_order_id po)")
    case None
    with assms t have "s' = s" by (simp add: fill_close_order_def)
    with None show ?thesis by (rule missing)
  next
    case (Some p)
    note fc = assms [unfolded fill_close_order_def t Some option.case]
    from fc obtain ba where ba: "get_current_price (pos_symbol p) s = Inr ba"
      by (cases "get_current_price (pos_symbol p) s") simp_all
    from fc ba obtain sp where sp: "get_symbol_specification (ex_broker s) (pos_symbol p) = Inr sp"
      by (cases "get_symbol_specification (ex_broker s) (pos_symbol p)") simp_all
    from fc ba sp obtain tv where tv: "ex_calculate_tick_value sp ((fst ba + snd ba) / 2) s = Inr tv"
      by (cases "ex_calculate_tick_value sp ((fst ba + snd ba) / 2) s") simp_all
    from fc ba sp tv obtain x where r: "(case close_decision (po_close_lots po) (pos_lots p) (volume_min sp) of None \<Rightarrow> Inr s
         | Some (is_partial, l) \<Rightarrow> book_close po p x tv sp is_partial l cr s) = Inr s'"
      by (simp add: Let_def)
    show ?thesis
    proof (cases "close_decision (po_close_lots po) (pos_lots p) (volume_min sp)")
      case None
      with r have "s' = s" by simp
      moreover from None obtain y where "po_close_lots po = Some y" "y \<le> 0" by (auto simp: close_decision_None_iff)
      ultimately show ?thesis by (intro dropped)
    next
      case d: (Some pl)
      obtain is_partial l where pl: "pl = (is_partial, l)" by (cases pl)
      with d r have "book_close po p x tv sp is_partial l cr s = Inr s'" by simp
      with Some sp d [unfolded pl] show ?thesis by (rule closed)
    qed
  qed
qed

lemma fill_close_run:
  assumes "fill_close_order po fp cr s = Inr s'"
  shows "fill_frame s s'" and "pf_run (ex_portfolio s) (ex_portfolio s')" and "outcome_log s' = outcome_log s"
proof -
  have "fill_frame s s' \<and> pf_run (ex_portfolio s) (ex_portfolio s') \<and> outcome_log s' = outcome_log s"
    using assms
  proof (cases rule: fill_close_cases)
    case (closed p sp x tv is_partial l)
    from closed(4) obtain po1 pnl pf where
      c: "(if is_partial then partial_close_position l (close_args_of po1 x tv (tick_counter s) cr) (ex_portfolio s)
        else close_position_portfolio (close_args_of po1 x tv (tick_counter s) cr) (ex_portfolio s)) = Inr (pnl, pf)"
      and pf: "ex_portfolio s' = pf" "fill_frame s s'" "outcome_log s' = outcome_log s"
      by (rule book_close_spec)
    have "pf_step (ex_portfolio s) pf"
    proof (cases is_partial)
      case True
      with c show ?thesis
        by (intro pf_step.pf_partial [of "close_args_of po1 x tv (tick_counter s) cr" l _ pnl]) simp_all
    next
      case False
      with c show ?thesis
        by (intro pf_step.pf_close [of "close_args_of po1 x tv (tick_counter s) cr" _ pnl]) simp_all
    qed
    with pf show ?thesis by auto
  qed simp_all
  then show "fill_frame s s'" "pf_run (ex_portfolio s) (ex_portfolio s')" "outcome_log s' = outcome_log s" by simp_all
qed

lemma close_positions:
  assumes "close_position_portfolio cl pf = Inr (pnl, pf')"
  obtains ps where "positions_refreshed (open_positions pf) ps"
    "open_positions pf' = AList.delete (cl_position_id cl) ps"
  using assms
proof (rule close_spec)
  fix pf1 p q now and pf2 :: portfolio
  assume e: "ensure_positions_updated pf = Inr pf1"
    and s: "settle_full_close cl (attach (cl_exit_fee cl) p) (charge (cl_exit_fee cl) pf1) = Inr (pnl, q, pf2)"
    and pf': "pf' = conclude_close
        (create_trade_record (account_currency pf2) (closed_position cl now q) CT_FULL (cl_close_reason cl)
          (cl_exit_trades cl) (cl_exit_submission cl))
        (closed_position cl now q) (AList.delete (cl_position_id cl) (open_positions pf2)) pnl pf2"
  from settle_frame(1) [OF s] have "open_positions pf2 = open_positions pf1" by auto
  with pf' that [OF refreshed_positions(1) [OF ensure_refreshed [OF e]]] show thesis by simp
qed

text \<open>A close order without a lot size removes its position and at most re-marks the others.\<close>

lemma full_close_effect:
  assumes "fill_close_order po fp cr s = Inr s'" and "po_close_lots po = None"
    and "map_of (open_positions (ex_portfolio s')) k = Some q"
  shows "k \<noteq> pending_order_id po" and "\<exists>p. map_of (open_positions (ex_portfolio s)) k = Some p \<and> pos_refreshed p q"
proof -
  have "k \<noteq> pending_order_id po \<and> (\<exists>p. map_of (open_positions (ex_portfolio s)) k = Some p \<and> pos_refreshed p q)"
    using assms(1)
  proof (cases rule: fill_close_cases)
    case missing
    with assms(3) show ?thesis by (auto simp: get_position_def)
  next
    case (dropped x)
    with assms(2) show ?thesis by simp
  next
    case (closed p sp x tv is_partial l)
    with assms(2) have part: "\<not> is_partial" by (simp add: close_decision_def)
    from closed(4) obtain po1 pnl pf where id: "pending_order_id po1 = pending_order_id po"
      and "(if is_partial then partial_close_position l (close_args_of po1 x tv (tick_counter s) cr) (ex_portfolio s)
        else close_position_portfolio (close_args_of po1 x tv (tick_counter s) cr) (ex_portfolio s)) = Inr (pnl, pf)"
      and pf: "ex_portfolio s' = pf"
      by (rule book_close_spec)
    with part have c: "close_position_portfolio (close_args_of po1 x tv (tick_counter s) cr) (ex_portfolio s) = Inr (pnl, pf)"
      by simp
    from c obtain ps where ps: "positions_refreshed (open_positions (ex_portfolio s)) ps"
      and del: "open_positions pf = AList.delete (pending_order_id po) ps"
      by (rule close_positions) (simp add: id)
    from assms(3) pf del have k: "k \<noteq> pending_order_id po" "map_of ps k = Some q"
      by (simp_all add: dict_simps split: if_splits)
    from dict_rel_lookup [OF ps k(2)] k(1) show ?thesis by blast
  qed
  then show "k \<noteq> pending_order_id po" "\<exists>p. map_of (open_positions (ex_portfolio s)) k = Some p \<and> pos_refreshed p q"
    by simp_all
qed

section \<open>Triggers\<close>

definition trigger_hit :: "tick_data \<Rightarrow> position \<Rightarrow> bool" where
  "trigger_hit t p \<longleftrightarrow>
     pos_symbol p = tick_symbol t \<and> (is_sl_triggered p (bid t) (ask t) \<or> is_tp_triggered p (bid t) (ask t))"

lemma trigger_hit_refreshed: "pos_refreshed p q \<Longrightarrow> trigger_hit t q = trigger_hit t p"
  by (auto simp: trigger_hit_def pos_refreshed_def is_sl_triggered_def is_tp_triggered_def
      split: option.splits)

lemma check_position_run:
  assumes "check_position_triggers t p s = Inr s'"
  shows "pf_run (ex_portfolio s) (ex_portfolio s')" and "executor.more s' = executor.more s"
    and "outcome_log s' = outcome_log s" and "clock_time s' = clock_time s"
    and "active_limit_orders s' = active_limit_orders s" and "active_stop_orders s' = active_stop_orders s"
    and "ex_mode s' = ex_mode s" and "ex_tick s' = ex_tick s"
proof -
  have "s' = s \<or> (\<exists>fp cr s1. fill_close_order (synthetic_close (position_id p)) fp cr s = Inr s1 \<and>
      s' = s1\<lparr>sl_tp_triggered := sl_tp_triggered s1 + 1\<rparr>)"
    using assms by (auto simp: check_position_triggers_def split: if_splits)
  then show "pf_run (ex_portfolio s) (ex_portfolio s')" "executor.more s' = executor.more s"
    "outcome_log s' = outcome_log s" "clock_time s' = clock_time s"
    "active_limit_orders s' = active_limit_orders s" "active_stop_orders s' = active_stop_orders s"
    "ex_mode s' = ex_mode s" "ex_tick s' = ex_tick s"
    by (auto simp: fill_close_run fill_frame_keeps [OF fill_close_run(1)])
qed

lemma check_position_effect:
  assumes "check_position_triggers t p s = Inr s'" and "map_of (open_positions (ex_portfolio s')) k = Some q"
  shows "trigger_hit t p \<Longrightarrow> k \<noteq> position_id p"
    and "\<exists>r. map_of (open_positions (ex_portfolio s)) k = Some r \<and> pos_refreshed r q"
proof -
  have syn: "po_close_lots (synthetic_close pid) = None" "pending_order_id (synthetic_close pid) = pid" for pid
    by (simp_all add: synthetic_close_def)
  consider (idle) "s' = s" "\<not> trigger_hit t p"
    | (hit) fp cr s1 where "fill_close_order (synthetic_close (position_id p)) fp cr s = Inr s1"
        "ex_portfolio s' = ex_portfolio s1"
    using assms(1) by (auto simp: check_position_triggers_def trigger_hit_def split: if_splits)
  then have "(trigger_hit t p \<longrightarrow> k \<noteq> position_id p) \<and>
      (\<exists>r. map_of (open_positions (ex_portfolio s)) k = Some r \<and> pos_refreshed r q)"
  proof cases
    case idle
    with assms(2) show ?thesis by auto
  next
    case hit
    from full_close_effect [OF hit(1) syn(1), of k q] assms(2) hit(2) show ?thesis by (simp add: syn)
  qed
  then show "trigger_hit t p \<Longrightarrow> k \<noteq> position_id p"
    "\<exists>r. map_of (open_positions (ex_portfolio s)) k = Some r \<and> pos_refreshed r q" by simp_all
qed

lemma check_positions_effect:
  assumes "fold_res (check_position_triggers t) ps s = Inr s'"
    and "map_of (open_positions (ex_portfolio s')) k = Some q"
  shows "(\<forall>p\<in>set ps. trigger_hit t p \<longrightarrow> k \<noteq> position_id p) \<and>
    (\<exists>r. map_of (open_positions (ex_portfolio s)) k = Some r \<and> pos_refreshed r q)"
  using assms
proof (induction ps arbitrary: s)
  case Nil
  then show ?case by auto
next
  case (Cons p ps)
  from Cons.prems(1) obtain s1 where s1: "check_position_triggers t p s = Inr s1"
    "fold_res (check_position_triggers t) ps s1 = Inr s'" by auto
  from Cons.IH [OF s1(2) Cons.prems(2)] obtain r1 where
    tail: "\<forall>p\<in>set ps. trigger_hit t p \<longrightarrow> k \<noteq> position_id p"
    and r1: "map_of (open_positions (ex_portfolio s1)) k = Some r1" "pos_refreshed r1 q" by blast
  from check_position_effect [OF s1(1) r1(1)] tail r1(2) show ?case
    by (auto intro: pos_refreshed_trans)
qed

text \<open>After the check no open position of the tick's symbol is beyond its stop or its target.\<close>

lemma no_trigger_survives:
  assumes "check_sl_tp_triggers t s = Inr s'" and "ex_mode s = SIMULATION"
    and "positions_ok (open_positions (ex_portfolio s))"
    and "map_of (open_positions (ex_portfolio s')) k = Some q"
  shows "\<not> trigger_hit t q"
proof
  assume hit: "trigger_hit t q"
  from assms(1,2) have "fold_res (check_position_triggers t) (get_open_positions (ex_portfolio s)) s = Inr s'"
    by (simp add: check_sl_tp_triggers_def)
  from check_positions_effect [OF this assms(4)] obtain r where
    snap: "\<forall>p\<in>set (get_open_positions (ex_portfolio s)). trigger_hit t p \<longrightarrow> k \<noteq> position_id p"
    and r: "map_of (open_positions (ex_portfolio s)) k = Some r" "pos_refreshed r q" by blast
  from r(1) have "r \<in> set (get_open_positions (ex_portfolio s))"
    by (force simp: get_open_positions_def dest: map_of_SomeD)
  moreover have "position_id r = k"
    using positions_ok_lookup [OF assms(3) r(1)] by (simp add: position_ok_def)
  ultimately show False using snap hit trigger_hit_refreshed [OF r(2)] by blast
qed

lemma check_triggers_run:
  assumes "check_sl_tp_triggers t s = Inr s'"
  shows "pf_run (ex_portfolio s) (ex_portfolio s') \<and> executor.more s' = executor.more s \<and>
    clock_time s' = clock_time s \<and> active_limit_orders s' = active_limit_orders s \<and>
    active_stop_orders s' = active_stop_orders s \<and> outcome_log s' = outcome_log s \<and>
    ex_mode s' = ex_mode s \<and> ex_tick s' = ex_tick s"
proof (cases "ex_mode s = SIMULATION")
  case True
  with assms have "fold_res (check_position_triggers t) (get_open_positions (ex_portfolio s)) s = Inr s'"
    by (simp add: check_sl_tp_triggers_def)
  then show ?thesis
    by (rule fold_res_inv [where P = "\<lambda>u. pf_run (ex_portfolio s) (ex_portfolio u) \<and> executor.more u = executor.more s \<and>
        clock_time u = clock_time s \<and> active_limit_orders u = active_limit_orders s \<and>
        active_stop_orders u = active_stop_orders s \<and> outcome_log u = outcome_log s \<and>
        ex_mode u = ex_mode s \<and> ex_tick u = ex_tick s"])
       (auto dest: check_position_run)
qed (use assms in \<open>simp add: check_sl_tp_triggers_def\<close>)

section \<open>Closing every position\<close>

lemma close_all_fold:
  assumes "fold_res (\<lambda>p. fill_close_order (create_synthetic_close_order (position_id p)) None SCENARIO_END) ps s = Inr s'"
    and "map_of (open_positions (ex_portfolio s')) k = Some q"
  shows "(\<forall>p\<in>set ps. k \<noteq> position_id p) \<and> (\<exists>r. map_of (open_positions (ex_portfolio s)) k = Some r)"
  using assms
proof (induction ps arbitrary: s)
  case (Cons p ps)
  from Cons.prems(1) obtain s1 where
    s1: "fill_close_order (create_synthetic_close_order (position_id p)) None SCENARIO_END s = Inr s1"
    and tail: "fold_res (\<lambda>p. fill_close_order (create_synthetic_close_order (position_id p)) None SCENARIO_END) ps s1 = Inr s'"
    by auto
  from Cons.IH [OF tail Cons.prems(2)] obtain r where r: "map_of (open_positions (ex_portfolio s1)) k = Some r"
    and ps: "\<forall>p\<in>set ps. k \<noteq> position_id p" by blast
  from full_close_effect [OF s1 _ r] ps show ?case by (auto simp: create_synthetic_close_order_def)
qed simp

lemma close_all_positions:
  assumes "fold_res (\<lambda>p. fill_close_order (create_synthetic_close_order (position_id p)) None SCENARIO_END)
      (get_open_positions (ex_portfolio s)) s = Inr s'"
    and "pf_inv (ex_portfolio s)"
  shows "open_positions (ex_portfolio s') = []"
proof -
  have "map_of (open_positions (ex_portfolio s')) k = None" for k
  proof (rule ccontr)
    assume "map_of (open_positions (ex_portfolio s')) k \<noteq> None"
    then obtain q where "map_of (open_positions (ex_portfolio s')) k = Some q" by blast
    from close_all_fold [OF assms(1) this] obtain r where
      n: "\<forall>p\<in>set (get_open_positions (ex_portfolio s)). k \<noteq> position_id p"
      and r: "map_of (open_positions (ex_portfolio s)) k = Some r" by blast
    from assms(2) r have "position_ok k r" by (auto simp: pf_inv_def intro: positions_ok_lookup)
    moreover from r have "r \<in> set (get_open_positions (ex_portfolio s))"
      by (force simp: get_open_positions_def dest: map_of_SomeD)
    ultimately show False using n by (auto simp: position_ok_def)
  qed
  then show ?thesis by (metis ext map_of_eq_empty_iff)
qed

end
