(* ===== verification/Simulator_Laws.thy ===== *)
theory Simulator_Laws
  imports Simulator Executor_Laws Portfolio_Value "HOL-Library.Multiset" "HOL-Library.Sublist"
begin

text \<open>
  What the simulator guarantees: every operation is a run of the portfolio machine and a run of the
  latency machine, so the invariants of both hold in every reachable simulator; due cancellations and
  modifications are resolved before prices are looked at; resting orders leave their list exactly when
  their price is reached; a spot fill never overdraws; the end-of-run cleanup leaves nothing open.
\<close>

section \<open>Runs of the components\<close>

abbreviation latency_run :: "latency \<Rightarrow> latency \<Rightarrow> bool" where
  "latency_run \<equiv> latency_step\<^sup>*\<^sup>*"

definition sim_advances :: "simulator \<Rightarrow> simulator \<Rightarrow> bool" where
  "sim_advances s s' \<longleftrightarrow> pf_run (ex_portfolio s) (ex_portfolio s') \<and> latency_run (latency_sim s) (latency_sim s')
     \<and> prefix (outcome_log s) (outcome_log s') \<and> ex_mode s' = ex_mode s"

lemma sim_advances_refl [simp]: "sim_advances s s"
  by (simp add: sim_advances_def)

lemma sim_advances_trans: "sim_advances s t \<Longrightarrow> sim_advances t u \<Longrightarrow> sim_advances s u"
  by (auto simp: sim_advances_def)

lemma sim_advances_cong:
  "ex_portfolio s' = ex_portfolio s \<Longrightarrow> latency_sim s' = latency_sim s \<Longrightarrow> outcome_log s' = outcome_log s \<Longrightarrow>
   ex_mode s' = ex_mode s \<Longrightarrow> sim_advances s s'"
  by (simp add: sim_advances_def)

lemma same_more:
  fixes s s' :: simulator
  assumes "executor.more s' = executor.more s"
  shows "latency_sim s' = latency_sim s" "stress_filter s' = stress_filter s"
    "pending_position_modifications s' = pending_position_modifications s"
    "modify_cancel_delay_msc s' = modify_cancel_delay_msc s" "stress_rejections s' = stress_rejections s"
  using assms by (cases s, cases s', simp)+

lemma latency_runs [simp]:
  "latency_run q (submit_open_order oid rq t q)"
  "latency_run q (submit_close_order pid t cl q)"
  "latency_run q (clear_pending c w r q)"
  by (rule r_into_rtranclp, rule latency_step.intros)+

lemma pf_run_clock [simp]: "pf_run pf (pf\<lparr>pf_clock := Some t\<rparr>)"
  by (rule r_into_rtranclp, rule pf_step.pf_clock)

lemma sim_advances_fill_open:
  assumes "fill_open_order po fp et ft s = Inr s'"
  shows "sim_advances s s'"
proof -
  have "prefix (outcome_log s) (outcome_log s')"
    by (rule fill_open_outcome [OF assms]) simp
  with assms show ?thesis
    by (simp add: sim_advances_def fill_open_run fill_frame_keeps [OF fill_open_run(1)]
        same_more(1) [OF fill_frame_keeps(14) [OF fill_open_run(1)]])
qed

lemma sim_advances_fill_close: "fill_close_order po fp cr s = Inr s' \<Longrightarrow> sim_advances s s'"
  by (simp add: sim_advances_def fill_close_run fill_frame_keeps [OF fill_close_run(1)]
      same_more(1) [OF fill_frame_keeps(14) [OF fill_close_run(1)]])

lemma sim_advances_portfolio: "pf_step (ex_portfolio s) pf \<Longrightarrow> sim_advances s (s\<lparr>ex_portfolio := pf\<rparr>)"
  by (auto simp: sim_advances_def)

lemma sim_advances_latency: "latency_step (latency_sim s) q \<Longrightarrow> sim_advances s (s\<lparr>latency_sim := q\<rparr>)"
  by (auto simp: sim_advances_def)

lemma sim_advances_outcome: "sim_advances s (sim_record_outcome po oc s)"
  unfolding sim_record_outcome_def by (intro sim_advances_latency lat_outcome)

lemma sim_advances_queue: "sim_advances s (queue_limit po s)" "sim_advances s (queue_stop po s)"
  by (simp_all add: sim_advances_def queue_limit_def queue_stop_def)

lemma sim_advances_convert: "convert_stop_limit_to_limit po s = Inr s' \<Longrightarrow> sim_advances s s'"
  by (auto simp: convert_stop_limit_to_limit_def Let_def sim_advances_queue
      intro: sim_advances_fill_open split: if_splits)

lemma sim_advances_accept: "accept_open_order po s = Inr s' \<Longrightarrow> sim_advances s s'"
  by (auto simp: accept_open_order_def sim_advances_queue
      intro: sim_advances_fill_open sim_advances_convert split: option.splits order_type.splits if_splits)

lemma stress_frame:
  "sim_advances s (snd (stress_test_should_reject po s))"
  "active_limit_orders (snd (stress_test_should_reject po s)) = active_limit_orders s"
  "active_stop_orders (snd (stress_test_should_reject po s)) = active_stop_orders s"
  "ex_tick (snd (stress_test_should_reject po s)) = ex_tick s"
  "ex_portfolio (snd (stress_test_should_reject po s)) = ex_portfolio s"
  "latency_sim (snd (stress_test_should_reject po s)) = latency_sim s"
  by (auto simp: stress_test_should_reject_def append_order_history_def Let_def case_prod_beta
      intro!: sim_advances_cong split: option.split)

lemma sim_advances_resolved:
  assumes "fill_resolved_order po s = Inr s'"
  shows "sim_advances s s'"
proof (cases "po_order_action po")
  case PA_OPEN
  obtain rej s1 where st: "stress_test_should_reject po s = (rej, s1)" by (cases "stress_test_should_reject po s")
  with stress_frame(1) [of s po] have a: "sim_advances s s1" by simp
  have "sim_advances s1 s'"
  proof (cases rej)
    case True
    with assms PA_OPEN st show ?thesis by (auto simp: fill_resolved_order_def sim_advances_outcome)
  next
    case False
    with assms PA_OPEN st obtain s2 where "accept_open_order po s1 = Inr s2" "s' = sim_record_outcome po PO_FILLED s2"
      by (auto simp: fill_resolved_order_def)
    then show ?thesis by (blast intro: sim_advances_trans sim_advances_accept sim_advances_outcome)
  qed
  with a show ?thesis by (rule sim_advances_trans)
next
  case PA_CLOSE
  with assms obtain s2 where "fill_close_order po None CR_MANUAL s = Inr s2" "s' = sim_record_outcome po PO_FILLED s2"
    by (auto simp: fill_resolved_order_def)
  then show ?thesis by (blast intro: sim_advances_trans sim_advances_fill_close sim_advances_outcome)
qed

lemma sim_advances_fold:
  assumes "fold_res f xs s = Inr s'" and "\<And>x s s'. f x s = Inr s' \<Longrightarrow> sim_advances s s'"
  shows "sim_advances s s'"
  using assms(1) by (rule fold_res_inv [where P = "sim_advances s"]) (auto intro: sim_advances_trans assms(2))

lemma sim_advances_drain: "drain_latency now s = Inr s' \<Longrightarrow> sim_advances s s'"
proof -
  assume "drain_latency now s = Inr s'"
  then obtain ready q where p: "process_up_to_msc now (latency_sim s) = Inr (ready, q)"
    and f: "fold_res fill_resolved_order ready (s\<lparr>latency_sim := q\<rparr>) = Inr s'"
    by (auto simp: drain_latency_def fill_resolved_orders_def)
  show ?thesis
    by (rule sim_advances_trans [OF sim_advances_latency [OF lat_process [OF p]]])
       (rule sim_advances_fold [OF f sim_advances_resolved])
qed

lemma emit_cancelled_spec:
  "emit_order_cancelled po s = Inr s' \<Longrightarrow> \<exists>el. s' = s\<lparr>event_log := el\<rparr>"
  by (cases "event_sink s")
     (auto simp: emit_order_cancelled_def emit_decision_event_def intro!: exI [of _ "event_log s'"])

lemma resolve_list_spec:
  assumes "resolve_list get_list set_list now s = Inr s'"
    and "(get_list, set_list) = (active_limit_orders, set_limits) \<or> (get_list, set_list) = (active_stop_orders, set_stops)"
  obtains pos cancels el where "resolve_orders now (get_list s) = Inr (pos, cancels)"
    "s' = (set_list (foldl (\<lambda>xs x. remove1 x xs) pos cancels) s)\<lparr>event_log := el\<rparr>"
proof -
  from assms(1) obtain pos cancels where r: "resolve_orders now (get_list s) = Inr (pos, cancels)"
    and f: "fold_res (cancel_resolved get_list set_list) cancels (set_list pos s) = Inr s'"
    by (auto simp: resolve_list_def)
  have "\<exists>el. u' = (set_list (foldl (\<lambda>xs x. remove1 x xs) (get_list u) cs) u)\<lparr>event_log := el\<rparr>"
    if "fold_res (cancel_resolved get_list set_list) cs u = Inr u'" for cs u u'
    using that
  proof (induction cs arbitrary: u)
    case Nil
    then show ?case using assms(2)
      by (auto simp: set_limits_def set_stops_def intro!: exI [of _ "event_log u"])
  next
    case (Cons c cs)
    from Cons.prems obtain u1 where u1: "cancel_resolved get_list set_list c u = Inr u1"
      and rest: "fold_res (cancel_resolved get_list set_list) cs u1 = Inr u'" by auto
    from u1 obtain el where "u1 = (set_list (remove1 c (get_list u)) u)\<lparr>event_log := el\<rparr>"
      by (auto simp: cancel_resolved_def dest: emit_cancelled_spec)
    with Cons.IH [OF rest] assms(2) show ?case by (auto simp: set_limits_def set_stops_def)
  qed
  from this [OF f] assms(2) obtain el where
    "s' = (set_list (foldl (\<lambda>xs x. remove1 x xs) pos cancels) s)\<lparr>event_log := el\<rparr>"
    by (auto simp: set_limits_def set_stops_def)
  with r that show ?thesis by blast
qed

section \<open>Phase 0\<close>

definition op_due :: "msc \<Rightarrow> pending_order \<Rightarrow> bool" where
  "op_due now po \<longleftrightarrow>
     (case in_flight_operation (execution_state po) of
        PENDING_MODIFY \<Rightarrow> (\<exists>m a. pending_modification (execution_state po) = Some m \<and> apply_at_msc m = Some a \<and> a \<le> now)
      | PENDING_CANCEL \<Rightarrow> (\<exists>a. cancel_apply_at_msc (execution_state po) = Some a \<and> a \<le> now)
      | _ \<Rightarrow> False)"

definition cancel_due :: "msc \<Rightarrow> pending_order \<Rightarrow> bool" where
  "cancel_due now po \<longleftrightarrow> in_flight_operation (execution_state po) = PENDING_CANCEL \<and> op_due now po"

lemma remove_due:
  "(\<And>x. x \<in> set ds \<Longrightarrow> D x) \<Longrightarrow>
   filter (\<lambda>x. \<not> D x) (foldl (\<lambda>xs x. remove1 x xs) xs ds) = filter (\<lambda>x. \<not> D x) xs"
proof (induction ds arbitrary: xs)
  case (Cons d ds)
  have "filter (\<lambda>x. \<not> D x) (remove1 d xs) = filter (\<lambda>x. \<not> D x) xs"
    using Cons.prems [of d] by (simp add: filter_remove1 remove1_idem)
  with Cons show ?case by simp
qed simp

lemma foldl_remove1_self:
  assumes "set_mset (mset xs - mset ds) \<subseteq> S"
  shows "set (foldl (\<lambda>xs x. remove1 x xs) xs ds) \<subseteq> S"
proof -
  have "mset (foldl (\<lambda>xs x. remove1 x xs) xs ds) = mset xs - mset ds"
    by (induction ds arbitrary: xs) (simp_all add: diff_union_swap2)
  with assms show ?thesis by (metis set_mset_mset)
qed

lemma remove_all_due:
  "foldl (\<lambda>xs x. remove1 x xs) xs (filter D xs) = filter (\<lambda>x. \<not> D x) xs"
proof -
  have "mset xs - mset (filter D xs) = filter_mset (\<lambda>x. \<not> D x) (mset xs)"
    by (metis add_diff_cancel_left' mset_filter multiset_partition)
  then have "set (foldl (\<lambda>xs x. remove1 x xs) xs (filter D xs)) \<subseteq> {x. \<not> D x}"
    by (intro foldl_remove1_self) auto
  then have "filter (\<lambda>x. \<not> D x) (foldl (\<lambda>xs x. remove1 x xs) xs (filter D xs)) = foldl (\<lambda>xs x. remove1 x xs) xs (filter D xs)"
    by (intro filter_True) auto
  with remove_due [of "filter D xs" D xs] show ?thesis by simp
qed

lemma apply_modification_idle:
  "apply_pending_modification po = Inr po' \<Longrightarrow>
   in_flight_operation (execution_state po') = OP_NONE \<and> pending_order_id po' = pending_order_id po"
  by (auto simp: apply_pending_modification_def split: option.splits)

lemma resolve_order_spec:
  assumes "resolve_order now po = Inr (po', due)"
  shows "due \<longleftrightarrow> cancel_due now po'" and "op_due now po' \<longrightarrow> due" and "pending_order_id po' = pending_order_id po"
    and "due \<longleftrightarrow> cancel_due now po" and "\<not> op_due now po \<longrightarrow> po' = po"
proof -
  have "(due \<longleftrightarrow> cancel_due now po') \<and> (op_due now po' \<longrightarrow> due) \<and> pending_order_id po' = pending_order_id po \<and>
    (due \<longleftrightarrow> cancel_due now po) \<and> (\<not> op_due now po \<longrightarrow> po' = po)"
  proof (cases "in_flight_operation (execution_state po)")
    case PENDING_MODIFY
    with assms show ?thesis
      by (auto simp: resolve_order_def Let_def cancel_due_def op_due_def
          dest: apply_modification_idle split: option.splits if_splits)
  next
    case PENDING_CANCEL
    with assms show ?thesis
      by (auto simp: resolve_order_def Let_def cancel_due_def op_due_def split: option.splits)
  qed (use assms in \<open>auto simp: resolve_order_def Let_def cancel_due_def op_due_def\<close>)
  then show "due \<longleftrightarrow> cancel_due now po'" "op_due now po' \<longrightarrow> due" "pending_order_id po' = pending_order_id po"
    "due \<longleftrightarrow> cancel_due now po" "\<not> op_due now po \<longrightarrow> po' = po" by blast+
qed

lemma resolve_orders_all:
  "resolve_orders now xs = Inr (pos, cancels) \<Longrightarrow>
   cancels = filter (cancel_due now) pos \<and>
   (\<forall>po\<in>set pos. op_due now po \<longrightarrow> cancel_due now po) \<and>
   map pending_order_id pos = map pending_order_id xs \<and>
   map pending_order_id (filter (\<lambda>po. \<not> cancel_due now po) pos) =
     map pending_order_id (filter (\<lambda>po. \<not> cancel_due now po) xs)"
proof (induction xs arbitrary: pos cancels)
  case (Cons x xs)
  from Cons.prems obtain x' due rest cs where x': "resolve_order now x = Inr (x', due)"
    and rest: "resolve_orders now xs = Inr (rest, cs)"
    and pos: "pos = x' # rest" and cancels: "cancels = (if due then x' # cs else cs)" by auto
  note sp = resolve_order_spec [OF x']
  have "cancel_due now x' = due" "cancel_due now x = due" using sp(1,4) by simp_all
  then show ?case
    using Cons.IH [OF rest] sp(2,3) unfolding pos cancels by (cases due) simp_all
qed simp

lemmas resolve_orders_spec =
  resolve_orders_all [THEN conjunct1]
  resolve_orders_all [THEN conjunct2, THEN conjunct1]
  resolve_orders_all [THEN conjunct2, THEN conjunct2, THEN conjunct1]
  resolve_orders_all [THEN conjunct2, THEN conjunct2, THEN conjunct2]

lemma resolve_list_result:
  assumes "resolve_list get_list set_list now s = Inr s'"
    and "(get_list, set_list) = (active_limit_orders, set_limits) \<or> (get_list, set_list) = (active_stop_orders, set_stops)"
  obtains pos el where "\<forall>po\<in>set pos. \<not> op_due now po" "s' = (set_list pos s)\<lparr>event_log := el\<rparr>"
    "map pending_order_id pos = map pending_order_id (filter (\<lambda>po. \<not> cancel_due now po) (get_list s))"
proof -
  from assms obtain pos cancels el where r: "resolve_orders now (get_list s) = Inr (pos, cancels)"
    and s': "s' = (set_list (foldl (\<lambda>xs x. remove1 x xs) pos cancels) s)\<lparr>event_log := el\<rparr>"
    by (rule resolve_list_spec)
  note ro = resolve_orders_spec [OF r]
  have kept: "foldl (\<lambda>xs x. remove1 x xs) pos cancels = filter (\<lambda>po. \<not> cancel_due now po) pos"
    by (simp add: ro(1) remove_all_due)
  show ?thesis
  proof (rule that)
    show "s' = (set_list (filter (\<lambda>po. \<not> cancel_due now po) pos) s)\<lparr>event_log := el\<rparr>"
      by (simp add: s' kept)
    show "\<forall>po\<in>set (filter (\<lambda>po. \<not> cancel_due now po) pos). \<not> op_due now po" using ro(2) by auto
  qed (rule ro(4))
qed

text \<open>Resolving leaves no due operation behind, keeps every order that is not cancelled, and touches
  nothing but the active lists, the event log and the levels of positions.\<close>

lemma resolve_position_spec:
  assumes "resolve_position_modification now pid s = Inr s'"
  shows "\<exists>pf d. s' = s\<lparr>ex_portfolio := pf, pending_position_modifications := d\<rparr> \<and> pf_run (ex_portfolio s) pf"
proof -
  consider "s' = s" | sl tp where "s' = s\<lparr>ex_portfolio := snd (pf_modify_position pid sl tp (ex_portfolio s)),
      pending_position_modifications := AList.delete pid (pending_position_modifications s)\<rparr>"
    using assms by (auto simp: resolve_position_modification_def split: option.splits if_splits)
  then show ?thesis
  proof cases
    case 1
    then show ?thesis
      by (intro exI [of _ "ex_portfolio s"] exI [of _ "pending_position_modifications s"]) simp
  next
    case (2 sl tp)
    obtain r pf where m: "pf_modify_position pid sl tp (ex_portfolio s) = (r, pf)" by (cases "pf_modify_position pid sl tp (ex_portfolio s)")
    with pf_step.pf_modify [OF m] 2 show ?thesis by auto
  qed
qed

lemma resolve_positions_spec:
  assumes "fold_res (resolve_position_modification now) pids s = Inr s'"
  shows "\<exists>pf d. s' = s\<lparr>ex_portfolio := pf, pending_position_modifications := d\<rparr> \<and> pf_run (ex_portfolio s) pf"
  using assms
proof (rule fold_res_inv)
  show "\<exists>pf d. s = s\<lparr>ex_portfolio := pf, pending_position_modifications := d\<rparr> \<and> pf_run (ex_portfolio s) pf"
    by (intro exI [of _ "ex_portfolio s"] exI [of _ "pending_position_modifications s"]) simp
next
  fix x u v
  assume "\<exists>pf d. u = s\<lparr>ex_portfolio := pf, pending_position_modifications := d\<rparr> \<and> pf_run (ex_portfolio s) pf"
    and "resolve_position_modification now x u = Inr v"
  then obtain pf d pf' d' where "u = s\<lparr>ex_portfolio := pf, pending_position_modifications := d\<rparr>"
    "pf_run (ex_portfolio s) pf" "v = u\<lparr>ex_portfolio := pf', pending_position_modifications := d'\<rparr>"
    "pf_run (ex_portfolio u) pf'" by (auto dest!: resolve_position_spec)
  then show "\<exists>pf d. v = s\<lparr>ex_portfolio := pf, pending_position_modifications := d\<rparr> \<and> pf_run (ex_portfolio s) pf"
    by (intro exI [of _ pf'] exI [of _ d']) auto
qed

lemma resolve_operations_result:
  assumes "resolve_pending_operations s = Inr s'" and "current_msc s = Inr now"
  obtains ls ss pf el d where
    "s' = s\<lparr>active_limit_orders := ls, active_stop_orders := ss, ex_portfolio := pf, event_log := el,
            pending_position_modifications := d\<rparr>"
    "pf_run (ex_portfolio s) pf"
    "\<forall>po\<in>set ls \<union> set ss. \<not> op_due now po"
    "map pending_order_id ls = map pending_order_id (filter (\<lambda>po. \<not> cancel_due now po) (active_limit_orders s))"
    "map pending_order_id ss = map pending_order_id (filter (\<lambda>po. \<not> cancel_due now po) (active_stop_orders s))"
proof -
  from assms obtain s1 s2 where s1: "resolve_list active_limit_orders set_limits now s = Inr s1"
    and s2: "resolve_list active_stop_orders set_stops now s1 = Inr s2"
    and s3: "fold_res (resolve_position_modification now) (keys_of (pending_position_modifications s2)) s2 = Inr s'"
    by (auto simp: resolve_pending_operations_def)
  from s1 obtain ls el1 where ls: "\<forall>po\<in>set ls. \<not> op_due now po" "s1 = (set_limits ls s)\<lparr>event_log := el1\<rparr>"
    "map pending_order_id ls = map pending_order_id (filter (\<lambda>po. \<not> cancel_due now po) (active_limit_orders s))"
    by (rule resolve_list_result) simp
  from s2 obtain ss el2 where ss: "\<forall>po\<in>set ss. \<not> op_due now po" "s2 = (set_stops ss s1)\<lparr>event_log := el2\<rparr>"
    "map pending_order_id ss = map pending_order_id (filter (\<lambda>po. \<not> cancel_due now po) (active_stop_orders s1))"
    by (rule resolve_list_result) simp
  from resolve_positions_spec [OF s3] obtain pf d where
    "s' = s2\<lparr>ex_portfolio := pf, pending_position_modifications := d\<rparr>" "pf_run (ex_portfolio s2) pf" by blast
  with ls(2) ss(2) have s': "s' = s\<lparr>active_limit_orders := ls, active_stop_orders := ss, ex_portfolio := pf,
      event_log := el2, pending_position_modifications := d\<rparr>" and run: "pf_run (ex_portfolio s) pf"
    by (simp_all add: set_limits_def set_stops_def)
  have ids: "map pending_order_id ss = map pending_order_id (filter (\<lambda>po. \<not> cancel_due now po) (active_stop_orders s))"
    using ss(3) ls(2) by (simp add: set_limits_def)
  from s' run _ ls(3) ids show ?thesis by (rule that) (use ls(1) ss(1) in auto)
qed

section \<open>Phases 2 and 3\<close>

lemma limit_reached_tick:
  "ex_tick s' = ex_tick s \<Longrightarrow> is_limit_price_reached po s' = is_limit_price_reached po s"
  "ex_tick s' = ex_tick s \<Longrightarrow> is_stop_price_reached po s' = is_stop_price_reached po s"
  by (simp_all add: is_limit_price_reached_def is_stop_price_reached_def)

lemma limit_reached_symbol:
  "ex_tick s = Some t \<Longrightarrow> order_symbol po \<noteq> Some (tick_symbol t) \<Longrightarrow> \<not> is_limit_price_reached po s"
  "ex_tick s = Some t \<Longrightarrow> order_symbol po \<noteq> Some (tick_symbol t) \<Longrightarrow> \<not> is_stop_price_reached po s"
  by (auto simp: is_limit_price_reached_def is_stop_price_reached_def order_symbol_def split: option.splits)

text \<open>A phase-2 pass keeps exactly the limit orders whose price is not reached, in order.\<close>

lemma monitor_limit_step:
  assumes "monitor_limit t po (s, rest) = Inr (s', rest')" and "ex_tick s = Some t"
  shows "fill_frame s s'" and "sim_advances s s'"
    and "rest' = rest @ (if is_limit_price_reached po s then [] else [po])"
proof -
  have "fill_frame s s' \<and> sim_advances s s' \<and> rest' = rest @ (if is_limit_price_reached po s then [] else [po])"
  proof (cases "order_symbol po = Some (tick_symbol t) \<and> is_limit_price_reached po s")
    case True
    with assms(1) obtain et ft where "fill_open_order po (order_entry_price po) et ft s = Inr s'" "rest' = rest"
      by (auto simp: monitor_limit_def)
    with True show ?thesis by (simp add: fill_open_run sim_advances_fill_open)
  next
    case False
    with assms limit_reached_symbol(1) [OF assms(2)] show ?thesis
      by (auto simp: monitor_limit_def split: if_splits)
  qed
  then show "fill_frame s s'" "sim_advances s s'" "rest' = rest @ (if is_limit_price_reached po s then [] else [po])"
    by simp_all
qed

lemma monitor_limits_fold:
  assumes "fold_res (monitor_limit t) pos (s, rest) = Inr (s', rest')" and "ex_tick s = Some t"
  shows "fill_frame s s' \<and> sim_advances s s' \<and> rest' = rest @ filter (\<lambda>po. \<not> is_limit_price_reached po s) pos"
  using assms
proof (induction pos arbitrary: s rest)
  case (Cons po pos)
  from Cons.prems(1) obtain s1 r1 where st: "monitor_limit t po (s, rest) = Inr (s1, r1)"
    and tail: "fold_res (monitor_limit t) pos (s1, r1) = Inr (s', rest')" by auto
  note m = monitor_limit_step [OF st Cons.prems(2)]
  have tick: "ex_tick s1 = ex_tick s" by (rule fill_frame_keeps(1) [OF m(1)])
  from Cons.IH [OF tail] tick Cons.prems(2) m show ?case
    by (auto simp: limit_reached_tick [OF tick] intro: fill_frame_trans sim_advances_trans)
qed simp

lemma monitor_limits_result:
  assumes "monitor_limits s = Inr s'" and "ex_tick s = Some t"
  shows "active_limit_orders s' = filter (\<lambda>po. \<not> is_limit_price_reached po s) (active_limit_orders s)"
    and "active_stop_orders s' = active_stop_orders s" and "ex_tick s' = ex_tick s" and "sim_advances s s'"
    and "clock_time s' = clock_time s" and "ex_mode s' = ex_mode s"
proof -
  from assms obtain s1 rest where f: "fold_res (monitor_limit t) (active_limit_orders s) (s, []) = Inr (s1, rest)"
    and s': "s' = s1\<lparr>active_limit_orders := rest\<rparr>" by (auto simp: monitor_limits_def)
  note m = monitor_limits_fold [OF f assms(2)]
  have k: "active_stop_orders s1 = active_stop_orders s" "ex_tick s1 = ex_tick s" "clock_time s1 = clock_time s"
    "ex_mode s1 = ex_mode s"
    using m by (simp_all add: fill_frame_keeps)
  show "active_limit_orders s' = filter (\<lambda>po. \<not> is_limit_price_reached po s) (active_limit_orders s)"
    using m by (simp add: s')
  show "sim_advances s s'" using m by (auto simp: s' sim_advances_def)
  show "active_stop_orders s' = active_stop_orders s" "ex_tick s' = ex_tick s" "clock_time s' = clock_time s"
    "ex_mode s' = ex_mode s" by (simp_all add: s' k)
qed

text \<open>Frame of the fills that may also queue a converted stop-limit order.\<close>

definition queue_frame :: "simulator \<Rightarrow> simulator \<Rightarrow> bool" where
  "queue_frame s s' \<longleftrightarrow> ex_tick s' = ex_tick s \<and> clock_time s' = clock_time s \<and> ex_mode s' = ex_mode s \<and>
     active_stop_orders s' = active_stop_orders s \<and> sim_advances s s' \<and>
     (\<forall>po\<in>set (active_limit_orders s'). po \<in> set (active_limit_orders s) \<or> \<not> is_limit_price_reached po s)"

lemma queue_frame_fill: "fill_open_order po fp et ft s = Inr s' \<Longrightarrow> queue_frame s s'"
  by (simp add: queue_frame_def sim_advances_fill_open fill_frame_keeps [OF fill_open_run(1)])

lemma queue_frame_convert: "convert_stop_limit_to_limit po s = Inr s' \<Longrightarrow> queue_frame s s'"
  by (auto simp: convert_stop_limit_to_limit_def Let_def queue_frame_fill split: if_splits)
     (auto simp: queue_frame_def queue_limit_def sim_advances_def)

lemma queue_frame_trans:
  assumes "queue_frame s t" and "queue_frame t u"
  shows "queue_frame s u"
proof -
  have "is_limit_price_reached po t = is_limit_price_reached po s" for po
    using assms(1) by (intro limit_reached_tick) (simp add: queue_frame_def)
  with assms show ?thesis
    unfolding queue_frame_def using sim_advances_trans [of s t u] by auto
qed

lemma monitor_stop_step:
  assumes "monitor_stop t po (s, rest) = Inr (s', rest')" and "ex_tick s = Some t"
  shows "queue_frame s s' \<and> rest' = rest @ (if is_stop_price_reached po s then [] else [po])"
proof (cases "order_symbol po = Some (tick_symbol t) \<and> is_stop_price_reached po s")
  case True
  with assms(1) have "(fill_open_order po None ET_STOP FT_STOP s = Inr s' \<or> convert_stop_limit_to_limit po s = Inr s' \<or> s' = s)
      \<and> rest' = rest"
    by (auto simp: monitor_stop_def split: if_splits)
  with True show ?thesis by (auto simp: queue_frame_fill queue_frame_convert) (simp add: queue_frame_def)
next
  case False
  with assms limit_reached_symbol(2) [OF assms(2)] show ?thesis
    by (auto simp: monitor_stop_def queue_frame_def split: if_splits)
qed

lemma monitor_stops_fold:
  assumes "fold_res (monitor_stop t) pos (s, rest) = Inr (s', rest')" and "ex_tick s = Some t"
  shows "queue_frame s s' \<and> rest' = rest @ filter (\<lambda>po. \<not> is_stop_price_reached po s) pos"
  using assms
proof (induction pos arbitrary: s rest)
  case Nil
  then show ?case by (simp add: queue_frame_def)
next
  case (Cons po pos)
  from Cons.prems(1) obtain s1 r1 where st: "monitor_stop t po (s, rest) = Inr (s1, r1)"
    and tail: "fold_res (monitor_stop t) pos (s1, r1) = Inr (s', rest')" by auto
  note m = monitor_stop_step [OF st Cons.prems(2)]
  have tick: "ex_tick s1 = ex_tick s" using m by (simp add: queue_frame_def)
  from Cons.IH [OF tail] tick Cons.prems(2) m show ?case
    by (auto simp: limit_reached_tick [OF tick] intro: queue_frame_trans)
qed

lemma monitor_stops_result:
  assumes "monitor_stops s = Inr s'" and "ex_tick s = Some t"
  shows "active_stop_orders s' = filter (\<lambda>po. \<not> is_stop_price_reached po s) (active_stop_orders s)"
    and "ex_tick s' = ex_tick s" and "sim_advances s s'" and "ex_mode s' = ex_mode s" and "clock_time s' = clock_time s"
    and "\<forall>po\<in>set (active_limit_orders s'). po \<in> set (active_limit_orders s) \<or> \<not> is_limit_price_reached po s"
proof -
  from assms obtain s1 rest where f: "fold_res (monitor_stop t) (active_stop_orders s) (s, []) = Inr (s1, rest)"
    and s': "s' = s1\<lparr>active_stop_orders := rest\<rparr>" by (auto simp: monitor_stops_def)
  note m = monitor_stops_fold [OF f assms(2)]
  then show "active_stop_orders s' = filter (\<lambda>po. \<not> is_stop_price_reached po s) (active_stop_orders s)"
    "ex_tick s' = ex_tick s" "sim_advances s s'" "ex_mode s' = ex_mode s" "clock_time s' = clock_time s"
    "\<forall>po\<in>set (active_limit_orders s'). po \<in> set (active_limit_orders s) \<or> \<not> is_limit_price_reached po s"
    by (simp_all add: s' queue_frame_def sim_advances_def)
qed

section \<open>Ticks and heartbeats\<close>

definition same_tick :: "simulator \<Rightarrow> simulator \<Rightarrow> bool" where
  "same_tick s s' \<longleftrightarrow> ex_tick s' = ex_tick s \<and> ex_mode s' = ex_mode s \<and> clock_time s' = clock_time s"

lemma same_tick_refl [simp]: "same_tick s s"
  by (simp add: same_tick_def)

lemma same_tick_trans: "same_tick s t \<Longrightarrow> same_tick t u \<Longrightarrow> same_tick s u"
  by (simp add: same_tick_def)

lemma same_tick_fill:
  "fill_frame s s' \<Longrightarrow> same_tick s s'" by (simp add: same_tick_def fill_frame_keeps)

lemma same_tick_accept: "accept_open_order po s = Inr s' \<Longrightarrow> same_tick s s'"
proof -
  assume a: "accept_open_order po s = Inr s'"
  have "(\<exists>fp et ft. fill_open_order po fp et ft s = Inr s') \<or> s' = queue_limit po s \<or> s' = queue_stop po s \<or>
      convert_stop_limit_to_limit po s = Inr s'"
    using a by (auto simp: accept_open_order_def split: option.splits order_type.splits if_splits)
  then show ?thesis
  proof (elim disjE exE)
    fix fp et ft assume "fill_open_order po fp et ft s = Inr s'"
    then show ?thesis by (intro same_tick_fill fill_open_run(1))
  next
    assume "convert_stop_limit_to_limit po s = Inr s'"
    then have "queue_frame s s'" by (rule queue_frame_convert)
    then show ?thesis by (simp add: queue_frame_def same_tick_def)
  qed (simp_all add: queue_limit_def queue_stop_def same_tick_def)
qed

lemma same_tick_resolved:
  assumes "fill_resolved_order po s = Inr s'"
  shows "same_tick s s'"
proof (cases "po_order_action po")
  case PA_OPEN
  obtain rej s1 where st: "stress_test_should_reject po s = (rej, s1)" by (cases "stress_test_should_reject po s")
  have "same_tick s s1"
    using st by (auto simp: stress_test_should_reject_def same_tick_def append_order_history_def Let_def case_prod_beta
        split: option.splits if_splits)
  moreover have "same_tick s1 s'"
    using assms PA_OPEN st
    by (cases rej) (auto simp: fill_resolved_order_def sim_record_outcome_def same_tick_def
        dest!: same_tick_accept)
  ultimately show ?thesis by (rule same_tick_trans)
next
  case PA_CLOSE
  with assms obtain s2 where "fill_close_order po None CR_MANUAL s = Inr s2" "s' = sim_record_outcome po PO_FILLED s2"
    by (auto simp: fill_resolved_order_def)
  with same_tick_fill [OF fill_close_run(1)] show ?thesis
    by (auto simp: same_tick_def sim_record_outcome_def)
qed

lemma same_tick_drain: "drain_latency now s = Inr s' \<Longrightarrow> same_tick s s'"
proof -
  assume "drain_latency now s = Inr s'"
  then obtain ready q where "fold_res fill_resolved_order ready (s\<lparr>latency_sim := q\<rparr>) = Inr s'"
    by (auto simp: drain_latency_def fill_resolved_orders_def)
  then show ?thesis
    by (rule fold_res_inv [where P = "same_tick s"]) (simp add: same_tick_def, blast intro: same_tick_trans same_tick_resolved)
qed

lemma resolve_operations_advances:
  assumes "resolve_pending_operations s = Inr s'"
  shows "sim_advances s s' \<and> same_tick s s'"
proof -
  from assms obtain now where now: "current_msc s = Inr now"
    by (auto simp: resolve_pending_operations_def)
  from assms now show ?thesis
    by (rule resolve_operations_result) (auto simp: sim_advances_def same_tick_def)
qed

text \<open>What holds of the resting orders after the four phases of a tick.\<close>

lemma process_pending_result:
  assumes "process_pending_orders s = Inr s'" and "ex_tick s = Some t"
  shows "sim_advances s s'" and "same_tick s s'"
    and "\<forall>po\<in>set (active_limit_orders s'). \<not> is_limit_price_reached po s'"
    and "\<forall>po\<in>set (active_stop_orders s'). \<not> is_stop_price_reached po s'"
proof -
  from assms(1) obtain s0 now s1 s2 where s0: "resolve_pending_operations s = Inr s0"
    and s1: "drain_latency now s0 = Inr s1" and s2: "monitor_limits s1 = Inr s2" and s3: "monitor_stops s2 = Inr s'"
    by (auto simp: process_pending_orders_def)
  note r0 = resolve_operations_advances [OF s0]
  have t1: "same_tick s s1" using r0 same_tick_drain [OF s1] by (blast intro: same_tick_trans)
  then have tick1: "ex_tick s1 = Some t" using assms(2) by (simp add: same_tick_def)
  note m2 = monitor_limits_result [OF s2 tick1]
  have tick2: "ex_tick s2 = Some t" using m2(3) tick1 by simp
  note m3 = monitor_stops_result [OF s3 tick2]
  show "sim_advances s s'"
    using r0 sim_advances_drain [OF s1] m2(4) m3(3) by (blast intro: sim_advances_trans)
  show tick: "same_tick s s'" using t1 m2 m3 by (simp add: same_tick_def)
  have e: "ex_tick s' = ex_tick s2" "ex_tick s2 = ex_tick s1" using m3(2) m2(3) by simp_all
  have "\<forall>po\<in>set (active_limit_orders s2). \<not> is_limit_price_reached po s2"
    by (simp add: m2(1) limit_reached_tick [OF e(2)])
  with m3(6) show "\<forall>po\<in>set (active_limit_orders s'). \<not> is_limit_price_reached po s'"
    by (auto simp: limit_reached_tick [OF e(1)])
  show "\<forall>po\<in>set (active_stop_orders s'). \<not> is_stop_price_reached po s'"
    by (simp add: m3(1) limit_reached_tick [OF e(1)])
qed

lemma begin_tick_advances: "sim_advances s (begin_tick t s)" "ex_tick (begin_tick t s) = Some t"
  "ex_mode (begin_tick t s) = ex_mode s"
proof -
  have "pf_run (ex_portfolio s) (mark_dirty t ((ex_portfolio s)\<lparr>pf_clock := Some (tick_timestamp t)\<rparr>))"
    by (rule rtranclp.rtrancl_into_rtrancl, rule r_into_rtranclp, rule pf_step.pf_clock, rule pf_step.pf_tick)
  then show "sim_advances s (begin_tick t s)"
    by (simp add: sim_advances_def begin_tick_def set_clock_def Let_def)
qed (simp_all add: begin_tick_def set_clock_def Let_def)

lemma on_tick_result:
  assumes "sim_on_tick t s = Inr s'"
  obtains s1 where "process_pending_orders (begin_tick t s) = Inr s1" "check_sl_tp_triggers t s1 = Inr s'"
    "sim_advances s s1" "sim_advances s s'" "ex_mode s1 = ex_mode s" "ex_tick s1 = Some t"
    "active_limit_orders s' = active_limit_orders s1" "active_stop_orders s' = active_stop_orders s1"
proof -
  from assms obtain s1 where s1: "process_pending_orders (begin_tick t s) = Inr s1" "check_sl_tp_triggers t s1 = Inr s'"
    by (auto simp: sim_on_tick_def on_tick_def)
  note p = process_pending_result [OF s1(1) begin_tick_advances(2)]
  note c = check_triggers_run [OF s1(2)]
  have a1: "sim_advances s s1" using begin_tick_advances(1) p(1) by (rule sim_advances_trans)
  have "latency_sim s' = latency_sim s1" using c by (intro same_more(1)) simp
  then have "sim_advances s1 s'" using c by (simp add: sim_advances_def)
  with a1 have a2: "sim_advances s s'" by (rule sim_advances_trans)
  from s1 a1 a2 show ?thesis
    by (rule that) (use p(2) c in \<open>simp_all add: same_tick_def begin_tick_advances\<close>)
qed

lemma heartbeat_advances: "heartbeat s = Inr s' \<Longrightarrow> sim_advances s s'"
  by (auto simp: heartbeat_def split: option.splits dest!: resolve_operations_advances sim_advances_drain
      intro: sim_advances_trans)

section \<open>Orders\<close>

lemma open_order_advances:
  assumes "open_order rq0 s = Inr (r, s')"
  shows "sim_advances s s'"
proof -
  from assms obtain rq where rq: "normalize_order_request rq0 s = Inr rq" by (auto simp: open_order_def)
  obtain oid pf where id: "get_next_position_id (rq_symbol rq) (ex_portfolio s) = (oid, pf)"
    by (cases "get_next_position_id (rq_symbol rq) (ex_portfolio s)")
  define s1 where "s1 = s\<lparr>orders_sent := orders_sent s + 1, order_counter := order_counter s + 1, ex_portfolio := pf\<rparr>"
  have "pf_step (ex_portfolio s) pf" using pf_step.pf_id [of "ex_portfolio s" "rq_symbol rq"] id by simp
  then have a: "sim_advances s s1" by (auto simp: sim_advances_def s1_def)
  have rej: "sim_advances s1 (snd (reject_open oid reason s1))" for reason
    by (simp add: reject_open_def Let_def sim_advances_def append_order_history_def)
  have sub: "submit_open oid rq md s1 = Inr (r, s') \<Longrightarrow> sim_advances s1 s'" for md
    by (auto simp: submit_open_def Let_def sim_advances_def append_order_history_def
        split: option.splits)
  consider reason where "Inr (reject_open oid reason s1) = (Inr (r, s') :: (order_result \<times> simulator) res)"
    | md where "submit_open oid rq md s1 = Inr (r, s')"
    using assms
    by (auto simp: open_order_def rq id Let_def s1_def [symmetric] route_order_def
        split: if_splits order_type.splits)
  then have "sim_advances s1 s'"
  proof cases
    case (1 reason)
    then have "s' = snd (reject_open oid reason s1)" by (simp add: prod_eq_iff)
    with rej show ?thesis by simp
  next
    case (2 md)
    then show ?thesis by (rule sub)
  qed
  with a show ?thesis by (rule sim_advances_trans)
qed

lemma close_position_advances: "close_position pid l s = Inr (r, s') \<Longrightarrow> sim_advances s s'"
  by (auto simp: close_position_def Let_def sim_advances_def split: option.splits)

lemma cancel_advances:
  "cancel_limit_order oid s = Inr (b, s') \<Longrightarrow> sim_advances s s'"
  "cancel_stop_order oid s = Inr (b, s') \<Longrightarrow> sim_advances s s'"
  by (auto simp: cancel_limit_order_def cancel_stop_order_def cancel_in_list_def sim_advances_def
      set_limits_def set_stops_def Let_def split: option.splits if_splits)

lemma modify_order_advances:
  "modify_limit_order oid x sl tp s = Inr (r, s') \<Longrightarrow> sim_advances s s'"
  "modify_stop_order oid x y sl tp s = Inr (r, s') \<Longrightarrow> sim_advances s s'"
  by (auto simp: modify_limit_order_def modify_stop_order_def sim_advances_def
      set_limits_def set_stops_def Let_def split: option.splits if_splits)

lemma modify_position_advances:
  assumes "sim_modify_position pid sl tp s = Inr (r, s')"
  shows "sim_advances s s'"
proof (cases "native_position_sl_tp (br_capabilities (ex_broker s))")
  case True
  with assms show ?thesis
    by (auto simp: sim_modify_position_def sim_advances_def Let_def split: option.splits if_splits)
next
  case False
  obtain r' pf where m: "pf_modify_position pid sl tp (ex_portfolio s) = (r', pf)"
    by (cases "pf_modify_position pid sl tp (ex_portfolio s)")
  with False assms have "s' = s\<lparr>ex_portfolio := pf\<rparr>" by (simp add: sim_modify_position_def)
  with pf_step.pf_modify [OF m] show ?thesis by (simp add: sim_advances_portfolio)
qed

section \<open>Cleanup\<close>

lemma expire_keeps:
  assumes "expire_active_orders (s :: simulator) = Inr s'"
  shows "ex_portfolio s' = ex_portfolio s \<and> latency_sim s' = latency_sim s \<and> outcome_log s' = outcome_log s \<and>
    ex_mode s' = ex_mode s"
proof -
  have one: "ex_portfolio v = ex_portfolio u \<and> latency_sim v = latency_sim u \<and> outcome_log v = outcome_log u \<and>
      ex_mode v = ex_mode u"
    if "expire_order d po u = Inr v" for d po and u v :: simulator
    using that by (auto simp: expire_order_def append_order_history_def)
  have many: "ex_portfolio v = ex_portfolio u \<and> latency_sim v = latency_sim u \<and> outcome_log v = outcome_log u \<and>
      ex_mode v = ex_mode u"
    if "fold_res (expire_order d) pos u = Inr v" for d pos and u v :: simulator
    using that by (rule fold_res_inv [where P = "\<lambda>w. ex_portfolio w = ex_portfolio u \<and> latency_sim w = latency_sim u \<and>
        outcome_log w = outcome_log u \<and> ex_mode w = ex_mode u"]) (auto dest: one)
  from assms obtain s1 where first: "fold_res (expire_order ''limit'') (active_limit_orders s) s = Inr s1"
    and second: "fold_res (expire_order ''stop'') (active_stop_orders s1) s1 = Inr s'"
    by (auto simp: expire_active_orders_def)
  from many [OF first] many [OF second] show ?thesis by simp
qed

lemma close_all_result:
  assumes "close_all_remaining_orders now s = Inr s'" and "pf_inv (ex_portfolio s)"
  shows "open_positions (ex_portfolio s') = []" and "pending_orders (latency_sim s') = []"
    and "pending_position_modifications s' = []"
proof -
  from assms(1) obtain s1 s2 where
    s1: "fold_res (\<lambda>p. fill_close_order (create_synthetic_close_order (position_id p)) None SCENARIO_END)
           (get_open_positions (ex_portfolio s)) s = Inr s1"
    and s2: "expire_active_orders s1 = Inr s2"
    and s': "s' = s2\<lparr>latency_sim := clear_pending (Some now) (wall_now s2) ''scenario_end'' (latency_sim s2),
                 pending_position_modifications := []\<rparr>"
    by (auto simp: close_all_remaining_orders_def)
  note ek = expire_keeps [OF s2]
  from close_all_positions [OF s1 assms(2)] have "open_positions (ex_portfolio s1) = []" .
  with ek show "open_positions (ex_portfolio s') = []" by (simp add: s')
  show "pending_orders (latency_sim s') = []" "pending_position_modifications s' = []"
    by (simp_all add: s' clear_pending_spec)
qed

lemma close_all_advances:
  assumes "close_all_remaining_orders now s = Inr s'"
  shows "sim_advances s s'"
proof -
  from assms obtain s1 s2 where
    s1: "fold_res (\<lambda>p. fill_close_order (create_synthetic_close_order (position_id p)) None SCENARIO_END)
           (get_open_positions (ex_portfolio s)) s = Inr s1"
    and s2: "expire_active_orders s1 = Inr s2"
    and s': "s' = s2\<lparr>latency_sim := clear_pending (Some now) (wall_now s2) ''scenario_end'' (latency_sim s2),
                 pending_position_modifications := []\<rparr>"
    by (auto simp: close_all_remaining_orders_def)
  have "sim_advances s s1" using s1 by (rule sim_advances_fold) (rule sim_advances_fill_close)
  moreover have "sim_advances s1 s'"
    using expire_keeps [OF s2] by (simp add: s' sim_advances_def)
  ultimately show "sim_advances s s'" by (rule sim_advances_trans)
qed

section \<open>The simulator as a state machine\<close>

inductive sim_step :: "simulator \<Rightarrow> simulator \<Rightarrow> bool" where
  sim_tick: "sim_on_tick t s = Inr s' \<Longrightarrow> sim_step s s'"
| sim_heartbeat: "heartbeat s = Inr s' \<Longrightarrow> sim_step s s'"
| sim_time: "sim_step s (set_clock t s)"
| sim_status: "sim_step s (s\<lparr>market_status := st\<rparr>)"
| sim_wall: "sim_step s (s\<lparr>wall_now := t\<rparr>)"
| sim_open: "open_order rq s = Inr (r, s') \<Longrightarrow> sim_step s s'"
| sim_close: "close_position pid l s = Inr (r, s') \<Longrightarrow> sim_step s s'"
| sim_cancel_limit: "cancel_limit_order oid s = Inr (b, s') \<Longrightarrow> sim_step s s'"
| sim_cancel_stop: "cancel_stop_order oid s = Inr (b, s') \<Longrightarrow> sim_step s s'"
| sim_modify_limit: "modify_limit_order oid x sl tp s = Inr (mr, s') \<Longrightarrow> sim_step s s'"
| sim_modify_stop: "modify_stop_order oid x y sl tp s = Inr (mr, s') \<Longrightarrow> sim_step s s'"
| sim_modify_pos: "sim_modify_position pid sl tp s = Inr (mr, s') \<Longrightarrow> sim_step s s'"
| sim_guard: "sim_step s (record_guard_rejection r s)"
| sim_session_end: "sim_step s (request_session_end reason sev s)"
| sim_close_all: "close_all_remaining_orders now s = Inr s' \<Longrightarrow> sim_step s s'"

definition sim_fresh :: "simulator \<Rightarrow> bool" where
  "sim_fresh s \<longleftrightarrow>
     (\<exists>br ib cur ohmax thmax spot ibs roll g flt sink now.
        delays_in_range g \<and> s = simulator_init br ib cur ohmax thmax spot ibs roll g flt sink now)"

lemma sim_fresh_parts:
  assumes "sim_fresh s"
  shows "pf_fresh (ex_portfolio s)" "latency_fresh (latency_sim s)" "outcome_log s = []" "ex_mode s = SIMULATION"
proof -
  from assms obtain br ib cur ohmax thmax spot ibs roll g flt sink now where g: "delays_in_range g"
    and s: "s = simulator_init br ib cur ohmax thmax spot ibs roll g flt sink now"
    unfolding sim_fresh_def by blast
  obtain lev call stopout where l: "account_leverage br = (lev, call, stopout)" by (cases "account_leverage br")
  have "ex_portfolio s = portfolio_init ib cur br lev call stopout thmax spot ibs None roll"
    by (simp add: s simulator_init_def l)
  then show "pf_fresh (ex_portfolio s)" unfolding pf_fresh_def by blast
  have "latency_sim s = new_latency g" by (simp add: s simulator_init_def l)
  with g show "latency_fresh (latency_sim s)" unfolding latency_fresh_def by blast
  show "outcome_log s = []" "ex_mode s = SIMULATION" by (simp_all add: s simulator_init_def l)
qed

lemma sim_advances_bookkeeping:
  "sim_advances s (set_clock t s)" "sim_advances s (s\<lparr>market_status := st\<rparr>)" "sim_advances s (s\<lparr>wall_now := w\<rparr>)"
  "sim_advances s (record_guard_rejection r s)" "sim_advances s (request_session_end reason sev s)"
  by (simp_all add: sim_advances_def set_clock_def record_guard_rejection_def append_order_history_def
      check_order_history_limit_def request_session_end_def)

lemma sim_step_advances: "sim_step s s' \<Longrightarrow> sim_advances s s'"
proof (induction rule: sim_step.induct)
  case (sim_tick t s s')
  then show ?case by (rule on_tick_result)
qed (blast intro: heartbeat_advances open_order_advances close_position_advances cancel_advances
      modify_order_advances modify_position_advances close_all_advances sim_advances_bookkeeping)+

interpretation sim_portfolio: embedded_machine pf_fresh pf_step pf_inv sim_fresh sim_step ex_portfolio
  by unfold_locales (auto simp: sim_advances_def dest: sim_step_advances sim_fresh_parts)

interpretation sim_latency: embedded_machine latency_fresh latency_step latency_inv sim_fresh sim_step latency_sim
  by unfold_locales (auto simp: sim_advances_def dest: sim_step_advances sim_fresh_parts)

section \<open>Spot fills never overdraw\<close>

definition paid_currency :: "order_direction \<Rightarrow> symbol_spec \<Rightarrow> string" where
  "paid_currency d sp = (if d = LONG then quote_currency sp else base_currency sp)"

lemma spot_fill_funded:
  fixes s s' :: "'a executor_scheme"
  assumes fill: "fill_open_order po fp et ft s = Inr s'" and os: "po_open po = Some os"
    and pair: "spot_pair (ex_portfolio s) (os_symbol os) sp" and lev: "get_leverage (ex_broker s) \<le> 1"
    and funded: "0 \<le> get_asset_balance (ex_portfolio s) (paid_currency (os_direction os) sp)"
  shows "0 \<le> get_asset_balance (ex_portfolio s') (paid_currency (os_direction os) sp)"
  using fill
proof (rule fill_open_cases)
  fix t ba tv f rej and os1 :: open_spec and sp1 :: symbol_spec and s1 :: "'a executor_scheme"
  let ?entry = "fill_entry_price fp (os_direction os1) ba"
  assume po: "po_open po = Some os1"
    and spec: "get_symbol_specification (ex_broker s) (os_symbol os1) = Inr sp1"
    and cap: "check_capacity os1 sp1 ?entry f t s = Inr (rej, s1)"
    and fee: "create_entry_fee sp1 (os_lots os1) ?entry tv (is_maker_entry et) t s = Inr f"
    and fin: "case rej of Some reason \<Rightarrow> s' = reject_fill po (os_direction os1) reason s1
       | None \<Rightarrow> book_open po os1 ?entry et ft sp1 tv ba f s1 = Inr s'"
  from po os have [simp]: "os1 = os" by simp
  from spec pair have [simp]: "sp1 = sp" by (simp add: spot_pair_def)
  from pair have spot: "spot_mode (ex_portfolio s)" and ne: "base_currency sp \<noteq> quote_currency sp"
    by (auto simp: spot_pair_def)
  from cap lev spot have [simp]: "s1 = s"
    and rej: "rej = (if os_direction os = LONG
             then (if os_lots os * ?entry + fee_cost f > get_asset_balance (ex_portfolio s) (quote_currency sp)
                   then Some INSUFFICIENT_FUNDS else None)
             else (if os_lots os > get_asset_balance (ex_portfolio s) (base_currency sp)
                   then Some INSUFFICIENT_FUNDS else None))"
    by (auto simp: check_capacity_def)
  show ?thesis
  proof (cases rej)
    case (Some reason)
    with fin funded show ?thesis by (simp add: reject_fill_def Let_def)
  next
    case None
    with fin have "book_open po os ?entry et ft sp tv ba f s = Inr s'" by simp
    from book_open_run(6) [OF this create_entry_fee_typed [OF fee]] obtain a p where
      o: "open_position a (ex_portfolio s) = Inr (p, ex_portfolio s')" and
      a: "oa_symbol a = os_symbol os" "oa_direction a = os_direction os" "oa_lots a = os_lots os"
        "oa_entry_price a = ?entry" "oa_entry_fee a = Some f" by auto
    from pair a have "spot_pair (ex_portfolio s) (oa_symbol a) sp" by simp
    note b = spot_open_balances(1) [OF this o]
    from None rej ne show ?thesis
      by (auto simp: b a paid_currency_def signed_lots_def opt_fee_cost_def split: if_splits)
  qed
qed

end
