(* ===== verification/Decision_Api.thy ===== *)
theory Decision_Api
  imports Order_Guard Market_Clock Stale_Stress Simulator_Laws
begin

text \<open>
  The interface decision logics trade through, \<open>src/python/framework/trading_env/decision_trading_api.py\<close>,
  over the simulator. The interface owns the order guard and listens to the executor's order outcomes.
  The executor's model records every notification in its \<open>outcome_log\<close>; \<open>listen\<close> replays the entries an
  executor call has added, with the clock of that call, into the guard. The clock is set before the
  first notification of a tick and not touched until the next one, so replaying after the call and
  listening during it read the same time.
\<close>

section \<open>State and construction\<close>

record trading_api =
  api_executor :: simulator
  api_guard :: order_guard
  api_capabilities :: order_capabilities

record order_guard_defaults =
  ogd_cooldown_seconds :: rat
  ogd_max_consecutive_rejections :: int
  ogd_block_stale_market_data :: bool

definition default_guard_config :: order_guard_defaults where
  "default_guard_config =
     \<lparr>ogd_cooldown_seconds = 60, ogd_max_consecutive_rejections = 2, ogd_block_stale_market_data = True\<rparr>"

definition cooldown_reason :: "rejection_reason \<Rightarrow> bool" where
  "cooldown_reason r = (r \<in> {INSUFFICIENT_MARGIN, INSUFFICIENT_FUNDS, BROKER_ERROR, MARKET_CLOSED})"

definition validate_order_types :: "order_capabilities \<Rightarrow> order_type list \<Rightarrow> unit res" where
  "validate_order_types caps required =
     (if filter (\<lambda>t. \<not> supports_order_type caps t) required \<noteq> [] then Inl ValueError else Inr ())"

definition get_supported_order_types :: "order_capabilities \<Rightarrow> order_type list" where
  "get_supported_order_types caps =
     filter (supports_order_type caps) [OT_MARKET, OT_LIMIT, OT_STOP, OT_STOP_LIMIT, OT_TRAILING_STOP, OT_ICEBERG]"

definition api_init :: "simulator \<Rightarrow> order_type list \<Rightarrow> order_guard_defaults option \<Rightarrow> trading_api res" where
  "api_init s required cfg =
     (let caps = br_capabilities (ex_broker s);
          gc = with_default default_guard_config cfg
      in bind_res (validate_order_types caps required) (\<lambda>_.
           Inr \<lparr>api_executor = s,
                api_guard = new_guard (ogd_cooldown_seconds gc) (ogd_max_consecutive_rejections gc) (ogd_block_stale_market_data gc),
                api_capabilities = caps\<rparr>))"

section \<open>Outcomes\<close>

definition api_on_order_outcome ::
  "instant res \<Rightarrow> order_direction \<times> order_result \<times> pending_order option \<Rightarrow> order_guard \<Rightarrow> order_guard res" where
  "api_on_order_outcome clock = (\<lambda>(d, r, _) g.
     if is_rejected r
     then (if (case or_rejection_reason r of None \<Rightarrow> False | Some rr \<Rightarrow> cooldown_reason rr)
           then bind_res clock (\<lambda>now. Inr (record_rejection d now g)) else Inr g)
     else if or_status r = OS_EXECUTED then Inr (record_success d g)
     else Inr g)"

definition listen :: "simulator \<Rightarrow> simulator \<Rightarrow> order_guard \<Rightarrow> order_guard res" where
  "listen before now g =
     fold_res (api_on_order_outcome (get_current_time now)) (drop (length (outcome_log before)) (outcome_log now)) g"

definition executor_call :: "(simulator \<Rightarrow> ('r \<times> simulator) res) \<Rightarrow> trading_api \<Rightarrow> ('r \<times> trading_api) res" where
  "executor_call f a =
     bind_res (f (api_executor a)) (\<lambda>(r, s).
       bind_res (listen (api_executor a) s (api_guard a)) (\<lambda>g.
         Inr (r, a\<lparr>api_executor := s, api_guard := g\<rparr>)))"

definition no_result :: "(simulator \<Rightarrow> simulator res) \<Rightarrow> simulator \<Rightarrow> (unit \<times> simulator) res" where
  "no_result f s = bind_res (f s) (\<lambda>s'. Inr ((), s'))"

section \<open>Sending orders\<close>

definition send_order ::
  "string \<Rightarrow> string \<Rightarrow> order_type \<Rightarrow> order_side \<Rightarrow> lots \<Rightarrow> price option \<Rightarrow> price option \<Rightarrow> price option \<Rightarrow>
   price option \<Rightarrow> string \<Rightarrow> trading_api \<Rightarrow> (order_result \<times> trading_api) res" where
  "send_order hex smb ot side l price stop sl tp cmt a =
     (let direction = resolve_order_side side;
          rq = \<lparr>rq_symbol = smb, rq_order_type = ot, rq_direction = direction, rq_lots = l, rq_price = price,
                rq_stop_price = stop, rq_stop_loss = sl, rq_take_profit = tp, rq_comment = cmt\<rparr>
      in bind_res (get_current_time (api_executor a)) (\<lambda>now.
           case validate hex rq now (Some (market_status (api_executor a))) (api_guard a) of
             Some r \<Rightarrow> Inr (r, a\<lparr>api_executor := record_guard_rejection r (api_executor a)\<rparr>)
           | None \<Rightarrow>
               bind_res (executor_call (open_order rq) a) (\<lambda>(r, a').
                 Inr (r, if is_rejected r \<and> (case or_rejection_reason r of None \<Rightarrow> False | Some rr \<Rightarrow> cooldown_reason rr)
                         then a'\<lparr>api_guard := record_rejection direction now (api_guard a')\<rparr> else a'))))"

section \<open>Forwarders\<close>

definition api_get_open_positions :: "string option \<Rightarrow> trading_api \<Rightarrow> position list" where
  "api_get_open_positions smb a =
     (let ps = get_open_positions (ex_portfolio (api_executor a))
      in if truthy_str smb then filter (\<lambda>p. Some (pos_symbol p) = smb) ps else ps)"

definition api_close_position :: "string \<Rightarrow> lots option \<Rightarrow> trading_api \<Rightarrow> (order_result \<times> trading_api) res" where
  "api_close_position pid l = executor_call (close_position pid l)"

definition api_modify_position ::
  "string \<Rightarrow> price option update_arg \<Rightarrow> price option update_arg \<Rightarrow> trading_api \<Rightarrow> (modification_result \<times> trading_api) res" where
  "api_modify_position pid sl tp = executor_call (sim_modify_position pid sl tp)"

definition api_modify_limit_order ::
  "string \<Rightarrow> price update_arg \<Rightarrow> price option update_arg \<Rightarrow> price option update_arg \<Rightarrow> trading_api \<Rightarrow>
   (modification_result \<times> trading_api) res" where
  "api_modify_limit_order oid p sl tp = executor_call (modify_limit_order oid p sl tp)"

definition api_modify_stop_order ::
  "string \<Rightarrow> price update_arg \<Rightarrow> price update_arg \<Rightarrow> price option update_arg \<Rightarrow> price option update_arg \<Rightarrow> trading_api \<Rightarrow>
   (modification_result \<times> trading_api) res" where
  "api_modify_stop_order oid sp lp sl tp = executor_call (modify_stop_order oid sp lp sl tp)"

definition api_cancel_limit_order :: "string \<Rightarrow> trading_api \<Rightarrow> (bool \<times> trading_api) res" where
  "api_cancel_limit_order oid = executor_call (cancel_limit_order oid)"

definition api_cancel_stop_order :: "string \<Rightarrow> trading_api \<Rightarrow> (bool \<times> trading_api) res" where
  "api_cancel_stop_order oid = executor_call (cancel_stop_order oid)"

definition api_get_account_info :: "order_direction \<Rightarrow> trading_api \<Rightarrow> (account_info \<times> trading_api) res" where
  "api_get_account_info d a =
     bind_res (get_account_info d (ex_portfolio (api_executor a))) (\<lambda>(ai, pf).
       Inr (ai, a\<lparr>api_executor := (api_executor a)\<lparr>ex_portfolio := pf\<rparr>\<rparr>))"

definition api_request_session_end :: "string \<Rightarrow> session_end_severity \<Rightarrow> trading_api \<Rightarrow> trading_api" where
  "api_request_session_end reason sev a = a\<lparr>api_executor := request_session_end reason sev (api_executor a)\<rparr>"

text \<open>\<open>BrokerConfig\<close> has no \<open>get_symbol_leverage\<close>; asking for a symbol's leverage raises.\<close>

definition api_get_leverage :: "string option \<Rightarrow> trading_api \<Rightarrow> int res" where
  "api_get_leverage smb a =
     (if truthy_str smb then Inl AttributeError else Inr (get_leverage (ex_broker (api_executor a))))"

definition get_order_history :: "string option \<Rightarrow> trading_api \<Rightarrow> order_result list res" where
  "get_order_history smb a = Inl NotImplementedError"

text \<open>The framework drives the same executor, with the interface listening.\<close>

definition api_on_tick :: "tick_data \<Rightarrow> trading_api \<Rightarrow> (unit \<times> trading_api) res" where
  "api_on_tick t = executor_call (no_result (sim_on_tick t))"

definition api_heartbeat :: "trading_api \<Rightarrow> (unit \<times> trading_api) res" where
  "api_heartbeat = executor_call (no_result heartbeat)"

definition api_close_all :: "msc \<Rightarrow> trading_api \<Rightarrow> (unit \<times> trading_api) res" where
  "api_close_all now = executor_call (no_result (close_all_remaining_orders now))"

definition api_get_portfolio_statistics :: "trading_api \<Rightarrow> (portfolio_stats \<times> trading_api) res" where
  "api_get_portfolio_statistics a =
     bind_res (get_portfolio_statistics (ex_portfolio (api_executor a))) (\<lambda>(st, pf).
       Inr (st, a\<lparr>api_executor := (api_executor a)\<lparr>ex_portfolio := pf\<rparr>\<rparr>))"

section \<open>The guard hears exactly the executor's outcomes\<close>

fun outcome_event :: "instant \<Rightarrow> order_direction \<times> order_result \<times> pending_order option \<Rightarrow> guard_event list" where
  "outcome_event now (d, r, _) =
     (if is_rejected r
      then (if (\<exists>rr. or_rejection_reason r = Some rr \<and> cooldown_reason rr) then [Rejected d now] else [])
      else if or_status r = OS_EXECUTED then [Succeeded d] else [])"

lemma on_outcome_event: "api_on_order_outcome (Inr now) x g = Inr (run_guard (outcome_event now x) g)"
  by (cases x) (auto simp: api_on_order_outcome_def run_guard_def split: option.splits)

lemma fold_outcomes:
  "fold_res (api_on_order_outcome (Inr now)) xs g = Inr (run_guard (concat (map (outcome_event now) xs)) g)"
  by (induction xs arbitrary: g) (simp_all add: on_outcome_event run_guard_def)

text \<open>The outcomes a call adds to the log.\<close>

definition new_outcomes :: "simulator \<Rightarrow> simulator \<Rightarrow> (order_direction \<times> order_result \<times> pending_order option) list" where
  "new_outcomes s s' = drop (length (outcome_log s)) (outcome_log s')"

lemma listen_spec:
  "clock_time s' = Some now \<Longrightarrow>
   listen s s' g = Inr (run_guard (concat (map (outcome_event now) (new_outcomes s s'))) g)"
  by (simp add: listen_def new_outcomes_def get_current_time_def fold_outcomes)

lemma listen_nothing: "outcome_log s' = outcome_log s \<Longrightarrow> listen s s' g = Inr g"
  by (simp add: listen_def)

lemma executor_call_spec:
  assumes "executor_call f a = Inr (r, a')"
  shows "f (api_executor a) = Inr (r, api_executor a')"
    and "listen (api_executor a) (api_executor a') (api_guard a) = Inr (api_guard a')"
    and "api_capabilities a' = api_capabilities a"
  using assms by (auto simp: executor_call_def bind_res_def split: sum.splits)

section \<open>Submission is silent\<close>

text \<open>\<open>open_order\<close> notifies nobody and rejects only for reasons that do not count towards the cooldown.\<close>

lemma reject_open_spec:
  assumes "reject_open oid reason s = (r, s')"
  shows "outcome_log s' = outcome_log s" "clock_time s' = clock_time s" "or_rejection_reason r = Some reason"
  using assms by (auto simp: reject_open_def append_order_history_def create_rejection_result_def Let_def)

lemma submit_open_spec:
  assumes "submit_open oid rq md s = Inr (r, s')"
  shows "outcome_log s' = outcome_log s" "clock_time s' = clock_time s" "\<not> is_rejected r"
  using assms
  by (auto simp: submit_open_def append_order_history_def pending_result_def blank_result_def is_rejected_def
      Let_def split: option.splits)

definition local_outcome :: "order_result \<Rightarrow> bool" where
  "local_outcome r \<longleftrightarrow> (is_rejected r \<longrightarrow> (\<exists>rr. or_rejection_reason r = Some rr \<and> \<not> cooldown_reason rr))"

lemma reject_open_local:
  assumes "reject_open oid reason s = (r, s')" "\<not> cooldown_reason reason"
  shows "outcome_log s' = outcome_log s \<and> local_outcome r"
  using reject_open_spec [OF assms(1)] assms(2) by (auto simp: local_outcome_def)

lemma submit_open_local:
  assumes "submit_open oid rq md s = Inr (r, s')"
  shows "outcome_log s' = outcome_log s \<and> local_outcome r"
  using submit_open_spec [OF assms] by (auto simp: local_outcome_def)

lemma open_order_local:
  assumes "open_order rq0 s = Inr (r, s')"
  shows "outcome_log s' = outcome_log s \<and> local_outcome r"
proof -
  from assms obtain rq where rq: "normalize_order_request rq0 s = Inr rq" by (auto simp: open_order_def)
  obtain oid pf where id: "get_next_position_id (rq_symbol rq) (ex_portfolio s) = (oid, pf)"
    by (cases "get_next_position_id (rq_symbol rq) (ex_portfolio s)")
  define s1 where "s1 = s\<lparr>orders_sent := orders_sent s + 1, order_counter := order_counter s + 1, ex_portfolio := pf\<rparr>"
  consider reason where "\<not> cooldown_reason reason" "Inr (reject_open oid reason s1) = (Inr (r, s') :: (order_result \<times> simulator) res)"
    | md where "submit_open oid rq md s1 = Inr (r, s')"
    using assms
    by (auto simp: open_order_def rq id Let_def s1_def [symmetric] route_order_def cooldown_reason_def
        split: if_splits order_type.splits)
  then have "outcome_log s' = outcome_log s1 \<and> local_outcome r"
    by cases (auto dest: reject_open_local submit_open_local)
  then show ?thesis by (simp add: s1_def)
qed

section \<open>What a call of \<open>send_order\<close> does\<close>

definition request_of ::
  "string \<Rightarrow> order_type \<Rightarrow> order_side \<Rightarrow> lots \<Rightarrow> price option \<Rightarrow> price option \<Rightarrow> price option \<Rightarrow> price option \<Rightarrow> string \<Rightarrow>
   open_order_request" where
  "request_of smb ot side l price stop sl tp cmt =
     \<lparr>rq_symbol = smb, rq_order_type = ot, rq_direction = resolve_order_side side, rq_lots = l, rq_price = price,
      rq_stop_price = stop, rq_stop_loss = sl, rq_take_profit = tp, rq_comment = cmt\<rparr>"

lemma send_order_blocked:
  assumes "clock_time (api_executor a) = Some now"
    and "validate hex (request_of smb ot side l price stop sl tp cmt) now (Some (market_status (api_executor a))) (api_guard a) = Some r"
  shows "send_order hex smb ot side l price stop sl tp cmt a =
    Inr (r, a\<lparr>api_executor := record_guard_rejection r (api_executor a)\<rparr>)"
  using assms by (simp add: send_order_def get_current_time_def request_of_def Let_def)

lemma send_order_passes:
  assumes "clock_time (api_executor a) = Some now"
    and "validate hex (request_of smb ot side l price stop sl tp cmt) now (Some (market_status (api_executor a))) (api_guard a) = None"
    and "send_order hex smb ot side l price stop sl tp cmt a = Inr (r, a')"
  shows "open_order (request_of smb ot side l price stop sl tp cmt) (api_executor a) = Inr (r, api_executor a')"
    and "api_guard a' = api_guard a"
proof -
  let ?rq = "request_of smb ot side l price stop sl tp cmt"
  from assms obtain a1 where call: "executor_call (open_order ?rq) a = Inr (r, a1)"
    and a': "a' = (if is_rejected r \<and> (case or_rejection_reason r of None \<Rightarrow> False | Some rr \<Rightarrow> cooldown_reason rr)
                   then a1\<lparr>api_guard := record_rejection (resolve_order_side side) now (api_guard a1)\<rparr> else a1)"
    by (auto simp: send_order_def get_current_time_def request_of_def Let_def bind_res_def split: sum.splits)
  note c = executor_call_spec [OF call]
  note loc = open_order_local [OF c(1)]
  then have "a' = a1" by (auto simp: a' local_outcome_def split: option.splits)
  moreover from c(2) loc have "api_guard a1 = api_guard a" by (simp add: listen_nothing)
  ultimately show "open_order ?rq (api_executor a) = Inr (r, api_executor a')" "api_guard a' = api_guard a"
    using c(1) by simp_all
qed

lemma record_guard_rejection_keeps:
  "ex_portfolio (record_guard_rejection r s) = ex_portfolio s"
  "latency_sim (record_guard_rejection r s) = latency_sim s"
  "active_limit_orders (record_guard_rejection r s) = active_limit_orders s"
  "active_stop_orders (record_guard_rejection r s) = active_stop_orders s"
  "orders_sent (record_guard_rejection r s) = orders_sent s"
  "orders_rejected (record_guard_rejection r s) = orders_rejected s + 1"
  "outcome_log (record_guard_rejection r s) = outcome_log s"
  "clock_time (record_guard_rejection r s) = clock_time s"
  by (simp_all add: record_guard_rejection_def append_order_history_def check_order_history_limit_def)

section \<open>The trading interface as a state machine\<close>

inductive api_step :: "trading_api \<Rightarrow> trading_api \<Rightarrow> bool" where
  api_tick: "api_on_tick t a = Inr (u, a') \<Longrightarrow> api_step a a'"
| api_beat: "api_heartbeat a = Inr (u, a') \<Longrightarrow> api_step a a'"
| api_send: "send_order hex smb ot side l price stop sl tp cmt a = Inr (r, a') \<Longrightarrow> api_step a a'"
| api_close: "api_close_position pid lo a = Inr (r, a') \<Longrightarrow> api_step a a'"
| api_mod_position: "api_modify_position pid sl tp a = Inr (m, a') \<Longrightarrow> api_step a a'"
| api_mod_limit: "api_modify_limit_order oid np sl tp a = Inr (m, a') \<Longrightarrow> api_step a a'"
| api_mod_stop: "api_modify_stop_order oid np nl sl tp a = Inr (m, a') \<Longrightarrow> api_step a a'"
| api_cancel_limit: "api_cancel_limit_order oid a = Inr (b, a') \<Longrightarrow> api_step a a'"
| api_cancel_stop: "api_cancel_stop_order oid a = Inr (b, a') \<Longrightarrow> api_step a a'"
| api_account: "api_get_account_info d a = Inr (ai, a') \<Longrightarrow> api_step a a'"
| api_statistics: "api_get_portfolio_statistics a = Inr (st, a') \<Longrightarrow> api_step a a'"
| api_session_end: "api_step a (api_request_session_end reason sev a)"
| api_status: "api_step a (a\<lparr>api_executor := set_market_data_status st (api_executor a)\<rparr>)"
| api_time: "api_step a (a\<lparr>api_executor := set_clock now (api_executor a)\<rparr>)"
| api_wall: "api_step a (a\<lparr>api_executor := (api_executor a)\<lparr>wall_now := w\<rparr>\<rparr>)"
| api_shutdown: "api_close_all now a = Inr (u, a') \<Longrightarrow> api_step a a'"

definition api_fresh :: "trading_api \<Rightarrow> bool" where
  "api_fresh a \<longleftrightarrow> (\<exists>s required cfg. sim_fresh s \<and> api_init s required cfg = Inr a)"

lemma api_fresh_parts:
  assumes "api_fresh a"
  shows "sim_fresh (api_executor a)" "guard_fresh (api_guard a)"
proof -
  from assms obtain s required cfg where s: "sim_fresh s" and i: "api_init s required cfg = Inr a"
    by (auto simp: api_fresh_def)
  from i have "api_executor a = s" "\<exists>secs mx stale. api_guard a = new_guard secs mx stale"
    by (auto simp: api_init_def validate_order_types_def Let_def split: if_splits intro!: exI)
  with s show "sim_fresh (api_executor a)" "guard_fresh (api_guard a)" by (simp_all add: guard_fresh_def)
qed

abbreviation guard_run :: "order_guard \<Rightarrow> order_guard \<Rightarrow> bool" where
  "guard_run \<equiv> guard_step\<^sup>*\<^sup>*"

lemma guard_run_event: "guard_run g (apply_event ev g)"
  by (cases ev) (auto intro!: r_into_rtranclp guard_step.intros)

lemma guard_run_events: "guard_run g (run_guard evs g)"
proof (induction evs arbitrary: g)
  case (Cons ev evs)
  from guard_run_event Cons.IH [of "apply_event ev g"] show ?case
    by (simp add: run_guard_def) (rule rtranclp_trans)
qed (simp add: run_guard_def)

lemma listen_run:
  assumes "listen s s' g = Inr g'"
  shows "guard_run g g'"
proof (cases "clock_time s'")
  case (Some now)
  with assms guard_run_events show ?thesis by (auto simp: listen_spec)
next
  case None
  have one: "guard_run h h'" if "api_on_order_outcome (Inl ClockNotInjectedError) x h = Inr h'" for x h h'
    using that by (cases x) (auto simp: api_on_order_outcome_def intro!: r_into_rtranclp guard_step.intros split: if_splits)
  from assms None have "fold_res (api_on_order_outcome (Inl ClockNotInjectedError)) (new_outcomes s s') g = Inr g'"
    by (simp add: listen_def new_outcomes_def get_current_time_def)
  then show ?thesis
    by (rule fold_res_inv [where P = "guard_run g"]) (auto dest: one intro: rtranclp_trans)
qed

definition api_advances :: "trading_api \<Rightarrow> trading_api \<Rightarrow> bool" where
  "api_advances a a' \<longleftrightarrow> sim_advances (api_executor a) (api_executor a') \<and> guard_run (api_guard a) (api_guard a')"

lemma executor_call_advances:
  assumes "executor_call f a = Inr (r, a')" and "\<And>s'. f (api_executor a) = Inr (r, s') \<Longrightarrow> sim_advances (api_executor a) s'"
  shows "api_advances a a'"
  using executor_call_spec [OF assms(1)] assms(2) by (auto simp: api_advances_def intro: listen_run)

lemma no_result_advances:
  assumes "executor_call (no_result f) a = Inr (u, a')"
    and "\<And>s'. f (api_executor a) = Inr s' \<Longrightarrow> sim_advances (api_executor a) s'"
  shows "api_advances a a'"
  by (rule executor_call_advances [OF assms(1)]) (auto simp: no_result_def bind_res_def intro: assms(2) split: sum.splits)

lemma send_order_advances:
  assumes "send_order hex smb ot side l price stop sl tp cmt a = Inr (r, a')"
  shows "api_advances a a'"
proof -
  from assms obtain now where now: "clock_time (api_executor a) = Some now"
    by (auto simp: send_order_def get_current_time_def Let_def split: option.splits)
  show ?thesis
  proof (cases "validate hex (request_of smb ot side l price stop sl tp cmt) now (Some (market_status (api_executor a))) (api_guard a)")
    case None
    from send_order_passes [OF now None assms] show ?thesis
      by (auto simp: api_advances_def dest: open_order_advances)
  next
    case (Some r0)
    from send_order_blocked [OF now Some] assms show ?thesis
      by (auto simp: api_advances_def sim_advances_bookkeeping)
  qed
qed

lemma api_step_advances: "api_step a a' \<Longrightarrow> api_advances a a'"
proof (induction rule: api_step.induct)
  case (api_tick t a u a')
  then show ?case unfolding api_on_tick_def by (rule no_result_advances) (rule on_tick_result)
next
  case (api_beat a u a')
  then show ?case unfolding api_heartbeat_def by (rule no_result_advances) (rule heartbeat_advances)
next
  case (api_shutdown now a u a')
  then show ?case unfolding api_close_all_def by (rule no_result_advances) (rule close_all_advances)
next
  case (api_send hex smb ot side l price stop sl tp cmt a r a')
  then show ?case by (rule send_order_advances)
next
  case (api_account d a ai a')
  then show ?case
    by (auto simp: api_get_account_info_def api_advances_def sim_advances_def dest!: pf_view [THEN r_into_rtranclp [of pf_step]])
next
  case (api_statistics a st a')
  then show ?case
    by (auto simp: api_get_portfolio_statistics_def get_portfolio_statistics_def api_advances_def sim_advances_def
        dest!: pf_run_refresh)
next
  case (api_session_end a reason sev)
  show ?case by (simp add: api_advances_def api_request_session_end_def sim_advances_bookkeeping)
next
  case (api_status a st)
  show ?case by (simp add: api_advances_def set_market_data_status_def sim_advances_bookkeeping)
next
  case (api_time a now)
  show ?case by (simp add: api_advances_def sim_advances_bookkeeping)
next
  case (api_wall a w)
  show ?case by (simp add: api_advances_def sim_advances_bookkeeping)
qed (unfold api_close_position_def api_modify_position_def api_modify_limit_order_def
      api_modify_stop_order_def api_cancel_limit_order_def api_cancel_stop_order_def,
     (erule executor_call_advances, blast intro: close_position_advances modify_position_advances
      modify_order_advances cancel_advances)+)

interpretation api_portfolio:
  embedded_machine pf_fresh pf_step pf_inv api_fresh api_step "\<lambda>a. ex_portfolio (api_executor a)"
  by unfold_locales
     (auto simp: api_advances_def sim_advances_def dest: api_step_advances api_fresh_parts sim_fresh_parts)

interpretation api_latency:
  embedded_machine latency_fresh latency_step latency_inv api_fresh api_step "\<lambda>a. latency_sim (api_executor a)"
  by unfold_locales
     (auto simp: api_advances_def sim_advances_def dest: api_step_advances api_fresh_parts sim_fresh_parts)

interpretation api_guards: embedded_machine guard_fresh guard_step guard_inv api_fresh api_step api_guard
  by unfold_locales (auto simp: api_advances_def dest: api_step_advances api_fresh_parts)

lemma reachable_mode: "reachable api_fresh api_step a \<Longrightarrow> ex_mode (api_executor a) = SIMULATION"
  by (induction rule: reachable.induct)
     (auto dest!: api_fresh_parts(1) sim_fresh_parts(4) api_step_advances simp: api_advances_def sim_advances_def)

end
