(* ===== verification/Decision_Events.thy ===== *)
theory Decision_Events
  imports Trading_Types
begin

text \<open>
  The decision-event dispatcher of \<open>src/python/framework/trading_env/decision_event_dispatcher.py\<close>: it
  filters events by subscription, buffers them and delivers them to the decision logic's hooks at the
  loop boundary. A hook may submit further events (an order placed inside a hook that is rejected at
  once, say), so the decision logic is a parameter: it maps an event and its own state to the events
  emitted meanwhile and its new state.
\<close>

section \<open>State and operations\<close>

datatype decision_event_type = ORDER_FILLED | ORDER_REJECTED | ORDER_CANCELLED | PARTIAL_CLOSE | SESSION_END

fun event_type_of :: "decision_event \<Rightarrow> decision_event_type" where
  "event_type_of (OrderFilledEvent _ _ _ _ _ _ _) = ORDER_FILLED"
| "event_type_of (OrderRejectedEvent _ _ _ _ _) = ORDER_REJECTED"
| "event_type_of (OrderCancelledEvent _ _ _) = ORDER_CANCELLED"
| "event_type_of (PartialCloseEvent _ _ _ _ _ _ _) = PARTIAL_CLOSE"
| "event_type_of (SessionEndEvent _ _ _) = SESSION_END"

record dispatcher =
  subscribed :: "decision_event_type list"
  ev_buffer :: "decision_event list"

definition create_if_subscribed :: "decision_event_type list \<Rightarrow> dispatcher option" where
  "create_if_subscribed subs = (if subs = [] then None else Some \<lparr>subscribed = remdups subs, ev_buffer = []\<rparr>)"

definition submit :: "decision_event \<Rightarrow> dispatcher \<Rightarrow> dispatcher" where
  "submit ev d =
     (if event_type_of ev \<notin> set (subscribed d) then d else d\<lparr>ev_buffer := ev_buffer d @ [ev]\<rparr>)"

definition on_order_outcome ::
  "instant res \<Rightarrow> order_direction \<Rightarrow> order_result \<Rightarrow> dispatcher \<Rightarrow> dispatcher res" where
  "on_order_outcome clock dir r d =
     bind_res clock (\<lambda>now. Inr (
       if or_status r = OS_EXECUTED
       then submit (OrderFilledEvent (or_order_id r) (or_position_id r) dir (executed_price r) (executed_lots r) r now) d
       else if is_rejected r
       then submit (OrderRejectedEvent (or_order_id r) dir (or_rejection_reason r) r now) d
       else d))"

text \<open>The five hooks of the decision logic, and the one an event is routed to.\<close>

record 's hooks =
  on_order_filled :: "decision_event \<Rightarrow> 's \<Rightarrow> decision_event list \<times> 's"
  on_order_rejected :: "decision_event \<Rightarrow> 's \<Rightarrow> decision_event list \<times> 's"
  on_order_cancelled :: "decision_event \<Rightarrow> 's \<Rightarrow> decision_event list \<times> 's"
  on_partial_close :: "decision_event \<Rightarrow> 's \<Rightarrow> decision_event list \<times> 's"
  on_session_end :: "decision_event \<Rightarrow> 's \<Rightarrow> decision_event list \<times> 's"

definition dispatch :: "'s hooks \<Rightarrow> decision_event \<Rightarrow> 's \<Rightarrow> decision_event list \<times> 's" where
  "dispatch h ev =
     (case ev of
        OrderFilledEvent _ _ _ _ _ _ _ \<Rightarrow> on_order_filled h ev
      | OrderRejectedEvent _ _ _ _ _ \<Rightarrow> on_order_rejected h ev
      | OrderCancelledEvent _ _ _ \<Rightarrow> on_order_cancelled h ev
      | PartialCloseEvent _ _ _ _ _ _ _ \<Rightarrow> on_partial_close h ev
      | SessionEndEvent _ _ _ \<Rightarrow> on_session_end h ev)"

fun deliver :: "'s hooks \<Rightarrow> decision_event list \<Rightarrow> 's \<Rightarrow> dispatcher \<Rightarrow> 's \<times> dispatcher" where
  "deliver h [] st d = (st, d)"
| "deliver h (ev # evs) st d =
     (let (emitted, st') = dispatch h ev st in deliver h evs st' (fold submit emitted d))"

definition drain :: "'s hooks \<Rightarrow> 's \<Rightarrow> dispatcher \<Rightarrow> 's \<times> dispatcher" where
  "drain h st d =
     (if ev_buffer d = [] then (st, d) else deliver h (ev_buffer d) st (d\<lparr>ev_buffer := []\<rparr>))"

section \<open>Delivery\<close>

text \<open>What the hooks emit while a list of events is processed in order, with no dispatcher involved.\<close>

fun emissions :: "'s hooks \<Rightarrow> decision_event list \<Rightarrow> 's \<Rightarrow> decision_event list" where
  "emissions h [] st = []"
| "emissions h (ev # evs) st = fst (dispatch h ev st) @ emissions h evs (snd (dispatch h ev st))"

abbreviation wanted :: "dispatcher \<Rightarrow> decision_event \<Rightarrow> bool" where
  "wanted d ev \<equiv> event_type_of ev \<in> set (subscribed d)"

lemma submit_all:
  "fold submit evs d = d\<lparr>ev_buffer := ev_buffer d @ filter (wanted d) evs\<rparr>"
  by (induction evs arbitrary: d) (auto simp: submit_def)

lemma deliver_spec:
  "deliver h evs st d =
     (fold (\<lambda>ev s. snd (dispatch h ev s)) evs st,
      d\<lparr>ev_buffer := ev_buffer d @ filter (wanted d) (emissions h evs st)\<rparr>)"
  by (induction h evs st d rule: deliver.induct) (auto simp: submit_all case_prod_beta Let_def)

lemma drain_spec:
  "drain h st d =
     (fold (\<lambda>ev s. snd (dispatch h ev s)) (ev_buffer d) st,
      d\<lparr>ev_buffer := filter (wanted d) (emissions h (ev_buffer d) st)\<rparr>)"
  by (auto simp: drain_def deliver_spec)

text \<open>
  Seen from the outside: submissions and drains in any order. The ghost trace collects what was
  submitted (by the executor and from inside hooks) and what the hooks were called with.
\<close>

datatype dispatcher_op = Submit decision_event | Drain

fun run_dispatcher ::
  "'s hooks \<Rightarrow> dispatcher_op list \<Rightarrow> 's \<Rightarrow> dispatcher \<Rightarrow>
   decision_event list \<times> decision_event list \<times> dispatcher" where
  "run_dispatcher h [] st d = ([], [], d)"
| "run_dispatcher h (Submit ev # ops) st d =
     (let (subm, del, d') = run_dispatcher h ops st (submit ev d) in (ev # subm, del, d'))"
| "run_dispatcher h (Drain # ops) st d =
     (let (st1, d1) = drain h st d; (subm, del, d') = run_dispatcher h ops st1 d1
      in (emissions h (ev_buffer d) st @ subm, ev_buffer d @ del, d'))"

lemma run_dispatcher_fifo:
  "run_dispatcher h ops st d = (subm, del, d') \<Longrightarrow>
   del @ ev_buffer d' = ev_buffer d @ filter (wanted d) subm \<and> subscribed d' = subscribed d"
proof (induction ops arbitrary: st d subm del)
  case (Cons op ops)
  show ?case
  proof (cases op)
    case (Submit ev)
    with Cons.prems obtain subm1 where r: "run_dispatcher h ops st (submit ev d) = (subm1, del, d')"
      and s: "subm = ev # subm1" by (auto simp: Let_def split: prod.splits)
    from Cons.IH [OF r] show ?thesis by (auto simp: s submit_def split: if_splits)
  next
    case Drain
    let ?d1 = "d\<lparr>ev_buffer := filter (wanted d) (emissions h (ev_buffer d) st)\<rparr>"
    from Drain Cons.prems obtain st1 subm1 del1 where r: "run_dispatcher h ops st1 ?d1 = (subm1, del1, d')"
      and s: "subm = emissions h (ev_buffer d) st @ subm1" "del = ev_buffer d @ del1"
      by (auto simp: drain_spec Let_def split: prod.splits)
    from Cons.IH [OF r] show ?thesis by (auto simp: s)
  qed
qed simp

end
