(* ===== verification/Scenarios.thy ===== *)
theory Scenarios
  imports Decision_Api Decision_Events Market_Clock Stale_Stress
begin

text \<open>
  Concrete instances of the parameters, used to show that the hypotheses of the properties can hold: an
  MT5 account on EURUSD, a Kraken spot account on BTCUSD, a latency generator that always draws the
  minimum, and short runs of the simulator over them.
\<close>

section \<open>Brokers\<close>

definition eurusd :: raw_symbol where
  "eurusd =
     \<lparr>raw_description = None, raw_volume_min = Some (1/100), raw_volume_max = Some 100, raw_volume_step = Some (1/100),
      raw_volume_limit = None, raw_tick_size = Some (1/100000), raw_digits = Some 5, raw_contract_size = Some 100000,
      raw_base_currency = Some ''EUR'', raw_quote_currency = Some ''USD'', raw_margin_currency = Some ''EUR'',
      raw_trade_allowed = Some True, raw_swap_mode = Some ''points'', raw_swap_long = Some (-7), raw_swap_short = Some 2,
      raw_swap_rollover3days = Some 3, raw_stops_level = None, raw_freeze_level = None\<rparr>"

definition btcusd :: raw_symbol where
  "btcusd =
     \<lparr>raw_description = None, raw_volume_min = Some (1/10000), raw_volume_max = Some 1000, raw_volume_step = Some (1/10000),
      raw_volume_limit = None, raw_tick_size = Some (1/100), raw_digits = Some 2, raw_contract_size = Some 1,
      raw_base_currency = Some ''BTC'', raw_quote_currency = Some ''USD'', raw_margin_currency = None,
      raw_trade_allowed = Some True, raw_swap_mode = None, raw_swap_long = None, raw_swap_short = None,
      raw_swap_rollover3days = None, raw_stops_level = None, raw_freeze_level = None\<rparr>"

definition info_with :: "int \<Rightarrow> raw_broker_info" where
  "info_with lev =
     \<lparr>bi_company = Some ''demo'', bi_server = Some ''demo'', bi_trade_mode = Some ''demo'', bi_leverage = Some lev,
      bi_hedging_allowed = Some True, bi_margin_mode = Some ''retail_hedging'', bi_stopout_level = Some 20,
      bi_margin_call_level = Some 50\<rparr>"

definition forex_broker :: broker where
  "forex_broker =
     \<lparr>br_kind = MT5, br_info = Some (info_with 500), br_symbols = [(''EURUSD'', eurusd)], br_fee_structure = None,
      br_capabilities = mt5_capabilities True, br_pip_mode = FRACTIONAL_PIP\<rparr>"

definition spot_broker :: broker where
  "spot_broker =
     \<lparr>br_kind = KRAKEN, br_info = Some (info_with 1), br_symbols = [(''BTCUSD'', btcusd)],
      br_fee_structure = Some \<lparr>fs_model = Some ''maker_taker'', fs_maker_fee = Some (16/100), fs_taker_fee = Some (26/100)\<rparr>,
      br_capabilities = kraken_capabilities False, br_pip_mode = TICK\<rparr>"

section \<open>Simulators\<close>

definition fixed_delays :: delay_gen where
  "fixed_delays = \<lparr>dg_draw = \<lambda>_ a _. a, dg_min = 20, dg_max = 80, dg_count = 0\<rparr>"

lemma fixed_delays_in_range: "delays_in_range fixed_delays"
  by (simp add: delays_in_range_def fixed_delays_def)

definition forex0 :: simulator where
  "forex0 = simulator_init forex_broker 10000 ''USD'' 1000 0 False [] None fixed_delays None True 0"

definition spot0 :: simulator where
  "spot0 = simulator_init spot_broker 0 ''USD'' 1000 1000 True [(''USD'', 100000), (''BTC'', 0)] None fixed_delays None True 0"

lemma forex0_fresh: "sim_fresh forex0" and spot0_fresh: "sim_fresh spot0"
  unfolding sim_fresh_def forex0_def spot0_def using fixed_delays_in_range by blast+

definition quote_at :: "string \<Rightarrow> int \<Rightarrow> price \<Rightarrow> price \<Rightarrow> tick_data" where
  "quote_at smb ms b a =
     \<lparr>tick_timestamp = ms * 1000, tick_symbol = smb, bid = b, ask = a, tick_volume = 0, time_msc = ms,
      collected_msc = ms, is_clipped = False\<rparr>"

definition market_request :: "string \<Rightarrow> order_direction \<Rightarrow> lots \<Rightarrow> open_order_request" where
  "market_request smb d l =
     \<lparr>rq_symbol = smb, rq_order_type = OT_MARKET, rq_direction = d, rq_lots = l, rq_price = None,
      rq_stop_price = None, rq_stop_loss = None, rq_take_profit = None, rq_comment = []\<rparr>"

definition after :: "'a res \<Rightarrow> 'a" where
  "after r = projr r"

lemma after_Inr: "\<not> isl r \<Longrightarrow> r = Inr (after r)"
  by (simp add: after_def)

section \<open>Portfolios\<close>

definition margin_book :: portfolio where
  "margin_book = portfolio_init 10000 ''USD'' forex_broker 500 50 20 0 False [] (Some 0) None"

definition spot_book :: portfolio where
  "spot_book = portfolio_init 0 ''USD'' spot_broker 1 0 0 0 True [(''USD'', 100000), (''BTC'', 0)] (Some 0) None"

definition buy :: "string \<Rightarrow> string \<Rightarrow> lots \<Rightarrow> price \<Rightarrow> rat \<Rightarrow> nat \<Rightarrow> fee option \<Rightarrow> open_args" where
  "buy pid smb l x tv d f =
     \<lparr>oa_order_id = pid, oa_symbol = smb, oa_direction = LONG, oa_lots = l, oa_entry_price = x,
      oa_entry_tick_value = tv, oa_entry_bid = x, oa_entry_ask = x, oa_digits = d, oa_contract_size = 1,
      oa_entry_tick_index = 1, oa_entry_fee = f, oa_stop_loss = None, oa_take_profit = None, oa_comment = [],
      oa_entry_type = ET_MARKET, oa_broker_ref = None, oa_entry_trades = [], oa_entry_submission = None,
      oa_pip_size = 1, oa_price_unit = ''pip''\<rparr>"

definition exit_at :: "string \<Rightarrow> price \<Rightarrow> rat \<Rightarrow> close_args" where
  "exit_at pid x tv =
     \<lparr>cl_position_id = pid, cl_exit_price = x, cl_exit_tick_value = tv, cl_exit_tick_index = 2, cl_exit_fee = None,
      cl_close_reason = CR_MANUAL, cl_exit_trades = [], cl_exit_submission = None\<rparr>"

definition entry_fee :: fee where
  "entry_fee = MakerTakerFee False (16/100) (26/100) 1000 0"

definition margin_long :: portfolio where
  "margin_long = mark_dirty (quote_at ''EURUSD'' 2000 (11010/10000) (11011/10000))
     (snd (after (open_position (buy ''pos_eurusd_1'' ''EURUSD'' (1/10) (11001/10000) 1 5 None) margin_book)))"

definition spot_long :: portfolio where
  "spot_long = snd (after (open_position (buy ''pos_btcusd_1'' ''BTCUSD'' (1/10) 10000 (1/100) 2 (Some entry_fee)) spot_book))"

lemma after_pair: "\<not> isl r \<Longrightarrow> r = Inr (fst (after r), snd (after r))"
  by (simp add: after_def)

lemma bind_res_weak_cong: "m = m' \<Longrightarrow> bind_res m f = bind_res m' f"
  by simp

text \<open>Portfolio operations on concrete values: unfold, evaluate the scrutinee of each bind and let first.\<close>

lemmas book_defs =
  Let_def lookup_key_def get_default_def deque_append_def with_default_def
  margin_book_def spot_book_def margin_long_def spot_long_def buy_def exit_at_def entry_fee_def after_def quote_at_def
  forex_broker_def spot_broker_def eurusd_def btcusd_def info_with_def
  portfolio_init_def new_cost_breakdown_def open_position_def clock_now_def new_position_def position_post_init_def
  no_submission_def pf_record_fee_def record_fee_cost_def add_fee_def get_total_fees_def get_fees_by_type_def
  get_spread_cost_def get_commission_cost_def get_swap_cost_def MakerTakerFee_def maker_taker_calculate_cost_def
  spot_open_transfer_def spot_buy_def spot_sell_def adjust_balance_def credit_balance_def opt_fee_cost_def
  get_symbol_specification_def mt5_symbol_specification_def kraken_symbol_specification_def truthy_str_def
  parse_swap_mode_def lower_str_def mark_dirty_def ensure_positions_updated_def accrue_all_swaps_def accrue_swap_def
  reprice_all_def reprice_position_def pf_calculate_tick_value_def update_current_price_def
  gross_pnl_from_price_diff_def price_diff_of_def close_position_portfolio_def settle_full_close_def
  spot_close_transfer_def set_balance_def pf_balance_def create_trade_record_def initial_risk_def append_history_def
  update_statistics_def calculate_equity_def direction_to_side_def partial_close_position_def
  partial_trade_record_def shrink_position_def py_round_def round_half_even_def get_asset_balance_def

lemmas book_congs = bind_res_weak_cong let_weak_cong

lemma margin_long_closes:
  "\<not> isl (close_position_portfolio (exit_at ''pos_eurusd_1'' (11010/10000) 1) margin_long)"
  by (simp add: book_defs cong: book_congs del: bind_res_Inr_iff)

lemma margin_long_partial:
  "\<not> isl (partial_close_position (1/20) (exit_at ''pos_eurusd_1'' (11010/10000) 1) margin_long)"
  by (simp add: book_defs cong: book_congs del: bind_res_Inr_iff)

lemma spot_long_opens:
  "\<not> isl (open_position (buy ''pos_btcusd_1'' ''BTCUSD'' (1/10) 10000 (1/100) 2 (Some entry_fee)) spot_book)"
  by (simp add: book_defs cong: book_congs del: bind_res_Inr_iff)

lemma spot_long_closes: "\<not> isl (close_position_portfolio (exit_at ''pos_btcusd_1'' 11000 (1/100)) spot_long)"
  by (simp add: book_defs cong: book_congs del: bind_res_Inr_iff)

section \<open>A round trip through the trading interface\<close>

definition session0 :: trading_api where
  "session0 = after (api_init forex0 [OT_MARKET, OT_LIMIT] None)"

definition session1 :: trading_api where
  "session1 = snd (after (api_on_tick (quote_at ''EURUSD'' 1000 (11/10) (11001/10000)) session0))"

definition session2 :: trading_api where
  "session2 = snd (after (send_order [] ''EURUSD'' OT_MARKET BUY (1/10) None None None None [] session1))"

definition session3 :: trading_api where
  "session3 = snd (after (api_on_tick (quote_at ''EURUSD'' 2000 (11010/10000) (11011/10000)) session2))"

definition session4 :: trading_api where
  "session4 = snd (after (api_close_position ''pos_eurusd_1'' None session3))"

definition session5 :: trading_api where
  "session5 = snd (after (api_on_tick (quote_at ''EURUSD'' 3000 (11050/10000) (11051/10000)) session4))"

lemmas session_defs =
  mid_def fresh_status_def blank_result_def create_rejection_result_def is_success_def
  is_rejected_def mod_rejected_def mod_success_def mod_pending_def steady_state_def no_fills_def
  append_trade_def no_timing_def py_mod_def derive_pip_size_def unit_label_def rescale_def clamp_def
  normalize_scale_def spread_calculate_cost_def SpreadFee_def swap_calculate_cost_def SwapFee_def
  CommissionFee_def create_spread_fee_from_tick_def create_maker_taker_fee_def apply_fee_def get_margin_used_def
  is_sl_triggered_def is_tp_triggered_def is_open_def required_symbol_fields_present_def
  margin_currency_known_def validate_common_config_def kraken_validate_config_def validate_adapter_def
  get_all_aviable_symbols_def is_symbol_tradeable_def mt5_capabilities_def kraken_capabilities_def
  validate_lot_size_def validate_order_def get_leverage_def calculate_margin_required_def get_pip_size_def
  fee_model_def get_maker_fee_def get_taker_fee_def initial_balance_def get_spot_equity_def
  get_next_position_id_def swap_fee_step_def validate_sl_tp_levels_def pf_modify_position_def
  get_account_info_def get_free_margin_def win_rate_def profit_factor_def get_position_def
  get_open_positions_def has_open_positions_def pf_reset_def next_delay_def new_probability_filter_def
  should_trigger_def new_pending_stats_def count_outcome_def add_latency_def stats_record_def new_latency_def
  store_order_def remove_order_def get_pending_orders_def get_pending_count_def lat_has_pending_orders_def
  lat_is_pending_close_def create_synthetic_close_order_def record_outcome_def clear_latency_def
  clear_pending_def get_tick_msc_def submit_kwargs_def submit_entry_price_def submit_open_order_def
  submit_close_order_def order_ready_def process_up_to_msc_def process_tick_def set_clock_def
  get_current_time_def get_current_price_def check_order_history_limit_def append_order_history_def
  notify_outcome_def emit_decision_event_def emit_order_cancelled_def request_session_end_def
  record_guard_rejection_def round_price_def normalize_order_request_def ex_calculate_tick_value_def
  create_entry_fee_def is_maker_entry_def pad6_def synthesize_pending_trade_def ensure_trades_def
  fee_type_value_def fill_type_value_def reject_fill_def check_capacity_def open_args_of_def open_result_def
  book_open_def fill_entry_price_def fill_open_order_def close_decision_def close_result_def close_args_of_def
  book_close_def fill_close_order_def synthetic_close_def check_position_triggers_def check_sl_tp_triggers_def
  begin_tick_def on_tick_def resolve_order_side_def get_in_flight_operation_def has_in_flight_operation_def
  get_active_orders_def get_execution_stats_def order_type_value_def expire_order_def expire_active_orders_def
  ex_reset_def account_leverage_def simulator_init_def current_msc_def is_limit_price_reached_def
  is_stop_price_reached_def order_entry_price_def queue_limit_def queue_stop_def as_limit_order_def
  convert_stop_limit_to_limit_def stress_test_should_reject_def planned_latency_def sim_record_outcome_def
  accept_open_order_def fill_resolved_order_def fill_resolved_orders_def apply_pending_modification_def
  resolve_order_def cancel_resolved_def resolve_list_def set_limits_def set_stops_def
  resolve_position_modification_def resolve_pending_operations_def order_symbol_def from_stop_limit_def
  monitor_limit_def monitor_limits_def monitor_stop_def monitor_stops_def drain_latency_def
  process_pending_orders_def sim_on_tick_def instant_msc_def heartbeat_def pending_result_def reject_open_def
  submit_open_def positive_price_def price_md_def route_order_def open_order_def close_position_def
  schedule_cancel_def schedule_modify_def has_id_def cancel_in_list_def cancel_limit_order_def
  cancel_stop_order_def validate_limit_order_sl_tp_def invalid_new_price_def modify_limit_order_def
  modify_stop_order_def sim_modify_position_def has_pipeline_orders_def has_pending_orders_def
  is_pending_close_def order_snapshot_def get_pending_stats_def close_all_remaining_orders_def
  check_clean_shutdown_def new_guard_def make_order_id_def is_direction_blocked_def validate_def
  cooldown_usec_def record_rejection_def record_success_def default_guard_config_def cooldown_reason_def
  validate_order_types_def get_supported_order_types_def api_init_def api_on_order_outcome_def listen_def
  executor_call_def no_result_def send_order_def api_get_open_positions_def api_close_position_def
  api_modify_position_def api_modify_limit_order_def api_modify_stop_order_def api_cancel_limit_order_def
  api_cancel_stop_order_def api_request_session_end_def api_get_leverage_def get_order_history_def
  api_on_tick_def api_heartbeat_def api_close_all_def session0_def session1_def session2_def session3_def
  session4_def forex0_def fixed_delays_def

lemma fold_res_weak_cong: "xs = ys \<Longrightarrow> s = t \<Longrightarrow> fold_res f xs s = fold_res f ys t"
  by simp

lemma traverse_dict_weak_cong: "xs = ys \<Longrightarrow> s = t \<Longrightarrow> traverse_dict f xs s = traverse_dict f ys t"
  by simp

lemmas session_congs = book_congs fold_res_weak_cong traverse_dict_weak_cong

lemma session0_ok: "\<not> isl (api_init forex0 [OT_MARKET, OT_LIMIT] None)"
  by (simp add: book_defs session_defs cong: session_congs del: bind_res_Inr_iff)

lemma session1_ok: "\<not> isl (api_on_tick (quote_at ''EURUSD'' 1000 (11/10) (11001/10000)) session0)"
  by (simp add: book_defs session_defs cong: session_congs del: bind_res_Inr_iff)

lemma session2_ok: "\<not> isl (send_order [] ''EURUSD'' OT_MARKET BUY (1/10) None None None None [] session1)"
  by (simp add: book_defs session_defs cong: session_congs del: bind_res_Inr_iff)

lemma session3_ok: "\<not> isl (api_on_tick (quote_at ''EURUSD'' 2000 (11010/10000) (11011/10000)) session2)"
  by (simp add: book_defs session_defs cong: session_congs del: bind_res_Inr_iff)

lemma session4_ok: "\<not> isl (api_close_position ''pos_eurusd_1'' None session3)"
  by (simp add: book_defs session_defs cong: session_congs del: bind_res_Inr_iff)

lemma session5_ok: "\<not> isl (api_on_tick (quote_at ''EURUSD'' 3000 (11050/10000) (11051/10000)) session4)"
  by (simp add: book_defs session_defs cong: session_congs del: bind_res_Inr_iff)

lemma session_steps:
  "api_step session0 session1" "api_step session1 session2" "api_step session2 session3"
  "api_step session3 session4" "api_step session4 session5"
  using after_pair [OF session1_ok] after_pair [OF session2_ok] after_pair [OF session3_ok]
    after_pair [OF session4_ok] after_pair [OF session5_ok]
  unfolding session1_def [symmetric] session2_def [symmetric] session3_def [symmetric]
    session4_def [symmetric] session5_def [symmetric]
  by (blast intro: api_tick api_send api_close)+

lemma session0_fresh: "api_fresh session0"
  using after_Inr [OF session0_ok] forex0_fresh unfolding session0_def [symmetric] api_fresh_def by blast

lemma session_reachable:
  "reachable api_fresh api_step session0" "reachable api_fresh api_step session3" "reachable api_fresh api_step session5"
  "reachable api_fresh api_step session1" "reachable api_fresh api_step session2" "reachable api_fresh api_step session4"
  using session0_fresh session_steps by (meson reach_init reach_step)+

lemma api_init_executor: "api_init e ts g = Inr a \<Longrightarrow> api_executor a = e"
  by (auto simp: api_init_def Let_def split: if_splits)

lemma session5_account: "same_account (ex_portfolio forex0) (ex_portfolio (api_executor session5))"
proof -
  have "pf_run (ex_portfolio (api_executor session0)) (ex_portfolio (api_executor session5))"
    using session_steps [THEN api_step_advances] by (auto simp: api_advances_def sim_advances_def)
  moreover have "api_executor session0 = forex0"
    using after_Inr [OF session0_ok] unfolding session0_def [symmetric] by (rule api_init_executor)
  ultimately show ?thesis by (simp add: same_account_run)
qed

lemma forex0_account:
  "\<not> spot_mode (ex_portfolio forex0)" "trade_history_max (ex_portfolio forex0) = 0"
  by (simp_all add: forex0_def simulator_init_def account_leverage_def portfolio_init_def Let_def forex_broker_def)

definition spot_session0 :: trading_api where
  "spot_session0 = after (api_init spot0 [OT_MARKET, OT_LIMIT] None)"

lemma spot_session0_ok: "\<not> isl (api_init spot0 [OT_MARKET, OT_LIMIT] None)"
  by (simp add: book_defs session_defs spot0_def cong: session_congs del: bind_res_Inr_iff)

lemma spot_session0_reachable: "reachable api_fresh api_step spot_session0"
  using after_Inr [OF spot_session0_ok] spot0_fresh unfolding spot_session0_def [symmetric]
  by (blast intro: reach_init [of api_fresh] api_fresh_def [THEN iffD2])

lemma spot_session0_account:
  "spot_mode (ex_portfolio (api_executor spot_session0))"
  "trade_history_max (ex_portfolio (api_executor spot_session0)) = 1000"
proof -
  have e: "api_executor spot_session0 = spot0"
    using after_Inr [OF spot_session0_ok] unfolding spot_session0_def [symmetric] by (rule api_init_executor)
  show "spot_mode (ex_portfolio (api_executor spot_session0))"
    "trade_history_max (ex_portfolio (api_executor spot_session0)) = 1000"
    by (simp_all add: e spot0_def simulator_init_def account_leverage_def portfolio_init_def Let_def spot_broker_def)
qed

section \<open>A fill, a cancellation and a shutdown\<close>

definition spot_tick :: tick_data where
  "spot_tick = quote_at ''BTCUSD'' 1000 9990 10000"

definition spot1 :: simulator where
  "spot1 = begin_tick spot_tick spot0"

definition spot_order :: pending_order where
  "spot_order =
     snd (hd (pending_orders (submit_open_order ''pos_btcusd_1'' (market_request ''BTCUSD'' LONG (1/10)) spot_tick
       (new_latency fixed_delays))))"

definition spot_resting :: simulator where
  "spot_resting = spot1\<lparr>active_limit_orders := [schedule_cancel 900 spot_order, schedule_cancel 2000 spot_order]\<rparr>"

lemmas spot_defs = spot_tick_def spot1_def spot_order_def spot_resting_def spot0_def market_request_def

lemma spot_order_fills: "\<not> isl (fill_open_order spot_order None ET_MARKET FT_MARKET spot1)"
  by (simp add: book_defs session_defs spot_defs cong: session_congs del: bind_res_Inr_iff)

lemma spot_resting_resolves: "\<not> isl (resolve_pending_operations spot_resting)"
  by (simp add: book_defs session_defs spot_defs cong: session_congs del: bind_res_Inr_iff)

lemma spot_resting_now: "current_msc spot_resting = Inr 1000"
  by (simp add: book_defs session_defs spot_defs cong: session_congs del: bind_res_Inr_iff)

lemma spot_order_open:
  "po_open spot_order = Some (open_spec.make ''BTCUSD'' LONG (1/10) 0 1000000 (submit_kwargs (market_request ''BTCUSD'' LONG (1/10))))"
  by (simp add: book_defs session_defs spot_defs open_spec.make_def)

text \<open>With a leverage above one the check before a fill asks for margin instead of funds, and a spot account can be
  overdrawn.\<close>

definition leveraged_spot :: simulator where
  "leveraged_spot = begin_tick spot_tick (simulator_init (spot_broker\<lparr>br_info := Some (info_with 2)\<rparr>) 0 ''USD'' 1000 1000 True
     [(''USD'', 100000), (''BTC'', 0)] None fixed_delays None True 0)"

definition large_order :: pending_order where
  "large_order =
     snd (hd (pending_orders (submit_open_order ''pos_btcusd_1'' (market_request ''BTCUSD'' LONG 15) spot_tick
       (new_latency fixed_delays))))"

lemma leveraged_spot_overdraws:
  "\<not> isl (fill_open_order large_order None ET_MARKET FT_MARKET leveraged_spot)"
  "get_asset_balance (ex_portfolio (after (fill_open_order large_order None ET_MARKET FT_MARKET leveraged_spot))) ''USD'' < 0"
  by (simp_all add: leveraged_spot_def large_order_def book_defs session_defs spot_defs cong: session_congs del: bind_res_Inr_iff)

lemma first_id: "lower_str ''EURUSD'' = ''eurusd''" "nat_str (Suc 0) = ''1''"
  by code_simp+

lemma session3_holds: "get_position (ex_portfolio (api_executor session3)) ''pos_eurusd_1'' \<noteq> None"
  using first_id
  by (simp add: book_defs session_defs cong: session_congs del: bind_res_Inr_iff)

section \<open>A rollover rule\<close>

text \<open>17:00 New York in winter time: 22:00 UTC on the same date.\<close>

definition ny_rollover :: swap_rollover_config where
  "ny_rollover = \<lparr>ro_hour = 17, ro_minute = 0, ro_utc_offset = \<lambda>_. - 5 * hour_usec\<rparr>"

lemma ny_rollover_at: "local_time_to_utc ny_rollover d = d * day_usec + 22 * hour_usec"
  by (simp add: ny_rollover_def local_time_to_utc_def Let_def)

lemma ny_rollover_ok:
  "valid_rollover ny_rollover" "offset_bounded ny_rollover" "rollover_ordered ny_rollover" "same_day_rollover ny_rollover"
  by (simp_all add: rollover_ordered_def same_day_rollover_def ny_rollover_at day_usec_def hour_usec_def)
     (simp_all add: valid_rollover_def offset_bounded_def ny_rollover_def day_usec_def hour_usec_def)

definition swap_position :: position where
  "swap_position = new_position (buy ''pos_eurusd_1'' ''EURUSD'' (1/10) (11001/10000) 1 5 None) 0"

lemma swap_position_accrues:
  "\<not> isl (accrue_swap forex_broker ny_rollover (3 * day_usec) swap_position (new_cost_breakdown ''USD''))"
  by (simp add: accrue_swap_def swap_position_def book_defs day_usec_def case_prod_beta cong: book_congs del: bind_res_Inr_iff)

section \<open>Guarded sessions and event consumers\<close>

lemma spot_book_pair:
  obtains sp where "spot_pair spot_book ''BTCUSD'' sp" "base_currency sp = ''BTC''" "quote_currency sp = ''USD''"
  by (rule that [of "after (get_symbol_specification spot_broker ''BTCUSD'')"])
     (simp_all add: spot_pair_def book_defs cong: book_congs del: bind_res_Inr_iff)

lemma spot1_pair:
  obtains sp where "spot_pair (ex_portfolio spot1) ''BTCUSD'' sp" "quote_currency sp = ''USD''"
  by (rule that [of "after (get_symbol_specification spot_broker ''BTCUSD'')"])
     (simp_all add: spot_pair_def book_defs session_defs spot_defs cong: session_congs del: bind_res_Inr_iff)

definition cooling_session :: trading_api where
  "cooling_session = \<lparr>api_executor = spot1, api_guard = record_rejection LONG 1000000 (new_guard 60 1 True),
     api_capabilities = kraken_capabilities False\<rparr>"

lemma spot1_clock: "clock_time spot1 = Some 1000000"
  by (simp add: book_defs session_defs spot_defs)

lemma session1_clock: "clock_time (api_executor session1) = Some 1000000"
  by (simp add: book_defs session_defs cong: session_congs del: bind_res_Inr_iff)

lemma session1_validates:
  "validate [] (request_of ''EURUSD'' OT_MARKET BUY (1/10) None None None None []) 1000000
     (Some (market_status (api_executor session1))) (api_guard session1) = None"
  by (simp add: request_of_def book_defs session_defs cong: session_congs del: bind_res_Inr_iff)

definition one_window :: stale_config where
  "one_window = \<lparr>sc_enabled = True, sc_events =
     [\<lparr>ev_label = ''gap'', ev_data_source = ''kraken'', stale_start_date = 500, stale_end_date = 900\<rparr>]\<rparr>"

lemma spot1_fresh_data: "\<not> is_stale (market_status spot1)"
  by (simp add: book_defs session_defs spot_defs)

definition stale_session :: trading_api where
  "stale_session = \<lparr>api_executor = snd (drive [600] (new_stale_driver (get_events_for_source one_window ''kraken'')) spot1),
     api_guard = new_guard 60 1 True, api_capabilities = kraken_capabilities False\<rparr>"

definition counting_hooks :: "nat hooks" where
  "counting_hooks =
     (let count = \<lambda>_ n. ([], Suc n) in
      \<lparr>on_order_filled = count, on_order_rejected = count, on_order_cancelled = count, on_partial_close = count,
       on_session_end = count\<rparr>)"

definition listening :: dispatcher where
  "listening = \<lparr>subscribed = [ORDER_CANCELLED], ev_buffer = []\<rparr>"

lemma session_history:
  "trade_history_max (ex_portfolio (api_executor session5)) = 0" "\<not> spot_mode (ex_portfolio (api_executor session5))"
  using session5_account forex0_account by (simp_all add: same_account_def)

end
