(* ===== verification/Bar_Scenarios.thy ===== *)
theory Bar_Scenarios
  imports Bars_Laws Scenarios
begin

text \<open>Concrete tick streams for the bar controller.\<close>

definition two_minutes :: "tick_data list" where
  "two_minutes =
     [quote_at ''EURUSD'' 1000 (11000/10000) (11002/10000), quote_at ''EURUSD'' 30000 (11010/10000) (11012/10000),
      quote_at ''EURUSD'' 61000 (11005/10000) (11007/10000)]"

definition m1_controller :: bar_controller where
  "m1_controller = register_workers [[''M1'']] (new_controller 10)"

lemma m1_controller_reachable: "reachable controller_fresh (bars_step smb) m1_controller"
proof (rule reachable.reach_init)
  have "list_all timeframe_exists (concat [[''M1'']])" by (simp add: timeframe_exists_def timeframe_table)
  then show "controller_fresh m1_controller" unfolding controller_fresh_def m1_controller_def by blast
qed

lemma m1_controller_runs:
  obtains c where "run_controller two_minutes m1_controller = Inr c"
proof -
  have "controller_inv ''EURUSD'' m1_controller" by (rule bars_machine.inv_reachable [OF m1_controller_reachable])
  then have "\<exists>c. run_controller ts m1_controller = Inr c \<and> controller_inv ''EURUSD'' c" for ts
  proof (induction ts rule: rev_induct)
    case (snoc t ts)
    then obtain c where c: "run_controller ts m1_controller = Inr c" "controller_inv ''EURUSD'' c" by auto
    from c(2) obtain bs c' where "bars_process_tick t c = Inr (bs, c')" "controller_inv ''EURUSD'' c'"
      by (rule bars_process_tick_spec [where t = t]) (rule that)
    with c(1) show ?case by (simp add: run_controller_def fold_res_append)
  qed (simp add: run_controller_def)
  with that show ?thesis by blast
qed

end
