(* ===== verification/Field_Study.thy ===== *)
theory Field_Study
  imports Prelude
begin

text \<open>
  The phase machine of the live field study
  (\<open>framework/decision_logic/core/live_field_study/field_study_phase_machine.py\<close>): it consumes one observation
  per tick and answers with the operation to perform. The narration strings of actions are left out; the
  reasons recorded with the results are kept.
\<close>

section \<open>Types\<close>

datatype phase_type =
    MARKET_OPEN | MARKET_CLOSE_ALL | LIMIT_OPEN | LIMIT_MODIFY | LIMIT_CANCEL | MULTI_LIMIT | MULTI_CANCEL
  | PARTIAL_CLOSE | IDLE | FORCE_CLOSE | FINAL_SUMMARY

datatype phase_side = SIDE_LONG | SIDE_SHORT | SIDE_NONE

datatype phase_state =
    ST_PENDING | ST_SUBMIT | ST_AWAIT_FILL | ST_POST_FILL_WAIT | ST_CLOSE | ST_POST_CLOSE_WAIT | ST_DONE | ST_SKIPPED

datatype phase_outcome =
    OUT_PENDING | OUT_PASS | OUT_FAIL | OUT_SKIPPED | OUT_EXPECTED_REJECTION | OUT_INCONCLUSIVE

datatype phase_action_kind =
    ACT_NONE | ACT_SUBMIT_MARKET | ACT_SUBMIT_LIMIT | ACT_CLOSE_ALL | ACT_CLOSE_PARTIAL | ACT_CANCEL | ACT_CANCEL_ALL
  | ACT_MODIFY_LIMIT | ACT_END_SESSION

record field_study_phase =
  phase_id :: string
  phase_type_of :: phase_type
  phase_side_of :: phase_side
  enabled :: bool
  expect_rejection :: bool
  phase_lots :: "lots option"
  limit_offset_pct :: "rat option"
  order_count :: int
  fill_timeout_s :: rat
  post_wait_s :: rat
  idle_seconds :: rat
  rearm :: bool

record phase_action =
  act_kind :: phase_action_kind
  act_phase_id :: string
  act_side :: phase_side
  act_lots :: "lots option"
  act_price :: "price option"
  act_close_fraction :: "rat option"

record phase_context =
  ctx_now :: instant
  mid_price :: price
  open_position_count :: nat
  active_limit_count :: nat
  ctx_has_pending :: bool
  filled_since_submit :: bool
  rejected_since_submit :: bool
  cancelled_since_submit :: bool
  current_position_lots :: "lots option"
  budget_ok :: bool

record phase_result =
  res_phase_id :: string
  res_phase_type :: phase_type
  res_outcome :: phase_outcome
  res_reason :: string
  started_utc :: "instant option"
  ended_utc :: "instant option"
  res_rearm_attempts :: nat

record phase_machine =
  fs_phases :: "field_study_phase list"
  default_lot :: lots
  default_offset :: rat
  max_rearm :: int
  rearm_shrink :: rat
  fs_idx :: nat
  fs_state :: phase_state
  fs_step :: nat
  phase_start :: "instant option"
  submit_time :: "instant option"
  rearm_attempts :: nat
  submitted_count :: nat
  cur_offset :: rat
  full_lots :: "lots option"
  fs_results :: "phase_result list"

definition new_machine :: "field_study_phase list \<Rightarrow> lots \<Rightarrow> rat \<Rightarrow> int \<Rightarrow> rat \<Rightarrow> phase_machine" where
  "new_machine phases lot offset max_attempts shrink =
     \<lparr>fs_phases = phases, default_lot = lot, default_offset = offset, max_rearm = max_attempts, rearm_shrink = shrink,
      fs_idx = 0, fs_state = ST_PENDING, fs_step = 0, phase_start = None, submit_time = None, rearm_attempts = 0,
      submitted_count = 0, cur_offset = offset, full_lots = None, fs_results = []\<rparr>"

section \<open>Transition helpers\<close>

type_synonym phase_step = "phase_action \<times> phase_machine"

definition is_complete :: "phase_machine \<Rightarrow> bool" where
  "is_complete m = (fs_idx m \<ge> length (fs_phases m))"

definition get_current_phase_id :: "phase_machine \<Rightarrow> string option" where
  "get_current_phase_id m = (if is_complete m then None else Some (phase_id (fs_phases m ! fs_idx m)))"

definition plain_action :: "phase_action_kind \<Rightarrow> string \<Rightarrow> phase_action" where
  "plain_action k pid =
     \<lparr>act_kind = k, act_phase_id = pid, act_side = SIDE_NONE, act_lots = None, act_price = None, act_close_fraction = None\<rparr>"

definition wait :: "field_study_phase \<Rightarrow> phase_machine \<Rightarrow> phase_step" where
  "wait ph m = (plain_action ACT_NONE (phase_id ph), m)"

definition act :: "phase_context \<Rightarrow> phase_action \<Rightarrow> phase_machine \<Rightarrow> phase_step" where
  "act ctx a m = (a, m\<lparr>submit_time := Some (ctx_now ctx)\<rparr>)"

definition finish :: "field_study_phase \<Rightarrow> phase_outcome \<Rightarrow> string \<Rightarrow> instant \<Rightarrow> phase_machine \<Rightarrow> phase_step" where
  "finish ph outcome reason now m =
     (plain_action ACT_NONE (phase_id ph),
      m\<lparr>fs_results := fs_results m @
          [\<lparr>res_phase_id = phase_id ph, res_phase_type = phase_type_of ph, res_outcome = outcome, res_reason = reason,
            started_utc = phase_start m, ended_utc = Some now, res_rearm_attempts = rearm_attempts m\<rparr>],
        fs_idx := fs_idx m + 1, phase_start := None, submit_time := None\<rparr>)"

definition seconds_between :: "instant \<Rightarrow> instant \<Rightarrow> rat" where
  "seconds_between t u = of_int (u - t) / 1000000"

definition timed_out :: "field_study_phase \<Rightarrow> phase_context \<Rightarrow> phase_machine \<Rightarrow> bool" where
  "timed_out ph ctx m =
     (case submit_time m of None \<Rightarrow> False | Some s \<Rightarrow> seconds_between s (ctx_now ctx) > fill_timeout_s ph)"

definition lots_for :: "field_study_phase \<Rightarrow> phase_machine \<Rightarrow> lots" where
  "lots_for ph m = (case phase_lots ph of Some l \<Rightarrow> l | None \<Rightarrow> default_lot m)"

definition limit_price_for :: "field_study_phase \<Rightarrow> price \<Rightarrow> rat \<Rightarrow> price" where
  "limit_price_for ph mp offset = (if phase_side_of ph = SIDE_SHORT then mp * (1 + offset) else mp * (1 - offset))"

definition submit_market :: "field_study_phase \<Rightarrow> phase_machine \<Rightarrow> phase_action" where
  "submit_market ph m =
     (plain_action ACT_SUBMIT_MARKET (phase_id ph))\<lparr>act_side := phase_side_of ph, act_lots := Some (lots_for ph m)\<rparr>"

definition submit_limit :: "field_study_phase \<Rightarrow> price \<Rightarrow> phase_machine \<Rightarrow> phase_action" where
  "submit_limit ph x m =
     (plain_action ACT_SUBMIT_LIMIT (phase_id ph))
       \<lparr>act_side := phase_side_of ph, act_lots := Some (lots_for ph m), act_price := Some x\<rparr>"

section \<open>Phase handlers\<close>

definition handle_market_open :: "field_study_phase \<Rightarrow> phase_context \<Rightarrow> phase_machine \<Rightarrow> phase_step" where
  "handle_market_open ph ctx m =
     (if fs_state m = ST_PENDING then act ctx (submit_market ph m) (m\<lparr>fs_state := ST_AWAIT_FILL\<rparr>)
      else if rejected_since_submit ctx then
        (if expect_rejection ph then finish ph OUT_EXPECTED_REJECTION ''rejected as expected'' (ctx_now ctx) m
         else finish ph OUT_FAIL ''unexpected rejection'' (ctx_now ctx) m)
      else if filled_since_submit ctx \<or> open_position_count ctx > 0 then
        (if expect_rejection ph then finish ph OUT_FAIL ''filled but rejection expected'' (ctx_now ctx) m
         else finish ph OUT_PASS ''filled'' (ctx_now ctx) m)
      else if timed_out ph ctx m then finish ph OUT_FAIL ''no fill/rejection within timeout'' (ctx_now ctx) m
      else wait ph m)"

definition handle_close_all :: "field_study_phase \<Rightarrow> phase_context \<Rightarrow> phase_machine \<Rightarrow> phase_step" where
  "handle_close_all ph ctx m =
     (let is_force = (phase_type_of ph = FORCE_CLOSE);
          cancel_all = plain_action ACT_CANCEL_ALL (phase_id ph);
          close_all = plain_action ACT_CLOSE_ALL (phase_id ph)
      in if fs_state m = ST_PENDING then
           (if open_position_count ctx = 0 \<and> active_limit_count ctx = 0
            then finish ph OUT_SKIPPED ''already flat'' (ctx_now ctx) m
            else let m1 = m\<lparr>fs_state := ST_CLOSE\<rparr> in
                 if is_force \<and> active_limit_count ctx > 0 then act ctx cancel_all m1 else act ctx close_all m1)
         else if open_position_count ctx = 0 \<and> (\<not> is_force \<or> active_limit_count ctx = 0)
         then finish ph OUT_PASS ''flat'' (ctx_now ctx) m
         else if timed_out ph ctx m then finish ph OUT_FAIL ''not flat within timeout'' (ctx_now ctx) m
         else if \<not> ctx_has_pending ctx \<and> is_force \<and> active_limit_count ctx > 0 then act ctx cancel_all m
         else if \<not> ctx_has_pending ctx \<and> open_position_count ctx > 0 then act ctx close_all m
         else wait ph m)"

definition handle_limit_open :: "field_study_phase \<Rightarrow> phase_context \<Rightarrow> phase_machine \<Rightarrow> phase_step" where
  "handle_limit_open ph ctx m0 =
     (let m = (if fs_state m0 = ST_PENDING then m0\<lparr>fs_state := ST_SUBMIT\<rparr> else m0)
      in if fs_state m = ST_SUBMIT then
           (if submit_time m \<noteq> None \<and> (filled_since_submit ctx \<or> open_position_count ctx > 0)
            then finish ph OUT_PASS ''filled'' (ctx_now ctx) m
            else if active_limit_count ctx > 0 \<or> ctx_has_pending ctx then wait ph m
            else act ctx (submit_limit ph (limit_price_for ph (mid_price ctx) (cur_offset m)) m) (m\<lparr>fs_state := ST_AWAIT_FILL\<rparr>))
         else if filled_since_submit ctx \<or> open_position_count ctx > 0
         then finish ph OUT_PASS ''filled'' (ctx_now ctx) m
         else if rejected_since_submit ctx then
           (if expect_rejection ph then finish ph OUT_EXPECTED_REJECTION ''rejected as expected'' (ctx_now ctx) m
            else finish ph OUT_FAIL ''unexpected rejection'' (ctx_now ctx) m)
         else if timed_out ph ctx m then
           (if rearm ph \<and> (max_rearm m \<le> 0 \<or> int (rearm_attempts m) < max_rearm m) \<and> budget_ok ctx
            then act ctx (plain_action ACT_CANCEL_ALL (phase_id ph))
                   (m\<lparr>rearm_attempts := rearm_attempts m + 1, cur_offset := cur_offset m * (1 - rearm_shrink m),
                      fs_state := ST_SUBMIT\<rparr>)
            else finish ph OUT_INCONCLUSIVE ''not filled within re-arm budget'' (ctx_now ctx) m)
         else wait ph m)"

definition handle_limit_modify :: "field_study_phase \<Rightarrow> phase_context \<Rightarrow> phase_machine \<Rightarrow> phase_step" where
  "handle_limit_modify ph ctx m =
     (if fs_state m = ST_PENDING then
        act ctx (submit_limit ph (limit_price_for ph (mid_price ctx) (cur_offset m)) m) (m\<lparr>fs_state := ST_AWAIT_FILL\<rparr>)
      else if filled_since_submit ctx \<or> open_position_count ctx > 0 then finish ph OUT_PASS ''filled'' (ctx_now ctx) m
      else if rejected_since_submit ctx then finish ph OUT_FAIL ''rejected'' (ctx_now ctx) m
      else if fs_step m = 0 \<and> active_limit_count ctx \<ge> 1 then
        act ctx ((plain_action ACT_MODIFY_LIMIT (phase_id ph))
                   \<lparr>act_price := Some (limit_price_for ph (mid_price ctx) (cur_offset m * (1/4)))\<rparr>)
          (m\<lparr>fs_step := 1\<rparr>)
      else if timed_out ph ctx m then
        (if fs_step m = 0 then finish ph OUT_FAIL ''never rested'' (ctx_now ctx) m
         else finish ph OUT_INCONCLUSIVE ''no fill after modify'' (ctx_now ctx) m)
      else wait ph m)"

definition handle_limit_cancel :: "field_study_phase \<Rightarrow> phase_context \<Rightarrow> phase_machine \<Rightarrow> phase_step" where
  "handle_limit_cancel ph ctx m =
     (if fs_state m = ST_PENDING then
        act ctx (submit_limit ph (limit_price_for ph (mid_price ctx) (cur_offset m)) m) (m\<lparr>fs_state := ST_AWAIT_FILL\<rparr>)
      else if fs_state m = ST_AWAIT_FILL then
        (if filled_since_submit ctx \<or> open_position_count ctx > 0
         then finish ph OUT_FAIL ''filled before cancel'' (ctx_now ctx) m
         else if active_limit_count ctx \<ge> 1
         then act ctx (plain_action ACT_CANCEL (phase_id ph)) (m\<lparr>fs_state := ST_POST_CLOSE_WAIT\<rparr>)
         else if timed_out ph ctx m then finish ph OUT_FAIL ''never rested'' (ctx_now ctx) m
         else wait ph m)
      else if active_limit_count ctx = 0 \<and> open_position_count ctx = 0
      then finish ph OUT_PASS ''cancelled, no position'' (ctx_now ctx) m
      else if timed_out ph ctx m then finish ph OUT_FAIL ''cancel not confirmed'' (ctx_now ctx) m
      else wait ph m)"

definition handle_multi_limit :: "field_study_phase \<Rightarrow> phase_context \<Rightarrow> phase_machine \<Rightarrow> phase_step" where
  "handle_multi_limit ph ctx m0 =
     (let m1 = (if fs_state m0 = ST_PENDING then m0\<lparr>fs_state := ST_SUBMIT\<rparr> else m0)
      in if fs_state m1 = ST_SUBMIT \<and> int (submitted_count m1) < order_count ph then
           (if ctx_has_pending ctx then wait ph m1
            else let offset = cur_offset m1 * (1 + 1/2 * of_nat (submitted_count m1));
                     m2 = m1\<lparr>submitted_count := submitted_count m1 + 1\<rparr>
                 in act ctx (submit_limit ph (limit_price_for ph (mid_price ctx) offset) m2) m2)
         else let m2 = (if fs_state m1 = ST_SUBMIT then m1\<lparr>fs_state := ST_AWAIT_FILL\<rparr> else m1)
              in if int (active_limit_count ctx) \<ge> order_count ph then finish ph OUT_PASS ''all watching'' (ctx_now ctx) m2
                 else if timed_out ph ctx m2 then finish ph OUT_FAIL ''not all resting'' (ctx_now ctx) m2
                 else wait ph m2)"

definition handle_multi_cancel :: "field_study_phase \<Rightarrow> phase_context \<Rightarrow> phase_machine \<Rightarrow> phase_step" where
  "handle_multi_cancel ph ctx m =
     (if fs_state m = ST_PENDING then
        (if active_limit_count ctx = 0 then finish ph OUT_SKIPPED ''nothing to cancel'' (ctx_now ctx) m
         else act ctx (plain_action ACT_CANCEL_ALL (phase_id ph)) (m\<lparr>fs_state := ST_POST_CLOSE_WAIT\<rparr>))
      else if active_limit_count ctx = 0 then finish ph OUT_PASS ''all cancelled'' (ctx_now ctx) m
      else if timed_out ph ctx m then finish ph OUT_FAIL ''cancel-all not confirmed'' (ctx_now ctx) m
      else wait ph m)"

text \<open>\<open>_LOTS_EPS\<close>\<close>

definition lots_eps :: rat where "lots_eps = 1 / 10 ^ 9"

definition handle_partial_close :: "field_study_phase \<Rightarrow> phase_context \<Rightarrow> phase_machine \<Rightarrow> phase_step" where
  "handle_partial_close ph ctx m =
     (if fs_state m = ST_PENDING then act ctx (submit_market ph m) (m\<lparr>fs_state := ST_AWAIT_FILL\<rparr>)
      else if fs_state m = ST_AWAIT_FILL then
        (if rejected_since_submit ctx then finish ph OUT_FAIL ''open rejected'' (ctx_now ctx) m
         else if filled_since_submit ctx \<or> open_position_count ctx > 0 then
           act ctx ((plain_action ACT_CLOSE_PARTIAL (phase_id ph))\<lparr>act_close_fraction := Some (1/2)\<rparr>)
             (m\<lparr>full_lots := current_position_lots ctx, fs_state := ST_CLOSE\<rparr>)
         else if timed_out ph ctx m then finish ph OUT_FAIL ''open not filled'' (ctx_now ctx) m
         else wait ph m)
      else if fs_state m = ST_CLOSE then
        (let reduced = (case (full_lots m, current_position_lots ctx) of
               (Some full, Some cur) \<Rightarrow> cur < full - lots_eps | _ \<Rightarrow> False)
         in if reduced then act ctx (plain_action ACT_CLOSE_ALL (phase_id ph)) (m\<lparr>fs_state := ST_POST_CLOSE_WAIT\<rparr>)
            else if timed_out ph ctx m then finish ph OUT_FAIL ''partial close not observed'' (ctx_now ctx) m
            else wait ph m)
      else if open_position_count ctx = 0 then finish ph OUT_PASS ''half then flat'' (ctx_now ctx) m
      else if timed_out ph ctx m then finish ph OUT_FAIL ''remainder not closed'' (ctx_now ctx) m
      else wait ph m)"

text \<open>Subtracting an unset wait clock is a \<open>TypeError\<close>.\<close>

definition handle_idle :: "field_study_phase \<Rightarrow> phase_context \<Rightarrow> phase_machine \<Rightarrow> phase_step res" where
  "handle_idle ph ctx m =
     (if fs_state m = ST_PENDING
      then Inr (wait ph (m\<lparr>fs_state := ST_POST_FILL_WAIT, submit_time := Some (ctx_now ctx)\<rparr>))
      else case submit_time m of
             None \<Rightarrow> Inl TypeError
           | Some s \<Rightarrow> Inr (if seconds_between s (ctx_now ctx) \<ge> idle_seconds ph
                            then finish ph OUT_PASS ''idle complete'' (ctx_now ctx) m else wait ph m))"

definition handle_final :: "field_study_phase \<Rightarrow> phase_context \<Rightarrow> phase_machine \<Rightarrow> phase_step" where
  "handle_final ph ctx m =
     (plain_action ACT_END_SESSION (phase_id ph),
      m\<lparr>fs_results := fs_results m @
          [\<lparr>res_phase_id = phase_id ph, res_phase_type = phase_type_of ph, res_outcome = OUT_PASS,
            res_reason = ''session end requested'', started_utc = phase_start m, ended_utc = Some (ctx_now ctx),
            res_rearm_attempts = 0\<rparr>],
        fs_idx := fs_idx m + 1, phase_start := None, submit_time := None\<rparr>)"

definition handle_phase :: "field_study_phase \<Rightarrow> phase_context \<Rightarrow> phase_machine \<Rightarrow> phase_step res" where
  "handle_phase ph ctx m =
     (case phase_type_of ph of
        MARKET_OPEN \<Rightarrow> Inr (handle_market_open ph ctx m)
      | MARKET_CLOSE_ALL \<Rightarrow> Inr (handle_close_all ph ctx m)
      | FORCE_CLOSE \<Rightarrow> Inr (handle_close_all ph ctx m)
      | LIMIT_OPEN \<Rightarrow> Inr (handle_limit_open ph ctx m)
      | LIMIT_MODIFY \<Rightarrow> Inr (handle_limit_modify ph ctx m)
      | LIMIT_CANCEL \<Rightarrow> Inr (handle_limit_cancel ph ctx m)
      | MULTI_LIMIT \<Rightarrow> Inr (handle_multi_limit ph ctx m)
      | MULTI_CANCEL \<Rightarrow> Inr (handle_multi_cancel ph ctx m)
      | PARTIAL_CLOSE \<Rightarrow> Inr (handle_partial_close ph ctx m)
      | IDLE \<Rightarrow> handle_idle ph ctx m
      | FINAL_SUMMARY \<Rightarrow> Inr (handle_final ph ctx m))"

definition enter_phase :: "field_study_phase \<Rightarrow> phase_context \<Rightarrow> phase_machine \<Rightarrow> phase_machine" where
  "enter_phase ph ctx m =
     m\<lparr>phase_start := Some (ctx_now ctx), fs_state := ST_PENDING, fs_step := 0, rearm_attempts := 0, submitted_count := 0,
       full_lots := None,
       cur_offset := (case limit_offset_pct ph of Some x \<Rightarrow> x | None \<Rightarrow> default_offset m)\<rparr>"

definition advance :: "phase_context \<Rightarrow> phase_machine \<Rightarrow> phase_step res" where
  "advance ctx m =
     (if is_complete m then Inr (plain_action ACT_NONE [], m)
      else let ph = fs_phases m ! fs_idx m in
        if phase_start m = None then
          (let m1 = enter_phase ph ctx m in
           if \<not> enabled ph then Inr (finish ph OUT_SKIPPED ''disabled'' (ctx_now ctx) m1) else handle_phase ph ctx m1)
        else handle_phase ph ctx m)"

end
