(* ===== verification/Field_Study_Laws.thy ===== *)
theory Field_Study_Laws
  imports Field_Study
begin

text \<open>
  What the field study guarantees. Every tick of a phase is one of four moves: keep waiting inside its timeout,
  hold a submission while orders are working, issue one operation, or finish the phase with a decided outcome.
  From the moves follow the invariant of the study (its results are, phase by phase, those of the phases
  already passed; the machine never raises) and that no phase waits silently past its timeout.
\<close>

section \<open>Moves\<close>

text \<open>The phase may rely on this when its handler runs: a state past the submission has a wait clock, and only
  the two phases with a submission loop stay in \<open>SUBMIT\<close>.\<close>

definition phase_ready :: "field_study_phase \<Rightarrow> phase_machine \<Rightarrow> bool" where
  "phase_ready ph m \<longleftrightarrow>
     (fs_state m \<notin> {ST_PENDING, ST_SUBMIT} \<longrightarrow> submit_time m \<noteq> None) \<and>
     (fs_state m = ST_SUBMIT \<longrightarrow> phase_type_of ph \<in> {LIMIT_OPEN, MULTI_LIMIT}) \<and>
     (submitted_count m > 0 \<longrightarrow> submit_time m \<noteq> None)"

definition within_wait :: "field_study_phase \<Rightarrow> phase_context \<Rightarrow> instant \<Rightarrow> bool" where
  "within_wait ph ctx s \<longleftrightarrow>
     (if phase_type_of ph = IDLE then s = ctx_now ctx \<or> seconds_between s (ctx_now ctx) < idle_seconds ph
      else seconds_between s (ctx_now ctx) \<le> fill_timeout_s ph)"

text \<open>What a move inside a phase leaves alone.\<close>

definition same_study :: "phase_machine \<Rightarrow> phase_machine \<Rightarrow> bool" where
  "same_study m m' \<longleftrightarrow>
     fs_phases m' = fs_phases m \<and> default_lot m' = default_lot m \<and> default_offset m' = default_offset m \<and>
     max_rearm m' = max_rearm m \<and> rearm_shrink m' = rearm_shrink m \<and> fs_idx m' = fs_idx m \<and>
     phase_start m' = phase_start m \<and> fs_results m' = fs_results m"

inductive phase_move :: "field_study_phase \<Rightarrow> phase_context \<Rightarrow> phase_machine \<Rightarrow> phase_step \<Rightarrow> bool"
  for ph ctx m where
  move_wait: "fs_state m' \<notin> {ST_PENDING, ST_SUBMIT} \<Longrightarrow> submit_time m' = Some s \<Longrightarrow> within_wait ph ctx s \<Longrightarrow>
    same_study m m' \<Longrightarrow> rearm_attempts m' = rearm_attempts m \<Longrightarrow>
    phase_move ph ctx m (plain_action ACT_NONE (phase_id ph), m')"
| move_hold: "fs_state m' = ST_SUBMIT \<Longrightarrow> phase_type_of ph \<in> {LIMIT_OPEN, MULTI_LIMIT} \<Longrightarrow>
    active_limit_count ctx > 0 \<or> ctx_has_pending ctx \<Longrightarrow>
    same_study m m' \<Longrightarrow> rearm_attempts m' = rearm_attempts m \<Longrightarrow>
    submit_time m' = submit_time m \<Longrightarrow> submitted_count m' = submitted_count m \<Longrightarrow>
    phase_move ph ctx m (plain_action ACT_NONE (phase_id ph), m')"
| move_act: "act_kind a \<notin> {ACT_NONE, ACT_END_SESSION} \<Longrightarrow> act_phase_id a = phase_id ph \<Longrightarrow>
    submit_time m' = Some (ctx_now ctx) \<Longrightarrow> fs_state m' \<noteq> ST_PENDING \<Longrightarrow>
    (fs_state m' = ST_SUBMIT \<longrightarrow> phase_type_of ph \<in> {LIMIT_OPEN, MULTI_LIMIT}) \<Longrightarrow> same_study m m' \<Longrightarrow>
    rearm_attempts m' = rearm_attempts m \<or>
      rearm_attempts m' = rearm_attempts m + 1 \<and> (0 < max_rearm m \<longrightarrow> int (rearm_attempts m') \<le> max_rearm m) \<Longrightarrow>
    phase_move ph ctx m (a, m')"
| move_finish: "outcome \<noteq> OUT_PENDING \<Longrightarrow>
    (outcome = OUT_EXPECTED_REJECTION \<longrightarrow> expect_rejection ph \<and> rejected_since_submit ctx) \<Longrightarrow>
    (outcome = OUT_PASS \<longrightarrow> expect_rejection ph \<longrightarrow> phase_type_of ph \<noteq> MARKET_OPEN) \<Longrightarrow>
    same_study m m' \<Longrightarrow> rearm_attempts m' = rearm_attempts m \<Longrightarrow>
    phase_move ph ctx m (finish ph outcome reason (ctx_now ctx) m')"
| move_final: "phase_type_of ph = FINAL_SUMMARY \<Longrightarrow> phase_move ph ctx m (handle_final ph ctx m)"

lemma plain_action_simps [simp]:
  "act_kind (plain_action k pid) = k" "act_phase_id (plain_action k pid) = pid"
  by (simp_all add: plain_action_def)

lemma submit_action_simps [simp]:
  "act_kind (submit_market ph m) = ACT_SUBMIT_MARKET" "act_phase_id (submit_market ph m) = phase_id ph"
  "act_kind (submit_limit ph x m) = ACT_SUBMIT_LIMIT" "act_phase_id (submit_limit ph x m) = phase_id ph"
  by (simp_all add: submit_market_def submit_limit_def)

lemma move_act_clock:
  "act_kind a \<notin> {ACT_NONE, ACT_END_SESSION} \<Longrightarrow> act_phase_id a = phase_id ph \<Longrightarrow> fs_state m' \<noteq> ST_PENDING \<Longrightarrow>
   (fs_state m' = ST_SUBMIT \<longrightarrow> phase_type_of ph \<in> {LIMIT_OPEN, MULTI_LIMIT}) \<Longrightarrow> same_study m m' \<Longrightarrow>
   rearm_attempts m' = rearm_attempts m \<or>
      rearm_attempts m' = rearm_attempts m + 1 \<and> (0 < max_rearm m \<longrightarrow> int (rearm_attempts m') \<le> max_rearm m) \<Longrightarrow>
   phase_move ph ctx m (act ctx a m')"
  unfolding act_def by (rule move_act) (simp_all add: same_study_def)

lemma move_wait_clock:
  assumes "phase_type_of ph \<noteq> IDLE" and "\<not> timed_out ph ctx m'" and "fs_state m' \<notin> {ST_PENDING, ST_SUBMIT}"
    and "submit_time m' \<noteq> None" and "same_study m m'" and "rearm_attempts m' = rearm_attempts m"
  shows "phase_move ph ctx m (wait ph m')"
proof -
  from assms(4) obtain s where s: "submit_time m' = Some s" by auto
  with assms(1, 2) have "within_wait ph ctx s" by (simp add: within_wait_def timed_out_def)
  with assms s show ?thesis unfolding wait_def by (intro move_wait)
qed

lemma move_if:
  "(c \<Longrightarrow> phase_move ph ctx m x) \<Longrightarrow> (\<not> c \<Longrightarrow> phase_move ph ctx m y) \<Longrightarrow> phase_move ph ctx m (if c then x else y)"
  by simp

text \<open>The rules of a handler's branches, and the facts their side conditions need.\<close>

lemmas phase_moves = move_if move_finish move_act_clock move_wait_clock
lemmas move_facts = same_study_def phase_ready_def

lemma handle_market_open_move:
  assumes "phase_ready ph m" and "phase_type_of ph = MARKET_OPEN"
  shows "phase_move ph ctx m (handle_market_open ph ctx m)"
  using assms unfolding handle_market_open_def Let_def by (intro phase_moves) (auto simp: move_facts)

lemma handle_close_all_move:
  assumes "phase_ready ph m" and "phase_type_of ph \<in> {MARKET_CLOSE_ALL, FORCE_CLOSE}"
  shows "phase_move ph ctx m (handle_close_all ph ctx m)"
  using assms unfolding handle_close_all_def Let_def by (intro phase_moves) (auto simp: move_facts)

lemma handle_limit_modify_move:
  assumes "phase_ready ph m" and "phase_type_of ph = LIMIT_MODIFY"
  shows "phase_move ph ctx m (handle_limit_modify ph ctx m)"
  using assms unfolding handle_limit_modify_def Let_def by (intro phase_moves) (auto simp: move_facts)

lemma handle_limit_cancel_move:
  assumes "phase_ready ph m" and "phase_type_of ph = LIMIT_CANCEL"
  shows "phase_move ph ctx m (handle_limit_cancel ph ctx m)"
  using assms unfolding handle_limit_cancel_def Let_def by (intro phase_moves) (auto simp: move_facts)

lemma handle_multi_cancel_move:
  assumes "phase_ready ph m" and "phase_type_of ph = MULTI_CANCEL"
  shows "phase_move ph ctx m (handle_multi_cancel ph ctx m)"
  using assms unfolding handle_multi_cancel_def Let_def by (intro phase_moves) (auto simp: move_facts)

lemma handle_partial_close_move:
  assumes "phase_ready ph m" and "phase_type_of ph = PARTIAL_CLOSE"
  shows "phase_move ph ctx m (handle_partial_close ph ctx m)"
  using assms unfolding handle_partial_close_def Let_def by (intro phase_moves) (auto simp: move_facts)

lemma handle_limit_open_move:
  assumes "phase_ready ph m" and "phase_type_of ph = LIMIT_OPEN"
  shows "phase_move ph ctx m (handle_limit_open ph ctx m)"
proof -
  let ?m = "if fs_state m = ST_PENDING then m\<lparr>fs_state := ST_SUBMIT\<rparr> else m"
  have hold: "phase_move ph ctx m (wait ph ?m)" if "fs_state ?m = ST_SUBMIT" "active_limit_count ctx > 0 \<or> ctx_has_pending ctx"
    unfolding wait_def by (rule move_hold) (use that assms in \<open>auto simp: same_study_def\<close>)
  show ?thesis
    using assms unfolding handle_limit_open_def Let_def
    by (intro phase_moves hold) (auto simp: move_facts split: if_splits)
qed

lemma handle_multi_limit_move:
  assumes "phase_ready ph m" and "phase_type_of ph = MULTI_LIMIT"
  shows "phase_move ph ctx m (handle_multi_limit ph ctx m)"
proof -
  let ?m = "if fs_state m = ST_PENDING then m\<lparr>fs_state := ST_SUBMIT\<rparr> else m"
  let ?n = "if fs_state ?m = ST_SUBMIT then ?m\<lparr>fs_state := ST_AWAIT_FILL\<rparr> else ?m"
  have hold: "phase_move ph ctx m (wait ph ?m)" if "fs_state ?m = ST_SUBMIT \<and> x" "ctx_has_pending ctx" for x
    unfolding wait_def by (rule move_hold) (use that assms in \<open>auto simp: same_study_def\<close>)
  have clock: "submit_time ?n \<noteq> None"
    if "\<not> (fs_state ?m = ST_SUBMIT \<and> int (submitted_count ?m) < order_count ph)"
      "\<not> order_count ph \<le> int (active_limit_count ctx)"
    using that assms by (auto simp: phase_ready_def split: if_splits)
  show ?thesis
    using assms(2) unfolding handle_multi_limit_def Let_def
    by (intro phase_moves hold clock) (auto simp: same_study_def split: if_splits)
qed

lemma handle_idle_move:
  assumes "phase_ready ph m" and "phase_type_of ph = IDLE"
  shows "\<exists>r. handle_idle ph ctx m = Inr r \<and> phase_move ph ctx m r"
proof (cases "fs_state m = ST_PENDING")
  case True
  let ?m = "m\<lparr>fs_state := ST_POST_FILL_WAIT, submit_time := Some (ctx_now ctx)\<rparr>"
  have "phase_move ph ctx m (wait ph ?m)"
    unfolding wait_def by (rule move_wait) (auto simp: same_study_def within_wait_def assms(2))
  with True show ?thesis by (simp add: handle_idle_def)
next
  case False
  with assms obtain s where s: "submit_time m = Some s" "fs_state m \<notin> {ST_PENDING, ST_SUBMIT}"
    by (auto simp: phase_ready_def)
  have "phase_move ph ctx m (wait ph m)" if "\<not> seconds_between s (ctx_now ctx) \<ge> idle_seconds ph"
    unfolding wait_def by (rule move_wait) (use s that assms(2) in \<open>auto simp: same_study_def within_wait_def\<close>)
  then show ?thesis
    using False s(1) assms(2) by (auto simp: handle_idle_def same_study_def intro!: move_finish)
qed

lemmas handler_moves =
  handle_market_open_move handle_close_all_move handle_limit_open_move handle_limit_modify_move
  handle_limit_cancel_move handle_multi_limit_move handle_multi_cancel_move handle_partial_close_move

lemma handle_phase_move:
  assumes "phase_ready ph m"
  shows "\<exists>r. handle_phase ph ctx m = Inr r \<and> phase_move ph ctx m r"
  using assms handler_moves [of ph m ctx] handle_idle_move [of ph m ctx] move_final [of ph ctx m]
  unfolding handle_phase_def by (cases "phase_type_of ph") simp_all

section \<open>The invariant of the study\<close>

text \<open>The result a phase may leave behind.\<close>

definition result_for :: "int \<Rightarrow> field_study_phase \<Rightarrow> phase_result \<Rightarrow> bool" where
  "result_for max_attempts ph r \<longleftrightarrow>
     res_phase_id r = phase_id ph \<and> res_phase_type r = phase_type_of ph \<and> res_outcome r \<noteq> OUT_PENDING \<and>
     started_utc r \<noteq> None \<and> ended_utc r \<noteq> None \<and>
     (\<not> enabled ph \<longrightarrow> res_outcome r = OUT_SKIPPED) \<and>
     (res_outcome r = OUT_EXPECTED_REJECTION \<longrightarrow> expect_rejection ph) \<and>
     (phase_type_of ph = MARKET_OPEN \<longrightarrow> expect_rejection ph \<longrightarrow> res_outcome r \<noteq> OUT_PASS) \<and>
     (0 < max_attempts \<longrightarrow> int (res_rearm_attempts r) \<le> max_attempts)"

abbreviation current_phase :: "phase_machine \<Rightarrow> field_study_phase" where
  "current_phase m \<equiv> fs_phases m ! fs_idx m"

definition results_inv :: "phase_machine \<Rightarrow> bool" where
  "results_inv m \<longleftrightarrow> fs_idx m \<le> length (fs_phases m) \<and>
     list_all2 (result_for (max_rearm m)) (take (fs_idx m) (fs_phases m)) (fs_results m)"

text \<open>Inside a phase, before its handler runs.\<close>

definition in_phase :: "phase_machine \<Rightarrow> bool" where
  "in_phase m \<longleftrightarrow> results_inv m \<and> phase_start m \<noteq> None \<and> \<not> is_complete m \<and> enabled (current_phase m) \<and>
     phase_ready (current_phase m) m \<and> (0 < max_rearm m \<longrightarrow> int (rearm_attempts m) \<le> max_rearm m)"

definition study_inv :: "phase_machine \<Rightarrow> bool" where
  "study_inv m \<longleftrightarrow> results_inv m \<and>
     (if phase_start m = None then submit_time m = None else in_phase m \<and> fs_state m \<noteq> ST_PENDING)"

definition study_fresh :: "phase_machine \<Rightarrow> bool" where
  "study_fresh m \<longleftrightarrow> (\<exists>phases lot offset max_attempts shrink. m = new_machine phases lot offset max_attempts shrink)"

definition study_step :: "phase_machine \<Rightarrow> phase_machine \<Rightarrow> bool" where
  "study_step m m' \<longleftrightarrow> (\<exists>ctx a. advance ctx m = Inr (a, m'))"

lemma same_studyD:
  "same_study m m' \<Longrightarrow> fs_phases m' = fs_phases m" "same_study m m' \<Longrightarrow> max_rearm m' = max_rearm m"
  "same_study m m' \<Longrightarrow> fs_idx m' = fs_idx m" "same_study m m' \<Longrightarrow> phase_start m' = phase_start m"
  "same_study m m' \<Longrightarrow> fs_results m' = fs_results m"
  by (simp_all add: same_study_def)

lemma push_result_inv:
  assumes "results_inv m" and "\<not> is_complete m" and "result_for (max_rearm m) (current_phase m) r"
  shows "study_inv (m\<lparr>fs_results := fs_results m @ [r], fs_idx := fs_idx m + 1, phase_start := None, submit_time := None\<rparr>)"
proof -
  from assms(2) have "fs_idx m < length (fs_phases m)" by (simp add: is_complete_def)
  with assms(1,3) show ?thesis
    by (simp add: study_inv_def results_inv_def take_Suc_conv_app_nth list_all2_appendI)
qed

lemma results_inv_same: "same_study m m' \<Longrightarrow> results_inv m' = results_inv m" "same_study m m' \<Longrightarrow> is_complete m' = is_complete m"
  by (simp_all add: same_study_def results_inv_def is_complete_def)

lemma stay_in_phase:
  assumes "in_phase m" and "same_study m m'" and "fs_state m' \<noteq> ST_PENDING" and "phase_ready (current_phase m) m'"
    and "0 < max_rearm m \<longrightarrow> int (rearm_attempts m') \<le> max_rearm m"
  shows "study_inv m'"
  using assms by (auto simp: study_inv_def in_phase_def results_inv_same same_studyD)

lemma phase_move_inv:
  assumes "phase_move (current_phase m) ctx m r" and "in_phase m"
  shows "study_inv (snd r)"
  using assms
proof (cases rule: phase_move.cases)
  case (move_finish outcome m' reason)
  note same = results_inv_same [OF move_finish(5)] same_studyD [OF move_finish(5)]
  have "result_for (max_rearm m') (current_phase m')
    \<lparr>res_phase_id = phase_id (current_phase m), res_phase_type = phase_type_of (current_phase m), res_outcome = outcome,
     res_reason = reason, started_utc = phase_start m', ended_utc = Some (ctx_now ctx), res_rearm_attempts = rearm_attempts m'\<rparr>"
    using move_finish assms(2) unfolding same by (auto simp: result_for_def in_phase_def same)
  from push_result_inv [OF _ _ this] assms(2) show ?thesis
    unfolding move_finish(1) finish_def by (simp add: same in_phase_def)
next
  case move_final
  show ?thesis
    unfolding move_final(1) handle_final_def snd_conv
    by (rule push_result_inv) (use move_final(2) assms(2) in \<open>auto simp: in_phase_def result_for_def\<close>)
next
  case (move_wait m' s)
  then have "study_inv m'" using assms(2) by (intro stay_in_phase [of m]) (auto simp: in_phase_def phase_ready_def)
  with move_wait(1) show ?thesis by simp
next
  case (move_hold m')
  then have "study_inv m'" using assms(2) by (intro stay_in_phase [of m]) (auto simp: in_phase_def phase_ready_def)
  with move_hold(1) show ?thesis by simp
next
  case (move_act a m')
  then have "study_inv m'" using assms(2) by (intro stay_in_phase [of m]) (auto simp: in_phase_def phase_ready_def)
  with move_act(1) show ?thesis by simp
qed

lemma enter_phase_simps [simp]:
  "fs_phases (enter_phase ph ctx m) = fs_phases m" "fs_idx (enter_phase ph ctx m) = fs_idx m"
  "max_rearm (enter_phase ph ctx m) = max_rearm m" "fs_results (enter_phase ph ctx m) = fs_results m"
  "phase_start (enter_phase ph ctx m) = Some (ctx_now ctx)" "submit_time (enter_phase ph ctx m) = submit_time m"
  "fs_state (enter_phase ph ctx m) = ST_PENDING" "submitted_count (enter_phase ph ctx m) = 0"
  "rearm_attempts (enter_phase ph ctx m) = 0"
  by (simp_all add: enter_phase_def)

lemma enter_phase_same [simp]:
  "results_inv (enter_phase ph ctx m) = results_inv m" "is_complete (enter_phase ph ctx m) = is_complete m"
  by (simp_all add: results_inv_def is_complete_def)

text \<open>A tick of a study in progress: the phase is disabled and skipped, or its handler makes one move from
  the entered phase.\<close>

lemma advance_cases:
  assumes "study_inv m" and "\<not> is_complete m"
  obtains (skip) "\<not> enabled (current_phase m)"
      "advance ctx m = Inr (finish (current_phase m) OUT_SKIPPED ''disabled'' (ctx_now ctx) (enter_phase (current_phase m) ctx m))"
    | (move) e r where "e = m \<or> phase_start m = None \<and> e = enter_phase (current_phase m) ctx m" "in_phase e"
      "fs_phases e = fs_phases m" "fs_idx e = fs_idx m" "phase_move (current_phase m) ctx e r" "advance ctx m = Inr r"
proof (cases "phase_start m = None")
  case True
  let ?e = "enter_phase (current_phase m) ctx m"
  show ?thesis
  proof (cases "enabled (current_phase m)")
    case False
    with True assms(2) show ?thesis by (intro skip) (simp_all add: advance_def Let_def)
  next
    case on: True
    have "in_phase ?e" using assms on by (auto simp: in_phase_def study_inv_def phase_ready_def)
    moreover obtain r where "handle_phase (current_phase m) ctx ?e = Inr r" "phase_move (current_phase m) ctx ?e r"
      using handle_phase_move [of "current_phase m" ?e ctx] \<open>in_phase ?e\<close> by (auto simp: in_phase_def)
    ultimately show ?thesis using True on assms(2) by (intro move [of ?e r]) (simp_all add: advance_def Let_def)
  qed
next
  case False
  with assms(1) have i: "in_phase m" by (simp add: study_inv_def)
  then obtain r where "handle_phase (current_phase m) ctx m = Inr r" "phase_move (current_phase m) ctx m r"
    using handle_phase_move [of "current_phase m" m ctx] by (auto simp: in_phase_def)
  with False i assms(2) show ?thesis by (intro move [of m r]) (auto simp: advance_def Let_def)
qed

lemma advance_inv:
  assumes "study_inv m"
  shows "\<exists>a m'. advance ctx m = Inr (a, m') \<and> study_inv m'"
proof (cases "is_complete m")
  case False
  from assms False show ?thesis
  proof (cases rule: advance_cases [where ctx = ctx])
    case skip
    have "study_inv (snd (finish (current_phase m) OUT_SKIPPED ''disabled'' (ctx_now ctx) (enter_phase (current_phase m) ctx m)))"
      using assms False skip(1) unfolding finish_def snd_conv
      by (intro push_result_inv) (auto simp: result_for_def study_inv_def)
    then show ?thesis unfolding skip(2) by (simp add: finish_def)
  next
    case (move e r)
    then show ?thesis using phase_move_inv [of e ctx r] by (cases r) simp
  qed
qed (use assms in \<open>simp add: advance_def\<close>)

interpretation study: invariant_machine study_fresh study_step study_inv
proof
  fix m assume "study_fresh m"
  then show "study_inv m" by (auto simp: study_fresh_def new_machine_def study_inv_def results_inv_def)
next
  fix m m' assume "study_inv m" "study_step m m'"
  from \<open>study_step m m'\<close> obtain ctx a where "advance ctx m = Inr (a, m')" by (auto simp: study_step_def)
  with advance_inv [OF \<open>study_inv m\<close>, of ctx] show "study_inv m'" by auto
qed

lemma study_results:
  assumes "reachable study_fresh study_step m"
  shows "fs_idx m \<le> length (fs_phases m)" "length (fs_results m) = fs_idx m"
    "list_all2 (result_for (max_rearm m)) (take (fs_idx m) (fs_phases m)) (fs_results m)"
  using study.inv_reachable [OF assms] by (auto simp: study_inv_def results_inv_def dest: list_all2_lengthD)

inductive_cases quiet_moveE: "phase_move ph ctx m (a, m')"

lemma quiet_move:
  assumes "phase_move ph ctx m (a, m')" and "act_kind a = ACT_NONE" and "fs_idx m' = fs_idx m"
  shows "fs_state m' = ST_SUBMIT \<and> (active_limit_count ctx > 0 \<or> ctx_has_pending ctx) \<or>
    (\<exists>s. submit_time m' = Some s \<and> within_wait ph ctx s)"
  using assms by (cases rule: quiet_moveE) (auto simp: finish_def handle_final_def same_studyD)

lemma quiet_tick:
  assumes "study_inv m" and "\<not> is_complete m" and "advance ctx m = Inr (a, m')" and "act_kind a = ACT_NONE"
    and "fs_idx m' = fs_idx m"
  shows "fs_state m' = ST_SUBMIT \<and> (active_limit_count ctx > 0 \<or> ctx_has_pending ctx) \<or>
    (\<exists>s. submit_time m' = Some s \<and> within_wait (current_phase m) ctx s)"
  using assms(1,2)
proof (cases rule: advance_cases [where ctx = ctx])
  case skip
  with assms(3,5) show ?thesis by (auto simp: finish_def)
next
  case (move e r)
  with assms(3-5) show ?thesis by (intro quiet_move [of _ _ e a]) auto
qed

section \<open>A close that keeps failing\<close>

text \<open>The phase \<open>MARKET_CLOSE_ALL\<close> re-issues its close whenever nothing is in flight, and every re-issue
  restarts the wait clock. A close that the venue keeps refusing at once is retried for as long as ticks arrive
  within the timeout of each other: the branch \<open>not flat within timeout\<close> is never taken.\<close>

definition study_run :: "phase_context list \<Rightarrow> phase_machine \<Rightarrow> phase_machine res" where
  "study_run = fold_res (\<lambda>ctx m. map_sum id snd (advance ctx m))"

fun ticks_within :: "rat \<Rightarrow> instant \<Rightarrow> phase_context list \<Rightarrow> bool" where
  "ticks_within d s [] = True"
| "ticks_within d s (ctx # ctxs) = (seconds_between s (ctx_now ctx) \<le> d \<and> ticks_within d (ctx_now ctx) ctxs)"

lemma close_retry:
  assumes "\<not> is_complete m" and "phase_type_of (current_phase m) = MARKET_CLOSE_ALL" and "phase_start m \<noteq> None"
    and "fs_state m = ST_CLOSE" and "submit_time m = Some s" and "seconds_between s (ctx_now ctx) \<le> fill_timeout_s (current_phase m)"
    and "open_position_count ctx > 0" and "\<not> ctx_has_pending ctx"
  shows "advance ctx m = Inr (plain_action ACT_CLOSE_ALL (phase_id (current_phase m)), m\<lparr>submit_time := Some (ctx_now ctx)\<rparr>)"
  using assms by (auto simp: advance_def handle_phase_def handle_close_all_def timed_out_def act_def Let_def)

theorem close_retry_never_times_out:
  assumes "\<not> is_complete m" and "phase_type_of (current_phase m) = MARKET_CLOSE_ALL" and "phase_start m \<noteq> None"
    and "fs_state m = ST_CLOSE" and "submit_time m = Some s" and "ticks_within (fill_timeout_s (current_phase m)) s ctxs"
    and "\<forall>ctx\<in>set ctxs. open_position_count ctx > 0 \<and> \<not> ctx_has_pending ctx"
  shows "study_run ctxs m = Inr (m\<lparr>submit_time := Some (last (s # map ctx_now ctxs))\<rparr>)"
  using assms
proof (induction ctxs arbitrary: m s)
  case Nil
  then show ?case by (simp add: study_run_def)
next
  case (Cons ctx ctxs)
  let ?m = "m\<lparr>submit_time := Some (ctx_now ctx)\<rparr>"
  have "advance ctx m = Inr (plain_action ACT_CLOSE_ALL (phase_id (current_phase m)), ?m)"
    by (rule close_retry) (use Cons.prems in auto)
  moreover have "study_run ctxs ?m = Inr (?m\<lparr>submit_time := Some (last (ctx_now ctx # map ctx_now ctxs))\<rparr>)"
    by (rule Cons.IH) (use Cons.prems in \<open>auto simp: is_complete_def\<close>)
  ultimately show ?case by (simp add: study_run_def)
qed

section \<open>A small study\<close>

definition open_phase :: field_study_phase where
  "open_phase = \<lparr>phase_id = ''P1'', phase_type_of = MARKET_OPEN, phase_side_of = SIDE_LONG, enabled = True,
     expect_rejection = False, phase_lots = None, limit_offset_pct = None, order_count = 1, fill_timeout_s = 30,
     post_wait_s = 0, idle_seconds = 0, rearm = False\<rparr>"

definition quiet_context :: "instant \<Rightarrow> phase_context" where
  "quiet_context t = \<lparr>ctx_now = t, mid_price = 100, open_position_count = 0, active_limit_count = 0, ctx_has_pending = True,
     filled_since_submit = False, rejected_since_submit = False, cancelled_since_submit = False,
     current_position_lots = None, budget_ok = True\<rparr>"

definition small_study :: phase_machine where
  "small_study = new_machine [open_phase, open_phase\<lparr>phase_id := ''P2'', phase_type_of := FINAL_SUMMARY\<rparr>] (1/100) (1/1000) 3 (1/2)"

definition opened_study :: phase_machine where
  "opened_study = (enter_phase open_phase (quiet_context 0) small_study)\<lparr>fs_state := ST_AWAIT_FILL, submit_time := Some 0\<rparr>"

lemma opened_study_reachable: "reachable study_fresh study_step opened_study"
proof (rule reachable.reach_step [of _ _ small_study])
  show "reachable study_fresh study_step small_study"
    by (rule reachable.reach_init) (unfold study_fresh_def small_study_def, blast)
  have "advance (quiet_context 0) small_study = Inr (submit_market open_phase (enter_phase open_phase (quiet_context 0) small_study), opened_study)"
    by (simp add: advance_def is_complete_def small_study_def new_machine_def open_phase_def quiet_context_def Let_def
        enter_phase_def handle_phase_def handle_market_open_def act_def opened_study_def submit_market_def lots_for_def)
  then show "study_step small_study opened_study" by (auto simp: study_step_def)
qed

lemma opened_study_waits:
  "\<not> is_complete opened_study"
  "advance (quiet_context 1000000) opened_study = Inr (plain_action ACT_NONE ''P1'', opened_study)"
  by (simp_all add: advance_def is_complete_def opened_study_def small_study_def new_machine_def open_phase_def quiet_context_def
      Let_def enter_phase_def handle_phase_def handle_market_open_def wait_def timed_out_def seconds_between_def)

end
