(* ===== verification/Live_Requests.thy ===== *)
theory Live_Requests
  imports Pending Trading_Math
begin

text \<open>
  The request processor of live trading, \<^verbatim>\<open>trading_env/live/live_request_processor.py\<close>, with
  \<^verbatim>\<open>types/live_types/live_execution_types.py\<close> and \<^verbatim>\<open>types/live_types/live_request_types.py\<close>.

  The main thread appends jobs to an outbox; a worker thread takes them one at a time, talks to the broker
  and appends a response to an inbox; the main thread drains the inbox. Both queues are thread-safe FIFO
  queues and the worker touches nothing else, so a worker action is one atomic step: it takes the first job
  and appends its response.

  The adapter's network layers are a parameter (\<open>live_adapter\<close>): what each build, request and parse call
  returns or raises. A job carries the adapter in the source; every caller passes the same one, so the
  worker step takes it as an argument, and another one may be given at every step. An exception is a pair of
  its kind and its text, since handlers keep \<open>str(e)\<close>. Readings of \<open>datetime.now\<close> are arguments.
\<close>

section \<open>Broker responses\<close>

datatype broker_order_status = BS_PENDING | BS_FILLED | BS_PARTIALLY_FILLED | BS_REJECTED | BS_CANCELLED | BS_EXPIRED

record broker_response =
  resp_broker_ref :: string
  resp_status :: broker_order_status
  resp_fill_price :: "price option"
  resp_filled_lots :: "lots option"
  resp_rejection_reason :: "string option"
  resp_timestamp :: instant

definition resp_is_filled :: "broker_response \<Rightarrow> bool" where
  "resp_is_filled r = (resp_status r = BS_FILLED)"

definition resp_is_rejected :: "broker_response \<Rightarrow> bool" where
  "resp_is_rejected r = (resp_status r = BS_REJECTED)"

definition resp_is_terminal :: "broker_response \<Rightarrow> bool" where
  "resp_is_terminal r = (resp_status r \<in> {BS_FILLED, BS_REJECTED, BS_CANCELLED, BS_EXPIRED})"

definition rejected_response :: "string \<Rightarrow> string \<Rightarrow> instant \<Rightarrow> broker_response" where
  "rejected_response ref msg now =
     \<lparr>resp_broker_ref = ref, resp_status = BS_REJECTED, resp_fill_price = None, resp_filled_lots = None,
      resp_rejection_reason = Some msg, resp_timestamp = now\<rparr>"

section \<open>The adapter's network layers\<close>

type_synonym 'a call = "(py_error \<times> string) + 'a"

definition bind_call :: "'a call \<Rightarrow> ('a \<Rightarrow> 'b call) \<Rightarrow> 'b call" where
  "bind_call m f = (case m of Inl e \<Rightarrow> Inl e | Inr x \<Rightarrow> f x)"

text \<open>An exception nobody catches, and \<open>except Exception as e\<close>.\<close>

definition propagate :: "'a call \<Rightarrow> 'a res" where
  "propagate m = (case m of Inl (e, msg) \<Rightarrow> Inl e | Inr x \<Rightarrow> Inr x)"

definition catching :: "'a call \<Rightarrow> (string \<Rightarrow> 'a) \<Rightarrow> 'a" where
  "catching m h = (case m of Inl (e, msg) \<Rightarrow> h msg | Inr x \<Rightarrow> x)"

record ('p, 'r) live_adapter =
  build_submit_payload :: "string \<Rightarrow> order_direction \<Rightarrow> lots \<Rightarrow> order_type \<Rightarrow> order_kwargs \<Rightarrow> price option \<Rightarrow> 'p call"
  do_request_submit :: "'p \<Rightarrow> 'r call"
  parse_submit_response :: "'r \<Rightarrow> instant \<Rightarrow> broker_response call"
  build_modify_payload :: "string \<Rightarrow> string \<Rightarrow> price option \<Rightarrow> price option \<Rightarrow> price option \<Rightarrow> 'p call"
  do_request_modify :: "'p \<Rightarrow> 'r call"
  parse_modify_response :: "'r \<Rightarrow> string \<Rightarrow> instant \<Rightarrow> broker_response call"
  build_cancel_payload :: "string \<Rightarrow> 'p call"
  do_request_cancel :: "'p \<Rightarrow> 'r call"
  parse_cancel_response :: "'r \<Rightarrow> string \<Rightarrow> instant \<Rightarrow> broker_response call"
  build_position_modify_payload :: "string \<Rightarrow> string \<Rightarrow> price option \<Rightarrow> price option \<Rightarrow> 'p call"
  do_request_position_modify :: "'p \<Rightarrow> 'r call"
  parse_position_modify_response :: "'r \<Rightarrow> string \<Rightarrow> instant \<Rightarrow> broker_response call"
  build_query_payload :: "string \<Rightarrow> 'p call"
  do_request_query :: "'p \<Rightarrow> 'r call"
  parse_query_response :: "'r \<Rightarrow> string \<Rightarrow> instant \<Rightarrow> broker_response call"
  build_trades_query_payload :: "string \<Rightarrow> 'p call"
  do_request_trades_query :: "'p \<Rightarrow> 'r call"
  parse_trades_query_response :: "'r \<Rightarrow> string \<Rightarrow> string \<Rightarrow> broker_trade list call"

section \<open>Jobs and responses\<close>

datatype 'p job =
    SubmitJob (job_id: string) pending_action order_type 'p
  | EditJob (job_id: string) (job_ref: string) string "price option" "price option" "price option"
  | CancelJob (job_id: string) (job_ref: string)
  | PositionModifyJob (job_id: string) string "price option" "price option"
  | TradesQueryJob (job_id: string) (job_ref: string)
  | QueryJob (job_id: string) (job_ref: string)

datatype response =
    SubmitResponse (reply_id: string) pending_action order_type broker_response
  | EditResponse (reply_id: string) broker_response
  | CancelResponse (reply_id: string) broker_response
  | PositionModifyResponse (reply_id: string) broker_response
  | TradesQueryResponse (reply_id: string) (reply_ref: string) "broker_trade list" bool "string option"
  | QueryResponse (reply_id: string) broker_response

section \<open>State\<close>

record 'p processor = pending_manager +
  order_timeout_seconds :: rat
  broker_ref_index :: "(string, string) dict"
  http_outbox :: "'p job list"
  http_inbox :: "response list"
  worker_running :: bool

definition new_processor :: "rat \<Rightarrow> 'p processor" where
  "new_processor secs =
     \<lparr>pending_orders = [], fill_counter = 0, pending_st = new_pending_stats, order_timeout_seconds = secs,
      broker_ref_index = [], http_outbox = [], http_inbox = [], worker_running = False\<rparr>"

section \<open>Synchronous orchestrators\<close>

text \<open>The request call alone is guarded: an exception of the transport becomes a rejection, an exception of
  the build or parse call escapes.\<close>

definition guarded_request :: "'r call \<Rightarrow> string \<Rightarrow> instant \<Rightarrow> ('r \<Rightarrow> broker_response call) \<Rightarrow> broker_response call" where
  "guarded_request raw ref now parse =
     (case raw of Inl (e, msg) \<Rightarrow> Inr (rejected_response ref msg now) | Inr x \<Rightarrow> parse x)"

definition submit_open_sync ::
  "('p, 'r) live_adapter \<Rightarrow> instant \<Rightarrow> string \<Rightarrow> order_direction \<Rightarrow> lots \<Rightarrow> order_type \<Rightarrow> order_kwargs \<Rightarrow> price option \<Rightarrow>
   broker_response call" where
  "submit_open_sync ad now smb d l ot kw x =
     bind_call (build_submit_payload ad smb d l ot kw x) (\<lambda>payload.
       guarded_request (do_request_submit ad payload) [] now (\<lambda>raw. parse_submit_response ad raw now))"

definition submit_close_sync ::
  "('p, 'r) live_adapter \<Rightarrow> instant \<Rightarrow> string \<Rightarrow> order_direction \<Rightarrow> lots \<Rightarrow> order_kwargs \<Rightarrow> broker_response call" where
  "submit_close_sync ad now smb d l kw =
     bind_call (build_submit_payload ad smb d l OT_MARKET kw None) (\<lambda>payload.
       guarded_request (do_request_submit ad payload) [] now (\<lambda>raw. parse_submit_response ad raw now))"

definition modify_order_sync ::
  "('p, 'r) live_adapter \<Rightarrow> instant \<Rightarrow> string \<Rightarrow> string \<Rightarrow> price option \<Rightarrow> price option \<Rightarrow> price option \<Rightarrow> broker_response call" where
  "modify_order_sync ad now ref smb x sl tp =
     bind_call (build_modify_payload ad ref smb x sl tp) (\<lambda>payload.
       guarded_request (do_request_modify ad payload) ref now (\<lambda>raw. parse_modify_response ad raw ref now))"

definition query_order_sync :: "('p, 'r) live_adapter \<Rightarrow> instant \<Rightarrow> string \<Rightarrow> broker_response call" where
  "query_order_sync ad now ref =
     bind_call (build_query_payload ad ref) (\<lambda>payload.
       guarded_request (do_request_query ad payload) ref now (\<lambda>raw. parse_query_response ad raw ref now))"

definition cancel_order_sync :: "('p, 'r) live_adapter \<Rightarrow> instant \<Rightarrow> string \<Rightarrow> broker_response call" where
  "cancel_order_sync ad now ref =
     bind_call (build_cancel_payload ad ref) (\<lambda>payload.
       guarded_request (do_request_cancel ad payload) ref now (\<lambda>raw. parse_cancel_response ad raw ref now))"

section \<open>Storage\<close>

definition timeout_instant :: "'p processor \<Rightarrow> instant \<Rightarrow> instant" where
  "timeout_instant q now = now + round_half_even (order_timeout_seconds q * 1000000)"

definition index_ref :: "string option \<Rightarrow> string \<Rightarrow> 'p processor \<Rightarrow> 'p processor" where
  "index_ref ref oid q =
     (case ref of None \<Rightarrow> q | Some r \<Rightarrow> q\<lparr>broker_ref_index := AList.update r oid (broker_ref_index q)\<rparr>)"

definition live_timing :: "instant \<Rightarrow> instant \<Rightarrow> pending_order_timing" where
  "live_timing now due = no_timing\<lparr>submitted_at := Some now, timeout_at := Some due\<rparr>"

text \<open>A market order has no entry price (\<open>None\<close> in the source); nothing reads it before the fill.\<close>

definition register_pending_open ::
  "instant \<Rightarrow> string \<Rightarrow> string \<Rightarrow> order_direction \<Rightarrow> lots \<Rightarrow> string option \<Rightarrow> order_kwargs \<Rightarrow> submission_metadata \<Rightarrow>
   'p processor \<Rightarrow> 'p processor" where
  "register_pending_open now oid smb d l ref kw sub q =
     index_ref ref oid (store_order
       \<lparr>pending_order_id = oid, po_order_action = PA_OPEN, po_order_type = None, po_broker_ref = ref,
        po_open = Some \<lparr>os_symbol = smb, os_direction = d, os_lots = l, os_entry_price = 0, os_entry_time = now,
                        os_kwargs = kw\<rparr>,
        po_close_lots = None, timing = live_timing now (timeout_instant q now), execution_state = steady_state,
        fills = no_fills, submission = sub\<rparr> q)"

definition register_pending_close ::
  "instant \<Rightarrow> string \<Rightarrow> string option \<Rightarrow> lots option \<Rightarrow> submission_metadata \<Rightarrow> 'p processor \<Rightarrow> 'p processor" where
  "register_pending_close now pid ref l sub q =
     index_ref ref pid (store_order
       \<lparr>pending_order_id = pid, po_order_action = PA_CLOSE, po_order_type = None, po_broker_ref = ref,
        po_open = None, po_close_lots = l, timing = live_timing now (timeout_instant q now),
        execution_state = steady_state, fills = no_fills, submission = sub\<rparr> q)"

section \<open>Outcomes, timeouts, references\<close>

text \<open>\<open>mark_filled\<close> and \<open>mark_rejected\<close> differ in their log lines only. Popping an unknown reference, the
  missing reference of an unconfirmed order included, changes nothing.\<close>

definition mark_resolved :: "string option \<Rightarrow> 'p processor \<Rightarrow> pending_order option \<times> 'p processor" where
  "mark_resolved ref q =
     (case Option.bind ref (map_of (broker_ref_index q)) of
        None \<Rightarrow> (None, q)
      | Some oid \<Rightarrow> remove_order oid (q\<lparr>broker_ref_index := AList.delete (the ref) (broker_ref_index q)\<rparr>))"

definition mark_filled :: "string option \<Rightarrow> 'p processor \<Rightarrow> pending_order option \<times> 'p processor" where
  "mark_filled = mark_resolved"

definition mark_rejected :: "string option \<Rightarrow> 'p processor \<Rightarrow> pending_order option \<times> 'p processor" where
  "mark_rejected = mark_resolved"

definition is_timed_out :: "instant \<Rightarrow> pending_order \<Rightarrow> bool" where
  "is_timed_out now po = (case timeout_at (timing po) of None \<Rightarrow> False | Some t \<Rightarrow> t \<le> now)"

definition check_timeouts :: "instant \<Rightarrow> 'p processor \<Rightarrow> pending_order list" where
  "check_timeouts now q = filter (is_timed_out now) (vals_of (pending_orders q))"

definition set_broker_ref :: "string \<Rightarrow> string \<Rightarrow> 'p processor \<Rightarrow> 'p processor" where
  "set_broker_ref oid ref q =
     (case map_of (pending_orders q) oid of
        None \<Rightarrow> q
      | Some po \<Rightarrow> q\<lparr>pending_orders := AList.update oid (po\<lparr>po_broker_ref := Some ref\<rparr>) (pending_orders q)\<rparr>)"

definition update_broker_ref :: "string option \<Rightarrow> string \<Rightarrow> 'p processor \<Rightarrow> bool \<times> 'p processor" where
  "update_broker_ref old_ref new_ref q =
     (case Option.bind old_ref (map_of (broker_ref_index q)) of
        None \<Rightarrow> (False, q)
      | Some oid \<Rightarrow>
          (True, set_broker_ref oid new_ref
             (q\<lparr>broker_ref_index := AList.update new_ref oid (AList.delete (the old_ref) (broker_ref_index q))\<rparr>)))"

definition get_by_broker_ref :: "string \<Rightarrow> 'p processor \<Rightarrow> pending_order option" where
  "get_by_broker_ref ref q = Option.bind (map_of (broker_ref_index q) ref) (map_of (pending_orders q))"

definition get_broker_ref :: "string \<Rightarrow> 'p processor \<Rightarrow> string option" where
  "get_broker_ref oid q = map_option fst (find (\<lambda>(ref, k). k = oid) (broker_ref_index q))"

definition clear_pending_live :: "instant \<Rightarrow> string \<Rightarrow> 'p processor \<Rightarrow> 'p processor" where
  "clear_pending_live now reason q = (clear_pending None now reason q)\<lparr>broker_ref_index := []\<rparr>"

section \<open>The worker\<close>

definition start_worker :: "'p processor \<Rightarrow> 'p processor" where
  "start_worker q = q\<lparr>worker_running := True\<rparr>"

definition stop_worker :: "'p processor \<Rightarrow> 'p processor" where
  "stop_worker q = q\<lparr>worker_running := False\<rparr>"

definition dispatch_submit_job ::
  "('p, 'r) live_adapter \<Rightarrow> instant \<Rightarrow> string \<Rightarrow> pending_action \<Rightarrow> order_type \<Rightarrow> 'p \<Rightarrow> response" where
  "dispatch_submit_job ad now oid act ot payload =
     SubmitResponse oid act ot
       (catching (bind_call (do_request_submit ad payload) (\<lambda>raw. parse_submit_response ad raw now))
          (\<lambda>msg. rejected_response [] msg now))"

definition dispatch_edit_job ::
  "('p, 'r) live_adapter \<Rightarrow> instant \<Rightarrow> string \<Rightarrow> string \<Rightarrow> string \<Rightarrow> price option \<Rightarrow> price option \<Rightarrow> price option \<Rightarrow> response" where
  "dispatch_edit_job ad now oid ref smb x sl tp =
     EditResponse oid
       (catching (bind_call (build_modify_payload ad ref smb x sl tp) (\<lambda>payload.
           bind_call (do_request_modify ad payload) (\<lambda>raw. parse_modify_response ad raw ref now)))
          (\<lambda>msg. rejected_response ref msg now))"

definition dispatch_cancel_job :: "('p, 'r) live_adapter \<Rightarrow> instant \<Rightarrow> string \<Rightarrow> string \<Rightarrow> response" where
  "dispatch_cancel_job ad now oid ref =
     CancelResponse oid
       (catching (bind_call (build_cancel_payload ad ref) (\<lambda>payload.
           bind_call (do_request_cancel ad payload) (\<lambda>raw. parse_cancel_response ad raw ref now)))
          (\<lambda>msg. rejected_response ref msg now))"

definition dispatch_position_modify_job ::
  "('p, 'r) live_adapter \<Rightarrow> instant \<Rightarrow> string \<Rightarrow> string \<Rightarrow> price option \<Rightarrow> price option \<Rightarrow> response" where
  "dispatch_position_modify_job ad now pid smb sl tp =
     PositionModifyResponse pid
       (catching (bind_call (build_position_modify_payload ad pid smb sl tp) (\<lambda>payload.
           bind_call (do_request_position_modify ad payload) (\<lambda>raw. parse_position_modify_response ad raw pid now)))
          (\<lambda>msg. rejected_response pid msg now))"

definition dispatch_query_job :: "('p, 'r) live_adapter \<Rightarrow> instant \<Rightarrow> string \<Rightarrow> string \<Rightarrow> response" where
  "dispatch_query_job ad now oid ref =
     QueryResponse oid
       (catching (bind_call (build_query_payload ad ref) (\<lambda>payload.
           bind_call (do_request_query ad payload) (\<lambda>raw. parse_query_response ad raw ref now)))
          (\<lambda>msg. rejected_response ref msg now))"

definition dispatch_trades_query_job :: "('p, 'r) live_adapter \<Rightarrow> string \<Rightarrow> string \<Rightarrow> response" where
  "dispatch_trades_query_job ad oid ref =
     catching (bind_call (build_trades_query_payload ad ref) (\<lambda>payload.
         bind_call (do_request_trades_query ad payload) (\<lambda>raw.
           bind_call (parse_trades_query_response ad raw ref oid) (\<lambda>trades.
             Inr (TradesQueryResponse oid ref trades True None)))))
       (\<lambda>msg. TradesQueryResponse oid ref [] False (Some msg))"

definition dispatch_job :: "('p, 'r) live_adapter \<Rightarrow> instant \<Rightarrow> 'p job \<Rightarrow> response" where
  "dispatch_job ad now j =
     (case j of
        SubmitJob oid act ot payload \<Rightarrow> dispatch_submit_job ad now oid act ot payload
      | EditJob oid ref smb x sl tp \<Rightarrow> dispatch_edit_job ad now oid ref smb x sl tp
      | CancelJob oid ref \<Rightarrow> dispatch_cancel_job ad now oid ref
      | PositionModifyJob pid smb sl tp \<Rightarrow> dispatch_position_modify_job ad now pid smb sl tp
      | TradesQueryJob oid ref \<Rightarrow> dispatch_trades_query_job ad oid ref
      | QueryJob oid ref \<Rightarrow> dispatch_query_job ad now oid ref)"

text \<open>One round of the worker loop; an empty outbox is a round without effect.\<close>

definition worker_loop :: "('p, 'r) live_adapter \<Rightarrow> instant \<Rightarrow> 'p processor \<Rightarrow> 'p processor" where
  "worker_loop ad now q =
     (if \<not> worker_running q then q
      else case http_outbox q of
             [] \<Rightarrow> q
           | j # js \<Rightarrow> q\<lparr>http_outbox := js, http_inbox := http_inbox q @ [dispatch_job ad now j]\<rparr>)"

section \<open>Asynchronous orchestrators\<close>

definition put_job :: "'p job \<Rightarrow> 'p processor \<Rightarrow> 'p processor" where
  "put_job j q = q\<lparr>http_outbox := http_outbox q @ [j]\<rparr>"

definition submit_open_order_async ::
  "('p, 'r) live_adapter \<Rightarrow> string \<Rightarrow> string \<Rightarrow> order_direction \<Rightarrow> lots \<Rightarrow> order_type \<Rightarrow> order_kwargs \<Rightarrow> price option \<Rightarrow>
   'p processor \<Rightarrow> 'p processor res" where
  "submit_open_order_async ad oid smb d l ot kw x q =
     bind_res (propagate (build_submit_payload ad smb d l ot kw x)) (\<lambda>payload.
       Inr (put_job (SubmitJob oid PA_OPEN ot payload) q))"

definition no_kwargs :: order_kwargs where
  "no_kwargs = \<lparr>kw_stop_loss = None, kw_take_profit = None, kw_comment = None, kw_limit_price = None,
     kw_from_stop_limit = False\<rparr>"

definition submit_close_order_async ::
  "('p, 'r) live_adapter \<Rightarrow> string \<Rightarrow> string \<Rightarrow> order_direction \<Rightarrow> lots \<Rightarrow> 'p processor \<Rightarrow> 'p processor res" where
  "submit_close_order_async ad pid smb d l q =
     bind_res (propagate (build_submit_payload ad smb d l OT_MARKET no_kwargs None)) (\<lambda>payload.
       Inr (put_job (SubmitJob pid PA_CLOSE OT_MARKET payload) q))"

definition submit_modify_order_async ::
  "string \<Rightarrow> string \<Rightarrow> string \<Rightarrow> price option \<Rightarrow> price option \<Rightarrow> price option \<Rightarrow> 'p processor \<Rightarrow> 'p processor" where
  "submit_modify_order_async oid ref smb x sl tp q = put_job (EditJob oid ref smb x sl tp) q"

definition submit_cancel_order_async :: "string \<Rightarrow> string \<Rightarrow> 'p processor \<Rightarrow> 'p processor" where
  "submit_cancel_order_async oid ref q = put_job (CancelJob oid ref) q"

definition submit_modify_position_async ::
  "string \<Rightarrow> string \<Rightarrow> price option \<Rightarrow> price option \<Rightarrow> 'p processor \<Rightarrow> 'p processor" where
  "submit_modify_position_async pid smb sl tp q = put_job (PositionModifyJob pid smb sl tp) q"

definition submit_query_order_async :: "string \<Rightarrow> string \<Rightarrow> 'p processor \<Rightarrow> 'p processor" where
  "submit_query_order_async oid ref q = put_job (QueryJob oid ref) q"

definition submit_trades_query_async :: "string \<Rightarrow> string \<Rightarrow> 'p processor \<Rightarrow> 'p processor" where
  "submit_trades_query_async oid ref q = put_job (TradesQueryJob oid ref) q"

end
