(* ===== verification/Live_Executor.thy ===== *)
theory Live_Executor
  imports Executor Live_Requests
begin

text \<open>
  The live execution engine, \<^verbatim>\<open>trading_env/live/live_trade_executor.py\<close>. The record \<open>live_executor\<close> extends
  \<open>executor\<close> as the class does and holds the request processor. The handlers the executor registers with the
  processor run while the inbox is drained, so \<open>drain_inbox\<close> and the processor's submit-response handler are
  functions on the executor here.

  A close order carries no direction; a listener call without direction is recorded in \<open>undirected_log\<close>, all
  others in \<open>outcome_log\<close>. \<open>trades_log\<close> is what every consumer of trade queries receives. A synchronous cancel
  whose answer is discarded leaves its reference in \<open>broker_cancels\<close>. All readings of the wall clock inside one
  operation are the same \<open>wall_now\<close>. A response that arrives while the inbox is drained waits for the next
  drain. A resting order without a price has the entry price 0 (\<open>None\<close> in the source).
\<close>

section \<open>State\<close>

record 'p live_executor = executor +
  request_processor :: "'p processor"
  poll_interval_ms :: rat
  live_position_modifications :: "(string, modification_request) dict"
  undirected_log :: "(order_result \<times> pending_order option) list"
  trades_log :: "response list"
  broker_cancels :: "string list"

text \<open>The constructors. \<open>enabled\<close> tells whether \<open>enable_live\<close> has been called on a Kraken adapter; no other adapter
  can trade live.\<close>

definition is_live_capable :: "broker \<Rightarrow> bool \<Rightarrow> bool" where
  "is_live_capable br enabled = (br_kind br = KRAKEN \<and> enabled)"

definition live_init ::
  "broker \<Rightarrow> bool \<Rightarrow> money \<Rightarrow> string \<Rightarrow> nat \<Rightarrow> nat \<Rightarrow> bool \<Rightarrow> (string, money) dict \<Rightarrow>
   swap_rollover_config option \<Rightarrow> rat \<Rightarrow> rat \<Rightarrow> bool \<Rightarrow> instant \<Rightarrow> 'p live_executor res" where
  "live_init br enabled ib cur ohmax thmax spot ibs roll timeout_s poll_ms sink now =
     (if \<not> is_live_capable br enabled then Inl ValueError
      else let (lev, call, stopout) = account_leverage br in Inr
      \<lparr>ex_portfolio = portfolio_init ib cur br lev call stopout thmax spot ibs None roll,
       ex_prices = [], ex_tick = None, tick_counter = 0, clock_time = None, market_status = fresh_status,
       order_counter = 0, order_history_max = ohmax, order_history = [], order_history_limit_warned = False,
       orders_sent = 0, orders_executed = 0, orders_rejected = 0, sl_tp_triggered = 0,
       active_limit_orders = [], active_stop_orders = [], ex_mode = LIVE, outcome_log = [],
       event_sink = sink, event_log = [], session_end_requested = False, session_end_reason = [],
       session_end_sev = SEV_NORMAL, synth_trade_seq = 0, wall_now = now,
       request_processor = start_worker (new_processor timeout_s), poll_interval_ms = poll_ms,
       live_position_modifications = [], undirected_log = [], trades_log = [], broker_cancels = []\<rparr>)"

definition on_processor :: "('p processor \<Rightarrow> 'p processor) \<Rightarrow> 'p live_executor \<Rightarrow> 'p live_executor" where
  "on_processor f s = s\<lparr>request_processor := f (request_processor s)\<rparr>"

definition live_notify ::
  "order_direction option \<Rightarrow> order_result \<Rightarrow> pending_order option \<Rightarrow> 'p live_executor \<Rightarrow> 'p live_executor" where
  "live_notify d r po s =
     (case d of Some x \<Rightarrow> notify_outcome x r po s | None \<Rightarrow> s\<lparr>undirected_log := undirected_log s @ [(r, po)]\<rparr>)"

definition order_direction_of :: "pending_order \<Rightarrow> order_direction option" where
  "order_direction_of po = map_option os_direction (po_open po)"

text \<open>The tail of every broker-side rejection: counter, history, listeners.\<close>

definition record_rejected ::
  "order_direction option \<Rightarrow> order_result \<Rightarrow> pending_order option \<Rightarrow> 'p live_executor \<Rightarrow> 'p live_executor" where
  "record_rejected d r po s =
     live_notify d r po (append_order_history r (s\<lparr>orders_rejected := orders_rejected s + 1\<rparr>))"

section \<open>Orders in transit\<close>

definition calculate_pending_latency_ms :: "instant \<Rightarrow> pending_order \<Rightarrow> rat option" where
  "calculate_pending_latency_ms now po = map_option (\<lambda>t. of_int (now - t) / 1000) (submitted_at (timing po))"

definition fill_by_action :: "pending_order \<Rightarrow> price option \<Rightarrow> 'p live_executor \<Rightarrow> 'p live_executor res" where
  "fill_by_action po x s =
     (case po_order_action po of
        PA_OPEN \<Rightarrow> fill_open_order po x ET_MARKET FT_MARKET s
      | PA_CLOSE \<Rightarrow> fill_close_order po x CR_MANUAL s)"

definition handle_broker_response :: "pending_order \<Rightarrow> broker_response \<Rightarrow> 'p live_executor \<Rightarrow> 'p live_executor res" where
  "handle_broker_response po r s =
     (if resp_status r = BS_FILLED then
        (let (filled, q) = mark_filled (po_broker_ref po) (request_processor s); s1 = s\<lparr>request_processor := q\<rparr> in
         case filled of
           None \<Rightarrow> Inr s1
         | Some f \<Rightarrow>
             fill_by_action f (resp_fill_price r)
               (on_processor (record_outcome f PO_FILLED (calculate_pending_latency_ms (wall_now s1) f) None) s1))
      else if resp_status r = BS_REJECTED then
        (let (rejected, q) = mark_rejected (po_broker_ref po) (request_processor s); s1 = s\<lparr>request_processor := q\<rparr> in
         case rejected of
           None \<Rightarrow> Inr s1
         | Some f \<Rightarrow>
             Inr (record_rejected (order_direction_of f) (create_rejection_result (pending_order_id f) BROKER_ERROR) (Some f)
               (on_processor (record_outcome f PO_REJECTED (calculate_pending_latency_ms (wall_now s1) f) None) s1)))
      else Inr s)"

definition has_ref :: "pending_order \<Rightarrow> bool" where
  "has_ref po = (case po_broker_ref po of None \<Rightarrow> False | Some r \<Rightarrow> r \<noteq> [])"

definition log_cancel :: "pending_order \<Rightarrow> 'p live_executor \<Rightarrow> 'p live_executor" where
  "log_cancel po s = (if has_ref po then s\<lparr>broker_cancels := broker_cancels s @ [the (po_broker_ref po)]\<rparr> else s)"

definition handle_timeout :: "pending_order \<Rightarrow> 'p live_executor \<Rightarrow> 'p live_executor" where
  "handle_timeout po s =
     (let s1 = log_cancel po s;
          s2 = on_processor (record_outcome po PO_TIMED_OUT (calculate_pending_latency_ms (wall_now s1) po) None) s1;
          s3 = on_processor (\<lambda>q. snd (mark_rejected (po_broker_ref po) q)) s2
      in record_rejected (order_direction_of po) (create_rejection_result (pending_order_id po) BROKER_ERROR) (Some po) s3)"

definition handle_timeouts :: "'p live_executor \<Rightarrow> 'p live_executor" where
  "handle_timeouts s = fold handle_timeout (check_timeouts (wall_now s) (request_processor s)) s"

section \<open>Responses to submissions\<close>

definition record_async_rejection :: "order_direction option \<Rightarrow> order_result \<Rightarrow> 'p live_executor \<Rightarrow> 'p live_executor" where
  "record_async_rejection d r s = record_rejected d r None s"

text \<open>\<open>list.remove\<close> raises when the order is not in the list.\<close>

definition remove_limit :: "pending_order \<Rightarrow> 'p live_executor \<Rightarrow> 'p live_executor res" where
  "remove_limit po s =
     (if po \<in> set (active_limit_orders s)
      then Inr (s\<lparr>active_limit_orders := remove1 po (active_limit_orders s)\<rparr>) else Inl ValueError)"

definition map_state :: "(pending_execution_state \<Rightarrow> pending_execution_state) \<Rightarrow> pending_order \<Rightarrow> pending_order" where
  "map_state f po = po\<lparr>execution_state := f (execution_state po)\<rparr>"

definition update_limit :: "string \<Rightarrow> (pending_order \<Rightarrow> pending_order) \<Rightarrow> 'p live_executor \<Rightarrow> 'p live_executor" where
  "update_limit oid f s = s\<lparr>active_limit_orders := update_first (has_id oid) f (active_limit_orders s)\<rparr>"

definition handle_limit_submit_response :: "string \<Rightarrow> broker_response \<Rightarrow> 'p live_executor \<Rightarrow> 'p live_executor res" where
  "handle_limit_submit_response oid r s =
     (case find (has_id oid) (active_limit_orders s) of
        None \<Rightarrow> Inr s
      | Some po \<Rightarrow>
          if resp_is_rejected r then
            bind_res (remove_limit po s) (\<lambda>s1.
              Inr (record_async_rejection (order_direction_of po) (create_rejection_result oid BROKER_ERROR) s1))
          else
            let po1 = po\<lparr>po_broker_ref := Some (resp_broker_ref r)\<rparr>;
                s1 = update_limit oid (\<lambda>_. po1) s
            in if resp_is_filled r then
                 bind_res (remove_limit po1 s1) (fill_open_order po1 (resp_fill_price r) ET_MARKET FT_MARKET)
               else if cancel_requested (execution_state po1) then
                 Inr (on_processor (submit_cancel_order_async oid (resp_broker_ref r))
                   (update_limit oid (map_state (\<lambda>es. es\<lparr>cancel_requested := False, in_flight_operation := PENDING_CANCEL\<rparr>)) s1))
               else Inr s1)"

definition handle_submit_response ::
  "string \<Rightarrow> pending_action \<Rightarrow> order_type \<Rightarrow> broker_response \<Rightarrow> 'p live_executor \<Rightarrow> 'p live_executor res" where
  "handle_submit_response oid act ot r s =
     (if ot = OT_LIMIT then handle_limit_submit_response oid r s
      else case map_of (pending_orders (request_processor s)) oid of
        None \<Rightarrow> Inr s
      | Some po \<Rightarrow>
          if resp_is_rejected r then
            let s1 = on_processor (\<lambda>q. snd (remove_order oid q)) s;
                s2 = (case po_broker_ref po of
                        None \<Rightarrow> s1
                      | Some ref \<Rightarrow> on_processor (\<lambda>q. q\<lparr>broker_ref_index := AList.delete ref (broker_ref_index q)\<rparr>) s1)
            in Inr (record_async_rejection (order_direction_of po) (create_rejection_result oid BROKER_ERROR) s2)
          else
            let ref = resp_broker_ref r;
                s1 = on_processor (set_broker_ref oid ref) s;
                s2 = (if ref \<noteq> [] then on_processor (index_ref (Some ref) oid) s1 else s1)
            in if \<not> resp_is_filled r then Inr s2
               else
                 let (filled, q) = mark_filled (Some ref) (request_processor s2); s3 = s2\<lparr>request_processor := q\<rparr> in
                 case filled of
                   None \<Rightarrow> Inr s3
                 | Some f \<Rightarrow>
                     (case act of
                        PA_OPEN \<Rightarrow> fill_open_order f (resp_fill_price r) ET_MARKET FT_MARKET s3
                      | PA_CLOSE \<Rightarrow> fill_close_order f (resp_fill_price r) CR_MANUAL s3))"

section \<open>Responses to modifications and cancellations\<close>

definition find_active_order :: "string \<Rightarrow> 'a executor_scheme \<Rightarrow> pending_order option" where
  "find_active_order oid s =
     (case find (has_id oid) (active_limit_orders s) of
        Some po \<Rightarrow> Some po
      | None \<Rightarrow> find (has_id oid) (active_stop_orders s))"

text \<open>Changing the order \<open>find_active_order\<close> finds.\<close>

definition update_active :: "string \<Rightarrow> (pending_order \<Rightarrow> pending_order) \<Rightarrow> 'p live_executor \<Rightarrow> 'p live_executor" where
  "update_active oid f s =
     (if find (has_id oid) (active_limit_orders s) \<noteq> None then update_limit oid f s
      else s\<lparr>active_stop_orders := update_first (has_id oid) f (active_stop_orders s)\<rparr>)"

definition keep_unless :: "'a option \<Rightarrow> 'a option \<Rightarrow> 'a option" where
  "keep_unless old new = (case new of None \<Rightarrow> old | Some x \<Rightarrow> Some x)"

definition apply_live_modification :: "modification_request \<Rightarrow> pending_order \<Rightarrow> pending_order" where
  "apply_live_modification m po =
     po\<lparr>po_open := map_option (\<lambda>os.
          os\<lparr>os_entry_price := with_default (os_entry_price os) (new_price m),
             os_kwargs := (os_kwargs os)
               \<lparr>kw_limit_price := keep_unless (kw_limit_price (os_kwargs os)) (new_limit_price m),
                kw_stop_loss := keep_unless (kw_stop_loss (os_kwargs os)) (new_stop_loss m),
                kw_take_profit := keep_unless (kw_take_profit (os_kwargs os)) (new_take_profit m)\<rparr>\<rparr>) (po_open po)\<rparr>"

definition clear_operation :: "pending_order \<Rightarrow> pending_order" where
  "clear_operation = map_state (\<lambda>es. es\<lparr>in_flight_operation := OP_NONE, pending_modification := None\<rparr>)"

definition handle_modify_response :: "string \<Rightarrow> broker_response \<Rightarrow> 'p live_executor \<Rightarrow> 'p live_executor" where
  "handle_modify_response oid r s =
     (case find_active_order oid s of
        None \<Rightarrow> s
      | Some po \<Rightarrow>
          let s1 =
            (if resp_is_rejected r
             then record_rejected (order_direction_of po) (create_rejection_result oid BROKER_ERROR) (Some po) s
             else
               let po1 = (case pending_modification (execution_state po) of
                            None \<Rightarrow> po | Some m \<Rightarrow> apply_live_modification m po);
                   swap = resp_broker_ref r \<noteq> [] \<and> Some (resp_broker_ref r) \<noteq> po_broker_ref po1;
                   s0 = (if swap
                         then on_processor (\<lambda>q. snd (update_broker_ref (po_broker_ref po1) (resp_broker_ref r) q)) s else s);
                   po2 = (if swap then po1\<lparr>po_broker_ref := Some (resp_broker_ref r)\<rparr> else po1)
               in update_active oid (\<lambda>_. po2) s0)
          in update_active oid clear_operation s1)"

definition handle_cancel_response :: "string \<Rightarrow> broker_response \<Rightarrow> 'p live_executor \<Rightarrow> 'p live_executor res" where
  "handle_cancel_response oid r s =
     (case find_active_order oid s of
        None \<Rightarrow> Inr s
      | Some po \<Rightarrow>
          if resp_is_rejected r
          then Inr (update_active oid (map_state (\<lambda>es. es\<lparr>in_flight_operation := OP_NONE\<rparr>)) s)
          else
            let s1 = (if po \<in> set (active_limit_orders s)
                      then s\<lparr>active_limit_orders := remove1 po (active_limit_orders s)\<rparr>
                      else if po \<in> set (active_stop_orders s)
                      then s\<lparr>active_stop_orders := remove1 po (active_stop_orders s)\<rparr> else s)
            in emit_order_cancelled (map_state (\<lambda>es. es\<lparr>in_flight_operation := OP_NONE\<rparr>) po) s1)"

definition handle_position_modify_response :: "string \<Rightarrow> broker_response \<Rightarrow> 'p live_executor \<Rightarrow> 'p live_executor" where
  "handle_position_modify_response pid r s =
     (case map_of (live_position_modifications s) pid of
        None \<Rightarrow> s
      | Some m \<Rightarrow>
          let s1 = s\<lparr>live_position_modifications := AList.delete pid (live_position_modifications s)\<rparr> in
          if resp_is_rejected r then s1
          else s1\<lparr>ex_portfolio := snd (pf_modify_position pid (SetTo (new_stop_loss m)) (SetTo (new_take_profit m))
                                       (ex_portfolio s1))\<rparr>)"

section \<open>Responses to queries\<close>

definition handle_trades_response ::
  "string \<Rightarrow> string \<Rightarrow> broker_trade list \<Rightarrow> bool \<Rightarrow> string option \<Rightarrow> 'p live_executor \<Rightarrow> 'p live_executor res" where
  "handle_trades_response oid ref trades success err s =
     (let fan_out = (\<lambda>s. s\<lparr>trades_log := trades_log s @ [TradesQueryResponse oid ref trades success err]\<rparr>) in
      if \<not> success then Inr (fan_out s)
      else case find_active_order oid s of
        None \<Rightarrow> Inr (fan_out s)
      | Some po \<Rightarrow>
          if po_broker_ref po \<noteq> Some ref then Inr (fan_out s)
          else
            let po1 = po\<lparr>fills := foldl append_trade (fills po) trades\<rparr>;
                s1 = update_active oid (\<lambda>_. po1) s
            in if cumulative_filled_lots (fills po1) > 0
               then bind_res (remove_limit po1 s1) (\<lambda>s2.
                      bind_res (fill_open_order po1 (Some (cumulative_avg_price (fills po1))) ET_LIMIT FT_LIMIT s2)
                        (\<lambda>s3. Inr (fan_out s3)))
               else Inr (fan_out s1))"

definition handle_query_response :: "string \<Rightarrow> broker_response \<Rightarrow> 'p live_executor \<Rightarrow> 'p live_executor res" where
  "handle_query_response oid r s =
     (case find_active_order oid s of
        None \<Rightarrow> Inr s
      | Some po \<Rightarrow>
          let po1 = map_state (\<lambda>es. es\<lparr>in_flight_query := False\<rparr>) po;
              s1 = update_active oid (\<lambda>_. po1) s
          in if po_broker_ref po1 \<noteq> Some (resp_broker_ref r) then Inr s1
             else if resp_status r = BS_FILLED then
               bind_res (remove_limit po1 s1) (fill_open_order po1 (resp_fill_price r) ET_LIMIT FT_LIMIT)
             else if resp_is_terminal r then
               bind_res (remove_limit po1 s1) (\<lambda>s2.
                 Inr (record_rejected (order_direction_of po1) (create_rejection_result oid BROKER_ERROR) (Some po1) s2))
             else Inr s1)"

section \<open>Draining the inbox\<close>

definition handle_response :: "response \<Rightarrow> 'p live_executor \<Rightarrow> 'p live_executor res" where
  "handle_response item s =
     (case item of
        SubmitResponse oid act ot r \<Rightarrow> handle_submit_response oid act ot r s
      | EditResponse oid r \<Rightarrow> Inr (handle_modify_response oid r s)
      | CancelResponse oid r \<Rightarrow> handle_cancel_response oid r s
      | PositionModifyResponse pid r \<Rightarrow> Inr (handle_position_modify_response pid r s)
      | TradesQueryResponse oid ref trades success err \<Rightarrow> handle_trades_response oid ref trades success err s
      | QueryResponse oid r \<Rightarrow> handle_query_response oid r s)"

definition drain_inbox :: "'p live_executor \<Rightarrow> 'p live_executor res" where
  "drain_inbox s =
     fold_res handle_response (http_inbox (request_processor s)) (on_processor (\<lambda>q. q\<lparr>http_inbox := []\<rparr>) s)"

section \<open>Polling and the tick\<close>

definition wall_ms :: "instant \<Rightarrow> rat" where
  "wall_ms now = of_int now / 1000"

definition poll_due :: "instant \<Rightarrow> rat \<Rightarrow> pending_order \<Rightarrow> bool" where
  "poll_due now interval po =
     (has_ref po \<and> \<not> in_flight_query (execution_state po) \<and>
      \<not> wall_ms now - last_polled_at_ms (execution_state po) < interval)"

definition mark_polled :: "instant \<Rightarrow> rat \<Rightarrow> pending_order \<Rightarrow> pending_order" where
  "mark_polled now interval po =
     (if poll_due now interval po
      then map_state (\<lambda>es. es\<lparr>last_polled_at_ms := wall_ms now, in_flight_query := True\<rparr>) po else po)"

definition process_active_orders :: "'p live_executor \<Rightarrow> 'p live_executor" where
  "process_active_orders s =
     (let due = filter (poll_due (wall_now s) (poll_interval_ms s)) (active_limit_orders s) in
      on_processor (fold (\<lambda>po. submit_query_order_async (pending_order_id po) (the (po_broker_ref po))) due)
        (s\<lparr>active_limit_orders := map (mark_polled (wall_now s) (poll_interval_ms s)) (active_limit_orders s)\<rparr>))"

definition poll_pending :: "('p, 'r) live_adapter \<Rightarrow> pending_order \<Rightarrow> 'p live_executor \<Rightarrow> 'p live_executor res" where
  "poll_pending ad po s =
     (if \<not> has_ref po then Inr s
      else bind_res (propagate (query_order_sync ad (wall_now s) (the (po_broker_ref po)))) (\<lambda>r.
        handle_broker_response po r s))"

definition live_process_pending_orders :: "('p, 'r) live_adapter \<Rightarrow> 'p live_executor \<Rightarrow> 'p live_executor res" where
  "live_process_pending_orders ad s =
     bind_res (drain_inbox s) (\<lambda>s1.
       bind_res
         (if lat_has_pending_orders (request_processor s1)
          then bind_res (fold_res (poll_pending ad) (get_pending_orders None (request_processor s1)) s1)
                 (\<lambda>s2. Inr (handle_timeouts s2))
          else Inr s1) (\<lambda>s3. Inr (process_active_orders s3)))"

definition live_on_tick :: "('p, 'r) live_adapter \<Rightarrow> tick_data \<Rightarrow> 'p live_executor \<Rightarrow> 'p live_executor res" where
  "live_on_tick ad t s = on_tick (live_process_pending_orders ad) t s"

definition live_heartbeat :: "'p live_executor \<Rightarrow> 'p live_executor res" where
  "live_heartbeat s = bind_res (drain_inbox s) (\<lambda>s1. Inr (process_active_orders (handle_timeouts s1)))"

section \<open>Submission\<close>

definition current_submission :: "'a executor_scheme \<Rightarrow> submission_metadata" where
  "current_submission s =
     (case ex_tick s of
        None \<Rightarrow> no_submission
      | Some t \<Rightarrow> \<lparr>tick_mid_price = Some (mid t), tick_time_msc = Some (time_msc t)\<rparr>)"

definition live_reject_open :: "string \<Rightarrow> rejection_reason \<Rightarrow> 'p live_executor \<Rightarrow> order_result \<times> 'p live_executor" where
  "live_reject_open oid reason s =
     (let r = create_rejection_result oid reason in
      (r, append_order_history r (s\<lparr>orders_rejected := orders_rejected s + 1\<rparr>)))"

definition live_kwargs :: "open_order_request \<Rightarrow> order_kwargs" where
  "live_kwargs rq =
     no_kwargs\<lparr>kw_stop_loss := rq_stop_loss rq, kw_take_profit := rq_take_profit rq,
       kw_comment := (if rq_comment rq = [] then None else Some (rq_comment rq))\<rparr>"

definition live_pending_result :: "string \<Rightarrow> open_order_request \<Rightarrow> 'p live_executor \<Rightarrow> order_result" where
  "live_pending_result oid rq s =
     (blank_result oid OS_PENDING)
       \<lparr>or_action := Some OA_OPEN, or_symbol := Some (rq_symbol rq), or_direction := Some (rq_direction rq),
        requested_lots := Some (rq_lots rq), or_submission := current_submission s,
        or_metadata := [(''broker_ref'', PyNone)]\<rparr>"

definition live_open_market ::
  "('p, 'r) live_adapter \<Rightarrow> string \<Rightarrow> open_order_request \<Rightarrow> 'p live_executor \<Rightarrow> 'p live_executor res" where
  "live_open_market ad oid rq s =
     (let s1 = on_processor (register_pending_open (wall_now s) oid (rq_symbol rq) (rq_direction rq) (rq_lots rq) None
                              (live_kwargs rq) (current_submission s)) s
      in bind_res (submit_open_order_async ad oid (rq_symbol rq) (rq_direction rq) (rq_lots rq) OT_MARKET
                     (live_kwargs rq) None (request_processor s1)) (\<lambda>q. Inr (s1\<lparr>request_processor := q\<rparr>)))"

definition live_limit_order :: "string \<Rightarrow> open_order_request \<Rightarrow> instant \<Rightarrow> 'p live_executor \<Rightarrow> pending_order" where
  "live_limit_order oid rq now s =
     \<lparr>pending_order_id = oid, po_order_action = PA_OPEN, po_order_type = Some OT_LIMIT, po_broker_ref = None,
      po_open = Some \<lparr>os_symbol = rq_symbol rq, os_direction = rq_direction rq, os_lots = rq_lots rq,
                      os_entry_price = with_default 0 (rq_price rq), os_entry_time = now, os_kwargs = live_kwargs rq\<rparr>,
      po_close_lots = None, timing = no_timing\<lparr>submitted_at := Some (wall_now s)\<rparr>, execution_state = steady_state,
      fills = no_fills, submission = current_submission s\<rparr>"

definition live_open_limit ::
  "('p, 'r) live_adapter \<Rightarrow> string \<Rightarrow> open_order_request \<Rightarrow> 'p live_executor \<Rightarrow> 'p live_executor res" where
  "live_open_limit ad oid rq s =
     bind_res (get_current_time s) (\<lambda>now.
       let s1 = s\<lparr>active_limit_orders := active_limit_orders s @ [live_limit_order oid rq now s]\<rparr>
       in bind_res (submit_open_order_async ad oid (rq_symbol rq) (rq_direction rq) (rq_lots rq) OT_LIMIT
                      (live_kwargs rq) (rq_price rq) (request_processor s1)) (\<lambda>q. Inr (s1\<lparr>request_processor := q\<rparr>)))"

definition live_open_order ::
  "('p, 'r) live_adapter \<Rightarrow> open_order_request \<Rightarrow> 'p live_executor \<Rightarrow> (order_result \<times> 'p live_executor) res" where
  "live_open_order ad rq0 s =
     bind_res (normalize_order_request rq0 s) (\<lambda>rq.
       let (oid, pf) = get_next_position_id (rq_symbol rq) (ex_portfolio s);
           s1 = s\<lparr>orders_sent := orders_sent s + 1, order_counter := order_counter s + 1, ex_portfolio := pf\<rparr>
       in if rq_order_type rq \<notin> {OT_MARKET, OT_LIMIT} then Inr (live_reject_open oid RR_ORDER_TYPE_NOT_SUPPORTED s1)
          else bind_res (validate_order (ex_broker s1) (rq_symbol rq) (rq_lots rq)) (\<lambda>valid.
            if \<not> valid then Inr (live_reject_open oid INVALID_LOT_SIZE s1)
            else bind_res ((if rq_order_type rq = OT_MARKET then live_open_market else live_open_limit) ad oid rq s1) (\<lambda>s2.
              let r = live_pending_result oid rq s1 in Inr (r, append_order_history r s2))))"

definition live_close_position ::
  "('p, 'r) live_adapter \<Rightarrow> string \<Rightarrow> lots option \<Rightarrow> 'p live_executor \<Rightarrow> (order_result \<times> 'p live_executor) res" where
  "live_close_position ad pid l s =
     (case get_position (ex_portfolio s) pid of
        None \<Rightarrow> Inr (create_rejection_result (''close_'' @ pid) BROKER_ERROR, s)
      | Some p \<Rightarrow>
          let d = (if pos_direction p = LONG then SHORT else LONG);
              cl = (case l of Some x \<Rightarrow> if x \<noteq> 0 then x else pos_lots p | None \<Rightarrow> pos_lots p);
              s1 = on_processor (register_pending_close (wall_now s) pid None (Some cl) (current_submission s)) s
          in bind_res (submit_close_order_async ad pid (pos_symbol p) d cl (request_processor s1)) (\<lambda>q.
               bind_res (get_current_time s1) (\<lambda>now.
                 Inr ((blank_result pid OS_PENDING)
                        \<lparr>executed_lots := Some cl, execution_time := Some now, or_action := Some OA_CLOSE,
                         or_symbol := Some (pos_symbol p), or_direction := Some (pos_direction p),
                         requested_lots := Some cl, or_submission := current_submission s1,
                         or_metadata := [(''awaiting_fill'', PyBool True), (''broker_ref'', PyNone)]\<rparr>,
                      s1\<lparr>request_processor := q\<rparr>))))"

section \<open>Modification and cancellation\<close>

definition arg_value :: "'a update_arg \<Rightarrow> 'a option" where
  "arg_value a = (case a of UNSET \<Rightarrow> None | SetTo x \<Rightarrow> Some x)"

definition live_modify_position ::
  "string \<Rightarrow> price option update_arg \<Rightarrow> price option update_arg \<Rightarrow> 'p live_executor \<Rightarrow>
   (modification_result \<times> 'p live_executor) res" where
  "live_modify_position pid nsl ntp s =
     (if \<not> native_position_sl_tp (br_capabilities (ex_broker s)) then
        (let (r, pf) = pf_modify_position pid nsl ntp (ex_portfolio s) in Inr (r, s\<lparr>ex_portfolio := pf\<rparr>))
      else case get_position (ex_portfolio s) pid of
        None \<Rightarrow> Inr (mod_rejected POSITION_NOT_FOUND, s)
      | Some p \<Rightarrow>
          if map_of (live_position_modifications s) pid \<noteq> None then Inr (mod_rejected OPERATION_BUSY, s)
          else bind_res (get_symbol_specification (ex_broker s) (pos_symbol p)) (\<lambda>sp.
            let d = spec_digits sp;
                sl = round_price (merge_arg (stop_loss p) nsl) d;
                tp = round_price (merge_arg (take_profit p) ntp) d;
                m = \<lparr>new_price = None, new_limit_price = None, new_stop_loss = sl, new_take_profit = tp,
                     mod_submitted_at = Some (wall_now s), apply_at_msc = None\<rparr>
            in Inr (mod_pending pid,
                    on_processor (submit_modify_position_async pid (pos_symbol p) sl tp)
                      (s\<lparr>live_position_modifications := AList.update pid m (live_position_modifications s)\<rparr>))))"

definition start_modify :: "modification_request \<Rightarrow> pending_order \<Rightarrow> pending_order" where
  "start_modify m = map_state (\<lambda>es. es\<lparr>in_flight_operation := PENDING_MODIFY, pending_modification := Some m\<rparr>)"

definition start_cancel :: "pending_order \<Rightarrow> pending_order" where
  "start_cancel = map_state (\<lambda>es. es\<lparr>in_flight_operation := PENDING_CANCEL\<rparr>)"

text \<open>A resting order without a symbol cannot exist; looking up its specification raises.\<close>

definition live_modify_limit_order ::
  "string \<Rightarrow> price update_arg \<Rightarrow> price option update_arg \<Rightarrow> price option update_arg \<Rightarrow> 'p live_executor \<Rightarrow>
   (modification_result \<times> 'p live_executor) res" where
  "live_modify_limit_order oid nprice nsl ntp s =
     (case find (has_id oid) (active_limit_orders s) of
        None \<Rightarrow> Inr (mod_rejected LIMIT_ORDER_NOT_FOUND, s)
      | Some po \<Rightarrow>
          (case po_broker_ref po of
             None \<Rightarrow> Inr (mod_rejected ORDER_NOT_CONFIRMED, s)
           | Some ref \<Rightarrow>
               if in_flight_operation (execution_state po) \<noteq> OP_NONE then Inr (mod_rejected OPERATION_BUSY, s)
               else (case po_open po of
                  None \<Rightarrow> Inl ValueError
                | Some os \<Rightarrow>
                    bind_res (get_symbol_specification (ex_broker s) (os_symbol os)) (\<lambda>sp.
                      let d = spec_digits sp;
                          x = round_price (arg_value nprice) d;
                          sl = round_price (Option.bind (arg_value nsl) id) d;
                          tp = round_price (Option.bind (arg_value ntp) id) d;
                          m = \<lparr>new_price = x, new_limit_price = None, new_stop_loss = sl, new_take_profit = tp,
                               mod_submitted_at = Some (wall_now s), apply_at_msc = None\<rparr>
                      in Inr (mod_pending oid,
                              on_processor (submit_modify_order_async oid ref (os_symbol os) x sl tp)
                                (update_limit oid (start_modify m) s))))))"

definition live_modify_stop_order ::
  "string \<Rightarrow> price update_arg \<Rightarrow> price update_arg \<Rightarrow> price option update_arg \<Rightarrow> price option update_arg \<Rightarrow>
   'p live_executor \<Rightarrow> (modification_result \<times> 'p live_executor) res" where
  "live_modify_stop_order oid nstop nlimit nsl ntp s =
     (let caps = br_capabilities (ex_broker s) in
      if \<not> (stop_orders caps \<or> stop_limit_orders caps) then Inr (mod_rejected MR_ORDER_TYPE_NOT_SUPPORTED, s)
      else case find (has_id oid) (active_stop_orders s) of
        None \<Rightarrow> Inr (mod_rejected STOP_ORDER_NOT_FOUND, s)
      | Some po \<Rightarrow>
          (case po_broker_ref po of
             None \<Rightarrow> Inr (mod_rejected ORDER_NOT_CONFIRMED, s)
           | Some ref \<Rightarrow>
               if in_flight_operation (execution_state po) \<noteq> OP_NONE then Inr (mod_rejected OPERATION_BUSY, s)
               else (case po_open po of
                  None \<Rightarrow> Inl ValueError
                | Some os \<Rightarrow>
                    bind_res (get_symbol_specification (ex_broker s) (os_symbol os)) (\<lambda>sp.
                      let d = spec_digits sp;
                          stp = round_price (arg_value nstop) d;
                          lim = round_price (arg_value nlimit) d;
                          sl = round_price (Option.bind (arg_value nsl) id) d;
                          tp = round_price (Option.bind (arg_value ntp) id) d;
                          m = \<lparr>new_price = stp, new_limit_price = lim, new_stop_loss = sl, new_take_profit = tp,
                               mod_submitted_at = Some (wall_now s), apply_at_msc = None\<rparr>
                      in Inr (mod_pending oid,
                              on_processor (submit_modify_order_async oid ref (os_symbol os) stp sl tp)
                                (s\<lparr>active_stop_orders := update_first (has_id oid) (start_modify m) (active_stop_orders s)\<rparr>))))))"

definition live_cancel_limit_order :: "string \<Rightarrow> 'p live_executor \<Rightarrow> bool \<times> 'p live_executor" where
  "live_cancel_limit_order oid s =
     (case find (has_id oid) (active_limit_orders s) of
        None \<Rightarrow> (False, s)
      | Some po \<Rightarrow>
          (case po_broker_ref po of
             None \<Rightarrow> (True, update_limit oid (map_state (\<lambda>es. es\<lparr>cancel_requested := True\<rparr>)) s)
           | Some ref \<Rightarrow>
               if in_flight_operation (execution_state po) \<noteq> OP_NONE then (False, s)
               else (True, on_processor (submit_cancel_order_async oid ref) (update_limit oid start_cancel s))))"

definition live_cancel_stop_order :: "string \<Rightarrow> 'p live_executor \<Rightarrow> bool \<times> 'p live_executor" where
  "live_cancel_stop_order oid s =
     (let caps = br_capabilities (ex_broker s) in
      if \<not> (stop_orders caps \<or> stop_limit_orders caps) then (False, s)
      else case find (has_id oid) (active_stop_orders s) of
        None \<Rightarrow> (False, s)
      | Some po \<Rightarrow>
          (case po_broker_ref po of
             None \<Rightarrow> (False, s)
           | Some ref \<Rightarrow>
               if in_flight_operation (execution_state po) \<noteq> OP_NONE then (False, s)
               else (True, on_processor (submit_cancel_order_async oid ref)
                       (s\<lparr>active_stop_orders := update_first (has_id oid) start_cancel (active_stop_orders s)\<rparr>))))"

section \<open>Queries and cleanup\<close>

definition live_submit_trades_query :: "string \<Rightarrow> string \<Rightarrow> 'p live_executor \<Rightarrow> 'p live_executor" where
  "live_submit_trades_query oid ref s = on_processor (submit_trades_query_async oid ref) s"

definition live_has_pipeline_orders :: "'p live_executor \<Rightarrow> bool" where
  "live_has_pipeline_orders s = lat_has_pending_orders (request_processor s)"

definition live_is_pending_close :: "string \<Rightarrow> 'p live_executor \<Rightarrow> bool" where
  "live_is_pending_close pid s = lat_is_pending_close pid (request_processor s)"

definition live_pipeline_count :: "'p live_executor \<Rightarrow> nat" where
  "live_pipeline_count s = get_pending_count (request_processor s)"

definition live_close_all_remaining_orders :: "'p live_executor \<Rightarrow> 'p live_executor res" where
  "live_close_all_remaining_orders s =
     bind_res (if active_limit_orders s = [] then Inr s
               else expire_active_orders (fold log_cancel (active_limit_orders s) s)) (\<lambda>s1.
       bind_res (fold_res (\<lambda>p. fill_close_order (create_synthetic_close_order (position_id p)) None SCENARIO_END)
                   (get_open_positions (ex_portfolio s1)) s1) (\<lambda>s2.
         Inr (on_processor (\<lambda>q. stop_worker (clear_pending_live (wall_now s2) ''scenario_end'' q))
                (s2\<lparr>live_position_modifications := []\<rparr>))))"

end
