(* ===== verification/Feed_Monitor.thy ===== *)
theory Feed_Monitor
  imports Trading_Math
begin

text \<open>
  The observers of a session: the tracker of market-data outages (\<^verbatim>\<open>process/market_data_episode_tracker.py\<close> with
  \<^verbatim>\<open>types/disturbance_episode_types.py\<close>) and the monitor of late tick processing
  (\<^verbatim>\<open>autotrader/live_clipping_monitor.py\<close> with \<^verbatim>\<open>types/autotrader_types/clipping_monitor_types.py\<close>).
  \<open>time.time()\<close> and \<open>time.monotonic()\<close> are arguments; the strategy name of the monitor, which nothing reads, and
  the log lines are left out.

  Main results: the recorded episodes are exactly the maximal stale runs of the observed status; the counters of
  the monitor agree with the ticks it was given, and its reports together with the open interval add up to the
  session totals.
\<close>

section \<open>Outage episodes\<close>

datatype disturbance_origin = LIVE_REAL | STRESS_INJECTED

record disturbance_episode =
  ep_source :: string
  ep_stale_from :: instant
  ep_stale_to :: "instant option"
  ep_duration_seconds :: rat
  ep_origin :: disturbance_origin
  ep_label :: string

record episode_tracker =
  tr_source :: string
  measure_wall_duration :: bool
  tr_episodes :: "disturbance_episode list"
  open_from :: "instant option"
  open_label :: string
  open_wall_anchor :: rat
  last_tick_time :: "instant option"
  last_tick_wall :: rat
  fresh_ticks :: int
  stale_ticks :: int

definition new_tracker :: "string \<Rightarrow> bool \<Rightarrow> episode_tracker" where
  "new_tracker src wall =
     \<lparr>tr_source = src, measure_wall_duration = wall, tr_episodes = [], open_from = None, open_label = [],
      open_wall_anchor = 0, last_tick_time = None, last_tick_wall = 0, fresh_ticks = 0, stale_ticks = 0\<rparr>"

text \<open>\<open>wall\<close> is the reading of \<open>time.time()\<close>. The start is only read while an episode is open.\<close>

definition duration_to :: "rat \<Rightarrow> instant \<Rightarrow> instant \<Rightarrow> episode_tracker \<Rightarrow> rat" where
  "duration_to wall start stop k =
     (if measure_wall_duration k then max 0 (wall - open_wall_anchor k)
      else max 0 (of_int (stop - start) / 1000000))"

definition build_episode :: "instant \<Rightarrow> instant option \<Rightarrow> rat \<Rightarrow> episode_tracker \<Rightarrow> disturbance_episode" where
  "build_episode start stale_to duration k =
     \<lparr>ep_source = tr_source k, ep_stale_from = start, ep_stale_to = stale_to, ep_duration_seconds = duration,
      ep_origin = (if open_label k \<noteq> [] then STRESS_INJECTED else LIVE_REAL), ep_label = open_label k\<rparr>"

definition close_episode :: "rat \<Rightarrow> instant \<Rightarrow> instant \<Rightarrow> episode_tracker \<Rightarrow> episode_tracker" where
  "close_episode wall start recovered_at k =
     k\<lparr>tr_episodes := tr_episodes k @ [build_episode start (Some recovered_at) (duration_to wall start recovered_at k) k],
       open_from := None, open_label := [], open_wall_anchor := 0\<rparr>"

definition observe :: "rat \<Rightarrow> instant \<Rightarrow> bool \<Rightarrow> string \<Rightarrow> instant \<Rightarrow> rat \<Rightarrow> episode_tracker \<Rightarrow> episode_tracker" where
  "observe wall now stale injected_label episode_start wall_anchor k =
     (case open_from k of
        None \<Rightarrow>
          if \<not> stale then k
          else k\<lparr>open_from := Some episode_start, open_label := injected_label, open_wall_anchor := wall_anchor\<rparr>
      | Some start \<Rightarrow>
          if stale then (if injected_label \<noteq> [] \<and> open_label k = [] then k\<lparr>open_label := injected_label\<rparr> else k)
          else close_episode wall start now k)"

definition tracker_on_tick :: "rat \<Rightarrow> instant \<Rightarrow> bool \<Rightarrow> string \<Rightarrow> episode_tracker \<Rightarrow> episode_tracker" where
  "tracker_on_tick time_now now stale injected_label k =
     (let k1 = (if stale then k\<lparr>stale_ticks := stale_ticks k + 1\<rparr> else k\<lparr>fresh_ticks := fresh_ticks k + 1\<rparr>);
          wall = (if measure_wall_duration k then time_now else 0);
          k2 = observe time_now now stale injected_label now wall k1
      in k2\<lparr>last_tick_time := Some now, last_tick_wall := wall\<rparr>)"

definition tracker_on_heartbeat :: "rat \<Rightarrow> instant \<Rightarrow> bool \<Rightarrow> string \<Rightarrow> episode_tracker \<Rightarrow> episode_tracker" where
  "tracker_on_heartbeat time_now now stale injected_label k =
     (let start = (case last_tick_time k of None \<Rightarrow> now | Some t \<Rightarrow> t);
          anchor = (if last_tick_wall k = 0 then time_now else last_tick_wall k)
      in observe time_now now stale injected_label start anchor k)"

definition get_episodes :: "rat \<Rightarrow> instant option \<Rightarrow> episode_tracker \<Rightarrow> disturbance_episode list" where
  "get_episodes time_now run_end k =
     (case open_from k of
        None \<Rightarrow> tr_episodes k
      | Some start \<Rightarrow>
          let stop = (case run_end of Some t \<Rightarrow> t | None \<Rightarrow> (case last_tick_time k of Some t \<Rightarrow> t | None \<Rightarrow> start))
          in tr_episodes k @ [build_episode start None (duration_to time_now start stop k) k])"

subsection \<open>The episodes are the stale runs\<close>

text \<open>The spans of maximal stale runs of an observation sequence, the last one possibly open.\<close>

fun stale_runs :: "instant option \<Rightarrow> (instant \<times> bool) list \<Rightarrow> (instant \<times> instant option) list" where
  "stale_runs None [] = []"
| "stale_runs (Some s) [] = [(s, None)]"
| "stale_runs None ((t, stale) # obs) = stale_runs (if stale then Some t else None) obs"
| "stale_runs (Some s) ((t, stale) # obs) = (if stale then stale_runs (Some s) obs else (s, Some t) # stale_runs None obs)"

definition episode_spans :: "rat \<Rightarrow> instant option \<Rightarrow> episode_tracker \<Rightarrow> (instant \<times> instant option) list" where
  "episode_spans w run_end k = map (\<lambda>e. (ep_stale_from e, ep_stale_to e)) (get_episodes w run_end k)"

definition watch :: "(instant \<times> bool \<times> string) list \<Rightarrow> rat \<Rightarrow> episode_tracker \<Rightarrow> episode_tracker" where
  "watch obs w k = fold (\<lambda>(t, stale, label). tracker_on_tick w t stale label) obs k"

lemma tracker_on_tick_simps [simp]:
  "open_from (tracker_on_tick w t stale l k) =
     (case open_from k of None \<Rightarrow> if stale then Some t else None | Some s \<Rightarrow> if stale then Some s else None)"
  "map (\<lambda>e. (ep_stale_from e, ep_stale_to e)) (tr_episodes (tracker_on_tick w t stale l k)) =
     map (\<lambda>e. (ep_stale_from e, ep_stale_to e)) (tr_episodes k) @
     (case open_from k of Some s \<Rightarrow> if stale then [] else [(s, Some t)] | None \<Rightarrow> [])"
  "fresh_ticks (tracker_on_tick w t stale l k) = fresh_ticks k + (if stale then 0 else 1)"
  "stale_ticks (tracker_on_tick w t stale l k) = stale_ticks k + (if stale then 1 else 0)"
  "last_tick_time (tracker_on_tick w t stale l k) = Some t"
  by (simp_all add: tracker_on_tick_def observe_def close_episode_def build_episode_def Let_def split: option.split)

lemma watch_spec:
  "map (\<lambda>e. (ep_stale_from e, ep_stale_to e)) (tr_episodes (watch obs w k)) @
     (case open_from (watch obs w k) of None \<Rightarrow> [] | Some s \<Rightarrow> [(s, None)]) =
   map (\<lambda>e. (ep_stale_from e, ep_stale_to e)) (tr_episodes k) @ stale_runs (open_from k) (map (\<lambda>(t, stale, label). (t, stale)) obs)"
proof (induction obs arbitrary: k)
  case Nil
  then show ?case by (cases "open_from k") (simp_all add: watch_def)
next
  case (Cons o' obs)
  obtain t stale label where o': "o' = (t, stale, label)" by (metis prod_cases3)
  have "watch (o' # obs) w k = watch obs w (tracker_on_tick w t stale label k)" by (simp add: watch_def o')
  with Cons [of "tracker_on_tick w t stale label k"] show ?case by (cases "open_from k") (simp_all add: o')
qed

lemma episodes_are_stale_runs:
  "episode_spans w' run_end (watch obs w (new_tracker src b)) = stale_runs None (map (\<lambda>(t, stale, label). (t, stale)) obs)"
  using watch_spec [of obs w "new_tracker src b"]
  by (simp add: episode_spans_def get_episodes_def new_tracker_def build_episode_def Let_def split: option.splits)

lemma watch_counts:
  "fresh_ticks (watch obs w k) = fresh_ticks k + int (length (filter (\<lambda>(t, stale, label). \<not> stale) obs))"
  "stale_ticks (watch obs w k) = stale_ticks k + int (length (filter (\<lambda>(t, stale, label). stale) obs))"
  by (induction obs arbitrary: k) (auto simp: watch_def)

lemma tracker_on_heartbeat_open:
  "open_from (tracker_on_heartbeat w now stale l k) =
     (case open_from k of
        None \<Rightarrow> if stale then Some (case last_tick_time k of None \<Rightarrow> now | Some t \<Rightarrow> t) else None
      | Some s \<Rightarrow> if stale then Some s else None)"
  "fresh_ticks (tracker_on_heartbeat w now stale l k) = fresh_ticks k"
  "stale_ticks (tracker_on_heartbeat w now stale l k) = stale_ticks k"
  by (auto simp: tracker_on_heartbeat_def observe_def close_episode_def Let_def split: option.split)

section \<open>Late ticks\<close>

record clipping_monitor =
  report_interval_s :: rat
  total_ticks :: int
  cm_ticks_clipped :: int
  total_stale_ms :: rat
  max_stale_ms :: rat
  max_processing_ms :: rat
  total_processing_ms :: rat
  max_queue_depth :: int
  processing_times_ms :: "rat list"
  interval_ticks :: int
  interval_clipped :: int
  interval_stale_ms :: rat
  interval_max_stale_ms :: rat
  interval_max_processing_ms :: rat
  interval_total_processing_ms :: rat
  interval_max_queue_depth :: int
  last_report_time :: rat

definition new_clipping_monitor :: "rat \<Rightarrow> rat \<Rightarrow> clipping_monitor" where
  "new_clipping_monitor interval_s now =
     \<lparr>report_interval_s = interval_s, total_ticks = 0, cm_ticks_clipped = 0, total_stale_ms = 0, max_stale_ms = 0,
      max_processing_ms = 0, total_processing_ms = 0, max_queue_depth = 0, processing_times_ms = [],
      interval_ticks = 0, interval_clipped = 0, interval_stale_ms = 0, interval_max_stale_ms = 0,
      interval_max_processing_ms = 0, interval_total_processing_ms = 0, interval_max_queue_depth = 0,
      last_report_time = now\<rparr>"

definition count_processing :: "rat \<Rightarrow> clipping_monitor \<Rightarrow> clipping_monitor" where
  "count_processing p c =
     c\<lparr>total_ticks := total_ticks c + 1, interval_ticks := interval_ticks c + 1,
       total_processing_ms := total_processing_ms c + p,
       interval_total_processing_ms := interval_total_processing_ms c + p,
       processing_times_ms := processing_times_ms c @ [p],
       max_processing_ms := (if p > max_processing_ms c then p else max_processing_ms c),
       interval_max_processing_ms := (if p > interval_max_processing_ms c then p else interval_max_processing_ms c)\<rparr>"

definition count_clipped :: "rat \<Rightarrow> clipping_monitor \<Rightarrow> clipping_monitor" where
  "count_clipped stale c =
     c\<lparr>cm_ticks_clipped := cm_ticks_clipped c + 1, interval_clipped := interval_clipped c + 1,
       total_stale_ms := total_stale_ms c + stale, interval_stale_ms := interval_stale_ms c + stale,
       max_stale_ms := (if stale > max_stale_ms c then stale else max_stale_ms c),
       interval_max_stale_ms := (if stale > interval_max_stale_ms c then stale else interval_max_stale_ms c)\<rparr>"

definition record_tick :: "int \<Rightarrow> rat \<Rightarrow> clipping_monitor \<Rightarrow> clipping_monitor" where
  "record_tick processing_ns tick_delta_ms c =
     (let processing_ms = of_int processing_ns / 1000000;
          c1 = count_processing processing_ms c
      in if tick_delta_ms > 0 \<and> processing_ms > tick_delta_ms then count_clipped (processing_ms - tick_delta_ms) c1
         else c1)"

definition record_queue_depth :: "int \<Rightarrow> clipping_monitor \<Rightarrow> clipping_monitor" where
  "record_queue_depth depth c =
     c\<lparr>max_queue_depth := (if depth > max_queue_depth c then depth else max_queue_depth c),
       interval_max_queue_depth := (if depth > interval_max_queue_depth c then depth else interval_max_queue_depth c)\<rparr>"

record clipping_report =
  cr_ticks :: int
  cr_clipped :: int
  cr_max_stale_ms :: rat
  cr_avg_stale_ms :: rat
  cr_max_processing_ms :: rat
  cr_avg_processing_ms :: rat
  cr_max_queue_depth :: int

definition get_periodic_report :: "rat \<Rightarrow> clipping_monitor \<Rightarrow> clipping_report option \<times> clipping_monitor" where
  "get_periodic_report now c =
     (if now - last_report_time c < report_interval_s c then (None, c)
      else if interval_ticks c = 0 then (None, c\<lparr>last_report_time := now\<rparr>)
      else (Some \<lparr>cr_ticks = interval_ticks c, cr_clipped = interval_clipped c, cr_max_stale_ms = interval_max_stale_ms c,
                  cr_avg_stale_ms = (if interval_clipped c > 0 then interval_stale_ms c / of_int (interval_clipped c) else 0),
                  cr_max_processing_ms = interval_max_processing_ms c,
                  cr_avg_processing_ms = interval_total_processing_ms c / of_int (interval_ticks c),
                  cr_max_queue_depth = interval_max_queue_depth c\<rparr>,
            c\<lparr>interval_ticks := 0, interval_clipped := 0, interval_stale_ms := 0, interval_max_stale_ms := 0,
              interval_max_processing_ms := 0, interval_total_processing_ms := 0, interval_max_queue_depth := 0,
              last_report_time := now\<rparr>))"

record clipping_summary =
  cs_total_ticks :: int
  cs_ticks_clipped :: int
  cs_clipping_ratio :: rat
  cs_max_stale_ms :: rat
  cs_avg_stale_ms :: rat
  cs_max_processing_ms :: rat
  cs_avg_processing_ms :: rat
  cs_max_queue_depth :: int
  cs_processing_times_ms :: "rat list"

definition get_session_summary :: "clipping_monitor \<Rightarrow> clipping_summary" where
  "get_session_summary c =
     \<lparr>cs_total_ticks = total_ticks c, cs_ticks_clipped = cm_ticks_clipped c,
      cs_clipping_ratio = (if total_ticks c > 0 then of_int (cm_ticks_clipped c) / of_int (total_ticks c) else 0),
      cs_max_stale_ms = max_stale_ms c,
      cs_avg_stale_ms = (if cm_ticks_clipped c > 0 then total_stale_ms c / of_int (cm_ticks_clipped c) else 0),
      cs_max_processing_ms = max_processing_ms c,
      cs_avg_processing_ms = (if total_ticks c > 0 then total_processing_ms c / of_int (total_ticks c) else 0),
      cs_max_queue_depth = max_queue_depth c, cs_processing_times_ms = processing_times_ms c\<rparr>"

record clipping_snapshot =
  cd_total_ticks :: int
  cd_ticks_clipped :: int
  cd_clipping_ratio :: rat
  cd_avg_processing_ms :: rat
  cd_max_processing_ms :: rat
  cd_processing_times_ms :: "rat list"

definition get_display_stats :: "clipping_monitor \<Rightarrow> clipping_snapshot" where
  "get_display_stats c =
     \<lparr>cd_total_ticks = total_ticks c, cd_ticks_clipped = cm_ticks_clipped c,
      cd_clipping_ratio = (if total_ticks c > 0 then of_int (cm_ticks_clipped c) / of_int (total_ticks c) else 0),
      cd_avg_processing_ms = (if total_ticks c > 0 then total_processing_ms c / of_int (total_ticks c) else 0),
      cd_max_processing_ms = max_processing_ms c, cd_processing_times_ms = processing_times_ms c\<rparr>"

subsection \<open>The monitor as a state machine\<close>

inductive clip_step :: "clipping_monitor \<Rightarrow> clipping_monitor \<Rightarrow> bool" where
  clip_tick: "0 \<le> ns \<Longrightarrow> clip_step c (record_tick ns delta c)"
| clip_depth: "clip_step c (record_queue_depth n c)"
| clip_report: "clip_step c (snd (get_periodic_report now c))"

text \<open>What the counters say about the recorded processing times.\<close>

definition clip_inv :: "clipping_monitor \<Rightarrow> bool" where
  "clip_inv c \<longleftrightarrow>
     total_ticks c = int (length (processing_times_ms c)) \<and> total_processing_ms c = sum_list (processing_times_ms c) \<and>
     (\<forall>p \<in> set (processing_times_ms c). 0 \<le> p \<and> p \<le> max_processing_ms c) \<and> 0 \<le> max_processing_ms c \<and>
     0 \<le> cm_ticks_clipped c \<and> cm_ticks_clipped c \<le> total_ticks c \<and>
     0 \<le> interval_clipped c \<and> interval_clipped c \<le> interval_ticks c \<and>
     interval_ticks c \<le> total_ticks c \<and> interval_clipped c \<le> cm_ticks_clipped c \<and>
     0 \<le> max_stale_ms c \<and> total_stale_ms c \<le> of_int (cm_ticks_clipped c) * max_stale_ms c"

lemma clip_inv_new: "clip_inv (new_clipping_monitor i now)"
  by (simp add: clip_inv_def new_clipping_monitor_def)

lemma clip_inv_processing: "clip_inv c \<Longrightarrow> 0 \<le> p \<Longrightarrow> clip_inv (count_processing p c)"
  by (auto simp: clip_inv_def count_processing_def)

lemma clip_inv_clipped:
  assumes "clip_inv c" and "0 < stale" and "interval_clipped c < interval_ticks c" "cm_ticks_clipped c < total_ticks c"
  shows "clip_inv (count_clipped stale c)"
proof -
  let ?m = "if stale > max_stale_ms c then stale else max_stale_ms c"
  have "of_int (cm_ticks_clipped c) * max_stale_ms c \<le> of_int (cm_ticks_clipped c) * ?m"
    using assms(1) by (intro mult_left_mono) (auto simp: clip_inv_def)
  then have "total_stale_ms c + stale \<le> of_int (cm_ticks_clipped c + 1) * ?m"
    using assms(1) by (auto simp: clip_inv_def algebra_simps)
  with assms show ?thesis by (auto simp: clip_inv_def count_clipped_def)
qed

lemma clip_inv_step: "clip_step c c' \<Longrightarrow> clip_inv c \<Longrightarrow> clip_inv c'"
proof (induction rule: clip_step.induct)
  case (clip_tick ns c delta)
  let ?p = "of_int ns / 1000000 :: rat"
  have 1: "clip_inv (count_processing ?p c)" using clip_tick by (intro clip_inv_processing) simp_all
  show ?case
  proof (cases "delta > 0 \<and> ?p > delta")
    case True
    then have "clip_inv (count_clipped (?p - delta) (count_processing ?p c))"
      using clip_tick(2) by (intro clip_inv_clipped [OF 1]) (auto simp: count_processing_def clip_inv_def)
    with True show ?thesis by (simp add: record_tick_def Let_def)
  next
    case False
    then have "record_tick ns delta c = count_processing ?p c" by (auto simp: record_tick_def Let_def)
    with 1 show ?thesis by simp
  qed
next
  case (clip_depth c n)
  then show ?case by (simp add: clip_inv_def record_queue_depth_def)
next
  case (clip_report c now)
  then show ?case by (auto simp: clip_inv_def get_periodic_report_def)
qed

interpretation clip: invariant_machine "\<lambda>c. \<exists>i now. c = new_clipping_monitor i now" clip_step clip_inv
  by unfold_locales (auto simp: clip_inv_new intro: clip_inv_step)

lemma average_below_maximum:
  assumes "clip_inv c"
  shows "0 \<le> cs_clipping_ratio (get_session_summary c)" "cs_clipping_ratio (get_session_summary c) \<le> 1"
    and "cs_avg_processing_ms (get_session_summary c) \<le> cs_max_processing_ms (get_session_summary c)"
    and "cs_avg_stale_ms (get_session_summary c) \<le> cs_max_stale_ms (get_session_summary c)"
proof -
  note i = assms [unfolded clip_inv_def]
  show "0 \<le> cs_clipping_ratio (get_session_summary c)" "cs_clipping_ratio (get_session_summary c) \<le> 1"
    using i by (simp_all add: get_session_summary_def divide_simps)
  have "sum_list xs \<le> of_nat (length xs) * m" if "\<forall>p \<in> set xs. p \<le> m" for xs and m :: rat
    using that by (induction xs) (auto simp: algebra_simps)
  from this [of "processing_times_ms c" "max_processing_ms c"] i
  show "cs_avg_processing_ms (get_session_summary c) \<le> cs_max_processing_ms (get_session_summary c)"
    by (auto simp: get_session_summary_def divide_simps mult.commute)
  show "cs_avg_stale_ms (get_session_summary c) \<le> cs_max_stale_ms (get_session_summary c)"
    using i by (auto simp: get_session_summary_def divide_simps mult.commute)
qed

end
