(* ===== verification/Tick_Loop.thy ===== *)
theory Tick_Loop
  imports Live_Executor Feed_Monitor Stale_Stress
begin

text \<open>
  The tick loop of the auto-trader (\<^verbatim>\<open>autotrader/autotrader_tick_loop.py\<close>) around the live executor: what happens on
  a tick, on an idle heartbeat and at the end of a session, in the order of the code, with the circuit breaker and
  the market-data staleness contract.

  Bars, workers, decision logic, event dispatcher, reconciler and state store are reached through a \<open>pipeline\<close>:
  their joint state is of an arbitrary type and each call of the loop is one function of it and of the
  executor, since reading an account refreshes it and hooks may trade. \<open>lc_dispatcher\<close> tells whether the
  session has an event dispatcher; without one \<open>pl_drain_events\<close> does nothing. Clock readings, the
  queue depth and what the tick source reports come in a \<open>readings\<close> record. Without a tick source it
  has no reconnects, no label and is never exhausted. Display frames, log rotation, the message of a rejection and the
  formatted safety reason are left out; the conditions behind the reason are kept.
\<close>

section \<open>Types\<close>

datatype decision_action = DL_BUY | DL_SELL | DL_FLAT

record decision =
  dc_action :: decision_action
  dc_outputs :: "(string, pyval) dict"

record safety_config =
  sf_enabled :: bool
  sf_min_balance :: rat
  sf_min_equity :: rat
  sf_max_drawdown_pct :: rat

datatype safety_reason = BELOW_MINIMUM rat rat | MAX_DRAWDOWN rat rat

record rejection_entry =
  re_seq :: int
  re_reason :: "rejection_reason option"
  re_side :: decision_action
  re_tick_time :: instant

record loop_config =
  lc_safety :: safety_config
  lc_spot :: bool
  lc_stale_after_s :: rat
  lc_dispatcher :: bool

record ('p, 'd) pipeline =
  pl_merge_signals :: "'d \<Rightarrow> 'd"
  pl_process_signals :: "instant \<Rightarrow> 'd \<Rightarrow> 'p live_executor \<Rightarrow> 'd \<times> 'p live_executor"
  pl_algo :: "tick_data \<Rightarrow> 'd \<Rightarrow> 'p live_executor \<Rightarrow> (decision \<times> 'd \<times> 'p live_executor) res"
  pl_ghost :: "'d \<Rightarrow> 'p live_executor \<Rightarrow> decision option \<times> 'd \<times> 'p live_executor"
  pl_execute :: "decision \<Rightarrow> tick_data option \<Rightarrow> 'd \<Rightarrow> 'p live_executor \<Rightarrow> (order_result option \<times> 'd \<times> 'p live_executor) res"
  pl_on_stale :: "market_data_status \<Rightarrow> 'd \<Rightarrow> 'p live_executor \<Rightarrow> 'd \<times> 'p live_executor"
  pl_drain_events :: "'d \<Rightarrow> 'p live_executor \<Rightarrow> 'd \<times> 'p live_executor"
  pl_session_end :: "decision_event \<Rightarrow> 'd \<Rightarrow> 'p live_executor \<Rightarrow> 'd \<times> 'p live_executor"
  pl_reconcile :: "int \<Rightarrow> 'd \<Rightarrow> 'p live_executor \<Rightarrow> 'd \<times> 'p live_executor"
  pl_persist :: "int \<Rightarrow> 'd \<Rightarrow> 'd"

record readings =
  rd_wall :: rat
  rd_utc_now :: instant
  rd_outage_label :: string
  rd_reconnects :: int
  rd_exhausted :: bool
  rd_elapsed_ns :: int
  rd_queue_depth :: int
  rd_monotonic :: rat
  rd_wall_after :: rat

record ('p, 'd) session =
  ss_executor :: "'p live_executor"
  ss_pipeline :: 'd
  ss_tracker :: episode_tracker
  ss_clipping :: clipping_monitor
  market_stale :: bool
  market_stale_since :: "instant option"
  last_reconnect_count :: int
  safety_blocked :: bool
  safety_reasons :: "safety_reason list"
  safety_current_value :: rat
  safety_drawdown_pct :: rat
  recent_rejections :: "rejection_entry list"
  rejection_count :: int
  initial_spot_equity :: rat
  last_real_tick_wall_time :: rat
  ghost_pass_count :: int
  ghost_action_count :: int
  ticks_processed :: int
  ticks_clipped :: int
  prev_msc :: int

definition session_init :: "'p live_executor \<Rightarrow> 'd \<Rightarrow> string \<Rightarrow> clipping_monitor \<Rightarrow> ('p, 'd) session" where
  "session_init ex d broker_type mon =
     \<lparr>ss_executor = ex, ss_pipeline = d, ss_tracker = new_tracker broker_type True, ss_clipping = mon,
      market_stale = False, market_stale_since = None, last_reconnect_count = 0, safety_blocked = False,
      safety_reasons = [], safety_current_value = 0, safety_drawdown_pct = 0, recent_rejections = [],
      rejection_count = 0, initial_spot_equity = 0, last_real_tick_wall_time = 0, ghost_pass_count = 0,
      ghost_action_count = 0, ticks_processed = 0, ticks_clipped = 0, prev_msc = 0\<rparr>"

text \<open>A call of the loop into the pipeline.\<close>

definition on_pipeline :: "('d \<Rightarrow> 'p live_executor \<Rightarrow> 'd \<times> 'p live_executor) \<Rightarrow> ('p, 'd) session \<Rightarrow> ('p, 'd) session" where
  "on_pipeline f s =
     (let (pd, ex) = f (ss_pipeline s) (ss_executor s) in s\<lparr>ss_pipeline := pd, ss_executor := ex\<rparr>)"

section \<open>The circuit breaker\<close>

definition min_threshold :: "bool \<Rightarrow> safety_config \<Rightarrow> rat" where
  "min_threshold spot sf = (if spot then sf_min_equity sf else sf_min_balance sf)"

definition check_safety :: "loop_config \<Rightarrow> rat \<Rightarrow> rat \<Rightarrow> ('p, 'd) session \<Rightarrow> ('p, 'd) session" where
  "check_safety cfg value baseline s =
     (let sf = lc_safety cfg in
      if \<not> sf_enabled sf then s
      else
        let s1 = s\<lparr>safety_blocked := False, safety_reasons := [], safety_current_value := value\<rparr>;
            limit = min_threshold (lc_spot cfg) sf;
            s2 = (if limit > 0 \<and> value < limit
                  then s1\<lparr>safety_blocked := True, safety_reasons := [BELOW_MINIMUM value limit]\<rparr> else s1)
        in if sf_max_drawdown_pct sf > 0 \<and> baseline > 0 then
             let drawdown = (baseline - value) / baseline * 100;
                 s3 = s2\<lparr>safety_drawdown_pct := max 0 drawdown\<rparr>
             in if drawdown > sf_max_drawdown_pct sf
                then s3\<lparr>safety_blocked := True,
                        safety_reasons := safety_reasons s3 @ [MAX_DRAWDOWN drawdown (sf_max_drawdown_pct sf)]\<rparr>
                else s3
           else s2\<lparr>safety_drawdown_pct := 0\<rparr>)"

definition safety_value :: "loop_config \<Rightarrow> tick_data \<Rightarrow> ('p, 'd) session \<Rightarrow> rat" where
  "safety_value cfg t s =
     (if lc_spot cfg then get_spot_equity (ex_portfolio (ss_executor s)) ((bid t + ask t) / 2)
      else pf_balance (ex_portfolio (ss_executor s)))"

definition safety_baseline :: "loop_config \<Rightarrow> ('p, 'd) session \<Rightarrow> rat" where
  "safety_baseline cfg s =
     (if lc_spot cfg \<and> initial_spot_equity s > 0 then initial_spot_equity s
      else initial_balance (ex_portfolio (ss_executor s)))"

definition override_action :: "('p, 'd) session \<Rightarrow> decision \<Rightarrow> decision" where
  "override_action s d = (if safety_blocked s then d\<lparr>dc_action := DL_FLAT\<rparr> else d)"

section \<open>Rejections\<close>

definition record_rejection_entry :: "order_result option \<Rightarrow> decision \<Rightarrow> ('p, 'd) session \<Rightarrow> ('p, 'd) session res" where
  "record_rejection_entry r d s =
     (case r of
        None \<Rightarrow> Inr s
      | Some r \<Rightarrow>
          if \<not> is_rejected r then Inr s
          else bind_res (get_current_time (ss_executor s)) (\<lambda>now.
            Inr (s\<lparr>rejection_count := rejection_count s + 1,
                   recent_rejections := deque_append 5 (recent_rejections s)
                     \<lparr>re_seq = rejection_count s + 1, re_reason = or_rejection_reason r, re_side = dc_action d,
                      re_tick_time = now\<rparr>\<rparr>)))"

definition execute_and_record ::
  "('p, 'd) pipeline \<Rightarrow> decision \<Rightarrow> tick_data option \<Rightarrow> ('p, 'd) session \<Rightarrow> (order_result option \<times> ('p, 'd) session) res" where
  "execute_and_record P d t s =
     (let d1 = override_action s d in
      bind_res (pl_execute P d1 t (ss_pipeline s) (ss_executor s)) (\<lambda>(r, pd, ex).
        bind_res (record_rejection_entry r d1 (s\<lparr>ss_pipeline := pd, ss_executor := ex\<rparr>)) (\<lambda>s1. Inr (r, s1))))"

section \<open>Market-data staleness\<close>

definition note_reconnects :: "readings \<Rightarrow> ('p, 'd) session \<Rightarrow> ('p, 'd) session" where
  "note_reconnects rd s =
     (if rd_reconnects rd > last_reconnect_count s then s\<lparr>last_reconnect_count := rd_reconnects rd\<rparr> else s)"

definition mark_stale ::
  "('p, 'd) pipeline \<Rightarrow> readings \<Rightarrow> rat \<Rightarrow> ('p, 'd) session \<Rightarrow> ('p, 'd) session res" where
  "mark_stale P rd seconds_since s =
     bind_res (get_current_time (ss_executor s)) (\<lambda>now.
       let flipped = (\<not> market_stale s);
           s1 = (if flipped then s\<lparr>market_stale := True, market_stale_since := Some now\<rparr> else s);
           status = \<lparr>is_stale = True, stale_since = market_stale_since s1, seconds_since_last_tick = seconds_since,
                     reconnect_count = last_reconnect_count s1\<rparr>;
           s2 = s1\<lparr>ss_executor := set_market_data_status status (ss_executor s1),
                   ss_tracker := tracker_on_heartbeat (rd_wall rd) now True (rd_outage_label rd) (ss_tracker s1)\<rparr>
       in if flipped
          then let (pd, ex) = pl_on_stale P status (ss_pipeline s2) (ss_executor s2)
               in Inr (s2\<lparr>ss_pipeline := pd, ss_executor := ex\<rparr>)
          else Inr s2)"

definition evaluate_market_data_staleness ::
  "('p, 'd) pipeline \<Rightarrow> loop_config \<Rightarrow> readings \<Rightarrow> ('p, 'd) session \<Rightarrow> ('p, 'd) session res" where
  "evaluate_market_data_staleness P cfg rd s =
     (let s1 = note_reconnects rd s; seconds_since = rd_wall rd - last_real_tick_wall_time s1 in
      if lc_stale_after_s cfg \<le> 0 then Inr s1
      else if last_real_tick_wall_time s1 \<le> 0 then Inr s1
      else if seconds_since \<le> lc_stale_after_s cfg then Inr s1
      else mark_stale P rd seconds_since s1)"

definition end_market_stale_episode :: "('p, 'd) session \<Rightarrow> ('p, 'd) session" where
  "end_market_stale_episode s =
     s\<lparr>market_stale := False, market_stale_since := None,
       ss_executor := set_market_data_status (fresh_status\<lparr>reconnect_count := last_reconnect_count s\<rparr>) (ss_executor s)\<rparr>"

section \<open>A tick\<close>

definition tick_msc :: "tick_data \<Rightarrow> int" where
  "tick_msc t = (if collected_msc t > 0 then collected_msc t else time_msc t)"

definition tick_delta_ms :: "tick_data \<Rightarrow> ('p, 'd) session \<Rightarrow> rat" where
  "tick_delta_ms t s =
     (if prev_msc s > 0 \<and> tick_msc t > prev_msc s then of_int (tick_msc t - prev_msc s) else 0)"

definition start_tick :: "('p, 'd) pipeline \<Rightarrow> tick_data \<Rightarrow> ('p, 'd) session \<Rightarrow> ('p, 'd) session" where
  "start_tick P t s =
     s\<lparr>prev_msc := (if tick_msc t > 0 then tick_msc t else prev_msc s), ticks_processed := ticks_processed s + 1,
       ss_pipeline := pl_merge_signals P (ss_pipeline s)\<rparr>"

definition broker_path ::
  "('p, 'r) live_adapter \<Rightarrow> loop_config \<Rightarrow> readings \<Rightarrow> tick_data \<Rightarrow> ('p, 'd) session \<Rightarrow> ('p, 'd) session res" where
  "broker_path ad cfg rd t s =
     bind_res (live_on_tick ad t (ss_executor s)) (\<lambda>ex.
       let s1 = s\<lparr>ss_executor := ex\<rparr>;
           s2 = (if market_stale s1 then end_market_stale_episode s1 else s1)
       in bind_res (get_current_time (ss_executor s2)) (\<lambda>now.
            let s3 = s2\<lparr>ss_tracker := tracker_on_tick (rd_wall rd) now (is_stale (market_status (ss_executor s2)))
                                      (rd_outage_label rd) (ss_tracker s2)\<rparr>
            in Inr (if ticks_processed s3 = 1 \<and> lc_spot cfg
                    then s3\<lparr>initial_spot_equity :=
                            get_spot_equity (ex_portfolio (ss_executor s3)) ((bid t + ask t) / 2)\<rparr>
                    else s3)))"

definition algo_path ::
  "('p, 'd) pipeline \<Rightarrow> loop_config \<Rightarrow> tick_data \<Rightarrow> ('p, 'd) session \<Rightarrow> ('p, 'd) session res" where
  "algo_path P cfg t s =
     bind_res (pl_algo P t (ss_pipeline s) (ss_executor s)) (\<lambda>(d, pd, ex).
       let s1 = s\<lparr>ss_pipeline := pd, ss_executor := ex\<rparr>;
           s2 = check_safety cfg (safety_value cfg t s1) (safety_baseline cfg s1) s1
       in bind_res (execute_and_record P d (Some t) s2) (\<lambda>(r, s3). Inr s3))"

definition drain_decision_events :: "('p, 'd) pipeline \<Rightarrow> ('p, 'd) session \<Rightarrow> ('p, 'd) session" where
  "drain_decision_events P s = on_pipeline (pl_drain_events P) s"

definition close_tick :: "readings \<Rightarrow> rat \<Rightarrow> ('p, 'd) session \<Rightarrow> ('p, 'd) session" where
  "close_tick rd delta s =
     (let mon = record_queue_depth (rd_queue_depth rd) (record_tick (rd_elapsed_ns rd) delta (ss_clipping s));
          (report, mon1) = get_periodic_report (rd_monotonic rd) mon
      in s\<lparr>ss_clipping := mon1,
           ticks_clipped := ticks_clipped s + (case report of None \<Rightarrow> 0 | Some r \<Rightarrow> cr_clipped r),
           last_real_tick_wall_time := rd_wall_after rd\<rparr>)"

text \<open>The flag of the result says that the loop is left.\<close>

definition process_loop_tick ::
  "('p, 'd) pipeline \<Rightarrow> ('p, 'r) live_adapter \<Rightarrow> loop_config \<Rightarrow> readings \<Rightarrow> tick_data \<Rightarrow> ('p, 'd) session
     \<Rightarrow> (bool \<times> ('p, 'd) session) res" where
  "process_loop_tick P ad cfg rd t s =
     (let delta = tick_delta_ms t s in
      bind_res (broker_path ad cfg rd t (start_tick P t s)) (\<lambda>s1.
        bind_res (algo_path P cfg t s1) (\<lambda>s2.
          let s3 = drain_decision_events P s2 in
          if session_end_requested (ss_executor s3) then Inr (True, s3)
          else
            let s4 = on_pipeline (pl_reconcile P (ticks_processed s3)) s3;
                s5 = s4\<lparr>ss_pipeline := pl_persist P (ticks_processed s4) (ss_pipeline s4)\<rparr>
            in Inr (False, close_tick rd delta s5))))"

section \<open>An idle heartbeat\<close>

definition run_decision_heartbeat :: "('p, 'd) pipeline \<Rightarrow> ('p, 'd) session \<Rightarrow> ('p, 'd) session res" where
  "run_decision_heartbeat P s =
     (let (d, pd, ex) = pl_ghost P (ss_pipeline s) (ss_executor s); s1 = s\<lparr>ss_pipeline := pd, ss_executor := ex\<rparr> in
      case d of
        None \<Rightarrow> Inr s1
      | Some d \<Rightarrow>
          bind_res (execute_and_record P d None (s1\<lparr>ghost_pass_count := ghost_pass_count s1 + 1\<rparr>)) (\<lambda>(r, s2).
            Inr (if r = None then s2 else s2\<lparr>ghost_action_count := ghost_action_count s2 + 1\<rparr>)))"

definition process_idle ::
  "('p, 'd) pipeline \<Rightarrow> loop_config \<Rightarrow> readings \<Rightarrow> ('p, 'd) session \<Rightarrow> (bool \<times> ('p, 'd) session) res" where
  "process_idle P cfg rd s =
     (if rd_exhausted rd then Inr (True, s)
      else bind_res (live_heartbeat (set_clock (rd_utc_now rd) (ss_executor s))) (\<lambda>ex.
        bind_res (evaluate_market_data_staleness P cfg rd (s\<lparr>ss_executor := ex\<rparr>)) (\<lambda>s1.
          let s1 = on_pipeline (pl_reconcile P (ticks_processed s1)) s1 in
          bind_res (get_current_time (ss_executor s1)) (\<lambda>now.
            let s2 = on_pipeline (pl_process_signals P now) s1
            in bind_res (run_decision_heartbeat P (drain_decision_events P s2)) (\<lambda>s3.
                 let s4 = s3\<lparr>ss_pipeline := pl_persist P (ticks_processed s3) (ss_pipeline s3)\<rparr>
                 in Inr (session_end_requested (ss_executor s4), s4))))))"

section \<open>The session\<close>

text \<open>What \<open>tick_queue.get\<close> yields: a tick, the end marker, or a time-out.\<close>

datatype queue_item = QTick tick_data | QSentinel | QEmpty

definition loop_round ::
  "('p, 'd) pipeline \<Rightarrow> ('p, 'r) live_adapter \<Rightarrow> loop_config \<Rightarrow> queue_item \<times> readings \<Rightarrow> ('p, 'd) session
     \<Rightarrow> (bool \<times> ('p, 'd) session) res" where
  "loop_round P ad cfg item s =
     (case item of
        (QTick t, rd) \<Rightarrow> process_loop_tick P ad cfg rd t s
      | (QSentinel, rd) \<Rightarrow> Inr (True, s)
      | (QEmpty, rd) \<Rightarrow> process_idle P cfg rd s)"

text \<open>The end of the list is a call of \<open>stop()\<close>.\<close>

primrec loop_rounds ::
  "('p, 'd) pipeline \<Rightarrow> ('p, 'r) live_adapter \<Rightarrow> loop_config \<Rightarrow> (queue_item \<times> readings) list \<Rightarrow> ('p, 'd) session
     \<Rightarrow> ('p, 'd) session res" where
  "loop_rounds P ad cfg [] s = Inr s"
| "loop_rounds P ad cfg (i # is) s =
     bind_res (loop_round P ad cfg i s) (\<lambda>(stop, s1). if stop then Inr s1 else loop_rounds P ad cfg is s1)"

definition end_event :: "('p, 'd) session \<Rightarrow> decision_event" where
  "end_event s =
     (let ex = ss_executor s in
      if session_end_requested ex then SessionEndEvent (session_end_reason ex) (session_end_sev ex) (clock_time ex)
      else SessionEndEvent ''tick source exhausted'' SEV_NORMAL (clock_time ex))"

definition run_loop ::
  "('p, 'd) pipeline \<Rightarrow> ('p, 'r) live_adapter \<Rightarrow> loop_config \<Rightarrow> (queue_item \<times> readings) list \<Rightarrow> ('p, 'd) session
     \<Rightarrow> ((int \<times> int) \<times> ('p, 'd) session) res" where
  "run_loop P ad cfg items s =
     bind_res (loop_rounds P ad cfg items (s\<lparr>ticks_processed := 0, ticks_clipped := 0, prev_msc := 0\<rparr>)) (\<lambda>s1.
       if \<not> lc_dispatcher cfg then Inr ((ticks_processed s1, ticks_clipped s1), s1)
       else bind_res (get_current_time (ss_executor s1)) (\<lambda>now.
         Inr ((ticks_processed s1, ticks_clipped s1), on_pipeline (pl_session_end P (end_event s1)) s1)))"

end
