(* ===== verification/Live_Laws.thy ===== *)
theory Live_Laws
  imports Live_Executor Executor_Laws
begin

text \<open>
  What live execution guarantees. Every operation is a run of the portfolio machine, so the accounting laws
  proved for the portfolio hold in live trading too. The flags on a resting order mirror the traffic between
  main thread and worker exactly: one submission in transit while the order is unconfirmed, one modification
  or cancellation while one is in flight, one status query while one is outstanding, through every
  interleaving of calls, ticks, heartbeats and worker rounds.
\<close>

section \<open>What the processor's bookkeeping leaves alone\<close>

definition same_queues :: "'p processor \<Rightarrow> 'p processor \<Rightarrow> bool" where
  "same_queues q q' \<longleftrightarrow> http_outbox q' = http_outbox q \<and> http_inbox q' = http_inbox q \<and>
     (stats_ok (pending_st q) \<longrightarrow> stats_ok (pending_st q'))"

lemma same_queues_refl [simp]: "same_queues q q"
  by (simp add: same_queues_def)

lemma same_queues_trans: "same_queues q r \<Longrightarrow> same_queues r t \<Longrightarrow> same_queues q t"
  by (simp add: same_queues_def)

lemma same_queues_more:
  "pending_manager.more q' = pending_manager.more q \<Longrightarrow> (stats_ok (pending_st q) \<Longrightarrow> stats_ok (pending_st q')) \<Longrightarrow>
   same_queues q q'"
  for q q' :: "'p processor"
  by (cases q; cases q') (simp add: same_queues_def)

lemma same_queues_outcome [simp]: "same_queues q (record_outcome po oc l r q)"
  by (rule same_queues_more) (simp_all add: stats_ok_outcome)

lemma same_queues_store [simp]: "same_queues q (store_order po q)" "same_queues q (snd (remove_order oid q))"
  "same_queues q (q\<lparr>broker_ref_index := i\<rparr>)" "same_queues q (q\<lparr>worker_running := b\<rparr>)"
  "same_queues q (index_ref ref oid q)" "same_queues q (set_broker_ref oid ref' q)"
  by (simp_all add: same_queues_def store_order_def remove_order_def index_ref_def set_broker_ref_def split: option.split)

lemma same_queues_resolved [simp]: "same_queues q (snd (mark_resolved ref q))"
proof (cases "Option.bind ref (map_of (broker_ref_index q))")
  case (Some oid)
  then show ?thesis
    using same_queues_trans [OF same_queues_store(3) same_queues_store(2)] by (simp add: mark_resolved_def)
qed (simp add: mark_resolved_def)

lemma same_queues_marked [simp]:
  "same_queues q (snd (mark_filled ref q))" "same_queues q (snd (mark_rejected ref q))"
  by (simp_all add: mark_filled_def mark_rejected_def)

lemma same_queues_update_ref [simp]: "same_queues q (snd (update_broker_ref old_ref new_ref q))"
  using same_queues_trans [OF same_queues_store(3) same_queues_store(6)]
  by (auto simp: update_broker_ref_def split: option.split)

lemma same_queues_register [simp]:
  "same_queues q (register_pending_open now oid smb d l ref kw sub q)"
  "same_queues q (register_pending_close now oid ref cl sub q)"
  using same_queues_trans [OF same_queues_store(1) same_queues_store(5)]
  by (simp_all add: register_pending_open_def register_pending_close_def)

lemma same_queues_clear [simp]: "same_queues q (clear_pending_live now reason q)"
proof -
  have "same_queues q (clear_pending None now reason q)"
    by (rule same_queues_more) (simp_all add: clear_pending_spec)
  then show ?thesis unfolding clear_pending_live_def by (rule same_queues_trans) simp
qed

section \<open>Quiet changes\<close>

text \<open>A quiet change is a run of the portfolio that leaves resting orders and queues alone.\<close>

definition live_advances :: "'p live_executor \<Rightarrow> 'p live_executor \<Rightarrow> bool" where
  "live_advances s s' \<longleftrightarrow> pf_run (ex_portfolio s) (ex_portfolio s') \<and>
     (stats_ok (pending_st (request_processor s)) \<longrightarrow> stats_ok (pending_st (request_processor s')))"

definition quiet :: "'p live_executor \<Rightarrow> 'p live_executor \<Rightarrow> bool" where
  "quiet s s' \<longleftrightarrow> pf_run (ex_portfolio s) (ex_portfolio s') \<and> same_queues (request_processor s) (request_processor s') \<and>
     active_limit_orders s' = active_limit_orders s \<and> active_stop_orders s' = active_stop_orders s"

lemma live_advances_refl [simp]: "live_advances s s"
  by (simp add: live_advances_def)

lemma live_advances_trans: "live_advances s t \<Longrightarrow> live_advances t u \<Longrightarrow> live_advances s u"
  by (auto simp: live_advances_def)

lemma quiet_refl [simp]: "quiet s s"
  by (simp add: quiet_def)

lemma quiet_trans: "quiet s t \<Longrightarrow> quiet t u \<Longrightarrow> quiet s u"
  by (auto simp: quiet_def intro: same_queues_trans)

lemma quiet_advances: "quiet s s' \<Longrightarrow> live_advances s s'"
  by (simp add: quiet_def live_advances_def same_queues_def)

lemma quiet_processor: "same_queues (request_processor s) (f (request_processor s)) \<Longrightarrow> quiet s (on_processor f s)"
  by (simp add: quiet_def on_processor_def)

lemma quiet_set_processor: "same_queues (request_processor s) q \<Longrightarrow> quiet s (s\<lparr>request_processor := q\<rparr>)"
  by (simp add: quiet_def)

lemma quiet_rejected [simp]: "quiet s (record_rejected d r po s)"
  by (simp add: quiet_def record_rejected_def live_notify_def append_order_history_def notify_outcome_def split: option.split)

lemma live_same_more:
  fixes s s' :: "'p live_executor"
  assumes "executor.more s' = executor.more s"
  shows "request_processor s' = request_processor s" "live_position_modifications s' = live_position_modifications s"
    "poll_interval_ms s' = poll_interval_ms s"
  using assms by (cases s, cases s', simp)+

lemma quiet_fill:
  "fill_open_order po x et ft s = Inr s' \<Longrightarrow> quiet s s'"
  "fill_close_order po x cr s = Inr s' \<Longrightarrow> quiet s s'"
  by (simp_all add: quiet_def fill_open_run fill_frame_keeps [OF fill_open_run(1)] fill_close_run
      fill_frame_keeps [OF fill_close_run(1)] live_same_more(1) [OF fill_frame_keeps(14) [OF fill_open_run(1)]]
      live_same_more(1) [OF fill_frame_keeps(14) [OF fill_close_run(1)]])

lemma quiet_fill_by_action: "fill_by_action po x s = Inr s' \<Longrightarrow> quiet s s'"
  by (auto simp: fill_by_action_def split: pending_action.splits intro: quiet_fill)

lemma quiet_fold_res:
  assumes "fold_res f xs s = Inr s'" and "\<And>x s s'. x \<in> set xs \<Longrightarrow> f x s = Inr s' \<Longrightarrow> quiet s s'"
  shows "quiet s s'"
  using assms(1) quiet_refl by (rule fold_res_inv [where P = "quiet s"]) (blast intro: quiet_trans assms(2))

text \<open>The same facts as closure rules.\<close>

lemma quiet_intros:
  "quiet s t \<Longrightarrow> quiet s (record_rejected d r po t)"
  "quiet s t \<Longrightarrow> same_queues (request_processor t) (f (request_processor t)) \<Longrightarrow> quiet s (on_processor f t)"
  "quiet s t \<Longrightarrow> same_queues (request_processor t) q \<Longrightarrow> quiet s (t\<lparr>request_processor := q\<rparr>)"
  by (blast intro: quiet_trans quiet_processor quiet_set_processor quiet_rejected)+

section \<open>Orders in transit are quiet\<close>

lemma quiet_broker_response:
  assumes "handle_broker_response po r s = Inr s'"
  shows "quiet s s'"
proof -
  define q where "q = mark_filled (po_broker_ref po) (request_processor s)"
  define t where "t = s\<lparr>request_processor := snd q\<rparr>"
  have t: "quiet s t" unfolding t_def q_def by (intro quiet_set_processor) simp
  have rec: "quiet s (on_processor (record_outcome f oc l x) t)" for f oc l x
    using t by (intro quiet_intros) simp_all
  have same: "mark_rejected (po_broker_ref po) (request_processor s) = q" by (simp add: q_def mark_filled_def mark_rejected_def)
  show ?thesis
    using assms t unfolding handle_broker_response_def same q_def [symmetric]
    by (auto simp: case_prod_beta Let_def t_def [symmetric] split: if_splits option.splits
        dest!: quiet_fill_by_action intro: quiet_trans [OF rec] quiet_intros(1) [OF rec])
qed

lemma quiet_log_cancel [simp]: "quiet s (log_cancel po s)"
  by (simp add: log_cancel_def quiet_def)

lemma quiet_fold: "(\<And>x s. x \<in> set xs \<Longrightarrow> quiet s (f x s)) \<Longrightarrow> quiet s (fold f xs s)"
  by (induction xs arbitrary: s) (auto intro: quiet_trans)

lemma quiet_timeout: "quiet s (handle_timeout po s)"
  unfolding handle_timeout_def Let_def by (rule quiet_intros, rule quiet_intros, rule quiet_intros) simp_all

lemma quiet_timeouts [simp]: "quiet s (handle_timeouts s)"
  unfolding handle_timeouts_def by (intro quiet_fold quiet_timeout)

lemma quiet_poll: "poll_pending ad po s = Inr s' \<Longrightarrow> quiet s s'"
  by (auto simp: poll_pending_def intro: quiet_broker_response split: if_splits)

lemma quiet_market_response:
  assumes "handle_submit_response oid act ot r s = Inr s'" and "ot \<noteq> OT_LIMIT"
  shows "quiet s s'"
proof (cases "map_of (pending_orders (request_processor s)) oid")
  case None
  with assms show ?thesis by (simp add: handle_submit_response_def)
next
  case (Some po)
  show ?thesis
  proof (cases "resp_is_rejected r")
    case True
    with assms Some have "s' = record_async_rejection (order_direction_of po) (create_rejection_result oid BROKER_ERROR)
      (case po_broker_ref po of None \<Rightarrow> on_processor (\<lambda>q. snd (remove_order oid q)) s
         | Some ref \<Rightarrow> on_processor (\<lambda>q. q\<lparr>broker_ref_index := AList.delete ref (broker_ref_index q)\<rparr>)
             (on_processor (\<lambda>q. snd (remove_order oid q)) s))"
      by (simp add: handle_submit_response_def Let_def)
    then show ?thesis
      by (auto simp: record_async_rejection_def intro!: quiet_intros split: option.split)
  next
    case False
    let ?ref = "resp_broker_ref r"
    define s1 where "s1 = on_processor (set_broker_ref oid ?ref) s"
    define s2 where "s2 = (if ?ref \<noteq> [] then on_processor (index_ref (Some ?ref) oid) s1 else s1)"
    define m where "m = mark_filled (Some ?ref) (request_processor s2)"
    have s2: "quiet s s2" by (auto simp: s2_def s1_def intro!: quiet_intros)
    have s3: "quiet s (s2\<lparr>request_processor := snd m\<rparr>)" using s2 by (intro quiet_intros) (simp_all add: m_def)
    show ?thesis
      using assms Some False s2 s3 unfolding handle_submit_response_def Let_def s1_def [symmetric] s2_def [symmetric] m_def [symmetric]
      by (auto simp: case_prod_beta split: if_splits option.splits pending_action.splits
          dest!: quiet_fill intro: quiet_trans [OF s3])
  qed
qed

section \<open>Traffic\<close>

text \<open>The three kinds of traffic a resting order has with the worker: its submission, its modification or
  cancellation, its status query.\<close>

datatype lane = LANE_SUBMIT | LANE_OPERATION | LANE_QUERY

definition lane_of_job :: "'p job \<Rightarrow> (lane \<times> string) option" where
  "lane_of_job j =
     (case j of
        SubmitJob oid act ot p \<Rightarrow> if ot = OT_LIMIT then Some (LANE_SUBMIT, oid) else None
      | EditJob oid ref smb x sl tp \<Rightarrow> Some (LANE_OPERATION, oid)
      | CancelJob oid ref \<Rightarrow> Some (LANE_OPERATION, oid)
      | QueryJob oid ref \<Rightarrow> Some (LANE_QUERY, oid)
      | _ \<Rightarrow> None)"

definition lane_of_reply :: "response \<Rightarrow> (lane \<times> string) option" where
  "lane_of_reply r =
     (case r of
        SubmitResponse oid act ot br \<Rightarrow> if ot = OT_LIMIT then Some (LANE_SUBMIT, oid) else None
      | EditResponse oid br \<Rightarrow> Some (LANE_OPERATION, oid)
      | CancelResponse oid br \<Rightarrow> Some (LANE_OPERATION, oid)
      | QueryResponse oid br \<Rightarrow> Some (LANE_QUERY, oid)
      | _ \<Rightarrow> None)"

text \<open>The worker answers every job in its own lane, whatever the broker does.\<close>

lemma lane_of_dispatch: "lane_of_reply (dispatch_job ad now j) = lane_of_job j"
  by (cases j) (simp_all add: dispatch_job_def dispatch_submit_job_def dispatch_edit_job_def dispatch_cancel_job_def
      dispatch_position_modify_job_def dispatch_query_job_def dispatch_trades_query_job_def lane_of_reply_def
      lane_of_job_def catching_def bind_call_def split: sum.splits prod.splits)

definition traffic :: "response list \<Rightarrow> 'p processor \<Rightarrow> (lane \<times> string) option list" where
  "traffic rs q = map lane_of_job (http_outbox q) @ map lane_of_reply (rs @ http_inbox q)"

definition in_transit :: "response list \<Rightarrow> 'p processor \<Rightarrow> string \<Rightarrow> lane \<Rightarrow> nat" where
  "in_transit rs q oid lane = count_list (traffic rs q) (Some (lane, oid))"

lemma in_transit_same_queues: "same_queues q q' \<Longrightarrow> in_transit rs q' = in_transit rs q"
  by (simp add: same_queues_def in_transit_def traffic_def fun_eq_iff)

lemma in_transit_put_job [simp]:
  "in_transit rs (put_job j q) oid lane = in_transit rs q oid lane + of_bool (lane_of_job j = Some (lane, oid))"
  by (simp add: in_transit_def traffic_def put_job_def)

lemma in_transit_reply [simp]:
  "in_transit (r # rs) q oid lane = in_transit rs q oid lane + of_bool (lane_of_reply r = Some (lane, oid))"
  by (simp add: in_transit_def traffic_def)

lemma in_transit_worker [simp]: "in_transit rs (worker_loop ad now q) oid lane = in_transit rs q oid lane"
  by (simp add: in_transit_def traffic_def worker_loop_def lane_of_dispatch split: list.split)

lemma in_transit_drain: "in_transit (http_inbox q) (q\<lparr>http_inbox := []\<rparr>) oid lane = in_transit [] q oid lane"
  by (simp add: in_transit_def traffic_def)

section \<open>Flags mirror the traffic\<close>

text \<open>No resting order of live trading carries a \<open>limit_price\<close> argument, and no modification brings one.\<close>

definition no_limit_price :: "pending_order \<Rightarrow> bool" where
  "no_limit_price po \<longleftrightarrow>
     (\<forall>os. po_open po = Some os \<longrightarrow> kw_limit_price (os_kwargs os) = None) \<and>
     (\<forall>m. pending_modification (execution_state po) = Some m \<longrightarrow> new_limit_price m = None)"

definition order_in_step :: "(lane \<Rightarrow> nat) \<Rightarrow> pending_order \<Rightarrow> bool" where
  "order_in_step n po \<longleftrightarrow>
     n LANE_SUBMIT = of_bool (po_broker_ref po = None) \<and>
     n LANE_OPERATION = of_bool (in_flight_operation (execution_state po) \<noteq> OP_NONE) \<and>
     n LANE_QUERY = of_bool (in_flight_query (execution_state po)) \<and>
     (po_broker_ref po = None \<longrightarrow> in_flight_operation (execution_state po) = OP_NONE) \<and>
     (cancel_requested (execution_state po) \<longrightarrow> po_broker_ref po = None) \<and> no_limit_price po"

definition issued :: "portfolio \<Rightarrow> string \<Rightarrow> bool" where
  "issued pf oid \<longleftrightarrow> (\<exists>smb pf'. oid = fst (get_next_position_id smb pf') \<and> position_counter pf' < position_counter pf)"

definition pipeline_inv :: "response list \<Rightarrow> 'p live_executor \<Rightarrow> bool" where
  "pipeline_inv rs s \<longleftrightarrow>
     active_stop_orders s = [] \<and> distinct (map pending_order_id (active_limit_orders s)) \<and>
     (\<forall>po\<in>set (active_limit_orders s).
        order_in_step (in_transit rs (request_processor s) (pending_order_id po)) po \<and>
        issued (ex_portfolio s) (pending_order_id po)) \<and>
     (\<forall>oid lane. in_transit rs (request_processor s) oid lane > 0 \<longrightarrow> issued (ex_portfolio s) oid)"

lemma issued_mono: "issued pf oid \<Longrightarrow> position_counter pf \<le> position_counter pf' \<Longrightarrow> issued pf' oid"
  by (fastforce simp: issued_def)

lemma issued_run: "issued pf oid \<Longrightarrow> pf_run pf pf' \<Longrightarrow> issued pf' oid"
  by (blast intro: issued_mono counter_run)

lemma next_id_not_issued: "\<not> issued pf (fst (get_next_position_id smb pf))"
  by (auto simp: issued_def dest: next_id_inject)

lemma next_id_issued: "issued (snd (get_next_position_id smb pf)) (fst (get_next_position_id smb pf))"
  unfolding issued_def by (intro exI [of _ smb] exI [of _ pf]) (simp add: get_next_position_id_def Let_def)

lemma pipeline_quiet: "quiet s s' \<Longrightarrow> pipeline_inv rs s \<Longrightarrow> pipeline_inv rs s'"
proof -
  assume q: "quiet s s'" and inv: "pipeline_inv rs s"
  have "issued (ex_portfolio s) k \<Longrightarrow> issued (ex_portfolio s') k" for k
    using q issued_run [of "ex_portfolio s" k "ex_portfolio s'"] by (simp add: quiet_def)
  moreover from q have "in_transit rs (request_processor s') = in_transit rs (request_processor s)"
    "active_limit_orders s' = active_limit_orders s" "active_stop_orders s' = active_stop_orders s"
    by (simp_all add: quiet_def in_transit_same_queues)
  ultimately show ?thesis using inv unfolding pipeline_inv_def by metis
qed

section \<open>Changing one order\<close>

text \<open>Updating and removing the order with a given id are both replacements.\<close>

definition replace_order :: "string \<Rightarrow> (pending_order \<Rightarrow> pending_order option) \<Rightarrow> pending_order list \<Rightarrow> pending_order list" where
  "replace_order oid g pos = List.map_filter (\<lambda>po. if pending_order_id po = oid then g po else Some po) pos"

lemma replace_order_simps [simp]:
  "replace_order oid g [] = []"
  "replace_order oid g (po # pos) =
     (if pending_order_id po = oid then (case g po of None \<Rightarrow> replace_order oid g pos | Some p \<Rightarrow> p # replace_order oid g pos)
      else po # replace_order oid g pos)"
  by (simp_all add: replace_order_def map_filter_simps split: option.split)

lemma replace_order_absent: "oid \<notin> pending_order_id ` set pos \<Longrightarrow> replace_order oid g pos = pos"
  by (induction pos) auto

lemma replace_order_set:
  "po \<in> set (replace_order oid g pos) \<Longrightarrow>
   (po \<in> set pos \<and> pending_order_id po \<noteq> oid) \<or> (\<exists>p\<in>set pos. pending_order_id p = oid \<and> g p = Some po)"
  by (induction pos) (auto split: if_splits option.splits)

lemma replace_order_distinct:
  assumes "distinct (map pending_order_id pos)"
    and "\<And>p p'. p \<in> set pos \<Longrightarrow> pending_order_id p = oid \<Longrightarrow> g p = Some p' \<Longrightarrow> pending_order_id p' = oid"
  shows "distinct (map pending_order_id (replace_order oid g pos))"
  using assms
proof (induction pos)
  case (Cons p pos)
  have sub: "pending_order_id q \<in> pending_order_id ` set pos" if "q \<in> set (replace_order oid g pos)" for q
    using replace_order_set [OF that]
  proof (elim disjE bexE conjE)
    fix x assume x: "x \<in> set pos" "pending_order_id x = oid" "g x = Some q"
    then have "pending_order_id q = pending_order_id x" using Cons.prems(2) [of x q] by simp
    with x(1) show ?thesis by simp
  qed simp
  have IH: "distinct (map pending_order_id (replace_order oid g pos))"
  proof (rule Cons.IH)
    show "distinct (map pending_order_id pos)" using Cons.prems(1) by simp
  qed (rule Cons.prems(2), simp_all)
  have new: "pending_order_id p \<notin> pending_order_id ` set (replace_order oid g pos)"
    using sub Cons.prems(1) by auto
  show ?case
  proof (cases "pending_order_id p = oid")
    case True
    then have "g p = Some p' \<Longrightarrow> pending_order_id p' = pending_order_id p" for p' using Cons.prems(2) [of p p'] by simp
    with True IH new show ?thesis by (simp split: option.split)
  qed (use IH new in simp)
qed simp

lemma find_has_id: "find (has_id oid) pos = Some po \<Longrightarrow> po \<in> set pos \<and> pending_order_id po = oid"
  by (induction pos) (auto simp: has_id_def split: if_splits)

lemma find_has_id_None: "find (has_id oid) pos = None \<longleftrightarrow> oid \<notin> pending_order_id ` set pos"
  by (induction pos) (auto simp: has_id_def)

lemma update_first_replace:
  assumes "distinct (map pending_order_id pos)"
  shows "update_first (has_id oid) f pos = replace_order oid (\<lambda>po. Some (f po)) pos"
  using assms by (induction pos) (auto simp: has_id_def replace_order_absent)

lemma update_found:
  assumes "distinct (map pending_order_id pos)" and "find (has_id oid) pos = Some po"
  shows "update_first (has_id oid) (\<lambda>_. f po) pos = update_first (has_id oid) f pos"
  using assms by (induction pos) (auto simp: has_id_def split: if_splits)

lemma update_first_twice:
  assumes "\<And>p. pending_order_id (f p) = pending_order_id p"
  shows "update_first (has_id oid) g (update_first (has_id oid) f pos) = update_first (has_id oid) (\<lambda>p. g (f p)) pos"
  using assms by (induction pos) (auto simp: has_id_def)

lemma remove1_replace:
  assumes "distinct (map pending_order_id pos)" and "po \<in> set pos"
  shows "remove1 po pos = replace_order (pending_order_id po) (\<lambda>_. None) pos"
  using assms by (induction pos) (auto simp: replace_order_absent rev_image_eqI)

lemma replace_twice:
  assumes "\<And>p. pending_order_id p = oid \<Longrightarrow> pending_order_id (f p) = oid"
  shows "replace_order oid g (replace_order oid (\<lambda>po. Some (f po)) pos) = replace_order oid (\<lambda>po. g (f po)) pos"
  using assms by (induction pos) (auto split: option.split)

lemma pipeline_replace:
  assumes "pipeline_inv rs s" and "active_stop_orders s' = []"
    and "active_limit_orders s' = replace_order oid g (active_limit_orders s)"
    and "\<And>k lane. k \<noteq> oid \<Longrightarrow> in_transit rs' (request_processor s') k lane = in_transit rs (request_processor s) k lane"
    and "\<And>p p'. p \<in> set (active_limit_orders s) \<Longrightarrow> pending_order_id p = oid \<Longrightarrow> g p = Some p' \<Longrightarrow>
      pending_order_id p' = oid \<and> order_in_step (in_transit rs' (request_processor s') oid) p'"
    and "\<And>lane. in_transit rs' (request_processor s') oid lane > 0 \<Longrightarrow> issued (ex_portfolio s) oid"
    and "pf_run (ex_portfolio s) (ex_portfolio s')"
  shows "pipeline_inv rs' s'"
  unfolding pipeline_inv_def
proof (intro conjI ballI allI impI)
  show "active_stop_orders s' = []" by fact
  show "distinct (map pending_order_id (active_limit_orders s'))"
    unfolding assms(3)
  proof (rule replace_order_distinct)
    show "distinct (map pending_order_id (active_limit_orders s))" using assms(1) by (simp add: pipeline_inv_def)
  qed (rule assms(5) [THEN conjunct1])
next
  fix po assume "po \<in> set (active_limit_orders s')"
  then consider "po \<in> set (active_limit_orders s)" "pending_order_id po \<noteq> oid"
    | p where "p \<in> set (active_limit_orders s)" "pending_order_id p = oid" "g p = Some po"
    unfolding assms(3) by (blast dest: replace_order_set)
  then have "order_in_step (in_transit rs' (request_processor s') (pending_order_id po)) po \<and>
      issued (ex_portfolio s) (pending_order_id po)"
  proof cases
    case 1
    then have "in_transit rs' (request_processor s') (pending_order_id po) = in_transit rs (request_processor s) (pending_order_id po)"
      using assms(4) by blast
    with 1 assms(1) show ?thesis by (simp add: pipeline_inv_def)
  next
    case 2
    from assms(5) [OF 2] assms(1) 2(1,2) show ?thesis by (auto simp: pipeline_inv_def)
  qed
  then show "order_in_step (in_transit rs' (request_processor s') (pending_order_id po)) po"
    "issued (ex_portfolio s') (pending_order_id po)" using issued_run [OF _ assms(7)] by auto
next
  fix k lane assume k: "0 < in_transit rs' (request_processor s') k lane"
  have "issued (ex_portfolio s) k"
  proof (cases "k = oid")
    case True
    with k show ?thesis using assms(6) by blast
  next
    case False
    with k assms(4) [OF False] assms(1) show ?thesis by (auto simp: pipeline_inv_def)
  qed
  then show "issued (ex_portfolio s') k" by (rule issued_run [OF _ assms(7)])
qed

lemma pipeline_present:
  assumes inv: "pipeline_inv rs s" and "oid \<in> pending_order_id ` set (active_limit_orders s)"
    and "active_stop_orders s' = []" and "active_limit_orders s' = replace_order oid g (active_limit_orders s)"
    and "\<And>k lane. k \<noteq> oid \<Longrightarrow> in_transit rs' (request_processor s') k lane = in_transit rs (request_processor s) k lane"
    and step: "\<And>p p'. p \<in> set (active_limit_orders s) \<Longrightarrow> order_in_step (in_transit rs (request_processor s) oid) p \<Longrightarrow> pending_order_id p = oid \<Longrightarrow> g p = Some p' \<Longrightarrow>
      pending_order_id p' = oid \<and> order_in_step (in_transit rs' (request_processor s') oid) p'"
    and "pf_run (ex_portfolio s) (ex_portfolio s')"
  shows "pipeline_inv rs' s'"
proof (rule pipeline_replace [OF inv assms(3,4,5)])
  fix p p' assume p: "p \<in> set (active_limit_orders s)" "pending_order_id p = oid" "g p = Some p'"
  with inv have "order_in_step (in_transit rs (request_processor s) oid) p" by (auto simp: pipeline_inv_def)
  from step [OF p(1) this p(2,3)] show "pending_order_id p' = oid \<and> order_in_step (in_transit rs' (request_processor s') oid) p'" .
next
  show "issued (ex_portfolio s) oid" using inv assms(2) by (auto simp: pipeline_inv_def)
qed (use assms(7) in simp_all)

lemma pipeline_reply_absent:
  assumes "pipeline_inv (r # rs) s" and "\<And>lane oid. lane_of_reply r = Some (lane, oid) \<Longrightarrow> oid \<notin> pending_order_id ` set (active_limit_orders s)"
  shows "pipeline_inv rs s"
proof -
  have "in_transit (r # rs) (request_processor s) (pending_order_id po) = in_transit rs (request_processor s) (pending_order_id po)"
    if "po \<in> set (active_limit_orders s)" for po
    using assms(2) that by (auto simp: fun_eq_iff)
  with assms(1) show ?thesis unfolding pipeline_inv_def by (simp add: add_pos_nonneg)
qed

lemma remove_updated:
  assumes "distinct (map pending_order_id pos)" and "find (has_id oid) pos = Some po" and "pending_order_id po' = oid"
  shows "remove1 po' (update_first (has_id oid) (\<lambda>_. po') pos) = replace_order oid (\<lambda>_. None) pos"
    and "po' \<in> set (update_first (has_id oid) (\<lambda>_. po') pos)"
  using assms by (induction pos) (auto simp: has_id_def replace_order_absent split: if_splits)

definition live_ok :: "response list \<Rightarrow> response list \<Rightarrow> 'p live_executor \<Rightarrow> 'p live_executor \<Rightarrow> bool" where
  "live_ok rs rs' s s' \<longleftrightarrow> live_advances s s' \<and> (pipeline_inv rs s \<longrightarrow> pipeline_inv rs' s')"

lemma live_ok_trans: "live_ok rs rs' s t \<Longrightarrow> live_ok rs' rs'' t u \<Longrightarrow> live_ok rs rs'' s u"
  by (auto simp: live_ok_def intro: live_advances_trans)

lemma live_ok_quiet: "quiet s s' \<Longrightarrow> live_ok rs rs s s'"
  by (auto simp: live_ok_def intro: quiet_advances pipeline_quiet)

lemma live_ok_reply_None: "lane_of_reply r = None \<Longrightarrow> live_ok (r # rs) rs s s"
  by (auto simp: live_ok_def intro: pipeline_reply_absent)

section \<open>Handlers\<close>

lemma find_in_ids: "find (has_id oid) pos = Some po \<Longrightarrow> oid \<in> pending_order_id ` set pos"
  by (auto dest: find_has_id)

lemma pipeline_distinct: "pipeline_inv rs s \<Longrightarrow> distinct (map pending_order_id (active_limit_orders s))"
  "pipeline_inv rs s \<Longrightarrow> active_stop_orders s = []"
  by (simp_all add: pipeline_inv_def)

text \<open>Three ways a reply to a resting order resolves: the order is dropped, changed in place, or changed with
  a new job issued.\<close>

lemma same_id_order:
  "distinct (map pending_order_id pos) \<Longrightarrow> p \<in> set pos \<Longrightarrow> q \<in> set pos \<Longrightarrow> pending_order_id p = pending_order_id q \<Longrightarrow> p = q"
  by (auto simp: distinct_map dest: inj_onD)

lemma reply_removes:
  assumes "pipeline_inv rs s" and "find (has_id oid) (active_limit_orders s) = Some po"
    and "\<And>k lane. k \<noteq> oid \<Longrightarrow> in_transit rs' (request_processor s) k lane = in_transit rs (request_processor s) k lane"
    and "t = s\<lparr>active_limit_orders := replace_order oid (\<lambda>_. None) (active_limit_orders s)\<rparr>"
  shows "pipeline_inv rs' t"
  using assms by (intro pipeline_present [of rs s oid t "\<lambda>_. None" rs']) (auto simp: find_in_ids pipeline_distinct)

lemma reply_updates:
  assumes "pipeline_inv rs s" and "find (has_id oid) (active_limit_orders s) = Some po"
    and "\<And>k lane. k \<noteq> oid \<Longrightarrow> in_transit rs' q k lane = in_transit rs (request_processor s) k lane"
    and "order_in_step (in_transit rs (request_processor s) oid) po \<Longrightarrow> pending_order_id po = oid \<Longrightarrow>
      pending_order_id (f po) = oid \<and> order_in_step (in_transit rs' q oid) (f po)"
    and "t = s\<lparr>active_limit_orders := update_first (has_id oid) f (active_limit_orders s), request_processor := q\<rparr>"
  shows "pipeline_inv rs' t"
proof (rule pipeline_present [OF assms(1), where oid = oid and g = "\<lambda>p. Some (f p)"])
  note po = find_has_id [OF assms(2)]
  fix p p' assume p: "p \<in> set (active_limit_orders s)" "order_in_step (in_transit rs (request_processor s) oid) p"
    "pending_order_id p = oid" "Some (f p) = Some p'"
  have "p = po" by (rule same_id_order [OF pipeline_distinct(1) [OF assms(1)]]) (use po p in simp_all)
  with p assms(4,5) show "pending_order_id p' = oid \<and> order_in_step (in_transit rs' (request_processor t) oid) p'" by simp
qed (use assms(1-3,5) in \<open>simp_all add: find_in_ids pipeline_distinct update_first_replace\<close>)

lemma live_ok_remove:
  assumes "find (has_id oid) (active_limit_orders s) = Some po" and "remove_limit po s = Inr t"
    and "\<And>k lane. k \<noteq> oid \<Longrightarrow> in_transit rs' (request_processor s) k lane = in_transit rs (request_processor s) k lane"
  shows "live_ok rs rs' s t"
proof -
  from assms(2) have t: "t = s\<lparr>active_limit_orders := remove1 po (active_limit_orders s)\<rparr>"
    by (simp add: remove_limit_def split: if_splits)
  note po = find_has_id [OF assms(1)]
  have "pipeline_inv rs' t" if inv: "pipeline_inv rs s"
  proof -
    have "remove1 po (active_limit_orders s) = replace_order oid (\<lambda>_. None) (active_limit_orders s)"
      using remove1_replace [OF pipeline_distinct(1) [OF inv], of po] po by simp
    then show ?thesis by (intro reply_removes [OF inv assms(1)]) (erule assms(3), simp only: t)
  qed
  then show ?thesis by (simp add: live_ok_def live_advances_def t)
qed

lemma live_ok_remove_updated:
  assumes "find (has_id oid) (active_limit_orders s) = Some po" and "pending_order_id po' = oid"
    and "remove_limit po' (update_limit oid (\<lambda>_. po') s) = Inr t"
    and "\<And>k lane. k \<noteq> oid \<Longrightarrow> in_transit rs' (request_processor s) k lane = in_transit rs (request_processor s) k lane"
  shows "live_ok rs rs' s t"
proof -
  from assms(3) have t: "t = s\<lparr>active_limit_orders := remove1 po' (update_first (has_id oid) (\<lambda>_. po') (active_limit_orders s))\<rparr>"
    by (simp add: remove_limit_def update_limit_def split: if_splits)
  have "pipeline_inv rs' t" if inv: "pipeline_inv rs s"
    by (rule reply_removes [OF inv assms(1)])
       (erule assms(4), simp only: t remove_updated(1) [OF pipeline_distinct(1) [OF inv] assms(1,2)])
  then show ?thesis by (simp add: live_ok_def live_advances_def t)
qed

lemma live_ok_update:
  assumes "find (has_id oid) (active_limit_orders s) = Some po"
    and "\<And>k lane. k \<noteq> oid \<Longrightarrow> in_transit rs' q k lane = in_transit rs (request_processor s) k lane"
    and "order_in_step (in_transit rs (request_processor s) oid) po \<Longrightarrow> pending_order_id po = oid \<Longrightarrow>
      pending_order_id (f po) = oid \<and> order_in_step (in_transit rs' q oid) (f po)"
    and "stats_ok (pending_st (request_processor s)) \<Longrightarrow> stats_ok (pending_st q)"
    and "t = s\<lparr>active_limit_orders := update_first (has_id oid) f (active_limit_orders s), request_processor := q\<rparr>"
  shows "live_ok rs rs' s t"
proof -
  have "pipeline_inv rs' t" if "pipeline_inv rs s" using that assms(1-3,5) by (rule reply_updates)
  with assms(4) show ?thesis by (simp add: live_ok_def live_advances_def assms(5))
qed

text \<open>A constant update of the order found is a pointwise one.\<close>

lemma update_limit_found:
  assumes "distinct (map pending_order_id (active_limit_orders s))" and "find (has_id oid) (active_limit_orders s) = Some po"
  shows "update_limit oid (\<lambda>_. f po) s = update_limit oid f s"
  using update_found [OF assms] by (simp add: update_limit_def)

lemma live_ok_absent:
  assumes "find (has_id oid) (active_limit_orders s) = None" and "lane_of_reply r = Some (lane, oid)"
  shows "live_ok (r # rs) rs s s"
  using assms pipeline_reply_absent [of r rs s] by (simp add: live_ok_def find_has_id_None)

lemma live_ok_if_inv: "(pipeline_inv rs s \<Longrightarrow> live_ok rs rs' s s') \<Longrightarrow> live_advances s s' \<Longrightarrow> live_ok rs rs' s s'"
  by (simp add: live_ok_def)

lemma put_job_stats [simp]: "pending_st (put_job j q) = pending_st q"
  by (simp add: put_job_def)

lemma map_state_simps [simp]:
  "pending_order_id (map_state f po) = pending_order_id po" "po_broker_ref (map_state f po) = po_broker_ref po"
  "execution_state (map_state f po) = f (execution_state po)" "po_open (map_state f po) = po_open po"
  by (simp_all add: map_state_def)

lemma limit_submit_ok:
  assumes "handle_limit_submit_response oid r s = Inr s'"
  shows "live_ok (SubmitResponse oid act OT_LIMIT r # rs) rs s s'"
proof (cases "find (has_id oid) (active_limit_orders s)")
  case None
  with assms have "s' = s" by (simp add: handle_limit_submit_response_def)
  with None show ?thesis by (simp add: live_ok_absent lane_of_reply_def)
next
  case (Some po)
  let ?f = "\<lambda>p. p\<lparr>po_broker_ref := Some (resp_broker_ref r)\<rparr>"
  let ?rs = "SubmitResponse oid act OT_LIMIT r # rs"
  note h = assms [unfolded handle_limit_submit_response_def Some option.case Let_def]
  have lane: "in_transit rs q k l = in_transit ?rs q k l" if "k \<noteq> oid" for k l and q :: "'a processor"
    using that by (simp add: lane_of_reply_def)
  consider (rejected) t where "remove_limit po s = Inr t" "quiet t s'"
    | (filled) t where "remove_limit (?f po) (update_limit oid (\<lambda>_. ?f po) s) = Inr t" "quiet t s'"
    | (cancel) "s' = on_processor (submit_cancel_order_async oid (resp_broker_ref r))
        (update_limit oid (map_state (\<lambda>es. es\<lparr>cancel_requested := False, in_flight_operation := PENDING_CANCEL\<rparr>))
           (update_limit oid (\<lambda>_. ?f po) s))" "cancel_requested (execution_state po)"
    | (confirmed) "s' = update_limit oid (\<lambda>_. ?f po) s" "\<not> cancel_requested (execution_state po)"
    using h by (auto simp: record_async_rejection_def dest: quiet_fill split: if_splits)
  then show ?thesis
  proof cases
    case rejected
    from live_ok_remove [OF Some rejected(1) lane] live_ok_quiet [OF rejected(2)] show ?thesis by (rule live_ok_trans)
  next
    case filled
    from find_has_id [OF Some] have id: "pending_order_id (?f po) = oid" by simp
    from live_ok_remove_updated [OF Some id filled(1) lane] live_ok_quiet [OF filled(2)] show ?thesis by (rule live_ok_trans)
  next
    case cancel
    let ?g = "\<lambda>p. map_state (\<lambda>es. es\<lparr>cancel_requested := False, in_flight_operation := PENDING_CANCEL\<rparr>) (?f p)"
    show ?thesis
    proof (rule live_ok_if_inv)
      assume inv: "pipeline_inv ?rs s"
      have "s' = s\<lparr>active_limit_orders := update_first (has_id oid) ?g (active_limit_orders s),
          request_processor := put_job (CancelJob oid (resp_broker_ref r)) (request_processor s)\<rparr>"
        unfolding cancel(1) update_limit_found [OF pipeline_distinct(1) [OF inv] Some, of ?f]
        by (simp add: on_processor_def submit_cancel_order_async_def update_limit_def update_first_twice)
      then show "live_ok ?rs rs s s'"
        by (rule live_ok_update [OF Some, rotated -1]) (auto simp: lane_of_reply_def lane_of_job_def order_in_step_def no_limit_price_def of_bool_def split: if_splits)
    qed (simp add: cancel(1) live_advances_def on_processor_def update_limit_def submit_cancel_order_async_def)
  next
    case confirmed
    show ?thesis
    proof (rule live_ok_if_inv)
      assume inv: "pipeline_inv ?rs s"
      have "s' = s\<lparr>active_limit_orders := update_first (has_id oid) ?f (active_limit_orders s), request_processor := request_processor s\<rparr>"
        unfolding confirmed(1) update_limit_found [OF pipeline_distinct(1) [OF inv] Some, of ?f] by (simp add: update_limit_def)
      then show "live_ok ?rs rs s s'"
        by (rule live_ok_update [OF Some, rotated -1])
           (use confirmed(2) in \<open>auto simp: lane_of_reply_def lane_of_job_def order_in_step_def no_limit_price_def of_bool_def split: if_splits\<close>)
    qed (simp add: confirmed(1) live_advances_def update_limit_def)
  qed
qed

text \<open>With no stop orders resting, the handlers of both lists look at the limit orders only.\<close>

lemma find_active_limits: "active_stop_orders s = [] \<Longrightarrow> find_active_order oid s = find (has_id oid) (active_limit_orders s)"
  by (simp add: find_active_order_def split: option.split)

lemma update_active_limits: "find (has_id oid) (active_limit_orders s) = Some po \<Longrightarrow> update_active oid f s = update_limit oid f s"
  by (simp add: update_active_def)

lemma quiet_keeps: "quiet s t \<Longrightarrow> active_limit_orders t = active_limit_orders s" "quiet s t \<Longrightarrow> active_stop_orders t = active_stop_orders s"
  by (simp_all add: quiet_def)

lemma update_first_const:
  "pending_order_id po' = oid \<Longrightarrow>
   update_first (has_id oid) g (update_first (has_id oid) (\<lambda>_. po') pos) = update_first (has_id oid) (\<lambda>_. g po') pos"
  by (induction pos) (auto simp: has_id_def)

lemma find_update_first:
  "find (has_id oid) pos = Some po \<Longrightarrow> pending_order_id po' = oid \<Longrightarrow>
   find (has_id oid) (update_first (has_id oid) (\<lambda>_. po') pos) = Some po'"
  by (induction pos) (auto simp: has_id_def split: if_splits)

lemma live_advances_update [simp]:
  "live_advances s (update_limit oid f s)" "live_advances s (update_active oid f s)"
  "live_advances s (s\<lparr>active_limit_orders := l\<rparr>)" "live_advances s (s\<lparr>active_stop_orders := l\<rparr>)"
  by (simp_all add: live_advances_def update_active_def update_limit_def)

lemma live_ok_update_limit:
  assumes "find (has_id oid) (active_limit_orders s) = Some po"
    and "\<And>k lane. k \<noteq> oid \<Longrightarrow> in_transit rs' (request_processor s) k lane = in_transit rs (request_processor s) k lane"
    and "order_in_step (in_transit rs (request_processor s) oid) po \<Longrightarrow> pending_order_id po = oid \<Longrightarrow>
      pending_order_id (f po) = oid \<and> order_in_step (in_transit rs' (request_processor s) oid) (f po)"
  shows "live_ok rs rs' s (update_limit oid f s)"
proof (rule live_ok_update [OF assms(1), where q = "request_processor s" and f = f])
  fix k lane assume "k \<noteq> oid"
  then show "in_transit rs' (request_processor s) k lane = in_transit rs (request_processor s) k lane" by (rule assms(2))
qed (use assms(3) in \<open>simp_all add: update_limit_def\<close>)

lemma rejected_keeps_limits [simp]: "active_limit_orders (record_rejected d r po s) = active_limit_orders s"
  using quiet_keeps(1) [OF quiet_rejected [of s d r po]] .

lemma apply_live_modification_simps [simp]:
  "pending_order_id (apply_live_modification m po) = pending_order_id po"
  "po_broker_ref (apply_live_modification m po) = po_broker_ref po"
  "execution_state (apply_live_modification m po) = execution_state po"
  by (simp_all add: apply_live_modification_def)

lemma modify_response_advances: "live_advances s (handle_modify_response oid r s)"
proof -
  have "live_advances s (update_active oid f t)" if "quiet s t" for f t
    using quiet_advances [OF that] by (rule live_advances_trans) simp
  moreover have "live_advances s (update_active oid g (update_active oid f t))" if "quiet s t" for f g t
    using quiet_advances [OF that] by (rule live_advances_trans) (rule live_advances_trans [OF live_advances_update(2) live_advances_update(2)])
  moreover have "quiet s (on_processor (\<lambda>q. snd (update_broker_ref a b q)) s)" for a b by (intro quiet_processor) simp
  ultimately show ?thesis
    by (simp add: handle_modify_response_def Let_def split: option.split)
qed

lemma modify_response_ok: "live_ok (EditResponse oid r # rs) rs s (handle_modify_response oid r s)"
proof (rule live_ok_if_inv)
  let ?rs = "EditResponse oid r # rs"
  assume inv: "pipeline_inv ?rs s"
  note d = pipeline_distinct [OF inv]
  note active = find_active_limits [OF d(2)]
  show "live_ok ?rs rs s (handle_modify_response oid r s)"
  proof (cases "find (has_id oid) (active_limit_orders s)")
    case None
    then show ?thesis by (simp add: handle_modify_response_def active live_ok_absent lane_of_reply_def)
  next
    case (Some po)
    have lane: "in_transit rs q k l = in_transit ?rs q k l" if "k \<noteq> oid" for k l and q :: "'a processor"
      using that by (simp add: lane_of_reply_def)
    txt \<open>After a quiet change, one update of the order found that clears the operation flag.\<close>
    have resolved: "live_ok ?rs rs s (update_limit oid f t)"
      if "quiet s t" "pending_order_id (f po) = oid" "po_broker_ref (f po) = po_broker_ref po \<or> po_broker_ref (f po) \<noteq> None"
        "execution_state (f po) = (execution_state po)\<lparr>in_flight_operation := OP_NONE, pending_modification := None\<rparr>"
        "no_limit_price po \<Longrightarrow> no_limit_price (f po)" for t f
    proof -
      have "live_ok ?rs ?rs s t" using that(1) by (rule live_ok_quiet)
      moreover have "live_ok ?rs rs t (update_limit oid f t)"
        using Some quiet_keeps [OF that(1)] that(2-5)
        by (intro live_ok_update_limit [where po = po])
           (auto simp: lane_of_reply_def order_in_step_def of_bool_def split: if_splits)
      ultimately show ?thesis by (rule live_ok_trans)
    qed
    show ?thesis
    proof (cases "resp_is_rejected r")
      case True
      let ?t = "record_rejected (order_direction_of po) (create_rejection_result oid BROKER_ERROR) (Some po) s"
      have "find (has_id oid) (active_limit_orders ?t) = Some po" using Some by simp
      then have "handle_modify_response oid r s = update_limit oid clear_operation ?t"
        using True Some by (simp add: handle_modify_response_def active update_active_limits)
      moreover have "live_ok ?rs rs s (update_limit oid clear_operation ?t)"
        using find_has_id [OF Some] by (intro resolved) (simp_all add: clear_operation_def no_limit_price_def)
      ultimately show ?thesis by simp
    next
      case False
      define po1 where "po1 = (case pending_modification (execution_state po) of None \<Rightarrow> po | Some m \<Rightarrow> apply_live_modification m po)"
      define swap where "swap = (resp_broker_ref r \<noteq> [] \<and> Some (resp_broker_ref r) \<noteq> po_broker_ref po1)"
      define s0 where "s0 = (if swap then on_processor (\<lambda>q. snd (update_broker_ref (po_broker_ref po1) (resp_broker_ref r) q)) s else s)"
      define po2 where "po2 = (if swap then po1\<lparr>po_broker_ref := Some (resp_broker_ref r)\<rparr> else po1)"
      have s0: "quiet s s0" by (auto simp: s0_def intro!: quiet_processor)
      have po2: "pending_order_id po2 = oid" "execution_state po2 = execution_state po"
        "po_broker_ref po2 = po_broker_ref po \<or> po_broker_ref po2 \<noteq> None"
        using find_has_id [OF Some] by (auto simp: po2_def po1_def split: option.split)
      have plain: "no_limit_price (clear_operation po2)" if "no_limit_price po"
        using that by (auto simp: po2_def po1_def no_limit_price_def clear_operation_def apply_live_modification_def keep_unless_def
            split: option.split)
      have f0: "find (has_id oid) (active_limit_orders s0) = Some po" using Some quiet_keeps(1) [OF s0] by simp
      have "handle_modify_response oid r s = update_active oid clear_operation (update_active oid (\<lambda>_. po2) s0)"
        using False Some
        by (simp add: handle_modify_response_def active Let_def po1_def [symmetric] swap_def [symmetric] s0_def [symmetric] po2_def [symmetric])
      also have "\<dots> = update_limit oid (\<lambda>_. clear_operation po2) s0"
        using f0 find_update_first [OF f0 po2(1)]
        by (simp add: update_active_limits update_limit_def update_first_const [OF po2(1)])
      finally show ?thesis
        using po2 by (simp only:) (intro resolved [OF s0] plain, simp_all add: clear_operation_def)
    qed
  qed
qed (rule modify_response_advances)

lemma quiet_emit: "emit_order_cancelled po s = Inr s' \<Longrightarrow> quiet s s'"
  by (auto simp: emit_order_cancelled_def emit_decision_event_def quiet_def)

lemma cancel_response_advances: "handle_cancel_response oid r s = Inr s' \<Longrightarrow> live_advances s s'"
  by (auto simp: handle_cancel_response_def Let_def split: option.splits if_splits
      dest!: quiet_emit [THEN quiet_advances] intro: live_advances_trans [OF live_advances_update(3)]
      live_advances_trans [OF live_advances_update(4)])

lemma cancel_response_ok:
  assumes "handle_cancel_response oid r s = Inr s'"
  shows "live_ok (CancelResponse oid r # rs) rs s s'"
proof (rule live_ok_if_inv)
  let ?rs = "CancelResponse oid r # rs"
  assume inv: "pipeline_inv ?rs s"
  note active = find_active_limits [OF pipeline_distinct(2) [OF inv]]
  show "live_ok ?rs rs s s'"
  proof (cases "find (has_id oid) (active_limit_orders s)")
    case None
    with assms have "s' = s" by (simp add: handle_cancel_response_def active)
    with None show ?thesis by (simp add: live_ok_absent lane_of_reply_def)
  next
    case (Some po)
    note h = assms [unfolded handle_cancel_response_def active Some option.case]
    show ?thesis
    proof (cases "resp_is_rejected r")
      case True
      with h have "s' = update_limit oid (map_state (\<lambda>es. es\<lparr>in_flight_operation := OP_NONE\<rparr>)) s"
        by (simp add: update_active_limits [OF Some])
      then show ?thesis
        using Some by (simp only:) (rule live_ok_update_limit, auto simp: lane_of_reply_def order_in_step_def no_limit_price_def of_bool_def split: if_splits)
    next
      case False
      have "remove_limit po s = Inr (s\<lparr>active_limit_orders := remove1 po (active_limit_orders s)\<rparr>)"
        using find_has_id [OF Some] by (simp add: remove_limit_def)
      note rm = live_ok_remove [OF Some this, of rs ?rs]
      have "live_ok ?rs rs s (s\<lparr>active_limit_orders := remove1 po (active_limit_orders s)\<rparr>)"
        by (rule rm) (simp add: lane_of_reply_def)
      moreover have "quiet (s\<lparr>active_limit_orders := remove1 po (active_limit_orders s)\<rparr>) s'"
        using h False find_has_id [OF Some] by (auto simp: Let_def intro: quiet_emit)
      ultimately show ?thesis by (blast intro: live_ok_trans live_ok_quiet)
    qed
  qed
qed (rule cancel_response_advances [OF assms])

lemma position_modify_quiet: "quiet s (handle_position_modify_response pid r s)"
proof -
  have "pf_run pf (snd (pf_modify_position pid sl tp pf))" for sl tp pf
    by (cases "pf_modify_position pid sl tp pf") (auto intro: pf_step.intros)
  then show ?thesis by (simp add: handle_position_modify_response_def quiet_def Let_def split: option.split)
qed

text \<open>An answer to a status or trades query works on the order found: it is changed in place, or filled or
  rejected and dropped.\<close>

lemma remove_limit_advances: "remove_limit po s = Inr t \<Longrightarrow> live_advances s t"
  by (auto simp: remove_limit_def split: if_splits)

lemma fan_out_quiet [simp]: "quiet s (s\<lparr>trades_log := l\<rparr>)"
  by (simp add: quiet_def)

lemma trades_response_cases:
  assumes "handle_trades_response oid ref trades success err s = Inr s'"
  obtains (skipped) "quiet s s'"
    | (booked) po po' where "find_active_order oid s = Some po" "po' = po\<lparr>fills := foldl append_trade (fills po) trades\<rparr>"
        "quiet (update_active oid (\<lambda>_. po') s) s'"
    | (filled) po po' t where "find_active_order oid s = Some po" "po' = po\<lparr>fills := foldl append_trade (fills po) trades\<rparr>"
        "remove_limit po' (update_active oid (\<lambda>_. po') s) = Inr t" "quiet t s'"
proof -
  have "quiet t (u\<lparr>trades_log := l\<rparr>)" if "quiet t u" for t u :: "'a live_executor" and l
    using that fan_out_quiet by (rule quiet_trans)
  with assms skipped show thesis
    by (auto simp: handle_trades_response_def Let_def split: if_splits option.splits dest!: quiet_fill
        intro: booked [OF _ refl] filled [OF _ refl])
qed

lemma query_response_cases:
  assumes "handle_query_response oid r s = Inr s'"
  obtains (absent) "find_active_order oid s = None" "s' = s"
    | (open_still) po po' where "find_active_order oid s = Some po" "po' = map_state (\<lambda>es. es\<lparr>in_flight_query := False\<rparr>) po"
        "s' = update_active oid (\<lambda>_. po') s"
    | (gone) po po' t where "find_active_order oid s = Some po" "po' = map_state (\<lambda>es. es\<lparr>in_flight_query := False\<rparr>) po"
        "remove_limit po' (update_active oid (\<lambda>_. po') s) = Inr t" "quiet t s'"
  using assms
  by (auto simp: handle_query_response_def Let_def split: if_splits option.splits dest!: quiet_fill
      intro: open_still [OF _ refl] gone [OF _ refl])

lemma trades_response_ok:
  assumes "handle_trades_response oid ref trades success err s = Inr s'"
  shows "live_ok (TradesQueryResponse oid ref trades success err # rs) rs s s'"
proof -
  let ?r = "TradesQueryResponse oid ref trades success err"
  have none: "live_ok (?r # rs) rs s s" by (rule live_ok_reply_None) (simp add: lane_of_reply_def)
  have "live_ok rs rs s s'"
  proof (rule live_ok_if_inv)
    show "live_advances s s'"
      using assms by (rule trades_response_cases)
        (blast intro: quiet_advances live_advances_update live_advances_trans remove_limit_advances)+
    assume inv: "pipeline_inv rs s"
    note active = find_active_limits [OF pipeline_distinct(2) [OF inv]]
    from assms show "live_ok rs rs s s'"
    proof (cases rule: trades_response_cases)
      case skipped
      then show ?thesis by (rule live_ok_quiet)
    next
      case (booked po po')
      then have po: "find (has_id oid) (active_limit_orders s) = Some po" by (simp add: active)
      have "live_ok rs rs s (update_limit oid (\<lambda>_. po') s)"
        using booked(2) by (intro live_ok_update_limit [OF po]) (simp_all add: order_in_step_def no_limit_price_def)
      with live_ok_quiet [OF booked(3)] show ?thesis by (simp add: update_active_limits [OF po]) (blast intro: live_ok_trans)
    next
      case (filled po po' t)
      then have po: "find (has_id oid) (active_limit_orders s) = Some po" by (simp add: active)
      have "live_ok rs rs s t"
        using filled(2,3) find_has_id [OF po] by (intro live_ok_remove_updated [OF po]) (simp_all add: update_active_limits [OF po])
      then show ?thesis using live_ok_quiet [OF filled(4)] by (rule live_ok_trans)
    qed
  qed
  with none show ?thesis by (rule live_ok_trans)
qed

lemma query_response_ok:
  assumes "handle_query_response oid r s = Inr s'"
  shows "live_ok (QueryResponse oid r # rs) rs s s'"
proof (rule live_ok_if_inv)
  let ?rs = "QueryResponse oid r # rs"
  show "live_advances s s'"
    using assms by (rule query_response_cases)
      (blast intro: quiet_advances live_advances_refl live_advances_update live_advances_trans remove_limit_advances)+
  assume inv: "pipeline_inv ?rs s"
  note active = find_active_limits [OF pipeline_distinct(2) [OF inv]]
  have lane: "in_transit rs q k l = in_transit ?rs q k l" if "k \<noteq> oid" for k l and q :: "'a processor"
    using that by (simp add: lane_of_reply_def)
  from assms show "live_ok ?rs rs s s'"
  proof (cases rule: query_response_cases)
    case absent
    then show ?thesis by (simp add: active live_ok_absent lane_of_reply_def)
  next
    case (open_still po po')
    then have po: "find (has_id oid) (active_limit_orders s) = Some po" by (simp add: active)
    have "live_ok ?rs rs s (update_limit oid (\<lambda>_. po') s)"
      by (rule live_ok_update_limit [OF po])
         (auto simp: open_still(2) lane_of_reply_def order_in_step_def no_limit_price_def of_bool_def split: if_splits)
    with open_still(3) show ?thesis by (simp add: update_active_limits [OF po])
  next
    case (gone po po' t)
    then have po: "find (has_id oid) (active_limit_orders s) = Some po" by (simp add: active)
    have "live_ok ?rs rs s t"
      by (rule live_ok_remove_updated [OF po])
         (use gone(2,3) find_has_id [OF po] lane in \<open>simp_all add: update_active_limits [OF po]\<close>)
    then show ?thesis using live_ok_quiet [OF gone(4)] by (rule live_ok_trans)
  qed
qed

text \<open>Whatever a response says, handling it settles exactly its own entry of the traffic.\<close>

lemma handle_response_ok:
  assumes "handle_response r s = Inr s'"
  shows "live_ok (r # rs) rs s s'"
proof (cases r)
  case (SubmitResponse oid act ot br)
  then have h: "handle_submit_response oid act ot br s = Inr s'" using assms by (simp add: handle_response_def)
  show ?thesis
  proof (cases "ot = OT_LIMIT")
    case True
    with h SubmitResponse show ?thesis by (auto simp: handle_submit_response_def intro: limit_submit_ok)
  next
    case False
    then have "live_ok (r # rs) rs s s" by (intro live_ok_reply_None) (simp add: SubmitResponse lane_of_reply_def)
    with quiet_market_response [OF h False] show ?thesis by (blast intro: live_ok_trans live_ok_quiet)
  qed
next
  case (PositionModifyResponse pid br)
  have "live_ok (r # rs) rs s s" by (rule live_ok_reply_None) (simp add: PositionModifyResponse lane_of_reply_def)
  with PositionModifyResponse assms position_modify_quiet [of s pid br] show ?thesis
    by (auto simp: handle_response_def intro: live_ok_trans live_ok_quiet)
qed (use assms modify_response_ok cancel_response_ok trades_response_ok query_response_ok in
    \<open>auto simp: handle_response_def\<close>)

lemma handle_responses_ok: "fold_res handle_response rs s = Inr s' \<Longrightarrow> live_ok rs [] s s'"
proof (induction rs arbitrary: s)
  case Nil
  then show ?case by (simp add: live_ok_def)
next
  case (Cons r rs)
  then obtain t where "handle_response r s = Inr t" "fold_res handle_response rs t = Inr s'" by auto
  then show ?case using handle_response_ok Cons.IH by (blast intro: live_ok_trans)
qed

lemma drain_inbox_ok: "drain_inbox s = Inr s' \<Longrightarrow> live_ok [] [] s s'"
proof -
  assume h: "drain_inbox s = Inr s'"
  let ?q = "request_processor s" and ?t = "on_processor (\<lambda>q. q\<lparr>http_inbox := []\<rparr>) s"
  have "in_transit (http_inbox ?q) (request_processor ?t) = in_transit [] ?q"
    by (simp add: fun_eq_iff on_processor_def in_transit_drain)
  then have "live_ok [] (http_inbox ?q) s ?t"
    by (simp add: live_ok_def live_advances_def pipeline_inv_def) (simp add: on_processor_def)
  then show ?thesis using h unfolding drain_inbox_def by (blast intro: live_ok_trans handle_responses_ok)
qed

section \<open>Polling\<close>

lemma in_transit_queries:
  "in_transit rs (fold (\<lambda>po. submit_query_order_async (pending_order_id po) (f po)) pos q) oid lane =
   in_transit rs q oid lane + (if lane = LANE_QUERY then count_list (map pending_order_id pos) oid else 0)"
  by (induction pos arbitrary: q) (simp_all add: submit_query_order_async_def lane_of_job_def)

lemma fold_queries_stats [simp]:
  "pending_st (fold (\<lambda>po. submit_query_order_async (pending_order_id po) (f po)) pos q) = pending_st q"
  by (induction pos arbitrary: q) (simp_all add: submit_query_order_async_def)

lemma mark_polled_simps [simp]:
  "pending_order_id (mark_polled now i po) = pending_order_id po" "po_broker_ref (mark_polled now i po) = po_broker_ref po"
  by (simp_all add: mark_polled_def)

lemma count_due:
  assumes "distinct (map pending_order_id pos)" and "po \<in> set pos"
  shows "count_list (map pending_order_id (filter P pos)) (pending_order_id po) = of_bool (P po)"
proof -
  have count: "count_list xs x = of_bool (x \<in> set xs)" if "distinct xs" for xs and x :: string
    using that by (induction xs) auto
  have "count_list (map pending_order_id (filter P pos)) (pending_order_id po) =
      of_bool (pending_order_id po \<in> pending_order_id ` set (filter P pos))"
    using distinct_map_filter [OF assms(1), of P] by (simp add: count)
  also have "pending_order_id po \<in> pending_order_id ` set (filter P pos) \<longleftrightarrow> P po"
    using assms by (auto dest: same_id_order [OF assms(1)])
  finally show ?thesis .
qed

lemma process_active_ok: "live_ok [] [] s (process_active_orders s)"
proof -
  let ?P = "poll_due (wall_now s) (poll_interval_ms s)"
  let ?s' = "process_active_orders s"
  have lim: "active_limit_orders ?s' = map (mark_polled (wall_now s) (poll_interval_ms s)) (active_limit_orders s)"
    and keep: "active_stop_orders ?s' = active_stop_orders s" "ex_portfolio ?s' = ex_portfolio s"
      "pending_st (request_processor ?s') = pending_st (request_processor s)"
    by (simp_all add: process_active_orders_def on_processor_def Let_def)
  have tr: "in_transit [] (request_processor ?s') oid lane = in_transit [] (request_processor s) oid lane +
      (if lane = LANE_QUERY then count_list (map pending_order_id (filter ?P (active_limit_orders s))) oid else 0)" for oid lane
    by (simp add: process_active_orders_def on_processor_def in_transit_queries Let_def)
  have "pipeline_inv [] ?s'" if inv: "pipeline_inv [] s"
    unfolding pipeline_inv_def keep lim
  proof (intro conjI ballI allI impI)
    fix p assume "p \<in> set (map (mark_polled (wall_now s) (poll_interval_ms s)) (active_limit_orders s))"
    then obtain po where po: "po \<in> set (active_limit_orders s)" "p = mark_polled (wall_now s) (poll_interval_ms s) po" by auto
    with inv have "order_in_step (in_transit [] (request_processor s) (pending_order_id po)) po"
      "issued (ex_portfolio s) (pending_order_id po)" by (auto simp: pipeline_inv_def)
    then show "order_in_step (in_transit [] (request_processor ?s') (pending_order_id p)) p"
      "issued (ex_portfolio s) (pending_order_id p)"
      using po count_due [OF pipeline_distinct(1) [OF inv] po(1), of ?P]
      by (auto simp: order_in_step_def no_limit_price_def tr mark_polled_def poll_due_def)
  next
    fix oid lane assume pos: "0 < in_transit [] (request_processor ?s') oid lane"
    have "count_list (map pending_order_id (filter ?P (active_limit_orders s))) oid = 0"
      if "oid \<notin> pending_order_id ` set (active_limit_orders s)" using that by (intro count_notin) auto
    with pos have "0 < in_transit [] (request_processor s) oid lane \<or> oid \<in> pending_order_id ` set (active_limit_orders s)"
      by (cases "oid \<in> pending_order_id ` set (active_limit_orders s)") (auto simp: tr split: if_splits)
    with inv show "issued (ex_portfolio s) oid" by (auto simp: pipeline_inv_def)
  qed (use pipeline_distinct [OF inv] in \<open>simp_all add: comp_def\<close>)
  then show ?thesis by (simp add: live_ok_def live_advances_def keep)
qed

section \<open>Ticks and heartbeats\<close>

lemma quiet_begin_tick: "quiet s (begin_tick t s)"
proof -
  have "pf_run (ex_portfolio s) (mark_dirty t ((ex_portfolio s)\<lparr>pf_clock := Some (tick_timestamp t)\<rparr>))"
    by (rule rtranclp.rtrancl_into_rtrancl, rule r_into_rtranclp, rule pf_step.pf_clock, rule pf_step.pf_tick)
  then show ?thesis by (simp add: quiet_def begin_tick_def set_clock_def Let_def)
qed

lemma quiet_triggers: "check_sl_tp_triggers t s = Inr s' \<Longrightarrow> quiet s s'"
  by (auto simp: quiet_def live_same_more(1) [where s = s and s' = s'] dest: check_triggers_run)

lemma live_pending_ok:
  assumes "live_process_pending_orders ad s = Inr s'"
  shows "live_ok [] [] s s'"
proof -
  from assms obtain s1 s2 where s1: "drain_inbox s = Inr s1" and s': "s' = process_active_orders s2"
    and s2: "s2 = s1 \<or> (\<exists>u. fold_res (poll_pending ad) (get_pending_orders None (request_processor s1)) s1 = Inr u \<and> s2 = handle_timeouts u)"
    by (auto simp: live_process_pending_orders_def split: if_splits)
  have "quiet s1 s2" using s2
  proof (elim disjE exE conjE)
    fix u assume "fold_res (poll_pending ad) (get_pending_orders None (request_processor s1)) s1 = Inr u"
    then have "quiet s1 u" by (rule quiet_fold_res) (rule quiet_poll)
    moreover assume "s2 = handle_timeouts u"
    ultimately show ?thesis by (auto intro: quiet_trans)
  qed simp
  with drain_inbox_ok [OF s1] process_active_ok [of s2] show ?thesis unfolding s' by (blast intro: live_ok_trans live_ok_quiet)
qed

lemma live_tick_ok: "live_on_tick ad t s = Inr s' \<Longrightarrow> live_ok [] [] s s'"
  unfolding live_on_tick_def on_tick_def
  by (auto intro: live_ok_trans [OF live_ok_quiet [OF quiet_begin_tick]]
      live_ok_trans [OF live_pending_ok live_ok_quiet [OF quiet_triggers]])

lemma live_heartbeat_ok: "live_heartbeat s = Inr s' \<Longrightarrow> live_ok [] [] s s'"
  by (auto simp: live_heartbeat_def
      intro: live_ok_trans [OF drain_inbox_ok] live_ok_trans [OF live_ok_quiet [OF quiet_timeouts] process_active_ok])

lemma worker_ok: "live_ok [] [] s (on_processor (worker_loop ad now) s)"
proof -
  have "in_transit [] (request_processor (on_processor (worker_loop ad now) s)) = in_transit [] (request_processor s)"
    by (simp add: fun_eq_iff on_processor_def)
  moreover have "pending_st (worker_loop ad now q) = pending_st q" for q by (simp add: worker_loop_def split: list.split)
  ultimately show ?thesis
    by (simp add: live_ok_def live_advances_def pipeline_inv_def) (simp add: on_processor_def)
qed

section \<open>Calls of the decision logic\<close>

text \<open>A job outside the lanes changes nothing a resting order depends on.\<close>

lemma live_ok_job:
  assumes "lane_of_job j = None" and "quiet s t"
  shows "live_ok [] [] s (t\<lparr>request_processor := put_job j (request_processor t)\<rparr>)"
proof -
  let ?u = "t\<lparr>request_processor := put_job j (request_processor t)\<rparr>"
  have "in_transit [] (request_processor ?u) = in_transit [] (request_processor t)" using assms(1) by (simp add: fun_eq_iff)
  then have "live_ok [] [] t ?u" by (simp add: live_ok_def live_advances_def pipeline_inv_def)
  with live_ok_quiet [OF assms(2)] show ?thesis by (rule live_ok_trans)
qed

lemma quiet_history: "quiet s (append_order_history r s)" "quiet s (s\<lparr>orders_sent := n\<rparr>)" "quiet s (s\<lparr>orders_rejected := n\<rparr>)"
  "quiet s (s\<lparr>order_counter := n\<rparr>)" "quiet s (check_order_history_limit s)"
  by (simp_all add: quiet_def append_order_history_def check_order_history_limit_def)

lemma open_market_ok:
  assumes "live_open_market ad oid rq s = Inr s'"
  shows "live_ok [] [] s s'"
proof -
  define t where "t = on_processor (register_pending_open (wall_now s) oid (rq_symbol rq) (rq_direction rq) (rq_lots rq) None
                              (live_kwargs rq) (current_submission s)) s"
  have "quiet s t" unfolding t_def by (intro quiet_processor) simp
  moreover from assms obtain p where "s' = t\<lparr>request_processor := put_job (SubmitJob oid PA_OPEN OT_MARKET p) (request_processor t)\<rparr>"
    by (auto simp: live_open_market_def t_def submit_open_order_async_def Let_def)
  ultimately show ?thesis by (simp add: live_ok_job lane_of_job_def)
qed

lemma open_limit_ok:
  assumes "live_open_limit ad oid rq s = Inr s'" and new: "\<not> issued pf oid" and now: "issued (ex_portfolio s) oid"
    and run: "pf_run pf (ex_portfolio s)" and inv: "pipeline_inv [] (s\<lparr>ex_portfolio := pf\<rparr>)"
  shows "pipeline_inv [] s'"
proof -
  from assms(1) obtain time p where
    s': "s' = s\<lparr>active_limit_orders := active_limit_orders s @ [live_limit_order oid rq time s],
          request_processor := put_job (SubmitJob oid PA_OPEN OT_LIMIT p) (request_processor s)\<rparr>"
    by (auto simp: live_open_limit_def submit_open_order_async_def Let_def)
  have idle: "in_transit [] (request_processor s) oid lane = 0" for lane
    using inv new by (force simp: pipeline_inv_def)
  have fresh: "oid \<noteq> pending_order_id po" if "po \<in> set (active_limit_orders s)" for po
    using inv new that by (auto simp: pipeline_inv_def)
  have old: "issued (ex_portfolio s) k" if "issued pf k" for k using that run by (rule issued_run)
  have limits: "active_limit_orders s' = active_limit_orders s @ [live_limit_order oid rq time s]"
    and rest: "active_stop_orders s' = active_stop_orders s" "ex_portfolio s' = ex_portfolio s" by (simp_all add: s')
  have id: "pending_order_id (live_limit_order oid rq time s) = oid" by (simp add: live_limit_order_def)
  have own: "order_in_step (in_transit [] (request_processor s') oid) (live_limit_order oid rq time s)"
    by (simp add: s' order_in_step_def idle lane_of_job_def live_limit_order_def steady_state_def no_limit_price_def live_kwargs_def no_kwargs_def)
  have other: "in_transit [] (request_processor s') k = in_transit [] (request_processor s) k" if "k \<noteq> oid" for k
    using that by (simp add: s' lane_of_job_def fun_eq_iff)
  show ?thesis
    unfolding pipeline_inv_def limits rest
  proof (intro conjI ballI allI impI)
    fix po assume po: "po \<in> set (active_limit_orders s @ [live_limit_order oid rq time s])"
    then have "order_in_step (in_transit [] (request_processor s') (pending_order_id po)) po \<and>
        issued (ex_portfolio s) (pending_order_id po)"
    proof (cases "po \<in> set (active_limit_orders s)")
      case True
      have "in_transit [] (request_processor s') (pending_order_id po) = in_transit [] (request_processor s) (pending_order_id po)"
        by (rule other) (use fresh [OF True] in simp)
      with inv True show ?thesis by (auto simp: pipeline_inv_def intro: old)
    qed (use po id own now in simp)
    then show "order_in_step (in_transit [] (request_processor s') (pending_order_id po)) po"
      "issued (ex_portfolio s) (pending_order_id po)" by simp_all
  next
    fix k lane assume k: "0 < in_transit [] (request_processor s') k lane"
    show "issued (ex_portfolio s) k"
    proof (cases "k = oid")
      case False
      with k have "0 < in_transit [] (request_processor s) k lane" by (simp add: other)
      with inv have "issued pf k" by (auto simp: pipeline_inv_def)
      then show ?thesis by (rule old)
    qed (use now in simp)
  qed (use pipeline_distinct [OF inv] fresh id in auto)
qed

lemma open_limit_advances: "live_open_limit ad oid rq s = Inr s' \<Longrightarrow> live_advances s s'"
  by (auto simp: live_open_limit_def submit_open_order_async_def Let_def live_advances_def)

lemma quiet_reject_open: "live_reject_open oid reason s = (r, s') \<Longrightarrow> quiet s s'"
  by (auto simp: live_reject_open_def Let_def intro: quiet_trans quiet_history)

lemma live_open_order_ok:
  assumes "live_open_order ad rq0 s = Inr (r, s')"
  shows "live_ok [] [] s s'"
proof -
  from assms obtain rq where h: "normalize_order_request rq0 s = Inr rq"
    by (auto simp: live_open_order_def)
  let ?id = "get_next_position_id (rq_symbol rq) (ex_portfolio s)"
  define t where "t = s\<lparr>orders_sent := orders_sent s + 1, order_counter := order_counter s + 1, ex_portfolio := snd ?id\<rparr>"
  have run: "pf_run (ex_portfolio s) (ex_portfolio t)" by (auto simp: t_def intro: pf_step.intros)
  have quiet: "quiet s t" using run by (simp add: quiet_def t_def)
  consider "quiet t s'" | u where "live_open_market ad (fst ?id) rq t = Inr u" "quiet u s'"
    | u where "live_open_limit ad (fst ?id) rq t = Inr u" "quiet u s'"
    using assms h
    by (auto simp: live_open_order_def t_def [symmetric] case_prod_beta Let_def split: if_splits
        dest: quiet_reject_open intro: quiet_history)
  then show ?thesis
  proof cases
    case 1
    with quiet show ?thesis by (blast intro: live_ok_quiet quiet_trans)
  next
    case 2
    with quiet open_market_ok [OF 2(1)] show ?thesis by (blast intro: live_ok_trans live_ok_quiet)
  next
    case 3
    have "pipeline_inv [] u" if inv: "pipeline_inv [] s"
    proof (rule open_limit_ok [OF 3(1) next_id_not_issued _ run])
      show "issued (ex_portfolio t) (fst ?id)" using next_id_issued by (simp add: t_def)
      show "pipeline_inv [] (t\<lparr>ex_portfolio := ex_portfolio s\<rparr>)" using inv by (simp add: t_def pipeline_inv_def)
    qed
    moreover have "live_advances s u"
      using quiet_advances [OF quiet] open_limit_advances [OF 3(1)] by (rule live_advances_trans)
    ultimately have "live_ok [] [] s u" by (simp add: live_ok_def)
    then show ?thesis using live_ok_quiet [OF 3(2)] by (rule live_ok_trans)
  qed
qed

lemma live_close_position_ok:
  assumes "live_close_position ad pid l s = Inr (r, s')"
  shows "live_ok [] [] s s'"
proof (cases "get_position (ex_portfolio s) pid")
  case None
  with assms have "s' = s" by (simp add: live_close_position_def)
  then show ?thesis by (simp add: live_ok_quiet)
next
  case (Some p)
  define cl where "cl = (case l of Some x \<Rightarrow> if x \<noteq> 0 then x else pos_lots p | None \<Rightarrow> pos_lots p)"
  define t where "t = on_processor (register_pending_close (wall_now s) pid None (Some cl) (current_submission s)) s"
  have "quiet s t" unfolding t_def by (intro quiet_processor) simp
  moreover from assms Some obtain x where
    "s' = t\<lparr>request_processor := put_job (SubmitJob pid PA_CLOSE OT_MARKET x) (request_processor t)\<rparr>"
    by (auto simp: live_close_position_def cl_def [symmetric] t_def [symmetric] submit_close_order_async_def Let_def)
  ultimately show ?thesis by (simp add: live_ok_job lane_of_job_def)
qed

lemma live_modify_position_ok:
  assumes "live_modify_position pid nsl ntp s = Inr (r, s')"
  shows "live_ok [] [] s s'"
proof -
  have "pf_run pf (snd (pf_modify_position pid nsl ntp pf))" for pf
    by (cases "pf_modify_position pid nsl ntp pf") (auto intro: pf_step.intros)
  then have "quiet s (s\<lparr>ex_portfolio := snd (pf_modify_position pid nsl ntp (ex_portfolio s))\<rparr>)" by (simp add: quiet_def)
  moreover have "live_ok [] [] s (on_processor (submit_modify_position_async pid smb sl tp) (s\<lparr>live_position_modifications := m\<rparr>))"
    for smb sl tp m
    unfolding on_processor_def submit_modify_position_async_def
    by (rule live_ok_job) (simp_all add: lane_of_job_def quiet_def)
  ultimately show ?thesis
    using assms by (auto simp: live_modify_position_def Let_def case_prod_beta intro: live_ok_quiet split: if_splits option.splits)
qed

text \<open>An operation starts on an idle, confirmed order: the flag is raised and the job issued together.\<close>

lemma operation_starts:
  assumes po: "find (has_id oid) (active_limit_orders s) = Some po"
    and idle: "po_broker_ref po \<noteq> None" "in_flight_operation (execution_state po) = OP_NONE"
    and f: "pending_order_id (f po) = pending_order_id po" "po_broker_ref (f po) = po_broker_ref po"
      "in_flight_operation (execution_state (f po)) \<noteq> OP_NONE" "in_flight_query (execution_state (f po)) = in_flight_query (execution_state po)"
      "cancel_requested (execution_state (f po)) = cancel_requested (execution_state po)"
      "no_limit_price po \<Longrightarrow> no_limit_price (f po)"
    and job: "lane_of_job j = Some (LANE_OPERATION, oid)"
  shows "live_ok [] [] s (on_processor (put_job j) (update_limit oid f s))"
  by (rule live_ok_update [OF po, where q = "put_job j (request_processor s)" and f = f])
     (use idle f in \<open>auto simp: job order_in_step_def on_processor_def update_limit_def\<close>)

lemma live_modify_limit_ok:
  assumes "live_modify_limit_order oid x sl tp s = Inr (r, s')"
  shows "live_ok [] [] s s'"
proof -
  consider "s' = s"
    | po ref smb y u v w where "find (has_id oid) (active_limit_orders s) = Some po" "po_broker_ref po = Some ref"
        "in_flight_operation (execution_state po) = OP_NONE"
        "s' = on_processor (put_job (EditJob oid ref smb y u v))
          (update_limit oid (start_modify \<lparr>new_price = y, new_limit_price = None, new_stop_loss = u, new_take_profit = v,
             mod_submitted_at = Some w, apply_at_msc = None\<rparr>) s)"
  proof (cases "find (has_id oid) (active_limit_orders s)")
    case (Some po)
    then show thesis
      using assms that(1) that(2) [OF Some]
      by (cases "po_broker_ref po") (auto simp: live_modify_limit_order_def submit_modify_order_async_def [abs_def] Let_def
          split: option.splits if_splits)
  qed (use assms that(1) in \<open>simp add: live_modify_limit_order_def\<close>)
  then show ?thesis
  proof cases
    case 2
    then show ?thesis
      by (simp only:) (rule operation_starts, auto simp: start_modify_def lane_of_job_def no_limit_price_def)
  qed (simp add: live_ok_quiet)
qed

lemma live_cancel_limit_ok: "live_ok [] [] s (snd (live_cancel_limit_order oid s))"
proof (cases "find (has_id oid) (active_limit_orders s)")
  case (Some po)
  show ?thesis
  proof (cases "po_broker_ref po")
    case None
    have "live_ok [] [] s (update_limit oid (map_state (\<lambda>es. es\<lparr>cancel_requested := True\<rparr>)) s)"
      by (rule live_ok_update_limit [OF Some]) (simp_all add: order_in_step_def no_limit_price_def None)
    with Some None show ?thesis by (simp add: live_cancel_limit_order_def)
  next
    case (Some ref)
    have "live_ok [] [] s (on_processor (put_job (CancelJob oid ref)) (update_limit oid start_cancel s))"
      if "in_flight_operation (execution_state po) = OP_NONE"
      using \<open>find _ _ = Some po\<close> that Some
      by (intro operation_starts [where po = po]) (simp_all add: start_cancel_def lane_of_job_def no_limit_price_def)
    then show ?thesis
      using \<open>find _ _ = Some po\<close> Some
      by (simp add: live_cancel_limit_order_def submit_cancel_order_async_def [abs_def] live_ok_quiet)
  qed
qed (simp add: live_cancel_limit_order_def live_ok_quiet)

lemma live_stop_calls:
  "live_modify_stop_order oid x y sl tp s = Inr (r, s') \<Longrightarrow> live_ok [] [] s s'"
  "live_ok [] [] s (snd (live_cancel_stop_order oid s))"
proof -
  show "live_ok [] [] s s'" if h: "live_modify_stop_order oid x y sl tp s = Inr (r, s')"
  proof (rule live_ok_if_inv)
    assume "pipeline_inv [] s"
    with h have "s' = s" by (simp add: live_modify_stop_order_def Let_def pipeline_distinct split: if_splits)
    then show "live_ok [] [] s s'" by (simp add: live_ok_quiet)
  qed (use h in \<open>auto simp: live_modify_stop_order_def Let_def submit_modify_order_async_def on_processor_def live_advances_def
      split: if_splits option.splits\<close>)
  show "live_ok [] [] s (snd (live_cancel_stop_order oid s))"
  proof (rule live_ok_if_inv)
    assume "pipeline_inv [] s"
    then have "snd (live_cancel_stop_order oid s) = s" by (simp add: live_cancel_stop_order_def Let_def pipeline_distinct)
    then show "live_ok [] [] s (snd (live_cancel_stop_order oid s))" by (simp add: live_ok_quiet)
  qed (simp add: live_cancel_stop_order_def Let_def submit_cancel_order_async_def on_processor_def live_advances_def split: option.split)
qed

lemma live_trades_query_ok: "live_ok [] [] s (live_submit_trades_query oid ref s)"
  using live_ok_job [of "TradesQueryJob oid ref" s s]
  by (simp add: live_submit_trades_query_def on_processor_def submit_trades_query_async_def lane_of_job_def)

section \<open>Shutdown\<close>

lemma quiet_expire: "expire_active_orders s = Inr s' \<Longrightarrow> quiet s s'"
proof -
  have one: "quiet u v" if "expire_order d po u = Inr v" for d po and u v :: "'a live_executor"
    using that by (auto simp: expire_order_def intro: quiet_history)
  assume "expire_active_orders s = Inr s'"
  then obtain t where "fold_res (expire_order ''limit'') (active_limit_orders s) s = Inr t"
    "fold_res (expire_order ''stop'') (active_stop_orders t) t = Inr s'" by (auto simp: expire_active_orders_def)
  then have "quiet s t" "quiet t s'" by (auto elim!: quiet_fold_res intro: one)
  then show ?thesis by (rule quiet_trans)
qed

lemma live_close_all_steps:
  assumes "live_close_all_remaining_orders s = Inr s'"
  obtains s1 s2 where "quiet s s1"
    and "fold_res (\<lambda>p. fill_close_order (create_synthetic_close_order (position_id p)) None SCENARIO_END)
          (get_open_positions (ex_portfolio s1)) s1 = Inr s2"
    and "quiet s1 s2"
    and "s' = on_processor (\<lambda>q. stop_worker (clear_pending_live (wall_now s2) ''scenario_end'' q))
            (s2\<lparr>live_position_modifications := []\<rparr>)"
    and "quiet s2 s'"
proof -
  let ?start = "if active_limit_orders s = [] then Inr s else expire_active_orders (fold log_cancel (active_limit_orders s) s)"
  from assms obtain s1 s2 where s1: "?start = Inr s1"
    and s2: "fold_res (\<lambda>p. fill_close_order (create_synthetic_close_order (position_id p)) None SCENARIO_END)
          (get_open_positions (ex_portfolio s1)) s1 = Inr s2"
    and s': "s' = on_processor (\<lambda>q. stop_worker (clear_pending_live (wall_now s2) ''scenario_end'' q))
            (s2\<lparr>live_position_modifications := []\<rparr>)"
    by (auto simp: live_close_all_remaining_orders_def)
  have "quiet s (fold log_cancel (active_limit_orders s) s)" by (rule quiet_fold) simp
  with s1 have "quiet s s1" by (auto split: if_splits dest: quiet_expire intro: quiet_trans)
  moreover from s2 have "quiet s1 s2" by (rule quiet_fold_res) (rule quiet_fill)
  moreover have "quiet s2 (s2\<lparr>live_position_modifications := []\<rparr>)" by (simp add: quiet_def)
  then have "quiet s2 s'"
    unfolding s' by (rule quiet_trans)
      (auto simp: stop_worker_def intro!: quiet_processor intro: same_queues_trans [OF same_queues_clear same_queues_store(4)])
  ultimately show thesis using s2 s' that by blast
qed

lemma quiet_close_all: "live_close_all_remaining_orders s = Inr s' \<Longrightarrow> quiet s s'"
  by (erule live_close_all_steps) (blast intro: quiet_trans)

section \<open>The live session as a transition system\<close>

inductive live_step :: "('p, 'r) live_adapter set \<Rightarrow> 'p live_executor \<Rightarrow> 'p live_executor \<Rightarrow> bool" for ads where
  live_tick: "ad \<in> ads \<Longrightarrow> live_on_tick ad t s = Inr s' \<Longrightarrow> live_step ads s s'"
| live_beat: "live_heartbeat s = Inr s' \<Longrightarrow> live_step ads s s'"
| live_worker: "ad \<in> ads \<Longrightarrow> live_step ads s (on_processor (worker_loop ad now) s)"
| live_wall: "live_step ads s (s\<lparr>wall_now := w\<rparr>)"
| live_time: "live_step ads s (set_clock t s)"
| live_status: "live_step ads s (s\<lparr>market_status := st\<rparr>)"
| live_open: "ad \<in> ads \<Longrightarrow> live_open_order ad rq s = Inr (r, s') \<Longrightarrow> live_step ads s s'"
| live_close: "ad \<in> ads \<Longrightarrow> live_close_position ad pid l s = Inr (r, s') \<Longrightarrow> live_step ads s s'"
| live_modify_pos: "live_modify_position pid sl tp s = Inr (mr, s') \<Longrightarrow> live_step ads s s'"
| live_modify_limit: "live_modify_limit_order oid x sl tp s = Inr (mr, s') \<Longrightarrow> live_step ads s s'"
| live_modify_stop: "live_modify_stop_order oid x y sl tp s = Inr (mr, s') \<Longrightarrow> live_step ads s s'"
| live_cancel_limit: "live_step ads s (snd (live_cancel_limit_order oid s))"
| live_cancel_stop: "live_step ads s (snd (live_cancel_stop_order oid s))"
| live_trades_query: "live_step ads s (live_submit_trades_query oid ref s)"
| live_guard: "live_step ads s (record_guard_rejection r s)"
| live_session_end: "live_step ads s (request_session_end reason sev s)"
| live_shutdown: "live_close_all_remaining_orders s = Inr s' \<Longrightarrow> live_step ads s s'"

definition live_fresh :: "'p live_executor \<Rightarrow> bool" where
  "live_fresh s \<longleftrightarrow> (\<exists>br enabled ib cur ohmax thmax spot ibs roll timeout_s poll_ms sink now.
     live_init br enabled ib cur ohmax thmax spot ibs roll timeout_s poll_ms sink now = Inr s)"

lemma live_fresh_parts:
  assumes "live_fresh s"
  shows "pf_fresh (ex_portfolio s)" "pipeline_inv [] s" "stats_ok (pending_st (request_processor s))"
proof -
  from assms obtain br enabled ib cur ohmax thmax spot ibs roll timeout_s poll_ms sink now where
    s: "live_init br enabled ib cur ohmax thmax spot ibs roll timeout_s poll_ms sink now = Inr s"
    unfolding live_fresh_def by blast
  obtain lev call stopout where l: "account_leverage br = (lev, call, stopout)" by (cases "account_leverage br")
  from s have pf: "ex_portfolio s = portfolio_init ib cur br lev call stopout thmax spot ibs None roll"
    and q: "request_processor s = start_worker (new_processor timeout_s)"
    and e: "active_limit_orders s = []" "active_stop_orders s = []"
    by (auto simp: live_init_def l split: if_splits)
  show "pf_fresh (ex_portfolio s)" unfolding pf pf_fresh_def by blast
  show "pipeline_inv [] s" by (simp add: pipeline_inv_def e q in_transit_def traffic_def start_worker_def new_processor_def)
  show "stats_ok (pending_st (request_processor s))"
    by (simp add: q start_worker_def new_processor_def stats_ok_def new_pending_stats_def)
qed

lemma quiet_bookkeeping:
  "quiet s (s\<lparr>wall_now := w\<rparr>)" "quiet s (s\<lparr>market_status := st\<rparr>)" "quiet s (set_clock t s)"
  "quiet s (record_guard_rejection r s)" "quiet s (request_session_end reason sev s)"
  by (auto simp: quiet_def set_clock_def record_guard_rejection_def append_order_history_def check_order_history_limit_def
      request_session_end_def intro: pf_step.pf_clock)

lemma live_step_ok: "live_step ads s s' \<Longrightarrow> live_ok [] [] s s'"
proof (induction rule: live_step.induct)
qed (blast intro: live_tick_ok live_heartbeat_ok worker_ok live_open_order_ok live_close_position_ok live_modify_position_ok
    live_modify_limit_ok live_stop_calls live_cancel_limit_ok live_trades_query_ok live_ok_quiet quiet_bookkeeping quiet_close_all)+

interpretation live_portfolio: embedded_machine pf_fresh pf_step pf_inv live_fresh "live_step ads" ex_portfolio
  by unfold_locales (auto simp: live_ok_def live_advances_def dest: live_step_ok live_fresh_parts)

interpretation live_pipeline: invariant_machine live_fresh "live_step ads" "pipeline_inv []"
  by unfold_locales (auto simp: live_ok_def dest: live_step_ok live_fresh_parts)

interpretation live_statistics: invariant_machine live_fresh "live_step ads" "\<lambda>s. stats_ok (pending_st (request_processor s))"
  by unfold_locales (auto simp: live_ok_def live_advances_def dest: live_step_ok live_fresh_parts)

end
