(* ===== verification/Live_Outcomes.thy ===== *)
theory Live_Outcomes
  imports Live_Laws
begin

text \<open>
  What live trading does when the broker does not answer as hoped: orders that time out unconfirmed, status
  polls that never reach the broker, cancellations asked for too early, and the end of the session.
\<close>

section \<open>Time-outs\<close>

text \<open>An order the processor still tracks and knows no reference for.\<close>

definition unreferenced :: "string \<Rightarrow> pending_order \<Rightarrow> 'p live_executor \<Rightarrow> bool" where
  "unreferenced oid po s \<longleftrightarrow>
     map_of (pending_orders (request_processor s)) oid = Some po \<and> po_broker_ref po = None \<and>
     oid \<notin> snd ` set (broker_ref_index (request_processor s)) \<and> http_inbox (request_processor s) = []"

lemma processor_more:
  fixes q q' :: "'p processor"
  assumes "pending_manager.more q' = pending_manager.more q"
  shows "broker_ref_index q' = broker_ref_index q" "http_inbox q' = http_inbox q"
  using assms by (cases q, cases q', simp)+

lemma record_outcome_orders [simp]: "pending_orders (record_outcome po oc l r q) = pending_orders q"
  for q :: "'p processor"
  by (simp add: record_outcome_def Let_def)

lemma unreferenced_record:
  "unreferenced oid po (on_processor (record_outcome po' oc l r) s) = unreferenced oid po s"
  by (simp add: unreferenced_def on_processor_def processor_more [OF record_outcome_more])

lemma unreferenced_resolved:
  assumes "unreferenced oid po s"
  shows "unreferenced oid po (on_processor (\<lambda>q. snd (mark_rejected ref q)) s)"
proof (cases "Option.bind ref (map_of (broker_ref_index (request_processor s)))")
  case None
  with assms show ?thesis by (simp add: mark_rejected_def mark_resolved_def on_processor_def)
next
  case (Some k)
  then obtain x where "ref = Some x" "map_of (broker_ref_index (request_processor s)) x = Some k" by (cases ref) auto
  then have "k \<noteq> oid" using assms by (force simp: unreferenced_def dest: map_of_SomeD)
  moreover have "snd ` set (AList.delete y xs) \<subseteq> snd ` set xs" for y :: string and xs :: "(string \<times> string) list"
    by (auto simp: AList.delete_eq)
  ultimately show ?thesis
    using assms Some by (auto simp: unreferenced_def mark_rejected_def mark_resolved_def remove_order_def on_processor_def
        AList.delete_conv dest: subsetD)
qed

lemma rejected_counts [simp]:
  "orders_rejected (record_rejected d r po s) = orders_rejected s + 1"
  "request_processor (record_rejected d r po s) = request_processor s"
  "wall_now (record_rejected d r po s) = wall_now s"
  by (simp_all add: record_rejected_def live_notify_def append_order_history_def notify_outcome_def split: option.split)

lemma on_processor_keeps [simp]:
  "orders_rejected (on_processor f s) = orders_rejected s" "request_processor (on_processor f s) = f (request_processor s)"
  "wall_now (on_processor f s) = wall_now s"
  by (simp_all add: on_processor_def)

lemma log_cancel_keeps [simp]:
  "orders_rejected (log_cancel po s) = orders_rejected s" "request_processor (log_cancel po s) = request_processor s"
  "wall_now (log_cancel po s) = wall_now s"
  by (simp_all add: log_cancel_def)

lemma handle_timeout_effect:
  "orders_rejected (handle_timeout po' s) = orders_rejected s + 1" "wall_now (handle_timeout po' s) = wall_now s"
  "unreferenced oid po s \<Longrightarrow> unreferenced oid po (handle_timeout po' s)"
proof -
  show "orders_rejected (handle_timeout po' s) = orders_rejected s + 1" "wall_now (handle_timeout po' s) = wall_now s"
    by (simp_all add: handle_timeout_def Let_def)
  assume "unreferenced oid po s"
  then have "unreferenced oid po (log_cancel po' s)" by (simp add: unreferenced_def)
  then have "unreferenced oid po (on_processor (\<lambda>q. snd (mark_rejected (po_broker_ref po') q))
      (on_processor (record_outcome po' PO_TIMED_OUT (calculate_pending_latency_ms (wall_now (log_cancel po' s)) po') None) (log_cancel po' s)))"
    by (intro unreferenced_resolved) (simp only: unreferenced_record)
  then show "unreferenced oid po (handle_timeout po' s)" by (simp add: handle_timeout_def Let_def unreferenced_def)
qed

lemma handle_timeouts_fold:
  "orders_rejected (fold handle_timeout pos s) = orders_rejected s + int (length pos)"
  "wall_now (fold handle_timeout pos s) = wall_now s"
  "unreferenced oid po s \<Longrightarrow> unreferenced oid po (fold handle_timeout pos s)"
  by (induction pos arbitrary: s) (simp_all add: handle_timeout_effect)

lemma queries_keep:
  "pending_orders (fold (\<lambda>po. submit_query_order_async (pending_order_id po) (f po)) pos q) = pending_orders q"
  "broker_ref_index (fold (\<lambda>po. submit_query_order_async (pending_order_id po) (f po)) pos q) = broker_ref_index q"
  "http_inbox (fold (\<lambda>po. submit_query_order_async (pending_order_id po) (f po)) pos q) = http_inbox q"
  by (induction pos arbitrary: q) (simp_all add: submit_query_order_async_def put_job_def)

lemma process_active_keeps:
  "orders_rejected (process_active_orders s) = orders_rejected s" "wall_now (process_active_orders s) = wall_now s"
  "unreferenced oid po (process_active_orders s) = unreferenced oid po s"
  by (simp_all add: process_active_orders_def Let_def unreferenced_def queries_keep)

text \<open>One heartbeat rejects a timed-out order without a reference and keeps tracking it.\<close>

lemma heartbeat_unreferenced:
  assumes u: "unreferenced oid po s" and t: "is_timed_out (wall_now s) po"
  obtains s' where "live_heartbeat s = Inr s'" "unreferenced oid po s'" "wall_now s' = wall_now s"
    "orders_rejected s + 1 \<le> orders_rejected s'"
proof -
  from u have "http_inbox (request_processor s) = []" by (simp add: unreferenced_def)
  then have "on_processor (\<lambda>q. q\<lparr>http_inbox := []\<rparr>) s = s" and drained: "drain_inbox s = Inr s"
    by (simp_all add: on_processor_def drain_inbox_def)
  from u t have "po \<in> set (check_timeouts (wall_now s) (request_processor s))"
    by (force simp: unreferenced_def check_timeouts_def dest: map_of_SomeD)
  then have "1 \<le> length (check_timeouts (wall_now s) (request_processor s))"
    by (cases "check_timeouts (wall_now s) (request_processor s)") auto
  then show thesis
    using u by (intro that [of "process_active_orders (handle_timeouts s)"])
      (simp_all add: live_heartbeat_def drained handle_timeouts_def handle_timeouts_fold process_active_keeps)
qed

lemma heartbeats_unreferenced:
  assumes "unreferenced oid po s" and "is_timed_out (wall_now s) po"
  shows "\<exists>s'. fold_res (\<lambda>_. live_heartbeat) (replicate n ()) s = Inr s' \<and> unreferenced oid po s' \<and>
    orders_rejected s + int n \<le> orders_rejected s'"
  using assms
proof (induction n arbitrary: s)
  case (Suc n)
  obtain s1 where s1: "live_heartbeat s = Inr s1" "unreferenced oid po s1" "wall_now s1 = wall_now s"
    "orders_rejected s + 1 \<le> orders_rejected s1" using Suc.prems by (rule heartbeat_unreferenced)
  with Suc.IH [of s1] Suc.prems(2) show ?case by force
qed simp

section \<open>Polls that fail\<close>

lemma failed_query:
  assumes "build_query_payload ad ref = Inr p" and "do_request_query ad p = Inl (e, msg)"
  shows "dispatch_job ad now (QueryJob oid ref) = QueryResponse oid (rejected_response ref msg now)"
  using assms by (simp add: dispatch_job_def dispatch_query_job_def bind_call_def catching_def)

lemma update_limit_simps [simp]:
  "active_limit_orders (update_limit oid f s) = update_first (has_id oid) f (active_limit_orders s)"
  "ex_portfolio (update_limit oid f s) = ex_portfolio s" "orders_rejected (update_limit oid f s) = orders_rejected s"
  by (simp_all add: update_limit_def)

lemma rejected_query_drops:
  assumes inv: "pipeline_inv rs s" and po: "find (has_id oid) (active_limit_orders s) = Some po"
    and ref: "po_broker_ref po = Some (resp_broker_ref r)" and st: "resp_status r = BS_REJECTED"
  shows "\<exists>s'. handle_response (QueryResponse oid r) s = Inr s' \<and>
    active_limit_orders s' = replace_order oid (\<lambda>_. None) (active_limit_orders s) \<and>
    orders_rejected s' = orders_rejected s + 1 \<and> ex_portfolio s' = ex_portfolio s"
proof -
  let ?p = "map_state (\<lambda>es. es\<lparr>in_flight_query := False\<rparr>) po"
  note d = pipeline_distinct [OF inv]
  have id: "pending_order_id ?p = oid" using find_has_id [OF po] by simp
  note rm = remove_updated [OF d(1) po id]
  have "ex_portfolio (record_rejected x y z t) = ex_portfolio t" for x y z and t :: "'a live_executor"
    by (simp add: record_rejected_def live_notify_def append_order_history_def notify_outcome_def split: option.split)
  then show ?thesis
    by (simp add: handle_response_def handle_query_response_def find_active_limits [OF d(2)] po Let_def
        update_active_limits [OF po] remove_limit_def rm ref st resp_is_terminal_def)
qed

section \<open>Cancelling an unconfirmed order\<close>

lemma confirmation_sends_cancel:
  assumes inv: "pipeline_inv rs s" and po: "find (has_id oid) (active_limit_orders s) = Some po"
    and c: "cancel_requested (execution_state po)" and r: "\<not> resp_is_rejected r" "\<not> resp_is_filled r"
  shows "\<exists>s' po'. handle_response (SubmitResponse oid act OT_LIMIT r) s = Inr s' \<and>
    http_outbox (request_processor s') = http_outbox (request_processor s) @ [CancelJob oid (resp_broker_ref r)] \<and>
    find (has_id oid) (active_limit_orders s') = Some po' \<and> in_flight_operation (execution_state po') = PENDING_CANCEL \<and>
    \<not> cancel_requested (execution_state po')"
proof -
  let ?p = "po\<lparr>po_broker_ref := Some (resp_broker_ref r)\<rparr>"
  let ?q = "map_state (\<lambda>es. es\<lparr>cancel_requested := False, in_flight_operation := PENDING_CANCEL\<rparr>) ?p"
  have id: "pending_order_id ?p = oid" "pending_order_id ?q = oid" using find_has_id [OF po] by simp_all
  show ?thesis
    using c r
    by (simp add: handle_response_def handle_submit_response_def handle_limit_submit_response_def po Let_def
        update_first_const [OF id(1)] submit_cancel_order_async_def put_job_def find_update_first [OF po id(2)] on_processor_def)
       (simp add: update_limit_def)
qed

section \<open>The end of the session\<close>

lemma log_cancels: "broker_cancels (fold log_cancel pos s) = broker_cancels s @ map (\<lambda>po. the (po_broker_ref po)) (filter has_ref pos)"
  by (induction pos arbitrary: s) (simp_all add: log_cancel_def)

lemma cancels_same_more: "executor.more s' = executor.more s \<Longrightarrow> broker_cancels s' = broker_cancels s"
  for s s' :: "'p live_executor"
  by (cases s, cases s', simp)

lemma expire_cancels: "expire_active_orders s = Inr s' \<Longrightarrow> broker_cancels s' = broker_cancels s"
  for s s' :: "'a live_executor"
proof -
  have one: "broker_cancels v = broker_cancels u" if "expire_order d po u = Inr v" for d po and u v :: "'a live_executor"
    using that by (auto simp: expire_order_def append_order_history_def)
  have many: "broker_cancels v = broker_cancels u" if "fold_res (expire_order d) pos u = Inr v" for d pos and u v :: "'a live_executor"
    using that by (rule fold_res_inv [where P = "\<lambda>w. broker_cancels w = broker_cancels u"]) (simp_all add: one)
  assume "expire_active_orders s = Inr s'"
  then obtain t where t: "fold_res (expire_order ''limit'') (active_limit_orders s) s = Inr t"
    "fold_res (expire_order ''stop'') (active_stop_orders t) t = Inr s'" by (auto simp: expire_active_orders_def)
  from many [OF t(1)] many [OF t(2)] show ?thesis by simp
qed

lemma live_shutdown_result:
  assumes "live_close_all_remaining_orders s = Inr s'" and inv: "pf_inv (ex_portfolio s)"
  shows "open_positions (ex_portfolio s') = []" "pending_orders (request_processor s') = []"
    "broker_ref_index (request_processor s') = []" "live_position_modifications s' = []" "\<not> worker_running (request_processor s')"
    "broker_cancels s' = broker_cancels s @ map (\<lambda>po. the (po_broker_ref po)) (filter has_ref (active_limit_orders s))"
proof -
  let ?start = "if active_limit_orders s = [] then Inr s else expire_active_orders (fold log_cancel (active_limit_orders s) s)"
  from assms(1) obtain s1 s2 where s1: "?start = Inr s1"
    and s2: "fold_res (\<lambda>p. fill_close_order (create_synthetic_close_order (position_id p)) None SCENARIO_END)
          (get_open_positions (ex_portfolio s1)) s1 = Inr s2"
    and s': "s' = on_processor (\<lambda>q. stop_worker (clear_pending_live (wall_now s2) ''scenario_end'' q))
            (s2\<lparr>live_position_modifications := []\<rparr>)"
    by (auto simp: live_close_all_remaining_orders_def)
  have "quiet s (fold log_cancel (active_limit_orders s) s)" by (rule quiet_fold) simp
  with s1 have "quiet s s1" by (auto split: if_splits dest: quiet_expire intro: quiet_trans)
  then have "pf_inv (ex_portfolio s1)" using inv by (auto simp: quiet_def intro: pf_run_inv)
  from close_all_positions [OF s2 this] show "open_positions (ex_portfolio s') = []" by (simp add: s' on_processor_def)
  show "pending_orders (request_processor s') = []" "broker_ref_index (request_processor s') = []"
    "live_position_modifications s' = []" "\<not> worker_running (request_processor s')"
    by (simp_all add: s' on_processor_def stop_worker_def clear_pending_live_def clear_pending_spec)
  have "broker_cancels s2 = broker_cancels s1"
    using s2 by (rule fold_res_inv [where P = "\<lambda>w. broker_cancels w = broker_cancels s1"])
      (simp_all add: cancels_same_more [OF fill_frame_keeps(14) [OF fill_close_run(1)]])
  moreover have "broker_cancels s1 = broker_cancels s @ map (\<lambda>po. the (po_broker_ref po)) (filter has_ref (active_limit_orders s))"
    using s1 by (auto simp: log_cancels split: if_splits dest!: expire_cancels)
  ultimately show "broker_cancels s' = broker_cancels s @ map (\<lambda>po. the (po_broker_ref po)) (filter has_ref (active_limit_orders s))"
    by (simp add: s' on_processor_def)
qed

end
