(* ===== verification/Tick_Loop_Laws.thy ===== *)
theory Tick_Loop_Laws
  imports Tick_Loop Live_Outcomes
begin

text \<open>
  Laws of the tick loop. First the frame of the live executor's two entry points: neither a tick nor a heartbeat
  touches the market-data status, so the loop alone decides it. Then the circuit breaker, and the invariant of a
  session over every sequence of ticks and idle rounds.
\<close>

section \<open>Ticks and heartbeats leave the market-data status alone\<close>

definition feed_view :: "'a executor_scheme \<Rightarrow> market_data_status \<times> instant option" where
  "feed_view s = (market_status s, clock_time s)"

lemma view_updates [simp]:
  "feed_view (t\<lparr>active_limit_orders := l\<rparr>) = feed_view t" "feed_view (t\<lparr>active_stop_orders := l\<rparr>) = feed_view t"
  "feed_view (t\<lparr>sl_tp_triggered := n\<rparr>) = feed_view t" "feed_view (t\<lparr>ex_portfolio := pf\<rparr>) = feed_view t"
  by (simp_all add: feed_view_def)

lemma view_live_updates [simp]:
  "feed_view (t\<lparr>request_processor := q\<rparr>) = feed_view t" "feed_view (on_processor f t) = feed_view t"
  "feed_view (t\<lparr>trades_log := l\<rparr>) = feed_view t" "feed_view (t\<lparr>live_position_modifications := m\<rparr>) = feed_view t"
  by (simp_all add: feed_view_def on_processor_def)

lemma view_operations [simp]:
  "feed_view (record_rejected d r po t) = feed_view t" "feed_view (record_async_rejection d r t) = feed_view t"
  "feed_view (update_limit oid f t) = feed_view t" "feed_view (update_active oid f t) = feed_view t"
  "feed_view (log_cancel o1 t) = feed_view t" "feed_view (process_active_orders t) = feed_view t"
  by (simp_all add: record_rejected_def record_async_rejection_def live_notify_def append_order_history_def
      notify_outcome_def update_limit_def update_active_def log_cancel_def process_active_orders_def Let_def feed_view_def
      on_processor_def split: option.split)

lemma view_fill:
  "fill_open_order po x et ft s = Inr s' \<Longrightarrow> feed_view s' = feed_view s"
  "fill_close_order po x cr s = Inr s' \<Longrightarrow> feed_view s' = feed_view s"
  by (simp_all add: feed_view_def fill_frame_keeps [OF fill_open_run(1)] fill_frame_keeps [OF fill_close_run(1)])

lemma view_remove_limit: "remove_limit po s = Inr s' \<Longrightarrow> feed_view s' = feed_view s"
  by (auto simp: remove_limit_def split: if_splits)

lemma view_emit: "emit_order_cancelled po s = Inr s' \<Longrightarrow> feed_view s' = feed_view s"
  by (auto simp: emit_order_cancelled_def emit_decision_event_def feed_view_def)

lemmas view_dests = view_fill view_remove_limit view_emit

lemma view_fold_res:
  assumes "fold_res f xs s = Inr s'" and "\<And>x s s'. f x s = Inr s' \<Longrightarrow> feed_view s' = feed_view s"
  shows "feed_view s' = feed_view s"
  using assms(1) refl by (rule fold_res_inv [where P = "\<lambda>u. feed_view u = feed_view s"]) (simp add: assms(2))

lemma view_broker_response: "handle_broker_response po r s = Inr s' \<Longrightarrow> feed_view s' = feed_view s"
  by (auto simp: handle_broker_response_def fill_by_action_def Let_def case_prod_beta
      split: if_splits option.splits pending_action.splits dest!: view_dests)

lemma view_limit_submit: "handle_limit_submit_response oid r s = Inr s' \<Longrightarrow> feed_view s' = feed_view s"
  by (auto simp: handle_limit_submit_response_def Let_def split: option.splits if_splits dest!: view_dests)

lemma view_submit: "handle_submit_response oid act ot r s = Inr s' \<Longrightarrow> feed_view s' = feed_view s"
  by (auto simp: handle_submit_response_def Let_def case_prod_beta
      split: option.splits if_splits pending_action.splits dest!: view_dests view_limit_submit)

lemma view_modify: "feed_view (handle_modify_response oid r s) = feed_view s"
  by (simp add: handle_modify_response_def Let_def split: option.split)

lemma view_cancel: "handle_cancel_response oid r s = Inr s' \<Longrightarrow> feed_view s' = feed_view s"
  by (auto simp: handle_cancel_response_def Let_def split: option.splits if_splits dest!: view_dests)

lemma view_position_modify: "feed_view (handle_position_modify_response pid r s) = feed_view s"
  by (simp add: handle_position_modify_response_def Let_def split: option.split)

lemma view_trades: "handle_trades_response oid ref trades success err s = Inr s' \<Longrightarrow> feed_view s' = feed_view s"
  by (auto simp: handle_trades_response_def Let_def split: option.splits if_splits dest!: view_dests)

lemma view_query: "handle_query_response oid r s = Inr s' \<Longrightarrow> feed_view s' = feed_view s"
  by (auto simp: handle_query_response_def Let_def split: option.splits if_splits dest!: view_dests)

lemma view_response: "handle_response item s = Inr s' \<Longrightarrow> feed_view s' = feed_view s"
  by (auto simp: handle_response_def view_modify view_position_modify split: response.splits
      dest: view_submit view_cancel view_trades view_query)

lemma view_drain: "drain_inbox s = Inr s' \<Longrightarrow> feed_view s' = feed_view s"
  unfolding drain_inbox_def by (drule view_fold_res) (simp_all add: view_response)

lemma view_timeouts [simp]: "feed_view (handle_timeouts s) = feed_view s"
proof -
  have "feed_view (handle_timeout po u) = feed_view u" for po and u :: "'a live_executor"
    by (simp add: handle_timeout_def Let_def)
  then have "feed_view (fold handle_timeout pos u) = feed_view u" for pos and u :: "'a live_executor"
    by (induction pos arbitrary: u) simp_all
  then show ?thesis by (simp add: handle_timeouts_def)
qed

lemma heartbeat_view: "live_heartbeat s = Inr s' \<Longrightarrow> feed_view s' = feed_view s"
  by (auto simp: live_heartbeat_def dest: view_drain)

lemma view_poll: "poll_pending ad po s = Inr s' \<Longrightarrow> feed_view s' = feed_view s"
  by (auto simp: poll_pending_def split: if_splits dest: view_broker_response)

lemma view_process_pending: "live_process_pending_orders ad s = Inr s' \<Longrightarrow> feed_view s' = feed_view s"
  by (auto simp: live_process_pending_orders_def split: if_splits dest!: view_drain view_fold_res dest: view_poll)

lemma view_triggers: "check_sl_tp_triggers t s = Inr s' \<Longrightarrow> feed_view s' = feed_view s"
proof -
  have "feed_view v = feed_view u" if "check_position_triggers t p u = Inr v" for p and u v :: "'a executor_scheme"
    using that by (auto simp: check_position_triggers_def split: if_splits dest!: view_fill)
  then show "check_sl_tp_triggers t s = Inr s' \<Longrightarrow> feed_view s' = feed_view s"
    by (auto simp: check_sl_tp_triggers_def split: if_splits elim: view_fold_res)
qed

lemma tick_view:
  assumes "live_on_tick ad t s = Inr s'"
  shows "feed_view s' = (market_status s, Some (tick_timestamp t))"
proof -
  from assms obtain u where "live_process_pending_orders ad (begin_tick t s) = Inr u" "check_sl_tp_triggers t u = Inr s'"
    by (auto simp: live_on_tick_def on_tick_def)
  then have "feed_view s' = feed_view (begin_tick t s)" by (simp add: view_process_pending view_triggers)
  then show ?thesis by (simp add: feed_view_def begin_tick_def set_clock_def Let_def)
qed

section \<open>The circuit breaker\<close>

text \<open>What stops entries: the value is under a positive minimum, or the loss against a positive baseline exceeds a
  positive percentage.\<close>

definition breached :: "loop_config \<Rightarrow> rat \<Rightarrow> rat \<Rightarrow> bool" where
  "breached cfg value baseline \<longleftrightarrow>
     0 < min_threshold (lc_spot cfg) (lc_safety cfg) \<and> value < min_threshold (lc_spot cfg) (lc_safety cfg) \<or>
     0 < sf_max_drawdown_pct (lc_safety cfg) \<and> 0 < baseline \<and>
     sf_max_drawdown_pct (lc_safety cfg) * baseline < 100 * (baseline - value)"

lemma check_safety_blocked:
  "safety_blocked (check_safety cfg v b s) = (if sf_enabled (lc_safety cfg) then breached cfg v b else safety_blocked s)"
proof -
  have "m < (b - v) / b * 100 \<longleftrightarrow> m * b < 100 * (b - v)" if "0 < b" for m :: rat
    using that by (simp add: less_divide_eq field_simps)
  then show ?thesis by (auto simp: check_safety_def breached_def Let_def)
qed

lemma check_safety_reasons:
  "sf_enabled (lc_safety cfg) \<Longrightarrow>
   safety_blocked (check_safety cfg v b s) \<longleftrightarrow> safety_reasons (check_safety cfg v b s) \<noteq> []"
  "sf_enabled (lc_safety cfg) \<Longrightarrow> 0 \<le> safety_drawdown_pct (check_safety cfg v b s)"
  by (auto simp: check_safety_def Let_def)

lemma check_safety_keeps [simp]:
  "ss_executor (check_safety cfg v b s) = ss_executor s" "ss_pipeline (check_safety cfg v b s) = ss_pipeline s"
  "ss_tracker (check_safety cfg v b s) = ss_tracker s" "ss_clipping (check_safety cfg v b s) = ss_clipping s"
  "market_stale (check_safety cfg v b s) = market_stale s" "market_stale_since (check_safety cfg v b s) = market_stale_since s"
  "recent_rejections (check_safety cfg v b s) = recent_rejections s" "rejection_count (check_safety cfg v b s) = rejection_count s"
  "ticks_processed (check_safety cfg v b s) = ticks_processed s" "ticks_clipped (check_safety cfg v b s) = ticks_clipped s"
  "last_real_tick_wall_time (check_safety cfg v b s) = last_real_tick_wall_time s"
  by (simp_all add: check_safety_def Let_def)

lemma recorded_cases:
  assumes "execute_and_record P d t s = Inr (r, s')"
  obtains pd ex n l where "pl_execute P (override_action s d) t (ss_pipeline s) (ss_executor s) = Inr (r, pd, ex)"
    and "s' = s\<lparr>ss_pipeline := pd, ss_executor := ex, rejection_count := n, recent_rejections := l\<rparr>"
    and "(n, l) = (rejection_count s, recent_rejections s) \<or>
      n = rejection_count s + 1 \<and>
      (\<exists>e. re_seq e = rejection_count s + 1 \<and> re_side e = dc_action (override_action s d) \<and>
           l = deque_append 5 (recent_rejections s) e)"
proof -
  from assms obtain pd ex where e: "pl_execute P (override_action s d) t (ss_pipeline s) (ss_executor s) = Inr (r, pd, ex)"
    and s': "record_rejection_entry r (override_action s d) (s\<lparr>ss_pipeline := pd, ss_executor := ex\<rparr>) = Inr s'"
    by (auto simp: execute_and_record_def Let_def)
  consider "s' = s\<lparr>ss_pipeline := pd, ss_executor := ex\<rparr>"
    | e where "s' = s\<lparr>ss_pipeline := pd, ss_executor := ex, rejection_count := rejection_count s + 1,
         recent_rejections := deque_append 5 (recent_rejections s) e\<rparr>" "re_seq e = rejection_count s + 1"
        "re_side e = dc_action (override_action s d)"
    using s' by (auto simp: record_rejection_entry_def split: option.splits if_splits)
  then show thesis
  proof cases
    case 1
    with e show ?thesis by (intro that [where pd = pd and ex = ex and n = "rejection_count s" and l = "recent_rejections s"]) simp_all
  next
    case 2
    with e show ?thesis
      by (intro that [where pd = pd and ex = ex and n = "rejection_count s + 1"
          and l = "deque_append 5 (recent_rejections s) e"]) auto
  qed
qed

lemma algo_path_executes:
  assumes "algo_path P cfg t s = Inr s'"
  obtains d pd ex r where "pl_algo P t (ss_pipeline s) (ss_executor s) = Inr (d, pd, ex)"
    and "pl_execute P (if safety_blocked s' then d\<lparr>dc_action := DL_FLAT\<rparr> else d) (Some t) pd ex =
         Inr (r, ss_pipeline s', ss_executor s')"
    and "safety_blocked s' = (if sf_enabled (lc_safety cfg)
           then breached cfg (safety_value cfg t (s\<lparr>ss_executor := ex\<rparr>)) (safety_baseline cfg (s\<lparr>ss_executor := ex\<rparr>))
           else safety_blocked s)"
proof -
  from assms obtain d pd ex r where d: "pl_algo P t (ss_pipeline s) (ss_executor s) = Inr (d, pd, ex)"
    and x: "execute_and_record P d (Some t)
        (check_safety cfg (safety_value cfg t (s\<lparr>ss_pipeline := pd, ss_executor := ex\<rparr>))
          (safety_baseline cfg (s\<lparr>ss_pipeline := pd, ss_executor := ex\<rparr>)) (s\<lparr>ss_pipeline := pd, ss_executor := ex\<rparr>)) = Inr (r, s')"
    by (auto simp: algo_path_def Let_def)
  have same: "safety_value cfg t (s\<lparr>ss_pipeline := pd, ss_executor := ex\<rparr>) = safety_value cfg t (s\<lparr>ss_executor := ex\<rparr>)"
    "safety_baseline cfg (s\<lparr>ss_pipeline := pd, ss_executor := ex\<rparr>) = safety_baseline cfg (s\<lparr>ss_executor := ex\<rparr>)"
    by (simp_all add: safety_value_def safety_baseline_def cong: if_cong)
  from x show thesis unfolding same
    by (rule recorded_cases) (auto intro!: that [OF d] simp: override_action_def check_safety_blocked split: if_splits)
qed

section \<open>The invariant of a session\<close>

text \<open>What the loop relies on of the code it calls: workers, decision logic, hooks, event delivery and reconciliation
  neither set the market-data status nor the clock.\<close>

definition pipeline_calm :: "('p, 'd) pipeline \<Rightarrow> bool" where
  "pipeline_calm P \<longleftrightarrow>
     (\<forall>d t pd ex r pd' ex'. pl_execute P d t pd ex = Inr (r, pd', ex') \<longrightarrow> feed_view ex' = feed_view ex) \<and>
     (\<forall>t pd ex d pd' ex'. pl_algo P t pd ex = Inr (d, pd', ex') \<longrightarrow> feed_view ex' = feed_view ex) \<and>
     (\<forall>pd ex. feed_view (snd (snd (pl_ghost P pd ex))) = feed_view ex) \<and>
     (\<forall>now pd ex. feed_view (snd (pl_process_signals P now pd ex)) = feed_view ex) \<and>
     (\<forall>n pd ex. feed_view (snd (pl_reconcile P n pd ex)) = feed_view ex) \<and>
     (\<forall>st pd ex. feed_view (snd (pl_on_stale P st pd ex)) = feed_view ex) \<and>
     (\<forall>pd ex. feed_view (snd (pl_drain_events P pd ex)) = feed_view ex)"

lemma pipeline_calmD:
  assumes "pipeline_calm P"
  shows "pl_execute P d t pd ex = Inr (r, pd', ex') \<Longrightarrow> feed_view ex' = feed_view ex"
    and "pl_algo P x pd ex = Inr (d, pd', ex') \<Longrightarrow> feed_view ex' = feed_view ex"
    and "pl_ghost P pd ex = (m, pd', ex') \<Longrightarrow> feed_view ex' = feed_view ex"
    and "pl_on_stale P st pd ex = (pd', ex') \<Longrightarrow> feed_view ex' = feed_view ex"
proof -
  note c = assms [unfolded pipeline_calm_def]
  show "pl_execute P d t pd ex = Inr (r, pd', ex') \<Longrightarrow> feed_view ex' = feed_view ex" using c by simp
  show "pl_algo P x pd ex = Inr (d, pd', ex') \<Longrightarrow> feed_view ex' = feed_view ex" using c by simp
  have "feed_view (snd (snd (pl_ghost P pd ex))) = feed_view ex" "feed_view (snd (pl_on_stale P st pd ex)) = feed_view ex"
    using c by simp_all
  then show "pl_ghost P pd ex = (m, pd', ex') \<Longrightarrow> feed_view ex' = feed_view ex"
    "pl_on_stale P st pd ex = (pd', ex') \<Longrightarrow> feed_view ex' = feed_view ex" by simp_all
qed

text \<open>The loop's own flag, the status every consumer reads and the tracker agree on whether the feed is stale; no
  tick is ever seen as stale; the returned clip count lags the monitor's by the open report interval; the display
  holds the last five rejections.\<close>

definition feed_agrees :: "('p, 'd) session \<Rightarrow> bool" where
  "feed_agrees s \<longleftrightarrow>
     is_stale (market_status (ss_executor s)) = market_stale s \<and> (open_from (ss_tracker s) \<noteq> None) = market_stale s \<and>
     (market_stale_since s \<noteq> None) = market_stale s \<and> stale_since (market_status (ss_executor s)) = market_stale_since s \<and>
     stale_ticks (ss_tracker s) = 0 \<and> fresh_ticks (ss_tracker s) = ticks_processed s"

definition counts_agree :: "('p, 'd) session \<Rightarrow> bool" where
  "counts_agree s \<longleftrightarrow>
     ticks_clipped s + interval_clipped (ss_clipping s) = cm_ticks_clipped (ss_clipping s) \<and>
     total_ticks (ss_clipping s) \<le> ticks_processed s \<and>
     0 \<le> rejection_count s \<and> map re_seq (recent_rejections s) = [max 1 (rejection_count s - 4)..rejection_count s]"

definition loop_inv :: "('p, 'd) session \<Rightarrow> bool" where
  "loop_inv s \<longleftrightarrow> feed_agrees s \<and> counts_agree s"

lemma drop_upto: "drop k [a..b] = [a + int k..b]"
proof (induction k arbitrary: a)
  case (Suc k)
  show ?case
  proof (cases "a \<le> b")
    case True
    then show ?thesis using Suc [of "a + 1"] by (simp add: upto_rec1 [of a b] algebra_simps)
  qed simp
qed simp

lemma deque_append_map: "map f (deque_append n xs x) = deque_append n (map f xs) (f x)"
  by (simp add: deque_append_def drop_map)

lemma five_newest:
  assumes "0 \<le> n" and "map re_seq l = [max 1 (n - 4)..n]" and "re_seq e = n + 1"
  shows "map re_seq (deque_append 5 l e) = [max 1 (n - 3)..n + 1]"
proof -
  have "[max 1 (n - 4)..n] @ [n + 1] = [max 1 (n - 4)..n + 1]" using upto_rec2 [of "max 1 (n - 4)" "n + 1"] assms(1) by simp
  moreover have "length l = nat (n - max 1 (n - 4) + 1)" using arg_cong [OF assms(2), of length] by simp
  moreover have "max 1 (n - 4) + int (Suc (nat (n - max 1 (n - 4) + 1)) - 5) = max 1 (n - 3)" using assms(1) by linarith
  ultimately show ?thesis by (simp add: deque_append_map assms(2,3)) (simp add: deque_append_def drop_upto)
qed

lemma executed_keeps:
  assumes "execute_and_record P d t s = Inr (r, s')" and "pipeline_calm P"
  shows "feed_agrees s \<Longrightarrow> feed_agrees s'" "counts_agree s \<Longrightarrow> counts_agree s'"
    and "market_stale s' = market_stale s" "safety_blocked s' = safety_blocked s"
    and "feed_view (ss_executor s') = feed_view (ss_executor s)"
proof -
  from assms(1) obtain pd ex n l where
    e: "pl_execute P (override_action s d) t (ss_pipeline s) (ss_executor s) = Inr (r, pd, ex)"
    and s': "s' = s\<lparr>ss_pipeline := pd, ss_executor := ex, rejection_count := n, recent_rejections := l\<rparr>"
    and nl: "(n, l) = (rejection_count s, recent_rejections s) \<or> n = rejection_count s + 1 \<and>
      (\<exists>e. re_seq e = rejection_count s + 1 \<and> re_side e = dc_action (override_action s d) \<and>
           l = deque_append 5 (recent_rejections s) e)"
    by (rule recorded_cases)
  have v: "feed_view ex = feed_view (ss_executor s)" by (rule pipeline_calmD(1) [OF assms(2) e])
  then show "feed_agrees s \<Longrightarrow> feed_agrees s'" by (simp add: feed_agrees_def s' feed_view_def)
  show "counts_agree s \<Longrightarrow> counts_agree s'" using nl by (auto simp: counts_agree_def s' five_newest)
  show "market_stale s' = market_stale s" "safety_blocked s' = safety_blocked s" "feed_view (ss_executor s') = feed_view (ss_executor s)"
    using v by (simp_all add: s')
qed

lemma on_pipeline_keeps:
  assumes "feed_view (snd (f (ss_pipeline s) (ss_executor s))) = feed_view (ss_executor s)"
  shows "feed_agrees (on_pipeline f s) = feed_agrees s" "feed_view (ss_executor (on_pipeline f s)) = feed_view (ss_executor s)"
  using assms by (simp_all add: feed_agrees_def on_pipeline_def feed_view_def case_prod_beta)

lemma on_pipeline_frame [simp]:
  "counts_agree (on_pipeline f s) = counts_agree s" "market_stale (on_pipeline f s) = market_stale s"
  "safety_blocked (on_pipeline f s) = safety_blocked s" "ss_clipping (on_pipeline f s) = ss_clipping s"
  "ticks_processed (on_pipeline f s) = ticks_processed s"
  "last_real_tick_wall_time (on_pipeline f s) = last_real_tick_wall_time s"
  "ss_tracker (on_pipeline f s) = ss_tracker s" "ticks_clipped (on_pipeline f s) = ticks_clipped s"
  by (simp_all add: counts_agree_def on_pipeline_def case_prod_beta)

lemma pipeline_calls:
  assumes "pipeline_calm P"
  shows "feed_agrees (drain_decision_events P s) = feed_agrees s" "feed_agrees (on_pipeline (pl_reconcile P n) s) = feed_agrees s"
    "feed_agrees (on_pipeline (pl_process_signals P now) s) = feed_agrees s"
    "feed_view (ss_executor (drain_decision_events P s)) = feed_view (ss_executor s)"
    "feed_view (ss_executor (on_pipeline (pl_reconcile P n) s)) = feed_view (ss_executor s)"
    "feed_view (ss_executor (on_pipeline (pl_process_signals P now) s)) = feed_view (ss_executor s)"
  using assms by (simp_all add: drain_decision_events_def on_pipeline_keeps pipeline_calm_def)

lemma drain_frame [simp]:
  "counts_agree (drain_decision_events P s) = counts_agree s" "market_stale (drain_decision_events P s) = market_stale s"
  "safety_blocked (drain_decision_events P s) = safety_blocked s" "ss_clipping (drain_decision_events P s) = ss_clipping s"
  "ticks_processed (drain_decision_events P s) = ticks_processed s"
  by (simp_all add: drain_decision_events_def)

lemma close_tick_keeps:
  "feed_agrees (close_tick rd delta s) = feed_agrees s" "market_stale (close_tick rd delta s) = market_stale s"
  "safety_blocked (close_tick rd delta s) = safety_blocked s"
  by (simp_all add: feed_agrees_def close_tick_def Let_def case_prod_beta)

lemma close_tick_counts:
  assumes "counts_agree s" and "total_ticks (ss_clipping s) < ticks_processed s"
  shows "counts_agree (close_tick rd delta s)"
  using assms
  by (auto simp: counts_agree_def close_tick_def Let_def case_prod_beta get_periodic_report_def record_queue_depth_def
      record_tick_def count_processing_def count_clipped_def)

lemma executed_counters:
  assumes "execute_and_record P d t s = Inr (r, s')"
  shows "ss_clipping s' = ss_clipping s" "ticks_processed s' = ticks_processed s"
    "last_real_tick_wall_time s' = last_real_tick_wall_time s"
  by (rule recorded_cases [OF assms], simp)+

lemma agree_pipeline [simp]:
  "feed_agrees (s\<lparr>ss_pipeline := pd\<rparr>) = feed_agrees s" "counts_agree (s\<lparr>ss_pipeline := pd\<rparr>) = counts_agree s"
  "feed_agrees (check_safety cfg v b s) = feed_agrees s" "counts_agree (check_safety cfg v b s) = counts_agree s"
  by (simp_all add: feed_agrees_def counts_agree_def)

subsection \<open>A tick\<close>

lemma broker_path_inv:
  assumes "broker_path ad cfg rd t (start_tick P t s) = Inr s'" and "feed_agrees s" "counts_agree s"
  shows "feed_agrees s'" "counts_agree s'" "\<not> market_stale s'" "total_ticks (ss_clipping s') < ticks_processed s'"
    "clock_time (ss_executor s') = Some (tick_timestamp t)"
proof -
  define s0 where "s0 = start_tick P t s"
  have s0: "ss_executor s0 = ss_executor s" "market_stale s0 = market_stale s" "market_stale_since s0 = market_stale_since s"
    "ss_tracker s0 = ss_tracker s" "ticks_processed s0 = ticks_processed s + 1" "ss_clipping s0 = ss_clipping s"
    "ticks_clipped s0 = ticks_clipped s" "rejection_count s0 = rejection_count s" "recent_rejections s0 = recent_rejections s"
    by (simp_all add: s0_def start_tick_def)
  from assms(1) obtain ex where ex: "live_on_tick ad t (ss_executor s) = Inr ex"
    by (auto simp: broker_path_def s0_def [symmetric] s0)
  note v = tick_view [OF ex, unfolded feed_view_def]
  define s2 where "s2 = (if market_stale s then end_market_stale_episode (s0\<lparr>ss_executor := ex\<rparr>) else s0\<lparr>ss_executor := ex\<rparr>)"
  have fresh: "\<not> is_stale (market_status (ss_executor s2))" "clock_time (ss_executor s2) = Some (tick_timestamp t)"
    "stale_since (market_status (ss_executor s2)) = None" "\<not> market_stale s2" "market_stale_since s2 = None"
    using v assms(2)
    by (auto simp: s2_def s0 feed_agrees_def end_market_stale_episode_def set_market_data_status_def fresh_status_def)
  have keeps: "ss_tracker s2 = ss_tracker s" "ticks_processed s2 = ticks_processed s + 1" "ss_clipping s2 = ss_clipping s"
    "ticks_clipped s2 = ticks_clipped s" "rejection_count s2 = rejection_count s" "recent_rejections s2 = recent_rejections s"
    by (simp_all add: s2_def s0 end_market_stale_episode_def)
  let ?s3 = "s2\<lparr>ss_tracker := tracker_on_tick (rd_wall rd) (tick_timestamp t) False (rd_outage_label rd) (ss_tracker s)\<rparr>"
  have t: "feed_agrees ?s3" "counts_agree ?s3" using assms(2,3) fresh keeps
    by (auto simp: feed_agrees_def counts_agree_def split: option.splits)
  have "s' = ?s3 \<or> (\<exists>e. s' = ?s3\<lparr>initial_spot_equity := e\<rparr>)"
    using assms(1) fresh(1,2) keeps(1) unfolding broker_path_def s0_def [symmetric]
    by (auto simp: s0 ex s2_def [symmetric] get_current_time_def Let_def split: if_splits)
  then show "feed_agrees s'" "counts_agree s'" "total_ticks (ss_clipping s') < ticks_processed s'"
    "\<not> market_stale s'" "clock_time (ss_executor s') = Some (tick_timestamp t)"
    using t fresh keeps assms(3) by (auto simp: feed_agrees_def counts_agree_def)
qed

lemma agree_executor:
  "feed_view ex = feed_view (ss_executor s) \<Longrightarrow> feed_agrees (s\<lparr>ss_pipeline := pd, ss_executor := ex\<rparr>) = feed_agrees s"
  "counts_agree (s\<lparr>ss_pipeline := pd, ss_executor := ex\<rparr>) = counts_agree s"
  by (simp_all add: feed_agrees_def counts_agree_def feed_view_def)

lemma algo_path_inv:
  assumes "algo_path P cfg t s = Inr s'" and "pipeline_calm P"
  shows "feed_agrees s \<Longrightarrow> feed_agrees s'" "counts_agree s \<Longrightarrow> counts_agree s'" "market_stale s' = market_stale s"
    "ss_clipping s' = ss_clipping s" "ticks_processed s' = ticks_processed s"
    "feed_view (ss_executor s') = feed_view (ss_executor s)"
proof -
  from assms(1) obtain d pd ex r where a: "pl_algo P t (ss_pipeline s) (ss_executor s) = Inr (d, pd, ex)"
    and x: "execute_and_record P d (Some t)
        (check_safety cfg (safety_value cfg t (s\<lparr>ss_pipeline := pd, ss_executor := ex\<rparr>))
          (safety_baseline cfg (s\<lparr>ss_pipeline := pd, ss_executor := ex\<rparr>)) (s\<lparr>ss_pipeline := pd, ss_executor := ex\<rparr>)) = Inr (r, s')"
    by (auto simp: algo_path_def Let_def)
  have v: "feed_view ex = feed_view (ss_executor s)" by (rule pipeline_calmD(2) [OF assms(2) a])
  show "feed_agrees s \<Longrightarrow> feed_agrees s'" "counts_agree s \<Longrightarrow> counts_agree s'" "market_stale s' = market_stale s"
    "ss_clipping s' = ss_clipping s" "ticks_processed s' = ticks_processed s"
    "feed_view (ss_executor s') = feed_view (ss_executor s)"
    using executed_keeps [OF x assms(2)] executed_counters [OF x] v by (simp_all add: agree_executor)
qed

lemma tick_cases:
  assumes "process_loop_tick P ad cfg rd t s = Inr (stop, s')"
  obtains s1 s2 where "broker_path ad cfg rd t (start_tick P t s) = Inr s1" "algo_path P cfg t s1 = Inr s2"
    "s' = drain_decision_events P s2 \<or>
      (\<exists>n pd. s' = close_tick rd (tick_delta_ms t s)
        ((on_pipeline (pl_reconcile P n) (drain_decision_events P s2))\<lparr>ss_pipeline := pd\<rparr>))"
  using assms by (auto simp: process_loop_tick_def Let_def split: if_splits)

lemma tick_inv:
  assumes "process_loop_tick P ad cfg rd t s = Inr (stop, s')" and "pipeline_calm P" and "loop_inv s"
  shows "loop_inv s'" "\<not> market_stale s'" "clock_time (ss_executor s') = Some (tick_timestamp t)"
proof -
  from assms(1) obtain s1 s2 where 1: "broker_path ad cfg rd t (start_tick P t s) = Inr s1" and 2: "algo_path P cfg t s1 = Inr s2"
    and s': "s' = drain_decision_events P s2 \<or>
      (\<exists>n pd. s' = close_tick rd (tick_delta_ms t s)
        ((on_pipeline (pl_reconcile P n) (drain_decision_events P s2))\<lparr>ss_pipeline := pd\<rparr>))"
    by (rule tick_cases)
  note b = broker_path_inv [OF 1] and a = algo_path_inv [OF 2 assms(2)] and d = pipeline_calls [OF assms(2)]
  from assms(3) have "feed_agrees s" "counts_agree s" by (simp_all add: loop_inv_def)
  with a b have ok: "feed_agrees s2" "counts_agree s2" "\<not> market_stale s2" "total_ticks (ss_clipping s2) < ticks_processed s2"
    "clock_time (ss_executor s2) = Some (tick_timestamp t)" by (auto simp: feed_view_def)
  from s' show "loop_inv s'"
    using ok by (auto simp: loop_inv_def d close_tick_keeps intro!: close_tick_counts)
  from s' show "\<not> market_stale s'" using ok by (auto simp: close_tick_keeps)
  have "ss_executor (close_tick rd x u) = ss_executor u" for x and u :: "('a, 'b) session"
    by (simp add: close_tick_def Let_def case_prod_beta)
  with s' d(4,5) [unfolded feed_view_def] show "clock_time (ss_executor s') = Some (tick_timestamp t)" using ok by auto
qed

subsection \<open>An idle round\<close>

text \<open>The feed has been silent for longer than the configured limit, counted from the last completed tick.\<close>

definition silent_too_long :: "loop_config \<Rightarrow> readings \<Rightarrow> ('p, 'd) session \<Rightarrow> bool" where
  "silent_too_long cfg rd s \<longleftrightarrow>
     0 < lc_stale_after_s cfg \<and> 0 < last_real_tick_wall_time s \<and>
     last_real_tick_wall_time s + lc_stale_after_s cfg < rd_wall rd"

lemma mark_stale_result:
  assumes "clock_time (ss_executor s) = Some now"
  obtains status ex where "is_stale status"
    and "stale_since status = (if market_stale s then market_stale_since s else Some now)"
    and "ex = (ss_executor s)\<lparr>market_status := status\<rparr>"
    and "mark_stale P rd secs s =
      (let s2 = s\<lparr>market_stale := True, market_stale_since := stale_since status,
                  ss_tracker := tracker_on_heartbeat (rd_wall rd) now True (rd_outage_label rd) (ss_tracker s)\<rparr>
       in if market_stale s then Inr (s2\<lparr>ss_executor := ex\<rparr>)
          else let (pd, ex') = pl_on_stale P status (ss_pipeline s) ex in Inr (s2\<lparr>ss_pipeline := pd, ss_executor := ex'\<rparr>))"
proof -
  let ?st = "\<lparr>is_stale = True, stale_since = if market_stale s then market_stale_since s else Some now,
      seconds_since_last_tick = secs, reconnect_count = last_reconnect_count s\<rparr>"
  have "s\<lparr>market_stale := True, market_stale_since := market_stale_since s\<rparr> = s" if "market_stale s"
    using that by (cases s) simp
  then show thesis
    using assms
    by (intro that [where status = ?st and ex = "(ss_executor s)\<lparr>market_status := ?st\<rparr>"])
       (auto simp: mark_stale_def get_current_time_def set_market_data_status_def Let_def case_prod_beta
         intro!: session.equality)
qed

lemma mark_stale_inv:
  assumes "mark_stale P rd secs s = Inr s'" and "pipeline_calm P" and "feed_agrees s" "clock_time (ss_executor s) \<noteq> None"
  shows "feed_agrees s'" "counts_agree s' = counts_agree s" "market_stale s'" "safety_blocked s' = safety_blocked s"
    "clock_time (ss_executor s') = clock_time (ss_executor s)"
proof -
  from assms(4) obtain now where now: "clock_time (ss_executor s) = Some now" by blast
  from now obtain status ex where st: "is_stale status"
    "stale_since status = (if market_stale s then market_stale_since s else Some now)"
    and ex: "ex = (ss_executor s)\<lparr>market_status := status\<rparr>"
    and m: "mark_stale P rd secs s =
      (let s2 = s\<lparr>market_stale := True, market_stale_since := stale_since status,
                  ss_tracker := tracker_on_heartbeat (rd_wall rd) now True (rd_outage_label rd) (ss_tracker s)\<rparr>
       in if market_stale s then Inr (s2\<lparr>ss_executor := ex\<rparr>)
          else let (pd, ex') = pl_on_stale P status (ss_pipeline s) ex in Inr (s2\<lparr>ss_pipeline := pd, ss_executor := ex'\<rparr>))"
    by (rule mark_stale_result [where P = P and rd = rd and secs = secs])
  obtain pd ex' where s': "s' = s\<lparr>market_stale := True, market_stale_since := stale_since status,
      ss_tracker := tracker_on_heartbeat (rd_wall rd) now True (rd_outage_label rd) (ss_tracker s),
      ss_pipeline := pd, ss_executor := ex'\<rparr>" and view: "feed_view ex' = feed_view ex"
  proof (cases "market_stale s")
    case True
    with assms(1) m show thesis by (intro that [of ex "ss_pipeline s"]) (auto intro!: session.equality)
  next
    case False
    obtain pd ex' where p: "pl_on_stale P status (ss_pipeline s) ex = (pd, ex')" by fastforce
    then have "feed_view ex' = feed_view ex" by (rule pipeline_calmD(4) [OF assms(2)])
    with False assms(1) m p show thesis by (intro that [of ex' pd]) simp_all
  qed
  have "stale_since status \<noteq> None" using st(2) assms(3) by (auto simp: feed_agrees_def)
  then show "feed_agrees s'" using assms(3) st(1) view
    by (auto simp: feed_agrees_def s' ex feed_view_def tracker_on_heartbeat_open split: option.splits)
  show "counts_agree s' = counts_agree s" "market_stale s'" "safety_blocked s' = safety_blocked s"
    by (simp_all add: counts_agree_def s')
  show "clock_time (ss_executor s') = clock_time (ss_executor s)" using view by (simp add: s' ex feed_view_def)
qed

lemma staleness_inv:
  assumes "evaluate_market_data_staleness P cfg rd s = Inr s'" and "pipeline_calm P"
    and "feed_agrees s" "clock_time (ss_executor s) \<noteq> None"
  shows "feed_agrees s'" "counts_agree s' = counts_agree s" "market_stale s' \<longleftrightarrow> market_stale s \<or> silent_too_long cfg rd s"
    "safety_blocked s' = safety_blocked s" "clock_time (ss_executor s') = clock_time (ss_executor s)"
proof -
  let ?s1 = "note_reconnects rd s"
  have keeps: "feed_agrees ?s1 = feed_agrees s" "counts_agree ?s1 = counts_agree s" "market_stale ?s1 = market_stale s"
    "safety_blocked ?s1 = safety_blocked s" "ss_executor ?s1 = ss_executor s"
    "last_real_tick_wall_time ?s1 = last_real_tick_wall_time s"
    by (simp_all add: note_reconnects_def feed_agrees_def counts_agree_def)
  consider "silent_too_long cfg rd s" "mark_stale P rd (rd_wall rd - last_real_tick_wall_time s) ?s1 = Inr s'"
    | "\<not> silent_too_long cfg rd s" "s' = ?s1"
    using assms(1) keeps(6)
    by (auto simp: evaluate_market_data_staleness_def silent_too_long_def Let_def not_le split: if_splits)
  then show "feed_agrees s'" "counts_agree s' = counts_agree s" "market_stale s' \<longleftrightarrow> market_stale s \<or> silent_too_long cfg rd s"
    "safety_blocked s' = safety_blocked s" "clock_time (ss_executor s') = clock_time (ss_executor s)"
    using assms(2-4) keeps by (cases; auto dest: mark_stale_inv)+
qed

lemma ghost_inv:
  assumes "run_decision_heartbeat P s = Inr s'" and "pipeline_calm P"
  shows "feed_agrees s \<Longrightarrow> feed_agrees s'" "counts_agree s \<Longrightarrow> counts_agree s'" "market_stale s' = market_stale s"
    "safety_blocked s' = safety_blocked s" "clock_time (ss_executor s') = clock_time (ss_executor s)"
proof -
  obtain d pd ex where g: "pl_ghost P (ss_pipeline s) (ss_executor s) = (d, pd, ex)" by (metis prod_cases3)
  have v: "feed_view ex = feed_view (ss_executor s)" by (rule pipeline_calmD(3) [OF assms(2) g])
  have "(feed_agrees s \<longrightarrow> feed_agrees s') \<and> (counts_agree s \<longrightarrow> counts_agree s') \<and> market_stale s' = market_stale s \<and>
    safety_blocked s' = safety_blocked s \<and> clock_time (ss_executor s') = clock_time (ss_executor s)"
  proof (cases d)
    case None
    with assms(1) g v show ?thesis by (auto simp: run_decision_heartbeat_def agree_executor) (simp add: feed_view_def)
  next
    case (Some d')
    with assms(1) g obtain r s2 n where
      x: "execute_and_record P d' None
        (s\<lparr>ss_pipeline := pd, ss_executor := ex, ghost_pass_count := ghost_pass_count s + 1\<rparr>) = Inr (r, s2)"
      and s': "s' = s2 \<or> s' = s2\<lparr>ghost_action_count := n\<rparr>"
      by (auto simp: run_decision_heartbeat_def Let_def split: if_splits)
    have same: "feed_agrees s' = feed_agrees s2" "counts_agree s' = counts_agree s2" "market_stale s' = market_stale s2"
      "safety_blocked s' = safety_blocked s2" "ss_executor s' = ss_executor s2"
      using s' by (auto simp: feed_agrees_def counts_agree_def)
    show ?thesis unfolding same using executed_keeps [OF x assms(2)] v by (simp add: feed_agrees_def counts_agree_def feed_view_def)
  qed
  then show "feed_agrees s \<Longrightarrow> feed_agrees s'" "counts_agree s \<Longrightarrow> counts_agree s'" "market_stale s' = market_stale s"
    "safety_blocked s' = safety_blocked s" "clock_time (ss_executor s') = clock_time (ss_executor s)" by simp_all
qed

lemma idle_inv:
  assumes "process_idle P cfg rd s = Inr (stop, s')" and "pipeline_calm P" and "loop_inv s"
  shows "loop_inv s'" "market_stale s' \<longleftrightarrow> market_stale s \<or> \<not> rd_exhausted rd \<and> silent_too_long cfg rd s"
    "safety_blocked s' = safety_blocked s"
proof -
  have "loop_inv s' \<and> (market_stale s' \<longleftrightarrow> market_stale s \<or> \<not> rd_exhausted rd \<and> silent_too_long cfg rd s) \<and>
    safety_blocked s' = safety_blocked s"
  proof (cases "rd_exhausted rd")
    case True
    with assms show ?thesis by (simp add: process_idle_def)
  next
    case False
    with assms(1) obtain ex s1 n now pd' s3 where ex: "live_heartbeat (set_clock (rd_utc_now rd) (ss_executor s)) = Inr ex"
      and s1: "evaluate_market_data_staleness P cfg rd (s\<lparr>ss_executor := ex\<rparr>) = Inr s1"
      and s3: "run_decision_heartbeat P (drain_decision_events P
          (on_pipeline (pl_process_signals P now) (on_pipeline (pl_reconcile P n) s1))) = Inr s3"
      and s': "s' = s3\<lparr>ss_pipeline := pd'\<rparr>"
      by (auto simp: process_idle_def Let_def)
    from heartbeat_view [OF ex] have v: "market_status ex = market_status (ss_executor s)" "clock_time ex \<noteq> None"
      by (simp_all add: feed_view_def set_clock_def)
    have base: "feed_agrees (s\<lparr>ss_executor := ex\<rparr>)" "counts_agree (s\<lparr>ss_executor := ex\<rparr>)"
      using assms(3) v(1) by (simp_all add: loop_inv_def feed_agrees_def counts_agree_def)
    have "clock_time (ss_executor (s\<lparr>ss_executor := ex\<rparr>)) \<noteq> None" using v(2) by simp
    note e = staleness_inv [OF s1 assms(2) base(1) this]
    note g = ghost_inv [OF s3 assms(2)] and d = pipeline_calls [OF assms(2)]
    have "silent_too_long cfg rd (s\<lparr>ss_executor := ex\<rparr>) = silent_too_long cfg rd s" by (simp add: silent_too_long_def)
    with e g d base show ?thesis by (simp add: loop_inv_def s' False)
  qed
  then show "loop_inv s'" "market_stale s' \<longleftrightarrow> market_stale s \<or> \<not> rd_exhausted rd \<and> silent_too_long cfg rd s"
    "safety_blocked s' = safety_blocked s" by simp_all
qed

subsection \<open>Sessions\<close>

lemma loop_inv_init:
  "\<not> is_stale (market_status ex) \<Longrightarrow> stale_since (market_status ex) = None \<Longrightarrow>
   loop_inv (session_init ex d src (new_clipping_monitor i now))"
  by (simp add: loop_inv_def feed_agrees_def counts_agree_def session_init_def new_tracker_def new_clipping_monitor_def)

lemma round_inv:
  assumes "loop_round P ad cfg item s = Inr (stop, s')" and "pipeline_calm P" and "loop_inv s"
  shows "loop_inv s'"
    and "market_stale s' \<longleftrightarrow>
      (case item of (QTick t, rd) \<Rightarrow> False
       | (QSentinel, rd) \<Rightarrow> market_stale s
       | (QEmpty, rd) \<Rightarrow> market_stale s \<or> \<not> rd_exhausted rd \<and> silent_too_long cfg rd s)"
  using assms
  by (auto simp: loop_round_def split: prod.splits queue_item.splits dest: tick_inv idle_inv)

lemma rounds_inv:
  assumes "pipeline_calm P"
  shows "loop_rounds P ad cfg items s = Inr s' \<Longrightarrow> loop_inv s \<Longrightarrow> loop_inv s'"
proof (induction items arbitrary: s)
  case (Cons i items)
  from Cons.prems(1) obtain stop s1 where 1: "loop_round P ad cfg i s = Inr (stop, s1)"
    and "(if stop then Inr s1 else loop_rounds P ad cfg items s1) = Inr s'" by auto
  with Cons.IH [of s1] round_inv(1) [OF 1 assms Cons.prems(2)] show ?case by (auto split: if_splits)
qed simp

text \<open>A ghost pass obeys the verdict of the last tick.\<close>

lemma ghost_executes:
  assumes "run_decision_heartbeat P s = Inr s'" and "pl_ghost P (ss_pipeline s) (ss_executor s) = (Some d, pd, ex)"
  shows "\<exists>r. pl_execute P (if safety_blocked s then d\<lparr>dc_action := DL_FLAT\<rparr> else d) None pd ex =
      Inr (r, ss_pipeline s', ss_executor s')"
    and "safety_blocked s' = safety_blocked s"
proof -
  from assms obtain r s2 n where
    x: "execute_and_record P d None
      (s\<lparr>ss_pipeline := pd, ss_executor := ex, ghost_pass_count := ghost_pass_count s + 1\<rparr>) = Inr (r, s2)"
    and s': "s' = s2 \<or> s' = s2\<lparr>ghost_action_count := n\<rparr>"
    by (auto simp: run_decision_heartbeat_def Let_def split: if_splits)
  have same: "safety_blocked s' = safety_blocked s2" "ss_executor s' = ss_executor s2" "ss_pipeline s' = ss_pipeline s2"
    using s' by auto
  show "\<exists>r. pl_execute P (if safety_blocked s then d\<lparr>dc_action := DL_FLAT\<rparr> else d) None pd ex =
      Inr (r, ss_pipeline s', ss_executor s')"
    unfolding same by (rule recorded_cases [OF x]) (auto simp: override_action_def)
  show "safety_blocked s' = safety_blocked s" unfolding same by (rule recorded_cases [OF x]) simp
qed

lemma tick_executes:
  assumes "process_loop_tick P ad cfg rd t s = Inr (stop, s')" and "sf_enabled (lc_safety cfg)"
  obtains s1 d pd ex r pd' ex' where "broker_path ad cfg rd t (start_tick P t s) = Inr s1"
    and "pl_algo P t (ss_pipeline s1) (ss_executor s1) = Inr (d, pd, ex)"
    and "pl_execute P (if safety_blocked s' then d\<lparr>dc_action := DL_FLAT\<rparr> else d) (Some t) pd ex = Inr (r, pd', ex')"
    and "safety_blocked s' =
      breached cfg (safety_value cfg t (s1\<lparr>ss_executor := ex\<rparr>)) (safety_baseline cfg (s1\<lparr>ss_executor := ex\<rparr>))"
proof -
  from assms(1) obtain s1 s2 where 1: "broker_path ad cfg rd t (start_tick P t s) = Inr s1" and 2: "algo_path P cfg t s1 = Inr s2"
    and s': "s' = drain_decision_events P s2 \<or>
      (\<exists>n pd. s' = close_tick rd (tick_delta_ms t s)
        ((on_pipeline (pl_reconcile P n) (drain_decision_events P s2))\<lparr>ss_pipeline := pd\<rparr>))"
    by (rule tick_cases)
  have b: "safety_blocked s' = safety_blocked s2" using s' by (auto simp: close_tick_keeps)
  from 2 show thesis by (rule algo_path_executes) (use that [OF 1] b assms(2) in auto)
qed

text \<open>What \<open>run\<close> returns: every tick is counted, of the clipped ones only those of finished report intervals.\<close>

lemma run_loop_counts:
  assumes "run_loop P ad cfg items (session_init ex d src (new_clipping_monitor i now)) = Inr ((n, c), s')"
    and "pipeline_calm P" "\<not> is_stale (market_status ex)" "stale_since (market_status ex) = None"
  shows "n = fresh_ticks (ss_tracker s')" "stale_ticks (ss_tracker s') = 0"
    and "c + interval_clipped (ss_clipping s') = cm_ticks_clipped (ss_clipping s')"
proof -
  have init: "(session_init ex d src (new_clipping_monitor i now))\<lparr>ticks_processed := 0, ticks_clipped := 0, prev_msc := 0\<rparr>
    = session_init ex d src (new_clipping_monitor i now)" by (simp add: session_init_def)
  from assms(1) obtain s1 f where r: "loop_rounds P ad cfg items (session_init ex d src (new_clipping_monitor i now)) = Inr s1"
    and s': "s' = s1 \<or> s' = on_pipeline f s1" "n = ticks_processed s1" "c = ticks_clipped s1"
    by (auto simp: run_loop_def init case_prod_beta Let_def split: if_splits)
  have "loop_inv s1" by (rule rounds_inv [OF assms(2) r loop_inv_init [OF assms(3,4)]])
  then show "n = fresh_ticks (ss_tracker s')" "stale_ticks (ss_tracker s') = 0"
    "c + interval_clipped (ss_clipping s') = cm_ticks_clipped (ss_clipping s')"
    using s' by (auto simp: loop_inv_def feed_agrees_def counts_agree_def)
qed

text \<open>A session that ends before its first tick: the end event needs a time nothing has injected.\<close>

lemma empty_session_raises:
  assumes "clock_time ex = None" and "lc_dispatcher cfg"
  shows "run_loop P ad cfg [] (session_init ex d src mon) = Inl ClockNotInjectedError"
    and "run_loop P ad cfg ((QSentinel, rd) # items) (session_init ex d src mon) = Inl ClockNotInjectedError"
    and "rd_exhausted rd \<Longrightarrow> run_loop P ad cfg ((QEmpty, rd) # items) (session_init ex d src mon) = Inl ClockNotInjectedError"
  using assms
  by (simp_all add: run_loop_def loop_round_def process_idle_def get_current_time_def session_init_def)

end
