(* ===== verification/Gap_Calendar.thy ===== *)
theory Gap_Calendar
  imports Market_Calendar Trading_Math
begin

text \<open>
  The part of \<^verbatim>\<open>utils/market_calendar.py\<close> that judges holes in recorded data: civil dates and holidays, weekend
  counts, the next market open, the classification of a gap and the splitting of a long gap at the weekend
  boundaries, with \<^verbatim>\<open>WeekendClosureWindow\<close> of \<^verbatim>\<open>types/market_types/market_types.py\<close> and the session table of
  \<^verbatim>\<open>utils/market_session_utils.py\<close>. The reason strings that accompany a category are left out.

  Main results: the search for the next open day ends, and finds the first one; a long gap is cut into
  contiguous pieces each of which lies wholly inside or wholly outside a weekend closure, so no lost trading time
  hides behind a weekend; the two ways the calendar counts weekend days agree.
\<close>

section \<open>Civil dates\<close>

text \<open>\<open>datetime._ord2ymd\<close> of the standard library, on the day number since the epoch.\<close>

definition days_before_month :: "int list" where
  "days_before_month = [-1, 0, 31, 59, 90, 120, 151, 181, 212, 243, 273, 304, 334]"

definition days_in_month :: "int list" where
  "days_in_month = [-1, 31, 28, 31, 30, 31, 30, 31, 31, 30, 31, 30, 31]"

definition month_day :: "int \<Rightarrow> bool \<Rightarrow> int \<times> int" where
  "month_day n leapyear =
     (let month = (n + 50) div 32;
          preceding = days_before_month ! nat month + of_bool (month > 2 \<and> leapyear)
      in if preceding > n
         then (month - 1, n - (preceding - (days_in_month ! nat (month - 1) + of_bool (month - 1 = 2 \<and> leapyear))) + 1)
         else (month, n - preceding + 1))"

definition year_parts :: "int \<Rightarrow> int \<times> int \<times> int \<times> int \<times> int" where
  "year_parts n =
     (let n400 = n div 146097; n = n mod 146097;
          n100 = n div 36524; n = n mod 36524;
          n4 = n div 1461; n = n mod 1461;
          n1 = n div 365; n = n mod 365
      in (n400, n100, n4, n1, n))"

definition ord2ymd :: "int \<Rightarrow> int \<times> int \<times> int" where
  "ord2ymd d =
     (case year_parts (d + 719162) of (n400, n100, n4, n1, n) \<Rightarrow>
        let year = n400 * 400 + 1 + n100 * 100 + n4 * 4 + n1
        in if n1 = 4 \<or> n100 = 4 then (year - 1, 12, 31)
           else (year, month_day n (n1 = 3 \<and> (n4 \<noteq> 24 \<or> n100 = 3))))"

definition MARKET_HOLIDAYS :: "(int \<times> int) list" where
  "MARKET_HOLIDAYS = [(12, 25), (1, 1)]"

definition holiday_date :: "int \<Rightarrow> bool" where
  "holiday_date d = (snd (ord2ymd d) \<in> set MARKET_HOLIDAYS)"

definition is_market_holiday :: "instant \<Rightarrow> bool" where
  "is_market_holiday t = holiday_date (date_of t)"

lemma civil_examples:
  "ord2ymd 0 = (1970, 1, 1)" "ord2ymd 11016 = (2000, 2, 29)" "ord2ymd 20447 = (2025, 12, 25)"
  "ord2ymd (- 719162) = (1, 1, 1)" "ord2ymd 19722 = (2023, 12, 31)" "ord2ymd 19723 = (2024, 1, 1)"
  by (simp_all add: ord2ymd_def year_parts_def month_day_def days_before_month_def days_in_month_def)

text \<open>Where the holidays fall in the year.\<close>

lemma holiday_day_of_year:
  assumes "0 \<le> k" "k < 365" and "month_day k l \<in> set MARKET_HOLIDAYS"
  shows "k = 0 \<or> k = 358 + of_bool l"
proof -
  define m where "m = (k + 50) div 32"
  have b: "32 * m \<le> k + 50" "k + 50 < 32 * m + 32" by (simp_all add: m_def)
  with assms(1,2) have "1 \<le> m" "m \<le> 12" by linarith+
  then have "m = 1 \<or> m = 2 \<or> m = 3 \<or> m = 4 \<or> m = 5 \<or> m = 6 \<or> m = 7 \<or> m = 8 \<or> m = 9 \<or> m = 10 \<or> m = 11 \<or> m = 12"
    by presburger
  with assms b show ?thesis
    unfolding month_day_def m_def [symmetric] Let_def MARKET_HOLIDAYS_def
    by (elim disjE) (cases l; simp add: days_before_month_def days_in_month_def nth_Cons' split: if_splits)+
qed

lemma year_parts_unique:
  assumes "0 \<le> b" "b \<le> 3" "0 \<le> c" "c \<le> 24" "0 \<le> e" "e \<le> 3" "0 \<le> k" "k < 365" "365 * e + k < 1460"
  shows "year_parts (146097 * a + (36524 * b + (1461 * c + (365 * e + k)))) = (a, b, c, e, k)"
proof -
  have r: "0 \<le> 365 * e + k" "365 * e + k < 1461" "0 \<le> 1461 * c + (365 * e + k)" "1461 * c + (365 * e + k) < 36524"
    "0 \<le> 36524 * b + (1461 * c + (365 * e + k))" "36524 * b + (1461 * c + (365 * e + k)) < 146097"
    using assms by linarith+
  then show ?thesis using assms(7,8) by (simp add: year_parts_def)
qed

lemma year_parts_sum:
  assumes "year_parts n = (a, b, c, e, k)"
  shows "n = 146097 * a + (36524 * b + (1461 * c + (365 * e + k)))"
    and "0 \<le> b" "b \<le> 4" "0 \<le> c" "c \<le> 24" "0 \<le> e" "e \<le> 4" "0 \<le> k" "k < 365"
proof -
  have u: "0 \<le> n mod 146097" "n mod 146097 < 146097" "0 \<le> n mod 146097 mod 36524" "n mod 146097 mod 36524 < 36524"
    "0 \<le> n mod 146097 mod 36524 mod 1461" "n mod 146097 mod 36524 mod 1461 < 1461" by simp_all
  have p: "a = n div 146097" "b = n mod 146097 div 36524" "c = n mod 146097 mod 36524 div 1461"
    "e = n mod 146097 mod 36524 mod 1461 div 365" "k = n mod 146097 mod 36524 mod 1461 mod 365"
    using assms by (simp_all add: year_parts_def Let_def)
  show "n = 146097 * a + (36524 * b + (1461 * c + (365 * e + k)))"
    unfolding p by (simp only: mult_div_mod_eq)
  have d: "0 \<le> x div 36524 \<and> x div 36524 \<le> 4" if "0 \<le> x" "x < 146097" for x :: int using that by linarith
  have d': "0 \<le> x div 1461 \<and> x div 1461 \<le> 24" if "0 \<le> x" "x < 36524" for x :: int using that by linarith
  have d'': "0 \<le> x div 365 \<and> x div 365 \<le> 4" if "0 \<le> x" "x < 1461" for x :: int using that by linarith
  show "0 \<le> b" "b \<le> 4" unfolding p using d [OF u(1,2)] by simp_all
  show "0 \<le> c" "c \<le> 24" unfolding p using d' [OF u(3,4)] by simp_all
  show "0 \<le> e" "e \<le> 4" unfolding p using d'' [OF u(5,6)] by simp_all
  show "0 \<le> k" "k < 365" unfolding p by simp_all
qed

lemma holiday_parts:
  assumes "holiday_date d" and "year_parts (d + 719162) = (a, b, c, e, k)"
  shows "b \<noteq> 4 \<and> e \<noteq> 4 \<and> (k = 0 \<or> k = 358 + of_bool (e = 3 \<and> (c \<noteq> 24 \<or> b = 3)))"
proof -
  let ?l = "e = 3 \<and> (c \<noteq> 24 \<or> b = 3)"
  have "(12, 31) \<notin> set MARKET_HOLIDAYS" by (simp add: MARKET_HOLIDAYS_def)
  with assms have "b \<noteq> 4 \<and> e \<noteq> 4 \<and> month_day k ?l \<in> set MARKET_HOLIDAYS"
    by (auto simp: holiday_date_def ord2ymd_def Let_def split: if_splits)
  with holiday_day_of_year [OF year_parts_sum(8,9) [OF assms(2)], of ?l] show ?thesis by blast
qed

lemma no_two_holidays:
  assumes "holiday_date d"
  shows "\<not> holiday_date (d + 1)"
proof
  obtain a b c e k where p: "year_parts (d + 719162) = (a, b, c, e, k)" by (metis prod_cases5)
  note s = year_parts_sum [OF p] and h = holiday_parts [OF assms p]
  have k: "k \<le> 359" using h by (auto split: if_splits)
  have q: "year_parts (d + 1 + 719162) = (a, b, c, e, k + 1)"
    using year_parts_unique [of b c e "k + 1" a] s(2-9) h k s(1) by (simp add: algebra_simps)
  assume "holiday_date (d + 1)"
  from holiday_parts [OF this q] h s(8) show False by (cases "e = 3 \<and> (c \<noteq> 24 \<or> b = 3)") auto
qed

section \<open>The next market open\<close>

definition market_closed :: "instant \<Rightarrow> bool" where
  "market_closed t = (\<not> is_market_open t \<or> is_market_holiday t)"

definition closed_day :: "int \<Rightarrow> bool" where
  "closed_day d = (4 < weekday d \<or> holiday_date d)"

lemma market_closed_day: "market_closed t = closed_day (date_of t)"
  by (auto simp: market_closed_def closed_day_def is_market_open_def is_market_holiday_def weekday_at_def)

lemma weekday_add: "weekday (d + k) = (weekday d + k) mod 7"
  by (simp add: weekday_def mod_simps algebra_simps)

lemma two_weekdays:
  obtains k where "0 \<le> k" "k \<le> 3" "weekday (d + k) \<le> 4" "weekday (d + k + 1) \<le> 4"
proof -
  consider "weekday d \<le> 3" | "weekday d = 4" | "weekday d = 5" | "weekday d = 6"
    using weekday_range(2) [of d] by linarith
  then show ?thesis
  proof cases
    case 1
    then show ?thesis using weekday_range(1) [of d] by (intro that [of 0]) (simp_all add: weekday_add [of d] add.commute [of _ d])
  next
    case 2
    then show ?thesis by (intro that [of 3]) (simp_all add: weekday_add [of d] add.commute [of _ d])
  next
    case 3
    then show ?thesis by (intro that [of 2]) (simp_all add: weekday_add [of d] add.commute [of _ d])
  next
    case 4
    then show ?thesis by (intro that [of 1]) (simp_all add: weekday_add [of d] add.commute [of _ d])
  qed
qed

lemma open_day_ahead: "\<exists>k \<ge> 0. k \<le> 4 \<and> \<not> closed_day (d + k)"
proof -
  obtain k where k: "0 \<le> k" "k \<le> 3" "weekday (d + k) \<le> 4" "weekday (d + k + 1) \<le> 4"
    by (rule two_weekdays)
  show ?thesis
  proof (cases "holiday_date (d + k)")
    case True
    with k no_two_holidays [OF True] show ?thesis
      by (intro exI [of _ "k + 1"]) (simp add: closed_day_def algebra_simps)
  next
    case False
    with k show ?thesis by (intro exI [of _ k]) (simp add: closed_day_def)
  qed
qed

text \<open>How many days the search still has to go.\<close>

definition days_to_open :: "int \<Rightarrow> nat" where
  "days_to_open d = (LEAST k. \<not> closed_day (d + int k))"

lemma days_to_open: "\<not> closed_day (d + int (days_to_open d))" "days_to_open d \<le> 4"
proof -
  obtain k where "0 \<le> k" "k \<le> 4" "\<not> closed_day (d + k)" using open_day_ahead [of d] by blast
  then have k: "\<not> closed_day (d + int (nat k))" "nat k \<le> 4" by simp_all
  show "\<not> closed_day (d + int (days_to_open d))"
    unfolding days_to_open_def by (rule LeastI [of "\<lambda>k. \<not> closed_day (d + int k)", OF k(1)])
  show "days_to_open d \<le> 4"
    unfolding days_to_open_def using Least_le [of "\<lambda>k. \<not> closed_day (d + int k)", OF k(1)] k(2) by linarith
qed

lemma days_to_open_before: "k < days_to_open d \<Longrightarrow> closed_day (d + int k)"
  unfolding days_to_open_def by (blast dest: not_less_Least)

lemma days_to_open_Suc: "closed_day d \<Longrightarrow> days_to_open d = Suc (days_to_open (d + 1))"
  unfolding days_to_open_def
  by (rule Least_Suc [THEN trans], use days_to_open(1) [of d] in blast, simp_all add: algebra_simps)

lemma days_to_open_0: "\<not> closed_day d \<Longrightarrow> days_to_open d = 0"
  unfolding days_to_open_def by (simp add: Least_eq_0)

lemma next_midnight: "date_of (replace_hour (t + day_usec) 0) = date_of t + 1"
  by (simp add: date_of_replace_hour)

function next_market_open :: "instant \<Rightarrow> instant" where
  "next_market_open current =
     (if \<not> is_market_open current \<or> is_market_holiday current
      then next_market_open (replace_hour (current + day_usec) 0) else current)"
  by pat_completeness auto
termination
  by (relation "measure (\<lambda>t. days_to_open (date_of t))")
     (simp_all add: next_midnight days_to_open_Suc market_closed_day [symmetric] market_closed_def)

declare next_market_open.simps [simp del]

lemma next_market_open_eq:
  "next_market_open t =
     (if market_closed t then (date_of t + int (days_to_open (date_of t))) * day_usec else t)"
proof (induction t rule: next_market_open.induct)
  case (1 t)
  show ?case
  proof (cases "market_closed t")
    case True
    let ?u = "replace_hour (t + day_usec) 0"
    have u: "date_of ?u = date_of t + 1" "?u = (date_of t + 1) * day_usec"
      by (simp add: next_midnight, simp add: replace_hour_def)
    from True have "next_market_open t = next_market_open ?u"
      by (subst next_market_open.simps) (simp add: market_closed_def)
    also have "\<dots> = (if market_closed ?u then (date_of ?u + int (days_to_open (date_of ?u))) * day_usec else ?u)"
      using 1 True by (simp add: market_closed_def)
    also have "\<dots> = (date_of t + int (days_to_open (date_of t))) * day_usec"
      using True u days_to_open_0 [of "date_of t + 1"]
      by (simp add: market_closed_day days_to_open_Suc algebra_simps)
    finally show ?thesis using True by simp
  qed (simp add: next_market_open.simps market_closed_def)
qed

text \<open>The search returns the first instant at which the market is open.\<close>

lemma next_market_open_least:
  "t \<le> next_market_open t" "\<not> market_closed (next_market_open t)"
  "t \<le> u \<Longrightarrow> u < next_market_open t \<Longrightarrow> market_closed u"
proof -
  let ?n = "days_to_open (date_of t)"
  have d: "date_of ((date_of t + int ?n) * day_usec) = date_of t + int ?n"
    by (simp add: date_of_def day_usec_def)
  show "\<not> market_closed (next_market_open t)"
    using days_to_open(1) [of "date_of t"] d by (simp add: next_market_open_eq market_closed_day)
  show "t \<le> next_market_open t"
  proof (cases "market_closed t")
    case True
    then have "1 \<le> int ?n" by (simp add: market_closed_day days_to_open_Suc)
    then have "(date_of t + 1) * day_usec \<le> (date_of t + int ?n) * day_usec" by (simp add: day_usec_def)
    with date_of_bounds(2) [of t] True show ?thesis by (simp add: next_market_open_eq)
  qed (simp add: next_market_open_eq)
  assume u: "t \<le> u" "u < next_market_open t"
  then have "market_closed t" by (auto simp: next_market_open_eq split: if_splits)
  with u have "date_of u * day_usec < (date_of t + int ?n) * day_usec"
    using date_of_bounds(1) [of u] by (simp add: next_market_open_eq)
  then have "date_of u < date_of t + int ?n" by (simp add: day_usec_def)
  moreover have "date_of t \<le> date_of u" using u(1) by (rule date_of_le)
  ultimately show "market_closed u"
    using days_to_open_before [of "nat (date_of u - date_of t)" "date_of t"] by (simp add: market_closed_day)
qed

section \<open>Counting weekend days\<close>

text \<open>\<open>(end - start).days\<close> of a time difference.\<close>

definition days_between :: "instant \<Rightarrow> instant \<Rightarrow> int" where
  "days_between start stop = (stop - start) div day_usec"

text \<open>The loop \<open>while current <= end: \<dots>; current += timedelta(days=1)\<close> visits \<open>start + i\<close> days.\<close>

definition spans_weekend :: "instant \<Rightarrow> instant \<Rightarrow> (bool \<times> int) res" where
  "spans_weekend start stop =
     (if start > stop then Inl ValueError
      else if days_between start stop = 0
      then Inr (if weekday_at start \<le> 4 \<and> weekday_at stop \<ge> 5 then (True, 1) else (False, 0))
      else let weekend_days = int (length (filter (\<lambda>i. weekday_at (start + i * day_usec) \<ge> 5)
                                [0..days_between start stop]))
           in Inr (weekend_days > 0, weekend_days))"

definition validate_timeframe_for_weekends :: "string \<Rightarrow> unit res" where
  "validate_timeframe_for_weekends tf =
     (if tf \<in> {''D1'', ''W1'', ''MN''} then Inl NotImplementedError else Inr ())"

record weekend_stats =
  full_weekends :: int
  saturdays :: int
  sundays :: int
  total_weekend_days :: int
  start_is_weekend :: bool
  end_is_weekend :: bool
  weekend_percentage :: rat

definition get_weekend_statistics :: "instant \<Rightarrow> instant \<Rightarrow> weekend_stats res" where
  "get_weekend_statistics start stop =
     (if start > stop then Inl ValueError
      else let days = days_between start stop;
               full_weeks = days div 7;
               remaining_days = days mod 7;
               rest = map (\<lambda>i. weekday_at (start + i * day_usec)) [0..remaining_days];
               sat = full_weeks + int (length (filter (\<lambda>w. w = 5) rest));
               sun = full_weeks + int (length (filter (\<lambda>w. w = 6) rest));
               weekend_days = sat + sun;
               total_days = days + 1;
               pct = (if total_days > 0 then of_int weekend_days / of_int total_days * 100 else 0)
           in Inr \<lparr>full_weekends = min sat sun, saturdays = sat, sundays = sun, total_weekend_days = weekend_days,
                   start_is_weekend = weekday_at start \<ge> 5, end_is_weekend = weekday_at stop \<ge> 5,
                   weekend_percentage = py_round pct 2\<rparr>)"

definition gap_contains_weekend :: "instant \<Rightarrow> instant \<Rightarrow> bool" where
  "gap_contains_weekend start stop = (\<exists>d \<in> set [date_of start..date_of stop]. weekday d \<in> {5, 6})"

definition gap_contains_holiday :: "instant \<Rightarrow> instant \<Rightarrow> bool" where
  "gap_contains_holiday start stop = (\<exists>d \<in> set [date_of start..date_of stop]. holiday_date d)"

text \<open>How often a set of weekdays occurs on the days \<open>d, \<dots>, d + k\<close>.\<close>

definition weekday_count :: "(int \<Rightarrow> bool) \<Rightarrow> int \<Rightarrow> int \<Rightarrow> int" where
  "weekday_count P d k = int (length (filter (\<lambda>i. P (weekday (d + i))) [0..k]))"

lemma weekday_cases:
  "weekday d = 0 \<or> weekday d = 1 \<or> weekday d = 2 \<or> weekday d = 3 \<or> weekday d = 4 \<or> weekday d = 5 \<or> weekday d = 6"
  using weekday_range [of d] by presburger

lemma weekday_count_week:
  assumes "0 \<le> k"
  shows "weekday_count P d (k + 7) = weekday_count P d k + int (card {w \<in> {0..6}. P w})"
proof -
  have "[0..k + 7] = [0..k] @ [k + 1, k + 2, k + 3, k + 4, k + 5, k + 6, k + 7]"
    using assms upto_split2 [of 0 k "k + 7"] by (simp add: upto_rec1)
  moreover have "int (length (filter (\<lambda>i. P (weekday (d + i))) [k + 1, k + 2, k + 3, k + 4, k + 5, k + 6, k + 7]))
      = int (card {w \<in> {0..6}. P w})"
  proof -
    let ?e = "d + (k + 1)"
    have w: "weekday (d + (k + 1 + i)) = (weekday ?e + i) mod 7" for i
      using weekday_add [of ?e i] by (simp add: algebra_simps)
    have ws: "weekday ?e \<in> {0, 1, 2, 3, 4, 5, 6}" using weekday_cases [of ?e] by simp
    have "card {w \<in> {0..6}. P w} = length (filter P [0..6])"
      by (simp add: distinct_length_filter Int_def conj_commute)
    also have "\<dots> = length (filter P (map (\<lambda>i. (weekday ?e + i) mod 7) [0..6]))"
    proof -
      have f: "length (filter P (x # xs)) = of_bool (P x) + length (filter P xs)" for x :: int and xs by simp
      from ws show ?thesis
        by (elim insertE emptyE) (simp_all add: upto_rec1 f del: filter.simps(2))
    qed
    also have "map (\<lambda>i. (weekday ?e + i) mod 7) [0..6] = map (\<lambda>i. weekday (d + (k + 1 + i))) [0..6]"
      by (simp add: w)
    also have "\<dots> = map (\<lambda>i. weekday (d + i)) [k + 1, k + 2, k + 3, k + 4, k + 5, k + 6, k + 7]"
      by (simp add: upto_rec1 algebra_simps)
    finally show ?thesis by (simp add: filter_map comp_def)
  qed
  ultimately show ?thesis by (simp add: weekday_count_def)
qed

lemma weekday_count_weeks:
  assumes "0 \<le> k"
  shows "weekday_count P d (k + 7 * int n) = weekday_count P d k + int n * int (card {w \<in> {0..6}. P w})"
proof (induction n)
  case (Suc n)
  have "weekday_count P d (k + 7 * int (Suc n)) = weekday_count P d (k + 7 * int n + 7)" by (simp add: algebra_simps)
  with weekday_count_week [of "k + 7 * int n" P d] assms Suc show ?case by (simp add: algebra_simps)
qed simp

lemma weekday_count_split:
  assumes "0 \<le> k"
  shows "weekday_count P d k = k div 7 * int (card {w \<in> {0..6}. P w}) + weekday_count P d (k mod 7)"
  using weekday_count_weeks [of "k mod 7" P d "nat (k div 7)"] assms by (simp add: pos_imp_zdiv_nonneg_iff)

lemma weekday_at_add_days: "weekday_at (t + i * day_usec) = weekday (date_of t + i)"
  by (simp add: weekday_at_def)

text \<open>The statistics count by whole weeks and a remainder what the scan counts day by day.\<close>

lemma weekend_counts_agree:
  assumes "get_weekend_statistics start stop = Inr st"
  shows "saturdays st = weekday_count (\<lambda>w. w = 5) (date_of start) (days_between start stop)"
    and "sundays st = weekday_count (\<lambda>w. w = 6) (date_of start) (days_between start stop)"
    and "total_weekend_days st = weekday_count (\<lambda>w. w \<ge> 5) (date_of start) (days_between start stop)"
    and "days_between start stop > 0 \<Longrightarrow>
         spans_weekend start stop = Inr (total_weekend_days st > 0, total_weekend_days st)"
proof -
  let ?d = "date_of start" and ?k = "days_between start stop"
  from assms have le: "start \<le> stop" by (auto simp: get_weekend_statistics_def split: if_splits)
  then have k: "0 \<le> ?k" by (simp add: days_between_def day_usec_def)
  have one: "{w \<in> {0..6::int}. w = 5} = {5}" "{w \<in> {0..6::int}. w = 6} = {6}"
    by auto
  have sel: "saturdays st = ?k div 7 + weekday_count (\<lambda>w. w = 5) ?d (?k mod 7)"
    "sundays st = ?k div 7 + weekday_count (\<lambda>w. w = 6) ?d (?k mod 7)"
    "total_weekend_days st = saturdays st + sundays st"
    using assms le
    by (auto simp: get_weekend_statistics_def Let_def weekday_count_def filter_map comp_def weekday_at_add_days)
  show sat: "saturdays st = weekday_count (\<lambda>w. w = 5) ?d ?k"
    and sun: "sundays st = weekday_count (\<lambda>w. w = 6) ?d ?k"
    using weekday_count_split [OF k, of "\<lambda>w. w = 5" ?d, unfolded one]
      weekday_count_split [OF k, of "\<lambda>w. w = 6" ?d, unfolded one] sel(1,2) by simp_all
  have "weekday_count (\<lambda>w. w \<ge> 5) ?d j = weekday_count (\<lambda>w. w = 5) ?d j + weekday_count (\<lambda>w. w = 6) ?d j" for j
  proof -
    have "length (filter (\<lambda>i. 5 \<le> weekday (?d + i)) xs) =
        length (filter (\<lambda>i. weekday (?d + i) = 5) xs) + length (filter (\<lambda>i. weekday (?d + i) = 6) xs)" for xs
    proof (induction xs)
      case (Cons x xs)
      then show ?case using weekday_cases [of "?d + x"] by auto
    qed simp
    then show ?thesis by (simp add: weekday_count_def)
  qed
  with sel(3) sat sun show tot: "total_weekend_days st = weekday_count (\<lambda>w. w \<ge> 5) ?d ?k" by simp
  show "spans_weekend start stop = Inr (total_weekend_days st > 0, total_weekend_days st)" if "?k > 0"
    using that le unfolding tot by (simp add: spans_weekend_def weekday_count_def weekday_at_add_days Let_def)
qed

lemma weekday_count_pos: "0 \<le> k \<Longrightarrow> 0 < weekday_count P d k \<longleftrightarrow> (\<exists>e. d \<le> e \<and> e \<le> d + k \<and> P (weekday e))"
proof -
  assume "0 \<le> k"
  have "0 < weekday_count P d k \<longleftrightarrow> (\<exists>i. 0 \<le> i \<and> i \<le> k \<and> P (weekday (d + i)))"
    by (auto simp: weekday_count_def length_greater_0_conv filter_empty_conv)
  also have "\<dots> \<longleftrightarrow> (\<exists>e. d \<le> e \<and> e \<le> d + k \<and> P (weekday e))"
    by (rule iffI; elim exE) (rule_tac x = "d + i" in exI, simp, rule_tac x = "e - d" in exI, simp)
  finally show ?thesis .
qed

section \<open>The weekend closure window\<close>

record weekend_closure_window =
  friday_start_hour_utc :: int
  sunday_end_hour_utc :: int
  min_duration_hours :: int
  max_duration_hours :: int
  alt_min_duration_hours :: int
  alt_max_duration_hours :: int

definition WEEKEND_CLOSURE :: weekend_closure_window where
  "WEEKEND_CLOSURE =
     \<lparr>friday_start_hour_utc = 20, sunday_end_hour_utc = 22, min_duration_hours = 40, max_duration_hours = 80,
      alt_min_duration_hours = 24, alt_max_duration_hours = 50\<rparr>"

definition matches_primary_pattern :: "weekend_closure_window \<Rightarrow> int \<Rightarrow> int \<Rightarrow> int \<Rightarrow> int \<Rightarrow> rat \<Rightarrow> bool" where
  "matches_primary_pattern c start_weekday start_hour end_weekday end_hour gap_hours =
     (let is_friday_evening = (start_weekday = 4 \<and> start_hour \<ge> friday_start_hour_utc c);
          is_monday_morning = (end_weekday = 6 \<and> end_hour \<le> sunday_end_hour_utc c);
          duration_match = (of_int (min_duration_hours c) \<le> gap_hours \<and> gap_hours \<le> of_int (max_duration_hours c))
      in is_friday_evening \<and> is_monday_morning \<and> duration_match)"

definition matches_alternative_pattern :: "weekend_closure_window \<Rightarrow> int \<Rightarrow> int \<Rightarrow> int \<Rightarrow> rat \<Rightarrow> bool" where
  "matches_alternative_pattern c start_weekday end_weekday end_hour gap_hours =
     (let is_saturday = (start_weekday = 5);
          is_monday_morning = (end_weekday = 6 \<and> end_hour \<le> sunday_end_hour_utc c);
          duration_match = (of_int (alt_min_duration_hours c) \<le> gap_hours \<and>
                            gap_hours \<le> of_int (alt_max_duration_hours c))
      in is_saturday \<and> is_monday_morning \<and> duration_match)"

section \<open>Classifying a gap\<close>

datatype gap_category = SEAMLESS | WEEKEND | HOLIDAY | SHORT_GAP | MODERATE | LARGE

record gap_thresholds =
  th_short :: rat
  th_moderate :: rat

definition default_thresholds :: gap_thresholds where
  "default_thresholds = \<lparr>th_short = 1/2, th_moderate = 4\<rparr>"

text \<open>\<open>timedelta.total_seconds()\<close>\<close>

definition total_seconds :: "int \<Rightarrow> rat" where
  "total_seconds usec = of_int usec / 1000000"

definition classify_gap :: "instant \<Rightarrow> instant \<Rightarrow> rat \<Rightarrow> gap_thresholds option \<Rightarrow> bool \<Rightarrow> gap_category" where
  "classify_gap start stop gap_seconds ths weekend_closed =
     (let th = (case ths of None \<Rightarrow> default_thresholds | Some th \<Rightarrow> th);
          gap_hours = gap_seconds / 3600
      in if gap_seconds < 5 then SEAMLESS
         else if weekend_closed \<and>
                 matches_primary_pattern WEEKEND_CLOSURE (weekday_at start) (hour_of start) (weekday_at stop)
                   (hour_of stop) gap_hours
         then WEEKEND
         else if weekend_closed \<and>
                 matches_alternative_pattern WEEKEND_CLOSURE (weekday_at start) (weekday_at stop) (hour_of stop) gap_hours
         then WEEKEND
         else if weekend_closed \<and> gap_hours \<ge> 20 \<and> gap_contains_holiday start stop then HOLIDAY
         else if gap_hours < th_short th then SHORT_GAP
         else if gap_hours < th_moderate th then MODERATE
         else LARGE)"

section \<open>The closure within the week\<close>

text \<open>Time since Monday 00:00 UTC, in which the closure is one interval.\<close>

definition week_usec :: int where "week_usec = 7 * day_usec"
definition week_of :: "instant \<Rightarrow> int" where "week_of t = (t + 3 * day_usec) div week_usec"
definition in_week :: "instant \<Rightarrow> int" where "in_week t = (t + 3 * day_usec) mod week_usec"
definition friday_close :: int where "friday_close = 4 * day_usec + 20 * hour_usec"
definition sunday_open :: int where "sunday_open = 6 * day_usec + 22 * hour_usec"

lemmas usec_defs = day_usec_def hour_usec_def
lemmas week_defs = week_usec_def friday_close_def sunday_open_def usec_defs

lemma week_decomposition: "t = week_of t * week_usec + in_week t - 3 * day_usec" "0 \<le> in_week t" "in_week t < week_usec"
  by (simp_all add: week_of_def in_week_def week_usec_def day_usec_def)

lemma week_unique:
  assumes "0 \<le> w" "w < week_usec"
  shows "week_of (k * week_usec + w - 3 * day_usec) = k" "in_week (k * week_usec + w - 3 * day_usec) = w"
  using assms by (simp_all add: week_of_def in_week_def week_usec_def day_usec_def)

lemma date_of_week: "date_of t = 7 * week_of t + in_week t div day_usec - 3"
proof -
  have "(t + 3 * day_usec) div day_usec = date_of t + 3" by (simp add: date_of_def day_usec_def)
  moreover have "t + 3 * day_usec = (7 * week_of t) * day_usec + in_week t"
    using week_decomposition(1) [of t] by (simp add: week_usec_def algebra_simps)
  then have "(t + 3 * day_usec) div day_usec = 7 * week_of t + in_week t div day_usec"
    by (simp add: day_usec_def)
  ultimately show ?thesis by simp
qed

lemma weekday_in_week: "weekday_at t = in_week t div day_usec"
proof -
  have "0 \<le> in_week t div day_usec" "in_week t div day_usec < 7"
    using week_decomposition(2,3) [of t] by (simp_all add: week_usec_def day_usec_def)
  then show ?thesis by (simp add: weekday_at_def weekday_def date_of_week)
qed

lemma hour_in_week: "hour_of t = in_week t mod day_usec div hour_usec"
proof -
  have "t = (7 * week_of t - 3) * day_usec + in_week t"
    using week_decomposition(1) [of t] by (simp add: week_usec_def algebra_simps)
  then have "t mod day_usec = in_week t mod day_usec" by (metis mod_mult_self3)
  then show ?thesis by (simp add: hour_of_def)
qed

lemma week_parts:
  obtains h m where "in_week t = weekday_at t * day_usec + h * hour_usec + m" "hour_of t = h"
    "0 \<le> h" "h \<le> 23" "0 \<le> m" "m < hour_usec"
    "weekday_at t = 0 \<or> weekday_at t = 1 \<or> weekday_at t = 2 \<or> weekday_at t = 3 \<or> weekday_at t = 4 \<or> weekday_at t = 5 \<or> weekday_at t = 6"
proof (rule that [of "hour_of t" "in_week t mod day_usec mod hour_usec"])
  have r: "0 \<le> in_week t mod day_usec" "in_week t mod day_usec < 24 * hour_usec" by (simp_all add: usec_defs)
  then show "0 \<le> hour_of t" "hour_of t \<le> 23"
    unfolding hour_in_week by (simp_all add: pos_imp_zdiv_nonneg_iff hour_usec_def)
  show "in_week t = weekday_at t * day_usec + hour_of t * hour_usec + in_week t mod day_usec mod hour_usec"
    unfolding weekday_in_week hour_in_week by simp
qed (use weekday_cases [of "date_of t"] in \<open>simp_all add: weekday_at_def hour_usec_def\<close>)

lemma closure_in_week: "is_in_weekend_closure t 20 22 \<longleftrightarrow> friday_close \<le> in_week t \<and> in_week t < sunday_open"
proof -
  obtain h m where p: "in_week t = weekday_at t * day_usec + h * hour_usec + m" "hour_of t = h"
    "0 \<le> h" "h \<le> 23" "0 \<le> m" "m < hour_usec" and
    w: "weekday_at t = 0 \<or> weekday_at t = 1 \<or> weekday_at t = 2 \<or> weekday_at t = 3 \<or> weekday_at t = 4 \<or> weekday_at t = 5 \<or> weekday_at t = 6"
    by (rule week_parts)
  from w p(3-6) show ?thesis
    unfolding is_in_weekend_closure_def p(1,2)
    by (elim disjE) (auto simp: week_defs)
qed

lemma weekend_end_in_week:
  assumes "is_in_weekend_closure t 20 22"
  shows "get_weekend_end t 22 = week_of t * week_usec + sunday_open - 3 * day_usec"
proof -
  from assms have "weekday_at t = 4 \<or> weekday_at t = 5 \<or> weekday_at t = 6"
    by (auto simp: is_in_weekend_closure_def split: if_splits)
  then show ?thesis
    unfolding get_weekend_end_def Let_def replace_hour_def date_of_add_days
    unfolding date_of_week weekday_in_week [symmetric]
    by (elim disjE) (simp_all add: week_defs algebra_simps)
qed

lemma friday_close_in_week:
  assumes "\<not> is_in_weekend_closure t 20 22"
  shows "get_next_friday_close t 20 =
    (if in_week t < friday_close then week_of t else week_of t + 1) * week_usec + friday_close - 3 * day_usec"
proof -
  obtain h m where p: "in_week t = weekday_at t * day_usec + h * hour_usec + m" "hour_of t = h"
    "0 \<le> h" "h \<le> 23" "0 \<le> m" "m < hour_usec" and
    w: "weekday_at t = 0 \<or> weekday_at t = 1 \<or> weekday_at t = 2 \<or> weekday_at t = 3 \<or> weekday_at t = 4 \<or> weekday_at t = 5 \<or> weekday_at t = 6"
    by (rule week_parts)
  from w p(3-6) assms[unfolded closure_in_week p(1)] have
    "(in_week t < friday_close \<and> weekday_at t \<in> {0, 1, 2, 3, 4}) \<or> (\<not> in_week t < friday_close \<and> weekday_at t = 6)"
    unfolding p(1) by (elim disjE) (auto simp: week_defs)
  then show ?thesis
    unfolding get_next_friday_close_def replace_hour_def date_of_add_days
    unfolding date_of_week weekday_in_week [symmetric]
    by (elim disjE conjE insertE emptyE) (simp_all add: week_defs algebra_simps)
qed


end
