(* ===== verification/Coverage.thy ===== *)
theory Coverage
  imports Gap_Calendar Bars
begin

text \<open>
  What recorded data covers: the splitting of a long gap at weekend boundaries (\<^verbatim>\<open>utils/market_calendar.py\<close>), the gap
  detection of \<^verbatim>\<open>discoveries/data_coverage/data_coverage_report.py\<close> and the extraction of continuous regions of
  \<^verbatim>\<open>scenario/generator/splitters/continuous_region_extractor.py\<close>. The bars on disk are the list of their
  timestamps; the text of the report is left out.

  Main results: splitting keeps the whole gap and never mixes closure and trading time; the detected gaps are
  disjoint and ordered; regions and interrupting gaps together are exactly the recorded time range.
\<close>

section \<open>Splitting a gap\<close>

lemma same_week:
  assumes "k * week_usec - 3 * day_usec \<le> u" "u < (k + 1) * week_usec - 3 * day_usec"
  shows "week_of u = k" "in_week u = u - (k * week_usec - 3 * day_usec)"
  using week_unique [of "u - (k * week_usec - 3 * day_usec)" k] assms by (simp_all add: algebra_simps)

text \<open>Up to the boundary that ends it, a stretch of time is all closure or all trading.\<close>

lemma weekend_end_after:
  assumes "is_in_weekend_closure t 20 22"
  shows "t < get_weekend_end t 22"
    and "t \<le> u \<Longrightarrow> u < get_weekend_end t 22 \<Longrightarrow> is_in_weekend_closure u 20 22"
proof -
  note b = assms [unfolded closure_in_week] and e = weekend_end_in_week [OF assms] and d = week_decomposition(1) [of t]
  show "t < get_weekend_end t 22" using b d unfolding e by linarith
  assume u: "t \<le> u" "u < get_weekend_end t 22"
  have "0 \<le> friday_close" "sunday_open < week_usec" by (simp_all add: week_defs)
  with u b d have "week_of t * week_usec - 3 * day_usec \<le> u" "u < (week_of t + 1) * week_usec - 3 * day_usec"
    unfolding e by (simp_all add: algebra_simps)
  from same_week(2) [OF this] u b d show "is_in_weekend_closure u 20 22"
    unfolding closure_in_week e by linarith
qed

lemma friday_close_after:
  assumes "\<not> is_in_weekend_closure t 20 22"
  shows "t < get_next_friday_close t 20"
    and "t \<le> u \<Longrightarrow> u < get_next_friday_close t 20 \<Longrightarrow> \<not> is_in_weekend_closure u 20 22"
proof -
  note b = assms [unfolded closure_in_week] and e = friday_close_in_week [OF assms]
    and d = week_decomposition [of t]
  have c: "0 \<le> friday_close" "friday_close < sunday_open" "sunday_open < week_usec" by (simp_all add: week_defs)
  show "t < get_next_friday_close t 20"
    using b d c unfolding e by (auto simp: algebra_simps)
  assume u: "t \<le> u" "u < get_next_friday_close t 20"
  show "\<not> is_in_weekend_closure u 20 22"
  proof (cases "u < (week_of t + 1) * week_usec - 3 * day_usec")
    case True
    have "week_of t * week_usec - 3 * day_usec \<le> u" using u(1) d by linarith
    from same_week(2) [OF this True] u b d show ?thesis
      unfolding closure_in_week e by (auto split: if_splits)
  next
    case False
    with u d c have f: "\<not> in_week t < friday_close" unfolding e by (auto simp: algebra_simps split: if_splits)
    with u c have "u < (week_of t + 1 + 1) * week_usec - 3 * day_usec"
      unfolding e by (auto simp: algebra_simps)
    with False have "in_week u = u - ((week_of t + 1) * week_usec - 3 * day_usec)"
      by (intro same_week(2)) simp_all
    with u f show ?thesis unfolding closure_in_week e by auto
  qed
qed

function split_from :: "instant \<Rightarrow> instant \<Rightarrow> (instant \<times> instant) list" where
  "split_from current stop =
     (let fri_hour = friday_start_hour_utc WEEKEND_CLOSURE; sun_hour = sunday_end_hour_utc WEEKEND_CLOSURE in
      if current < stop then
        if is_in_weekend_closure current fri_hour sun_hour then
          let seg_end = min (get_weekend_end current sun_hour) stop
          in (current, seg_end) # split_from seg_end stop
        else
          let next_fri = get_next_friday_close current fri_hour
          in if next_fri < stop then (current, next_fri) # split_from next_fri stop
             else (current, stop) # split_from stop stop
      else [])"
  by pat_completeness auto
termination
proof (relation "measure (\<lambda>(current, stop). nat (stop - current))", goal_cases)
  case (2 current stop fri sun seg)
  then have "current < seg" using weekend_end_after(1) [of current] by (simp add: WEEKEND_CLOSURE_def)
  with 2 show ?case by simp
next
  case (3 current stop fri sun nxt)
  then have "current < nxt" using friday_close_after(1) [of current] by (simp add: WEEKEND_CLOSURE_def)
  with 3 show ?case by simp
qed simp_all

declare split_from.simps [simp del]

definition split_gap_at_market_boundaries :: "instant \<Rightarrow> instant \<Rightarrow> (instant \<times> instant) list" where
  "split_gap_at_market_boundaries start stop =
     (if total_seconds (stop - start) / 3600 \<le> of_int (max_duration_hours WEEKEND_CLOSURE) then [(start, stop)]
      else split_from start stop)"

text \<open>Consecutive nonempty pieces from \<open>a\<close> to \<open>b\<close>.\<close>

fun tiles :: "instant \<Rightarrow> instant \<Rightarrow> (instant \<times> instant) list \<Rightarrow> bool" where
  "tiles a b [] \<longleftrightarrow> a = b"
| "tiles a b ((s, e) # ps) \<longleftrightarrow> s = a \<and> s < e \<and> tiles e b ps"

definition closed_throughout :: "instant \<times> instant \<Rightarrow> bool" where
  "closed_throughout p \<longleftrightarrow> (\<forall>u. fst p \<le> u \<and> u < snd p \<longrightarrow> is_in_weekend_closure u 20 22)"

definition trading_throughout :: "instant \<times> instant \<Rightarrow> bool" where
  "trading_throughout p \<longleftrightarrow> (\<forall>u. fst p \<le> u \<and> u < snd p \<longrightarrow> \<not> is_in_weekend_closure u 20 22)"

lemma closure_hours [simp]:
  "friday_start_hour_utc WEEKEND_CLOSURE = 20" "sunday_end_hour_utc WEEKEND_CLOSURE = 22"
  by (simp_all add: WEEKEND_CLOSURE_def)

lemma split_from_end: "split_from stop stop = []"
  by (subst split_from.simps) (simp add: Let_def)

lemma split_from_pieces:
  "a \<le> b \<Longrightarrow> tiles a b (split_from a b) \<and> (\<forall>p \<in> set (split_from a b). closed_throughout p \<or> trading_throughout p)"
proof (induction a b rule: split_from.induct)
  case (1 a b)
  note IH = "1.IH" [OF refl refl, simplified closure_hours]
  consider (empty) "a = b" | (closed) "a < b" "is_in_weekend_closure a 20 22"
    | (open_) "a < b" "\<not> is_in_weekend_closure a 20 22"
    using "1.prems" by linarith
  then show ?case
  proof cases
    case empty
    then show ?thesis by (simp add: split_from_end)
  next
    case closed
    let ?e = "min (get_weekend_end a 22) b"
    have e: "a < ?e" "?e \<le> b" using closed weekend_end_after(1) [OF closed(2)] by auto
    moreover have "closed_throughout (a, ?e)"
      using weekend_end_after(2) [OF closed(2)] by (simp add: closed_throughout_def)
    moreover have "split_from a b = (a, ?e) # split_from ?e b"
      using closed by (subst split_from.simps) (simp add: Let_def)
    ultimately show ?thesis using IH(1) [OF closed refl e(2)] by simp
  next
    case open_
    let ?e = "min (get_next_friday_close a 20) b"
    have e: "a < ?e" "?e \<le> b" using open_ friday_close_after(1) [OF open_(2)] by auto
    moreover have "trading_throughout (a, ?e)"
      using friday_close_after(2) [OF open_(2)] by (simp add: trading_throughout_def)
    moreover have "split_from a b = (a, ?e) # split_from ?e b"
      using open_ by (subst split_from.simps) (simp add: Let_def)
    moreover have "tiles ?e b (split_from ?e b) \<and> (\<forall>p \<in> set (split_from ?e b). closed_throughout p \<or> trading_throughout p)"
    proof (cases "get_next_friday_close a 20 < b")
      case True
      with IH(2) [OF open_ refl True] show ?thesis by simp
    qed (simp add: split_from_end)
    ultimately show ?thesis by simp
  qed
qed

text \<open>After splitting, what is called a weekend is nothing but closure.\<close>

lemma long_gap_split:
  assumes "start < stop" and "80 * hour_usec < stop - start"
    and "p \<in> set (split_gap_at_market_boundaries start stop)"
    and "classify_gap (fst p) (snd p) (total_seconds (snd p - fst p)) ths True = WEEKEND"
  shows "closed_throughout p"
proof -
  have "\<not> total_seconds (stop - start) / 3600 \<le> of_int (max_duration_hours WEEKEND_CLOSURE)"
    using assms(2) by (simp add: total_seconds_def WEEKEND_CLOSURE_def hour_usec_def divide_simps flip: of_int_le_iff [where 'a = rat])
  then have s: "split_gap_at_market_boundaries start stop = split_from start stop"
    by (simp add: split_gap_at_market_boundaries_def)
  from assms(4) have "weekday_at (fst p) = 4 \<and> 20 \<le> hour_of (fst p) \<or> weekday_at (fst p) = 5"
    by (auto simp: classify_gap_def matches_primary_pattern_def matches_alternative_pattern_def Let_def split: if_splits)
  then have c: "is_in_weekend_closure (fst p) 20 22" by (auto simp: is_in_weekend_closure_def)
  have "fst p < snd p" if "tiles a b ps" "p \<in> set ps" for a b ps
    using that by (induction a b ps rule: tiles.induct) auto
  with split_from_pieces [of start stop] assms(1,3) have "closed_throughout p \<or> trading_throughout p" "fst p < snd p"
    by (auto simp: s)
  with c show ?thesis by (auto simp: trading_throughout_def)
qed

section \<open>Gap detection\<close>

record gap =
  gap_seconds :: rat
  category :: gap_category
  gap_start :: instant
  gap_end :: instant

record coverage_report =
  rp_weekend_closure :: bool
  rp_start_time :: "instant option"
  rp_end_time :: "instant option"
  gaps :: "gap list"
  gap_counts :: "(gap_category, int) dict"

definition new_report :: "bool \<Rightarrow> coverage_report" where
  "new_report w =
     \<lparr>rp_weekend_closure = w, rp_start_time = None, rp_end_time = None, gaps = [],
      gap_counts = [(SEAMLESS, 0), (WEEKEND, 0), (HOLIDAY, 0), (SHORT_GAP, 0), (MODERATE, 0), (LARGE, 0)]\<rparr>"

definition gap_of :: "bool \<Rightarrow> gap_thresholds \<Rightarrow> instant \<times> instant \<Rightarrow> gap" where
  "gap_of w th p =
     (let seg_seconds = total_seconds (snd p - fst p)
      in \<lparr>gap_seconds = seg_seconds, category = classify_gap (fst p) (snd p) seg_seconds (Some th) w,
          gap_start = fst p, gap_end = snd p\<rparr>)"

definition gaps_between :: "bool \<Rightarrow> gap_thresholds \<Rightarrow> rat \<Rightarrow> instant \<Rightarrow> instant \<Rightarrow> gap list" where
  "gaps_between w th gap_threshold_s prev_ts curr_ts =
     (let delta_s = total_seconds (curr_ts - prev_ts)
      in if delta_s > gap_threshold_s
         then map (gap_of w th)
                (if w then split_gap_at_market_boundaries prev_ts curr_ts else [(prev_ts, curr_ts)])
         else [])"

fun scan_gaps :: "bool \<Rightarrow> gap_thresholds \<Rightarrow> rat \<Rightarrow> instant list \<Rightarrow> gap list" where
  "scan_gaps w th limit (t # u # ts) = gaps_between w th limit t u @ scan_gaps w th limit (u # ts)"
| "scan_gaps w th limit _ = []"

text \<open>
  \<open>bars\<close> is the column of bar timestamps on disk, \<open>None\<close> when there is no bar file. The bounds are read before
  the column is sorted.
\<close>

definition detect_gaps_from_bars ::
  "string \<Rightarrow> gap_thresholds \<Rightarrow> instant list option \<Rightarrow> coverage_report \<Rightarrow> (gap list \<times> coverage_report) res" where
  "detect_gaps_from_bars granularity th bars rp =
     bind_res (get_minutes granularity) (\<lambda>minutes.
       let expected_interval_s = minutes * 60 in
       case bars of
         None \<Rightarrow> Inr ([], rp)
       | Some ts \<Rightarrow>
           let rp1 = (if ts = [] then rp else rp\<lparr>rp_start_time := Some (hd ts), rp_end_time := Some (last ts)\<rparr>)
           in if length ts < 2 then Inr ([], rp1)
              else Inr (scan_gaps (rp_weekend_closure rp) th (of_int (expected_interval_s * 2)) (sort ts), rp1))"

definition count_gap :: "gap \<Rightarrow> coverage_report \<Rightarrow> coverage_report" where
  "count_gap g rp =
     rp\<lparr>gaps := gaps rp @ [g],
        gap_counts := AList.update (category g) (get_default 0 (gap_counts rp) (category g) + 1) (gap_counts rp)\<rparr>"

definition analyze :: "string \<Rightarrow> gap_thresholds \<Rightarrow> instant list option \<Rightarrow> coverage_report \<Rightarrow> coverage_report res" where
  "analyze granularity th bars rp =
     bind_res (detect_gaps_from_bars granularity th bars rp) (\<lambda>(intra_gaps, rp1). Inr (fold count_gap intra_gaps rp1))"

definition has_issues :: "coverage_report \<Rightarrow> bool" where
  "has_issues rp = (get_default 0 (gap_counts rp) MODERATE + get_default 0 (gap_counts rp) LARGE > 0)"

section \<open>Regions\<close>

record region =
  rg_start :: instant
  rg_end :: instant
  following_gap :: "gap option"
  preceding_gap :: "gap option"

fun build_regions :: "gap list \<Rightarrow> instant \<Rightarrow> gap option \<Rightarrow> instant \<Rightarrow> region list" where
  "build_regions [] current_start preceding final_end =
     (if final_end > current_start
      then [\<lparr>rg_start = current_start, rg_end = final_end, following_gap = None, preceding_gap = preceding\<rparr>] else [])"
| "build_regions (g # gs) current_start preceding final_end =
     (if gap_start g \<le> current_start then build_regions gs (gap_end g) (Some g) final_end
      else (if gap_start g > current_start
            then [\<lparr>rg_start = current_start, rg_end = gap_start g, following_gap = Some g, preceding_gap = preceding\<rparr>]
            else [])
           @ build_regions gs (gap_end g) (Some g) final_end)"

definition interrupting_gaps :: "gap_category list \<Rightarrow> coverage_report \<Rightarrow> gap list" where
  "interrupting_gaps allowed rp = filter (\<lambda>g. category g \<notin> set allowed) (gaps rp)"

text \<open>A report without data has \<open>None\<close> bounds, and its one region has them too: \<open>Unbounded\<close> is a list of one region of
  which a bound is \<open>None\<close>. Comparing such a bound raises.\<close>

datatype extracted = Bounded "region list" | Unbounded "instant option" "instant option"

definition extract_full :: "gap_category list \<Rightarrow> coverage_report \<Rightarrow> extracted res" where
  "extract_full allowed rp =
     (let interrupting = interrupting_gaps allowed rp in
      case (rp_start_time rp, rp_end_time rp) of
        (Some s, Some e) \<Rightarrow>
          if interrupting = []
          then Inr (Bounded [\<lparr>rg_start = s, rg_end = e, following_gap = None, preceding_gap = None\<rparr>])
          else Inr (Bounded (build_regions (sort_key gap_start interrupting) s None e))
      | (s, e) \<Rightarrow> if interrupting = [] then Inr (Unbounded s e) else Inl TypeError)"

definition clip_region :: "instant option \<Rightarrow> instant option \<Rightarrow> region \<Rightarrow> region option" where
  "clip_region start_time end_time r =
     (let r_start = (case start_time of Some t \<Rightarrow> max (rg_start r) t | None \<Rightarrow> rg_start r);
          r_end = (case end_time of Some t \<Rightarrow> min (rg_end r) t | None \<Rightarrow> rg_end r)
      in if r_end > r_start then Some (r\<lparr>rg_start := r_start, rg_end := r_end\<rparr>) else None)"

text \<open>Clipping compares both bounds of a region, so it raises on an unbounded one.\<close>

definition clip_regions :: "instant option \<Rightarrow> instant option \<Rightarrow> extracted \<Rightarrow> extracted res" where
  "clip_regions start_time end_time x =
     (case x of
        Bounded regions \<Rightarrow> Inr (Bounded (List.map_filter (clip_region start_time end_time) regions))
      | Unbounded _ _ \<Rightarrow> Inl TypeError)"

definition extract_regions :: "gap_category list \<Rightarrow> coverage_report \<Rightarrow> instant option \<Rightarrow> instant option \<Rightarrow> extracted res" where
  "extract_regions allowed rp start_time end_time =
     bind_res (extract_full allowed rp) (\<lambda>regions.
       if start_time = None \<and> end_time = None then Inr regions else clip_regions start_time end_time regions)"

section \<open>Gaps and regions partition the recorded range\<close>

fun ordered_gaps :: "instant \<Rightarrow> gap list \<Rightarrow> bool" where
  "ordered_gaps a [] = True"
| "ordered_gaps a (g # gs) \<longleftrightarrow> a \<le> gap_start g \<and> gap_start g < gap_end g \<and> ordered_gaps (gap_end g) gs"

fun ordered_regions :: "instant \<Rightarrow> region list \<Rightarrow> bool" where
  "ordered_regions a [] = True"
| "ordered_regions a (r # rs) \<longleftrightarrow> a \<le> rg_start r \<and> rg_start r < rg_end r \<and> ordered_regions (rg_end r) rs"

definition in_gaps :: "gap list \<Rightarrow> instant \<Rightarrow> bool" where
  "in_gaps gs u \<longleftrightarrow> (\<exists>g \<in> set gs. gap_start g \<le> u \<and> u < gap_end g)"

definition in_regions :: "region list \<Rightarrow> instant \<Rightarrow> bool" where
  "in_regions rs u \<longleftrightarrow> (\<exists>r \<in> set rs. rg_start r \<le> u \<and> u < rg_end r)"

lemma in_spans_simps [simp]:
  "\<not> in_gaps [] u" "in_gaps (g # gs) u \<longleftrightarrow> gap_start g \<le> u \<and> u < gap_end g \<or> in_gaps gs u"
  "\<not> in_regions [] u" "in_regions (r # rs) u \<longleftrightarrow> rg_start r \<le> u \<and> u < rg_end r \<or> in_regions rs u"
  by (simp_all add: in_gaps_def in_regions_def)

lemma ordered_gaps_weaken: "ordered_gaps b gs \<Longrightarrow> a \<le> b \<Longrightarrow> ordered_gaps a gs"
  by (cases gs) auto

lemma ordered_regions_weaken: "ordered_regions b rs \<Longrightarrow> a \<le> b \<Longrightarrow> ordered_regions a rs"
  by (cases rs) auto

lemma ordered_gaps_filter: "ordered_gaps a gs \<Longrightarrow> ordered_gaps a (filter P gs)"
proof (induction gs arbitrary: a)
  case (Cons g gs)
  then show ?case using ordered_gaps_weaken [of "gap_end g" "filter P gs" a] by simp
qed simp

lemma ordered_gaps_above: "ordered_gaps a gs \<Longrightarrow> g \<in> set gs \<Longrightarrow> a \<le> gap_start g"
  by (induction gs arbitrary: a) fastforce+

lemma ordered_gaps_sorted: "ordered_gaps a gs \<Longrightarrow> sorted (map gap_start gs)"
proof (induction gs arbitrary: a)
  case (Cons g gs)
  then show ?case using ordered_gaps_above [of "gap_end g" gs] by fastforce
qed simp

lemma gap_of_simps [simp]: "gap_start (gap_of w th p) = fst p" "gap_end (gap_of w th p) = snd p"
  by (simp_all add: gap_of_def Let_def)

lemma tiles_gaps:
  "tiles a b ps \<Longrightarrow> ordered_gaps b gs \<Longrightarrow> ordered_gaps a (map (gap_of w th) ps @ gs)"
  by (induction a b ps rule: tiles.induct) auto

lemma tiles_within: "tiles a b ps \<Longrightarrow> a \<le> b \<and> (\<forall>p \<in> set ps. snd p \<le> b)"
  by (induction a b ps rule: tiles.induct) auto

lemma split_gap_tiles: "start < stop \<Longrightarrow> tiles start stop (split_gap_at_market_boundaries start stop)"
  using split_from_pieces [of start stop] by (simp add: split_gap_at_market_boundaries_def)

lemma scan_gaps_ordered:
  assumes "0 \<le> limit" and "sorted ts" and "ts \<noteq> []"
  shows "ordered_gaps (hd ts) (scan_gaps w th limit ts) \<and> (\<forall>g \<in> set (scan_gaps w th limit ts). gap_end g \<le> last ts)"
  using assms(2,3)
proof (induction ts rule: induct_list012)
  case (3 t u ts)
  let ?rest = "scan_gaps w th limit (u # ts)"
  have IH: "ordered_gaps u ?rest" "\<forall>g \<in> set ?rest. gap_end g \<le> last (u # ts)" using 3 by simp_all
  have le: "t \<le> u" "u \<le> last (u # ts)" using 3 by (auto simp: sorted_iff_nth_mono last_conv_nth)
  show ?case
  proof (cases "total_seconds (u - t) > limit")
    case True
    then have "t < u" using assms(1) le(1) by (cases "t = u") (auto simp: total_seconds_def)
    define ps where "ps = (if w then split_gap_at_market_boundaries t u else [(t, u)])"
    have tl: "tiles t u ps" using \<open>t < u\<close> split_gap_tiles by (simp add: ps_def)
    have "scan_gaps w th limit (t # u # ts) = map (gap_of w th) ps @ ?rest"
      using True by (simp add: gaps_between_def Let_def ps_def)
    moreover have "ordered_gaps t (map (gap_of w th) ps @ ?rest)"
      by (rule tiles_gaps [OF tl IH(1)])
    moreover have "\<forall>g \<in> set (map (gap_of w th) ps). gap_end g \<le> last (u # ts)"
      using tiles_within [OF tl] le(2) by force
    ultimately show ?thesis using IH(2) by (simp del: scan_gaps.simps add: ball_Un)
  next
    case False
    then have "scan_gaps w th limit (t # u # ts) = ?rest" by (simp add: gaps_between_def Let_def)
    with IH le(1) show ?thesis by (auto intro: ordered_gaps_weaken)
  qed
qed simp_all

lemma build_regions_exact:
  assumes "ordered_gaps a gs" and "\<forall>g \<in> set gs. gap_end g \<le> e" and "a \<le> e"
  shows "ordered_regions a (build_regions gs a pre e)"
    and "\<forall>r \<in> set (build_regions gs a pre e). rg_end r \<le> e"
    and "a \<le> u \<Longrightarrow> u < e \<Longrightarrow> in_regions (build_regions gs a pre e) u \<longleftrightarrow> \<not> in_gaps gs u"
proof -
  have "ordered_regions a (build_regions gs a pre e) \<and> (\<forall>r \<in> set (build_regions gs a pre e). rg_end r \<le> e) \<and>
    (\<forall>u. a \<le> u \<and> u < e \<longrightarrow> (in_regions (build_regions gs a pre e) u \<longleftrightarrow> \<not> in_gaps gs u)) \<and>
    (\<forall>r \<in> set (build_regions gs a pre e). a \<le> rg_start r)"
    using assms
  proof (induction gs arbitrary: a pre)
    case (Cons g gs)
    let ?rs = "build_regions gs (gap_end g) (Some g) e"
    have g: "a \<le> gap_start g" "gap_start g < gap_end g" "gap_end g \<le> e" using Cons.prems by auto
    have IH: "ordered_regions (gap_end g) ?rs" "\<forall>r \<in> set ?rs. rg_end r \<le> e"
      "\<forall>r \<in> set ?rs. gap_end g \<le> rg_start r"
      "\<And>u. gap_end g \<le> u \<Longrightarrow> u < e \<Longrightarrow> in_regions ?rs u \<longleftrightarrow> \<not> in_gaps gs u"
      using Cons.IH [of "gap_end g" "Some g"] Cons.prems by auto
    have above: "in_gaps gs u \<Longrightarrow> gap_end g \<le> u" "in_regions ?rs u \<Longrightarrow> gap_end g \<le> u" for u
      using ordered_gaps_above [of "gap_end g" gs] Cons.prems(1) IH(3) by (fastforce simp: in_gaps_def in_regions_def)+
    have rs: "build_regions (g # gs) a pre e = (if gap_start g = a then ?rs
        else \<lparr>rg_start = a, rg_end = gap_start g, following_gap = Some g, preceding_gap = pre\<rparr> # ?rs)"
      using g(1) by auto
    have "in_regions (build_regions (g # gs) a pre e) u \<longleftrightarrow> \<not> in_gaps (g # gs) u" if "a \<le> u" "u < e" for u
    proof (cases "u < gap_end g")
      case True
      then have "\<not> in_regions ?rs u" "\<not> in_gaps gs u" using above [of u] by auto
      with True that g show ?thesis unfolding rs by auto
    next
      case False
      with that g IH(4) [of u] show ?thesis unfolding rs by auto
    qed
    moreover have "ordered_regions a (build_regions (g # gs) a pre e)"
      unfolding rs using g IH(1) ordered_regions_weaken [OF IH(1), of a] ordered_regions_weaken [OF IH(1), of "gap_start g"]
      by auto
    moreover have "\<forall>r \<in> set (build_regions (g # gs) a pre e). rg_end r \<le> e \<and> a \<le> rg_start r"
    proof
      fix r assume "r \<in> set (build_regions (g # gs) a pre e)"
      then consider "r \<in> set ?rs" | "rg_start r = a" "rg_end r = gap_start g" unfolding rs by (auto split: if_splits)
      then show "rg_end r \<le> e \<and> a \<le> rg_start r"
      proof cases
        case 1
        then have "rg_end r \<le> e" "gap_end g \<le> rg_start r" using IH(2,3) by simp_all
        with g show ?thesis by linarith
      qed (use g in simp)
    qed
    ultimately show ?case by blast
  qed auto
  then show "ordered_regions a (build_regions gs a pre e)" "\<forall>r \<in> set (build_regions gs a pre e). rg_end r \<le> e"
    and "a \<le> u \<Longrightarrow> u < e \<Longrightarrow> in_regions (build_regions gs a pre e) u \<longleftrightarrow> \<not> in_gaps gs u"
    by simp_all
qed

section \<open>The analysed report\<close>

lemma count_gap_frame [simp]:
  "rp_start_time (fold count_gap gs rp) = rp_start_time rp" "rp_end_time (fold count_gap gs rp) = rp_end_time rp"
  "gaps (fold count_gap gs rp) = gaps rp @ gs"
  by (induction gs arbitrary: rp) (simp_all add: count_gap_def)

lemma count_gap_counts:
  "get_default 0 (gap_counts (fold count_gap gs rp)) c =
   get_default 0 (gap_counts rp) c + int (length (filter (\<lambda>g. category g = c) gs))"
  by (induction gs arbitrary: rp) (simp_all add: count_gap_def get_default_update)

lemma get_minutes_pos: "get_minutes gran = Inr m \<Longrightarrow> 0 < m"
  by (auto simp: get_minutes_def get_timeframe_def timeframe_objects_def timeframe_registry_def
      split: option.splits if_splits)

lemma analyze_spec:
  assumes "analyze gran th (Some ts) (new_report w) = Inr rp" and "sorted ts" and "ts \<noteq> []"
  shows "rp_start_time rp = Some (hd ts)" "rp_end_time rp = Some (last ts)"
    and "ordered_gaps (hd ts) (gaps rp)" "\<forall>g \<in> set (gaps rp). gap_end g \<le> last ts"
    and "get_default 0 (gap_counts rp) c = int (length (filter (\<lambda>g. category g = c) (gaps rp)))"
proof -
  obtain m where m: "get_minutes gran = Inr m"
    using assms(1) by (cases "get_minutes gran") (auto simp: analyze_def detect_gaps_from_bars_def)
  define gs where "gs = (if length ts < 2 then [] else scan_gaps w th (of_int (m * 60 * 2)) ts)"
  let ?rp = "(new_report w)\<lparr>rp_start_time := Some (hd ts), rp_end_time := Some (last ts)\<rparr>"
  have rp: "rp = fold count_gap gs ?rp"
    using assms m by (auto simp: analyze_def detect_gaps_from_bars_def gs_def sorted_sort_id new_report_def Let_def)
  then show "rp_start_time rp = Some (hd ts)" "rp_end_time rp = Some (last ts)" by simp_all
  have gaps: "gaps rp = gs" using rp by (simp add: new_report_def)
  have "ordered_gaps (hd ts) gs \<and> (\<forall>g \<in> set gs. gap_end g \<le> last ts)"
    using scan_gaps_ordered [OF _ assms(2,3), of "of_int (m * 60 * 2)" w th] get_minutes_pos [OF m] by (simp add: gs_def)
  then show "ordered_gaps (hd ts) (gaps rp)" "\<forall>g \<in> set (gaps rp). gap_end g \<le> last ts"
    unfolding gaps by simp_all
  have "get_default 0 (gap_counts ?rp) c = 0" by (cases c) (simp_all add: new_report_def get_default_def)
  then show "get_default 0 (gap_counts rp) c = int (length (filter (\<lambda>g. category g = c) (gaps rp)))"
    unfolding gaps unfolding rp by (simp add: count_gap_counts)
qed

lemma has_issues_iff:
  assumes "analyze gran th (Some ts) (new_report w) = Inr rp" and "sorted ts" and "ts \<noteq> []"
  shows "has_issues rp \<longleftrightarrow> (\<exists>g \<in> set (gaps rp). category g = MODERATE \<or> category g = LARGE)"
proof -
  have "has_issues rp \<longleftrightarrow>
      filter (\<lambda>g. category g = MODERATE) (gaps rp) \<noteq> [] \<or> filter (\<lambda>g. category g = LARGE) (gaps rp) \<noteq> []"
  proof -
    have "0 < int (length xs) + int (length ys) \<longleftrightarrow> xs \<noteq> [] \<or> ys \<noteq> []" for xs ys :: "gap list"
      by (cases xs; cases ys) auto
    then show ?thesis unfolding has_issues_def analyze_spec(5) [OF assms] .
  qed
  then show ?thesis by (auto simp: filter_empty_conv)
qed

lemma extracted_regions:
  assumes "analyze gran th (Some ts) (new_report w) = Inr rp" and "sorted ts" and ne: "ts \<noteq> []" and "hd ts < last ts"
    and "extract_full allowed rp = Inr (Bounded rs)"
  shows "ordered_regions (hd ts) rs" "\<forall>r \<in> set rs. rg_end r \<le> last ts"
    and "hd ts \<le> u \<Longrightarrow> u < last ts \<Longrightarrow> in_regions rs u \<longleftrightarrow> \<not> in_gaps (interrupting_gaps allowed rp) u"
proof -
  note a = analyze_spec [OF assms(1,2) ne]
  let ?gs = "interrupting_gaps allowed rp"
  have g: "ordered_gaps (hd ts) ?gs" "\<forall>g \<in> set ?gs. gap_end g \<le> last ts"
    using a(3,4) by (auto simp: interrupting_gaps_def intro: ordered_gaps_filter)
  have srt: "sort_key gap_start ?gs = ?gs" by (rule sort_key_id_if_sorted [OF ordered_gaps_sorted [OF g(1)]])
  have rs: "rs = (if ?gs = [] then [\<lparr>rg_start = hd ts, rg_end = last ts, following_gap = None, preceding_gap = None\<rparr>]
      else build_regions ?gs (hd ts) None (last ts))"
    using assms(5) a(1,2) srt by (auto simp: extract_full_def Let_def)
  note b = build_regions_exact [OF g less_imp_le [OF assms(4)], where pre = None]
  show "ordered_regions (hd ts) rs" "\<forall>r \<in> set rs. rg_end r \<le> last ts" unfolding rs using b(1,2) assms(4) by auto
  show "in_regions rs u \<longleftrightarrow> \<not> in_gaps ?gs u" if "hd ts \<le> u" "u < last ts" unfolding rs using b(3) that by auto
qed

text \<open>Clipping keeps of every region what lies in the requested range, and the order.\<close>

lemma clip_region_simps:
  "clip_region lo hi r = Some r' \<Longrightarrow> rg_start r \<le> rg_start r' \<and> rg_end r' \<le> rg_end r \<and> rg_start r' < rg_end r'"
  by (auto simp: clip_region_def Let_def split: if_splits option.splits)

lemma ordered_regions_clip: "ordered_regions a rs \<Longrightarrow> ordered_regions a (List.map_filter (clip_region lo hi) rs)"
proof (induction rs arbitrary: a)
  case (Cons r rs)
  then show ?case
    using clip_region_simps [of lo hi r] ordered_regions_weaken [of "rg_end r"]
    by (cases "clip_region lo hi r") (fastforce simp: map_filter_simps)+
qed (simp add: map_filter_simps)

lemma in_regions_clip:
  "in_regions (List.map_filter (clip_region lo hi) rs) u \<longleftrightarrow>
   in_regions rs u \<and> (case lo of None \<Rightarrow> True | Some t \<Rightarrow> t \<le> u) \<and> (case hi of None \<Rightarrow> True | Some t \<Rightarrow> u < t)"
proof (induction rs)
  case (Cons r rs)
  then show ?case by (auto simp: map_filter_simps clip_region_def Let_def split: option.splits)
qed (simp add: map_filter_simps)

section \<open>The gaps are the long silences\<close>

text \<open>Two consecutive bars are further apart than the limit, and \<open>u\<close> lies between them.\<close>

definition long_silence :: "rat \<Rightarrow> instant list \<Rightarrow> instant \<Rightarrow> bool" where
  "long_silence limit ts u \<longleftrightarrow>
     (\<exists>i. Suc i < length ts \<and> limit < total_seconds (ts ! Suc i - ts ! i) \<and> ts ! i \<le> u \<and> u < ts ! Suc i)"

lemma long_silence_simps [simp]:
  "\<not> long_silence limit [] u" "\<not> long_silence limit [t] u"
  "long_silence limit (t # t' # ts) u \<longleftrightarrow> limit < total_seconds (t' - t) \<and> t \<le> u \<and> u < t' \<or> long_silence limit (t' # ts) u"
proof -
  have "(\<exists>i. P i) \<longleftrightarrow> P 0 \<or> (\<exists>i. P (Suc i))" for P :: "nat \<Rightarrow> bool" by (metis not0_implies_Suc)
  from this [of "\<lambda>i. Suc i < length (t # t' # ts) \<and> limit < total_seconds ((t # t' # ts) ! Suc i - (t # t' # ts) ! i) \<and>
      (t # t' # ts) ! i \<le> u \<and> u < (t # t' # ts) ! Suc i"]
  show "long_silence limit (t # t' # ts) u \<longleftrightarrow> limit < total_seconds (t' - t) \<and> t \<le> u \<and> u < t' \<or> long_silence limit (t' # ts) u"
    unfolding long_silence_def by simp
qed (simp_all add: long_silence_def)

lemma tiles_cover: "tiles a b ps \<Longrightarrow> in_gaps (map (gap_of w th) ps) u \<longleftrightarrow> a \<le> u \<and> u < b"
proof (induction a b ps rule: tiles.induct)
  case (2 a b s e ps)
  then have "e \<le> b" using tiles_within by fastforce
  with 2 show ?case by auto
qed auto

lemma in_gaps_append [simp]: "in_gaps (gs @ gs') u \<longleftrightarrow> in_gaps gs u \<or> in_gaps gs' u"
  by (auto simp: in_gaps_def)

lemma scan_gaps_silence:
  assumes "0 \<le> limit" and "sorted ts"
  shows "in_gaps (scan_gaps w th limit ts) u \<longleftrightarrow> long_silence limit ts u"
  using assms(2)
proof (induction ts rule: induct_list012)
  case (3 t t' ts)
  have "in_gaps (gaps_between w th limit t t') u \<longleftrightarrow> limit < total_seconds (t' - t) \<and> t \<le> u \<and> u < t'"
  proof (cases "limit < total_seconds (t' - t)")
    case True
    then have "t < t'" using assms(1) 3(3) by (cases "t = t'") (auto simp: total_seconds_def)
    then have "tiles t t' (if w then split_gap_at_market_boundaries t t' else [(t, t')])" by (simp add: split_gap_tiles)
    from tiles_cover [OF this] True show ?thesis unfolding gaps_between_def by simp
  qed (simp add: gaps_between_def)
  moreover have "in_gaps (scan_gaps w th limit (t' # ts)) u \<longleftrightarrow> long_silence limit (t' # ts) u" using 3 by simp
  ultimately show ?case by simp
qed simp_all

lemma gaps_are_silences:
  assumes "analyze gran th (Some ts) (new_report w) = Inr rp" and "sorted ts" and "get_minutes gran = Inr m"
  shows "in_gaps (gaps rp) u \<longleftrightarrow> long_silence (of_int (m * 60 * 2)) ts u"
proof (cases "length ts < 2")
  case True
  then show ?thesis using assms
    by (cases ts rule: remdups_adj.cases) (auto simp: analyze_def detect_gaps_from_bars_def new_report_def Let_def)
next
  case False
  then have "gaps rp = scan_gaps w th (of_int (m * 60 * 2)) ts"
    using assms by (auto simp: analyze_def detect_gaps_from_bars_def new_report_def sorted_sort_id Let_def)
  then show ?thesis using scan_gaps_silence [OF _ assms(2)] get_minutes_pos [OF assms(3)] by simp
qed

end
