(* ===== verification/Splitters.thy ===== *)
theory Splitters
  imports Coverage
begin

text \<open>
  The window splitters of the scenario generator (\<^verbatim>\<open>scenario/generator/splitters\<close>): chronological blocks, cuts at
  volatility minima, one window per continuous region, and the walk-forward extension point; the window types
  (\<^verbatim>\<open>types/scenario_types/window_set_types.py\<close>), the in-sample and out-of-sample roles
  (\<^verbatim>\<open>scenario/generator/role_assignment.py\<close>) and the scenario dictionaries of \<^verbatim>\<open>window_materializer.py\<close>.

  A splitter reads an analysed coverage report and a volatility profile, which are arguments here. The two loops
  that depend on configured block sizes may run for ever; their value is then \<open>None\<close>. Numpy's percentile is the
  parameter \<open>np_percentile\<close>. Printing, the collected warning texts, the tick density and the discovery fingerprints,
  which no code modelled here reads, are left out.
\<close>

section \<open>Types\<close>

datatype volatility_regime = VERY_LOW | LOW | MEDIUM | HIGH | VERY_HIGH

datatype trading_session = SYDNEY_TOKYO | LONDON | NEW_YORK | TRANSITION

datatype generation_strategy = BLOCKS | VOLATILITY_SPLIT | CONTINUOUS | WALK_FORWARD

definition get_session_from_utc_hour :: "int \<Rightarrow> trading_session" where
  "get_session_from_utc_hour hour =
     (if (22 \<le> hour \<and> hour \<le> 23) \<or> (0 \<le> hour \<and> hour < 8) then SYDNEY_TOKYO
      else if 8 \<le> hour \<and> hour < 13 then LONDON
      else if 13 \<le> hour \<and> hour < 16 then LONDON
      else if 16 \<le> hour \<and> hour < 21 then NEW_YORK
      else TRANSITION)"

record volatility_period =
  vp_start :: instant
  vp_end :: instant
  vp_session :: trading_session
  vp_atr :: rat
  vp_regime :: volatility_regime
  vp_tick_count :: int

record generated_window =
  gw_index :: int
  gw_start :: instant
  gw_end :: instant
  gw_regime :: volatility_regime
  gw_session :: trading_session
  gw_estimated_ticks :: int
  gw_atr :: rat
  gw_split_reason :: string
  gw_distance_to_next :: "rat option"

definition hours :: "int \<Rightarrow> rat" where
  "hours usec = total_seconds usec / 3600"

definition block_duration_hours :: "generated_window \<Rightarrow> rat" where
  "block_duration_hours w = hours (gw_end w - gw_start w)"

record blocks_config =
  default_block_hours :: int
  min_block_hours :: int

record profile_config =
  pc_min_block_hours :: int
  pc_max_block_hours :: int
  pc_atr_percentile_threshold :: int
  pc_split_algorithm :: string

record window_set =
  ws_symbol :: string
  ws_broker_type :: string
  ws_strategy :: generation_strategy
  ws_windows :: "generated_window list"
  ws_generated_at :: instant
  ws_mode :: string
  ws_split_config :: "profile_config option"

definition block_count :: "window_set \<Rightarrow> nat" where
  "block_count ws = length (ws_windows ws)"

definition total_coverage_hours :: "window_set \<Rightarrow> rat" where
  "total_coverage_hours ws = sum_list (map block_duration_hours (ws_windows ws))"

section \<open>Chronological blocks\<close>

definition block_window :: "instant \<Rightarrow> instant \<Rightarrow> generated_window" where
  "block_window s e =
     \<lparr>gw_index = 0, gw_start = s, gw_end = e, gw_regime = MEDIUM,
      gw_session = get_session_from_utc_hour (hour_of s), gw_estimated_ticks = 0, gw_atr = 0, gw_split_reason = [],
      gw_distance_to_next = None\<rparr>"

partial_function (option) generate_blocks ::
  "instant \<Rightarrow> int \<Rightarrow> int \<Rightarrow> bool \<Rightarrow> instant \<Rightarrow> generated_window list option" where
  "generate_blocks region_end block_hours min_hours snap_to_market_open current_start =
     (if current_start < region_end then
        let snapping = (snap_to_market_open \<and> market_closed current_start);
            snapped = next_market_open current_start
        in if snapping \<and> snapped \<ge> region_end then Some []
           else let start = (if snapping then snapped else current_start);
                    remaining_hours = hours (region_end - start)
                in if remaining_hours < of_int min_hours then Some []
                   else let block_end = (if remaining_hours < of_int block_hours then region_end
                                         else start + block_hours * hour_usec)
                        in Option.bind (generate_blocks region_end block_hours min_hours snap_to_market_open block_end)
                             (\<lambda>windows. Some (block_window start block_end # windows))
      else Some [])"

primrec blocks_of_regions :: "blocks_config \<Rightarrow> bool \<Rightarrow> region list \<Rightarrow> generated_window list option" where
  "blocks_of_regions cfg snap [] = Some []"
| "blocks_of_regions cfg snap (r # rs) =
     Option.bind (generate_blocks (rg_end r) (default_block_hours cfg) (min_block_hours cfg) snap (rg_start r)) (\<lambda>ws.
       Option.bind (blocks_of_regions cfg snap rs) (\<lambda>ws'. Some (ws @ ws')))"

text \<open>\<open>xs[:k]\<close>\<close>

definition py_take :: "int \<Rightarrow> 'a list \<Rightarrow> 'a list" where
  "py_take k xs = (if 0 \<le> k then take (nat k) xs else take (nat (int (length xs) + k)) xs)"

definition limit_windows :: "int option \<Rightarrow> 'a list \<Rightarrow> 'a list" where
  "limit_windows count_max windows =
     (case count_max of
        None \<Rightarrow> windows
      | Some k \<Rightarrow> if k \<noteq> 0 \<and> int (length windows) > k then py_take k windows else windows)"

definition renumber :: "generated_window list \<Rightarrow> generated_window list" where
  "renumber ws = map2 (\<lambda>i w. w\<lparr>gw_index := int i\<rparr>) [0..<length ws] ws"

definition blocks_split ::
  "blocks_config \<Rightarrow> bool \<Rightarrow> gap_category list \<Rightarrow> coverage_report \<Rightarrow> string \<Rightarrow> string \<Rightarrow> instant option \<Rightarrow> instant option
     \<Rightarrow> int option \<Rightarrow> instant \<Rightarrow> window_set res option" where
  "blocks_split cfg snap allowed rp broker_type symbol start_time end_time count_max now =
     (case extract_regions allowed rp start_time end_time of
        Inl e \<Rightarrow> Some (Inl e)
      | Inr (Unbounded _ _) \<Rightarrow> Some (Inl TypeError)
      | Inr (Bounded regions) \<Rightarrow>
          if regions = [] then Some (Inl ValueError)
          else Option.bind (blocks_of_regions cfg snap regions) (\<lambda>windows.
            Some (Inr \<lparr>ws_symbol = symbol, ws_broker_type = broker_type, ws_strategy = BLOCKS,
                       ws_windows = renumber (limit_windows count_max windows), ws_generated_at = now,
                       ws_mode = ''blocks'', ws_split_config = None\<rparr>)))"

section \<open>Cuts at volatility minima\<close>

text \<open>\<open>min(xs, key=f)\<close>: the first element with the least key.\<close>

fun min_by :: "('a \<Rightarrow> rat) \<Rightarrow> 'a \<Rightarrow> 'a list \<Rightarrow> 'a" where
  "min_by f x [] = x"
| "min_by f x (y # ys) = min_by f (if f y < f x then y else x) ys"

definition create_window ::
  "int \<Rightarrow> instant \<Rightarrow> instant \<Rightarrow> string \<Rightarrow> rat \<Rightarrow> volatility_regime \<Rightarrow> trading_session \<Rightarrow> int \<Rightarrow> rat option \<Rightarrow> generated_window" where
  "create_window index s e reason atr_value reg ses ticks dist_hours =
     \<lparr>gw_index = index, gw_start = s, gw_end = e, gw_regime = reg, gw_session = ses, gw_estimated_ticks = ticks,
      gw_atr = py_round atr_value 6, gw_split_reason = reason, gw_distance_to_next = dist_hours\<rparr>"

definition overlaps :: "instant \<Rightarrow> instant \<Rightarrow> volatility_period \<Rightarrow> bool" where
  "overlaps s e p \<longleftrightarrow> vp_end p > s \<and> vp_start p < e"

definition splittable :: "int \<Rightarrow> int \<Rightarrow> instant \<Rightarrow> instant \<Rightarrow> volatility_period \<Rightarrow> bool" where
  "splittable min_hours max_hours region_end current_start p \<longleftrightarrow>
     current_start + min_hours * hour_usec \<le> vp_start p \<and> vp_start p \<le> current_start + max_hours * hour_usec \<and>
     hours (region_end - vp_start p) \<ge> of_int min_hours"

partial_function (option) walk_splits ::
  "int \<Rightarrow> int \<Rightarrow> instant \<Rightarrow> volatility_period list \<Rightarrow> volatility_period list \<Rightarrow> instant \<Rightarrow> instant list option" where
  "walk_splits min_hours max_hours region_end periods candidates current_start =
     (if hours (region_end - current_start) \<le> of_int max_hours then Some []
      else case filter (splittable min_hours max_hours region_end current_start) candidates of
        c # cs \<Rightarrow>
          Option.bind (walk_splits min_hours max_hours region_end periods candidates (vp_start (min_by vp_atr c cs)))
            (\<lambda>points. Some (vp_start (min_by vp_atr c cs) # points))
      | [] \<Rightarrow>
          (case filter (splittable min_hours max_hours region_end current_start) periods of
             p # ps \<Rightarrow>
               Option.bind (walk_splits min_hours max_hours region_end periods candidates (vp_start (min_by vp_atr p ps)))
                 (\<lambda>points. Some (vp_start (min_by vp_atr p ps) # points))
           | [] \<Rightarrow>
               (case filter (\<lambda>p. vp_start p > current_start + max_hours * hour_usec) periods of
                  [] \<Rightarrow> Some []
                | p # ps \<Rightarrow> walk_splits min_hours max_hours region_end periods candidates (vp_start p))))"

definition find_split_points ::
  "profile_config \<Rightarrow> instant \<Rightarrow> instant \<Rightarrow> volatility_period list \<Rightarrow> rat \<Rightarrow> instant list option" where
  "find_split_points cfg region_start region_end periods atr_threshold =
     (let candidates = sort_key vp_start (filter (\<lambda>p. vp_atr p \<le> atr_threshold) periods)
      in map_option (\<lambda>points. sort (remdups points))
           (walk_splits (pc_min_block_hours cfg) (pc_max_block_hours cfg) region_end periods candidates region_start))"

definition split_window :: "int \<Rightarrow> instant list \<Rightarrow> volatility_period list \<Rightarrow> instant list \<Rightarrow> nat \<Rightarrow> generated_window" where
  "split_window start_index split_points periods boundaries i =
     (let block_start = boundaries ! i;
          block_end = boundaries ! (i + 1);
          split_reason = (if i = 0 \<and> split_points = [] then ''single_region''
                          else if i = 0 then ''region_start''
                          else if boundaries ! i \<in> set split_points then ''atr_minima''
                          else ''forced'')
      in case filter (overlaps block_start block_end) periods of
           [] \<Rightarrow> create_window (start_index + int i) block_start block_end split_reason 0 MEDIUM TRANSITION 0 None
         | p # ps \<Rightarrow> create_window (start_index + int i) block_start block_end split_reason (vp_atr p) (vp_regime p)
                      (vp_session p) (sum_list (map vp_tick_count (p # ps))) None)"

definition build_windows_from_splits ::
  "int \<Rightarrow> instant \<Rightarrow> instant \<Rightarrow> instant list \<Rightarrow> volatility_period list \<Rightarrow> generated_window list" where
  "build_windows_from_splits start_index region_start region_end split_points periods =
     (let boundaries = [region_start] @ sort split_points @ [region_end]
      in map (split_window start_index split_points periods boundaries) [0..<length boundaries - 1])"

text \<open>The body of the loop over regions.\<close>

fun volatility_windows ::
  "(rat list \<Rightarrow> int \<Rightarrow> rat) \<Rightarrow> profile_config \<Rightarrow> volatility_period list \<Rightarrow> int \<Rightarrow> region list \<Rightarrow> generated_window list option" where
  "volatility_windows np_percentile cfg periods block_index [] = Some []"
| "volatility_windows np_percentile cfg periods block_index (r # rs) =
     (let region_periods = filter (overlaps (rg_start r) (rg_end r)) periods in
      if region_periods = [] then
        Option.bind (volatility_windows np_percentile cfg periods (block_index + 1) rs) (\<lambda>ws.
          Some (create_window block_index (rg_start r) (rg_end r) ''no_volatility_data'' 0 MEDIUM TRANSITION 0 None # ws))
      else
        let sorted_periods = sort_key vp_start region_periods;
            threshold = np_percentile (map vp_atr sorted_periods) (pc_atr_percentile_threshold cfg)
        in Option.bind (find_split_points cfg (rg_start r) (rg_end r) sorted_periods threshold) (\<lambda>split_points.
             let region_windows = build_windows_from_splits block_index (rg_start r) (rg_end r) split_points sorted_periods
             in Option.bind (volatility_windows np_percentile cfg periods (block_index + int (length region_windows)) rs)
                  (\<lambda>ws. Some (region_windows @ ws))))"

fun link_distances :: "generated_window list \<Rightarrow> generated_window list" where
  "link_distances (w # w' # ws) =
     w\<lparr>gw_distance_to_next := Some (py_round (hours (gw_start w' - gw_end w)) 2)\<rparr> # link_distances (w' # ws)"
| "link_distances ws = ws"

definition volatility_build_windows ::
  "(rat list \<Rightarrow> int \<Rightarrow> rat) \<Rightarrow> profile_config \<Rightarrow> region list \<Rightarrow> volatility_period list \<Rightarrow> generated_window list option" where
  "volatility_build_windows np_percentile cfg regions periods =
     map_option link_distances (volatility_windows np_percentile cfg periods 0 regions)"

section \<open>One window per region\<close>

definition count_regimes :: "volatility_period list \<Rightarrow> (volatility_regime, int) dict" where
  "count_regimes ps = fold (\<lambda>p d. AList.update (vp_regime p) (get_default 0 d (vp_regime p) + 1) d) ps []"

text \<open>\<open>max(d, key=d.get)\<close>: the first key with the largest value.\<close>

fun max_key :: "'k \<times> int \<Rightarrow> ('k, int) dict \<Rightarrow> 'k" where
  "max_key kv [] = fst kv"
| "max_key kv (kv' # d) = max_key (if snd kv < snd kv' then kv' else kv) d"

fun continuous_windows :: "volatility_period list \<Rightarrow> int \<Rightarrow> region list \<Rightarrow> generated_window list" where
  "continuous_windows periods i [] = []"
| "continuous_windows periods i (r # rs) =
     (let region_periods = filter (overlaps (rg_start r) (rg_end r)) periods;
          distance = (case rs of [] \<Rightarrow> None | r' # _ \<Rightarrow> Some (py_round (hours (rg_start r' - rg_end r)) 2));
          window = (case region_periods of
              [] \<Rightarrow> create_window i (rg_start r) (rg_end r) ''continuous_region'' 0 MEDIUM TRANSITION 0 distance
            | p # ps \<Rightarrow>
                create_window i (rg_start r) (rg_end r) ''continuous_region''
                  (sum_list (map vp_atr region_periods) / of_nat (length region_periods))
                  (case count_regimes region_periods of [] \<Rightarrow> MEDIUM | kv # d \<Rightarrow> max_key kv d)
                  (vp_session p) (sum_list (map vp_tick_count region_periods)) distance)
      in window # continuous_windows periods (i + 1) rs)"

section \<open>The strategies\<close>

definition profile_split ::
  "(rat list \<Rightarrow> int \<Rightarrow> rat) \<Rightarrow> generation_strategy \<Rightarrow> profile_config \<Rightarrow> gap_category list \<Rightarrow> coverage_report option
     \<Rightarrow> volatility_period list option \<Rightarrow> string \<Rightarrow> string \<Rightarrow> instant option \<Rightarrow> instant option \<Rightarrow> instant \<Rightarrow> window_set res option" where
  "profile_split np_percentile strategy cfg allowed report profile broker_type symbol start_time end_time now =
     (case (start_time, end_time) of
        (Some s, Some e) \<Rightarrow>
          (case (case report of None \<Rightarrow> Inr (Bounded []) | Some rp \<Rightarrow> extract_regions allowed rp (Some s) (Some e)) of
             Inl err \<Rightarrow> Some (Inl err)
           | Inr (Unbounded _ _) \<Rightarrow> Some (Inl TypeError)
           | Inr (Bounded regions) \<Rightarrow>
               if regions = [] then Some (Inl ValueError)
               else case profile of
                 None \<Rightarrow> Some (Inl ValueError)
               | Some all_periods \<Rightarrow>
                   let periods = filter (overlaps s e) all_periods in
                   if periods = [] then Some (Inl ValueError)
                   else Option.bind (if strategy = VOLATILITY_SPLIT
                                     then volatility_build_windows np_percentile cfg regions periods
                                     else Some (continuous_windows periods 0 regions)) (\<lambda>windows.
                     Some (Inr \<lparr>ws_symbol = symbol, ws_broker_type = broker_type, ws_strategy = strategy,
                                ws_windows = windows, ws_generated_at = now,
                                ws_mode = (if strategy = VOLATILITY_SPLIT then ''volatility_split'' else ''continuous''),
                                ws_split_config = Some cfg\<rparr>)))
      | _ \<Rightarrow> Some (Inl ValueError))"

definition walk_forward_split :: "profile_config \<Rightarrow> string \<Rightarrow> string \<Rightarrow> window_set res" where
  "walk_forward_split cfg broker_type symbol = Inl NotImplementedError"

section \<open>Roles and scenarios\<close>

datatype robustness_role = IN_SAMPLE | OUT_OF_SAMPLE | UNASSIGNED

definition assign_roles_time_ordered :: "int \<Rightarrow> rat \<Rightarrow> robustness_role list" where
  "assign_roles_time_ordered count oos_split =
     (if count \<le> 0 then []
      else if count = 1 then [IN_SAMPLE]
      else let n_oos = round_half_even (of_int count * oos_split);
               n_oos = max 1 (min n_oos (count - 1));
               n_is = count - n_oos
           in replicate (nat n_is) IN_SAMPLE @ replicate (nat n_oos) OUT_OF_SAMPLE)"

text \<open>The enabled flag and the split fraction of a \<open>RobustnessConfig\<close>.\<close>

definition assign_roles :: "window_set \<Rightarrow> (bool \<times> rat) option \<Rightarrow> robustness_role list option" where
  "assign_roles ws robustness =
     (case robustness of
        Some (True, oos_split) \<Rightarrow> Some (assign_roles_time_ordered (int (block_count ws)) oos_split)
      | _ \<Rightarrow> None)"

definition pad2 :: "int \<Rightarrow> string" where
  "pad2 n = (if n < 10 then ''0'' @ nat_str (nat n) else nat_str (nat n))"

definition strategy_value :: "generation_strategy \<Rightarrow> string" where
  "strategy_value s = (case s of BLOCKS \<Rightarrow> ''blocks'' | VOLATILITY_SPLIT \<Rightarrow> ''volatility_split''
     | CONTINUOUS \<Rightarrow> ''continuous'' | WALK_FORWARD \<Rightarrow> ''walk_forward'')"

definition window_name :: "window_set \<Rightarrow> generated_window \<Rightarrow> int \<Rightarrow> string" where
  "window_name ws w position =
     (if ws_strategy ws = BLOCKS then ws_symbol ws @ ''_'' @ strategy_value (ws_strategy ws) @ ''_'' @ pad2 position
      else ws_symbol ws @ ''_'' @ (if ws_mode ws = ''volatility_split'' then ''vol'' else ''cont'') @ ''_'' @ pad2 (gw_index w))"

record scenario_dict =
  sc_name :: string
  sc_symbol :: string
  sc_data_broker_type :: string
  sc_start_date :: instant
  sc_end_date :: instant
  sc_max_ticks :: "int option"
  sc_role :: "robustness_role option"

definition scenario_of :: "window_set \<Rightarrow> robustness_role list option \<Rightarrow> nat \<Rightarrow> scenario_dict" where
  "scenario_of ws roles i =
     (let w = ws_windows ws ! i;
          ticks = (if ws_strategy ws = BLOCKS then None else Some (gw_estimated_ticks w))
      in \<lparr>sc_name = window_name ws w (int i + 1), sc_symbol = ws_symbol ws, sc_data_broker_type = ws_broker_type ws,
          sc_start_date = gw_start w, sc_end_date = gw_end w, sc_max_ticks = (if ticks = Some 0 then None else ticks),
          sc_role = (case roles of None \<Rightarrow> None | Some [] \<Rightarrow> None | Some rs \<Rightarrow> Some (rs ! i))\<rparr>)"

definition to_scenario_dicts :: "window_set \<Rightarrow> (bool \<times> rat) option \<Rightarrow> scenario_dict list" where
  "to_scenario_dicts ws robustness =
     (let roles = assign_roles ws robustness in map (scenario_of ws roles) [0..<length (ws_windows ws)])"

end
