(* ===== verification/Splitters_Laws.thy ===== *)
theory Splitters_Laws
  imports Splitters
begin

text \<open>
  What the splitters guarantee: their loops end for positive block sizes, windows are chronological and disjoint,
  lie in the continuous regions, and cover them up to closed market time and the remainder that is too short for a
  block; volatility windows tile their region and respect the minimum length, and the maximum where the profile
  has no holes.
\<close>

section \<open>Windows as spans\<close>

lemma hours_compare:
  "hours d < of_int h \<longleftrightarrow> d < h * hour_usec" "hours d \<le> of_int h \<longleftrightarrow> d \<le> h * hour_usec"
  "of_int h \<le> hours d \<longleftrightarrow> h * hour_usec \<le> d"
proof -
  have "hours d < of_int h \<longleftrightarrow> (of_int d :: rat) < of_int (h * hour_usec)"
    by (simp add: hours_def total_seconds_def hour_usec_def divide_simps)
  then show 1: "hours d < of_int h \<longleftrightarrow> d < h * hour_usec" by (simp only: of_int_less_iff)
  have "hours d \<le> of_int h \<longleftrightarrow> (of_int d :: rat) \<le> of_int (h * hour_usec)"
    by (simp add: hours_def total_seconds_def hour_usec_def divide_simps)
  then show "hours d \<le> of_int h \<longleftrightarrow> d \<le> h * hour_usec" by (simp only: of_int_le_iff)
  show "of_int h \<le> hours d \<longleftrightarrow> h * hour_usec \<le> d" using 1 by linarith
qed

fun ordered_windows :: "instant \<Rightarrow> generated_window list \<Rightarrow> bool" where
  "ordered_windows a [] = True"
| "ordered_windows a (w # ws) \<longleftrightarrow> a \<le> gw_start w \<and> gw_start w < gw_end w \<and> ordered_windows (gw_end w) ws"

definition in_windows :: "generated_window list \<Rightarrow> instant \<Rightarrow> bool" where
  "in_windows ws u \<longleftrightarrow> (\<exists>w \<in> set ws. gw_start w \<le> u \<and> u < gw_end w)"

lemma in_windows_simps [simp]:
  "\<not> in_windows [] u" "in_windows (w # ws) u \<longleftrightarrow> gw_start w \<le> u \<and> u < gw_end w \<or> in_windows ws u"
  "in_windows (ws @ ws') u \<longleftrightarrow> in_windows ws u \<or> in_windows ws' u"
  by (auto simp: in_windows_def)

lemma ordered_windows_weaken: "ordered_windows b ws \<Longrightarrow> a \<le> b \<Longrightarrow> ordered_windows a ws"
  by (cases ws) auto

lemma ordered_windows_above: "ordered_windows a ws \<Longrightarrow> w \<in> set ws \<Longrightarrow> a \<le> gw_start w"
  by (induction ws arbitrary: a) fastforce+

lemma ordered_windows_append:
  "ordered_windows a ws \<Longrightarrow> \<forall>w \<in> set ws. gw_end w \<le> b \<Longrightarrow> a \<le> b \<Longrightarrow> ordered_windows b ws' \<Longrightarrow> ordered_windows a (ws @ ws')"
  by (induction ws arbitrary: a) (auto intro: ordered_windows_weaken)

lemma ordered_windows_take: "ordered_windows a ws \<Longrightarrow> ordered_windows a (take n ws)"
  by (induction ws arbitrary: a n) (auto simp: take_Cons split: nat.splits)

abbreviation win_span :: "generated_window \<Rightarrow> instant \<times> instant" where
  "win_span w \<equiv> (gw_start w, gw_end w)"

lemma ordered_windows_span: "map win_span ws = map win_span ws' \<Longrightarrow> ordered_windows a ws = ordered_windows a ws'"
  by (induction ws ws' arbitrary: a rule: list_induct2') auto

lemma in_windows_span: "map win_span ws = map win_span ws' \<Longrightarrow> in_windows ws u = in_windows ws' u"
  by (induction ws ws' rule: list_induct2') auto

lemma tiles_windows:
  "tiles a b (map win_span ws) \<Longrightarrow>
     ordered_windows a ws \<and> (\<forall>w \<in> set ws. gw_end w \<le> b) \<and> a \<le> b \<and> (in_windows ws u \<longleftrightarrow> a \<le> u \<and> u < b)"
proof (induction ws arbitrary: a)
  case (Cons w ws)
  then have "gw_start w = a" "a < gw_end w" "tiles (gw_end w) b (map win_span ws)" by simp_all
  with Cons.IH [OF this(3)] show ?case by auto
qed auto

section \<open>Blocks\<close>

definition block_ok :: "int \<Rightarrow> int \<Rightarrow> bool \<Rightarrow> instant \<Rightarrow> generated_window \<Rightarrow> bool" where
  "block_ok block_hours min_hours snap e w \<longleftrightarrow>
     gw_end w \<le> e \<and> gw_end w - gw_start w \<le> block_hours * hour_usec \<and>
     (gw_end w - gw_start w < min_hours * hour_usec \<longrightarrow> gw_end w - gw_start w = block_hours * hour_usec) \<and>
     (snap \<longrightarrow> \<not> market_closed (gw_start w))"

lemma block_window_simps [simp]: "gw_start (block_window s e) = s" "gw_end (block_window s e) = e"
  by (simp_all add: block_window_def)

text \<open>Where the block that begins at \<open>a\<close> starts, and one round of the block loop.\<close>

definition block_start :: "bool \<Rightarrow> instant \<Rightarrow> instant" where
  "block_start snap a = (if snap then next_market_open a else a)"

lemma block_start:
  "a \<le> block_start snap a" "snap \<longrightarrow> \<not> market_closed (block_start snap a)"
  "a \<le> u \<Longrightarrow> u < block_start snap a \<Longrightarrow> snap \<and> market_closed u"
  using next_market_open_least [of a] by (auto simp: block_start_def split: if_splits)

lemma generate_blocks_step:
  assumes "a < e"
  shows "generate_blocks e bh mh snap a =
    (let s = block_start snap a in
     if e \<le> s then Some [] else if e - s < mh * hour_usec then Some []
     else let b = (if e - s < bh * hour_usec then e else s + bh * hour_usec)
          in Option.bind (generate_blocks e bh mh snap b) (\<lambda>ws. Some (block_window s b # ws)))"
proof -
  have "next_market_open a = a" if "\<not> market_closed a" using that by (simp add: next_market_open_eq)
  then have "block_start snap a = (if snap \<and> market_closed a then next_market_open a else a)"
    by (auto simp: block_start_def)
  with assms show ?thesis
    by (subst generate_blocks.simps) (auto simp: hours_compare Let_def)
qed

lemma generate_blocks_spec:
  assumes "0 < bh"
  shows "\<exists>ws. generate_blocks e bh mh snap a = Some ws \<and> ordered_windows a ws \<and>
    (\<forall>w \<in> set ws. block_ok bh mh snap e w) \<and>
    (\<forall>u. a \<le> u \<and> u < e \<longrightarrow> in_windows ws u \<or> snap \<and> market_closed u \<or> e - u < mh * hour_usec)"
proof (induction "nat (e - a)" arbitrary: a rule: less_induct)
  case less
  show ?case
  proof (cases "a < e")
    case False
    then show ?thesis by (subst generate_blocks.simps) auto
  next
    case True
    define s where "s = block_start snap a"
    note st = block_start [where a = a and snap = snap, folded s_def]
      and step = generate_blocks_step [OF True, of bh mh snap, folded s_def, unfolded Let_def]
    note closed = st(3)
    define b where "b = (if e - s < bh * hour_usec then e else s + bh * hour_usec)"
    consider "e \<le> s" | "s < e" "e - s < mh * hour_usec" | "s < e" "mh * hour_usec \<le> e - s" by linarith
    then show ?thesis
    proof cases
      case 1
      then show ?thesis using closed by (intro exI [of _ "[]"]) (auto simp: step)
    next
      case 2
      have "in_windows [] u \<or> snap \<and> market_closed u \<or> e - u < mh * hour_usec" if "a \<le> u" "u < e" for u
        using closed [of u] that 2 by (cases "u < s") auto
      with 2 show ?thesis by (intro exI [of _ "[]"]) (simp add: step)
    next
      case 3
      have b: "s < b" "b \<le> e" "b - s \<le> bh * hour_usec" "b - s < mh * hour_usec \<longrightarrow> b - s = bh * hour_usec"
        using 3 assms by (auto simp: b_def hour_usec_def)
      with st(1) have "nat (e - b) < nat (e - a)" using True by linarith
      from less [OF this] obtain ws where ws: "generate_blocks e bh mh snap b = Some ws" "ordered_windows b ws"
        "\<forall>w \<in> set ws. block_ok bh mh snap e w"
        "\<And>u. b \<le> u \<Longrightarrow> u < e \<Longrightarrow> in_windows ws u \<or> snap \<and> market_closed u \<or> e - u < mh * hour_usec" by blast
      have "in_windows (block_window s b # ws) u \<or> snap \<and> market_closed u \<or> e - u < mh * hour_usec"
        if "a \<le> u" "u < e" for u
        using closed [of u] ws(4) [of u] that by (cases "u < s"; cases "u < b") auto
      moreover have "generate_blocks e bh mh snap a = Some (block_window s b # ws)"
        using 3 ws(1) by (simp add: step b_def)
      ultimately show ?thesis using ws(2,3) b st(1,2)
        by (intro exI [of _ "block_window s b # ws"]) (auto simp: block_ok_def)
    qed
  qed
qed

text \<open>A block size of zero never returns.\<close>

lemma zero_block_size_diverges:
  assumes "a < e" and "mh * hour_usec \<le> e - a"
  shows "generate_blocks e 0 mh False a = None"
proof -
  have "generate_blocks e 0 mh False a =
      Option.bind (generate_blocks e 0 mh False a) (\<lambda>ws. Some (block_window a a # ws))"
    using generate_blocks_step [OF assms(1), of 0 mh False] assms by (simp add: block_start_def)
  then show ?thesis by (cases "generate_blocks e 0 mh False a") auto
qed

text \<open>The same holds for the cuts at volatility minima: without a least distance a period that starts where the block
  starts is chosen again and again.\<close>

lemma zero_min_block_diverges:
  assumes "0 \<le> max_hours" and "of_int max_hours < hours (region_end - vp_start c)"
  shows "walk_splits 0 max_hours region_end [c] [c] (vp_start c) = None"
proof -
  have "(0::rat) \<le> of_int max_hours" using assms(1) by simp
  with assms(2) have "0 \<le> hours (region_end - vp_start c)" by linarith
  with assms(1) have "splittable 0 max_hours region_end (vp_start c) c" by (simp add: splittable_def hour_usec_def)
  with assms(2) have "walk_splits 0 max_hours region_end [c] [c] (vp_start c) =
      Option.bind (walk_splits 0 max_hours region_end [c] [c] (vp_start c)) (\<lambda>points. Some (vp_start c # points))"
    by (subst walk_splits.simps) simp
  then show ?thesis by (cases "walk_splits 0 max_hours region_end [c] [c] (vp_start c)") auto
qed

lemma blocks_of_regions_spec:
  assumes "0 < default_block_hours cfg" and "ordered_regions a rs"
  shows "\<exists>ws. blocks_of_regions cfg snap rs = Some ws \<and> ordered_windows a ws \<and>
    (\<forall>w \<in> set ws. \<exists>r \<in> set rs. rg_start r \<le> gw_start w \<and>
        block_ok (default_block_hours cfg) (min_block_hours cfg) snap (rg_end r) w) \<and>
    (\<forall>r \<in> set rs. \<forall>u. rg_start r \<le> u \<and> u < rg_end r \<longrightarrow>
        in_windows ws u \<or> snap \<and> market_closed u \<or> rg_end r - u < min_block_hours cfg * hour_usec)"
  using assms(2)
proof (induction rs arbitrary: a)
  case (Cons r rs)
  obtain ws where ws: "generate_blocks (rg_end r) (default_block_hours cfg) (min_block_hours cfg) snap (rg_start r) = Some ws"
    "ordered_windows (rg_start r) ws" "\<forall>w \<in> set ws. block_ok (default_block_hours cfg) (min_block_hours cfg) snap (rg_end r) w"
    "\<forall>u. rg_start r \<le> u \<and> u < rg_end r \<longrightarrow>
       in_windows ws u \<or> snap \<and> market_closed u \<or> rg_end r - u < min_block_hours cfg * hour_usec"
    using generate_blocks_spec [OF assms(1)] by blast
  have r: "a \<le> rg_start r" "rg_start r < rg_end r" "ordered_regions (rg_end r) rs" using Cons.prems by simp_all
  from Cons.IH [OF r(3)] obtain ws' where ws': "blocks_of_regions cfg snap rs = Some ws'" "ordered_windows (rg_end r) ws'"
    "\<forall>w \<in> set ws'. \<exists>r \<in> set rs. rg_start r \<le> gw_start w \<and>
        block_ok (default_block_hours cfg) (min_block_hours cfg) snap (rg_end r) w"
    "\<forall>r \<in> set rs. \<forall>u. rg_start r \<le> u \<and> u < rg_end r \<longrightarrow>
        in_windows ws' u \<or> snap \<and> market_closed u \<or> rg_end r - u < min_block_hours cfg * hour_usec" by blast
  note start = ordered_windows_above [OF ws(2)]
  have ord: "ordered_windows (rg_start r) (ws @ ws')"
    by (rule ordered_windows_append [OF ws(2) _ less_imp_le [OF r(2)] ws'(2)]) (use ws(3) in \<open>simp add: block_ok_def\<close>)
  have "ordered_windows a (ws @ ws')" by (rule ordered_windows_weaken [OF ord r(1)])
  moreover have "blocks_of_regions cfg snap (r # rs) = Some (ws @ ws')" using ws(1) ws'(1) by simp
  moreover have "\<forall>w \<in> set (ws @ ws'). \<exists>r \<in> set (r # rs). rg_start r \<le> gw_start w \<and>
        block_ok (default_block_hours cfg) (min_block_hours cfg) snap (rg_end r) w"
    using ws(3) ws'(3) start by auto
  moreover have "\<forall>r' \<in> set (r # rs). \<forall>u. rg_start r' \<le> u \<and> u < rg_end r' \<longrightarrow>
        in_windows (ws @ ws') u \<or> snap \<and> market_closed u \<or> rg_end r' - u < min_block_hours cfg * hour_usec"
    using ws(4) ws'(4) by auto
  ultimately show ?case by blast
qed simp

lemma limit_windows_take: "\<exists>n. limit_windows k ws = take n ws"
proof -
  have "\<exists>n. ws = take n ws" by (rule exI [of _ "length ws"]) simp
  then show ?thesis by (auto simp: limit_windows_def py_take_def split: option.splits)
qed

lemma renumber_simps:
  "length (renumber ws) = length ws" "map win_span (renumber ws) = map win_span ws"
  "i < length ws \<Longrightarrow> gw_index (renumber ws ! i) = int i"
  by (auto simp: renumber_def intro: nth_equalityI)

section \<open>Cuts at volatility minima\<close>

lemma min_by_in: "min_by f x xs \<in> set (x # xs)"
  by (induction xs arbitrary: x) (auto split: if_splits)

lemma min_by_le: "f (min_by f x xs) \<le> f x"
proof (induction xs arbitrary: x)
  case (Cons y ys)
  have "f (min_by f y ys) \<le> f y" "f (min_by f x ys) \<le> f x" by (rule Cons)+
  then show ?case by auto
qed simp

lemma min_by_least: "y \<in> set (x # xs) \<Longrightarrow> f (min_by f x xs) \<le> f y"
proof (induction xs arbitrary: x)
  case (Cons z zs)
  let ?v = "if f z < f x then z else x"
  show ?case
  proof (cases "y \<in> set zs")
    case True
    with Cons.IH [of ?v] show ?thesis by simp
  next
    case False
    with Cons.prems min_by_le [of f ?v zs] show ?thesis by (auto split: if_splits)
  qed
qed simp

text \<open>Cut points between \<open>a\<close> and \<open>e\<close> that leave at least \<open>d\<close> on either side.\<close>

fun spaced :: "int \<Rightarrow> instant \<Rightarrow> instant \<Rightarrow> instant list \<Rightarrow> bool" where
  "spaced d a e [] = True"
| "spaced d a e (p # ps) \<longleftrightarrow> a + d \<le> p \<and> p + d \<le> e \<and> spaced d p e ps"

text \<open>No piece between \<open>a\<close> and \<open>e\<close> is longer than \<open>d\<close>.\<close>

fun pieces_within :: "int \<Rightarrow> instant \<Rightarrow> instant \<Rightarrow> instant list \<Rightarrow> bool" where
  "pieces_within d a e [] \<longleftrightarrow> e - a \<le> d"
| "pieces_within d a e (p # ps) \<longleftrightarrow> p - a \<le> d \<and> pieces_within d p e ps"

lemma spaced_weaken: "spaced d b e ps \<Longrightarrow> a \<le> b \<Longrightarrow> spaced d a e ps"
  by (cases ps) auto

lemma spaced_sorted: "0 < d \<Longrightarrow> spaced d a e ps \<Longrightarrow> sorted_wrt (<) ps \<and> (\<forall>p \<in> set ps. a + d \<le> p)"
  by (induction ps arbitrary: a) fastforce+

lemma spaced_tiles: "0 < d \<Longrightarrow> a < e \<Longrightarrow> spaced d a e ps \<Longrightarrow> tiles a e (zip (a # ps) (ps @ [e]))"
  by (induction ps arbitrary: a) auto

lemma spaced_lengths:
  "0 < d \<Longrightarrow> spaced d a e (q # qs) \<Longrightarrow> p \<in> set (zip (a # q # qs) ((q # qs) @ [e])) \<Longrightarrow> d \<le> snd p - fst p"
  by (induction qs arbitrary: a q) auto

lemma pieces_lengths: "pieces_within d a e ps \<Longrightarrow> p \<in> set (zip (a # ps) (ps @ [e])) \<Longrightarrow> snd p - fst p \<le> d"
  by (induction ps arbitrary: a) auto

lemma splittable_iff:
  "splittable mn mx e a p \<longleftrightarrow> a + mn * hour_usec \<le> vp_start p \<and> vp_start p \<le> a + mx * hour_usec \<and> vp_start p + mn * hour_usec \<le> e"
  by (auto simp: splittable_def hours_compare)

text \<open>One round of the walk: it stops, cuts at a period in reach, or skips to a later period without cutting.\<close>

lemma walk_splits_cases:
  assumes "set candidates \<subseteq> set periods"
  obtains (fits) "e - a \<le> mx * hour_usec" "walk_splits mn mx e periods candidates a = Some []"
  | (cut) p where "mx * hour_usec < e - a" "p \<in> set periods" "splittable mn mx e a p"
      "walk_splits mn mx e periods candidates a =
         Option.bind (walk_splits mn mx e periods candidates (vp_start p)) (\<lambda>ps. Some (vp_start p # ps))"
  | (skip) p where "mx * hour_usec < e - a" "\<forall>p \<in> set periods. \<not> splittable mn mx e a p"
      "p \<in> set periods" "a + mx * hour_usec < vp_start p"
      "walk_splits mn mx e periods candidates a = walk_splits mn mx e periods candidates (vp_start p)"
  | (stuck) "mx * hour_usec < e - a" "\<forall>p \<in> set periods. \<not> splittable mn mx e a p"
      "walk_splits mn mx e periods candidates a = Some []"
proof (cases "e - a \<le> mx * hour_usec")
  case True
  then show ?thesis by (intro fits) (simp_all add: walk_splits.simps [of _ _ _ _ _ a] hours_compare)
next
  case False
  note step = walk_splits.simps [of mn mx e periods candidates a]
  show ?thesis
  proof (cases "filter (splittable mn mx e a) candidates")
    case (Cons c cs)
    have "min_by vp_atr c cs \<in> set (filter (splittable mn mx e a) candidates)" unfolding Cons by (rule min_by_in)
    then have m: "min_by vp_atr c cs \<in> set candidates" "splittable mn mx e a (min_by vp_atr c cs)" by simp_all
    with assms have "min_by vp_atr c cs \<in> set periods" by blast
    with m(2) False Cons show ?thesis by (intro cut [of "min_by vp_atr c cs"]) (simp_all add: step hours_compare)
  next
    case none: Nil
    show ?thesis
    proof (cases "filter (splittable mn mx e a) periods")
      case (Cons c cs)
      have "min_by vp_atr c cs \<in> set (filter (splittable mn mx e a) periods)" unfolding Cons by (rule min_by_in)
    then have m: "min_by vp_atr c cs \<in> set periods" "splittable mn mx e a (min_by vp_atr c cs)" by simp_all
      with m False none Cons show ?thesis by (intro cut [of "min_by vp_atr c cs"]) (simp_all add: step hours_compare)
    next
      case Nil
      then have ns: "\<forall>p \<in> set periods. \<not> splittable mn mx e a p" by (simp add: filter_empty_conv)
      show ?thesis
      proof (cases "filter (\<lambda>p. vp_start p > a + mx * hour_usec) periods")
        case later: Nil
        with False ns none Nil show ?thesis by (intro stuck) (auto simp: step hours_compare)
      next
        case (Cons p ps)
        then have "p \<in> set periods" "a + mx * hour_usec < vp_start p" by (auto dest: filter_eq_ConsD)
        with False ns none Nil Cons show ?thesis by (intro skip [of p]) (auto simp: step hours_compare)
      qed
    qed
  qed
qed

lemma walk_splits_spec:
  assumes "set candidates \<subseteq> set periods" and "0 < mn" and "0 \<le> mx"
  shows "\<exists>ps. walk_splits mn mx e periods candidates a = Some ps \<and> spaced (mn * hour_usec) a e ps \<and>
    ((\<forall>t. a \<le> t \<and> t + mx * hour_usec < e \<longrightarrow> (\<exists>p \<in> set periods. splittable mn mx e t p)) \<longrightarrow>
      pieces_within (mx * hour_usec) a e ps)"
proof (induction "nat (e - a)" arbitrary: a rule: less_induct)
  case less
  have mn: "0 < mn * hour_usec" and mx: "0 \<le> mx * hour_usec" using assms(2,3) by (simp_all add: hour_usec_def)
  show ?case
    using assms(1)
  proof (cases rule: walk_splits_cases [where e = e and a = a and mx = mx and mn = mn])
    case fits
    then show ?thesis by simp
  next
    case (cut p)
    then have p: "a + mn * hour_usec \<le> vp_start p" "vp_start p \<le> a + mx * hour_usec" "vp_start p + mn * hour_usec \<le> e"
      by (simp_all add: splittable_iff)
    with mn have lt: "nat (e - vp_start p) < nat (e - a)" "a \<le> vp_start p" by linarith+
    from less [OF lt(1)] obtain ps where "walk_splits mn mx e periods candidates (vp_start p) = Some ps"
      "spaced (mn * hour_usec) (vp_start p) e ps"
      "(\<forall>t. vp_start p \<le> t \<and> t + mx * hour_usec < e \<longrightarrow> (\<exists>p \<in> set periods. splittable mn mx e t p)) \<longrightarrow>
       pieces_within (mx * hour_usec) (vp_start p) e ps" by blast
    with cut(4) p lt(2) show ?thesis by (intro exI [of _ "vp_start p # ps"]) auto
  next
    case (skip p)
    with mx have "nat (e - vp_start p) < nat (e - a)" "a \<le> vp_start p" by linarith+
    from less [OF this(1)] obtain ps where "walk_splits mn mx e periods candidates (vp_start p) = Some ps"
      "spaced (mn * hour_usec) (vp_start p) e ps" by blast
    with skip \<open>a \<le> vp_start p\<close> show ?thesis
      by (intro exI [of _ ps]) (auto intro: spaced_weaken simp: algebra_simps)
  next
    case stuck
    then show ?thesis by (auto simp: algebra_simps)
  qed
qed

lemma find_split_points_spec:
  assumes "0 < pc_min_block_hours cfg" and "0 \<le> pc_max_block_hours cfg"
  shows "\<exists>ps. find_split_points cfg s e periods th = Some ps \<and> spaced (pc_min_block_hours cfg * hour_usec) s e ps \<and>
    ((\<forall>t. s \<le> t \<and> t + pc_max_block_hours cfg * hour_usec < e \<longrightarrow>
        (\<exists>p \<in> set periods. splittable (pc_min_block_hours cfg) (pc_max_block_hours cfg) e t p)) \<longrightarrow>
      pieces_within (pc_max_block_hours cfg * hour_usec) s e ps)"
proof -
  let ?c = "sort_key vp_start (filter (\<lambda>p. vp_atr p \<le> th) periods)"
  have "set ?c \<subseteq> set periods" by auto
  from walk_splits_spec [OF this assms, of e s] obtain ps where ps:
    "walk_splits (pc_min_block_hours cfg) (pc_max_block_hours cfg) e periods ?c s = Some ps"
    "spaced (pc_min_block_hours cfg * hour_usec) s e ps"
    "(\<forall>t. s \<le> t \<and> t + pc_max_block_hours cfg * hour_usec < e \<longrightarrow>
        (\<exists>p \<in> set periods. splittable (pc_min_block_hours cfg) (pc_max_block_hours cfg) e t p)) \<longrightarrow>
      pieces_within (pc_max_block_hours cfg * hour_usec) s e ps" by blast
  have "sorted_wrt (<) ps"
    using spaced_sorted [OF _ ps(2)] assms(1) by (simp add: hour_usec_def)
  then have "sorted ps" "distinct ps" by (simp_all add: strict_sorted_iff)
  then have "sort (remdups ps) = ps" by (simp add: distinct_remdups_id sorted_sort_id)
  with ps show ?thesis by (intro exI [of _ ps]) (simp add: find_split_points_def)
qed

lemma create_window_simps [simp]:
  "gw_start (create_window i s e re a reg ses n d) = s" "gw_end (create_window i s e re a reg ses n d) = e"
  "gw_index (create_window i s e re a reg ses n d) = i"
  "gw_split_reason (create_window i s e re a reg ses n d) = re"
  by (simp_all add: create_window_def)

lemma split_window_simps [simp]:
  "gw_start (split_window k ps periods bs i) = bs ! i" "gw_end (split_window k ps periods bs i) = bs ! (i + 1)"
  "gw_split_reason (split_window k ps periods bs i) =
     (if i = 0 \<and> ps = [] then ''single_region'' else if i = 0 then ''region_start''
      else if bs ! i \<in> set ps then ''atr_minima'' else ''forced'')"
  by (simp_all add: split_window_def Let_def split: list.splits)

lemma build_windows_map:
  "build_windows_from_splits k s e ps periods =
   map (split_window k ps periods ([s] @ sort ps @ [e])) [0..<Suc (length ps)]"
  by (simp add: build_windows_from_splits_def Let_def)

lemma build_windows_spans:
  assumes "sorted ps"
  shows "map win_span (build_windows_from_splits k s e ps periods) = zip (s # ps) (ps @ [e])"
  unfolding build_windows_map sorted_sort_id [OF assms]
  by (rule nth_equalityI) (auto simp: nth_append nth_Cons' simp del: upt_Suc)

text \<open>A forced cut is labelled as a volatility minimum: the label \<open>forced\<close> is never given.\<close>

lemma never_labelled_forced:
  assumes "w \<in> set (build_windows_from_splits k s e ps periods)"
  shows "gw_split_reason w \<noteq> ''forced''"
proof -
  let ?bs = "[s] @ sort ps @ [e]"
  from assms obtain i where i: "i < Suc (length ps)" "w = split_window k ps periods ?bs i"
    unfolding build_windows_map by (auto simp del: upt_Suc)
  have "?bs ! i \<in> set ps" if "i \<noteq> 0"
    using that i(1) nth_mem [of "i - 1" "sort ps"] by (auto simp: nth_append nth_Cons')
  then show ?thesis unfolding i(2) split_window_simps by simp
qed

text \<open>Every window of the volatility splitter is a whole region or at least the minimum long.\<close>

lemma volatility_windows_spec:
  assumes "0 < pc_min_block_hours cfg" and "0 \<le> pc_max_block_hours cfg" and "ordered_regions a rs"
  shows "\<exists>ws. volatility_windows np cfg periods k rs = Some ws \<and> ordered_windows a ws \<and>
    (\<forall>u. in_windows ws u \<longleftrightarrow> in_regions rs u) \<and>
    (\<forall>w \<in> set ws. (\<exists>r \<in> set rs. gw_start w = rg_start r \<and> gw_end w = rg_end r) \<or>
       pc_min_block_hours cfg * hour_usec \<le> gw_end w - gw_start w)"
  using assms(3)
proof (induction rs arbitrary: a k)
  case (Cons r rs)
  let ?d = "pc_min_block_hours cfg * hour_usec"
  have d: "0 < ?d" using assms(1) by (simp add: hour_usec_def)
  have r: "a \<le> rg_start r" "rg_start r < rg_end r" "ordered_regions (rg_end r) rs" using Cons.prems by simp_all
  define xs where "xs = sort_key vp_start (filter (overlaps (rg_start r) (rg_end r)) periods)"
  obtain vs k' where vs:
    "volatility_windows np cfg periods k (r # rs) =
       Option.bind (volatility_windows np cfg periods k' rs) (\<lambda>ws. Some (vs @ ws))"
    "tiles (rg_start r) (rg_end r) (map win_span vs)"
    "\<forall>w \<in> set vs. (gw_start w = rg_start r \<and> gw_end w = rg_end r) \<or> ?d \<le> gw_end w - gw_start w"
  proof (cases "filter (overlaps (rg_start r) (rg_end r)) periods = []")
    case True
    then show ?thesis using r(2) by (intro that [of "k + 1"
          "[create_window k (rg_start r) (rg_end r) ''no_volatility_data'' 0 MEDIUM TRANSITION 0 None]"]) simp_all
  next
    case False
    define th where "th = np (map vp_atr xs) (pc_atr_percentile_threshold cfg)"
    obtain ps where ps: "find_split_points cfg (rg_start r) (rg_end r) xs th = Some ps" "spaced ?d (rg_start r) (rg_end r) ps"
      using find_split_points_spec [OF assms(1,2)] by blast
    let ?vs = "build_windows_from_splits k (rg_start r) (rg_end r) ps xs"
    have "sorted ps" using spaced_sorted [OF d ps(2)] by (simp add: strict_sorted_iff)
    note sp = build_windows_spans [OF this, of k "rg_start r" "rg_end r" xs]
    have t: "tiles (rg_start r) (rg_end r) (map win_span ?vs)"
      unfolding sp by (rule spaced_tiles [OF d r(2) ps(2)])
    have "(gw_start w = rg_start r \<and> gw_end w = rg_end r) \<or> ?d \<le> gw_end w - gw_start w" if "w \<in> set ?vs" for w
    proof -
      have w: "win_span w \<in> set (zip (rg_start r # ps) (ps @ [rg_end r]))" using that unfolding sp [symmetric] by simp
      show ?thesis
      proof (cases ps)
        case Nil
        with w show ?thesis by simp
      next
        case (Cons q qs)
        with spaced_lengths [OF d, of "rg_start r" "rg_end r" q qs "win_span w"] ps(2) w show ?thesis by simp
      qed
    qed
    moreover have "volatility_windows np cfg periods k (r # rs) =
       Option.bind (volatility_windows np cfg periods (k + int (length ?vs)) rs) (\<lambda>ws. Some (?vs @ ws))"
      using False ps(1) by (simp add: Let_def xs_def [symmetric] th_def [symmetric])
    ultimately show ?thesis using t by (intro that [of "k + int (length ?vs)" ?vs]) auto
  qed
  from Cons.IH [OF r(3), of k'] obtain ws where ws: "volatility_windows np cfg periods k' rs = Some ws"
    "ordered_windows (rg_end r) ws" "\<And>u. in_windows ws u \<longleftrightarrow> in_regions rs u"
    "\<forall>w \<in> set ws. (\<exists>r \<in> set rs. gw_start w = rg_start r \<and> gw_end w = rg_end r) \<or> ?d \<le> gw_end w - gw_start w"
    by blast
  note t = tiles_windows [OF vs(2)]
  have "ordered_windows (rg_start r) (vs @ ws)" using t ws(2) by (blast intro: ordered_windows_append)
  then have "ordered_windows a (vs @ ws)" using r(1) by (rule ordered_windows_weaken)
  moreover have "in_windows (vs @ ws) u \<longleftrightarrow> in_regions (r # rs) u" for u using t [of u] ws(3) by simp
  moreover have "volatility_windows np cfg periods k (r # rs) = Some (vs @ ws)" using vs(1) ws(1) by simp
  moreover have "\<forall>w \<in> set (vs @ ws). (\<exists>r \<in> set (r # rs). gw_start w = rg_start r \<and> gw_end w = rg_end r) \<or>
       ?d \<le> gw_end w - gw_start w"
    using vs(3) ws(4) by auto
  ultimately show ?case by blast
qed simp

lemma link_distances_span: "map win_span (link_distances ws) = map win_span ws"
  by (induction ws rule: link_distances.induct) auto

section \<open>From bars to windows\<close>

text \<open>All hypotheses of a generation run over bars \<open>ts\<close>.\<close>

definition analysed :: "string \<Rightarrow> gap_thresholds \<Rightarrow> bool \<Rightarrow> instant list \<Rightarrow> coverage_report \<Rightarrow> bool" where
  "analysed gran th w ts rp \<longleftrightarrow>
     analyze gran th (Some ts) (new_report w) = Inr rp \<and> sorted ts \<and> ts \<noteq> [] \<and> hd ts < last ts"

lemma analysed_regions:
  assumes "analysed gran th w ts rp"
  obtains rs where "extract_regions allowed rp None None = Inr (Bounded rs)" "ordered_regions (hd ts) rs"
    "\<forall>r \<in> set rs. rg_end r \<le> last ts"
    "\<And>u. hd ts \<le> u \<Longrightarrow> u < last ts \<Longrightarrow> in_regions rs u \<longleftrightarrow> \<not> in_gaps (interrupting_gaps allowed rp) u"
proof -
  note a = assms [unfolded analysed_def]
  have "\<exists>rs. extract_full allowed rp = Inr (Bounded rs)"
    using a analyze_spec(1,2) [of gran th ts w rp] by (simp add: extract_full_def Let_def)
  then obtain rs where rs: "extract_full allowed rp = Inr (Bounded rs)" ..
  moreover have "extract_regions allowed rp None None = Inr (Bounded rs)" using rs by (simp add: extract_regions_def)
  ultimately show ?thesis using extracted_regions [of gran th ts w rp allowed rs] a by (intro that [of rs]) auto
qed

definition block_fits :: "blocks_config \<Rightarrow> bool \<Rightarrow> instant \<Rightarrow> gap list \<Rightarrow> generated_window \<Rightarrow> bool" where
  "block_fits cfg snap stop gs v \<longleftrightarrow>
     gw_end v \<le> stop \<and> gw_end v - gw_start v \<le> default_block_hours cfg * hour_usec \<and>
     (snap \<longrightarrow> \<not> market_closed (gw_start v)) \<and>
     (\<forall>u. gw_start v \<le> u \<and> u < gw_end v \<longrightarrow> \<not> in_gaps gs u)"

text \<open>Why an instant of the recorded range need not be in a window.\<close>

definition left_out :: "blocks_config \<Rightarrow> bool \<Rightarrow> region list \<Rightarrow> gap list \<Rightarrow> instant \<Rightarrow> bool" where
  "left_out cfg snap rs gs u \<longleftrightarrow>
     in_gaps gs u \<or> snap \<and> market_closed u \<or>
     (\<exists>r \<in> set rs. rg_start r \<le> u \<and> u < rg_end r \<and> rg_end r - u < min_block_hours cfg * hour_usec)"

lemma blocks_split_exact:
  assumes "analysed gran th w ts rp" and "0 < default_block_hours cfg"
    and "extract_regions allowed rp None None = Inr (Bounded rs)" "rs \<noteq> []"
  shows "\<exists>ws. blocks_split cfg snap allowed rp bt symb None None None now = Some (Inr ws) \<and>
     ordered_windows (hd ts) (ws_windows ws) \<and>
     (\<forall>v \<in> set (ws_windows ws). block_fits cfg snap (last ts) (interrupting_gaps allowed rp) v) \<and>
     (\<forall>u. hd ts \<le> u \<and> u < last ts \<longrightarrow>
        in_windows (ws_windows ws) u \<or> left_out cfg snap rs (interrupting_gaps allowed rp) u)"
proof -
  from assms(1) obtain rs' where rs': "extract_regions allowed rp None None = Inr (Bounded rs')" "ordered_regions (hd ts) rs'"
    "\<forall>r \<in> set rs'. rg_end r \<le> last ts"
    "\<And>u. hd ts \<le> u \<Longrightarrow> u < last ts \<Longrightarrow> in_regions rs' u \<longleftrightarrow> \<not> in_gaps (interrupting_gaps allowed rp) u"
    by (rule analysed_regions [where allowed = allowed]) blast
  from rs'(1) assms(3) have "rs' = rs" by simp
  note rs = rs'(2-4) [unfolded this]
  from blocks_of_regions_spec [OF assms(2) rs(1), of snap] obtain ws where ws: "blocks_of_regions cfg snap rs = Some ws"
    "ordered_windows (hd ts) ws"
    "\<And>v. v \<in> set ws \<Longrightarrow> \<exists>r \<in> set rs. rg_start r \<le> gw_start v \<and>
        block_ok (default_block_hours cfg) (min_block_hours cfg) snap (rg_end r) v"
    "\<And>r u. r \<in> set rs \<Longrightarrow> rg_start r \<le> u \<Longrightarrow> u < rg_end r \<Longrightarrow>
        in_windows ws u \<or> snap \<and> market_closed u \<or> rg_end r - u < min_block_hours cfg * hour_usec"
    by blast
  let ?ws = "renumber ws"
  have sp: "map win_span ?ws = map win_span ws" by (rule renumber_simps)
  have split: "blocks_split cfg snap allowed rp bt symb None None None now = Some (Inr
      \<lparr>ws_symbol = symb, ws_broker_type = bt, ws_strategy = BLOCKS, ws_windows = ?ws, ws_generated_at = now,
       ws_mode = ''blocks'', ws_split_config = None\<rparr>)"
    using assms(3,4) ws(1) by (simp add: blocks_split_def limit_windows_def)
  have each: "block_fits cfg snap (last ts) (interrupting_gaps allowed rp) v" if v: "v \<in> set ws" for v
  proof -
    obtain r where r: "r \<in> set rs" "rg_start r \<le> gw_start v"
      "block_ok (default_block_hours cfg) (min_block_hours cfg) snap (rg_end r) v" using ws(3) [OF v] by blast
    have le: "gw_end v \<le> rg_end r" "rg_end r \<le> last ts" using r rs(2) by (simp_all add: block_ok_def)
    have "\<not> in_gaps (interrupting_gaps allowed rp) u" if u: "gw_start v \<le> u" "u < gw_end v" for u
    proof -
      have "in_regions rs u" using r u le by (auto simp: in_regions_def intro!: bexI [of _ r])
      moreover have "hd ts \<le> u" using ordered_windows_above [OF ws(2) v] u by simp
      ultimately show ?thesis using rs(3) [of u] le u by simp
    qed
    with r le show ?thesis by (auto simp: block_ok_def block_fits_def)
  qed
  have "block_fits cfg snap (last ts) (interrupting_gaps allowed rp) v" if "v \<in> set ?ws" for v
  proof -
    have "win_span v \<in> win_span ` set ws" using that arg_cong [OF sp, of set] by force
    then obtain v' where "v' \<in> set ws" "gw_start v = gw_start v'" "gw_end v = gw_end v'" by auto
    with each [of v'] show ?thesis by (simp add: block_fits_def)
  qed
  moreover have "in_windows ?ws u \<or> left_out cfg snap rs (interrupting_gaps allowed rp) u" if "hd ts \<le> u" "u < last ts" for u
    using rs(3) [OF that] ws(4) [of _ u] in_windows_span [OF sp, of u] unfolding in_regions_def left_out_def by blast
  moreover have "ordered_windows (hd ts) ?ws" using ws(2) ordered_windows_span [OF sp] by simp
  ultimately show ?thesis unfolding split by simp
qed

section \<open>Roles and names\<close>

lemma roles_time_ordered:
  assumes "0 \<le> n"
  shows "length (assign_roles_time_ordered n q) = nat n"
    and "\<exists>k. assign_roles_time_ordered n q = replicate k IN_SAMPLE @ replicate (nat n - k) OUT_OF_SAMPLE \<and>
         (n \<ge> 1 \<longrightarrow> 1 \<le> k) \<and> (n \<ge> 2 \<longrightarrow> k < nat n)"
proof -
  define k where "k = max 1 (min (round_half_even (of_int n * q)) (n - 1))"
  have "\<exists>k. assign_roles_time_ordered n q = replicate k IN_SAMPLE @ replicate (nat n - k) OUT_OF_SAMPLE \<and>
         (n \<ge> 1 \<longrightarrow> 1 \<le> k) \<and> (n \<ge> 2 \<longrightarrow> k < nat n) \<and> k \<le> nat n"
  proof (cases "n \<ge> 2")
    case True
    then have k: "1 \<le> k" "k \<le> n - 1" by (auto simp: k_def)
    have "assign_roles_time_ordered n q = replicate (nat (n - k)) IN_SAMPLE @ replicate (nat k) OUT_OF_SAMPLE"
      using True by (simp add: assign_roles_time_ordered_def k_def Let_def)
    moreover have "nat n - nat (n - k) = nat k" using k by linarith
    ultimately show ?thesis using k True by (intro exI [of _ "nat (n - k)"]) auto
  next
    case False
    with assms have "n = 0 \<or> n = 1" by linarith
    then show ?thesis by (intro exI [of _ "nat n"]) (auto simp: assign_roles_time_ordered_def)
  qed
  then show "length (assign_roles_time_ordered n q) = nat n"
    and "\<exists>k. assign_roles_time_ordered n q = replicate k IN_SAMPLE @ replicate (nat n - k) OUT_OF_SAMPLE \<and>
         (n \<ge> 1 \<longrightarrow> 1 \<le> k) \<and> (n \<ge> 2 \<longrightarrow> k < nat n)" by auto
qed

lemma str_nat_zero: "str_nat (CHR ''0'' # s) = str_nat s"
  by (simp add: str_nat_def digit_val_def)

lemma pad2_inject: "0 \<le> m \<Longrightarrow> 0 \<le> n \<Longrightarrow> pad2 m = pad2 n \<Longrightarrow> m = n"
proof -
  assume "0 \<le> m" "0 \<le> n" "pad2 m = pad2 n"
  moreover have "str_nat (pad2 k) = nat k" for k by (simp add: pad2_def str_nat_zero)
  ultimately show ?thesis by (metis nat_eq_iff2 int_nat_eq)
qed

text \<open>Scenarios of a block set have names of their own.\<close>

lemma block_names_distinct:
  assumes "ws_strategy ws = BLOCKS"
  shows "distinct (map sc_name (to_scenario_dicts ws robustness))"
proof -
  have "inj_on (\<lambda>i. sc_name (scenario_of ws r i)) A" for r and A :: "nat set"
    using assms by (auto intro!: inj_onI simp: scenario_of_def Let_def window_name_def dest: pad2_inject [rotated 2])
  then show ?thesis by (simp add: to_scenario_dicts_def Let_def distinct_map comp_def)
qed

section \<open>A profile with a hole\<close>

text \<open>
  Periods at two and at sixty hours of a region of seventy-two: the walk cuts at the first, finds nothing within
  the maximum of 24 hours, and skips to the second without cutting, so the second window has seventy hours.
\<close>

definition hole_period :: "int \<Rightarrow> volatility_period" where
  "hole_period h = \<lparr>vp_start = h * hour_usec, vp_end = (h + 1) * hour_usec, vp_session = LONDON, vp_atr = 1,
     vp_regime = LOW, vp_tick_count = 10\<rparr>"

definition hole_config :: profile_config where
  "hole_config = \<lparr>pc_min_block_hours = 2, pc_max_block_hours = 24, pc_atr_percentile_threshold = 10,
     pc_split_algorithm = ''atr_minima''\<rparr>"

lemma window_exceeds_maximum:
  "find_split_points hole_config 0 (72 * hour_usec) [hole_period 2, hole_period 60] 1 = Some [2 * hour_usec]"
  "map block_duration_hours
     (build_windows_from_splits 0 0 (72 * hour_usec) [2 * hour_usec] [hole_period 2, hole_period 60]) = [2, 70]"
proof -
  let ?w = "walk_splits 2 24 (72 * hour_usec) [hole_period 2, hole_period 60] [hole_period 2, hole_period 60]"
  note d = walk_splits.simps [of 2 24 "72 * hour_usec" "[hole_period 2, hole_period 60]" "[hole_period 2, hole_period 60]"]
    splittable_iff hole_period_def hour_usec_def hours_def total_seconds_def
  have 3: "?w (60 * hour_usec) = Some []" by (subst d(1)) (simp add: d(2-))
  have 2: "?w (2 * hour_usec) = ?w (60 * hour_usec)" by (subst d(1)) (simp add: d(2-))
  have 1: "?w 0 = Option.bind (?w (2 * hour_usec)) (\<lambda>ps. Some (2 * hour_usec # ps))"
    by (subst d(1)) (simp add: d(2-))
  have c: "sort_key vp_start (filter (\<lambda>p. vp_atr p \<le> 1) [hole_period 2, hole_period 60]) = [hole_period 2, hole_period 60]"
    by (simp add: hole_period_def hour_usec_def)
  show "find_split_points hole_config 0 (72 * hour_usec) [hole_period 2, hole_period 60] 1 = Some [2 * hour_usec]"
    unfolding find_split_points_def Let_def c by (simp add: hole_config_def 1 2 3)
  show "map block_duration_hours
     (build_windows_from_splits 0 0 (72 * hour_usec) [2 * hour_usec] [hole_period 2, hole_period 60]) = [2, 70]"
    by (simp add: build_windows_from_splits_def Let_def block_duration_hours_def hours_def total_seconds_def hour_usec_def)
qed

section \<open>From bars and a volatility profile to windows\<close>

lemma in_regions_start: "ordered_regions a rs \<Longrightarrow> in_regions rs u \<Longrightarrow> a \<le> u"
  by (induction rs arbitrary: a) fastforce+

lemma continuous_span:
  "map win_span (continuous_windows periods i rs) = map (\<lambda>r. (rg_start r, rg_end r)) rs"
  by (induction rs arbitrary: i) (auto simp: create_window_def Let_def split: list.split option.split)

lemma region_span:
  assumes "map win_span ws = map (\<lambda>r. (rg_start r, rg_end r)) rs"
  shows "ordered_windows a ws = ordered_regions a rs" "in_windows ws u = in_regions rs u"
proof -
  have "ordered_windows a ws = ordered_regions a rs \<and> in_windows ws u = in_regions rs u"
    using assms
  proof (induction ws arbitrary: a rs)
    case (Cons w ws)
    then obtain r rs' where "rs = r # rs'" by (cases rs) auto
    with Cons show ?case by auto
  qed auto
  then show "ordered_windows a ws = ordered_regions a rs" "in_windows ws u = in_regions rs u" by simp_all
qed

lemma profile_split_exact:
  assumes a: "analysed gran th w ts rp" and cfg: "0 < pc_min_block_hours cfg" "0 \<le> pc_max_block_hours cfg"
    and st: "strategy = VOLATILITY_SPLIT \<or> strategy = CONTINUOUS"
  shows "\<exists>r. profile_split np strategy cfg allowed (Some rp) profile bt symb (Some lo) (Some hi) now = Some r \<and>
    (\<forall>ws. r = Inr ws \<longrightarrow> ordered_windows (hd ts) (ws_windows ws) \<and>
       (\<forall>u. in_windows (ws_windows ws) u \<longleftrightarrow>
          hd ts \<le> u \<and> u < last ts \<and> lo \<le> u \<and> u < hi \<and> \<not> in_gaps (interrupting_gaps allowed rp) u))"
proof -
  from a obtain rs where rs: "extract_regions allowed rp None None = Inr (Bounded rs)" "ordered_regions (hd ts) rs"
    "\<forall>r \<in> set rs. rg_end r \<le> last ts"
    "\<And>u. hd ts \<le> u \<Longrightarrow> u < last ts \<Longrightarrow> in_regions rs u \<longleftrightarrow> \<not> in_gaps (interrupting_gaps allowed rp) u"
    by (rule analysed_regions [where allowed = allowed]) blast
  define cs where "cs = List.map_filter (clip_region (Some lo) (Some hi)) rs"
  have x: "extract_regions allowed rp (Some lo) (Some hi) = Inr (Bounded cs)" using rs(1) by (auto simp: extract_regions_def clip_regions_def cs_def)
  have o: "ordered_regions (hd ts) cs" unfolding cs_def by (rule ordered_regions_clip [OF rs(2)])
  have range: "in_regions rs u \<longleftrightarrow> hd ts \<le> u \<and> u < last ts \<and> \<not> in_gaps (interrupting_gaps allowed rp) u" for u
    using rs(4) [of u] in_regions_start [OF rs(2), of u] rs(3) by (force simp: in_regions_def)
  have c: "in_regions cs u \<longleftrightarrow> hd ts \<le> u \<and> u < last ts \<and> lo \<le> u \<and> u < hi \<and> \<not> in_gaps (interrupting_gaps allowed rp) u" for u
    unfolding cs_def in_regions_clip range by auto
  have build: "\<exists>ws. (if strategy = VOLATILITY_SPLIT then volatility_build_windows np cfg cs ps else Some (continuous_windows ps 0 cs))
      = Some ws \<and> ordered_windows (hd ts) ws \<and> (\<forall>u. in_windows ws u \<longleftrightarrow> in_regions cs u)" for ps
  proof (cases "strategy = VOLATILITY_SPLIT")
    case True
    from volatility_windows_spec [OF cfg o, of np ps 0] obtain vs where "volatility_windows np cfg ps 0 cs = Some vs"
      "ordered_windows (hd ts) vs" "\<forall>u. in_windows vs u \<longleftrightarrow> in_regions cs u" by blast
    with True ordered_windows_span [OF link_distances_span [of vs]] in_windows_span [OF link_distances_span [of vs]]
    show ?thesis by (simp add: volatility_build_windows_def)
  next
    case False
    with o region_span [OF continuous_span] show ?thesis by simp
  qed
  show ?thesis
  proof (cases "cs = [] \<or> profile = None \<or> filter (overlaps lo hi) (the profile) = []")
    case True
    then show ?thesis by (auto simp: profile_split_def x Let_def split: option.split)
  next
    case False
    then obtain ps where p: "profile = Some ps" by auto
    from build [of "filter (overlaps lo hi) ps"] obtain ws where
      "(if strategy = VOLATILITY_SPLIT then volatility_build_windows np cfg cs (filter (overlaps lo hi) ps)
        else Some (continuous_windows (filter (overlaps lo hi) ps) 0 cs)) = Some ws"
      "ordered_windows (hd ts) ws" "\<forall>u. in_windows ws u \<longleftrightarrow> in_regions cs u" by blast
    with False p c show ?thesis by (simp add: profile_split_def x Let_def)
  qed
qed

end
