(* ===== verification/Kraken_Live.thy ===== *)
theory Kraken_Live
  imports Live_Executor
begin

text \<open>
  The live layers of \<^verbatim>\<open>trading_env/adapters/kraken_adapter.py\<close>, with the order simulator behind its dry-run mode,
  \<^verbatim>\<open>trading_env/adapters/dry_run_simulator.py\<close>, and the pulls of broker truth of
  \<^verbatim>\<open>trading_env/adapters/abstract_adapter.py\<close>. Signing and HTTP are a parameter: \<open>post\<close> takes the path and the form
  data, nonce included, and gives the decoded JSON body or the exception of the request.

  The text of a number, \<open>str(x)\<close> in a request and a numeric string in a reply, is kept as the number it denotes.
  The config key \<open>kraken_pair_name\<close> of the symbols is the association list \<open>kr_pairs\<close>, in config order. An
  exception's text is a constant. The readings of the clock inside one request are the same \<open>now\<close>, and a sleep lasts
  as long as asked.
\<close>

section \<open>Dry-run orders\<close>

record dry_run_order =
  dr_lots :: lots
  dr_price :: "price option"
  remaining_polls :: int

record dry_run =
  dr_counter :: nat
  polls_until_fill :: int
  dr_orders :: "(string, dry_run_order) dict"

definition new_dry_run :: "int \<Rightarrow> dry_run" where
  "new_dry_run polls = \<lparr>dr_counter = 0, polls_until_fill = polls, dr_orders = []\<rparr>"

definition plain_response :: "string \<Rightarrow> broker_order_status \<Rightarrow> instant \<Rightarrow> broker_response" where
  "plain_response ref st now =
     \<lparr>resp_broker_ref = ref, resp_status = st, resp_fill_price = None, resp_filled_lots = None,
      resp_rejection_reason = None, resp_timestamp = now\<rparr>"

definition dry_ref :: "nat \<Rightarrow> string" where
  "dry_ref n = ''DRYRUN-'' @ pad6 n"

definition dry_submit :: "lots \<Rightarrow> price option \<Rightarrow> instant \<Rightarrow> dry_run \<Rightarrow> broker_response \<times> dry_run" where
  "dry_submit l x now d =
     (let n = dr_counter d + 1; ref = dry_ref n in
      (plain_response ref BS_PENDING now,
       d\<lparr>dr_counter := n,
         dr_orders := AList.update ref \<lparr>dr_lots = l, dr_price = x, remaining_polls = polls_until_fill d\<rparr> (dr_orders d)\<rparr>))"

definition dry_query :: "string \<Rightarrow> instant \<Rightarrow> dry_run \<Rightarrow> broker_response \<times> dry_run" where
  "dry_query ref now d =
     (case map_of (dr_orders d) ref of
        None \<Rightarrow> (plain_response ref BS_FILLED now, d)
      | Some o1 \<Rightarrow>
          let o2 = o1\<lparr>remaining_polls := remaining_polls o1 - 1\<rparr> in
          if remaining_polls o2 > 0
          then (plain_response ref BS_PENDING now, d\<lparr>dr_orders := AList.update ref o2 (dr_orders d)\<rparr>)
          else ((plain_response ref BS_FILLED now)
                  \<lparr>resp_fill_price := Some (with_default 0 (dr_price o2)), resp_filled_lots := Some (dr_lots o2)\<rparr>,
                d\<lparr>dr_orders := AList.delete ref (dr_orders d)\<rparr>))"

definition dry_cancel :: "string \<Rightarrow> instant \<Rightarrow> dry_run \<Rightarrow> broker_response \<times> dry_run" where
  "dry_cancel ref now d =
     (plain_response ref BS_CANCELLED now, d\<lparr>dr_orders := AList.delete ref (dr_orders d)\<rparr>)"

definition dry_modify :: "string \<Rightarrow> price option \<Rightarrow> instant \<Rightarrow> dry_run \<Rightarrow> broker_response \<times> dry_run" where
  "dry_modify ref x now d =
     (plain_response ref BS_PENDING now,
      case (map_of (dr_orders d) ref, x) of
        (Some o1, Some y) \<Rightarrow> d\<lparr>dr_orders := AList.update ref (o1\<lparr>dr_price := Some y\<rparr>) (dr_orders d)\<rparr>
      | _ \<Rightarrow> d)"

section \<open>Requests and replies\<close>

datatype text_value = Lit string | Dec rat

type_synonym form = "(string, text_value) dict"

datatype raw = RNone | RText string | RDec rat | RNum rat | RList "raw list" | RDict "(string \<times> raw) list"

fun py_float :: "raw \<Rightarrow> rat call" where
  "py_float (RDec x) = Inr x"
| "py_float (RNum x) = Inr x"
| "py_float (RText s) = Inl (ValueError, ''could not convert string to float'')"
| "py_float r = Inl (TypeError, ''float() argument'')"

fun truthy_raw :: "raw \<Rightarrow> bool" where
  "truthy_raw RNone = False"
| "truthy_raw (RText s) = (s \<noteq> [])"
| "truthy_raw (RDec x) = True"
| "truthy_raw (RNum x) = (x \<noteq> 0)"
| "truthy_raw (RList rs) = (rs \<noteq> [])"
| "truthy_raw (RDict m) = (m \<noteq> [])"

fun raw_get :: "string \<Rightarrow> raw \<Rightarrow> raw \<Rightarrow> raw call" where
  "raw_get k d (RDict m) = Inr (get_default d m k)"
| "raw_get k d r = Inl (AttributeError, ''get'')"

fun raw_items :: "raw \<Rightarrow> (string \<times> raw) list call" where
  "raw_items (RDict m) = Inr m"
| "raw_items r = Inl (AttributeError, ''items'')"

definition raw_or :: "raw \<Rightarrow> raw \<Rightarrow> raw" where
  "raw_or r d = (if truthy_raw r then r else d)"

text \<open>A text of the reply that becomes part of a record; anything else is the empty text there.\<close>

definition text_of :: "raw \<Rightarrow> string" where
  "text_of r = (case r of RText s \<Rightarrow> s | _ \<Rightarrow> [])"

definition text_float :: "text_value \<Rightarrow> rat call" where
  "text_float t = (case t of Dec x \<Rightarrow> Inr x | Lit s \<Rightarrow> Inl (ValueError, ''could not convert string to float''))"

fun map_call :: "('a \<Rightarrow> 'b call) \<Rightarrow> 'a list \<Rightarrow> 'b list call" where
  "map_call f [] = Inr []"
| "map_call f (x # xs) = bind_call (f x) (\<lambda>y. bind_call (map_call f xs) (\<lambda>ys. Inr (y # ys)))"

definition is_dryrun_ref :: "string \<Rightarrow> bool" where
  "is_dryrun_ref ref = (take 7 ref = ''DRYRUN-'')"

section \<open>The adapter\<close>

record kraken =
  kr_broker :: broker
  kr_pairs :: "(string, string) dict"
  kr_dry_run :: bool
  kr_simulator :: dry_run
  last_nonce :: int
  last_request_time :: instant
  rate_limit_interval :: int

definition resolve_kraken_pair :: "kraken \<Rightarrow> string \<Rightarrow> string" where
  "resolve_kraken_pair k smb =
     (case map_of (kr_pairs k) smb of None \<Rightarrow> smb | Some p \<Rightarrow> if p \<noteq> [] then p else smb)"

definition resolve_symbol_from_pair :: "kraken \<Rightarrow> string \<Rightarrow> string" where
  "resolve_symbol_from_pair k p =
     (if p = [] then [] else case find (\<lambda>(smb, n). n = p) (kr_pairs k) of None \<Rightarrow> p | Some (smb, n) \<Rightarrow> smb)"

definition resolve_quote_currency_from_pair :: "kraken \<Rightarrow> string \<Rightarrow> string" where
  "resolve_quote_currency_from_pair k p =
     (if p = [] then ''USD''
      else case find (\<lambda>(smb, n). n = p) (kr_pairs k) of
        None \<Rightarrow> ''USD''
      | Some (smb, n) \<Rightarrow>
          (case map_of (br_symbols (kr_broker k)) smb of
             None \<Rightarrow> ''USD'' | Some r \<Rightarrow> with_default ''USD'' (raw_quote_currency r)))"

subsection \<open>Transport\<close>

definition next_nonce :: "instant \<Rightarrow> int \<Rightarrow> int" where
  "next_nonce now prev = max (now div 1000) (prev + 1)"

definition sign_request :: "instant \<Rightarrow> form \<Rightarrow> kraken \<Rightarrow> form \<times> kraken" where
  "sign_request now data k =
     (let n = next_nonce now (last_nonce k) in
      (AList.update ''nonce'' (Dec (of_int n)) data, k\<lparr>last_nonce := n\<rparr>))"

definition enforce_rate_limit :: "instant \<Rightarrow> kraken \<Rightarrow> int \<times> kraken" where
  "enforce_rate_limit now k =
     (let elapsed = now - last_request_time k;
          wait = (if elapsed < rate_limit_interval k then rate_limit_interval k - elapsed else 0)
      in (wait, k\<lparr>last_request_time := now + wait\<rparr>))"

definition do_fetch_private ::
  "(string \<Rightarrow> form \<Rightarrow> raw call) \<Rightarrow> instant \<Rightarrow> string \<Rightarrow> form \<Rightarrow> kraken \<Rightarrow> raw call \<times> kraken" where
  "do_fetch_private post now endpoint data k =
     (let (wait, k1) = enforce_rate_limit now k; (signed, k2) = sign_request (now + wait) data k1 in
      (bind_call (post endpoint signed) (\<lambda>result.
         bind_call (raw_get ''error'' (RList []) result) (\<lambda>errors.
           if truthy_raw errors then Inl (ConnectionError, ''Kraken API error'')
           else raw_get ''result'' (RDict []) result)), k2))"

subsection \<open>Building payloads\<close>

definition kr_build_submit_payload ::
  "kraken \<Rightarrow> string \<Rightarrow> order_direction \<Rightarrow> lots \<Rightarrow> order_type \<Rightarrow> price option \<Rightarrow> form" where
  "kr_build_submit_payload k smb d l ot x =
     [(''pair'', Lit (resolve_kraken_pair k smb)), (''type'', Lit (if d = LONG then ''buy'' else ''sell'')),
      (''ordertype'', Lit (if ot = OT_MARKET then ''market'' else ''limit'')), (''volume'', Dec l)]
     @ (case x of Some y \<Rightarrow> if ot = OT_LIMIT then [(''price'', Dec y)] else [] | None \<Rightarrow> [])"

definition txid_payload :: "string \<Rightarrow> form" where
  "txid_payload ref = [(''txid'', Lit ref)]"

definition kr_build_modify_payload :: "string \<Rightarrow> price option \<Rightarrow> form" where
  "kr_build_modify_payload ref x =
     (''txid'', Lit ref) # (case x of None \<Rightarrow> [] | Some y \<Rightarrow> [(''limit_price'', Dec y)])"

subsection \<open>Requests\<close>

definition DRY_RUN_SENTINEL :: string where
  "DRY_RUN_SENTINEL = ''__dry_run_op__''"

definition opt_raw :: "rat option \<Rightarrow> raw" where
  "opt_raw x = (case x of None \<Rightarrow> RNone | Some y \<Rightarrow> RNum y)"

text \<open>\<open>payload[key]\<close>, and the number under an optional key.\<close>

definition form_item :: "string \<Rightarrow> form \<Rightarrow> text_value call" where
  "form_item key p = (case map_of p key of None \<Rightarrow> Inl (KeyError, key) | Some t \<Rightarrow> Inr t)"

definition form_number :: "string \<Rightarrow> form \<Rightarrow> rat option call" where
  "form_number key p =
     (case map_of p key of None \<Rightarrow> Inr None | Some t \<Rightarrow> bind_call (text_float t) (\<lambda>x. Inr (Some x)))"

definition form_txid :: "form \<Rightarrow> string call" where
  "form_txid p =
     bind_call (form_item ''txid'' p) (\<lambda>t. case t of Lit s \<Rightarrow> Inr s | Dec x \<Rightarrow> Inl (TypeError, ''txid''))"

definition kr_do_request_submit ::
  "(string \<Rightarrow> form \<Rightarrow> raw call) \<Rightarrow> instant \<Rightarrow> form \<Rightarrow> kraken \<Rightarrow> raw call \<times> kraken" where
  "kr_do_request_submit post now p k =
     (if kr_dry_run k then
        (let (r, k1) = do_fetch_private post now ''/0/private/AddOrder'' (AList.update ''validate'' (Lit ''true'') p) k in
         (bind_call r (\<lambda>_.
            bind_call (form_item ''volume'' p) (\<lambda>v.
              bind_call (text_float v) (\<lambda>l.
                bind_call (form_number ''price'' p) (\<lambda>x.
                  Inr (RDict [(DRY_RUN_SENTINEL, RText ''submit''), (''lots'', RNum l), (''price'', opt_raw x)]))))), k1))
      else do_fetch_private post now ''/0/private/AddOrder'' p k)"

text \<open>Query, cancel, modify and trades query of a dry-run order stay local.\<close>

definition kr_local :: "string \<Rightarrow> string \<Rightarrow> (string \<times> raw) list \<Rightarrow> raw" where
  "kr_local kind ref extra = RDict ([(DRY_RUN_SENTINEL, RText kind), (''broker_ref'', RText ref)] @ extra)"

definition kr_do_request_query ::
  "(string \<Rightarrow> form \<Rightarrow> raw call) \<Rightarrow> instant \<Rightarrow> form \<Rightarrow> kraken \<Rightarrow> raw call \<times> kraken" where
  "kr_do_request_query post now p k =
     (case form_txid p of
        Inl e \<Rightarrow> (Inl e, k)
      | Inr ref \<Rightarrow>
          if kr_dry_run k \<or> is_dryrun_ref ref then (Inr (kr_local ''query'' ref []), k)
          else do_fetch_private post now ''/0/private/QueryOrders'' p k)"

definition kr_do_request_cancel ::
  "(string \<Rightarrow> form \<Rightarrow> raw call) \<Rightarrow> instant \<Rightarrow> form \<Rightarrow> kraken \<Rightarrow> raw call \<times> kraken" where
  "kr_do_request_cancel post now p k =
     (case form_txid p of
        Inl e \<Rightarrow> (Inl e, k)
      | Inr ref \<Rightarrow>
          if kr_dry_run k \<or> is_dryrun_ref ref then (Inr (kr_local ''cancel'' ref []), k)
          else do_fetch_private post now ''/0/private/CancelOrder'' p k)"

definition kr_do_request_modify ::
  "(string \<Rightarrow> form \<Rightarrow> raw call) \<Rightarrow> instant \<Rightarrow> form \<Rightarrow> kraken \<Rightarrow> raw call \<times> kraken" where
  "kr_do_request_modify post now p k =
     (case form_txid p of
        Inl e \<Rightarrow> (Inl e, k)
      | Inr ref \<Rightarrow>
          if kr_dry_run k \<or> is_dryrun_ref ref
          then (bind_call (form_number ''limit_price'' p) (\<lambda>x. Inr (kr_local ''modify'' ref [(''new_price'', opt_raw x)])), k)
          else do_fetch_private post now ''/0/private/AmendOrder'' p k)"

fun join_commas :: "string list \<Rightarrow> string" where
  "join_commas [] = []"
| "join_commas [s] = s"
| "join_commas (s # ss) = s @ '','' @ join_commas ss"

fun raw_strings :: "raw \<Rightarrow> string list call" where
  "raw_strings (RList rs) = map_call (\<lambda>r. case r of RText s \<Rightarrow> Inr s | _ \<Rightarrow> Inl (TypeError, ''sequence item'')) rs"
| "raw_strings (RText s) = Inr (map (\<lambda>c. [c]) s)"
| "raw_strings (RDict m) = Inr (map fst m)"
| "raw_strings r = Inl (TypeError, ''can only join an iterable'')"

definition kr_do_request_trades_query ::
  "(string \<Rightarrow> form \<Rightarrow> raw call) \<Rightarrow> instant \<Rightarrow> form \<Rightarrow> kraken \<Rightarrow> raw call \<times> kraken" where
  "kr_do_request_trades_query post now p k =
     (case form_txid p of
        Inl e \<Rightarrow> (Inl e, k)
      | Inr ref \<Rightarrow>
          if kr_dry_run k \<or> is_dryrun_ref ref then (Inr (kr_local ''trades_query'' ref []), k)
          else
            let wrap = (\<lambda>trades. RDict [(''broker_ref'', RText ref), (''trades_raw'', trades)]);
                (order_resp, k1) = do_fetch_private post now ''/0/private/QueryOrders''
                                     [(''txid'', Lit ref), (''trades'', Lit ''true'')] k
            in case bind_call order_resp (\<lambda>r.
                      bind_call (raw_get ref (RDict []) r) (\<lambda>order_data.
                        bind_call (raw_get ''trades'' (RList []) order_data) (\<lambda>ts. Inr (raw_or ts (RList []))))) of
                 Inl e \<Rightarrow> (Inl e, k1)
               | Inr ts \<Rightarrow>
                   if \<not> truthy_raw ts then (Inr (wrap (RDict [])), k1)
                   else (case raw_strings ts of
                           Inl e \<Rightarrow> (Inl e, k1)
                         | Inr ids \<Rightarrow>
                             let (trades_resp, k2) = do_fetch_private post now ''/0/private/QueryTrades''
                                                       [(''txid'', Lit (join_commas ids))] k1
                             in (bind_call trades_resp (\<lambda>r. Inr (wrap r)), k2)))"

subsection \<open>Parsing replies\<close>

definition is_sentinel :: "string \<Rightarrow> raw \<Rightarrow> bool call" where
  "is_sentinel kind r = bind_call (raw_get DRY_RUN_SENTINEL RNone r) (\<lambda>v. Inr (v = RText kind))"

fun raw_number :: "raw \<Rightarrow> rat option call" where
  "raw_number RNone = Inr None"
| "raw_number r = bind_call (py_float r) (\<lambda>x. Inr (Some x))"

definition raw_item :: "string \<Rightarrow> raw \<Rightarrow> raw call" where
  "raw_item key r =
     bind_call (raw_items r) (\<lambda>m. case map_of m key of None \<Rightarrow> Inl (KeyError, key) | Some v \<Rightarrow> Inr v)"

fun first_txid :: "raw \<Rightarrow> string call" where
  "first_txid (RList (r # rs)) = Inr (text_of r)"
| "first_txid (RText (c # cs)) = Inr [c]"
| "first_txid (RDict (kv # m)) = Inl (KeyError, ''0'')"
| "first_txid r = (if truthy_raw r then Inl (TypeError, ''not subscriptable'') else Inr [])"

definition on_simulator ::
  "(dry_run \<Rightarrow> broker_response \<times> dry_run) \<Rightarrow> kraken \<Rightarrow> broker_response \<times> kraken" where
  "on_simulator f k = (let (r, d) = f (kr_simulator k) in (r, k\<lparr>kr_simulator := d\<rparr>))"

definition kr_parse_submit_response :: "raw \<Rightarrow> instant \<Rightarrow> kraken \<Rightarrow> (broker_response \<times> kraken) call" where
  "kr_parse_submit_response r now k =
     bind_call (is_sentinel ''submit'' r) (\<lambda>dry.
       if dry then
         bind_call (raw_item ''lots'' r) (\<lambda>lv. bind_call (py_float lv) (\<lambda>l.
           bind_call (raw_item ''price'' r) (\<lambda>xv. bind_call (raw_number xv) (\<lambda>x.
             Inr (on_simulator (dry_submit l x now) k)))))
       else
         bind_call (raw_get ''txid'' (RList []) r) (\<lambda>t.
           bind_call (first_txid t) (\<lambda>ref. Inr (plain_response ref BS_PENDING now, k))))"

definition STATUS_MAP :: "(string, broker_order_status) dict" where
  "STATUS_MAP = [(''pending'', BS_PENDING), (''open'', BS_PENDING), (''closed'', BS_FILLED),
     (''canceled'', BS_CANCELLED), (''expired'', BS_EXPIRED)]"

definition status_of :: "raw \<Rightarrow> broker_order_status call" where
  "status_of r =
     (case r of
        RText s \<Rightarrow> Inr (get_default BS_PENDING STATUS_MAP s)
      | RList rs \<Rightarrow> Inl (TypeError, ''unhashable'')
      | RDict m \<Rightarrow> Inl (TypeError, ''unhashable'')
      | _ \<Rightarrow> Inr BS_PENDING)"

definition kr_parse_query_response :: "raw \<Rightarrow> string \<Rightarrow> instant \<Rightarrow> kraken \<Rightarrow> (broker_response \<times> kraken) call" where
  "kr_parse_query_response r ref now k =
     bind_call (is_sentinel ''query'' r) (\<lambda>dry.
       if dry then Inr (on_simulator (dry_query ref now) k)
       else
         bind_call (raw_get ref (RDict []) r) (\<lambda>info.
           bind_call (raw_get ''status'' (RText ''pending'') info) (\<lambda>sv.
             bind_call (status_of sv) (\<lambda>st.
               if st = BS_FILLED then
                 bind_call (raw_get ''price'' (RNum 0) info) (\<lambda>xv. bind_call (py_float xv) (\<lambda>x.
                   bind_call (raw_get ''vol_exec'' (RNum 0) info) (\<lambda>lv. bind_call (py_float lv) (\<lambda>l.
                     Inr ((plain_response ref st now)\<lparr>resp_fill_price := Some x, resp_filled_lots := Some l\<rparr>, k)))))
               else Inr (plain_response ref st now, k)))))"

definition kr_parse_cancel_response :: "raw \<Rightarrow> string \<Rightarrow> instant \<Rightarrow> kraken \<Rightarrow> (broker_response \<times> kraken) call" where
  "kr_parse_cancel_response r ref now k =
     bind_call (is_sentinel ''cancel'' r) (\<lambda>dry.
       Inr (if dry then on_simulator (dry_cancel ref now) k else (plain_response ref BS_CANCELLED now, k)))"

definition kr_parse_modify_response :: "raw \<Rightarrow> string \<Rightarrow> instant \<Rightarrow> kraken \<Rightarrow> (broker_response \<times> kraken) call" where
  "kr_parse_modify_response r ref now k =
     bind_call (is_sentinel ''modify'' r) (\<lambda>dry.
       if dry then
         bind_call (raw_item ''broker_ref'' r) (\<lambda>rv. bind_call (raw_item ''new_price'' r) (\<lambda>xv.
           bind_call (raw_number xv) (\<lambda>x. Inr (on_simulator (dry_modify (text_of rv) x now) k))))
       else Inr (plain_response ref BS_PENDING now, k))"

definition maker_ordertype :: "string \<Rightarrow> bool" where
  "maker_ordertype s = (take 5 s = ''limit'' \<or> s = ''take-profit-limit'' \<or> s = ''stop-loss-limit'')"

definition kr_parse_trade :: "kraken \<Rightarrow> string \<Rightarrow> string \<Rightarrow> string \<times> raw \<Rightarrow> broker_trade call" where
  "kr_parse_trade k ref oid t =
     (let number = (\<lambda>key. bind_call (raw_get key (RNum 0) (snd t)) py_float) in
      bind_call (raw_get ''ordertype'' (RText []) (snd t)) (\<lambda>ot.
      bind_call (raw_get ''type'' RNone (snd t)) (\<lambda>ty.
      bind_call (raw_get ''pair'' (RText []) (snd t)) (\<lambda>pr.
      bind_call (raw_get ''ordertxid'' (RText ref) (snd t)) (\<lambda>parent.
      bind_call (number ''vol'') (\<lambda>v.
      bind_call (number ''price'') (\<lambda>x.
      bind_call (number ''fee'') (\<lambda>f.
      bind_call (number ''time'') (\<lambda>secs.
        Inr \<lparr>trade_id = fst t, parent_broker_ref = text_of parent, bt_order_id = oid, bt_volume = v, bt_price = x,
             bt_fee = f, fee_currency = resolve_quote_currency_from_pair k (text_of pr),
             bt_timestamp = round_half_even (secs * 1000000),
             bt_side = (if ty = RText ''buy'' then BUY else SELL), bt_is_maker = maker_ordertype (text_of ot)\<rparr>)))))))))"

definition kr_parse_trades_query_response :: "raw \<Rightarrow> string \<Rightarrow> string \<Rightarrow> kraken \<Rightarrow> broker_trade list call" where
  "kr_parse_trades_query_response r ref oid k =
     bind_call (is_sentinel ''trades_query'' r) (\<lambda>dry.
       if dry then Inr []
       else
         bind_call (raw_get ''trades_raw'' (RDict []) r) (\<lambda>tv.
           bind_call (raw_items (raw_or tv (RDict []))) (\<lambda>ts. map_call (kr_parse_trade k ref oid) ts)))"

section \<open>Broker truth\<close>

text \<open>The records of \<^verbatim>\<open>types/live_types/reconciliation_types.py\<close>, without the untouched payload.\<close>

record broker_order =
  bo_broker_ref :: string
  bo_symbol :: string
  bo_direction :: order_direction
  bo_order_type :: order_type
  bo_lots :: lots
  bo_status :: broker_order_status
  bo_price :: "price option"

record broker_position =
  bp_symbol :: string
  bp_direction :: order_direction
  bp_lots :: lots
  bp_entry_price :: price
  bp_broker_ref :: string
  bp_unrealized_pnl :: "money option"
  bp_margin_used :: "money option"

definition ORDERTYPE_MAP :: "(string, order_type) dict" where
  "ORDERTYPE_MAP = [(''market'', OT_MARKET), (''limit'', OT_LIMIT), (''stop-loss'', OT_STOP),
     (''stop-loss-limit'', OT_STOP_LIMIT), (''take-profit'', OT_STOP), (''take-profit-limit'', OT_STOP_LIMIT)]"

definition ordertype_of :: "raw \<Rightarrow> order_type call" where
  "ordertype_of r =
     (case r of
        RText s \<Rightarrow> Inr (get_default OT_LIMIT ORDERTYPE_MAP s)
      | RList rs \<Rightarrow> Inl (TypeError, ''unhashable'')
      | RDict m \<Rightarrow> Inl (TypeError, ''unhashable'')
      | _ \<Rightarrow> Inr OT_LIMIT)"

definition kr_pull :: "string \<Rightarrow> string \<Rightarrow> (string \<Rightarrow> form \<Rightarrow> raw call) \<Rightarrow> instant \<Rightarrow> form \<Rightarrow> kraken \<Rightarrow> raw call \<times> kraken" where
  "kr_pull kind endpoint post now p k =
     (if kr_dry_run k then (Inr (RDict [(DRY_RUN_SENTINEL, RText kind)]), k) else do_fetch_private post now endpoint p k)"

definition is_dry_reply :: "raw \<Rightarrow> bool call" where
  "is_dry_reply r = bind_call (raw_get DRY_RUN_SENTINEL RNone r) (\<lambda>v. Inr (v \<noteq> RNone))"

definition side_of :: "raw \<Rightarrow> order_direction" where
  "side_of r = (if r = RText ''buy'' then LONG else SHORT)"

definition kr_parse_open_order :: "kraken \<Rightarrow> string \<times> raw \<Rightarrow> broker_order call" where
  "kr_parse_open_order k t =
     bind_call (raw_get ''descr'' (RDict []) (snd t)) (\<lambda>dv.
     let descr = raw_or dv (RDict []) in
     bind_call (raw_get ''type'' (RText ''buy'') descr) (\<lambda>ty.
     bind_call (raw_get ''ordertype'' (RText ''limit'') descr) (\<lambda>ot.
     bind_call (raw_get ''status'' (RText ''open'') (snd t)) (\<lambda>sv.
     bind_call (status_of sv) (\<lambda>st.
     bind_call (raw_get ''price'' (RNum 0) descr) (\<lambda>xv.
     bind_call (py_float (raw_or xv (RNum 0))) (\<lambda>x.
     bind_call (raw_get ''pair'' (RText []) descr) (\<lambda>pr.
     bind_call (ordertype_of ot) (\<lambda>oty.
     bind_call (raw_get ''vol'' (RNum 0) (snd t)) (\<lambda>lv.
     bind_call (py_float lv) (\<lambda>l.
       Inr \<lparr>bo_broker_ref = fst t, bo_symbol = resolve_symbol_from_pair k (text_of pr), bo_direction = side_of ty,
            bo_order_type = oty, bo_lots = l, bo_status = st,
            bo_price = (if x \<noteq> 0 then Some x else None)\<rparr>)))))))))))"

definition kr_parse_openorders_response :: "raw \<Rightarrow> kraken \<Rightarrow> broker_order list call" where
  "kr_parse_openorders_response r k =
     bind_call (is_dry_reply r) (\<lambda>dry.
       if dry then Inr []
       else bind_call (raw_get ''open'' (RDict []) r) (\<lambda>ov.
         bind_call (raw_items (raw_or ov (RDict []))) (map_call (kr_parse_open_order k))))"

definition balance_entry :: "string \<times> raw \<Rightarrow> (string \<times> rat) option" where
  "balance_entry t = (case py_float (snd t) of Inl e \<Rightarrow> None | Inr x \<Rightarrow> if x \<noteq> 0 then Some (fst t, x) else None)"

definition kr_parse_balance_response :: "raw \<Rightarrow> (string, rat) dict call" where
  "kr_parse_balance_response r =
     bind_call (is_dry_reply r) (\<lambda>dry.
       if dry then Inr [] else bind_call (raw_items r) (\<lambda>m. Inr (List.map_filter balance_entry m)))"

definition optional_number :: "string \<Rightarrow> raw \<Rightarrow> rat option call" where
  "optional_number key r =
     bind_call (raw_items r) (\<lambda>m.
       case map_of m key of None \<Rightarrow> Inr None | Some v \<Rightarrow> bind_call (py_float v) (\<lambda>x. Inr (Some x)))"

definition kr_parse_open_position :: "kraken \<Rightarrow> string \<times> raw \<Rightarrow> broker_position call" where
  "kr_parse_open_position k t =
     bind_call (raw_get ''type'' (RText ''buy'') (snd t)) (\<lambda>ty.
     bind_call (raw_get ''vol'' (RNum 0) (snd t)) (\<lambda>lv. bind_call (py_float lv) (\<lambda>l.
     bind_call (raw_get ''cost'' (RNum 0) (snd t)) (\<lambda>cv. bind_call (py_float cv) (\<lambda>c.
     bind_call (raw_get ''pair'' (RText []) (snd t)) (\<lambda>pr.
     bind_call (optional_number ''net'' (snd t)) (\<lambda>net.
     bind_call (optional_number ''margin'' (snd t)) (\<lambda>mg.
       Inr \<lparr>bp_symbol = resolve_symbol_from_pair k (text_of pr), bp_direction = side_of ty, bp_lots = l,
            bp_entry_price = (if l \<noteq> 0 then c / l else 0), bp_broker_ref = fst t, bp_unrealized_pnl = net,
            bp_margin_used = mg\<rparr>))))))))"

definition kr_parse_openpositions_response :: "raw \<Rightarrow> kraken \<Rightarrow> broker_position list call" where
  "kr_parse_openpositions_response r k =
     bind_call (is_dry_reply r) (\<lambda>dry.
       if dry then Inr [] else bind_call (raw_items r) (map_call (kr_parse_open_position k)))"

definition get_broker_orders ::
  "(string \<Rightarrow> form \<Rightarrow> raw call) \<Rightarrow> instant \<Rightarrow> kraken \<Rightarrow> broker_order list call \<times> kraken" where
  "get_broker_orders post now k =
     (let (r, k1) = kr_pull ''openorders'' ''/0/private/OpenOrders'' post now [] k in
      (bind_call r (\<lambda>v. kr_parse_openorders_response v k1), k1))"

definition get_broker_balances ::
  "(string \<Rightarrow> form \<Rightarrow> raw call) \<Rightarrow> instant \<Rightarrow> kraken \<Rightarrow> (string, rat) dict call \<times> kraken" where
  "get_broker_balances post now k =
     (let (r, k1) = kr_pull ''balance'' ''/0/private/Balance'' post now [] k in
      (bind_call r kr_parse_balance_response, k1))"

definition get_broker_positions ::
  "(string \<Rightarrow> form \<Rightarrow> raw call) \<Rightarrow> instant \<Rightarrow> kraken \<Rightarrow> broker_position list call \<times> kraken" where
  "get_broker_positions post now k =
     (let (r, k1) = kr_pull ''openpositions'' ''/0/private/OpenPositions'' post now [(''docalcs'', Lit ''true'')] k in
      (bind_call r (\<lambda>v. kr_parse_openpositions_response v k1), k1))"

section \<open>The layers the request processor composes\<close>

text \<open>
  The adapter in a given state as the parameter of the request processor. No adapter has the layers of a position
  modification: the lookup of the method raises.
\<close>

definition kraken_layers :: "(string \<Rightarrow> form \<Rightarrow> raw call) \<Rightarrow> instant \<Rightarrow> kraken \<Rightarrow> (form, raw) live_adapter" where
  "kraken_layers post now k =
     (let answer = (\<lambda>r. bind_call r (\<lambda>x. Inr (fst x))) in
      \<lparr>build_submit_payload = \<lambda>smb d l ot kw x. Inr (kr_build_submit_payload k smb d l ot x),
       do_request_submit = \<lambda>p. fst (kr_do_request_submit post now p k),
       parse_submit_response = \<lambda>r t. answer (kr_parse_submit_response r t k),
       build_modify_payload = \<lambda>ref smb x sl tp. Inr (kr_build_modify_payload ref x),
       do_request_modify = \<lambda>p. fst (kr_do_request_modify post now p k),
       parse_modify_response = \<lambda>r ref t. answer (kr_parse_modify_response r ref t k),
       build_cancel_payload = \<lambda>ref. Inr (txid_payload ref),
       do_request_cancel = \<lambda>p. fst (kr_do_request_cancel post now p k),
       parse_cancel_response = \<lambda>r ref t. answer (kr_parse_cancel_response r ref t k),
       build_position_modify_payload = \<lambda>pid smb sl tp. Inl (AttributeError, ''_build_position_modify_payload''),
       do_request_position_modify = \<lambda>p. Inl (AttributeError, ''_do_request_position_modify''),
       parse_position_modify_response = \<lambda>r pid t. Inl (AttributeError, ''_parse_position_modify_response''),
       build_query_payload = \<lambda>ref. Inr (txid_payload ref),
       do_request_query = \<lambda>p. fst (kr_do_request_query post now p k),
       parse_query_response = \<lambda>r ref t. answer (kr_parse_query_response r ref t k),
       build_trades_query_payload = \<lambda>ref. Inr (txid_payload ref),
       do_request_trades_query = \<lambda>p. fst (kr_do_request_trades_query post now p k),
       parse_trades_query_response = \<lambda>r ref oid. kr_parse_trades_query_response r ref oid k\<rparr>)"

end
