(* ===== verification/Kraken_Laws.thy ===== *)
theory Kraken_Laws
  imports Kraken_Live
begin

text \<open>
  The Kraken adapter's live layers: the life of a dry-run order, nonces and request spacing, symbol and pair names,
  and what the worker gets to see of a request.
\<close>

section \<open>References of dry-run orders\<close>

lemma str_nat_zeros: "str_nat (replicate n (CHR ''0'') @ s) = str_nat s"
proof (induction n)
  case (Suc n)
  have "str_nat (CHR ''0'' # t) = str_nat t" for t by (simp add: str_nat_def digit_val_def)
  with Suc show ?case by simp
qed simp

lemma pad6_inject [simp]: "pad6 m = pad6 n \<longleftrightarrow> m = n"
proof
  assume "pad6 m = pad6 n"
  then have "str_nat (pad6 m) = str_nat (pad6 n)" by simp
  then show "m = n" by (simp add: pad6_def Let_def str_nat_zeros)
qed simp

lemma dry_ref_inject [simp]: "dry_ref m = dry_ref n \<longleftrightarrow> m = n"
  by (simp add: dry_ref_def)

section \<open>The life of a dry-run order\<close>

datatype dry_op = DrySubmit lots "price option" | DryQuery string | DryCancel string | DryModify string "price option"

fun dry_step :: "instant \<times> dry_op \<Rightarrow> dry_run \<Rightarrow> broker_response \<times> dry_run" where
  "dry_step (now, DrySubmit l x) d = dry_submit l x now d"
| "dry_step (now, DryQuery ref) d = dry_query ref now d"
| "dry_step (now, DryCancel ref) d = dry_cancel ref now d"
| "dry_step (now, DryModify ref x) d = dry_modify ref x now d"

text \<open>The answers to the polls of one order while operations on any orders go on.\<close>

fun poll_answers :: "string \<Rightarrow> (instant \<times> dry_op) list \<Rightarrow> dry_run \<Rightarrow> broker_response list" where
  "poll_answers ref [] d = []"
| "poll_answers ref (op # ops) d =
     (if snd op = DryQuery ref then [fst (dry_step op d)] else []) @ poll_answers ref ops (snd (dry_step op d))"

text \<open>What an operation does to the entry of an order with an earlier number.\<close>

lemma dry_step_counter: "dr_counter d \<le> dr_counter (snd (dry_step op d))"
  by (cases op; cases "snd op") (auto simp: dry_submit_def dry_query_def dry_cancel_def dry_modify_def Let_def split: option.split)

lemma dry_step_entry:
  assumes "m \<le> dr_counter d" and "ref = dry_ref m"
  shows "map_of (dr_orders (snd (dry_step op d))) ref =
    (case map_of (dr_orders d) ref of
       None \<Rightarrow> None
     | Some o1 \<Rightarrow>
         if snd op = DryQuery ref
         then (if remaining_polls o1 > 1 then Some (o1\<lparr>remaining_polls := remaining_polls o1 - 1\<rparr>) else None)
         else if snd op = DryCancel ref then None
         else (case snd op of DryModify r (Some y) \<Rightarrow> Some (if r = ref then o1\<lparr>dr_price := Some y\<rparr> else o1) | _ \<Rightarrow> Some o1))"
proof -
  have "ref \<noteq> dry_ref (Suc (dr_counter d))" using assms by simp
  then show ?thesis
    by (cases op; cases "snd op")
       (auto simp: dry_submit_def dry_query_def dry_cancel_def dry_modify_def Let_def AList.update_conv' AList.delete_conv' split: option.split)
qed

lemma dry_query_answer:
  "map_of (dr_orders d) ref = None \<Longrightarrow> resp_status (fst (dry_query ref now d)) = BS_FILLED"
  "map_of (dr_orders d) ref = Some o1 \<Longrightarrow> remaining_polls o1 > 1 \<Longrightarrow> resp_status (fst (dry_query ref now d)) = BS_PENDING"
  "map_of (dr_orders d) ref = Some o1 \<Longrightarrow> remaining_polls o1 \<le> 1 \<Longrightarrow>
     resp_status (fst (dry_query ref now d)) = BS_FILLED \<and>
     resp_filled_lots (fst (dry_query ref now d)) = Some (dr_lots o1) \<and>
     resp_fill_price (fst (dry_query ref now d)) = Some (with_default 0 (dr_price o1))"
  by (simp_all add: dry_query_def plain_response_def Let_def)

lemma poll_answers_gone:
  assumes "m \<le> dr_counter d" and "ref = dry_ref m" and "map_of (dr_orders d) ref = None"
  shows "\<forall>r\<in>set (poll_answers ref ops d). resp_status r = BS_FILLED"
  using assms(1,3)
proof (induction ops arbitrary: d)
  case (Cons op ops)
  have "map_of (dr_orders (snd (dry_step op d))) ref = None"
    using dry_step_entry [OF Cons.prems(1) assms(2), of op] Cons.prems(2) by simp
  moreover have "m \<le> dr_counter (snd (dry_step op d))" using Cons.prems(1) dry_step_counter [of d op] by linarith
  moreover have "snd op = DryQuery ref \<Longrightarrow> resp_status (fst (dry_step op d)) = BS_FILLED"
    using Cons.prems(2) by (cases op) (simp add: dry_query_answer)
  ultimately show ?case using Cons.IH by auto
qed simp

text \<open>Up to the poll that fills it, an order answers pending; then it answers filled, with its lots and price.\<close>

lemma poll_answers_live:
  assumes "m \<le> dr_counter d" and "ref = dry_ref m" and "map_of (dr_orders d) ref = Some o1"
    and "\<forall>op\<in>set ops. snd op \<noteq> DryCancel ref"
    and "i < length (poll_answers ref ops d)"
  shows "resp_status (poll_answers ref ops d ! i) = (if int (Suc i) < remaining_polls o1 then BS_PENDING else BS_FILLED)"
  using assms(1,3-5)
proof (induction ops arbitrary: d o1 i)
  case (Cons op ops)
  let ?d = "snd (dry_step op d)"
  have m: "m \<le> dr_counter ?d" using Cons.prems(1) dry_step_counter [of d op] by linarith
  note entry = dry_step_entry [OF Cons.prems(1) assms(2), of op, unfolded Cons.prems(2) option.case]
  show ?case
  proof (cases "snd op = DryQuery ref")
    case True
    then obtain now where op: "op = (now, DryQuery ref)" by (cases op) auto
    show ?thesis
    proof (cases "remaining_polls o1 > 1")
      case more: True
      note IH = Cons.IH [OF m, of "o1\<lparr>remaining_polls := remaining_polls o1 - 1\<rparr>"]
      show ?thesis
      proof (cases i)
        case 0
        with True op more Cons.prems(2) show ?thesis by (simp add: dry_query_answer(2))
      next
        case (Suc j)
        with IH [of j] entry True more Cons.prems show ?thesis by (auto simp: op)
      qed
    next
      case False
      then have gone: "map_of (dr_orders ?d) ref = None" using entry True by simp
      have "\<forall>r\<in>set (poll_answers ref (op # ops) d). resp_status r = BS_FILLED"
        using poll_answers_gone [OF m assms(2) gone] op dry_query_answer(3) [OF Cons.prems(2)] False by auto
      with Cons.prems(4) have "resp_status (poll_answers ref (op # ops) d ! i) = BS_FILLED" using nth_mem by blast
      with False show ?thesis by simp
    qed
  next
    case False
    then obtain o2 where o2: "map_of (dr_orders ?d) ref = Some o2" "remaining_polls o2 = remaining_polls o1"
      using entry Cons.prems(3) by (auto split: dry_op.splits option.splits if_splits)
    with Cons.IH [OF m o2(1)] Cons.prems(3,4) False show ?thesis by simp
  qed
qed simp

lemma poll_answers_fill:
  assumes "m \<le> dr_counter d" and "ref = dry_ref m" and "map_of (dr_orders d) ref = Some o1"
    and "\<forall>op\<in>set ops. snd op \<noteq> DryCancel ref \<and> (\<forall>y. snd op \<noteq> DryModify ref (Some y))"
    and "nat (remaining_polls o1 - 1) < length (poll_answers ref ops d)"
  shows "resp_filled_lots (poll_answers ref ops d ! nat (remaining_polls o1 - 1)) = Some (dr_lots o1) \<and>
    resp_fill_price (poll_answers ref ops d ! nat (remaining_polls o1 - 1)) = Some (with_default 0 (dr_price o1))"
  using assms(1,3-5)
proof (induction ops arbitrary: d o1)
  case (Cons op ops)
  let ?d = "snd (dry_step op d)"
  have m: "m \<le> dr_counter ?d" using Cons.prems(1) dry_step_counter [of d op] by linarith
  note entry = dry_step_entry [OF Cons.prems(1) assms(2), of op, unfolded Cons.prems(2) option.case]
  show ?case
  proof (cases "snd op = DryQuery ref")
    case True
    then obtain now where op: "op = (now, DryQuery ref)" by (cases op) auto
    show ?thesis
    proof (cases "remaining_polls o1 > 1")
      case more: True
      have i: "nat (remaining_polls o1 - 1) = Suc (nat (remaining_polls o1 - 2))" using more by simp
      have "map_of (dr_orders ?d) ref = Some (o1\<lparr>remaining_polls := remaining_polls o1 - 1\<rparr>)" using entry True more by simp
      from Cons.IH [OF m this] Cons.prems(3,4) show ?thesis by (simp add: op i)
    next
      case False
      then have "nat (remaining_polls o1 - 1) = 0" by simp
      with False show ?thesis using dry_query_answer(3) [OF Cons.prems(2)] by (simp add: op)
    qed
  next
    case False
    then have "map_of (dr_orders ?d) ref = Some o1"
      using entry Cons.prems(3) by (auto split: dry_op.splits option.splits if_splits)
    from Cons.IH [OF m this] Cons.prems(3,4) False show ?thesis by simp
  qed
qed simp

lemma dry_submit_entry:
  "map_of (dr_orders (snd (dry_submit l x now d))) (dry_ref (Suc (dr_counter d))) =
     Some \<lparr>dr_lots = l, dr_price = x, remaining_polls = polls_until_fill d\<rparr>"
  "dr_counter (snd (dry_submit l x now d)) = Suc (dr_counter d)"
  "resp_broker_ref (fst (dry_submit l x now d)) = dry_ref (Suc (dr_counter d))"
  by (simp_all add: dry_submit_def plain_response_def Let_def AList.update_conv')

section \<open>Nonces and request spacing\<close>

lemma fetch_private_link:
  "last_nonce k < last_nonce (snd (do_fetch_private post now endpoint data k))"
  "0 \<le> rate_limit_interval k \<Longrightarrow>
     last_request_time k + rate_limit_interval k \<le> last_request_time (snd (do_fetch_private post now endpoint data k))"
  "rate_limit_interval (snd (do_fetch_private post now endpoint data k)) = rate_limit_interval k"
  by (auto simp: do_fetch_private_def enforce_rate_limit_def sign_request_def next_nonce_def Let_def)

section \<open>Symbols and pairs\<close>

lemma pair_round_trip:
  assumes "distinct (map snd (kr_pairs k))" and "map_of (kr_pairs k) smb = Some p" and "p \<noteq> []"
  shows "resolve_symbol_from_pair k (resolve_kraken_pair k smb) = smb"
proof -
  have "find (\<lambda>(s, n). n = p) ps = Some (smb, p)" if "distinct (map snd ps)" "(smb, p) \<in> set ps" for ps
    using that by (induction ps) force+
  with assms(1) map_of_SomeD [OF assms(2)] have "find (\<lambda>(s, n). n = p) (kr_pairs k) = Some (smb, p)" by blast
  with assms(2,3) show ?thesis by (simp add: resolve_kraken_pair_def resolve_symbol_from_pair_def)
qed

section \<open>What the worker sees\<close>

lemmas call_simps = bind_call_def catching_def dispatch_job_def

text \<open>In dry-run mode a submission the broker validates is registered with the simulator as it was asked for, and
  polls, cancellations and modifications are answered by the simulator alone.\<close>

lemma dry_run_submits:
  assumes "kr_dry_run k" and "ot = OT_MARKET \<or> ot = OT_LIMIT"
    and "p = kr_build_submit_payload k smb dir l ot x"
    and "fst (do_fetch_private post now ''/0/private/AddOrder'' (AList.update ''validate'' (Lit ''true'') p) k) = Inr v"
  shows "dispatch_job (kraken_layers post now k) now (SubmitJob oid act ot p) =
    SubmitResponse oid act ot (fst (dry_submit l (if ot = OT_LIMIT then x else None) now (kr_simulator k)))"
proof -
  have "fst (kr_do_request_submit post now p k) =
      Inr (RDict [(DRY_RUN_SENTINEL, RText ''submit''), (''lots'', RNum l), (''price'', opt_raw (if ot = OT_LIMIT then x else None))])"
    using assms by (auto simp: kr_do_request_submit_def case_prod_beta call_simps form_item_def form_number_def
        kr_build_submit_payload_def text_float_def split: option.split)
  then show ?thesis
    by (simp add: call_simps dispatch_submit_job_def kraken_layers_def Let_def kr_parse_submit_response_def is_sentinel_def
        get_default_def raw_item_def DRY_RUN_SENTINEL_def on_simulator_def case_prod_beta opt_raw_def split: option.split)
qed

lemma dry_run_answers:
  assumes "kr_dry_run k \<or> is_dryrun_ref ref"
  shows "dispatch_job (kraken_layers post now k) now (QueryJob oid ref) = QueryResponse oid (fst (dry_query ref now (kr_simulator k)))"
    "dispatch_job (kraken_layers post now k) now (CancelJob oid ref) = CancelResponse oid (fst (dry_cancel ref now (kr_simulator k)))"
    "dispatch_job (kraken_layers post now k) now (EditJob oid ref smb x sl tp) = EditResponse oid (fst (dry_modify ref x now (kr_simulator k)))"
  using assms
  by (auto simp: call_simps dispatch_query_job_def dispatch_cancel_job_def dispatch_edit_job_def kraken_layers_def Let_def
      txid_payload_def kr_build_modify_payload_def kr_do_request_query_def kr_do_request_cancel_def kr_do_request_modify_def
      form_txid_def form_item_def form_number_def text_float_def kr_local_def kr_parse_query_response_def
      kr_parse_cancel_response_def kr_parse_modify_response_def is_sentinel_def get_default_def raw_item_def DRY_RUN_SENTINEL_def
      on_simulator_def case_prod_beta opt_raw_def text_of_def split: option.split)

text \<open>A submission is never answered as filled; fills arrive through the polls.\<close>

lemma submit_never_filled:
  "\<not> resp_is_filled r" if "dispatch_job (kraken_layers post now k) now (SubmitJob oid act ot p) = SubmitResponse oid act ot r"
  using that
  by (auto simp: call_simps dispatch_submit_job_def kraken_layers_def Let_def kr_parse_submit_response_def on_simulator_def
      dry_submit_def plain_response_def rejected_response_def resp_is_filled_def case_prod_beta split: sum.splits if_splits)

end
