(* ===== verification/Reconcile.thy ===== *)
theory Reconcile
  imports Live_Laws Kraken_Live Market_Clock
begin

text \<open>
  Reconciliation of the local state with the broker's, \<^verbatim>\<open>trading_env/live/reconciler.py\<close> with the result types of
  \<^verbatim>\<open>types/live_types/reconciliation_types.py\<close>: the diff by broker reference, the counters of the alert-only mode,
  the cadence and the flat check. What the adapter's pulls return or raise are arguments. Times are readings of the
  monotonic clock in microseconds.
\<close>

section \<open>State\<close>

datatype reconcile_mode = ALERT_ONLY | AUTO_CORRECT | HALT_TRADING

record reconciler =
  rc_interval_ticks :: int
  rc_min_interval :: int
  rc_model :: trading_model
  rc_symbol :: string
  last_reconcile_tick :: int
  last_reconcile_time :: instant
  reconcile_count :: int
  divergence_count :: int
  last_divergence_count :: int
  last_clean :: bool
  state_since :: instant

definition new_reconciler ::
  "reconcile_mode \<Rightarrow> int \<Rightarrow> int \<Rightarrow> trading_model \<Rightarrow> string \<Rightarrow> instant \<Rightarrow> reconciler res" where
  "new_reconciler mode ticks secs tm smb now =
     (if mode \<noteq> ALERT_ONLY then Inl NotImplementedError
      else Inr \<lparr>rc_interval_ticks = ticks, rc_min_interval = secs, rc_model = tm, rc_symbol = smb,
        last_reconcile_tick = 0, last_reconcile_time = now, reconcile_count = 0, divergence_count = 0,
        last_divergence_count = 0, last_clean = True, state_since = now\<rparr>)"

record reconciliation_result =
  rr_timestamp :: instant
  ghost_positions :: "broker_position list"
  orphan_positions :: "position list"
  stale_positions :: "(position \<times> broker_position) list"
  ghost_orders :: "broker_order list"
  orphan_orders :: "pending_order list"
  stale_orders :: "(pending_order \<times> broker_order) list"
  partial_fills :: "pending_order list"
  is_clean :: bool

section \<open>Cadence\<close>

definition is_due :: "int \<Rightarrow> instant \<Rightarrow> reconciler \<Rightarrow> bool" where
  "is_due tick now rc =
     (tick - last_reconcile_tick rc \<ge> rc_interval_ticks rc \<or> now - last_reconcile_time rc \<ge> rc_min_interval rc)"

section \<open>The diff\<close>

definition within_tol :: "rat \<Rightarrow> rat \<Rightarrow> bool" where
  "within_tol a b = (\<bar>a - b\<bar> / max \<bar>b\<bar> (1 / 10 ^ 12) * 100 \<le> 1 / 10)"

definition is_reconcilable_ref :: "string option \<Rightarrow> bool" where
  "is_reconcilable_ref ref = (case ref of None \<Rightarrow> False | Some r \<Rightarrow> r \<noteq> [] \<and> \<not> is_dryrun_ref r)"

definition order_is_stale :: "pending_order \<Rightarrow> broker_order \<Rightarrow> bool" where
  "order_is_stale lo bo =
     ((case (Option.bind (po_open lo) (\<lambda>os. kw_limit_price (os_kwargs os)), bo_price bo) of
         (Some x, Some y) \<Rightarrow> \<not> within_tol x y
       | _ \<Rightarrow> False) \<or>
      (case po_open lo of None \<Rightarrow> False | Some os \<Rightarrow> \<not> within_tol (os_lots os) (bo_lots bo)))"

definition position_is_stale :: "position \<Rightarrow> broker_position \<Rightarrow> bool" where
  "position_is_stale lp bp =
     (\<not> within_tol (entry_price lp) (bp_entry_price bp) \<or> \<not> within_tol (pos_lots lp) (bp_lots bp))"

text \<open>\<open>{ref(x): x for x in xs}\<close>: a later entry replaces an earlier one under the same reference.\<close>

definition by_ref :: "('a \<Rightarrow> string) \<Rightarrow> 'a list \<Rightarrow> (string, 'a) dict" where
  "by_ref ref xs = fold (\<lambda>x. AList.update (ref x) x) xs []"

definition only_in :: "(string, 'a) dict \<Rightarrow> (string, 'b) dict \<Rightarrow> 'a list" where
  "only_in m m' = map snd (filter (\<lambda>(ref, x). map_of m' ref = None) m)"

definition matched :: "('a \<Rightarrow> 'b \<Rightarrow> bool) \<Rightarrow> (string, 'a) dict \<Rightarrow> (string, 'b) dict \<Rightarrow> ('a \<times> 'b) list" where
  "matched P m m' =
     List.map_filter (\<lambda>(ref, x). case map_of m' ref of None \<Rightarrow> None | Some y \<Rightarrow> if P x y then Some (x, y) else None) m"

definition partly_filled :: "pending_order \<Rightarrow> bool" where
  "partly_filled lo =
     (case po_open lo of
        None \<Rightarrow> False
      | Some os \<Rightarrow> os_lots os \<noteq> 0 \<and> 0 < cumulative_filled_lots (fills lo) \<and> cumulative_filled_lots (fills lo) < os_lots os)"

definition diff ::
  "instant \<Rightarrow> broker_position list \<Rightarrow> broker_order list \<Rightarrow> position list \<Rightarrow> pending_order list \<Rightarrow> reconciliation_result" where
  "diff now bps bos lps los =
     (let lo = by_ref (\<lambda>o1. the (po_broker_ref o1)) (filter (\<lambda>o1. is_reconcilable_ref (po_broker_ref o1)) los);
          bo = by_ref bo_broker_ref (filter (\<lambda>o1. bo_broker_ref o1 \<noteq> []) bos);
          lp = by_ref (\<lambda>p. the (pos_broker_ref p)) (filter (\<lambda>p. truthy_str (pos_broker_ref p)) lps);
          bp = by_ref bp_broker_ref (filter (\<lambda>p. bp_broker_ref p \<noteq> []) bps)
      in \<lparr>rr_timestamp = now, ghost_positions = only_in bp lp, orphan_positions = only_in lp bp,
          stale_positions = matched position_is_stale lp bp, ghost_orders = only_in bo lo, orphan_orders = only_in lo bo,
          stale_orders = matched order_is_stale lo bo, partial_fills = filter partly_filled los,
          is_clean = (only_in bp lp = [] \<and> only_in lp bp = [] \<and> matched position_is_stale lp bp = [] \<and>
                      only_in bo lo = [] \<and> only_in lo bo = [] \<and> matched order_is_stale lo bo = [])\<rparr>)"

section \<open>A reconcile cycle\<close>

definition divergences :: "reconciliation_result \<Rightarrow> int" where
  "divergences r =
     int (length (ghost_positions r) + length (orphan_positions r) + length (stale_positions r) +
          length (ghost_orders r) + length (orphan_orders r) + length (stale_orders r))"

definition handle_result :: "instant \<Rightarrow> reconciliation_result \<Rightarrow> reconciler \<Rightarrow> reconciler" where
  "handle_result now r rc =
     (let rc1 = rc\<lparr>reconcile_count := reconcile_count rc + 1,
                  state_since := (if is_clean r \<noteq> last_clean rc then now else state_since rc),
                  last_clean := is_clean r, last_divergence_count := divergences r\<rparr>
      in if is_clean r then rc1 else rc1\<lparr>divergence_count := divergence_count rc1 + divergences r\<rparr>)"

text \<open>\<open>stamp\<close> is the wall-clock reading the result carries.\<close>

definition reconcile ::
  "int \<Rightarrow> instant \<Rightarrow> instant \<Rightarrow> broker_order list call \<Rightarrow> broker_position list call \<Rightarrow> 'p live_executor \<Rightarrow> reconciler \<Rightarrow>
   (reconciliation_result \<times> reconciler) call" where
  "reconcile tick now stamp orders positions s rc =
     bind_call orders (\<lambda>bos.
       bind_call (if rc_model rc = TM_MARGIN then positions else Inr []) (\<lambda>bps.
         let lps = (if rc_model rc = TM_MARGIN then get_open_positions (ex_portfolio s) else []);
             r = diff stamp bps bos lps (get_active_orders s);
             rc1 = handle_result now r rc
         in Inr (r, rc1\<lparr>last_reconcile_tick := tick, last_reconcile_time := now\<rparr>)))"

section \<open>The flat check\<close>

definition normalize_asset :: "string \<Rightarrow> string" where
  "normalize_asset code =
     (let c = (if length code = 4 \<and> (hd code = CHR ''X'' \<or> hd code = CHR ''Z'') then tl code else code) in
      if c = ''XBT'' then ''BTC'' else c)"

record flat_check_result =
  is_flat :: bool
  open_orders :: "broker_order list"
  asset_balances :: "(string, rat) dict"

definition dust_threshold :: rat where
  "dust_threshold = 1 / 10 ^ 8"

definition is_account_flat ::
  "broker_order list call \<Rightarrow> (string, rat) dict call \<Rightarrow> broker \<Rightarrow> reconciler \<Rightarrow> flat_check_result res" where
  "is_account_flat orders bals br rc =
     bind_res (propagate orders) (\<lambda>bos.
       bind_res (propagate bals) (\<lambda>bs.
         bind_res (get_symbol_specification br (rc_symbol rc)) (\<lambda>sp.
           let assets = filter (\<lambda>(asset, amount). normalize_asset asset \<noteq> quote_currency sp \<and> \<bar>amount\<bar> > dust_threshold) bs
           in Inr \<lparr>is_flat = (bos = [] \<and> assets = []), open_orders = bos, asset_balances = assets\<rparr>)))"

section \<open>The diff is exact\<close>

lemma find_append: "find P (xs @ ys) = (case find P xs of None \<Rightarrow> find P ys | Some x \<Rightarrow> Some x)"
  by (induction xs) simp_all

lemma map_filter_iff: "y \<in> set (List.map_filter f xs) \<longleftrightarrow> (\<exists>x\<in>set xs. f x = Some y)"
  by (force simp: List.map_filter_def)

lemma by_ref_lookup: "map_of (by_ref ref xs) r = find (\<lambda>x. ref x = r) (rev xs)"
proof -
  have "map_of (fold (\<lambda>x. AList.update (ref x) x) xs m) r =
      (case find (\<lambda>x. ref x = r) (rev xs) of None \<Rightarrow> map_of m r | Some x \<Rightarrow> Some x)" for m
    by (induction xs arbitrary: m) (auto simp: AList.update_conv' find_append split: option.split)
  from this [of "[]"] show ?thesis by (simp add: by_ref_def split: option.split)
qed

lemma by_ref_distinct: "distinct (map fst (by_ref ref xs))"
proof -
  have "distinct (map fst (fold (\<lambda>x. AList.update (ref x) x) xs m))" if "distinct (map fst m)" for m
    using that by (induction xs arbitrary: m) (simp_all add: distinct_update)
  then show ?thesis by (simp add: by_ref_def)
qed

lemma by_ref_None: "map_of (by_ref ref xs) r = None \<longleftrightarrow> r \<notin> ref ` set xs"
  by (auto simp: by_ref_lookup find_None_iff)

lemma by_ref_Some: "map_of (by_ref ref xs) r = Some x \<Longrightarrow> x \<in> set xs \<and> ref x = r"
  by (auto simp: by_ref_lookup find_Some_iff) (metis nth_mem set_rev length_rev)

lemma only_in_set:
  "distinct (map fst m) \<Longrightarrow> x \<in> set (only_in m m') \<longleftrightarrow> (\<exists>r. map_of m r = Some x \<and> map_of m' r = None)"
  by (force simp: only_in_def map_of_eq_Some_iff)

lemma only_in_empty: "only_in m m' = [] \<longleftrightarrow> (\<forall>r\<in>fst ` set m. map_of m' r \<noteq> None)"
  by (auto simp: only_in_def filter_empty_conv)

lemma matched_set:
  "distinct (map fst m) \<Longrightarrow> (x, y) \<in> set (matched P m m') \<longleftrightarrow> (\<exists>r. map_of m r = Some x \<and> map_of m' r = Some y \<and> P x y)"
  by (force simp: matched_def map_filter_iff map_of_eq_Some_iff split: option.splits if_splits)

lemma matched_empty:
  "distinct (map fst m) \<Longrightarrow> matched P m m' = [] \<longleftrightarrow> (\<forall>r x y. map_of m r = Some x \<and> map_of m' r = Some y \<longrightarrow> \<not> P x y)"
  using matched_set [of m _ _ P m'] by (metis empty_iff list.set(1) list.set_intros(1) neq_Nil_conv surj_pair)

lemma by_ref_iff: "distinct (map ref xs) \<Longrightarrow> map_of (by_ref ref xs) r = Some x \<longleftrightarrow> x \<in> set xs \<and> ref x = r"
proof
  assume d: "distinct (map ref xs)" and x: "x \<in> set xs \<and> ref x = r"
  then have "map_of (by_ref ref xs) r \<noteq> None" by (auto simp: by_ref_None)
  then obtain y where y: "map_of (by_ref ref xs) r = Some y" by blast
  from by_ref_Some [OF this] x d have "y = x" by (auto simp: distinct_map dest: inj_onD)
  with y show "map_of (by_ref ref xs) r = Some x" by simp
qed (rule by_ref_Some)

lemma only_in_by_ref:
  "distinct (map f xs) \<Longrightarrow> set (only_in (by_ref f xs) (by_ref g ys)) = {x \<in> set xs. f x \<notin> g ` set ys}"
  by (auto simp: only_in_set [OF by_ref_distinct] by_ref_None by_ref_iff)

lemma matched_by_ref:
  "distinct (map f xs) \<Longrightarrow> distinct (map g ys) \<Longrightarrow>
   set (matched P (by_ref f xs) (by_ref g ys)) = {(x, y). x \<in> set xs \<and> y \<in> set ys \<and> f x = g y \<and> P x y}"
  by (auto simp: matched_set [OF by_ref_distinct] by_ref_iff)

lemma diff_orders:
  assumes b: "distinct (map bo_broker_ref bos)"
    and l: "distinct (map po_broker_ref (filter (\<lambda>o1. is_reconcilable_ref (po_broker_ref o1)) los))"
  shows "set (ghost_orders (diff now bps bos lps los)) =
      {bo \<in> set bos. bo_broker_ref bo \<noteq> [] \<and>
         Some (bo_broker_ref bo) \<notin> po_broker_ref ` {lo \<in> set los. is_reconcilable_ref (po_broker_ref lo)}}"
    and "set (orphan_orders (diff now bps bos lps los)) =
      {lo \<in> set los. is_reconcilable_ref (po_broker_ref lo) \<and> po_broker_ref lo \<notin> (Some \<circ> bo_broker_ref) ` set bos}"
    and "set (stale_orders (diff now bps bos lps los)) =
      {(lo, bo). lo \<in> set los \<and> bo \<in> set bos \<and> is_reconcilable_ref (po_broker_ref lo) \<and>
         po_broker_ref lo = Some (bo_broker_ref bo) \<and> order_is_stale lo bo}"
proof -
  let ?L = "filter (\<lambda>o1. is_reconcilable_ref (po_broker_ref o1)) los" and ?B = "filter (\<lambda>o1. bo_broker_ref o1 \<noteq> []) bos"
  have some: "\<exists>r. po_broker_ref lo = Some r \<and> r \<noteq> []" if "is_reconcilable_ref (po_broker_ref lo)" for lo
    using that by (simp add: is_reconcilable_ref_def split: option.splits)
  have the: "Some (the (po_broker_ref lo)) = po_broker_ref lo" if "is_reconcilable_ref (po_broker_ref lo)" for lo
    using that by (cases "po_broker_ref lo") (simp_all add: is_reconcilable_ref_def)
  have "map po_broker_ref ?L = map (\<lambda>o1. Some (the (po_broker_ref o1))) ?L"
    by (rule map_cong [OF refl]) (simp add: the)
  then have "map po_broker_ref ?L = map Some (map (\<lambda>o1. the (po_broker_ref o1)) ?L)" by simp
  with l have "distinct (map Some (map (\<lambda>o1. the (po_broker_ref o1)) ?L))" by (simp only:)
  then have dl: "distinct (map (\<lambda>o1. the (po_broker_ref o1)) ?L)" unfolding distinct_map [of Some] by blast
  have db: "distinct (map bo_broker_ref ?B)" using b by (simp add: distinct_map_filter)
  show "set (ghost_orders (diff now bps bos lps los)) =
      {bo \<in> set bos. bo_broker_ref bo \<noteq> [] \<and>
         Some (bo_broker_ref bo) \<notin> po_broker_ref ` {lo \<in> set los. is_reconcilable_ref (po_broker_ref lo)}}"
    using some by (force simp: diff_def Let_def only_in_by_ref [OF db])
  show "set (orphan_orders (diff now bps bos lps los)) =
      {lo \<in> set los. is_reconcilable_ref (po_broker_ref lo) \<and> po_broker_ref lo \<notin> (Some \<circ> bo_broker_ref) ` set bos}"
    using some by (force simp: diff_def Let_def only_in_by_ref [OF dl])
  show "set (stale_orders (diff now bps bos lps los)) =
      {(lo, bo). lo \<in> set los \<and> bo \<in> set bos \<and> is_reconcilable_ref (po_broker_ref lo) \<and>
         po_broker_ref lo = Some (bo_broker_ref bo) \<and> order_is_stale lo bo}"
    using some by (force simp: diff_def Let_def matched_by_ref [OF dl db])
qed

lemma clean_iff_no_divergence: "is_clean (diff now bps bos lps los) \<longleftrightarrow> divergences (diff now bps bos lps los) = 0"
  unfolding divergences_def of_nat_eq_0_iff add_is_0 length_0_conv by (auto simp: diff_def Let_def)

text \<open>The session total is the sum over the cycles.\<close>

lemma handle_result_total:
  "r = diff stamp bps bos lps los \<Longrightarrow>
   divergence_count (handle_result now r rc) = divergence_count rc + divergences r"
  using clean_iff_no_divergence [of stamp bps bos lps los] by (simp add: handle_result_def Let_def)

section \<open>Prices of resting limit orders are not compared\<close>

lemma stale_without_price:
  "no_limit_price lo \<Longrightarrow> order_is_stale lo bo =
     (case po_open lo of None \<Rightarrow> False | Some os \<Rightarrow> \<not> within_tol (os_lots os) (bo_lots bo))"
  by (cases "po_open lo") (auto simp: order_is_stale_def no_limit_price_def)

section \<open>When the account is flat\<close>

lemma flat_iff:
  assumes "is_account_flat orders bals br rc = Inr r"
  obtains bos bs sp where "orders = Inr bos" "bals = Inr bs" "get_symbol_specification br (rc_symbol rc) = Inr sp"
    "is_flat r \<longleftrightarrow> bos = [] \<and> (\<forall>(asset, amount)\<in>set bs. normalize_asset asset = quote_currency sp \<or> \<bar>amount\<bar> \<le> dust_threshold)"
proof -
  have caught: "propagate m = Inr x \<longleftrightarrow> m = Inr x" for m :: "'z call" and x by (cases m) (auto simp: propagate_def)
  from assms obtain bos bs sp where parts: "orders = Inr bos" "bals = Inr bs" "get_symbol_specification br (rc_symbol rc) = Inr sp"
    and r: "is_flat r \<longleftrightarrow> bos = [] \<and>
      filter (\<lambda>(asset, amount). normalize_asset asset \<noteq> quote_currency sp \<and> \<bar>amount\<bar> > dust_threshold) bs = []"
    by (auto simp: is_account_flat_def Let_def caught)
  show thesis by (rule that [OF parts]) (auto simp: r filter_empty_conv not_less)
qed

end
