(* ===== verification/Drift_Audit.thy ===== *)
theory Drift_Audit
  imports Live_Executor
begin

text \<open>
  The drift auditor of live trading, \<^verbatim>\<open>trading_env/live/drift_auditor.py\<close> with
  \<^verbatim>\<open>types/live_types/drift_audit_types.py\<close>: at every executed open it remembers what was computed locally and asks for
  the broker's trades; when they arrive it records how far the two are apart. The two handlers are the order outcome
  listener and the trades response consumer it registers with the executor. Logging is left out, so are the settings
  that only steer logging.
\<close>

section \<open>State\<close>

datatype drift_type = DT_FEE | DT_VOLUME | DT_PRICE | DT_SLIPPAGE

record drift_config =
  dc_enabled :: bool
  fee_threshold_pct :: rat
  volume_threshold_pct :: rat
  price_threshold_pct :: rat
  slippage_threshold_pct :: rat

record audit_context =
  ac_order_id :: string
  ac_broker_ref :: string
  ac_symbol :: "string option"
  ac_direction :: order_direction
  ac_requested_lots :: "lots option"
  ac_cumulative_fee :: money
  ac_cumulative_avg_price :: price
  ac_cumulative_filled_lots :: lots
  ac_fee_currency :: "string option"
  ac_submission_mid :: "price option"

record drift_record =
  dre_timestamp :: instant
  dre_order_id :: string
  dre_broker_ref :: string
  dre_symbol :: "string option"
  dre_type :: drift_type
  local_value :: rat
  broker_value :: rat
  absolute_delta :: rat
  relative_delta_pct :: rat
  threshold_exceeded :: bool
  is_structural :: bool
  dre_fee_currency :: "string option"

record drift_summary =
  total_orders_audited :: int
  fee_events :: int
  volume_events :: int
  price_events :: int
  slippage_events :: int
  max_fee_drift_pct :: rat
  max_volume_drift_pct :: rat
  max_price_drift_pct :: rat
  max_slippage_drift_pct :: rat
  drift_records :: "drift_record list"

record drift_auditor =
  da_config :: drift_config
  pending_audits :: "(string, audit_context) dict"
  da_summary :: drift_summary

definition empty_summary :: drift_summary where
  "empty_summary =
     \<lparr>total_orders_audited = 0, fee_events = 0, volume_events = 0, price_events = 0, slippage_events = 0,
      max_fee_drift_pct = 0, max_volume_drift_pct = 0, max_price_drift_pct = 0, max_slippage_drift_pct = 0,
      drift_records = []\<rparr>"

definition new_auditor :: "drift_config \<Rightarrow> drift_auditor" where
  "new_auditor c = \<lparr>da_config = c, pending_audits = [], da_summary = empty_summary\<rparr>"

section \<open>Outcomes\<close>

definition audit_snapshot :: "order_direction \<Rightarrow> order_result \<Rightarrow> pending_order \<Rightarrow> string \<Rightarrow> audit_context" where
  "audit_snapshot d r po ref =
     \<lparr>ac_order_id = or_order_id r, ac_broker_ref = ref, ac_symbol = map_option os_symbol (po_open po), ac_direction = d,
      ac_requested_lots = map_option os_lots (po_open po), ac_cumulative_fee = cumulative_fee (fills po),
      ac_cumulative_avg_price = cumulative_avg_price (fills po),
      ac_cumulative_filled_lots = cumulative_filled_lots (fills po),
      ac_fee_currency = (case fill_trades (fills po) of [] \<Rightarrow> None | t # ts \<Rightarrow> Some (fee_currency t)),
      ac_submission_mid = tick_mid_price (submission po)\<rparr>"

text \<open>The snapshot an outcome gives rise to, if any.\<close>

definition audited :: "drift_config \<Rightarrow> order_direction \<Rightarrow> order_result \<Rightarrow> pending_order option \<Rightarrow> audit_context option" where
  "audited c d r po =
     (if \<not> dc_enabled c \<or> or_status r \<noteq> OS_EXECUTED then None
      else case po of
        None \<Rightarrow> None
      | Some p \<Rightarrow>
          (case po_broker_ref p of
             None \<Rightarrow> None
           | Some ref \<Rightarrow> if take 7 ref = ''DRYRUN-'' then None else Some (audit_snapshot d r p ref)))"

definition remember_audit :: "audit_context option \<Rightarrow> drift_auditor \<Rightarrow> drift_auditor" where
  "remember_audit ctx a =
     (case ctx of
        None \<Rightarrow> a
      | Some x \<Rightarrow> a\<lparr>pending_audits := AList.update (ac_order_id x) x (pending_audits a)\<rparr>)"

definition drift_on_outcome ::
  "order_direction \<Rightarrow> order_result \<Rightarrow> pending_order option \<Rightarrow> drift_auditor \<times> 'p live_executor \<Rightarrow> drift_auditor \<times> 'p live_executor" where
  "drift_on_outcome d r po = (\<lambda>(a, s).
     let ctx = audited (da_config a) d r po in
     (remember_audit ctx a,
      case ctx of None \<Rightarrow> s | Some x \<Rightarrow> live_submit_trades_query (ac_order_id x) (ac_broker_ref x) s))"

section \<open>Comparison\<close>

definition relative_delta :: "rat \<Rightarrow> rat \<Rightarrow> rat" where
  "relative_delta local broker =
     (if broker > 0 then \<bar>local - broker\<bar> / broker * 100 else if local > 0 then 100 else 0)"

definition count_drift :: "drift_type \<Rightarrow> bool \<Rightarrow> rat \<Rightarrow> drift_summary \<Rightarrow> drift_summary" where
  "count_drift ty exceeded pct sm =
     (case ty of
        DT_FEE \<Rightarrow> sm\<lparr>fee_events := fee_events sm + (if exceeded then 1 else 0),
                    max_fee_drift_pct := (if pct > max_fee_drift_pct sm then pct else max_fee_drift_pct sm)\<rparr>
      | DT_VOLUME \<Rightarrow> sm\<lparr>volume_events := volume_events sm + (if exceeded then 1 else 0),
                    max_volume_drift_pct := (if pct > max_volume_drift_pct sm then pct else max_volume_drift_pct sm)\<rparr>
      | DT_PRICE \<Rightarrow> sm\<lparr>price_events := price_events sm + (if exceeded then 1 else 0),
                    max_price_drift_pct := (if pct > max_price_drift_pct sm then pct else max_price_drift_pct sm)\<rparr>
      | DT_SLIPPAGE \<Rightarrow> sm\<lparr>slippage_events := slippage_events sm + (if exceeded then 1 else 0),
                    max_slippage_drift_pct := (if pct > max_slippage_drift_pct sm then pct else max_slippage_drift_pct sm)\<rparr>)"

definition compare_and_record ::
  "instant \<Rightarrow> drift_type \<Rightarrow> rat \<Rightarrow> rat \<Rightarrow> audit_context \<Rightarrow> rat \<Rightarrow> bool \<Rightarrow> string option \<Rightarrow> drift_summary \<Rightarrow> drift_summary" where
  "compare_and_record now ty local broker ctx threshold structural cur sm =
     (let pct = relative_delta local broker; exceeded = pct > threshold;
          rec = \<lparr>dre_timestamp = now, dre_order_id = ac_order_id ctx, dre_broker_ref = ac_broker_ref ctx,
                 dre_symbol = ac_symbol ctx, dre_type = ty, local_value = local, broker_value = broker,
                 absolute_delta = \<bar>local - broker\<bar>, relative_delta_pct = pct, threshold_exceeded = exceeded,
                 is_structural = structural, dre_fee_currency = cur\<rparr>
      in count_drift ty exceeded pct (sm\<lparr>drift_records := drift_records sm @ [rec]\<rparr>))"

definition truth_fee :: "broker_trade list \<Rightarrow> money" where
  "truth_fee ts = sum_list (map bt_fee ts)"

definition truth_volume :: "broker_trade list \<Rightarrow> lots" where
  "truth_volume ts = sum_list (map bt_volume ts)"

definition truth_price :: "broker_trade list \<Rightarrow> price" where
  "truth_price ts =
     (if truth_volume ts > 0 then sum_list (map (\<lambda>t. bt_volume t * bt_price t) ts) / truth_volume ts else 0)"

text \<open>A currency that is missing or empty does not count as a mismatch.\<close>

definition currency_mismatch :: "audit_context \<Rightarrow> broker_trade list \<Rightarrow> bool" where
  "currency_mismatch ctx ts =
     (truthy_str (ac_fee_currency ctx) \<and> ts \<noteq> [] \<and> fee_currency (hd ts) \<noteq> [] \<and>
      ac_fee_currency ctx \<noteq> Some (fee_currency (hd ts)))"

text \<open>A comparison without requested lots raises. What was counted and recorded before stays; the executor logs the
  exception and goes on.\<close>

definition audit_trades ::
  "instant \<Rightarrow> drift_config \<Rightarrow> audit_context \<Rightarrow> broker_trade list \<Rightarrow> drift_summary \<Rightarrow> py_error option \<times> drift_summary" where
  "audit_trades now c ctx ts sm =
     (let sm1 = sm\<lparr>total_orders_audited := total_orders_audited sm + 1\<rparr>;
          cur = (if truthy_str (ac_fee_currency ctx) then ac_fee_currency ctx else Some (fee_currency (hd ts)));
          sm2 = (if currency_mismatch ctx ts then sm1
                 else compare_and_record now DT_FEE (ac_cumulative_fee ctx) (truth_fee ts) ctx (fee_threshold_pct c) False cur sm1)
      in case ac_requested_lots ctx of
           None \<Rightarrow> (Some TypeError, sm2)
         | Some l \<Rightarrow>
             let sm3 = compare_and_record now DT_VOLUME l (truth_volume ts) ctx (volume_threshold_pct c) False None sm2;
                 sm4 = compare_and_record now DT_PRICE (ac_cumulative_avg_price ctx) (truth_price ts) ctx
                         (price_threshold_pct c) True None sm3
             in (None, case ac_submission_mid ctx of
                       None \<Rightarrow> sm4
                     | Some m \<Rightarrow> compare_and_record now DT_SLIPPAGE m (truth_price ts) ctx (slippage_threshold_pct c) True None sm4))"

definition drift_on_trades ::
  "instant \<Rightarrow> string \<Rightarrow> broker_trade list \<Rightarrow> bool \<Rightarrow> drift_auditor \<Rightarrow> py_error option \<times> drift_auditor" where
  "drift_on_trades now oid ts success a =
     (case map_of (pending_audits a) oid of
        None \<Rightarrow> (None, a)
      | Some ctx \<Rightarrow>
          let a1 = a\<lparr>pending_audits := AList.delete oid (pending_audits a)\<rparr> in
          if \<not> success \<or> ts = [] then (None, a1)
          else let (err, sm) = audit_trades now (da_config a1) ctx ts (da_summary a1) in (err, a1\<lparr>da_summary := sm\<rparr>))"

definition drift_shutdown :: "drift_auditor \<Rightarrow> drift_auditor" where
  "drift_shutdown a = a\<lparr>pending_audits := []\<rparr>"

section \<open>The summary is the summary of the records\<close>

definition drift_events :: "drift_summary \<Rightarrow> drift_type \<Rightarrow> int" where
  "drift_events sm ty =
     (case ty of DT_FEE \<Rightarrow> fee_events sm | DT_VOLUME \<Rightarrow> volume_events sm | DT_PRICE \<Rightarrow> price_events sm
               | DT_SLIPPAGE \<Rightarrow> slippage_events sm)"

definition drift_max :: "drift_summary \<Rightarrow> drift_type \<Rightarrow> rat" where
  "drift_max sm ty =
     (case ty of DT_FEE \<Rightarrow> max_fee_drift_pct sm | DT_VOLUME \<Rightarrow> max_volume_drift_pct sm | DT_PRICE \<Rightarrow> max_price_drift_pct sm
               | DT_SLIPPAGE \<Rightarrow> max_slippage_drift_pct sm)"

definition records_of :: "drift_summary \<Rightarrow> drift_type \<Rightarrow> drift_record list" where
  "records_of sm ty = filter (\<lambda>r. dre_type r = ty) (drift_records sm)"

definition summary_ok :: "drift_summary \<Rightarrow> bool" where
  "summary_ok sm \<longleftrightarrow>
     (\<forall>ty. drift_events sm ty = int (length (filter threshold_exceeded (records_of sm ty))) \<and>
           drift_max sm ty = foldr max (map relative_delta_pct (records_of sm ty)) 0) \<and>
     int (length (records_of sm DT_VOLUME)) = total_orders_audited sm \<and>
     int (length (records_of sm DT_PRICE)) = total_orders_audited sm"

lemma foldr_max: "foldr max xs (max x a) = max x (foldr max xs a)" for a x :: rat
  by (induction xs) (simp_all add: max.left_commute)

lemma records_of_more [simp]:
  "records_of (count_drift ty e pct sm) ty' = records_of sm ty'"
  "records_of (sm\<lparr>total_orders_audited := n\<rparr>) ty' = records_of sm ty'"
  "records_of (sm\<lparr>drift_records := drift_records sm @ [r]\<rparr>) ty' = records_of sm ty' @ (if dre_type r = ty' then [r] else [])"
  by (simp_all add: records_of_def count_drift_def split: drift_type.split)

lemma count_drift_effect:
  "drift_events (count_drift ty e pct sm) ty' = drift_events sm ty' + (if ty = ty' \<and> e then 1 else 0)"
  "drift_max (count_drift ty e pct sm) ty' = (if ty = ty' then max pct (drift_max sm ty') else drift_max sm ty')"
  "total_orders_audited (count_drift ty e pct sm) = total_orders_audited sm"
  by (auto simp: drift_events_def drift_max_def count_drift_def max_def split: drift_type.split)

lemma drift_frame [simp]:
  "drift_events (sm\<lparr>drift_records := l\<rparr>) = drift_events sm" "drift_max (sm\<lparr>drift_records := l\<rparr>) = drift_max sm"
  "drift_events (sm\<lparr>total_orders_audited := n\<rparr>) = drift_events sm" "drift_max (sm\<lparr>total_orders_audited := n\<rparr>) = drift_max sm"
  by (auto simp: drift_events_def drift_max_def fun_eq_iff split: drift_type.split)

text \<open>Counters and maxima follow the records; the number of comparisons per order is tracked separately.\<close>

definition counters_ok :: "drift_summary \<Rightarrow> bool" where
  "counters_ok sm \<longleftrightarrow>
     (\<forall>ty. drift_events sm ty = int (length (filter threshold_exceeded (records_of sm ty))) \<and>
           drift_max sm ty = foldr max (map relative_delta_pct (records_of sm ty)) 0)"

lemma compare_ok: "counters_ok sm \<Longrightarrow> counters_ok (compare_and_record now ty l b ctx th st cur sm)"
  by (auto simp: counters_ok_def compare_and_record_def Let_def count_drift_effect foldr_max)

lemma compare_counts:
  "length (records_of (compare_and_record now ty l b ctx th st cur sm) ty') = length (records_of sm ty') + (if ty = ty' then 1 else 0)"
  "total_orders_audited (compare_and_record now ty l b ctx th st cur sm) = total_orders_audited sm"
  by (auto simp: compare_and_record_def Let_def count_drift_effect)

lemma counters_audited [simp]: "counters_ok (sm\<lparr>total_orders_audited := n\<rparr>) = counters_ok sm"
  by (simp add: counters_ok_def)

lemma summary_ok_split:
  "summary_ok sm \<longleftrightarrow> counters_ok sm \<and> int (length (records_of sm DT_VOLUME)) = total_orders_audited sm \<and>
     int (length (records_of sm DT_PRICE)) = total_orders_audited sm"
  by (simp add: summary_ok_def counters_ok_def)

lemma audit_trades_ok: "summary_ok sm \<Longrightarrow> audit_trades now c ctx ts sm = (None, sm') \<Longrightarrow> summary_ok sm'"
  by (auto simp: summary_ok_split audit_trades_def Let_def compare_ok compare_counts split: option.splits if_splits)

section \<open>The auditor as a transition system\<close>

text \<open>A response can only raise for an order without requested lots, and the snapshot of an open order has them.\<close>

lemma drift_raises_iff:
  "fst (drift_on_trades now oid ts success a) \<noteq> None \<longleftrightarrow>
     success \<and> ts \<noteq> [] \<and> (\<exists>ctx. map_of (pending_audits a) oid = Some ctx \<and> ac_requested_lots ctx = None)"
  by (auto simp: drift_on_trades_def audit_trades_def Let_def case_prod_beta split: option.splits)

lemma open_order_has_lots:
  "audited c d r (Some po) = Some ctx \<Longrightarrow> po_open po \<noteq> None \<Longrightarrow> ac_requested_lots ctx \<noteq> None"
  by (auto simp: audited_def audit_snapshot_def split: if_splits option.splits)

inductive drift_step :: "drift_auditor \<Rightarrow> drift_auditor \<Rightarrow> bool" where
  drift_outcome: "drift_step a (remember_audit (audited (da_config a) d r po) a)"
| drift_trades: "drift_on_trades now oid ts success a = (None, a') \<Longrightarrow> drift_step a a'"
| drift_end: "drift_step a (drift_shutdown a)"

definition drift_fresh :: "drift_auditor \<Rightarrow> bool" where
  "drift_fresh a \<longleftrightarrow> (\<exists>c. a = new_auditor c)"

text \<open>A snapshot waits under its own order id, and every waiting order has a reference of the broker.\<close>

definition audits_ok :: "drift_auditor \<Rightarrow> bool" where
  "audits_ok a \<longleftrightarrow> distinct (map fst (pending_audits a)) \<and>
     (\<forall>oid ctx. (oid, ctx) \<in> set (pending_audits a) \<longrightarrow> ac_order_id ctx = oid \<and> take 7 (ac_broker_ref ctx) \<noteq> ''DRYRUN-'')"

lemma audited_context: "audited c d r po = Some ctx \<Longrightarrow> ac_order_id ctx = or_order_id r \<and> take 7 (ac_broker_ref ctx) \<noteq> ''DRYRUN-''"
  by (auto simp: audited_def audit_snapshot_def split: if_splits option.splits)

lemma audits_ok_remember:
  assumes "audits_ok a" and "ctx = audited c d r po"
  shows "audits_ok (remember_audit ctx a)"
proof (cases ctx)
  case (Some x)
  have "ac_order_id x = or_order_id r \<and> take 7 (ac_broker_ref x) \<noteq> ''DRYRUN-''"
    using assms(2) Some by (intro audited_context) simp
  then show ?thesis
    using assms(1) set_update_subset [of "ac_order_id x" x "pending_audits a"]
    by (auto simp: Some remember_audit_def audits_ok_def distinct_update)
qed (use assms(1) in \<open>simp add: remember_audit_def\<close>)

lemma audits_ok_delete: "audits_ok a \<Longrightarrow> audits_ok (a\<lparr>pending_audits := AList.delete oid (pending_audits a)\<rparr>)"
  by (auto simp: audits_ok_def AList.delete_eq distinct_map_filter)

lemma drift_trades_ok:
  assumes "drift_on_trades now oid ts success a = (None, a')" and "summary_ok (da_summary a)" and "audits_ok a"
  shows "summary_ok (da_summary a') \<and> audits_ok a'"
proof (cases "map_of (pending_audits a) oid")
  case (Some ctx)
  have ok: "audits_ok (a\<lparr>pending_audits := AList.delete oid (pending_audits a), da_summary := sm\<rparr>)" for sm
    using audits_ok_delete [OF assms(3), of oid] by (simp add: audits_ok_def)
  show ?thesis
    using assms(1,2) Some audits_ok_delete [OF assms(3), of oid] ok audit_trades_ok [OF assms(2)]
    by (auto simp: drift_on_trades_def Let_def split: if_splits prod.splits)
qed (use assms in \<open>simp add: drift_on_trades_def\<close>)

lemma drift_step_ok:
  assumes "summary_ok (da_summary a) \<and> audits_ok a" and "drift_step a a'"
  shows "summary_ok (da_summary a') \<and> audits_ok a'"
  using assms(2)
proof cases
  case (drift_outcome d r po)
  then show ?thesis
    using assms(1) audits_ok_remember [of a _ "da_config a" d r po] by (auto simp: remember_audit_def split: option.split)
next
  case (drift_trades now oid ts success)
  then show ?thesis using assms(1) drift_trades_ok by blast
qed (use assms(1) in \<open>simp add: drift_shutdown_def audits_ok_def\<close>)

interpretation auditor: invariant_machine drift_fresh drift_step "\<lambda>a. summary_ok (da_summary a) \<and> audits_ok a"
proof unfold_locales
  show "summary_ok (da_summary a) \<and> audits_ok a" if "drift_fresh a" for a
    using that by (auto simp: drift_fresh_def new_auditor_def empty_summary_def summary_ok_def audits_ok_def drift_events_def
        drift_max_def records_of_def split: drift_type.split)
qed (rule drift_step_ok)

end
