(* ===== verification/Live_Scenarios.thy ===== *)
theory Live_Scenarios
  imports Live_Outcomes Kraken_Laws Reconcile Drift_Audit Scenarios
begin

text \<open>
  A live session on a Kraken spot account, used to show that the hypotheses of the live properties can hold: the broker
  accepts submissions and does not answer anything else.
\<close>

section \<open>Broker\<close>

definition kraken0 :: kraken where
  "kraken0 =
     \<lparr>kr_broker = spot_broker, kr_pairs = [(''BTCUSD'', ''XBTUSD'')], kr_dry_run = False, kr_simulator = new_dry_run 2,
      last_nonce = 0, last_request_time = 0, rate_limit_interval = 1000000\<rparr>"

definition post0 :: "string \<Rightarrow> form \<Rightarrow> raw call" where
  "post0 endpoint data =
     (if endpoint = ''/0/private/AddOrder''
      then Inr (RDict [(''error'', RList []), (''result'', RDict [(''txid'', RList [RText ''OTX1''])])])
      else Inl (ConnectionError, ''read timed out''))"

definition wire0 :: "(form, raw) live_adapter" where
  "wire0 = kraken_layers post0 0 kraken0"

section \<open>Session\<close>

definition limit_request :: "string \<Rightarrow> order_direction \<Rightarrow> lots \<Rightarrow> price \<Rightarrow> open_order_request" where
  "limit_request smb d l x = (market_request smb d l)\<lparr>rq_order_type := OT_LIMIT, rq_price := Some x\<rparr>"

definition live0 :: "form live_executor" where
  "live0 = after (live_init spot_broker True 0 ''USD'' 1000 1000 True [(''USD'', 100000), (''BTC'', 0)] None 30 1000 True 0)"

definition live1 :: "form live_executor" where
  "live1 = after (live_on_tick wire0 (quote_at ''BTCUSD'' 1000 9990 10000) live0)"

text \<open>A limit order on its way, then confirmed.\<close>

definition live2 :: "form live_executor" where
  "live2 = snd (after (live_open_order wire0 (limit_request ''BTCUSD'' LONG (1/10) 9900) live1))"

definition live3 :: "form live_executor" where
  "live3 = on_processor (worker_loop wire0 2000000) live2"

definition live4 :: "form live_executor" where
  "live4 = after (live_heartbeat live3)"

text \<open>A market order the worker has not sent when its time is up.\<close>

definition live_market :: "form live_executor" where
  "live_market = snd (after (live_open_order wire0 (market_request ''BTCUSD'' LONG (1/10)) live1))"

definition live_late :: "form live_executor" where
  "live_late = live_market\<lparr>wall_now := 31000000\<rparr>"

lemmas live_defs =
  live0_def live1_def live2_def live3_def live4_def live_market_def live_late_def limit_request_def market_request_def wire0_def
  kraken0_def post0_def kraken_layers_def new_dry_run_def live_init_def is_live_capable_def new_processor_def start_worker_def
  live_on_tick_def live_process_pending_orders_def drain_inbox_def on_processor_def process_active_orders_def
  live_open_order_def live_open_limit_def live_open_market_def live_kwargs_def no_kwargs_def live_limit_order_def
  live_pending_result_def current_submission_def submit_open_order_async_def put_job_def propagate_def
  kr_build_submit_payload_def resolve_kraken_pair_def register_pending_open_def live_timing_def timeout_instant_def index_ref_def
  live_heartbeat_def handle_timeouts_def check_timeouts_def worker_loop_def dispatch_job_def dispatch_submit_job_def
  bind_call_def catching_def kr_do_request_submit_def do_fetch_private_def enforce_rate_limit_def sign_request_def next_nonce_def
  kr_parse_submit_response_def is_sentinel_def DRY_RUN_SENTINEL_def plain_response_def text_of_def handle_response_def
  handle_submit_response_def handle_limit_submit_response_def resp_is_rejected_def resp_is_filled_def update_limit_def
  poll_due_def mark_polled_def has_ref_def wall_ms_def map_state_def submit_query_order_async_def

lemma live0_ok: "\<not> isl (live_init spot_broker True 0 ''USD'' 1000 1000 True [(''USD'', 100000), (''BTC'', 0)] None 30 1000 True 0)"
  by (simp add: book_defs session_defs live_defs cong: session_congs del: bind_res_Inr_iff)

lemma live1_ok: "\<not> isl (live_on_tick wire0 (quote_at ''BTCUSD'' 1000 9990 10000) live0)"
  by (simp add: book_defs session_defs live_defs cong: session_congs del: bind_res_Inr_iff)

lemma live2_ok: "\<not> isl (live_open_order wire0 (limit_request ''BTCUSD'' LONG (1/10) 9900) live1)"
  by (simp add: book_defs session_defs live_defs cong: session_congs del: bind_res_Inr_iff)

lemma live4_ok: "\<not> isl (live_heartbeat live3)"
  by (simp add: book_defs session_defs live_defs cong: session_congs del: bind_res_Inr_iff)

lemma live_market_ok: "\<not> isl (live_open_order wire0 (market_request ''BTCUSD'' LONG (1/10)) live1)"
  by (simp add: book_defs session_defs live_defs cong: session_congs del: bind_res_Inr_iff)

section \<open>The states are reachable\<close>

lemma live_steps:
  "live_step {wire0} live0 live1" "live_step {wire0} live1 live2" "live_step {wire0} live2 live3"
  "live_step {wire0} live3 live4" "live_step {wire0} live1 live_market" "live_step {wire0} live_market live_late"
proof -
  note tick = after_Inr [OF live1_ok, folded live1_def] and beat = after_Inr [OF live4_ok, folded live4_def]
    and limit = after_pair [OF live2_ok, folded live2_def] and market = after_pair [OF live_market_ok, folded live_market_def]
  show "live_step {wire0} live0 live1" using tick by (rule live_tick [rotated]) simp
  show "live_step {wire0} live1 live2" using limit by (rule live_open [rotated]) simp
  show "live_step {wire0} live2 live3" unfolding live3_def by (rule live_worker) simp
  show "live_step {wire0} live3 live4" using beat by (rule live_beat)
  show "live_step {wire0} live1 live_market" using market by (rule live_open [rotated]) simp
  show "live_step {wire0} live_market live_late" unfolding live_late_def by (rule live_wall)
qed

lemma live0_fresh: "live_fresh live0"
proof -
  have "live_init spot_broker True 0 ''USD'' 1000 1000 True [(''USD'', 100000), (''BTC'', 0)] None 30 1000 True 0 = Inr live0"
    unfolding live0_def by (rule after_Inr [OF live0_ok])
  then show ?thesis unfolding live_fresh_def by blast
qed

lemma live_reachable:
  "reachable live_fresh (live_step {wire0}) live0" "reachable live_fresh (live_step {wire0}) live2"
  "reachable live_fresh (live_step {wire0}) live4" "reachable live_fresh (live_step {wire0}) live_late"
  using live0_fresh live_steps by (meson reach_init reach_step)+

section \<open>What they hold\<close>

definition resting0 :: pending_order where
  "resting0 = hd (active_limit_orders live2)"

definition resting4 :: pending_order where
  "resting4 = hd (active_limit_orders live4)"

definition late_order :: pending_order where
  "late_order = snd (hd (pending_orders (request_processor live_late)))"

lemma live_first_id:
  "lower_char CHR ''B'' = CHR ''b''" "lower_char CHR ''T'' = CHR ''t''" "lower_char CHR ''C'' = CHR ''c''"
  "lower_char CHR ''U'' = CHR ''u''" "lower_char CHR ''S'' = CHR ''s''" "lower_char CHR ''D'' = CHR ''d''"
  "nat_str (Suc 0) = ''1''"
  by code_simp+

lemma live2_order: "resting0 \<in> set (active_limit_orders live2)"
  by (simp add: resting0_def book_defs session_defs live_defs cong: session_congs del: bind_res_Inr_iff)

lemma live4_order:
  "find (has_id ''pos_btcusd_1'') (active_limit_orders live4) = Some resting4" "po_broker_ref resting4 = Some ''OTX1''"
  by (simp_all add: resting4_def live_first_id book_defs session_defs live_defs cong: session_congs del: bind_res_Inr_iff)

lemma live_late_order: "unreferenced ''pos_btcusd_1'' late_order live_late" "is_timed_out (wall_now live_late) late_order"
  by (simp_all add: late_order_def live_first_id unreferenced_def is_timed_out_def book_defs session_defs live_defs
      cong: session_congs del: bind_res_Inr_iff)

lemma live4_shutdown: "\<not> isl (live_close_all_remaining_orders live4)"
  by (simp add: live_close_all_remaining_orders_def log_cancel_def clear_pending_live_def stop_worker_def book_defs session_defs
      live_defs cong: session_congs del: bind_res_Inr_iff)

lemma wire0_silent:
  "build_query_payload wire0 ''OTX1'' = Inr (txid_payload ''OTX1'')"
  "do_request_query wire0 (txid_payload ''OTX1'') = Inl (ConnectionError, ''read timed out'')"
  by (simp_all add: wire0_def kraken_layers_def txid_payload_def kr_do_request_query_def form_txid_def form_item_def is_dryrun_ref_def
      kraken0_def post0_def do_fetch_private_def enforce_rate_limit_def sign_request_def bind_call_def Let_def)

section \<open>An audited order\<close>

definition audit_config :: drift_config where
  "audit_config =
     \<lparr>dc_enabled = True, fee_threshold_pct = 1/2, volume_threshold_pct = 1/10, price_threshold_pct = 1, slippage_threshold_pct = 1/2\<rparr>"

definition audit_order :: pending_order where
  "audit_order = (live_limit_order ''o1'' (limit_request ''BTCUSD'' LONG (1/10) 9900) 0 live0)\<lparr>po_broker_ref := Some ''OTX9''\<rparr>"

definition audit_trade :: broker_trade where
  "audit_trade =
     \<lparr>trade_id = ''t1'', parent_broker_ref = ''OTX9'', bt_order_id = ''o1'', bt_volume = 1/20, bt_price = 9900, bt_fee = 1,
      fee_currency = ''USD'', bt_timestamp = 0, bt_side = BUY, bt_is_maker = True\<rparr>"

definition audit1 :: drift_auditor where
  "audit1 = remember_audit (audited audit_config LONG (blank_result ''o1'' OS_EXECUTED) (Some audit_order)) (new_auditor audit_config)"

definition audit2 :: drift_auditor where
  "audit2 = snd (drift_on_trades 5 ''o1'' [audit_trade] True audit1)"

lemma audit2_ok: "drift_on_trades 5 ''o1'' [audit_trade] True audit1 = (None, audit2)"
  by (simp add: audit2_def audit1_def audit_order_def audited_def audit_config_def audit_snapshot_def remember_audit_def new_auditor_def
      blank_result_def live_limit_order_def drift_on_trades_def audit_trades_def Let_def bind_res_def split: option.split)

lemma audit2_reachable: "reachable drift_fresh drift_step audit2"
proof -
  have "reachable drift_fresh drift_step (new_auditor audit_config)" by (rule reach_init) (auto simp: drift_fresh_def)
  moreover have "drift_step (new_auditor audit_config) audit1"
    using drift_outcome [of "new_auditor audit_config" LONG "blank_result ''o1'' OS_EXECUTED" "Some audit_order"]
    by (simp add: audit1_def new_auditor_def)
  moreover have "drift_step audit1 audit2"
    by (rule drift_trades [OF audit2_ok])
  ultimately show ?thesis by (meson reach_step)
qed

end
