(* ===== verification/Loop_Scenarios.thy ===== *)
theory Loop_Scenarios
  imports Tick_Loop_Laws Splitters_Laws Live_Scenarios
begin

text \<open>
  Concrete inputs for the properties of the tick loop and of scenario generation: a decision logic that always wants
  to buy and only writes down what it is told to execute, a session of two ticks and an idle round, and a short
  recording with one hole.
\<close>

section \<open>A session\<close>

definition want_buy :: decision where
  "want_buy = \<lparr>dc_action = DL_BUY, dc_outputs = []\<rparr>"

definition eager :: "(form, decision list) pipeline" where
  "eager =
     \<lparr>pl_merge_signals = (\<lambda>l. l), pl_process_signals = (\<lambda>_ l ex. (l, ex)),
      pl_algo = (\<lambda>_ l ex. Inr (want_buy, l, ex)), pl_ghost = (\<lambda>l ex. (Some want_buy, l, ex)),
      pl_execute = (\<lambda>d _ l ex. Inr (None, l @ [d], ex)), pl_on_stale = (\<lambda>_ l ex. (l, ex)), pl_drain_events = (\<lambda>l ex. (l, ex)),
      pl_session_end = (\<lambda>_ l ex. (l, ex)), pl_reconcile = (\<lambda>_ l ex. (l, ex)), pl_persist = (\<lambda>_ l. l)\<rparr>"

definition guarded :: loop_config where
  "guarded = \<lparr>lc_safety = \<lparr>sf_enabled = True, sf_min_balance = 0, sf_min_equity = 200000, sf_max_drawdown_pct = 0\<rparr>,
     lc_spot = True, lc_stale_after_s = 60, lc_dispatcher = True\<rparr>"

text \<open>Twenty milliseconds of processing; a wall clock at \<open>w\<close> seconds.\<close>

definition reading :: "rat \<Rightarrow> readings" where
  "reading w = \<lparr>rd_wall = w, rd_utc_now = 0, rd_outage_label = [], rd_reconnects = 0, rd_exhausted = False,
     rd_elapsed_ns = 20000000, rd_queue_depth = 0, rd_monotonic = w, rd_wall_after = w\<rparr>"

definition day0 :: "(form, decision list) session" where
  "day0 = session_init live0 [] ''kraken'' (new_clipping_monitor 3600 0)"

definition tick1 :: tick_data where
  "tick1 = quote_at ''BTCUSD'' 1000 9990 10000"

definition tick2 :: tick_data where
  "tick2 = quote_at ''BTCUSD'' 1010 9990 10000"

lemma eager_calm: "pipeline_calm eager"
  by (simp add: pipeline_calm_def eager_def)

definition day1 :: "(form, decision list) session" where
  "day1 = snd (after (process_loop_tick eager wire0 guarded (reading 1000) tick1 day0))"

definition day2 :: "(form, decision list) session" where
  "day2 = snd (after (process_loop_tick eager wire0 guarded (reading 1001) tick2 day1))"

definition day3 :: "(form, decision list) session" where
  "day3 = snd (after (process_idle eager guarded (reading 1100) day2))"

lemmas loop_defs =
  want_buy_def eager_def guarded_def reading_def day0_def tick1_def tick2_def day1_def day2_def day3_def
  session_init_def new_tracker_def new_clipping_monitor_def process_loop_tick_def start_tick_def broker_path_def
  tick_msc_def tick_delta_ms_def tracker_on_tick_def observe_def algo_path_def safety_value_def safety_baseline_def
  check_safety_def min_threshold_def execute_and_record_def override_action_def record_rejection_entry_def
  drain_decision_events_def on_pipeline_def close_tick_def record_tick_def count_processing_def count_clipped_def record_queue_depth_def
  get_periodic_report_def

lemma tick1_ok: "\<not> isl (process_loop_tick eager wire0 guarded (reading 1000) tick1 day0)"
  by (simp add: loop_defs book_defs session_defs live_defs cong: session_congs del: bind_res_Inr_iff)

lemma tick2_ok: "\<not> isl (process_loop_tick eager wire0 guarded (reading 1001) tick2 day1)"
  by (simp add: loop_defs book_defs session_defs live_defs cong: session_congs del: bind_res_Inr_iff)

lemmas idle_defs =
  process_idle_def evaluate_market_data_staleness_def note_reconnects_def mark_stale_def set_market_data_status_def
  tracker_on_heartbeat_def run_decision_heartbeat_def

lemma day3_ok: "\<not> isl (process_idle eager guarded (reading 1100) day2)"
  by (simp add: loop_defs idle_defs book_defs session_defs live_defs cong: session_congs del: bind_res_Inr_iff)

lemma live0_status: "market_status live0 = fresh_status"
  by (simp add: book_defs session_defs live_defs cong: session_congs del: bind_res_Inr_iff)

lemma day_steps:
  "process_loop_tick eager wire0 guarded (reading 1000) tick1 day0 = Inr (False, day1)"
  "process_loop_tick eager wire0 guarded (reading 1001) tick2 day1 = Inr (False, day2)"
  "process_idle eager guarded (reading 1100) day2 = Inr (False, day3)"
proof -
  have "\<not> fst (after (process_loop_tick eager wire0 guarded (reading 1000) tick1 day0))"
    by (simp add: loop_defs book_defs session_defs live_defs cong: session_congs del: bind_res_Inr_iff)
  with after_pair [OF tick1_ok] show "process_loop_tick eager wire0 guarded (reading 1000) tick1 day0 = Inr (False, day1)"
    by (simp add: day1_def)
  have "\<not> fst (after (process_loop_tick eager wire0 guarded (reading 1001) tick2 day1))"
    by (simp add: loop_defs book_defs session_defs live_defs cong: session_congs del: bind_res_Inr_iff)
  with after_pair [OF tick2_ok] show "process_loop_tick eager wire0 guarded (reading 1001) tick2 day1 = Inr (False, day2)"
    by (simp add: day2_def)
  have "\<not> fst (after (process_idle eager guarded (reading 1100) day2))"
    by (simp add: loop_defs idle_defs book_defs session_defs live_defs cong: session_congs del: bind_res_Inr_iff)
  with after_pair [OF day3_ok] show "process_idle eager guarded (reading 1100) day2 = Inr (False, day3)"
    by (simp add: day3_def)
qed

lemma day3_run:
  "loop_rounds eager wire0 guarded [(QTick tick1, reading 1000), (QTick tick2, reading 1001), (QEmpty, reading 1100)] day0 = Inr day3"
  by (simp add: loop_round_def day_steps)

lemma day3_stale: "market_stale day3"
  by (simp add: loop_defs idle_defs book_defs session_defs live_defs cong: session_congs del: bind_res_Inr_iff)

lemma day1_blocked: "safety_blocked day1"
  by (simp add: loop_defs book_defs session_defs live_defs cong: session_congs del: bind_res_Inr_iff)

lemma day2_counts: "ticks_processed day2 = 2" "ticks_clipped day2 = 0" "interval_clipped (ss_clipping day2) = 1"
  "\<exists>now. get_current_time (ss_executor day2) = Inr now"
  by (simp_all add: loop_defs book_defs session_defs live_defs cong: session_congs del: bind_res_Inr_iff)

lemma day2_result:
  "\<exists>s'. run_loop eager wire0 guarded [(QTick tick1, reading 1000), (QTick tick2, reading 1001)] day0 = Inr ((2, 0), s') \<and>
     interval_clipped (ss_clipping s') = 1"
proof -
  have "day0\<lparr>ticks_processed := 0, ticks_clipped := 0, prev_msc := 0\<rparr> = day0" by (simp add: day0_def session_init_def)
  then have r: "loop_rounds eager wire0 guarded [(QTick tick1, reading 1000), (QTick tick2, reading 1001)]
      (day0\<lparr>ticks_processed := 0, ticks_clipped := 0, prev_msc := 0\<rparr>) = Inr day2"
    by (simp add: loop_round_def day_steps)
  from day2_counts(4) obtain now where "get_current_time (ss_executor day2) = Inr now" ..
  moreover have "lc_dispatcher guarded" by (simp add: guarded_def)
  ultimately show ?thesis using day2_counts(1-3) unfolding run_loop_def r by simp
qed

section \<open>A recording\<close>

text \<open>Hourly bars of a Thursday with a hole of four hours.\<close>

definition recording :: "instant list" where
  "recording = [0, hour_usec, 5 * hour_usec, 6 * hour_usec]"

definition report0 :: coverage_report where
  "report0 = after (analyze ''H1'' default_thresholds (Some recording) (new_report True))"

lemma report0_ok: "\<not> isl (analyze ''H1'' default_thresholds (Some recording) (new_report True))"
  by (simp add: analyze_def detect_gaps_from_bars_def recording_def get_minutes_def get_timeframe_def timeframe_objects_def
      timeframe_registry_def Let_def)

lemma report0_analysed: "analysed ''H1'' default_thresholds True recording report0"
  using after_Inr [OF report0_ok] by (simp add: analysed_def report0_def recording_def hour_usec_def)

lemma report0_minutes: "get_minutes ''H1'' = Inr 60"
  by (simp add: get_minutes_def get_timeframe_def timeframe_objects_def timeframe_registry_def)

text \<open>The hole is a gap, the hours around it are not.\<close>

lemma report0_silences:
  "long_silence 7200 recording u \<longleftrightarrow> hour_usec \<le> u \<and> u < 5 * hour_usec"
  by (auto simp: recording_def hour_usec_def total_seconds_def)

lemma report0_gaps: "in_gaps (interrupting_gaps [] report0) u \<longleftrightarrow> hour_usec \<le> u \<and> u < 5 * hour_usec"
  using gaps_are_silences [of "''H1''" default_thresholds recording True report0 60 u] report0_analysed report0_minutes
  by (simp add: analysed_def interrupting_gaps_def report0_silences)

lemma report0_regions: "\<exists>rs. extract_regions [] report0 None None = Inr (Bounded rs) \<and> rs \<noteq> [] \<and> in_regions rs 0"
proof -
  from report0_analysed obtain rs where rs: "extract_regions [] report0 None None = Inr (Bounded rs)"
    "\<And>u. hd recording \<le> u \<Longrightarrow> u < last recording \<Longrightarrow> in_regions rs u \<longleftrightarrow> \<not> in_gaps (interrupting_gaps [] report0) u"
    by (rule analysed_regions [where allowed = "[]"]) blast
  from rs(2) [of 0] have "in_regions rs 0" by (simp add: report0_gaps) (simp add: recording_def hour_usec_def)
  with rs(1) show ?thesis by (cases rs) auto
qed

section \<open>Configurations\<close>

definition hour_blocks :: blocks_config where
  "hour_blocks = \<lparr>default_block_hours = 1, min_block_hours = 1\<rparr>"

definition flat_profile :: "volatility_period list" where
  "flat_profile = [\<lparr>vp_start = 0, vp_end = hour_usec, vp_session = SYDNEY_TOKYO, vp_atr = 1, vp_regime = MEDIUM, vp_tick_count = 60\<rparr>]"

definition profile0 :: profile_config where
  "profile0 = \<lparr>pc_min_block_hours = 1, pc_max_block_hours = 4, pc_atr_percentile_threshold = 25, pc_split_algorithm = ''atr_minima''\<rparr>"

end
