(* ===== verification/Run_Monad.thy ===== *)
theory Run_Monad
  imports Prelude
begin

text \<open>
  Computations that change objects and may raise. An exception does not undo what was done before it: the objects stay as
  they were when the failing call was entered, so a caller that catches it goes on with that state. The effects the failing
  call itself had before it raised are not part of the model.

  Invariants of the state are carried through a computation, raised or not, by the rules collected in \<open>preserve_intros\<close>.
\<close>

named_theorems preserve_intros

type_synonym ('s, 'a) run = "'s \<Rightarrow> 'a res \<times> 's"

definition return_run :: "'a \<Rightarrow> ('s, 'a) run" where
  "return_run x s = (Inr x, s)"

definition bind_run :: "('s, 'a) run \<Rightarrow> ('a \<Rightarrow> ('s, 'b) run) \<Rightarrow> ('s, 'b) run" where
  "bind_run m k s = (case m s of (Inl e, s') \<Rightarrow> (Inl e, s') | (Inr x, s') \<Rightarrow> k x s')"

definition modify_run :: "('s \<Rightarrow> 's) \<Rightarrow> ('s, unit) run" where
  "modify_run f s = (Inr (), f s)"

definition gets_run :: "('s \<Rightarrow> 'a) \<Rightarrow> ('s, 'a) run" where
  "gets_run f s = (Inr (f s), s)"

definition call :: "('s \<Rightarrow> ('a \<times> 's) res) \<Rightarrow> ('s, 'a) run" where
  "call f s = (case f s of Inl e \<Rightarrow> (Inl e, s) | Inr (x, s') \<Rightarrow> (Inr x, s'))"

section \<open>Results\<close>

lemma run_simps [simp]:
  "return_run x s = (Inr x, s)" "modify_run f s = (Inr (), f s)" "gets_run g s = (Inr (g s), s)"
  by (simp_all add: return_run_def modify_run_def gets_run_def)

lemma bind_run_Inr [simp]:
  "bind_run m k s = (Inr y, s') \<longleftrightarrow> (\<exists>x s1. m s = (Inr x, s1) \<and> k x s1 = (Inr y, s'))"
  by (cases "m s"; cases "fst (m s)") (auto simp: bind_run_def)

lemma call_Inr [simp]: "call f s = (Inr x, s') \<longleftrightarrow> f s = Inr (x, s')"
  by (auto simp: call_def split: sum.splits)

text \<open>Running a computation step by step.\<close>

lemma bind_run_step: "m s = (Inr x, s1) \<Longrightarrow> bind_run m k s = k x s1"
  by (simp add: bind_run_def)

lemma bind_run_raise: "m s = (Inl e, s1) \<Longrightarrow> bind_run m k s = (Inl e, s1)"
  by (simp add: bind_run_def)

section \<open>Invariants\<close>

definition preserves :: "('s \<Rightarrow> bool) \<Rightarrow> ('s, 'a) run \<Rightarrow> bool" where
  "preserves I m \<longleftrightarrow> (\<forall>s. I s \<longrightarrow> I (snd (m s)))"

lemma preservesD: "preserves I m \<Longrightarrow> m s = (r, s') \<Longrightarrow> I s \<Longrightarrow> I s'"
  by (force simp: preserves_def)

lemma preserves_return [preserve_intros]: "preserves I (return_run x)"
  by (simp add: preserves_def)

lemma preserves_gets [preserve_intros]: "preserves I (gets_run f)"
  by (simp add: preserves_def)

lemma preserves_bind [preserve_intros]:
  assumes "preserves I m" and "\<And>x. preserves I (k x)"
  shows "preserves I (bind_run m k)"
  using assms by (auto simp: preserves_def bind_run_def split: prod.split sum.split)

lemma preserves_modify: "(\<And>s. I s \<Longrightarrow> I (f s)) \<Longrightarrow> preserves I (modify_run f)"
  by (simp add: preserves_def)

lemma preserves_call:
  assumes "\<And>s x s'. I s \<Longrightarrow> f s = Inr (x, s') \<Longrightarrow> I s'"
  shows "preserves I (call f)"
  using assms by (auto simp: preserves_def call_def split: sum.split)

lemma preserves_if [preserve_intros]: "preserves I m \<Longrightarrow> preserves I n \<Longrightarrow> preserves I (if c then m else n)"
  by simp

lemma preserves_case_option [preserve_intros]:
  "preserves I m \<Longrightarrow> (\<And>x. preserves I (k x)) \<Longrightarrow> preserves I (case v of None \<Rightarrow> m | Some x \<Rightarrow> k x)"
  by (cases v) simp_all

end
