(* ===== verification/Backtest.thy ===== *)
theory Backtest
  imports Decision_Api Tick_Loop Run_Monad
begin

text \<open>
  The tick loop of a backtest, \<^verbatim>\<open>process/process_tick_loop.py\<close> over \<^verbatim>\<open>process/tick_pipeline_core.py\<close>: ghost passes in
  simulated time, the broker path and the bars of every tick, the clipping gate, the stress driver, the outage tracker,
  the decision, event delivery, the end of the run, and the result that is collected whether or not the loop raised.

  Bars, workers, decision logic and dispatcher are reached through a \<open>strategy\<close>: functions on their joint state and on
  the trading interface. The loop is a computation of \<open>Run_Monad\<close>: an exception ends it, and the result is collected from the
  objects as they were when the failing call was entered. Live updates, profiling times, the statistics of workers and
  decision logic and log lines are not modelled.

  Main results: whatever the strategy does through its interface, the run stays inside the trading machine; if the loop did
  not raise it ends without open positions and with books that balance; ghost passes fire at exactly the configured
  instants.
\<close>

section \<open>Types\<close>

record backtest_config =
  bc_symbol :: string
  heartbeat_interval_ms :: int
  inter_tick_gap_threshold_s :: rat
  tick_loop_profiling :: bool
  is_profile_run :: bool
  wants_heartbeat :: bool
  has_dispatcher :: bool

record 'd strategy =
  sy_bars :: "tick_data \<Rightarrow> 'd \<Rightarrow> 'd res"
  sy_algo :: "tick_data \<Rightarrow> 'd \<Rightarrow> trading_api \<Rightarrow> (decision \<times> 'd \<times> trading_api) res"
  sy_ghost :: "'d \<Rightarrow> trading_api \<Rightarrow> (decision option \<times> 'd \<times> trading_api) res"
  sy_execute :: "decision \<Rightarrow> tick_data option \<Rightarrow> 'd \<Rightarrow> trading_api \<Rightarrow> ('d \<times> trading_api) res"
  sy_drain :: "'d \<Rightarrow> trading_api \<Rightarrow> ('d \<times> trading_api) res"
  sy_session_end :: "decision_event \<Rightarrow> 'd \<Rightarrow> trading_api \<Rightarrow> ('d \<times> trading_api) res"
  sy_on_stale :: "market_data_status \<Rightarrow> 'd \<Rightarrow> trading_api \<Rightarrow> ('d \<times> trading_api) res"
  sy_cleanup :: "'d \<Rightarrow> 'd res"
  sy_signal_episodes :: "instant option \<Rightarrow> 'd \<Rightarrow> disturbance_episode list res"

record 'd backtest =
  bt_api :: trading_api
  bt_strategy :: 'd
  bt_driver :: "stale_driver option"
  bt_tracker :: episode_tracker
  bt_current_tick :: "tick_data option"
  prev_interval_msc :: int
  inter_tick_intervals :: "rat list"

text \<open>Calls of the strategy and of the executor.\<close>

definition on_api :: "('d \<Rightarrow> trading_api \<Rightarrow> ('d \<times> trading_api) res) \<Rightarrow> 'd backtest \<Rightarrow> (unit \<times> 'd backtest) res" where
  "on_api f b =
     bind_res (f (bt_strategy b) (bt_api b)) (\<lambda>(d, a). Inr ((), b\<lparr>bt_strategy := d, bt_api := a\<rparr>))"

definition on_decision ::
  "('d \<Rightarrow> trading_api \<Rightarrow> ('a \<times> 'd \<times> trading_api) res) \<Rightarrow> 'd backtest \<Rightarrow> ('a \<times> 'd backtest) res" where
  "on_decision f b =
     bind_res (f (bt_strategy b) (bt_api b)) (\<lambda>(x, d, a). Inr (x, b\<lparr>bt_strategy := d, bt_api := a\<rparr>))"

definition on_executor :: "(trading_api \<Rightarrow> ('a \<times> trading_api) res) \<Rightarrow> 'd backtest \<Rightarrow> ('a \<times> 'd backtest) res" where
  "on_executor f b = bind_res (f (bt_api b)) (\<lambda>(x, a). Inr (x, b\<lparr>bt_api := a\<rparr>))"

definition on_workers :: "('d \<Rightarrow> 'd res) \<Rightarrow> 'd backtest \<Rightarrow> (unit \<times> 'd backtest) res" where
  "on_workers f b = bind_res (f (bt_strategy b)) (\<lambda>d. Inr ((), b\<lparr>bt_strategy := d\<rparr>))"

definition drain_events :: "'d strategy \<Rightarrow> backtest_config \<Rightarrow> ('d backtest, unit) run" where
  "drain_events S cfg = (if has_dispatcher cfg then call (on_api (sy_drain S)) else return_run ())"

definition end_requested :: "'d backtest \<Rightarrow> bool" where
  "end_requested b = session_end_requested (api_executor (bt_api b))"

section \<open>Ghost passes\<close>

definition inject_time :: "int \<Rightarrow> 'd backtest \<Rightarrow> 'd backtest" where
  "inject_time ghost_msc b =
     b\<lparr>bt_api := (bt_api b)\<lparr>api_executor := set_clock (ghost_msc * 1000) (api_executor (bt_api b))\<rparr>\<rparr>"

definition ghost_pass :: "'d strategy \<Rightarrow> backtest_config \<Rightarrow> int \<Rightarrow> ('d backtest, unit) run" where
  "ghost_pass S cfg ghost_msc =
     bind_run (modify_run (inject_time ghost_msc)) (\<lambda>_.
     bind_run (call (on_executor api_heartbeat)) (\<lambda>_.
     bind_run (drain_events S cfg) (\<lambda>_.
     bind_run (call (on_decision (sy_ghost S))) (\<lambda>decision.
     bind_run (case decision of None \<Rightarrow> return_run () | Some dc \<Rightarrow> call (on_api (sy_execute S dc None))) (\<lambda>_.
       drain_events S cfg)))))"

text \<open>The caller has checked that the interval is positive.\<close>

function ghost_loop :: "'d strategy \<Rightarrow> backtest_config \<Rightarrow> int \<Rightarrow> int \<Rightarrow> int \<Rightarrow> ('d backtest, bool) run" where
  "ghost_loop S cfg prev cur k =
     (if 0 < heartbeat_interval_ms cfg \<and> prev + k * heartbeat_interval_ms cfg < cur then
        bind_run (ghost_pass S cfg (prev + k * heartbeat_interval_ms cfg)) (\<lambda>_.
        bind_run (gets_run end_requested) (\<lambda>stop.
          if stop then return_run True else ghost_loop S cfg prev cur (k + 1)))
      else return_run False)"
  by pat_completeness auto
termination
  by (relation "measure (\<lambda>(S, cfg, prev, cur, k). nat (cur - (prev + k * heartbeat_interval_ms cfg)))")
     (auto simp: algebra_simps)

declare ghost_loop.simps [simp del]

definition run_sim_heartbeats :: "'d strategy \<Rightarrow> backtest_config \<Rightarrow> int \<Rightarrow> int \<Rightarrow> ('d backtest, bool) run" where
  "run_sim_heartbeats S cfg prev cur =
     (let gap_ms = cur - prev in
      if gap_ms \<le> heartbeat_interval_ms cfg \<or> of_int gap_ms > inter_tick_gap_threshold_s cfg * 1000 then return_run False
      else ghost_loop S cfg prev cur 1)"

section \<open>A tick\<close>

definition collect_interval :: "backtest_config \<Rightarrow> tick_data \<Rightarrow> 'd backtest \<Rightarrow> 'd backtest" where
  "collect_interval cfg t b =
     (let delta = tick_msc t - prev_interval_msc b in
      if tick_loop_profiling cfg \<and> prev_interval_msc b > 0 \<and> tick_msc t > 0 \<and> (collected_msc t > 0 \<or> delta \<ge> 0)
      then b\<lparr>inter_tick_intervals := inter_tick_intervals b @ [of_int delta]\<rparr> else b)"

definition begin_backtest_tick :: "backtest_config \<Rightarrow> tick_data \<Rightarrow> 'd backtest \<Rightarrow> 'd backtest" where
  "begin_backtest_tick cfg t b = collect_interval cfg t (b\<lparr>bt_current_tick := Some t\<rparr>)"

definition ghost_phase :: "'d strategy \<Rightarrow> backtest_config \<Rightarrow> tick_data \<Rightarrow> ('d backtest, bool) run" where
  "ghost_phase S cfg t =
     bind_run (gets_run prev_interval_msc) (\<lambda>prev.
       if wants_heartbeat cfg \<and> heartbeat_interval_ms cfg > 0 \<and> prev > 0 \<and> tick_msc t > 0
       then run_sim_heartbeats S cfg prev (tick_msc t) else return_run False)"

definition advance_driver :: "instant \<Rightarrow> stale_driver \<Rightarrow> 'd backtest \<Rightarrow> market_data_status option \<times> 'd backtest" where
  "advance_driver t dr b =
     (let (dr1, s, entered) = sd_on_tick t dr (api_executor (bt_api b))
      in (entered, b\<lparr>bt_driver := Some dr1, bt_api := (bt_api b)\<lparr>api_executor := s\<rparr>\<rparr>))"

definition drive_stress :: "'d strategy \<Rightarrow> instant \<Rightarrow> ('d backtest, unit) run" where
  "drive_stress S t =
     bind_run (gets_run bt_driver) (\<lambda>driver. case driver of
         None \<Rightarrow> return_run ()
       | Some dr \<Rightarrow>
           bind_run (call (\<lambda>b. Inr (advance_driver t dr b))) (\<lambda>entered. case entered of
               None \<Rightarrow> return_run ()
             | Some st \<Rightarrow> call (on_api (sy_on_stale S st))))"

definition observe_feed :: "tick_data \<Rightarrow> 'd backtest \<Rightarrow> 'd backtest" where
  "observe_feed t b =
     b\<lparr>bt_tracker := tracker_on_tick 0 (tick_timestamp t) (is_stale (market_status (api_executor (bt_api b))))
        (case bt_driver b of None \<Rightarrow> [] | Some dr \<Rightarrow> get_active_label dr) (bt_tracker b)\<rparr>"

definition wrap_error :: "'a res \<Rightarrow> 'a res" where
  "wrap_error r = (case r of Inl _ \<Rightarrow> Inl RuntimeError | Inr x \<Rightarrow> Inr x)"

definition decide :: "'d strategy \<Rightarrow> tick_data \<Rightarrow> ('d backtest, unit) run" where
  "decide S t =
     bind_run (call (on_decision (sy_algo S t))) (\<lambda>decision.
       call (\<lambda>b. wrap_error (on_api (sy_execute S decision (Some t)) b)))"

definition algo_pass :: "'d strategy \<Rightarrow> backtest_config \<Rightarrow> tick_data \<Rightarrow> ('d backtest, bool) run" where
  "algo_pass S cfg t =
     bind_run (drive_stress S (tick_timestamp t)) (\<lambda>_.
     bind_run (modify_run (observe_feed t)) (\<lambda>_.
     bind_run (decide S t) (\<lambda>_.
     bind_run (drain_events S cfg) (\<lambda>_.
       gets_run (\<lambda>b. has_dispatcher cfg \<and> end_requested b)))))"

text \<open>The result says that the loop is left. Without a dispatcher the request is not looked at.\<close>

definition backtest_tick :: "'d strategy \<Rightarrow> backtest_config \<Rightarrow> tick_data \<Rightarrow> ('d backtest, bool) run" where
  "backtest_tick S cfg t =
     bind_run (modify_run (begin_backtest_tick cfg t)) (\<lambda>_.
     bind_run (ghost_phase S cfg t) (\<lambda>stop.
       if stop then return_run True
       else
         bind_run (modify_run (\<lambda>b. b\<lparr>prev_interval_msc := tick_msc t\<rparr>)) (\<lambda>_.
         bind_run (call (on_executor (api_on_tick t))) (\<lambda>_.
         bind_run (call (on_workers (sy_bars S t))) (\<lambda>_.
           if is_clipped t then return_run False else algo_pass S cfg t)))))"

primrec backtest_ticks :: "'d strategy \<Rightarrow> backtest_config \<Rightarrow> tick_data list \<Rightarrow> ('d backtest, unit) run" where
  "backtest_ticks S cfg [] = return_run ()"
| "backtest_ticks S cfg (t # ts) =
     bind_run (backtest_tick S cfg t) (\<lambda>stop. if stop then return_run () else backtest_ticks S cfg ts)"

section \<open>The run\<close>

definition start_backtest ::
  "string \<Rightarrow> stale_config option \<Rightarrow> tick_data list \<Rightarrow> trading_api \<Rightarrow> 'd \<Rightarrow> 'd backtest" where
  "start_backtest broker_type stale ts a d =
     \<lparr>bt_api = a, bt_strategy = d,
      bt_driver = (case stale of
                     None \<Rightarrow> None
                   | Some sc \<Rightarrow> if sc_enabled sc \<and> ts \<noteq> [] \<and> get_events_for_source sc broker_type \<noteq> []
                               then Some (new_stale_driver (get_events_for_source sc broker_type)) else None),
      bt_tracker = new_tracker broker_type False, bt_current_tick = None, prev_interval_msc = 0, inter_tick_intervals = []\<rparr>"

definition finish_stress :: "'d backtest \<Rightarrow> 'd backtest" where
  "finish_stress b =
     (case bt_driver b of
        None \<Rightarrow> b
      | Some dr \<Rightarrow> let (dr1, s) = sd_finish dr (api_executor (bt_api b))
                   in b\<lparr>bt_driver := Some dr1, bt_api := (bt_api b)\<lparr>api_executor := s\<rparr>\<rparr>)"

definition end_of_run_event :: "simulator \<Rightarrow> instant \<Rightarrow> decision_event" where
  "end_of_run_event ex now =
     (if session_end_requested ex then SessionEndEvent (session_end_reason ex) (session_end_sev ex) (Some now)
      else SessionEndEvent ''tick source exhausted'' SEV_NORMAL (Some now))"

definition announce_end :: "'d strategy \<Rightarrow> backtest_config \<Rightarrow> ('d backtest, unit) run" where
  "announce_end S cfg =
     (if has_dispatcher cfg
      then call (\<lambda>b. bind_res (get_current_time (api_executor (bt_api b))) (\<lambda>now.
             on_api (sy_session_end S (end_of_run_event (api_executor (bt_api b)) now)) b))
      else return_run ())"

definition last_msc :: "'d backtest \<Rightarrow> int" where
  "last_msc b = (case bt_current_tick b of None \<Rightarrow> 0 | Some t \<Rightarrow> tick_msc t)"

text \<open>The body of the \<open>try\<close> block. \<open>check_clean_shutdown\<close> only reports.\<close>

definition tick_loop :: "'d strategy \<Rightarrow> backtest_config \<Rightarrow> tick_data list \<Rightarrow> ('d backtest, unit) run" where
  "tick_loop S cfg ts =
     bind_run (backtest_ticks S cfg ts) (\<lambda>_.
     bind_run (modify_run finish_stress) (\<lambda>_.
     bind_run (announce_end S cfg) (\<lambda>_.
       call (\<lambda>b. on_executor (api_close_all (last_msc b)) b))))"

section \<open>The result\<close>

record block_boundary_report =
  force_closed_trades :: int
  force_closed_pnl :: money
  natural_closed_trades :: int
  natural_closed_pnl :: money
  discarded_pending_orders :: int

text \<open>The simulator always has pending statistics.\<close>

definition build_block_boundary_report :: "trade_record list \<Rightarrow> pending_stats \<Rightarrow> block_boundary_report" where
  "build_block_boundary_report history st =
     fold (\<lambda>t r. if tr_close_reason t = SCENARIO_END
                 then r\<lparr>force_closed_trades := force_closed_trades r + 1, force_closed_pnl := force_closed_pnl r + tr_net_pnl t\<rparr>
                 else r\<lparr>natural_closed_trades := natural_closed_trades r + 1,
                        natural_closed_pnl := natural_closed_pnl r + tr_net_pnl t\<rparr>)
       history
       \<lparr>force_closed_trades = 0, force_closed_pnl = 0, natural_closed_trades = 0, natural_closed_pnl = 0,
        discarded_pending_orders = total_force_closed st\<rparr>"

text \<open>\<open>ProcessTickLoopResult\<close> without the statistics of workers and decision logic and the profiling times.\<close>

record tick_loop_result =
  disturbance_episodes :: "disturbance_episode list"
  market_data_tick_stats :: "string \<times> int \<times> int"
  result_portfolio :: portfolio_stats
  result_execution :: execution_stats
  result_costs :: cost_breakdown
  result_trades :: "trade_record list"
  result_orders :: "order_result list"
  result_pending :: pending_stats
  block_boundary :: "block_boundary_report option"
  inter_tick_intervals_ms :: "rat list"
  gap_threshold_s :: rat
  ticks_total :: int
  tick_loop_error :: "py_error option"

definition report_result ::
  "backtest_config \<Rightarrow> tick_data list \<Rightarrow> py_error option \<Rightarrow> disturbance_episode list \<Rightarrow> portfolio_stats \<Rightarrow> 'd backtest
     \<Rightarrow> tick_loop_result" where
  "report_result cfg ts err episodes st b =
     (let ex = api_executor (bt_api b); pf = ex_portfolio ex in
      \<lparr>disturbance_episodes = episodes,
       market_data_tick_stats = (tr_source (bt_tracker b), fresh_ticks (bt_tracker b), stale_ticks (bt_tracker b)),
       result_portfolio = st\<lparr>ps_symbol := bc_symbol cfg,
         ps_last_price := (case bt_current_tick b of None \<Rightarrow> ps_last_price st | Some t \<Rightarrow> (bid t + ask t) / 2)\<rparr>,
       result_execution = get_execution_stats ex, result_costs = cost_tracking pf, result_trades = trade_history pf,
       result_orders = order_history ex, result_pending = fst (get_pending_stats ex),
       block_boundary = (if is_profile_run cfg
                         then Some (build_block_boundary_report (trade_history pf) (fst (get_pending_stats ex))) else None),
       inter_tick_intervals_ms = inter_tick_intervals b, gap_threshold_s = inter_tick_gap_threshold_s cfg,
       ticks_total = int (length ts), tick_loop_error = err\<rparr>)"

definition collect_episodes :: "'d strategy \<Rightarrow> 'd backtest \<Rightarrow> (disturbance_episode list \<times> 'd backtest) res" where
  "collect_episodes S b =
     (let run_end = map_option tick_timestamp (bt_current_tick b) in
      bind_res (sy_signal_episodes S run_end (bt_strategy b)) (\<lambda>signal.
        Inr (get_episodes 0 run_end (bt_tracker b) @ signal, b)))"

definition collect_result ::
  "'d strategy \<Rightarrow> backtest_config \<Rightarrow> tick_data list \<Rightarrow> py_error option \<Rightarrow> ('d backtest, tick_loop_result) run" where
  "collect_result S cfg ts err =
     bind_run (call (on_workers (sy_cleanup S))) (\<lambda>_.
     bind_run (call (collect_episodes S)) (\<lambda>episodes.
     bind_run (call (on_executor api_get_portfolio_statistics)) (\<lambda>st.
       gets_run (report_result cfg ts err episodes st))))"

text \<open>An exception of the loop becomes a field of the result; one while the result is collected is raised again.\<close>

definition execute_tick_loop ::
  "'d strategy \<Rightarrow> backtest_config \<Rightarrow> string \<Rightarrow> stale_config option \<Rightarrow> tick_data list \<Rightarrow> trading_api \<Rightarrow> 'd
     \<Rightarrow> tick_loop_result res \<times> 'd backtest" where
  "execute_tick_loop S cfg broker_type stale ts a d =
     (case tick_loop S cfg ts (start_backtest broker_type stale ts a d) of
        (Inl e, b) \<Rightarrow> collect_result S cfg ts (Some e) b
      | (Inr _, b) \<Rightarrow> collect_result S cfg ts None b)"

end
