(* ===== verification/Backtest_Laws.thy ===== *)
theory Backtest_Laws
  imports Backtest
begin

text \<open>
  Laws of the backtest loop: every part of a run, raised or not, is a run of the trading interface; the instants of the
  ghost passes; the account at the end; and what becomes of a request to end the session.
\<close>

section \<open>A run stays inside the trading machine\<close>

abbreviation api_run :: "trading_api \<Rightarrow> trading_api \<Rightarrow> bool" where
  "api_run \<equiv> api_step\<^sup>*\<^sup>*"

text \<open>What the loop relies on of the code it calls: a strategy touches the account through its interface only.\<close>

definition trades_through_api :: "'d strategy \<Rightarrow> bool" where
  "trades_through_api S \<longleftrightarrow>
     (\<forall>t d a dc d' a'. sy_algo S t d a = Inr (dc, d', a') \<longrightarrow> api_run a a') \<and>
     (\<forall>d a dc d' a'. sy_ghost S d a = Inr (dc, d', a') \<longrightarrow> api_run a a') \<and>
     (\<forall>dc t d a d' a'. sy_execute S dc t d a = Inr (d', a') \<longrightarrow> api_run a a') \<and>
     (\<forall>d a d' a'. sy_drain S d a = Inr (d', a') \<longrightarrow> api_run a a') \<and>
     (\<forall>ev d a d' a'. sy_session_end S ev d a = Inr (d', a') \<longrightarrow> api_run a a') \<and>
     (\<forall>st d a d' a'. sy_on_stale S st d a = Inr (d', a') \<longrightarrow> api_run a a')"

section \<open>Ghost passes fire at the configured instants\<close>

primrec ghost_fold :: "'d strategy \<Rightarrow> backtest_config \<Rightarrow> int list \<Rightarrow> ('d backtest, bool) run" where
  "ghost_fold S cfg [] = return_run False"
| "ghost_fold S cfg (m # ms) =
     bind_run (ghost_pass S cfg m) (\<lambda>_.
     bind_run (gets_run end_requested) (\<lambda>stop. if stop then return_run True else ghost_fold S cfg ms))"

text \<open>The multiples of the interval strictly between two ticks, or nothing across a gap in the data.\<close>

definition ghost_times :: "backtest_config \<Rightarrow> int \<Rightarrow> int \<Rightarrow> int list" where
  "ghost_times cfg prev cur =
     (if of_int (cur - prev) \<le> inter_tick_gap_threshold_s cfg * 1000
      then map (\<lambda>j. prev + j * heartbeat_interval_ms cfg) [1..(cur - 1 - prev) div heartbeat_interval_ms cfg] else [])"

lemma multiple_before:
  fixes i :: int
  assumes "0 < i"
  shows "prev + k * i < cur \<longleftrightarrow> k \<le> (cur - 1 - prev) div i"
proof -
  let ?n = "cur - 1 - prev"
  have "k * i \<le> ?n \<longleftrightarrow> k \<le> ?n div i"
  proof
    assume "k * i \<le> ?n"
    from zdiv_mono1 [OF this assms] show "k \<le> ?n div i" using assms by simp
  next
    assume "k \<le> ?n div i"
    then have "k * i \<le> ?n div i * i" using assms by simp
    also have "\<dots> \<le> ?n" using assms by (simp add: minus_mod_eq_div_mult [symmetric])
    finally show "k * i \<le> ?n" .
  qed
  then show ?thesis by linarith
qed

lemma ghost_loop_fold:
  assumes "0 < heartbeat_interval_ms cfg"
  shows "ghost_loop S cfg prev cur k =
    ghost_fold S cfg (map (\<lambda>j. prev + j * heartbeat_interval_ms cfg) [k..(cur - 1 - prev) div heartbeat_interval_ms cfg])"
  using assms
proof (induction S cfg prev cur k rule: ghost_loop.induct)
  case (1 S cfg prev cur k)
  let ?n = "(cur - 1 - prev) div heartbeat_interval_ms cfg"
  note m = multiple_before [OF "1.prems", of prev k cur]
  show ?case
  proof (cases "k \<le> ?n")
    case True
    then have "[k..?n] = k # [k + 1..?n]" by (rule upto_rec1)
    with True m "1.prems" show ?thesis
      by (subst ghost_loop.simps) (simp add: "1.IH" if_distrib cong: if_cong)
  next
    case False
    with m show ?thesis by (subst ghost_loop.simps) simp
  qed
qed

lemma heartbeats_exact:
  assumes "0 < heartbeat_interval_ms cfg"
  shows "run_sim_heartbeats S cfg prev cur = ghost_fold S cfg (ghost_times cfg prev cur)"
proof -
  have "[1..(cur - 1 - prev) div heartbeat_interval_ms cfg] = []" if "cur - prev \<le> heartbeat_interval_ms cfg"
    using multiple_before [OF assms, of prev 1 cur] that by simp
  then show ?thesis
    by (auto simp: run_sim_heartbeats_def ghost_times_def ghost_loop_fold [OF assms] Let_def not_le)
qed

lemma ghost_times_set:
  assumes "0 < heartbeat_interval_ms cfg"
  shows "sorted_wrt (<) (ghost_times cfg prev cur)"
    and "m \<in> set (ghost_times cfg prev cur) \<longleftrightarrow>
      prev < m \<and> m < cur \<and> heartbeat_interval_ms cfg dvd m - prev \<and>
      of_int (cur - prev) \<le> inter_tick_gap_threshold_s cfg * 1000"
proof -
  let ?i = "heartbeat_interval_ms cfg"
  have "sorted_wrt (<) [k..n]" for k n :: int
    by (induction k n rule: upto.induct) (subst upto.simps, auto)
  then show "sorted_wrt (<) (ghost_times cfg prev cur)"
    using assms by (auto simp: ghost_times_def sorted_wrt_map intro: sorted_wrt_mono_rel [of _ "(<)"])
  have "(\<exists>j. 1 \<le> j \<and> j \<le> (cur - 1 - prev) div ?i \<and> m = prev + j * ?i) \<longleftrightarrow> prev < m \<and> m < cur \<and> ?i dvd m - prev"
  proof
    assume "\<exists>j. 1 \<le> j \<and> j \<le> (cur - 1 - prev) div ?i \<and> m = prev + j * ?i"
    then obtain j where "1 \<le> j" "j \<le> (cur - 1 - prev) div ?i" "m = prev + j * ?i" by blast
    moreover from this have "0 < j * ?i" using assms by simp
    ultimately show "prev < m \<and> m < cur \<and> ?i dvd m - prev" using multiple_before [OF assms, of prev j cur] by simp
  next
    assume r: "prev < m \<and> m < cur \<and> ?i dvd m - prev"
    then obtain j where j: "m - prev = ?i * j" by (auto elim: dvdE)
    with r have "0 < ?i * j" by simp
    then have "1 \<le> j" using assms by (simp add: zero_less_mult_iff)
    with j r multiple_before [OF assms, of prev j cur] show "\<exists>j. 1 \<le> j \<and> j \<le> (cur - 1 - prev) div ?i \<and> m = prev + j * ?i"
      by (intro exI [of _ j]) (simp add: algebra_simps)
  qed
  then show "m \<in> set (ghost_times cfg prev cur) \<longleftrightarrow> prev < m \<and> m < cur \<and> ?i dvd m - prev \<and>
      of_int (cur - prev) \<le> inter_tick_gap_threshold_s cfg * 1000"
    by (auto simp: ghost_times_def)
qed

section \<open>The steps of a run\<close>

lemma run_step: "api_run a a1 \<Longrightarrow> api_step a1 a2 \<Longrightarrow> api_run a a2"
  by (rule rtranclp.rtrancl_into_rtrancl)

definition runs_from :: "trading_api \<Rightarrow> 'd backtest \<Rightarrow> bool" where
  "runs_from a b \<longleftrightarrow> api_run a (bt_api b)"

lemma runs_on_api:
  assumes "\<And>d a d' a'. f d a = Inr (d', a') \<Longrightarrow> api_run a a'"
  shows "preserves (runs_from a) (call (on_api f))"
  by (rule preserves_call) (auto simp: on_api_def runs_from_def dest: assms intro: rtranclp_trans)

lemma runs_on_decision:
  assumes "\<And>d a x d' a'. f d a = Inr (x, d', a') \<Longrightarrow> api_run a a'"
  shows "preserves (runs_from a) (call (on_decision f))"
  by (rule preserves_call) (auto simp: on_decision_def runs_from_def dest: assms intro: rtranclp_trans)

lemma runs_on_executor:
  assumes "\<And>a x a'. f a = Inr (x, a') \<Longrightarrow> api_step a a'"
  shows "preserves (runs_from a) (call (on_executor f))"
  by (rule preserves_call) (auto simp: on_executor_def runs_from_def dest: assms intro: run_step)

lemma runs_on_workers: "preserves (runs_from a) (call (on_workers f))"
  by (rule preserves_call) (auto simp: on_workers_def runs_from_def)

lemma runs_same_api: "(\<And>b. bt_api (f b) = bt_api b) \<Longrightarrow> preserves (runs_from a) (modify_run f)"
  by (rule preserves_modify) (simp add: runs_from_def)

lemma wrap_error_Inr [simp]: "wrap_error r = Inr x \<longleftrightarrow> r = Inr x"
  by (cases r) (simp_all add: wrap_error_def)

lemma runs_wrapped: "preserves (runs_from a) (call f) \<Longrightarrow> preserves (runs_from a) (call (\<lambda>b. wrap_error (f b)))"
  by (auto simp: preserves_def call_def wrap_error_def split: sum.splits)

lemma strategy_runs:
  assumes "trades_through_api S"
  shows "preserves (runs_from a) (call (on_api (sy_execute S dc t)))"
    and "preserves (runs_from a) (call (on_api (sy_drain S)))"
    and "preserves (runs_from a) (call (on_api (sy_session_end S ev)))"
    and "preserves (runs_from a) (call (on_api (sy_on_stale S st)))"
    and "preserves (runs_from a) (call (on_decision (sy_algo S tk)))"
    and "preserves (runs_from a) (call (on_decision (sy_ghost S)))"
  using assms unfolding trades_through_api_def by (auto intro!: runs_on_api runs_on_decision)

lemma runs_drain: "trades_through_api S \<Longrightarrow> preserves (runs_from a) (drain_events S cfg)"
  by (simp add: drain_events_def strategy_runs preserve_intros)

lemma runs_inject_time: "preserves (runs_from a) (modify_run (inject_time m))"
  by (rule preserves_modify) (auto simp: runs_from_def inject_time_def intro: run_step api_time)

lemma runs_ghost_pass: "trades_through_api S \<Longrightarrow> preserves (runs_from a) (ghost_pass S cfg m)"
  unfolding ghost_pass_def
  by (intro preserve_intros runs_inject_time runs_on_executor runs_drain strategy_runs) (auto intro: api_beat)

lemma runs_ghost_fold: "trades_through_api S \<Longrightarrow> preserves (runs_from a) (ghost_fold S cfg ms)"
  by (induction ms) (auto intro!: preserve_intros runs_ghost_pass)

lemma runs_ghost_phase: "trades_through_api S \<Longrightarrow> preserves (runs_from a) (ghost_phase S cfg t)"
  unfolding ghost_phase_def by (intro preserves_bind preserves_gets) (auto simp: heartbeats_exact intro: runs_ghost_fold preserves_return)

lemma driver_sets_status:
  "sd_on_tick t dr s = (dr', s', e) \<Longrightarrow> \<exists>st. s' = s\<lparr>market_status := st\<rparr>"
  "sd_finish dr s = (dr', s') \<Longrightarrow> \<exists>st. s' = s\<lparr>market_status := st\<rparr>"
proof -
  have same: "\<exists>st. s = s\<lparr>market_status := st\<rparr>" by (rule exI [of _ "market_status s"]) simp
  obtain dr1 s1 where l: "leave_window t dr s = (dr1, s1)" by fastforce
  then have "\<exists>st. s1 = s\<lparr>market_status := st\<rparr>"
    using same by (auto simp: leave_window_def end_episode_def set_market_data_status_def split: option.splits if_splits)
  then obtain st where "s1 = s\<lparr>market_status := st\<rparr>" ..
  with l show "sd_on_tick t dr s = (dr', s', e) \<Longrightarrow> \<exists>st. s' = s\<lparr>market_status := st\<rparr>"
    by (auto simp: sd_on_tick_def set_market_data_status_def Let_def split: if_splits)
  show "sd_finish dr s = (dr', s') \<Longrightarrow> \<exists>st. s' = s\<lparr>market_status := st\<rparr>"
    using same by (auto simp: sd_finish_def end_episode_def set_market_data_status_def split: option.splits)
qed

lemma status_run: "api_run a (a\<lparr>api_executor := (api_executor a)\<lparr>market_status := st\<rparr>\<rparr>)"
  using api_status [of a st] by (auto simp: set_market_data_status_def)

lemma runs_drive_stress: "trades_through_api S \<Longrightarrow> preserves (runs_from a) (drive_stress S t)"
  unfolding drive_stress_def
proof (intro preserve_intros strategy_runs preserves_call [of _ "\<lambda>b. Inr (advance_driver t _ b)"])
  fix dr and b b' :: "'a backtest" and e
  assume b: "runs_from a b" and r: "Inr (advance_driver t dr b) = (Inr (e, b') :: (_ \<times> 'a backtest) res)"
  obtain dr1 s e' where d: "sd_on_tick t dr (api_executor (bt_api b)) = (dr1, s, e')" by (metis prod_cases3)
  from driver_sets_status(1) [OF d] obtain st where "s = (api_executor (bt_api b))\<lparr>market_status := st\<rparr>" ..
  with r d have "bt_api b' = (bt_api b)\<lparr>api_executor := (api_executor (bt_api b))\<lparr>market_status := st\<rparr>\<rparr>"
    by (auto simp: advance_driver_def)
  with b status_run show "runs_from a b'" unfolding runs_from_def by (metis rtranclp_trans)
qed

lemma runs_finish_stress: "preserves (runs_from a) (modify_run finish_stress)"
proof (rule preserves_modify)
  fix b assume b: "runs_from a b"
  have "api_run (bt_api b) (bt_api (finish_stress b))"
  proof (cases "bt_driver b")
    case (Some dr)
    obtain dr1 s where d: "sd_finish dr (api_executor (bt_api b)) = (dr1, s)" by fastforce
    from driver_sets_status(2) [OF d] obtain st where s: "s = (api_executor (bt_api b))\<lparr>market_status := st\<rparr>" ..
    from Some d show ?thesis using status_run by (simp add: finish_stress_def s)
  qed (simp add: finish_stress_def)
  with b show "runs_from a (finish_stress b)" unfolding runs_from_def by (rule rtranclp_trans)
qed

lemma runs_decide: "trades_through_api S \<Longrightarrow> preserves (runs_from a) (decide S t)"
  unfolding decide_def by (intro preserve_intros runs_wrapped strategy_runs)

lemma same_api [simp]: "bt_api (observe_feed t b) = bt_api b" "bt_api (begin_backtest_tick cfg t b) = bt_api b"
  by (simp_all add: observe_feed_def begin_backtest_tick_def collect_interval_def Let_def)

lemma runs_algo_pass: "trades_through_api S \<Longrightarrow> preserves (runs_from a) (algo_pass S cfg t)"
  unfolding algo_pass_def by (intro preserve_intros runs_same_api runs_drive_stress runs_decide runs_drain) simp_all

lemma runs_backtest_tick: "trades_through_api S \<Longrightarrow> preserves (runs_from a) (backtest_tick S cfg t)"
  unfolding backtest_tick_def
  by (intro preserve_intros runs_same_api runs_ghost_phase runs_on_executor runs_on_workers runs_algo_pass)
     (auto intro: api_tick)

lemma runs_backtest_ticks: "trades_through_api S \<Longrightarrow> preserves (runs_from a) (backtest_ticks S cfg ts)"
  by (induction ts) (auto intro!: preserve_intros runs_backtest_tick)

lemma runs_announce_end:
  assumes "trades_through_api S"
  shows "preserves (runs_from a) (announce_end S cfg)"
proof -
  have "runs_from a b'" if "runs_from a b" and "on_api (sy_session_end S ev) b = Inr (u, b')" for b b' u ev
    using that strategy_runs(3) [OF assms, of a ev] by (force simp: preserves_def call_def)
  then show ?thesis unfolding announce_end_def by (intro preserve_intros preserves_call) auto
qed

lemma runs_tick_loop: "trades_through_api S \<Longrightarrow> preserves (runs_from a) (tick_loop S cfg ts)"
  unfolding tick_loop_def
  by (intro preserve_intros runs_backtest_ticks runs_finish_stress runs_announce_end preserves_call)
     (auto simp: on_executor_def runs_from_def intro: run_step dest!: api_shutdown)

lemma runs_collect_result: "preserves (runs_from a) (collect_result S cfg ts err)"
  unfolding collect_result_def
  by (intro preserve_intros runs_on_workers runs_on_executor preserves_call [of _ "collect_episodes S"])
     (auto simp: collect_episodes_def Let_def intro: api_statistics)

section \<open>The account at the end\<close>

lemma start_runs: "runs_from a (start_backtest source stale ts a d)"
  by (simp add: runs_from_def start_backtest_def)

text \<open>Also a run that raised leaves its account inside the trading machine.\<close>

lemma backtest_runs:
  assumes "execute_tick_loop S cfg source stale ts a d = (r, b)" and "trades_through_api S"
  shows "api_run a (bt_api b)"
proof -
  obtain o1 b1 where l: "tick_loop S cfg ts (start_backtest source stale ts a d) = (o1, b1)" by fastforce
  have b1: "runs_from a b1" by (rule preservesD [OF runs_tick_loop [OF assms(2)] l start_runs])
  from assms(1) l obtain err where "collect_result S cfg ts err b1 = (r, b)"
    by (auto simp: execute_tick_loop_def split: sum.splits)
  from preservesD [OF runs_collect_result this b1] show ?thesis by (simp add: runs_from_def)
qed

lemma result_of:
  assumes "execute_tick_loop S cfg source stale ts a d = (Inr r, b)"
  obtains o1 b1 err episodes st where "tick_loop S cfg ts (start_backtest source stale ts a d) = (o1, b1)"
    "err = (case o1 of Inl e \<Rightarrow> Some e | Inr _ \<Rightarrow> None)" "r = report_result cfg ts err episodes st b"
    "api_get_portfolio_statistics (bt_api b1) = Inr (st, bt_api b)"
    "bt_tracker b = bt_tracker b1" "bt_current_tick b = bt_current_tick b1"
proof -
  obtain o1 b1 where l: "tick_loop S cfg ts (start_backtest source stale ts a d) = (o1, b1)" by fastforce
  define err where "err = (case o1 of Inl e \<Rightarrow> Some e | Inr _ \<Rightarrow> None)"
  from assms l have "collect_result S cfg ts err b1 = (Inr r, b)"
    by (auto simp: execute_tick_loop_def err_def split: sum.splits)
  then obtain episodes st where "r = report_result cfg ts err episodes st b"
    "api_get_portfolio_statistics (bt_api b1) = Inr (st, bt_api b)"
    "bt_tracker b = bt_tracker b1" "bt_current_tick b = bt_current_tick b1"
    by (auto simp: collect_result_def on_workers_def collect_episodes_def on_executor_def Let_def)
  with l err_def show thesis by (rule that)
qed

lemma report_error [simp]: "tick_loop_error (report_result cfg ts err es st b) = err"
  by (simp add: report_result_def Let_def)

text \<open>A loop that did not raise has closed what was open.\<close>

lemma completed_run:
  assumes "execute_tick_loop S cfg source stale ts a d = (Inr r, b)" and "tick_loop_error r = None" and S: "trades_through_api S"
  obtains a1 a2 st name price where "api_run a a1" "api_close_all (last_msc b) a1 = Inr ((), a2)"
    "api_get_portfolio_statistics a2 = Inr (st, bt_api b)" "result_portfolio r = st\<lparr>ps_symbol := name, ps_last_price := price\<rparr>"
proof -
  let ?b0 = "start_backtest source stale ts a d"
  from assms(1) obtain o1 b1 err es st where l: "tick_loop S cfg ts ?b0 = (o1, b1)"
    and err: "err = (case o1 of Inl e \<Rightarrow> Some e | Inr _ \<Rightarrow> None)" and r: "r = report_result cfg ts err es st b"
    and st: "api_get_portfolio_statistics (bt_api b1) = Inr (st, bt_api b)" and fr: "bt_current_tick b = bt_current_tick b1"
    by (rule result_of) blast
  from r assms(2) have "err = None" by simp
  with err obtain u where "o1 = Inr u" by (cases o1) auto
  with l obtain v w b2 b3 b4 where 1: "backtest_ticks S cfg ts ?b0 = (Inr v, b2)" and 2: "finish_stress b2 = b3"
    and 3: "announce_end S cfg b3 = (Inr w, b4)" and 4: "on_executor (api_close_all (last_msc b4)) b4 = Inr (u, b1)"
    by (auto simp: tick_loop_def)
  have "runs_from a b2" by (rule preservesD [OF runs_backtest_ticks [OF S] 1 start_runs])
  then have "runs_from a b3" using 2 runs_finish_stress [of a] by (auto simp: preserves_def)
  then have "runs_from a b4" by (rule preservesD [OF runs_announce_end [OF S] 3])
  moreover from 4 have "api_close_all (last_msc b4) (bt_api b4) = Inr ((), bt_api b1)" "last_msc b = last_msc b4"
    using fr by (auto simp: on_executor_def last_msc_def)
  moreover have "\<exists>name price. result_portfolio r = st\<lparr>ps_symbol := name, ps_last_price := price\<rparr>"
    unfolding r by (auto simp: report_result_def Let_def)
  ultimately show thesis using st that [of "bt_api b4" "bt_api b1" st] by (auto simp: runs_from_def)
qed

lemma close_all_flat:
  assumes "api_close_all now a = Inr (u, a')" and "reachable api_fresh api_step a"
  shows "open_positions (ex_portfolio (api_executor a')) = []" "pending_orders (latency_sim (api_executor a')) = []"
    "pending_position_modifications (api_executor a') = []"
proof -
  from assms(1) have c: "close_all_remaining_orders now (api_executor a) = Inr (api_executor a')"
    unfolding api_close_all_def by (auto dest!: executor_call_spec(1) simp: no_result_def bind_res_def split: sum.splits)
  from close_all_result [OF c api_portfolio.component_inv [OF assms(2)]]
  show "open_positions (ex_portfolio (api_executor a')) = []" "pending_orders (latency_sim (api_executor a')) = []"
    "pending_position_modifications (api_executor a') = []" by simp_all
qed

lemma statistics_keep_flat:
  assumes "api_get_portfolio_statistics a = Inr (st, a')" and "open_positions (ex_portfolio (api_executor a)) = []"
  shows "open_positions (ex_portfolio (api_executor a')) = []" "latency_sim (api_executor a') = latency_sim (api_executor a)"
    "st = portfolio_stats_of (ex_portfolio (api_executor a'))"
  using assms
  by (auto simp: api_get_portfolio_statistics_def get_portfolio_statistics_def ensure_positions_updated_def accrue_all_swaps_def
      reprice_all_def Let_def split: if_splits option.splits)

section \<open>A request to end the session\<close>

text \<open>Without a dispatcher and without ghost passes nothing stops the loop: every tick is processed, and the tracker has
  seen every tick that was not clipped.\<close>

definition seen :: "'d backtest \<Rightarrow> int" where
  "seen b = fresh_ticks (bt_tracker b) + stale_ticks (bt_tracker b)"

definition unwatched :: "'d backtest \<Rightarrow> 'd backtest \<Rightarrow> bool" where
  "unwatched b b' \<longleftrightarrow> seen b' = seen b \<and> bt_current_tick b' = bt_current_tick b"

lemma unwatched_trans: "unwatched u v \<Longrightarrow> unwatched v w \<Longrightarrow> unwatched u w"
  by (simp add: unwatched_def)

lemma calls_unwatched:
  "on_api f b = Inr (u, b') \<Longrightarrow> unwatched b b'" "on_decision g b = Inr (x, b') \<Longrightarrow> unwatched b b'"
  "on_executor h b = Inr (y, b') \<Longrightarrow> unwatched b b'" "on_workers k b = Inr (v, b') \<Longrightarrow> unwatched b b'"
  by (auto simp: on_api_def on_decision_def on_executor_def on_workers_def unwatched_def seen_def)

lemma drive_stress_unwatched: "drive_stress S t b = (Inr u, b') \<Longrightarrow> unwatched b b'"
  by (auto simp: drive_stress_def advance_driver_def case_prod_beta Let_def unwatched_def seen_def split: option.splits
      dest!: calls_unwatched(1))

lemma decide_unwatched: "decide S t b = (Inr u, b') \<Longrightarrow> unwatched b b'"
  by (auto simp: decide_def dest!: calls_unwatched intro: unwatched_trans)

lemma tick_is_seen:
  assumes "backtest_tick S cfg t b = (Inr stop, b')" and "\<not> has_dispatcher cfg" "\<not> wants_heartbeat cfg"
  shows "\<not> stop" "seen b' = seen b + of_bool (\<not> is_clipped t)" "bt_current_tick b' = Some t"
proof -
  let ?b = "(begin_backtest_tick cfg t b)\<lparr>prev_interval_msc := tick_msc t\<rparr>"
  have base: "seen ?b = seen b" "bt_current_tick ?b = Some t"
    by (simp_all add: begin_backtest_tick_def seen_def collect_interval_def Let_def)
  have obs: "seen (observe_feed t u) = seen u + 1" "bt_current_tick (observe_feed t u) = bt_current_tick u" for u
    by (simp_all add: seen_def observe_feed_def)
  from assms obtain u v b1 b2 where 1: "on_executor (api_on_tick t) ?b = Inr (u, b1)" and 2: "on_workers (sy_bars S t) b1 = Inr (v, b2)"
    and r: "(if is_clipped t then return_run False else algo_pass S cfg t) b2 = (Inr stop, b')"
    by (auto simp: backtest_tick_def ghost_phase_def)
  have b2: "unwatched ?b b2" using calls_unwatched(3) [OF 1] calls_unwatched(4) [OF 2] by (rule unwatched_trans)
  have "\<not> stop \<and> seen b' = seen b + of_bool (\<not> is_clipped t) \<and> bt_current_tick b' = Some t"
  proof (cases "is_clipped t")
    case True
    with r b2 base show ?thesis by (simp add: unwatched_def)
  next
    case False
    with r assms(2) obtain x y b3 where 3: "drive_stress S (tick_timestamp t) b2 = (Inr x, b3)"
      and 4: "decide S t (observe_feed t b3) = (Inr y, b')" and "\<not> stop"
      by (auto simp: algo_pass_def drain_events_def)
    with drive_stress_unwatched [OF 3] decide_unwatched [OF 4] b2 base obs [of b3] False show ?thesis
      by (simp add: unwatched_def)
  qed
  then show "\<not> stop" "seen b' = seen b + of_bool (\<not> is_clipped t)" "bt_current_tick b' = Some t" by simp_all
qed

lemma every_tick_is_seen:
  assumes "\<not> has_dispatcher cfg" "\<not> wants_heartbeat cfg"
  shows "backtest_ticks S cfg ts b = (Inr u, b') \<Longrightarrow>
    seen b' = seen b + int (length (filter (\<lambda>t. \<not> is_clipped t) ts)) \<and> (ts \<noteq> [] \<longrightarrow> bt_current_tick b' = Some (last ts))"
proof (induction ts arbitrary: b)
  case (Cons t ts)
  from Cons.prems obtain stop b1 where g: "backtest_tick S cfg t b = (Inr stop, b1)"
    and "(if stop then return_run () else backtest_ticks S cfg ts) b1 = (Inr u, b')" by auto
  with tick_is_seen [OF g assms] have r: "backtest_ticks S cfg ts b1 = (Inr u, b')" by simp
  from Cons.IH [OF r] tick_is_seen(2,3) [OF g assms] r show ?case by auto
qed simp

lemma run_sees_every_tick:
  assumes "execute_tick_loop S cfg source stale ts a d = (Inr r, b)" and "tick_loop_error r = None"
    and "\<not> has_dispatcher cfg" "\<not> wants_heartbeat cfg"
  shows "seen b = int (length (filter (\<lambda>t. \<not> is_clipped t) ts))" "ts \<noteq> [] \<Longrightarrow> bt_current_tick b = Some (last ts)"
    "market_data_tick_stats r = (tr_source (bt_tracker b), fresh_ticks (bt_tracker b), stale_ticks (bt_tracker b))"
proof -
  let ?b0 = "start_backtest source stale ts a d"
  from assms(1) obtain o1 b1 err es st where l: "tick_loop S cfg ts ?b0 = (o1, b1)"
    and err: "err = (case o1 of Inl e \<Rightarrow> Some e | Inr _ \<Rightarrow> None)" and r: "r = report_result cfg ts err es st b"
    and b: "bt_tracker b = bt_tracker b1" "bt_current_tick b = bt_current_tick b1"
    by (rule result_of) blast
  from r assms(2) err obtain u where "o1 = Inr u" by (cases o1) auto
  with l assms(3) obtain v b2 where 1: "backtest_ticks S cfg ts ?b0 = (Inr v, b2)"
    and 2: "on_executor (api_close_all (last_msc (finish_stress b2))) (finish_stress b2) = Inr (u, b1)"
    by (auto simp: tick_loop_def announce_end_def)
  have "unwatched b2 (finish_stress b2)"
    by (simp add: unwatched_def seen_def finish_stress_def case_prod_beta split: option.split)
  from unwatched_trans [OF this calls_unwatched(3) [OF 2]] have "seen b = seen b2" "bt_current_tick b = bt_current_tick b2"
    using b by (simp_all add: unwatched_def seen_def)
  moreover have "seen ?b0 = 0" by (simp add: seen_def start_backtest_def new_tracker_def)
  ultimately show "seen b = int (length (filter (\<lambda>t. \<not> is_clipped t) ts))" "ts \<noteq> [] \<Longrightarrow> bt_current_tick b = Some (last ts)"
    using every_tick_is_seen [OF assms(3,4) 1] by simp_all
  show "market_data_tick_stats r = (tr_source (bt_tracker b), fresh_ticks (bt_tracker b), stale_ticks (bt_tracker b))"
    by (simp add: r report_result_def Let_def)
qed

end
