(* ===== verification/Backtest_Scenarios.thy ===== *)
theory Backtest_Scenarios
  imports Backtest_Laws Scenarios
begin

text \<open>
  Concrete inputs for the properties of the backtest loop: a strategy that sends one market order and keeps the position,
  and one that asks for the end of the session on its first tick.
\<close>

section \<open>Strategies\<close>

definition buy_signal :: decision where
  "buy_signal = \<lparr>dc_action = DL_BUY, dc_outputs = []\<rparr>"

definition bystander :: "bool strategy" where
  "bystander =
     \<lparr>sy_bars = (\<lambda>_ d. Inr d), sy_algo = (\<lambda>_ d a. Inr (buy_signal, d, a)), sy_ghost = (\<lambda>d a. Inr (None, d, a)),
      sy_execute = (\<lambda>_ _ d a. Inr (d, a)), sy_drain = (\<lambda>d a. Inr (d, a)), sy_session_end = (\<lambda>_ d a. Inr (d, a)),
      sy_on_stale = (\<lambda>_ d a. Inr (d, a)), sy_cleanup = Inr, sy_signal_episodes = (\<lambda>_ _. Inr [])\<rparr>"

definition one_order :: "bool strategy" where
  "one_order = bystander\<lparr>sy_execute := (\<lambda>_ _ sent a.
     if sent then Inr (sent, a)
     else bind_res (send_order [] ''EURUSD'' OT_MARKET BUY (1/10) None None None None [] a) (\<lambda>(_, a'). Inr (True, a')))\<rparr>"

definition quitter :: "bool strategy" where
  "quitter = bystander\<lparr>sy_execute := (\<lambda>_ _ _ a. Inr (True, api_request_session_end ''enough'' SEV_NORMAL a))\<rparr>"

definition no_events :: backtest_config where
  "no_events = \<lparr>bc_symbol = ''EURUSD'', heartbeat_interval_ms = 100, inter_tick_gap_threshold_s = 300,
     tick_loop_profiling = True, is_profile_run = False, wants_heartbeat = False, has_dispatcher = False\<rparr>"

lemma one_order_trades: "trades_through_api one_order"
  by (auto simp: trades_through_api_def one_order_def bystander_def split: if_splits dest!: api_send)

section \<open>Runs\<close>

definition q1 :: tick_data where "q1 = quote_at ''EURUSD'' 1000 (11/10) (11001/10000)"

definition q2 :: tick_data where "q2 = quote_at ''EURUSD'' 2000 (11010/10000) (11011/10000)"

lemma quotes [simp]: "tick_msc q1 = 1000" "tick_msc q2 = 2000" "\<not> is_clipped q1" "\<not> is_clipped q2"
  by (simp_all add: q1_def q2_def quote_at_def tick_msc_def)

lemma session_calls:
  "api_on_tick q1 session0 = Inr ((), session1)" "api_on_tick q2 session2 = Inr ((), session3)"
  "\<exists>r. send_order [] ''EURUSD'' OT_MARKET BUY (1/10) None None None None [] session1 = Inr (r, session2)"
  using after_pair [OF session1_ok] after_pair [OF session2_ok] after_pair [OF session3_ok]
  unfolding session1_def [symmetric] session2_def [symmetric] session3_def [symmetric] q1_def q2_def by auto

lemma session3_closes: "\<not> isl (api_close_all 2000 session3)"
  by (simp add: book_defs session_defs cong: session_congs del: bind_res_Inr_iff)

lemma flat_statistics:
  assumes "open_positions (ex_portfolio (api_executor a)) = []"
  shows "\<exists>st a'. api_get_portfolio_statistics a = Inr (st, a')"
  using assms
  by (auto simp: api_get_portfolio_statistics_def get_portfolio_statistics_def ensure_positions_updated_def accrue_all_swaps_def
      reprice_all_def Let_def split: option.splits simp del: bind_res_Inr_iff)

lemmas backtest_defs =
  execute_tick_loop_def tick_loop_def collect_result_def collect_episodes_def backtest_tick_def begin_backtest_tick_def
  ghost_phase_def algo_pass_def no_events_def bystander_def start_backtest_def collect_interval_def drive_stress_def
  observe_feed_def decide_def on_api_def on_decision_def on_executor_def on_workers_def wrap_error_def drain_events_def
  finish_stress_def announce_end_def last_msc_def bind_run_def call_def Let_def report_error

lemma one_order_run:
  "\<exists>r b. execute_tick_loop one_order no_events ''mt5'' None [q1, q2] session0 False = (Inr r, b) \<and> tick_loop_error r = None"
proof -
  from session_calls(3) obtain r where r: "send_order [] ''EURUSD'' OT_MARKET BUY (1/10) None None None None [] session1 = Inr (r, session2)" ..
  from session3_closes obtain u a where c: "api_close_all 2000 session3 = Inr (u, a)" by (cases "api_close_all 2000 session3") auto
  from flat_statistics [OF close_all_flat(1) [OF c session_reachable(2)]] obtain st a'
    where st: "api_get_portfolio_statistics a = Inr (st, a')" by blast
  show ?thesis by (simp add: backtest_defs one_order_def session_calls(1,2) r c st del: bind_res_Inr_iff bind_run_Inr call_Inr)
qed

definition leaving :: trading_api where
  "leaving = api_request_session_end ''enough'' SEV_NORMAL session1"

lemma leaving_ticks: "\<not> isl (api_on_tick q2 leaving)"
  by (simp add: leaving_def q2_def book_defs session_defs cong: session_congs del: bind_res_Inr_iff)

definition left :: trading_api where
  "left = api_request_session_end ''enough'' SEV_NORMAL (snd (after (api_on_tick q2 leaving)))"

lemma left_closes: "\<not> isl (api_close_all 2000 left)"
  by (simp add: left_def leaving_def q2_def book_defs session_defs cong: session_congs del: bind_res_Inr_iff)

lemma leaving_reachable: "reachable api_fresh api_step leaving"
  unfolding leaving_def using session_reachable(4) api_session_end by (rule reach_step)

lemma quitter_run:
  "\<exists>r b. execute_tick_loop quitter no_events ''mt5'' None [q1, q2] session0 False = (Inr r, b) \<and> tick_loop_error r = None"
proof -
  from leaving_ticks obtain v a2 where t: "api_on_tick q2 leaving = Inr (v, a2)" by (cases "api_on_tick q2 leaving") auto
  then have l: "api_request_session_end ''enough'' SEV_NORMAL a2 = left" by (simp add: left_def after_def)
  have "reachable api_fresh api_step left"
    unfolding l [symmetric] by (rule reach_step [OF reach_step [OF leaving_reachable api_tick [OF t]] api_session_end])
  moreover from left_closes obtain u a where c: "api_close_all 2000 left = Inr (u, a)" by (cases "api_close_all 2000 left") auto
  ultimately have "open_positions (ex_portfolio (api_executor a)) = []" by (auto dest: close_all_flat(1))
  from flat_statistics [OF this] obtain st a' where st: "api_get_portfolio_statistics a = Inr (st, a')" by blast
  show ?thesis
    by (simp add: backtest_defs quitter_def session_calls(1) leaving_def [symmetric] t l c st
        del: bind_res_Inr_iff bind_run_Inr call_Inr)
qed

end
