(* ===== verification/Spec2Isabelle.thy ===== *)
theory Spec2Isabelle
  imports Bar_Scenarios Field_Study_Laws Loop_Scenarios Backtest_Scenarios
begin

text \<open>
  FiniexTestingIDE is a backtesting and auto-trading environment written in Python. A decision logic sees
  ticks and calls a trading interface; the interface asks an order guard, forwards to a trade executor, and
  the executor keeps pending orders, resting orders and a portfolio. In a backtest the executor is the trade
  simulator with its latency queue; in a live session it is the live executor, which hands broker requests to a
  worker and drains the answers on each tick, beside a reconciler, a drift auditor and a dry-run mode.
  A live session is driven by a tick loop with a circuit breaker and a staleness contract. Backtests run on windows
  which the scenario splitters cut out of the recorded data, along the gaps a coverage analysis finds.
  This development models that core and proves what makes it correct.

  \<^bold>\<open>Parts and theories.\<close> Paths are under \<open>src/python/\<close>; \<open>F\<close> abbreviates \<open>framework\<close> and \<open>T\<close> abbreviates
  \<open>framework/trading_env\<close>.

  \<^item> \<open>Prelude\<close>: errors as values (\<open>'a res\<close>, \<open>bind_res\<close>, \<open>fold_res\<close>), insertion-ordered dictionaries, bounded
    deques, number formatting, reachability, and the two interface locales \<open>invariant_machine\<close> and
    \<open>embedded_machine\<close>.
  \<^item> \<open>Trading_Types\<close>: the enums and data classes of \<open>F/types\<close>. \<open>Trading_Math\<close>: Python's \<open>round\<close> and \<open>%\<close>, P\&L and
    pip arithmetic (\<open>F/utils/trading_math\<close>).
  \<^item> \<open>Fees\<close> (\<open>T/trading_fees.py\<close>), \<open>Positions\<close> (\<open>F/types/portfolio_types\<close>), \<open>Broker\<close> (adapters' validation,
    specifications, margin), \<open>Market_Calendar\<close> (\<open>F/utils/market_calendar.py\<close>), \<open>Market_Clock\<close>
    (\<open>T/market_clock.py\<close>, \<open>configuration/market_config_manager.py\<close>).
  \<^item> \<open>Portfolio\<close> (\<open>T/portfolio_manager.py\<close>) with \<open>Portfolio_Laws\<close> (the ledger, the portfolio as a state machine)
    and \<open>Portfolio_Value\<close> (spot value, partial closes, swaps, ids).
  \<^item> \<open>Pending\<close>: the pending store, its statistics and the latency queue
    (\<open>T/abstract_pending_order_manager.py\<close>, \<open>T/simulation/order_latency_simulator.py\<close>), with the interface locale
    \<open>keyed_store\<close>.
  \<^item> \<open>Executor\<close> and \<open>Executor_Laws\<close> (\<open>T/abstract_trade_executor.py\<close>); \<open>Simulator\<close> and \<open>Simulator_Laws\<close>
    (\<open>T/simulation/trade_simulator.py\<close>).
  \<^item> \<open>Order_Guard\<close> (\<open>T/order_guard.py\<close>), \<open>Decision_Events\<close> (\<open>T/decision_event_dispatcher.py\<close>), \<open>Stale_Stress\<close>
    (\<open>F/stress_test\<close>), \<open>Decision_Api\<close> (\<open>T/decision_trading_api.py\<close>), which composes guard and simulator.
  \<^item> \<open>Bars\<close> and \<open>Bars_Laws\<close> (\<open>F/bars\<close>: rendering ticks into bars, bounded history, warm-up) and \<open>Field_Study\<close>
    with \<open>Field_Study_Laws\<close> (the phase machine of
    \<open>F/decision_logic/core/live_field_study\<close>).
  \<^item> \<open>Live_Requests\<close> (\<open>T/live/live_request_processor.py\<close>: jobs, responses, the worker and its throttles) and
    \<open>Live_Executor\<close> (\<open>T/live/live_trade_executor.py\<close>), with \<open>Live_Laws\<close> (the invariant of the request pipeline)
    and \<open>Live_Outcomes\<close> (timeouts, failed polls, shutdown, the portfolio behind the executor).
  \<^item> \<open>Kraken_Live\<close> and \<open>Kraken_Laws\<close>: the live layers of \<open>T/adapters/kraken_adapter.py\<close> and the dry-run order
    simulator. \<open>Reconcile\<close> (\<open>T/live/reconciler.py\<close>), \<open>Drift_Audit\<close> (\<open>T/live/drift_auditor.py\<close>).
  \<^item> \<open>Feed_Monitor\<close> (\<open>F/process/market_data_episode_tracker.py\<close>, \<open>F/autotrader/live_clipping_monitor.py\<close>), \<open>Tick_Loop\<close>
    and \<open>Tick_Loop_Laws\<close> (\<open>F/autotrader/autotrader_tick_loop.py\<close>): the loop of a live session around the live executor.
    \<open>Run_Monad\<close> (computations that change state and raise), \<open>Backtest\<close> and \<open>Backtest_Laws\<close>
    (\<open>F/process/process_tick_loop.py\<close>): the loop of a backtest around the trading interface and the result it collects.
  \<^item> \<open>Gap_Calendar\<close> (holidays, market opening and gap classification of \<open>F/utils/market_calendar.py\<close>), \<open>Coverage\<close>
    (\<open>F/discoveries/data_coverage\<close>, \<open>scenario/generator/splitters/continuous_region_extractor.py\<close>), \<open>Splitters\<close> and
    \<open>Splitters_Laws\<close> (\<open>scenario/generator/splitters\<close>, roles and materialisation).
  \<^item> \<open>Scenarios\<close>, \<open>Bar_Scenarios\<close>, \<open>Live_Scenarios\<close>, \<open>Loop_Scenarios\<close>, \<open>Backtest_Scenarios\<close>: concrete brokers, accounts and
    short runs that instantiate the parameters in the witnesses.

  \<^bold>\<open>Correspondence.\<close> A class becomes a record of its fields and each method a function from arguments and
  record to a result and the updated record; a raised exception is \<open>Inl\<close> of a \<open>py_error\<close>. The executor's record
  is extensible: the simulator extends it as the subclass extends the abstract class. Dictionaries are
  association lists in insertion order. Instants are integer microseconds and milliseconds; prices, lots and
  money are rationals, so the theorems speak about the arithmetic of the formulas and not about binary
  rounding of floats. Callbacks (outcome listeners, event sinks) append to logs which the listener then
  consumes, since the listeners only touch state the executor does not read during the call.
  Parameters stand for what is not in the sources: the random generators (\<open>dg_draw\<close>, \<open>pr_random\<close>), with the
  documented range of \<open>randint\<close> as the hypothesis \<open>delays_in_range\<close>; the time-zone database
  (\<open>ro_utc_offset\<close>), with \<open>offset_bounded\<close> and \<open>rollover_ordered\<close>; the hooks of a decision logic (\<open>hooks\<close>); the
  hexadecimal digits of a generated id; the broker behind the network (the functions of a \<open>live_adapter\<close> and the
  HTTP call \<open>post\<close> of the Kraken layers), any of which may answer or raise as it likes; numpy's percentile
  (\<open>np_percentile\<close>); the readings of clocks, queue and tick source in a round of the tick loop (\<open>readings\<close>). The tick loop
  reaches bars, workers, decision logic, dispatcher, reconciler and state store through a \<open>pipeline\<close> of functions, with
  \<open>pipeline_calm\<close> as the hypothesis that they set neither the market-data status nor the clock; the
  backtest loop does the same through a \<open>strategy\<close>, with \<open>trades_through_api\<close> as the hypothesis that it reaches the account
  by the calls of its interface only. After an exception the
  backtest loop collects its result from the objects as they were when the failing call was entered; what that call changed
  before it raised is not modelled. The worker thread and the
  tick thread share nothing but two FIFO queues, so a run of the live session is a sequence of atomic steps of
  either side in any order. Logging is not modelled.

  \<^bold>\<open>What is proved.\<close> Invariants are proved once per machine and carried through the layers by the
  \<open>embedded_machine\<close> interpretations, so the accounting, cost, position and queue properties below hold in
  every state reachable through the trading interface, whatever calls are made and in whatever order, as long
  as no exception escapes. The portfolio refines a ledger that only books trades; the guard refines a
  specification over rejection streaks; the dispatcher refines a queue. For the live session the in-flight flag of
  every order mirrors the requests and responses still queued for it in every reachable interleaving, and every
  step changes the portfolio only by operations of the portfolio machine, so its invariants carry over; the error
  paths (rejections, timeouts, failed polls) are stated as they are coded. The reconciler's difference is exact,
  the dry-run simulator's life cycle is determined, and the drift summary agrees with the records it sums up.
  Over every sequence of ticks and idle rounds the tick loop's flag, the published status and the outage tracker agree,
  and the circuit breaker decides exactly by its two limits. A backtest stays inside the machine of the trading interface
  whatever its strategy does, and when its loop raised nothing it ends flat, with books that balance; its passes between ticks are exactly timed. Gaps and regions partition the recorded time; the
  splitters cover what the gaps leave.
  The calendar properties hold for every rollover rule within the stated hypotheses. No loop needs fuel: every recursion is
  structural or has a termination proof, except the block loop and the volatility cuts, which run for ever on bad block
  sizes; their value is then \<open>None\<close>, and they are shown to return for positive sizes. The search bound of
  \<open>next_swap_rollover\<close> (eight days) is the code's own and is shown to suffice.

  \<^bold>\<open>Not modelled.\<close> Request signing and HTTP transport, credentials and configuration files, terminal displays,
  file formats and data import, process and thread start-up, report rendering, the HTTP API, decision logics and
  indicator workers, session start-up, logging and performance counters. They are listed with reasons in the manifest.
\<close>

section \<open>Accounting\<close>

lemma reachable_portfolio:
  assumes "reachable api_fresh api_step a"
  shows "pf_inv (ex_portfolio (api_executor a))"
  using assms by (rule api_portfolio.component_inv)

text \<open>What the ledger of a reachable account says, in terms of the trades booked so far.\<close>

lemma reachable_ledger:
  assumes "reachable api_fresh api_step a" and "pf = ex_portfolio (api_executor a)"
  obtains trs where
    "trade_history pf = (if trade_history_max pf = 0 then trs else drop (length trs - trade_history_max pf) trs)"
    "realized_pnl pf = sum_list (map tr_net_pnl trs)"
    "total_profit pf - total_loss pf = sum_list (map tr_net_pnl trs)"
    "0 \<le> total_profit pf" "0 \<le> total_loss pf"
    "total_trades pf = int (length trs)"
    "winning_trades pf = int (length (filter (\<lambda>t. tr_net_pnl t > 0) trs))"
    "losing_trades pf = int (length (filter (\<lambda>t. \<not> tr_net_pnl t > 0) trs))"
    "total_long_trades pf = int (length (filter (\<lambda>t. tr_direction t = LONG) trs))"
    "total_short_trades pf = int (length (filter (\<lambda>t. tr_direction t \<noteq> LONG) trs))"
proof -
  from reachable_portfolio [OF assms(1)] obtain trs where b: "booked_all pf trs"
    by (auto simp: assms(2) pf_inv_def)
  have l: "foldl (book_trade (trade_history_max pf)) empty_ledger trs = ledger_of pf"
    using b by (simp add: booked_all_def)
  note facts = booked_history [of "trade_history_max pf" trs, unfolded l]
    booked_realized [of "trade_history_max pf" empty_ledger trs, unfolded l]
    booked_profit_loss [of "trade_history_max pf" empty_ledger trs, unfolded l]
    booked_nonneg [of empty_ledger "trade_history_max pf" trs, unfolded l]
    booked_counts [of "trade_history_max pf" empty_ledger trs, unfolded l]
  show ?thesis by (rule that) (use facts in \<open>simp_all add: ledger_of_def empty_ledger_def\<close>)
qed

text \<open>C1: on a margin account the cash balance is, in every reachable state of the trading interface,
  the initial balance plus the realised P\&L of all closes.\<close>

theorem margin_balance_is_initial_plus_realized:
  assumes "reachable api_fresh api_step a" and "\<not> spot_mode (ex_portfolio (api_executor a))"
  shows "pf_balance (ex_portfolio (api_executor a)) =
    initial_balance (ex_portfolio (api_executor a)) + realized_pnl (ex_portfolio (api_executor a))"
  using reachable_portfolio [OF assms(1)] assms(2) by (simp add: pf_inv_def)

theorem margin_balance_witness:
  "reachable api_fresh api_step session5 \<and> \<not> spot_mode (ex_portfolio (api_executor session5)) \<and>
   pf_balance (ex_portfolio (api_executor session5)) =
     initial_balance (ex_portfolio (api_executor session5)) + realized_pnl (ex_portfolio (api_executor session5))"
  using margin_balance_is_initial_plus_realized [OF session_reachable(3) session_history(2)]
    session_reachable(3) session_history(2) by blast

text \<open>C2: with an unlimited trade history the running statistics are exactly the statistics of that
  history: realised P\&L is the sum of the net results, profit minus loss equals it, and the win, loss,
  long, short and total counters count the recorded trades.\<close>

theorem statistics_agree_with_history:
  assumes "reachable api_fresh api_step a" and "pf = ex_portfolio (api_executor a)" and "trade_history_max pf = 0"
  shows "realized_pnl pf = sum_list (map tr_net_pnl (trade_history pf)) \<and>
    total_profit pf - total_loss pf = realized_pnl pf \<and> 0 \<le> total_profit pf \<and> 0 \<le> total_loss pf \<and>
    total_trades pf = int (length (trade_history pf)) \<and>
    winning_trades pf = int (length (filter (\<lambda>t. tr_net_pnl t > 0) (trade_history pf))) \<and>
    losing_trades pf = int (length (filter (\<lambda>t. \<not> tr_net_pnl t > 0) (trade_history pf))) \<and>
    total_long_trades pf = int (length (filter (\<lambda>t. tr_direction t = LONG) (trade_history pf))) \<and>
    total_short_trades pf = int (length (filter (\<lambda>t. tr_direction t \<noteq> LONG) (trade_history pf)))"
  using assms(1,2) by (rule reachable_ledger) (simp add: assms(3))

theorem statistics_witness:
  "reachable api_fresh api_step session5 \<and> trade_history_max (ex_portfolio (api_executor session5)) = 0 \<and>
   realized_pnl (ex_portfolio (api_executor session5)) =
     sum_list (map tr_net_pnl (trade_history (ex_portfolio (api_executor session5))))"
  using statistics_agree_with_history [OF session_reachable(3) refl session_history(1)]
    session_reachable(3) session_history(1) by blast

text \<open>With a history bounded by \<open>n\<close> the recorded trades are the last \<open>n\<close> of all the trades ever
  booked, while the realised P\&L and the trade counter still range over all of them.\<close>

lemma bounded_history_is_suffix:
  assumes "reachable api_fresh api_step a" and "pf = ex_portfolio (api_executor a)" and "trade_history_max pf = n" and "0 < n"
  shows "length (trade_history pf) \<le> n \<and>
    (\<exists>trs. trade_history pf = drop (length trs - n) trs \<and> realized_pnl pf = sum_list (map tr_net_pnl trs) \<and>
           total_trades pf = int (length trs))"
  using assms(1,2) by (rule reachable_ledger) (use assms(3,4) in auto)

text \<open>C3: in every reachable state the cost breakdown is complete: total fees are the sum of spread,
  commission, swap, maker and taker costs.\<close>

theorem cost_breakdown_adds_up:
  assumes "reachable api_fresh api_step a"
  shows "(let c = cost_tracking (ex_portfolio (api_executor a)) in
    total_fees c = total_spread_cost c + total_commission c + total_swap c + maker_fee c + taker_fee c)"
  using reachable_portfolio [OF assms] by (simp add: pf_inv_def costs_balanced_def Let_def)

theorem cost_breakdown_witness:
  "reachable api_fresh api_step session5 \<and>
   (let c = cost_tracking (ex_portfolio (api_executor session5)) in
    total_fees c = total_spread_cost c + total_commission c + total_swap c + maker_fee c + taker_fee c)"
  using cost_breakdown_adds_up [OF session_reachable(3)] session_reachable(3) by blast

text \<open>C4: every operation of the trading interface refines the abstract ledger: it books a sequence of
  trades, one after the other, and changes the accounting in no other way.\<close>

theorem interface_refines_ledger:
  assumes "api_step a a'"
  shows "\<exists>trs. ledger_of (ex_portfolio (api_executor a')) =
    foldl (book_trade (trade_history_max (ex_portfolio (api_executor a)))) (ledger_of (ex_portfolio (api_executor a))) trs"
  using api_step_advances [OF assms] by (auto simp: api_advances_def sim_advances_def dest: ledger_run)

theorem interface_refines_ledger_witness:
  "api_step session4 session5 \<and>
   (\<exists>trs. ledger_of (ex_portfolio (api_executor session5)) =
     foldl (book_trade (trade_history_max (ex_portfolio (api_executor session4))))
       (ledger_of (ex_portfolio (api_executor session4))) trs)"
  using interface_refines_ledger [OF session_steps(5)] session_steps(5) by blast

section \<open>Closing and splitting positions\<close>

text \<open>C5: a full close on a margin account pays the returned P\&L into the balance, removes the position
  and records exactly one trade with that net result.\<close>

theorem full_close_settles:
  assumes "close_position_portfolio cl pf = Inr (pnl, pf')" and "\<not> spot_mode pf"
  shows "pf_balance pf' = pf_balance pf + pnl \<and> realized_pnl pf' = realized_pnl pf + pnl \<and>
    map_of (open_positions pf') (cl_position_id cl) = None \<and>
    (\<exists>tr. trade_history pf' = deque_append (trade_history_max pf) (trade_history pf) tr \<and>
          tr_net_pnl tr = pnl \<and> tr_close_type tr = CT_FULL \<and> tr_exit_price tr = Some (cl_exit_price cl))"
proof -
  from close_books [OF assms(1)] obtain tr where
    tr: "ledger_of pf' = book_trade (trade_history_max pf) (ledger_of pf) tr" "tr_net_pnl tr = pnl"
      "tr_close_type tr = CT_FULL" "tr_exit_price tr = Some (cl_exit_price cl)" by blast
  have "lg_realized (ledger_of pf') = lg_realized (ledger_of pf) + pnl"
    "lg_history (ledger_of pf') = deque_append (trade_history_max pf) (lg_history (ledger_of pf)) tr"
    using tr by simp_all
  moreover from assms(1) have "pf_balance pf' = pf_balance pf + pnl \<and> map_of (open_positions pf') (cl_position_id cl) = None"
  proof (rule close_spec)
    fix pf1 p q now pf2
    assume e: "ensure_positions_updated pf = Inr pf1"
      and s: "settle_full_close cl (attach (cl_exit_fee cl) p) (charge (cl_exit_fee cl) pf1) = Inr (pnl, q, pf2)"
      and pf': "pf' = conclude_close
        (create_trade_record (account_currency pf2) (closed_position cl now q) CT_FULL (cl_close_reason cl)
          (cl_exit_trades cl) (cl_exit_submission cl))
        (closed_position cl now q) (AList.delete (cl_position_id cl) (open_positions pf2)) pnl pf2"
    note r = refreshed_frame [OF ensure_refreshed [OF e]]
    have "pf_balance pf1 = pf_balance pf" using r by (simp add: pf_balance_def)
    with settle_frame(7) [OF s] assms(2) r show ?thesis by (auto simp: pf' dict_simps)
  qed
  ultimately show ?thesis using tr by (auto simp: ledger_of_def)
qed

theorem full_close_witness:
  "\<exists>pnl pf'. close_position_portfolio (exit_at ''pos_eurusd_1'' (11010/10000) 1) margin_long = Inr (pnl, pf') \<and>
     \<not> spot_mode margin_long \<and> pf_balance pf' = pf_balance margin_long + pnl"
proof -
  have m: "\<not> spot_mode margin_long" by (simp add: book_defs cong: book_congs del: bind_res_Inr_iff)
  from full_close_settles [OF after_pair [OF margin_long_closes] m] after_pair [OF margin_long_closes] m
  show ?thesis by blast
qed

text \<open>C6: a partial close creates and loses nothing: the recorded part and the remaining position add up
  to the position before, gross P\&L, fees (plus the exit fee) and net result alike; the remaining lots
  are the difference, rounded to eight decimals.\<close>

theorem partial_close_conserves:
  assumes "partial_close_position l cl pf = Inr (pnl, pf')" and "ensure_positions_updated pf = Inr pf1"
    and "map_of (open_positions pf1) (cl_position_id cl) = Some p"
  shows "\<exists>q tr. map_of (open_positions pf') (cl_position_id cl) = Some q \<and> last (trade_history pf') = tr \<and>
    tr_gross_pnl tr + gross_pnl q = gross_pnl p \<and>
    tr_total_fees tr + get_total_fees q = get_total_fees p + opt_fee_cost (cl_exit_fee cl) \<and>
    pnl + unrealized_pnl q = gross_pnl p - get_total_fees p - opt_fee_cost (cl_exit_fee cl) \<and>
    tr_net_pnl tr = pnl \<and> tr_lots tr = l \<and>
    pos_lots q = py_round (pos_lots p - l) 8 \<and> pos_status q = PS_PARTIALLY_CLOSED"
  using assms by (rule partial_close_split) blast

theorem partial_close_witness:
  "\<exists>pnl pf' pf1 p q. partial_close_position (1/20) (exit_at ''pos_eurusd_1'' (11010/10000) 1) margin_long = Inr (pnl, pf') \<and>
     ensure_positions_updated margin_long = Inr pf1 \<and> map_of (open_positions pf1) ''pos_eurusd_1'' = Some p \<and>
     map_of (open_positions pf') ''pos_eurusd_1'' = Some q \<and> pnl + unrealized_pnl q = gross_pnl p - get_total_fees p"
proof -
  note run = after_pair [OF margin_long_partial]
  from run obtain pf1 p where u: "ensure_positions_updated margin_long = Inr pf1"
    and p: "map_of (open_positions pf1) (cl_position_id (exit_at ''pos_eurusd_1'' (11010/10000) 1)) = Some p"
    by (rule partial_close_spec)
  have "cl_exit_fee (exit_at ''pos_eurusd_1'' (11010/10000) 1) = None"
    and i: "cl_position_id (exit_at ''pos_eurusd_1'' (11010/10000) 1) = ''pos_eurusd_1''" by (simp_all add: exit_at_def)
  with partial_close_conserves [OF run u p] run u p show ?thesis by (fastforce simp: opt_fee_cost_def)
qed

text \<open>The quantity a close order executes is always positive and at most the position; a partial close
  leaves at least the minimum volume, anything that would leave less is promoted to a full close.\<close>

lemma close_quantity_bounds:
  assumes "close_decision cl l vmin = Some (is_partial, x)" and "0 < l"
  shows "0 < x \<and> x \<le> l \<and> (if is_partial then cl = Some x \<and> x < l \<and> vmin - 1 / 10 ^ 9 \<le> l - x else x = l)"
  using assms by (rule close_decision_bounds)

section \<open>Spot accounts\<close>

text \<open>C7: opening a spot position exchanges value at the entry price and loses exactly the fee: every
  balance moves by the signed lots, their price and the fee, and nothing else, so the account's value at
  any price \<open>x\<close> changes by the position's result at \<open>x\<close> minus the fee.\<close>

theorem spot_open_exchanges_value:
  assumes "spot_pair pf (oa_symbol a) sp" and "open_position a pf = Inr (p, pf')"
  shows "get_asset_balance pf' c = get_asset_balance pf c
      + (if c = base_currency sp then signed_lots (oa_direction a) (oa_lots a) else 0)
      - (if c = quote_currency sp
         then signed_lots (oa_direction a) (oa_lots a) * oa_entry_price a + opt_fee_cost (oa_entry_fee a) else 0) \<and>
    get_spot_equity pf' x = get_spot_equity pf x
      + signed_lots (oa_direction a) (oa_lots a) * (x - oa_entry_price a) - opt_fee_cost (oa_entry_fee a)"
  using spot_open_balances(1,2) [OF assms] by blast

theorem spot_open_witness:
  "\<exists>p pf'. open_position (buy ''pos_btcusd_1'' ''BTCUSD'' (1/10) 10000 (1/100) 2 (Some entry_fee)) spot_book = Inr (p, pf') \<and>
     get_asset_balance pf' ''BTC'' = get_asset_balance spot_book ''BTC'' + 1/10"
proof -
  let ?a = "buy ''pos_btcusd_1'' ''BTCUSD'' (1/10) 10000 (1/100) 2 (Some entry_fee)"
  obtain sp where sp: "spot_pair spot_book ''BTCUSD'' sp" "base_currency sp = ''BTC''" "quote_currency sp = ''USD''"
    by (rule spot_book_pair)
  from sp(1) have "spot_pair spot_book (oa_symbol ?a) sp" by (simp add: buy_def)
  from spot_open_exchanges_value [OF this after_pair [OF spot_long_opens], of "''BTC''"] sp(2,3)
  have "get_asset_balance (snd (after (open_position ?a spot_book))) ''BTC'' = get_asset_balance spot_book ''BTC'' + 1/10"
    by (simp add: signed_lots_def) (simp add: buy_def)
  with after_pair [OF spot_long_opens] show ?thesis by blast
qed

text \<open>C8: over a spot round trip the account gains exactly the reported P\&L in quote currency and ends
  with the base balance it started from, when the tick value is that of a pair quoted in the account
  currency.\<close>

theorem spot_round_trip:
  assumes "spot_pair pf (oa_symbol a) sp" and "open_position a pf = Inr (p, pf1)"
    and "close_position_portfolio cl pf1 = Inr (pnl, pf2)" and "cl_position_id cl = oa_order_id a"
    and "cl_exit_tick_value cl * 10 ^ oa_digits a = 1"
  shows "get_asset_balance pf2 (quote_currency sp) = get_asset_balance pf (quote_currency sp) + pnl \<and>
    get_asset_balance pf2 (base_currency sp) = get_asset_balance pf (base_currency sp)"
  using spot_round_trip_balances [OF assms] by blast

theorem spot_round_trip_witness:
  "\<exists>pnl pf2. close_position_portfolio (exit_at ''pos_btcusd_1'' 11000 (1/100)) spot_long = Inr (pnl, pf2) \<and>
     get_asset_balance pf2 ''USD'' = get_asset_balance spot_book ''USD'' + pnl \<and>
     get_asset_balance pf2 ''BTC'' = get_asset_balance spot_book ''BTC''"
proof -
  let ?a = "buy ''pos_btcusd_1'' ''BTCUSD'' (1/10) 10000 (1/100) 2 (Some entry_fee)"
    and ?x = "exit_at ''pos_btcusd_1'' 11000 (1/100)"
  obtain sp where sp: "spot_pair spot_book ''BTCUSD'' sp" "base_currency sp = ''BTC''" "quote_currency sp = ''USD''"
    by (rule spot_book_pair)
  from sp(1) have pair: "spot_pair spot_book (oa_symbol ?a) sp" by (simp add: buy_def)
  have side: "cl_position_id ?x = oa_order_id ?a" "cl_exit_tick_value ?x * 10 ^ oa_digits ?a = 1"
    by (simp_all add: buy_def exit_at_def)
  note opened = after_pair [OF spot_long_opens, folded spot_long_def] and closed = after_pair [OF spot_long_closes]
  from spot_round_trip [OF pair opened closed side] sp(2,3) closed show ?thesis by metis
qed

text \<open>C9: with a leverage of at most one, a fill on a spot account never overdraws the currency it pays with: quote for a
  purchase, fee included, base for a sale.\<close>

theorem unleveraged_spot_fill_funded:
  fixes s s' :: simulator
  assumes "fill_open_order po fp et ft s = Inr s'" and "po_open po = Some os"
    and "spot_pair (ex_portfolio s) (os_symbol os) sp" and "get_leverage (ex_broker s) \<le> 1"
    and "0 \<le> get_asset_balance (ex_portfolio s) (paid_currency (os_direction os) sp)"
  shows "0 \<le> get_asset_balance (ex_portfolio s') (paid_currency (os_direction os) sp)"
  using assms by (rule spot_fill_funded)

theorem spot_fill_witness:
  "\<exists>s'. fill_open_order spot_order None ET_MARKET FT_MARKET spot1 = Inr s' \<and> 0 \<le> get_asset_balance (ex_portfolio s') ''USD''"
proof -
  obtain sp where sp: "spot_pair (ex_portfolio spot1) ''BTCUSD'' sp" "quote_currency sp = ''USD''" by (rule spot1_pair)
  define os where "os = the (po_open spot_order)"
  have os: "po_open spot_order = Some os" "os_symbol os = ''BTCUSD''" "os_direction os = LONG"
    by (simp_all add: os_def spot_order_open open_spec.make_def)
  have money: "get_leverage (ex_broker spot1) \<le> 1" "0 \<le> get_asset_balance (ex_portfolio spot1) ''USD''"
    by (simp_all add: book_defs session_defs spot_defs cong: session_congs del: bind_res_Inr_iff)
  note fill = after_Inr [OF spot_order_fills]
  from unleveraged_spot_fill_funded [OF fill os(1), of sp] sp os(2,3) money fill show ?thesis
    by (auto simp: paid_currency_def)
qed

section \<open>Order execution\<close>

text \<open>A fill reports exactly one outcome under the order's id: executed, with the position open, or
  rejected, with the portfolio at most re-marked to market; the matching counter moves by one.\<close>

lemma fill_reports_one_outcome:
  fixes s s' :: simulator
  assumes "fill_open_order po fp et ft s = Inr s'"
  shows "\<exists>d r po1. outcome_log s' = outcome_log s @ [(d, r, Some po1)] \<and> or_order_id r = pending_order_id po \<and>
    (or_status r = OS_EXECUTED \<and> orders_executed s' = orders_executed s + 1 \<and> orders_rejected s' = orders_rejected s \<and>
       get_position (ex_portfolio s') (pending_order_id po) \<noteq> None
     \<or> or_status r = OS_REJECTED \<and> orders_executed s' = orders_executed s \<and> orders_rejected s' = orders_rejected s + 1 \<and>
       (pf_refreshed (ex_portfolio s) (ex_portfolio s') \<or> ex_portfolio s' = ex_portfolio s))"
  using assms by (rule fill_open_outcome) blast

lemma api_tick_result:
  assumes "reachable api_fresh api_step a" and "api_on_tick t a = Inr (u, a')"
  shows "sim_on_tick t (api_executor a) = Inr (api_executor a')" "ex_mode (api_executor a) = SIMULATION"
    "pf_inv (ex_portfolio (api_executor a))"
proof -
  from assms(2) show "sim_on_tick t (api_executor a) = Inr (api_executor a')"
    unfolding api_on_tick_def by (auto dest!: executor_call_spec(1) simp: no_result_def bind_res_def split: sum.splits)
  show "pf_inv (ex_portfolio (api_executor a))" using assms(1) by (rule reachable_portfolio)
  show "ex_mode (api_executor a) = SIMULATION" using assms(1) by (rule reachable_mode)
qed

text \<open>C10: after a tick has been processed no open position of its symbol is at or beyond its stop loss or
  its take profit.\<close>

theorem tick_leaves_no_trigger:
  assumes "reachable api_fresh api_step a" and "api_on_tick t a = Inr (u, a')"
  shows "list_all (\<lambda>p. \<not> trigger_hit t p) (get_open_positions (ex_portfolio (api_executor a')))"
proof -
  note r = api_tick_result [OF assms]
  from r(1) obtain s1 where s1: "check_sl_tp_triggers t s1 = Inr (api_executor a')" "ex_mode s1 = ex_mode (api_executor a)"
    "sim_advances (api_executor a) s1" by (rule on_tick_result)
  from s1(3) r(3) have "pf_inv (ex_portfolio s1)" by (auto simp: sim_advances_def dest: pf_run_inv)
  then have ok: "positions_ok (open_positions (ex_portfolio s1))" by (simp add: pf_inv_def)
  have "reachable api_fresh api_step a'" using assms by (blast intro: reach_step api_tick)
  then have "distinct (keys_of (open_positions (ex_portfolio (api_executor a'))))"
    using reachable_portfolio by (simp add: pf_inv_def positions_ok_def)
  with no_trigger_survives [OF s1(1) _ ok] s1(2) r(2) show ?thesis
    by (auto simp: list_all_iff get_open_positions_def map_of_eq_Some_iff)
qed

theorem tick_leaves_no_trigger_witness:
  "\<exists>u. api_on_tick (quote_at ''EURUSD'' 2000 (11010/10000) (11011/10000)) session2 = Inr (u, session3) \<and>
     reachable api_fresh api_step session2 \<and>
     list_all (\<lambda>p. \<not> trigger_hit (quote_at ''EURUSD'' 2000 (11010/10000) (11011/10000)) p)
       (get_open_positions (ex_portfolio (api_executor session3)))"
  using tick_leaves_no_trigger [OF session_reachable(5) after_pair [OF session3_ok, folded session3_def]]
    after_pair [OF session3_ok, folded session3_def] session_reachable(5) by blast

text \<open>C11: after a tick no limit order whose limit has been reached and no stop order whose trigger has
  been reached is still resting.\<close>

theorem tick_leaves_no_reached_order:
  assumes "reachable api_fresh api_step a" and "api_on_tick t a = Inr (u, a')"
  shows "list_all (\<lambda>po. \<not> is_limit_price_reached po (api_executor a')) (active_limit_orders (api_executor a')) \<and>
    list_all (\<lambda>po. \<not> is_stop_price_reached po (api_executor a')) (active_stop_orders (api_executor a'))"
proof -
  from api_tick_result(1) [OF assms] obtain s1 where
    p: "process_pending_orders (begin_tick t (api_executor a)) = Inr s1" and tick: "ex_tick s1 = Some t"
    and c: "check_sl_tp_triggers t s1 = Inr (api_executor a')"
    and l: "active_limit_orders (api_executor a') = active_limit_orders s1"
      "active_stop_orders (api_executor a') = active_stop_orders s1" by (rule on_tick_result)
  note r = process_pending_result(3,4) [OF p begin_tick_advances(2)]
  have e: "ex_tick (api_executor a') = ex_tick s1" using check_triggers_run [OF c] by simp
  from r l show ?thesis by (simp add: list_all_iff limit_reached_tick [OF e])
qed

theorem tick_leaves_no_reached_order_witness:
  "\<exists>u. api_on_tick (quote_at ''EURUSD'' 2000 (11010/10000) (11011/10000)) session2 = Inr (u, session3) \<and>
     reachable api_fresh api_step session2 \<and>
     list_all (\<lambda>po. \<not> is_limit_price_reached po (api_executor session3)) (active_limit_orders (api_executor session3))"
  using tick_leaves_no_reached_order [OF session_reachable(5) after_pair [OF session3_ok, folded session3_def]]
    after_pair [OF session3_ok, folded session3_def] session_reachable(5) by blast

text \<open>Resolving the deferred modify and cancel operations at \<open>now\<close> leaves no due operation on a
  resting order and removes exactly the orders whose cancellation is due, in order.\<close>

lemma deferred_operations_resolve:
  assumes "resolve_pending_operations s = Inr s'" and "current_msc s = Inr now"
  shows "list_all (\<lambda>po. \<not> op_due now po) (active_limit_orders s' @ active_stop_orders s') \<and>
    map pending_order_id (active_limit_orders s') =
      map pending_order_id (filter (\<lambda>po. \<not> cancel_due now po) (active_limit_orders s)) \<and>
    map pending_order_id (active_stop_orders s') =
      map pending_order_id (filter (\<lambda>po. \<not> cancel_due now po) (active_stop_orders s))"
  using assms by (rule resolve_operations_result) (simp add: list_all_iff ball_Un)

text \<open>A position id is never handed out twice, whatever symbols are asked for and whatever the
  portfolio does in between.\<close>

lemma position_ids_unique:
  assumes "pf_step\<^sup>*\<^sup>* (snd (get_next_position_id s1 pf)) pf'"
  shows "fst (get_next_position_id s2 pf') \<noteq> fst (get_next_position_id s1 pf)"
proof
  assume "fst (get_next_position_id s2 pf') = fst (get_next_position_id s1 pf)"
  then have "position_counter pf' = position_counter pf" by (rule next_id_inject)
  with counter_run [OF assms] show False by (simp add: get_next_position_id_def Let_def)
qed

section \<open>The latency queue\<close>

lemma reachable_queue: "reachable api_fresh api_step a \<Longrightarrow> latency_inv (latency_sim (api_executor a))"
  by (rule api_latency.component_inv)

text \<open>Processing the queue at \<open>now\<close> never fails and splits it exactly: the orders whose fill time has
  come are released in submission order, the others stay.\<close>

lemma queue_releases_due_orders:
  assumes "reachable api_fresh api_step a" and "q = latency_sim (api_executor a)"
  shows "process_up_to_msc now q =
    Inr (filter (\<lambda>po. the (broker_fill_msc (timing po)) \<le> now) (vals_of (pending_orders q)),
         q\<lparr>pending_orders := filter (\<lambda>kp. \<not> the (broker_fill_msc (timing (snd kp))) \<le> now) (pending_orders q)\<rparr>)"
  unfolding assms(2) by (rule process_up_to_split [OF reachable_queue [OF assms(1)]])



text \<open>The pending statistics stay consistent: every resolved order is counted under one outcome, the
  anomaly list holds the timed-out and force-closed ones, and the average latency lies between the
  minimum and the maximum.\<close>

lemma pending_statistics_consistent:
  assumes "reachable api_fresh api_step a" and "st = pending_st (latency_sim (api_executor a))"
  shows "total_resolved st = total_filled st + total_rejected st + total_timed_out st + total_force_closed st \<and>
    int (length (anomaly_orders st)) = total_timed_out st + total_force_closed st \<and>
    (if latency_count st = 0 then min_latency_ms st = None \<and> max_latency_ms st = None
     else \<exists>lo hi. min_latency_ms st = Some lo \<and> max_latency_ms st = Some hi \<and>
            lo \<le> avg_latency_ms st \<and> avg_latency_ms st \<le> hi)"
proof -
  have ok: "stats_ok st" using reachable_queue [OF assms(1)] by (simp add: assms(2) latency_inv_def)
  then show ?thesis by (auto simp: stats_ok_def dest: stats_mean_between [OF ok])
qed


section \<open>Backtests\<close>

lemma reachable_run: "api_run a a' \<Longrightarrow> reachable api_fresh api_step a \<Longrightarrow> reachable api_fresh api_step a'"
  by (induction rule: rtranclp_induct) (auto intro: reach_step)

text \<open>C13: whatever a strategy does through its trading interface, a backtest whose loop raised no exception leaves the account
  in a state the trading machine can reach, passes its own check for a clean end and has no open position, and on a margin
  account the reported final balance is the reported initial one plus the profits less the losses of the closed trades.\<close>

theorem completed_backtest_has_clean_books:
  assumes "execute_tick_loop S cfg source stale ts a d = (Inr r, b)" and "tick_loop_error r = None"
    and "trades_through_api S" and "reachable api_fresh api_step a"
  shows "reachable api_fresh api_step (bt_api b) \<and> check_clean_shutdown (api_executor (bt_api b)) \<and>
    open_positions (ex_portfolio (api_executor (bt_api b))) = [] \<and>
    (ps_spot_mode (result_portfolio r) \<or>
     ps_current_balance (result_portfolio r) =
       ps_initial_balance (result_portfolio r) + ps_total_profit (result_portfolio r) - ps_total_loss (result_portfolio r))"
proof -
  from assms(1-3) obtain a1 a2 st name price where run: "api_run a a1" and c: "api_close_all (last_msc b) a1 = Inr ((), a2)"
    and st: "api_get_portfolio_statistics a2 = Inr (st, bt_api b)" and r: "result_portfolio r = st\<lparr>ps_symbol := name, ps_last_price := price\<rparr>"
    by (rule completed_run)
  from run assms(4) have a1: "reachable api_fresh api_step a1" by (rule reachable_run)
  note flat = close_all_flat [OF c a1]
  note st' = statistics_keep_flat [OF st flat(1)]
  have b: "reachable api_fresh api_step (bt_api b)"
    by (rule reach_step [OF reach_step [OF a1 api_shutdown [OF c]] api_statistics [OF st]])
  have "check_clean_shutdown (api_executor (bt_api b))"
    using flat(2) st' by (simp add: check_clean_shutdown_def get_open_positions_def has_pipeline_orders_def lat_has_pending_orders_def)
  moreover have "realized_pnl (ex_portfolio (api_executor (bt_api b))) =
      total_profit (ex_portfolio (api_executor (bt_api b))) - total_loss (ex_portfolio (api_executor (bt_api b)))"
    by (rule reachable_ledger [OF b refl]) simp
  ultimately show ?thesis
    using b st'(1) reachable_portfolio [OF b] by (auto simp: r st'(3) pf_inv_def portfolio_stats_of_def)
qed

theorem completed_backtest_witness:
  "\<exists>r b. execute_tick_loop one_order no_events ''mt5'' None [q1, q2] session0 False = (Inr r, b) \<and>
     reachable api_fresh api_step (bt_api b) \<and> open_positions (ex_portfolio (api_executor (bt_api b))) = []"
proof -
  from one_order_run obtain r b where r: "execute_tick_loop one_order no_events ''mt5'' None [q1, q2] session0 False = (Inr r, b)"
    "tick_loop_error r = None" by blast
  from completed_backtest_has_clean_books [OF r one_order_trades session_reachable(1)] r(1) show ?thesis by blast
qed

text \<open>C14: the passes between two ticks happen at exactly the multiples of the heartbeat interval strictly between them, in
  ascending order and up to a request to end the session, and at none when the gap exceeds the threshold.\<close>

theorem ghost_passes_exact:
  assumes "0 < heartbeat_interval_ms cfg"
  shows "run_sim_heartbeats S cfg prev cur b = ghost_fold S cfg (ghost_times cfg prev cur) b \<and>
    sorted_wrt (<) (ghost_times cfg prev cur) \<and>
    set (ghost_times cfg prev cur) =
      {m. prev < m \<and> m < cur \<and> heartbeat_interval_ms cfg dvd m - prev \<and>
          of_int (cur - prev) \<le> inter_tick_gap_threshold_s cfg * 1000}"
  by (intro conjI set_eqI) (simp_all only: heartbeats_exact [OF assms] ghost_times_set [OF assms] mem_Collect_eq)

theorem ghost_passes_witness:
  "1200 \<in> set (ghost_times no_events 1000 1250) \<and>
   run_sim_heartbeats one_order no_events 1000 1250 (start_backtest ''mt5'' None [] session1 False) =
     ghost_fold one_order no_events (ghost_times no_events 1000 1250) (start_backtest ''mt5'' None [] session1 False)"
proof -
  have i: "0 < heartbeat_interval_ms no_events" by (simp add: no_events_def)
  have "(1200::int) \<in> {m. 1000 < m \<and> m < 1250 \<and> heartbeat_interval_ms no_events dvd m - 1000 \<and>
      of_int (1250 - 1000) \<le> inter_tick_gap_threshold_s no_events * 1000}" by (simp add: no_events_def)
  with ghost_passes_exact [OF i, of one_order 1000 1250 "start_backtest ''mt5'' None [] session1 False"] show ?thesis by blast
qed

text \<open>C15: a strategy that subscribes to no events and takes no passes between ticks cannot end its backtest: whatever it
  requests, a run that raises no exception goes through every tick to the last one and counts each tick that was not
  clipped, and reports these counts.\<close>

theorem session_end_ignored_without_events:
  assumes "execute_tick_loop S cfg source stale ts a d = (Inr r, b)" and "tick_loop_error r = None"
    and "\<not> has_dispatcher cfg" "\<not> wants_heartbeat cfg" "ts \<noteq> []"
  shows "fresh_ticks (bt_tracker b) + stale_ticks (bt_tracker b) = int (length (filter (\<lambda>t. \<not> is_clipped t) ts)) \<and>
    bt_current_tick b = Some (last ts) \<and>
    market_data_tick_stats r = (tr_source (bt_tracker b), fresh_ticks (bt_tracker b), stale_ticks (bt_tracker b))"
  using run_sees_every_tick [OF assms(1-4)] assms(5) by (simp add: seen_def)

theorem session_end_ignored_witness:
  "\<exists>r b. execute_tick_loop quitter no_events ''mt5'' None [q1, q2] session0 False = (Inr r, b) \<and>
     bt_current_tick b = Some q2 \<and> fresh_ticks (bt_tracker b) + stale_ticks (bt_tracker b) = 2"
proof -
  have c: "\<not> has_dispatcher no_events" "\<not> wants_heartbeat no_events" by (simp_all add: no_events_def)
  from quitter_run obtain r b where r: "execute_tick_loop quitter no_events ''mt5'' None [q1, q2] session0 False = (Inr r, b)"
    "tick_loop_error r = None" by blast
  from session_end_ignored_without_events [OF r c] r(1) show ?thesis by (simp add: numeral_2_eq_2)
qed
section \<open>Live trading\<close>

lemma live_pipeline_reachable:
  assumes "reachable live_fresh (live_step ads) s"
  shows "pipeline_inv [] s"
  using assms by (rule live_pipeline.inv_reachable)

text \<open>C16: in live trading the flags on a resting limit order mirror the traffic with the worker exactly, through every
  interleaving of calls, ticks, heartbeats and worker rounds and whatever the broker answers or fails to answer: its
  submission is under way exactly while it has no reference, one modification or cancellation exactly while an operation
  is marked in flight, one status query exactly while one is marked outstanding; no operation starts before the
  confirmation, and a cancellation asked for before it waits for it.\<close>

theorem live_flags_mirror_traffic:
  assumes "reachable live_fresh (live_step ads) s" and "po \<in> set (active_limit_orders s)"
  shows "in_transit [] (request_processor s) (pending_order_id po) LANE_SUBMIT = of_bool (po_broker_ref po = None) \<and>
    in_transit [] (request_processor s) (pending_order_id po) LANE_OPERATION =
      of_bool (in_flight_operation (execution_state po) \<noteq> OP_NONE) \<and>
    in_transit [] (request_processor s) (pending_order_id po) LANE_QUERY = of_bool (in_flight_query (execution_state po)) \<and>
    (po_broker_ref po = None \<longrightarrow> in_flight_operation (execution_state po) = OP_NONE) \<and>
    (cancel_requested (execution_state po) \<longrightarrow> po_broker_ref po = None)"
  using live_pipeline_reachable [OF assms(1)] assms(2) by (auto simp: pipeline_inv_def order_in_step_def)

theorem live_flags_witness:
  "in_transit [] (request_processor live2) (pending_order_id resting0) LANE_SUBMIT = of_bool (po_broker_ref resting0 = None)"
  using live_flags_mirror_traffic [OF live_reachable(2) live2_order] by blast

text \<open>C17: live trading keeps the same books as simulation: every state the portfolio reaches in a live session is one the
  portfolio reaches by its own operations, so every closed trade is counted once, as a win or a loss, the costs add up,
  and the statistics of the request processor stay consistent.\<close>

theorem live_refines_portfolio:
  assumes "reachable live_fresh (live_step ads) s"
  shows "reachable pf_fresh pf_step (ex_portfolio s) \<and>
    total_trades (ex_portfolio s) = winning_trades (ex_portfolio s) + losing_trades (ex_portfolio s) \<and>
    total_trades (ex_portfolio s) = total_long_trades (ex_portfolio s) + total_short_trades (ex_portfolio s) \<and>
    stats_ok (pending_st (request_processor s))"
proof -
  from live_portfolio.component_inv [OF assms] obtain trs where "booked_all (ex_portfolio s) trs" by (auto simp: pf_inv_def)
  then have l: "foldl (book_trade (trade_history_max (ex_portfolio s))) empty_ledger trs = ledger_of (ex_portfolio s)"
    by (simp add: booked_all_def)
  note counts = booked_counts [of "trade_history_max (ex_portfolio s)" empty_ledger trs, unfolded l]
  have "length trs = length (filter P trs) + length (filter (\<lambda>t. \<not> P t) trs)" for P :: "trade_record \<Rightarrow> bool"
    by (simp add: sum_length_filter_compl)
  from this [of "\<lambda>t. tr_net_pnl t > 0"] this [of "\<lambda>t. tr_direction t = LONG"] counts
  have "total_trades (ex_portfolio s) = winning_trades (ex_portfolio s) + losing_trades (ex_portfolio s)"
    "total_trades (ex_portfolio s) = total_long_trades (ex_portfolio s) + total_short_trades (ex_portfolio s)"
    by (simp_all add: ledger_of_def empty_ledger_def)
  with live_portfolio.component_reachable [OF assms] live_statistics.inv_reachable [OF assms] show ?thesis by blast
qed

theorem live_refines_witness: "reachable pf_fresh pf_step (ex_portfolio live4) \<and> stats_ok (pending_st (request_processor live4))"
  using live_refines_portfolio [OF live_reachable(3)] by blast

text \<open>C18: an order that times out before the broker has confirmed it is never given up: every heartbeat rejects it once
  more and keeps tracking it, so \<open>n\<close> heartbeats report at least \<open>n\<close> rejections of an order that may still fill.\<close>

theorem timed_out_order_rejected_forever:
  assumes "map_of (pending_orders (request_processor s)) oid = Some po" and "po_broker_ref po = None"
    and "oid \<notin> snd ` set (broker_ref_index (request_processor s))" and "http_inbox (request_processor s) = []"
    and "is_timed_out (wall_now s) po"
  shows "\<exists>s'. fold_res (\<lambda>_. live_heartbeat) (replicate n ()) s = Inr s' \<and>
    map_of (pending_orders (request_processor s')) oid = Some po \<and> orders_rejected s + int n \<le> orders_rejected s'"
  using heartbeats_unreferenced [of oid po s n] assms by (auto simp: unreferenced_def)

theorem timed_out_order_witness:
  "reachable live_fresh (live_step {wire0}) live_late \<and>
   (\<exists>s'. fold_res (\<lambda>_. live_heartbeat) (replicate 3 ()) live_late = Inr s' \<and>
      map_of (pending_orders (request_processor s')) ''pos_btcusd_1'' = Some late_order \<and>
      orders_rejected live_late + 3 \<le> orders_rejected s')"
  using timed_out_order_rejected_forever [of live_late "''pos_btcusd_1''" late_order 3] live_late_order live_reachable(4)
  by (simp add: unreferenced_def)

text \<open>C19: a status poll that does not reach the broker ends the order: the worker turns the transport error into a
  rejection, and the next drain drops the resting order and reports it rejected, with the position book unchanged, whatever
  has become of it at the broker.\<close>

theorem failed_poll_drops_order:
  assumes "reachable live_fresh (live_step ads) s"
    and "find (has_id oid) (active_limit_orders s) = Some po" and "po_broker_ref po = Some ref"
    and "build_query_payload ad ref = Inr p" and "do_request_query ad p = Inl (e, msg)"
  shows "\<exists>s'. handle_response (dispatch_job ad now (QueryJob oid ref)) s = Inr s' \<and>
    find (has_id oid) (active_limit_orders s') = None \<and> orders_rejected s' = orders_rejected s + 1 \<and>
    ex_portfolio s' = ex_portfolio s"
proof -
  from rejected_query_drops [OF live_pipeline_reachable [OF assms(1)] assms(2), of "rejected_response ref msg now"] assms(3)
  obtain s' where "handle_response (QueryResponse oid (rejected_response ref msg now)) s = Inr s'"
    "active_limit_orders s' = replace_order oid (\<lambda>_. None) (active_limit_orders s)"
    "orders_rejected s' = orders_rejected s + 1" "ex_portfolio s' = ex_portfolio s"
    by (auto simp: rejected_response_def)
  moreover have "oid \<notin> pending_order_id ` set (replace_order oid (\<lambda>_. None) pos)" for pos by (auto dest: replace_order_set)
  ultimately show ?thesis by (auto simp: failed_query [OF assms(4,5)] find_has_id_None)
qed

theorem failed_poll_witness:
  "\<exists>s'. handle_response (dispatch_job wire0 5 (QueryJob ''pos_btcusd_1'' ''OTX1'')) live4 = Inr s' \<and>
    find (has_id ''pos_btcusd_1'') (active_limit_orders s') = None"
  using failed_poll_drops_order [OF live_reachable(3) live4_order wire0_silent] by blast

text \<open>At the end of a live session nothing is left open, in transit or to be modified, and the confirmed resting orders,
  only those, are cancelled at the broker.\<close>

lemma live_shutdown_is_clean:
  assumes "reachable live_fresh (live_step ads) s" and "live_close_all_remaining_orders s = Inr s'"
  shows "open_positions (ex_portfolio s') = []" "pending_orders (request_processor s') = []"
    "live_position_modifications s' = []"
    "broker_cancels s' = broker_cancels s @ map (\<lambda>po. the (po_broker_ref po)) (filter has_ref (active_limit_orders s))"
  using live_shutdown_result [OF assms(2) live_portfolio.component_inv [OF assms(1)]] by simp_all

text \<open>C20: reconciliation finds exactly the divergences between the resting orders here and at the broker: ghosts are the
  broker's orders nobody here knows, orphans the confirmed real orders the broker does not have, stale pairs those that
  share a reference and disagree, and the cycle is clean when the number of divergences is zero.\<close>

theorem reconcile_diff_exact:
  assumes "distinct (map bo_broker_ref bos)"
    and "distinct (map po_broker_ref (filter (\<lambda>o1. is_reconcilable_ref (po_broker_ref o1)) los))"
  shows "set (ghost_orders (diff now bps bos lps los)) =
      {bo \<in> set bos. bo_broker_ref bo \<noteq> [] \<and>
         Some (bo_broker_ref bo) \<notin> po_broker_ref ` {lo \<in> set los. is_reconcilable_ref (po_broker_ref lo)}} \<and>
    set (orphan_orders (diff now bps bos lps los)) =
      {lo \<in> set los. is_reconcilable_ref (po_broker_ref lo) \<and> po_broker_ref lo \<notin> (Some \<circ> bo_broker_ref) ` set bos} \<and>
    set (stale_orders (diff now bps bos lps los)) =
      {(lo, bo). lo \<in> set los \<and> bo \<in> set bos \<and> is_reconcilable_ref (po_broker_ref lo) \<and>
         po_broker_ref lo = Some (bo_broker_ref bo) \<and> order_is_stale lo bo} \<and>
    (is_clean (diff now bps bos lps los) \<longleftrightarrow> divergences (diff now bps bos lps los) = 0)"
  using diff_orders [OF assms] clean_iff_no_divergence by auto

theorem reconcile_diff_witness:
  "set (orphan_orders (diff 0 [] [] [] [resting4])) = {resting4}"
proof -
  have "is_reconcilable_ref (po_broker_ref resting4)" by (simp add: live4_order(2) is_reconcilable_ref_def is_dryrun_ref_def)
  with reconcile_diff_exact [of "[]" "[resting4]" 0 "[]" "[]"] show ?thesis by auto
qed

text \<open>C21: reconciliation never notices that a resting limit order has another price at the broker: the orders live trading
  keeps carry no limit price where the comparison looks for it, so a pair is stale exactly when the lots disagree.\<close>

theorem reconcile_ignores_limit_price:
  assumes "reachable live_fresh (live_step ads) s" and "po \<in> set (get_active_orders s)"
  shows "order_is_stale po bo \<longleftrightarrow> (\<exists>os. po_open po = Some os \<and> \<not> within_tol (os_lots os) (bo_lots bo))"
proof -
  from live_pipeline_reachable [OF assms(1)] assms(2) have "no_limit_price po"
    by (auto simp: get_active_orders_def pipeline_inv_def order_in_step_def)
  then show ?thesis by (simp add: stale_without_price split: option.split)
qed

theorem reconcile_ignores_witness:
  "\<forall>bo. order_is_stale resting0 bo \<longleftrightarrow> (\<exists>os. po_open resting0 = Some os \<and> \<not> within_tol (os_lots os) (bo_lots bo))"
  using reconcile_ignores_limit_price [OF live_reachable(2)] live2_order by (simp add: get_active_orders_def)

text \<open>C22: a dry-run order lives exactly as long as configured: submitted with \<open>n\<close> polls to go it answers pending to its
  first \<open>n - 1\<close> polls and filled from then on, the first time with its own lots and price, whatever happens to other
  orders in between; its reference was never issued before.\<close>

theorem dry_run_lifecycle:
  assumes "(r, d') = dry_submit l x now d" and "ref = resp_broker_ref r"
    and "\<forall>op\<in>set ops. snd op \<noteq> DryCancel ref \<and> (\<forall>y. snd op \<noteq> DryModify ref (Some y))"
    and "i < length (poll_answers ref ops d')"
  shows "resp_status (poll_answers ref ops d' ! i) = (if int (Suc i) < polls_until_fill d then BS_PENDING else BS_FILLED) \<and>
    (i = nat (polls_until_fill d - 1) \<longrightarrow>
       resp_filled_lots (poll_answers ref ops d' ! i) = Some l \<and>
       resp_fill_price (poll_answers ref ops d' ! i) = Some (with_default 0 x)) \<and>
    (\<forall>n\<le>dr_counter d. ref \<noteq> dry_ref n)"
proof -
  let ?o = "\<lparr>dr_lots = l, dr_price = x, remaining_polls = polls_until_fill d\<rparr>"
  from assms(1) have d': "d' = snd (dry_submit l x now d)" and r: "r = fst (dry_submit l x now d)" by (metis fst_conv snd_conv)+
  have ref: "ref = dry_ref (Suc (dr_counter d))" by (simp add: assms(2) r dry_submit_entry)
  have m: "Suc (dr_counter d) \<le> dr_counter d'" and entry: "map_of (dr_orders d') ref = Some ?o"
    by (simp_all add: d' ref dry_submit_entry)
  have "\<forall>op\<in>set ops. snd op \<noteq> DryCancel ref" using assms(3) by blast
  from poll_answers_live [OF m ref entry this assms(4)] poll_answers_fill [OF m ref entry assms(3)] assms(4) ref
  show ?thesis by auto
qed

theorem dry_run_witness:
  "map resp_status (poll_answers ''DRYRUN-000001'' [(1, DryQuery ''DRYRUN-000001''), (2, DryQuery ''DRYRUN-000001'')]
     (snd (dry_submit 1 (Some 5) 0 (new_dry_run 2)))) = [BS_PENDING, BS_FILLED]"
proof -
  let ?s = "dry_submit 1 (Some 5) 0 (new_dry_run 2)" and ?ops = "[(1, DryQuery ''DRYRUN-000001''), (2, DryQuery ''DRYRUN-000001'')]"
  have r: "resp_broker_ref (fst ?s) = ''DRYRUN-000001''" by code_simp
  have "resp_status (poll_answers ''DRYRUN-000001'' ?ops (snd ?s) ! i) = (if i = 0 then BS_PENDING else BS_FILLED)" if "i < 2" for i
    using dry_run_lifecycle [of "fst ?s" "snd ?s" 1 "Some 5" 0 "new_dry_run 2" "''DRYRUN-000001''" ?ops i] r that
    by (simp add: new_dry_run_def)
  from this [of 0] this [of 1] show ?thesis by simp
qed

text \<open>C23: the drift summary is the summary of the drift records: for every kind of drift the events counted are the records
  beyond the threshold and the maximum is the largest drift recorded, and every audited order has one volume and one price
  record.\<close>

theorem drift_summary_agrees:
  assumes "reachable drift_fresh drift_step a"
  shows "drift_events (da_summary a) ty = int (length (filter threshold_exceeded (records_of (da_summary a) ty))) \<and>
    drift_max (da_summary a) ty = foldr max (map relative_delta_pct (records_of (da_summary a) ty)) 0 \<and>
    int (length (records_of (da_summary a) DT_VOLUME)) = total_orders_audited (da_summary a) \<and>
    int (length (records_of (da_summary a) DT_PRICE)) = total_orders_audited (da_summary a)"
  using auditor.inv_reachable [OF assms] by (auto simp: summary_ok_def)

theorem drift_summary_witness:
  "int (length (records_of (da_summary audit2) DT_VOLUME)) = total_orders_audited (da_summary audit2)"
  using drift_summary_agrees [OF audit2_reachable] by blast


section \<open>Data coverage and scenario windows\<close>

text \<open>C24: analysing recorded bars splits the recorded time exactly: the detected gaps are the stretches between
  consecutive bars more than two bar periods apart, and the extracted regions are what is left of the range when the gaps
  that count as interruptions are taken out, in order and without overlap.\<close>

theorem regions_and_gaps_partition:
  assumes "analysed gran th w ts rp" and "get_minutes gran = Inr m"
  shows "\<exists>rs. extract_regions allowed rp None None = Inr (Bounded rs) \<and> ordered_regions (hd ts) rs \<and>
      (\<forall>u. in_gaps (gaps rp) u \<longleftrightarrow> long_silence (of_int (m * 60 * 2)) ts u) \<and>
      (\<forall>u. hd ts \<le> u \<and> u < last ts \<longrightarrow> in_regions rs u \<noteq> in_gaps (interrupting_gaps allowed rp) u)"
proof -
  from assms(1) obtain rs where "extract_regions allowed rp None None = Inr (Bounded rs)" "ordered_regions (hd ts) rs"
    "\<And>u. hd ts \<le> u \<Longrightarrow> u < last ts \<Longrightarrow> in_regions rs u \<longleftrightarrow> \<not> in_gaps (interrupting_gaps allowed rp) u"
    by (rule analysed_regions [where allowed = allowed]) blast
  moreover have "in_gaps (gaps rp) u \<longleftrightarrow> long_silence (of_int (m * 60 * 2)) ts u" for u
    using assms by (intro gaps_are_silences [where gran = gran and th = th and w = w]) (auto simp: analysed_def)
  ultimately show ?thesis by blast
qed

theorem regions_and_gaps_witness:
  "\<exists>rs. extract_regions [] report0 None None = Inr (Bounded rs) \<and> in_regions rs 0 \<and> in_gaps (interrupting_gaps [] report0) hour_usec \<and>
     \<not> in_regions rs hour_usec"
proof -
  from regions_and_gaps_partition [OF report0_analysed report0_minutes, of "[]"] obtain rs where
    rs: "extract_regions [] report0 None None = Inr (Bounded rs)"
    "\<forall>u. hd recording \<le> u \<and> u < last recording \<longrightarrow> in_regions rs u \<noteq> in_gaps (interrupting_gaps [] report0) u" by blast
  have range: "hd recording \<le> 0" "0 < last recording" "hd recording \<le> hour_usec" "hour_usec < last recording"
    "0 < hour_usec" by (simp_all add: recording_def hour_usec_def)
  with rs show ?thesis by (auto simp: report0_gaps)
qed

text \<open>C25: splitting a recording into blocks ends whenever the block size is positive, and loses nothing it does not have
  to: the blocks are ordered, at most the configured size, free of interrupting gaps and begin while the market is
  open; every recorded instant outside them lies in an interrupting gap, in closed-market time or in the tail of a
  region that is shorter than the minimum block.\<close>

theorem blocks_cover_recording:
  assumes "analysed gran th w ts rp" and "0 < default_block_hours cfg"
    and "extract_regions allowed rp None None = Inr (Bounded rs)" and "rs \<noteq> []"
  shows "\<exists>ws. blocks_split cfg snap allowed rp bt symb None None None now = Some (Inr ws) \<and>
     ordered_windows (hd ts) (ws_windows ws) \<and>
     (\<forall>v \<in> set (ws_windows ws). block_fits cfg snap (last ts) (interrupting_gaps allowed rp) v) \<and>
     (\<forall>u. hd ts \<le> u \<and> u < last ts \<longrightarrow>
        in_windows (ws_windows ws) u \<or> left_out cfg snap rs (interrupting_gaps allowed rp) u)"
  using assms by (rule blocks_split_exact)

theorem blocks_cover_witness:
  "\<exists>ws. blocks_split hour_blocks False [] report0 ''kraken'' ''BTCUSD'' None None None 0 = Some (Inr ws) \<and>
     ordered_windows 0 (ws_windows ws)"
proof -
  from report0_regions obtain rs where rs: "extract_regions [] report0 None None = Inr (Bounded rs)" "rs \<noteq> []" by blast
  have "0 < default_block_hours hour_blocks" "hd recording = 0" by (simp_all add: hour_blocks_def recording_def)
  with blocks_cover_recording [OF report0_analysed _ rs, of hour_blocks False "''kraken''" "''BTCUSD''" 0]
  show ?thesis by auto
qed

text \<open>C26: with a positive least block length and a maximum that is not negative, splitting at volatility minima and the
  continuous split return, and a window set they return covers exactly the requested part of the recording without the interrupting gaps: no recorded instant is dropped and none is
  covered twice, whatever the volatility profile and whatever percentile numpy computes.\<close>

theorem profile_split_covers_request:
  assumes "analysed gran th w ts rp" and "0 < pc_min_block_hours cfg" and "0 \<le> pc_max_block_hours cfg"
    and "strategy = VOLATILITY_SPLIT \<or> strategy = CONTINUOUS"
  shows "\<exists>r. profile_split np_percentile strategy cfg allowed (Some rp) profile bt symb (Some lo) (Some hi) now = Some r \<and>
    (\<forall>ws. r = Inr ws \<longrightarrow> ordered_windows (hd ts) (ws_windows ws) \<and>
       (\<forall>u. in_windows (ws_windows ws) u \<longleftrightarrow>
          hd ts \<le> u \<and> u < last ts \<and> lo \<le> u \<and> u < hi \<and> \<not> in_gaps (interrupting_gaps allowed rp) u))"
  using assms by (rule profile_split_exact)

theorem profile_split_witness:
  "\<exists>r. profile_split (\<lambda>_ _. 1) VOLATILITY_SPLIT profile0 [] (Some report0) (Some flat_profile) ''kraken'' ''BTCUSD''
     (Some 0) (Some hour_usec) 0 = Some r"
  using profile_split_covers_request [OF report0_analysed, of profile0 VOLATILITY_SPLIT "\<lambda>_ _. 1" "[]" "Some flat_profile"
      "''kraken''" "''BTCUSD''" 0 hour_usec 0]
  by (auto simp: profile0_def)

text \<open>C27: a gap longer than a weekend can last is cut at the weekend boundaries into consecutive pieces that keep all of it,
  and a piece that is called a weekend is closed-market time throughout, so the weekend label never excuses missing trading time.\<close>

theorem long_gap_hides_no_trading:
  assumes "80 * hour_usec < stop - start"
  shows "tiles start stop (split_gap_at_market_boundaries start stop) \<and>
    (\<forall>p \<in> set (split_gap_at_market_boundaries start stop).
       classify_gap (fst p) (snd p) (total_seconds (snd p - fst p)) ths True = WEEKEND \<longrightarrow> closed_throughout p)"
proof -
  have "start < stop" using assms by (simp add: hour_usec_def)
  with long_gap_split [OF this assms] split_gap_tiles show ?thesis by blast
qed

theorem long_gap_witness:
  "tiles 0 (100 * hour_usec) (split_gap_at_market_boundaries 0 (100 * hour_usec))"
  using long_gap_hides_no_trading [of "100 * hour_usec" 0 None] by (simp add: hour_usec_def)

section \<open>The live session loop\<close>

text \<open>C28: whatever ticks, time-outs and end markers a session receives, its three views of the feed agree: the loop's own
  flag, the status the order guard reads and the open outage of the episode tracker; no tick is ever counted as stale. A
  tick always ends an outage, an idle round starts one exactly when the feed has been silent for longer than
  configured.\<close>

theorem session_feed_consistent:
  assumes "pipeline_calm P" and "\<not> is_stale (market_status ex)" "stale_since (market_status ex) = None"
    and "loop_rounds P ad cfg items (session_init ex d src (new_clipping_monitor i now)) = Inr s"
  shows "is_stale (market_status (ss_executor s)) = market_stale s \<and> (open_from (ss_tracker s) \<noteq> None) = market_stale s \<and>
    stale_since (market_status (ss_executor s)) = market_stale_since s \<and>
    stale_ticks (ss_tracker s) = 0 \<and> fresh_ticks (ss_tracker s) = ticks_processed s \<and>
    (\<forall>item stop s'. loop_round P ad cfg item s = Inr (stop, s') \<longrightarrow>
       market_stale s' = (case item of (QTick t, rd) \<Rightarrow> False
         | (QSentinel, rd) \<Rightarrow> market_stale s
         | (QEmpty, rd) \<Rightarrow> market_stale s \<or> \<not> rd_exhausted rd \<and> silent_too_long cfg rd s))"
proof -
  have inv: "loop_inv s" by (rule rounds_inv [OF assms(1,4) loop_inv_init [OF assms(2,3)]])
  then show ?thesis unfolding loop_inv_def feed_agrees_def
    by (intro conjI allI impI) (blast, blast, blast, blast, blast, erule round_inv(2) [OF _ assms(1) inv])
qed

theorem session_feed_witness: "market_stale day3 \<and> is_stale (market_status (ss_executor day3))"
proof -
  have start: "\<not> is_stale (market_status live0)" "stale_since (market_status live0) = None"
    by (simp_all add: live0_status fresh_status_def)
  have "loop_rounds eager wire0 guarded [(QTick tick1, reading 1000), (QTick tick2, reading 1001), (QEmpty, reading 1100)] day0 = Inr day3"
    by (rule day3_run)
  from session_feed_consistent [OF eager_calm start this [unfolded day0_def]] day3_stale show ?thesis by simp
qed

text \<open>C29: the circuit breaker is exact on every tick: the decision is replaced by FLAT if and only if the account value is
  under its positive minimum or the loss against the baseline exceeds the allowed percentage, and the passes between ticks
  obey the verdict of the last tick.\<close>

theorem breaker_overrides_decisions:
  assumes "process_loop_tick P ad cfg rd t s = Inr (stop, s')" and "sf_enabled (lc_safety cfg)"
  shows "(\<exists>s1 d pd ex r pd' ex'. broker_path ad cfg rd t (start_tick P t s) = Inr s1 \<and>
      pl_algo P t (ss_pipeline s1) (ss_executor s1) = Inr (d, pd, ex) \<and>
      safety_blocked s' =
        breached cfg (safety_value cfg t (s1\<lparr>ss_executor := ex\<rparr>)) (safety_baseline cfg (s1\<lparr>ss_executor := ex\<rparr>)) \<and>
      pl_execute P (if safety_blocked s' then d\<lparr>dc_action := DL_FLAT\<rparr> else d) (Some t) pd ex = Inr (r, pd', ex')) \<and>
    (\<forall>u u' d pd ex. run_decision_heartbeat P u = Inr u' \<and> pl_ghost P (ss_pipeline u) (ss_executor u) = (Some d, pd, ex) \<longrightarrow>
       (\<exists>r. pl_execute P (if safety_blocked u then d\<lparr>dc_action := DL_FLAT\<rparr> else d) None pd ex =
          Inr (r, ss_pipeline u', ss_executor u')) \<and> safety_blocked u' = safety_blocked u)"
    (is "?tick \<and> ?ghost")
proof
  from assms show ?tick by (rule tick_executes) blast
  show ?ghost by (intro allI impI, elim conjE) (blast dest: ghost_executes)
qed

theorem breaker_witness:
  "\<exists>s1 ex. broker_path wire0 guarded (reading 1000) tick1 (start_tick eager tick1 day0) = Inr s1 \<and>
     safety_blocked day1 = breached guarded (safety_value guarded tick1 (s1\<lparr>ss_executor := ex\<rparr>))
       (safety_baseline guarded (s1\<lparr>ss_executor := ex\<rparr>)) \<and> safety_blocked day1"
proof -
  have "sf_enabled (lc_safety guarded)" by (simp add: guarded_def)
  from breaker_overrides_decisions [OF day_steps(1) this] day1_blocked show ?thesis by blast
qed

text \<open>C30: the count of late ticks a session returns misses the last report interval: it is what the clipping monitor
  counted less the late ticks since the last periodic report, while every tick is counted.\<close>

theorem returned_clip_count_lags:
  assumes "run_loop P ad cfg items (session_init ex d src (new_clipping_monitor i now)) = Inr ((n, c), s')"
    and "pipeline_calm P" and "\<not> is_stale (market_status ex)" "stale_since (market_status ex) = None"
  shows "n = fresh_ticks (ss_tracker s') \<and> c + interval_clipped (ss_clipping s') = cm_ticks_clipped (ss_clipping s')"
  using run_loop_counts [OF assms] by simp

theorem returned_clip_witness:
  "\<exists>s'. run_loop eager wire0 guarded [(QTick tick1, reading 1000), (QTick tick2, reading 1001)] day0 = Inr ((2, 0), s') \<and>
     cm_ticks_clipped (ss_clipping s') = 1"
proof -
  obtain s' where r: "run_loop eager wire0 guarded [(QTick tick1, reading 1000), (QTick tick2, reading 1001)] day0 = Inr ((2, 0), s')"
    and i: "interval_clipped (ss_clipping s') = 1" using day2_result by blast
  from returned_clip_count_lags [OF r [unfolded day0_def] eager_calm] i r show ?thesis by (auto simp: live0_status fresh_status_def)
qed

text \<open>C31: the recorded outages are exactly the maximal stale runs of the status seen on the ticks: each starts at its first
  stale tick and ends at the first fresh one after it, the last may still be open.\<close>

theorem outages_are_stale_runs:
  "map (\<lambda>e. (ep_stale_from e, ep_stale_to e))
     (get_episodes wall run_end (fold (\<lambda>(t, stale, label). tracker_on_tick w t stale label) obs (new_tracker src wall_mode))) =
   stale_runs None (map (\<lambda>(t, stale, label). (t, stale)) obs)"
  using episodes_are_stale_runs [of wall run_end obs w src wall_mode] by (simp add: episode_spans_def watch_def)

section \<open>Open positions and their levels\<close>

text \<open>C32: in every reachable state the open positions are well formed: stored once each under their own
  id, open or partially closed, with an adverse excursion that is never positive and a favourable one
  that is never negative.\<close>

theorem open_positions_well_formed:
  assumes "reachable api_fresh api_step a" and "d = open_positions (ex_portfolio (api_executor a))"
  shows "distinct (keys_of d) \<and>
    list_all (\<lambda>(k, p). position_id p = k \<and> is_open p \<and> mae_pnl p \<le> 0 \<and> 0 \<le> mfe_pnl p) d"
  using reachable_portfolio [OF assms(1)]
  by (auto simp: assms(2) pf_inv_def positions_ok_def position_ok_def excursion_ok_def list_all_iff)

theorem open_positions_witness:
  "reachable api_fresh api_step session3 \<and> get_position (ex_portfolio (api_executor session3)) ''pos_eurusd_1'' \<noteq> None \<and>
   distinct (keys_of (open_positions (ex_portfolio (api_executor session3))))"
  using open_positions_well_formed [OF session_reachable(2) refl] session_reachable(2) session3_holds by blast

text \<open>Modifying the levels of a position either is rejected and changes nothing, or leaves levels
  that the current market does not trigger and, when both are set, the stop on the losing side of the
  target.\<close>

lemma modify_position_levels:
  assumes "pf_modify_position pid nsl ntp pf = (r, pf')"
  shows "if mr_success r
    then \<exists>p b a. map_of (open_positions pf') pid = Some p \<and> map_of (current_prices pf') (pos_symbol p) = Some (b, a) \<and>
           \<not> is_sl_triggered p b a \<and> \<not> is_tp_triggered p b a \<and>
           (\<forall>s t. stop_loss p = Some s \<and> take_profit p = Some t \<longrightarrow> (if pos_direction p = LONG then s < t else t < s))
    else pf' = pf"
proof (cases "mr_success r")
  case True
  show ?thesis by (rule modify_accepted_levels [OF assms True]) (use True in auto)
next
  case False
  with modify_spec [OF assms] show ?thesis by (auto simp: mod_success_def)
qed

section \<open>Swaps and the calendar\<close>

text \<open>C33: swap accrual does not depend on how often it is evaluated: accruing up to \<open>m\<close> and then up to
  \<open>e\<close> books the same fees as accruing up to \<open>e\<close> at once.\<close>

theorem swap_accrual_splits:
  assumes "valid_rollover roll" "offset_bounded roll" "rollover_ordered roll" and "m \<le> e"
    and "accrue_swap br roll m p c = Inr (p1, c1)"
  shows "accrue_swap br roll e p1 c1 = accrue_swap br roll e p c"
  using assms by (rule accrue_swap_split)

theorem swap_accrual_witness:
  "\<exists>p1 c1. accrue_swap forex_broker ny_rollover (3 * day_usec) swap_position (new_cost_breakdown ''USD'') = Inr (p1, c1) \<and>
     accrue_swap forex_broker ny_rollover (8 * day_usec) p1 c1 =
     accrue_swap forex_broker ny_rollover (8 * day_usec) swap_position (new_cost_breakdown ''USD'')"
proof -
  have "3 * day_usec \<le> 8 * day_usec" by (simp add: day_usec_def)
  from swap_accrual_splits [OF ny_rollover_ok(1-3) this after_pair [OF swap_position_accrues]]
    after_pair [OF swap_position_accrues] show ?thesis by blast
qed

text \<open>C34: the rollovers charged over a holding period are exactly the weekday rollover instants inside
  \<open>(start, stop]\<close>, each once and in order, with weight three on the triple-swap day.\<close>

theorem rollovers_exact:
  assumes "valid_rollover c" "offset_bounded c" "rollover_ordered c"
  shows "set (iter_swap_rollovers start stop c triple) =
      {(local_time_to_utc c d, if weekday d = triple then 3 else 1) |d.
         weekday d \<le> 4 \<and> start < local_time_to_utc c d \<and> local_time_to_utc c d \<le> stop} \<and>
    sorted_wrt (<) (map fst (iter_swap_rollovers start stop c triple))"
  using iter_swap_rollovers_set [OF assms(1,2)] iter_swap_rollovers_sorted [OF assms(3)] by blast

theorem rollovers_exact_witness:
  "valid_rollover ny_rollover \<and> offset_bounded ny_rollover \<and> rollover_ordered ny_rollover \<and>
   sorted_wrt (<) (map fst (iter_swap_rollovers 0 (7 * day_usec) ny_rollover 2))"
  using rollovers_exact [OF ny_rollover_ok(1-3)] ny_rollover_ok by blast

text \<open>Holding a position for exactly one week is charged seven days of swap, whatever the moment it
  starts and the weekday of the triple rollover, under a constant UTC offset.\<close>

lemma week_charges_seven_days:
  assumes "valid_rollover c" "offset_bounded c" and "ro_utc_offset c = (\<lambda>_. off)" and "0 \<le> triple" "triple \<le> 4"
  shows "sum_list (map snd (iter_swap_rollovers t (t + 7 * day_usec) c triple)) = 7"
  using assms by (intro weekly_swap_days) auto

text \<open>\<open>next_swap_rollover\<close> finds the earliest weekday rollover after the given instant, for a rollover
  rule that falls on the UTC date of its local date, and the search never runs out of days.\<close>

lemma next_rollover_is_earliest:
  assumes "valid_rollover c" "offset_bounded c" "rollover_ordered c" "same_day_rollover c"
  shows "\<exists>d. next_swap_rollover t c triple = Inr (local_time_to_utc c d, rollover_multiplier triple d)
    \<and> weekday d \<le> 4 \<and> t < local_time_to_utc c d
    \<and> (\<forall>e. weekday e \<le> 4 \<and> t < local_time_to_utc c e \<longrightarrow> local_time_to_utc c d \<le> local_time_to_utc c e)"
  using assms by (rule next_swap_rollover_least)


section \<open>Guarded submission\<close>

text \<open>C35: the order guard implements its specification: after any sequence of rejections and successes a
  direction is blocked exactly when its current streak of rejections has reached the limit and the
  cooldown of the last one has not elapsed.\<close>

theorem guard_blocks_iff:
  "is_direction_blocked d now (run_guard evs (new_guard secs mx stale)) \<longleftrightarrow>
    (\<exists>t ts. streak d (rev evs) = t # ts \<and> int (length (streak d (rev evs))) \<ge> mx \<and>
            now < t + round_half_even (secs * 1000000))"
  by (rule blocked_after [OF run_guard_spec])

text \<open>C36: an order the guard refuses never reaches the executor: the caller gets the rejection, portfolio,
  latency queue, resting orders and guard are untouched, and the rejection is counted.\<close>

theorem blocked_order_never_submitted:
  assumes "clock_time (api_executor a) = Some now"
    and "validate hex (request_of smb ot side l price stop sl tp cmt) now (Some (market_status (api_executor a))) (api_guard a) = Some r"
  shows "\<exists>a'. send_order hex smb ot side l price stop sl tp cmt a = Inr (r, a') \<and> is_rejected r \<and>
    or_rejection_reason r \<in> {Some STALE_MARKET_DATA, Some REJECTION_COOLDOWN} \<and>
    ex_portfolio (api_executor a') = ex_portfolio (api_executor a) \<and>
    latency_sim (api_executor a') = latency_sim (api_executor a) \<and>
    active_limit_orders (api_executor a') = active_limit_orders (api_executor a) \<and>
    active_stop_orders (api_executor a') = active_stop_orders (api_executor a) \<and>
    orders_sent (api_executor a') = orders_sent (api_executor a) \<and>
    orders_rejected (api_executor a') = orders_rejected (api_executor a) + 1 \<and> api_guard a' = api_guard a"
  using send_order_blocked [OF assms] validate_Some [OF assms(2)]
  by (simp add: record_guard_rejection_keeps is_rejected_def)

theorem blocked_order_witness:
  "\<exists>r a'. send_order ''0a'' ''BTCUSD'' OT_MARKET BUY (1/10) None None None None [] cooling_session = Inr (r, a') \<and>
     is_rejected r \<and> latency_sim (api_executor a') = latency_sim (api_executor cooling_session)"
proof -
  have v: "\<exists>r. validate ''0a'' (request_of ''BTCUSD'' OT_MARKET BUY (1/10) None None None None []) 1000000
      (Some (market_status (api_executor cooling_session))) (api_guard cooling_session) = Some r"
    by (simp add: cooling_session_def validate_def request_of_def resolve_order_side_def record_rejection_def
        new_guard_def cooldown_usec_def round_half_even_def Let_def get_default_def)
  have "clock_time (api_executor cooling_session) = Some 1000000" by (simp add: cooling_session_def spot1_clock)
  with v blocked_order_never_submitted show ?thesis by blast
qed

text \<open>The guard hears exactly the outcomes a tick produces, in order and stamped with the tick's time:
  cooldown-relevant rejections and executions move it, nothing else does.\<close>

lemma guard_follows_outcomes:
  assumes "api_on_tick t a = Inr (u, a')"
  shows "api_guard a' =
    run_guard (concat (map (outcome_event (tick_timestamp t)) (new_outcomes (api_executor a) (api_executor a')))) (api_guard a)"
proof -
  from assms have call: "executor_call (no_result (sim_on_tick t)) a = Inr (u, a')" by (simp add: api_on_tick_def)
  note c = executor_call_spec [OF call]
  from c(1) have "sim_on_tick t (api_executor a) = Inr (api_executor a')"
    by (auto simp: no_result_def bind_res_def split: sum.splits)
  then obtain s1 where s1: "process_pending_orders (begin_tick t (api_executor a)) = Inr s1"
    "check_sl_tp_triggers t s1 = Inr (api_executor a')" by (rule on_tick_result)
  have "clock_time (api_executor a') = Some (tick_timestamp t)"
    using process_pending_result(2) [OF s1(1) begin_tick_advances(2)] check_triggers_run [OF s1(2)]
    by (simp add: same_tick_def begin_tick_def set_clock_def Let_def)
  with c(2) show ?thesis by (simp add: listen_spec)
qed

section \<open>Stale market data\<close>

text \<open>The stress driver marks the market data stale on a tick exactly when the tick lies inside one of
  the windows configured for its data source, overlapping windows included.\<close>

lemma stale_exactly_in_windows:
  assumes "sorted ts" "ts \<noteq> []" "\<not> is_stale (market_status s)"
  shows "is_stale (market_status (snd (drive ts (new_stale_driver (get_events_for_source cfg src)) s))) \<longleftrightarrow>
    sc_enabled cfg \<and> list_ex (\<lambda>e. ev_data_source e = src \<and> in_window (last ts) e) (sc_events cfg)"
  using drive_stale_iff [OF assms(1,2) events_for_source_by_start assms(3)]
  by (auto simp: events_for_source_set list_ex_iff)

text \<open>C37: inside a stale window every order is refused as stale and nothing is submitted, when the guard is
  configured to block on stale data.\<close>

theorem stale_window_blocks_orders:
  assumes "sorted ts" "ts \<noteq> []" "\<not> is_stale (market_status s)"
    and "sc_enabled cfg" "e \<in> set (sc_events cfg)" "ev_data_source e = src" "in_window (last ts) e"
    and "api_executor a = snd (drive ts (new_stale_driver (get_events_for_source cfg src)) s)"
    and "block_stale_market_data (api_guard a)" and "clock_time (api_executor a) = Some now"
  shows "\<exists>r a'. send_order hex smb ot side l price stop sl tp cmt a = Inr (r, a') \<and>
    or_rejection_reason r = Some STALE_MARKET_DATA \<and> latency_sim (api_executor a') = latency_sim (api_executor a)"
proof -
  have "is_stale (market_status (api_executor a))"
    using drive_stale_iff [OF assms(1,2) events_for_source_by_start assms(3)] assms(4-8)
    by (auto simp: events_for_source_set)
  with assms(9) have v: "validate hex (request_of smb ot side l price stop sl tp cmt) now (Some (market_status (api_executor a)))
      (api_guard a) = Some (create_rejection_result (make_order_id hex) STALE_MARKET_DATA)"
    by (simp add: validate_def)
  from send_order_blocked [OF assms(10) v] show ?thesis
    by (simp add: record_guard_rejection_keeps create_rejection_result_def blank_result_def)
qed

theorem stale_window_witness:
  "\<exists>r a'. send_order ''0a'' ''BTCUSD'' OT_MARKET BUY (1/10) None None None None [] stale_session = Inr (r, a') \<and>
     or_rejection_reason r = Some STALE_MARKET_DATA"
proof -
  have "clock_time (api_executor stale_session) = clock_time spot1"
    by (simp add: stale_session_def one_window_def get_events_for_source_def new_stale_driver_def sd_on_tick_def
        leave_window_def set_market_data_status_def skip_windows.simps Let_def)
  then have "clock_time (api_executor stale_session) = Some 1000000" by (simp add: spot1_clock)
  from stale_window_blocks_orders [OF _ _ spot1_fresh_data _ _ _ _ _ _ this, of "[600]" one_window
      "hd (sc_events one_window)" "''kraken''"]
  show ?thesis by (fastforce simp: one_window_def in_window_def stale_session_def new_guard_def)
qed

section \<open>Decision events\<close>

text \<open>C38: the event dispatcher is a queue: over any interleaving of submissions and drains the events
  delivered so far followed by those still buffered are exactly the subscribed events submitted, in
  order, each once; events emitted by a hook wait for the next drain.\<close>

theorem dispatcher_is_fifo:
  assumes "run_dispatcher h ops st d = (subm, del, d')"
  shows "del @ ev_buffer d' = ev_buffer d @ filter (\<lambda>ev. event_type_of ev \<in> set (subscribed d)) subm \<and>
    subscribed d' = subscribed d"
  using assms by (rule run_dispatcher_fifo)

theorem dispatcher_witness:
  "\<exists>subm del d'. run_dispatcher counting_hooks [Submit (OrderCancelledEvent ''limit_1'' (Some LONG) 7), Drain] 0 listening = (subm, del, d') \<and>
     del @ ev_buffer d' = ev_buffer listening @ filter (\<lambda>ev. event_type_of ev \<in> set (subscribed listening)) subm"
  using dispatcher_is_fifo by (metis prod_cases3)

section \<open>Prices and fees\<close>

text \<open>Normalising an order request rounds every price to the symbol's digits, moves none by more than
  half a unit of the last digit, leaves the rest alone and is idempotent.\<close>

lemma normalisation_idempotent:
  fixes s :: simulator
  assumes "normalize_order_request rq s = Inr rq'" and "get_symbol_specification (ex_broker s) (rq_symbol rq) = Inr sp"
  shows "normalize_order_request rq' s = Inr rq' \<and> rq_lots rq' = rq_lots rq \<and> rq_direction rq' = rq_direction rq \<and>
    (\<forall>x. rq_price rq = Some x \<longrightarrow> (\<exists>y. rq_price rq' = Some y \<and> \<bar>y - x\<bar> \<le> 1 / (2 * 10 ^ spec_digits sp)))"
  using assms spec_symbol_eq [OF assms(2)]
  by (auto simp: normalize_order_request_def round_price_def Let_def py_round_error option.map_comp o_def)

text \<open>A second close order for the same position, submitted before the first has filled, replaces it
  in the latency queue: both calls answer pending, one order is left and it carries the second quantity.\<close>

lemma second_close_replaces_first:
  assumes "close_position pid l1 s = Inr (r1, s1)" and "get_position (ex_portfolio s) pid \<noteq> None"
  shows "\<exists>r2 s2 po. close_position pid l2 s1 = Inr (r2, s2) \<and> or_status r1 = OS_PENDING \<and> or_status r2 = OS_PENDING \<and>
    keys_of (pending_orders (latency_sim s2)) = keys_of (pending_orders (latency_sim s1)) \<and>
    find_order (latency_sim s2) pid = Some po \<and> po_close_lots po = l2"
proof -
  from assms obtain p t now where p: "get_position (ex_portfolio s) pid = Some p" and t: "ex_tick s = Some t"
    and now: "get_current_time s = Inr now" and s1: "s1 = s\<lparr>latency_sim := submit_close_order pid t l1 (latency_sim s)\<rparr>"
    and r1: "or_status r1 = OS_PENDING"
    by (auto simp: close_position_def blank_result_def Let_def split: option.splits)
  have key: "pid \<in> set (keys_of (pending_orders (submit_close_order pid t l1 q)))" for q
    by (simp add: submit_close_order_def store_order_def Let_def case_prod_beta update_keys del: set_map)
  have "keys_of (pending_orders (submit_close_order pid t l2 (submit_close_order pid t l1 q))) =
      keys_of (pending_orders (submit_close_order pid t l1 q))" for q
    using key [of q] by (simp add: submit_close_order_def [of pid t l2] store_order_def Let_def case_prod_beta update_keys)
  with p t now s1 r1 show ?thesis
    by (auto simp: close_position_def get_current_time_def blank_result_def Let_def find_order_def submit_close_order_def
        store_order_def case_prod_beta dict_simps)
qed

section \<open>Bars\<close>

text \<open>C39: the bars of a symbol and a timeframe are exactly the aggregates of its ticks: cut into maximal
  runs that fall into the same period, every finished run is a completed bar of the history (the last \<open>n\<close> are
  kept) and the last run is the current bar, whatever other symbols are interleaved.\<close>

theorem bars_are_tick_aggregates:
  assumes "\<forall>tf\<in>set tfs. get_minutes tf = Inr (mins tf)" and "distinct tfs" and "\<forall>t\<in>set ts. mid t \<noteq> 0"
  shows "\<exists>r. render tfs ts (new_renderer n) = Inr r \<and>
    (\<forall>tf\<in>set tfs. \<forall>s. (get_bar_history s tf r, get_current_bar s tf r) =
       bars_of s tf (mins tf) n (filter (\<lambda>t. tick_symbol t = s) ts))"
proof -
  from assms(1) have m: "\<And>tf. tf \<in> set tfs \<Longrightarrow> get_minutes tf = Inr (mins tf)" by blast
  obtain r where "render tfs ts (new_renderer n) = Inr r" "\<forall>tf s. tf \<in> set tfs \<longrightarrow>
      bars_view r tf s = bars_of s tf (mins tf) n (filter (\<lambda>t. tick_symbol t = s) ts)"
    by (rule render_bars [OF m assms(2,3), where n = n]) blast+
  then show ?thesis by (auto simp: bars_view_def)
qed

theorem bars_are_tick_aggregates_witness:
  "\<exists>r. render [''M1''] two_minutes (new_renderer 10) = Inr r \<and> get_bar_history ''EURUSD'' ''M1'' r =
     fst (bars_of ''EURUSD'' ''M1'' 1 10 (filter (\<lambda>t. tick_symbol t = ''EURUSD'') two_minutes))"
proof -
  have m: "\<forall>tf\<in>set [''M1'']. get_minutes tf = Inr 1" by (simp add: get_minutes_def get_timeframe_def timeframe_table)
  have z: "\<forall>t\<in>set two_minutes. mid t \<noteq> 0" by (simp add: two_minutes_def quote_at_def mid_def)
  from bars_are_tick_aggregates [OF m _ z, of 10] show ?thesis by (auto simp: prod_eq_iff)
qed

text \<open>The cached bar history a worker reads is always the renderer's own history, for the one symbol
  the controller serves, through any sequence of ticks, warm-up injections and reads.\<close>

lemma cached_history_is_current:
  assumes "reachable controller_fresh (bars_step smb) c"
  shows "fst (get_all_bar_history smb c) =
    map (\<lambda>tf. (tf, get_bar_history smb tf (bar_rend c))) (required_timeframes c)"
  using bars_machine.inv_reachable [OF assms] all_history_spec [of smb c "required_timeframes c"]
  by (simp add: get_all_bar_history_def controller_inv_def)

section \<open>The field study\<close>

text \<open>C40: a field study never raises, and at every moment its results are those of the phases already
  passed, one per phase and in order: with the phase's id, a decided outcome, skipped when the phase is
  disabled, an expected rejection only where one was expected, a market entry that had to be rejected never
  passed, and no more re-arm attempts than configured.\<close>

theorem study_results_follow_phases:
  assumes "reachable study_fresh study_step m"
  shows "(\<exists>a m'. advance ctx m = Inr (a, m')) \<and> fs_idx m \<le> length (fs_phases m) \<and> length (fs_results m) = fs_idx m \<and>
    list_all2 (result_for (max_rearm m)) (take (fs_idx m) (fs_phases m)) (fs_results m)"
  using study_results [OF assms] advance_inv [OF study.inv_reachable [OF assms], of ctx] by blast

theorem study_results_witness:
  "\<exists>a m'. advance (quiet_context 7) opened_study = Inr (a, m') \<and> length (fs_results opened_study) = fs_idx opened_study"
  using study_results_follow_phases [OF opened_study_reachable] by blast

text \<open>No phase waits silently past its timeout: a tick that issues no operation and does not finish the
  phase is a submission held back because orders are working, or lies within the phase's timeout (its idle
  time for an idle phase) of the last operation.\<close>

lemma phase_never_waits_past_timeout:
  assumes "reachable study_fresh study_step m" and "\<not> is_complete m"
    and "advance ctx m = Inr (a, m')" and "act_kind a = ACT_NONE" and "fs_idx m' = fs_idx m"
  shows "fs_state m' = ST_SUBMIT \<and> (active_limit_count ctx > 0 \<or> ctx_has_pending ctx) \<or>
    (\<exists>s. submit_time m' = Some s \<and> within_wait (fs_phases m ! fs_idx m) ctx s)"
  using quiet_tick [OF study.inv_reachable [OF assms(1)] assms(2-)] .


end
